(* ===== verification/Js_Number.thy ===== *)
theory Js_Number
  imports Complex_Main "HOL-Library.Log_Nat"
begin

section \<open>The number type of JavaScript\<close>

text \<open>
  Every amount, rate and health factor of the TypeScript code is a \<open>number\<close>, an IEEE 754
  binary64 value. A finite one is modelled by the rational it denotes, and each arithmetic
  operation rounds its exact result to 53 significant bits, to nearest with ties to even
  (\<open>fl\<close>). The exponent range is left unbounded: overflow to infinity (beyond 2 to the
  1024) and subnormal results are outside the model. Definitions are executable.
\<close>

subsection \<open>Rounding to 53 bits\<close>

definition two_pow :: "int \<Rightarrow> rat" where
  "two_pow e = (if 0 \<le> e then 2 ^ nat e else 1 / 2 ^ nat (- e))"

definition round_half_even :: "rat \<Rightarrow> int" where
  "round_half_even x =
     (let f = \<lfloor>x\<rfloor>; d = x - of_int f in
      if d < 1 / 2 then f else if 1 / 2 < d then f + 1 else if even f then f else f + 1)"

text \<open>The exponent of a positive rational: \<open>two_pow e \<le> x < two_pow (e + 1)\<close>.\<close>

definition binade :: "rat \<Rightarrow> int" where
  "binade x =
     (let (p, q) = quotient_of x; e = bitlen p - bitlen q in
      if two_pow e \<le> x then e else e - 1)"

definition fl_pos :: "rat \<Rightarrow> rat" where
  "fl_pos x = (let u = two_pow (binade x - 52) in of_int (round_half_even (x / u)) * u)"

definition fl :: "rat \<Rightarrow> rat" where
  "fl x = (if x = 0 then 0 else if 0 < x then fl_pos x else - fl_pos (- x))"

subsection \<open>Powers of two\<close>

lemma two_pow_pos [simp]: "0 < two_pow e"
  by (simp add: two_pow_def)

lemma two_pow_nonzero [simp]: "two_pow e \<noteq> 0"
  using two_pow_pos [of e] by linarith

lemma two_pow_nonneg [simp]: "0 \<le> two_pow e"
  using two_pow_pos [of e] by linarith

lemma two_pow_0 [simp]: "two_pow 0 = 1"
  by (simp add: two_pow_def)

lemma two_pow_powi: "two_pow e = 2 powi e"
  by (simp add: two_pow_def power_int_def inverse_eq_divide power_one_over)

lemma two_pow_add: "two_pow (a + b) = two_pow a * two_pow b"
  by (simp add: two_pow_powi power_int_add)

lemma two_pow_diff: "two_pow (a - b) = two_pow a / two_pow b"
  by (simp add: two_pow_powi power_int_diff)

lemma two_pow_Suc: "two_pow (e + 1) = 2 * two_pow e"
  by (simp add: two_pow_powi power_int_add)

lemma two_pow_nat: "two_pow (int n) = 2 ^ n"
  by (simp add: two_pow_def)

lemma two_pow_mono: "a \<le> b \<Longrightarrow> two_pow a \<le> two_pow b"
  by (simp add: two_pow_powi power_int_increasing)

lemma two_pow_less_iff: "two_pow a < two_pow b \<longleftrightarrow> a < b"
proof
  show "two_pow a < two_pow b \<Longrightarrow> a < b"
    using two_pow_mono [of b a] by linarith
  show "a < b \<Longrightarrow> two_pow a < two_pow b"
    by (simp add: two_pow_powi power_int_strict_increasing)
qed

subsection \<open>Rounding to an integer\<close>

lemma round_half_even_floor:
  "\<lfloor>x\<rfloor> \<le> round_half_even x" "round_half_even x \<le> \<lfloor>x\<rfloor> + 1"
  by (auto simp: round_half_even_def Let_def)

lemma round_half_even_of_int [simp]: "round_half_even (of_int n) = n"
  by (simp add: round_half_even_def)

lemma round_half_even_err: "\<bar>of_int (round_half_even x) - x\<bar> \<le> 1 / 2"
  by (auto simp: round_half_even_def Let_def abs_if) linarith+

lemma round_half_even_mono:
  assumes "x \<le> y" shows "round_half_even x \<le> round_half_even y"
proof (cases "\<lfloor>x\<rfloor> = \<lfloor>y\<rfloor>")
  case True
  with assms show ?thesis by (auto simp: round_half_even_def Let_def)
next
  case False
  with assms have "\<lfloor>x\<rfloor> + 1 \<le> \<lfloor>y\<rfloor>" using floor_mono [OF assms] by linarith
  then show ?thesis using round_half_even_floor [of x] round_half_even_floor [of y] by linarith
qed


subsection \<open>The binade of a positive rational\<close>

lemma two_pow_bitlen:
  assumes "0 < n"
  shows "two_pow (bitlen n - 1) \<le> of_int n" "of_int n < two_pow (bitlen n)"
proof -
  have "0 < bitlen n" using assms bitlen_eq_zero_iff [of n] bitlen_nonneg [of n] by linarith
  have b: "2 ^ nat (bitlen n - 1) \<le> n" "n < 2 ^ nat (bitlen n)"
    using bitlen_bounds [OF assms] by auto
  have "(of_int (2 ^ nat (bitlen n - 1)) :: rat) \<le> of_int n" "(of_int n :: rat) < of_int (2 ^ nat (bitlen n))"
    using b by (simp_all only: of_int_le_iff of_int_less_iff)
  then show "two_pow (bitlen n - 1) \<le> of_int n" "of_int n < two_pow (bitlen n)"
    using \<open>0 < bitlen n\<close> by (simp_all add: two_pow_def)
qed

lemma binade_bounds:
  assumes "0 < x"
  shows "two_pow (binade x) \<le> x" "x < two_pow (binade x + 1)"
proof -
  obtain p q where pq: "quotient_of x = (p, q)" by (cases "quotient_of x")
  have q: "0 < q" using quotient_of_denom_pos [OF pq] .
  have x: "x = of_int p / of_int q" using quotient_of_div [OF pq] .
  have p: "0 < p" using assms q x by (simp add: zero_less_divide_iff)
  note bp = two_pow_bitlen [OF p] and bq = two_pow_bitlen [OF q]
  let ?e = "bitlen p - bitlen q"
  have q': "(0::rat) < of_int q" using q by simp
  have "two_pow (bitlen p) = two_pow (?e + 1) * two_pow (bitlen q - 1)"
    by (simp add: two_pow_add [symmetric])
  also have "\<dots> \<le> two_pow (?e + 1) * of_int q"
    by (rule mult_left_mono [OF bq(1)]) simp
  finally have up: "x < two_pow (?e + 1)"
    using bp(2) q' by (simp add: x divide_less_eq)
  have "two_pow (?e - 1) * of_int q < two_pow (?e - 1) * two_pow (bitlen q)"
    by (rule mult_strict_left_mono [OF bq(2)]) simp
  also have "\<dots> = two_pow (bitlen p - 1)"
    by (simp add: two_pow_add [symmetric])
  finally have lo: "two_pow (?e - 1) \<le> x"
    using bp(1) q' by (simp add: x le_divide_eq)
  have "binade x = (if two_pow ?e \<le> x then ?e else ?e - 1)"
    by (simp add: binade_def pq)
  then show "two_pow (binade x) \<le> x" "x < two_pow (binade x + 1)"
    using up lo by (auto split: if_splits)
qed

lemma binade_unique:
  assumes "two_pow e \<le> x" "x < two_pow (e + 1)"
  shows "binade x = e"
proof -
  have "0 < x" using assms(1) two_pow_pos [of e] by linarith
  note b = binade_bounds [OF this]
  have "two_pow e < two_pow (binade x + 1)" "two_pow (binade x) < two_pow (e + 1)"
    using b assms by linarith+
  then show ?thesis by (simp add: two_pow_less_iff)
qed

lemma binade_mono:
  assumes "0 < x" "x \<le> y" shows "binade x \<le> binade y"
proof -
  have "two_pow (binade x) < two_pow (binade y + 1)"
    using binade_bounds [of x] binade_bounds [of y] assms by linarith
  then show ?thesis by (simp add: two_pow_less_iff)
qed

subsection \<open>Rounding a positive rational\<close>

lemma two_pow_split52: "two_pow e = 2 ^ 52 * two_pow (e - 52)"
  using two_pow_add [of 52 "e - 52"] two_pow_nat [of 52] by simp

lemma fl_pos_bounds:
  assumes "two_pow e \<le> x" "x < two_pow (e + 1)"
  shows "two_pow e \<le> fl_pos x" "fl_pos x \<le> two_pow (e + 1)"
proof -
  let ?u = "two_pow (e - 52)"
  have f: "fl_pos x = of_int (round_half_even (x / ?u)) * ?u"
    by (simp add: fl_pos_def binade_unique [OF assms] Let_def)
  have "of_int (2 ^ 52) \<le> x / ?u" using assms(1) two_pow_split52 [of e]
    by (simp add: le_divide_eq)
  from round_half_even_mono [OF this]
  have "(2 ^ 52 :: int) \<le> round_half_even (x / ?u)" by (simp only: round_half_even_of_int)
  then have "of_int (2 ^ 52) \<le> (of_int (round_half_even (x / ?u)) :: rat)"
    by (simp only: of_int_le_iff)
  from mult_right_mono [OF this, of ?u]
  show "two_pow e \<le> fl_pos x" using two_pow_split52 [of e] by (simp add: f)
  have "two_pow (e + 1) = 2 ^ 53 * ?u" using two_pow_split52 [of e] by (simp add: two_pow_Suc)
  then have "x / ?u \<le> of_int (2 ^ 53)" using assms(2)
    by (simp add: divide_le_eq)
  from round_half_even_mono [OF this]
  have "round_half_even (x / ?u) \<le> (2 ^ 53 :: int)" by (simp only: round_half_even_of_int)
  then have "(of_int (round_half_even (x / ?u)) :: rat) \<le> of_int (2 ^ 53)"
    by (simp only: of_int_le_iff)
  from mult_right_mono [OF this, of ?u]
  show "fl_pos x \<le> two_pow (e + 1)"
    using \<open>two_pow (e + 1) = 2 ^ 53 * ?u\<close> by (simp add: f)
qed


lemma fl_pos_pos:
  assumes "0 < x" shows "0 < fl_pos x"
  using fl_pos_bounds(1) [OF binade_bounds [OF assms]] two_pow_pos [of "binade x"] by linarith

lemma fl_pos_mono:
  assumes "0 < x" "x \<le> y" shows "fl_pos x \<le> fl_pos y"
proof (cases "binade x = binade y")
  case True
  have "x / two_pow (binade x - 52) \<le> y / two_pow (binade x - 52)"
    by (rule divide_right_mono [OF assms(2)]) simp
  from round_half_even_mono [OF this]
  show ?thesis by (simp add: fl_pos_def True Let_def)
next
  case False
  with binade_mono [OF assms] have "binade x + 1 \<le> binade y" by simp
  from two_pow_mono [OF this]
  show ?thesis
    using fl_pos_bounds(2) [OF binade_bounds [OF assms(1)]]
      fl_pos_bounds(1) [OF binade_bounds, of y] assms by linarith
qed

lemma fl_pos_fixed:
  assumes "0 < m" "m \<le> 2 ^ 53"
  shows "fl_pos (of_int m * two_pow k) = of_int m * two_pow k"
proof (cases "m = 2 ^ 53")
  case True
  then have x: "of_int m * two_pow k = two_pow (53 + k)"
    using two_pow_nat [of 53] by (simp add: two_pow_add)
  have "binade (two_pow (53 + k)) = 53 + k"
    by (rule binade_unique) (simp_all add: two_pow_less_iff)
  moreover have "two_pow (53 + k) / two_pow (53 + k - 52) = of_int (2 ^ 52)"
    using two_pow_nat [of 52] by (simp add: two_pow_diff [symmetric])
  ultimately show ?thesis unfolding x fl_pos_def Let_def
    by (simp only: round_half_even_of_int) (simp add: two_pow_split52 [of "53 + k"])
next
  case False
  let ?x = "of_int m * two_pow k"
  let ?e = "binade ?x"
  have "0 < ?x" using assms(1) by simp
  note b = binade_bounds [OF this]
  have "(of_int m :: rat) < of_int (2 ^ 53)" using False assms(2) by (simp only: of_int_less_iff)
  then have "?x < 2 ^ 53 * two_pow k" by (simp add: mult_strict_right_mono)
  also have "\<dots> = two_pow (53 + k)" using two_pow_nat [of 53] by (simp add: two_pow_add)
  finally have "two_pow ?e < two_pow (53 + k)" using b(1) by linarith
  then have e: "0 \<le> k - (?e - 52)" by (simp add: two_pow_less_iff)
  have "?x / two_pow (?e - 52) = of_int m * two_pow (k - (?e - 52))"
    by (simp only: two_pow_diff [of k] times_divide_eq_right)
  also have "\<dots> = of_int (m * 2 ^ nat (k - (?e - 52)))"
    using e by (simp add: two_pow_def)
  finally have i: "?x / two_pow (?e - 52) = of_int (m * 2 ^ nat (k - (?e - 52)))" .
  have "fl_pos ?x = of_int (round_half_even (?x / two_pow (?e - 52))) * two_pow (?e - 52)"
    by (simp add: fl_pos_def Let_def)
  also have "\<dots> = ?x / two_pow (?e - 52) * two_pow (?e - 52)"
    unfolding i by (simp only: round_half_even_of_int)
  finally show ?thesis by simp
qed

lemma fl_pos_err:
  assumes "0 < x" shows "\<bar>fl_pos x - x\<bar> \<le> x / 2 ^ 53"
proof -
  let ?u = "two_pow (binade x - 52)"
  have "fl_pos x - x = (of_int (round_half_even (x / ?u)) - x / ?u) * ?u"
    by (simp add: fl_pos_def Let_def left_diff_distrib)
  then have "\<bar>fl_pos x - x\<bar> = \<bar>of_int (round_half_even (x / ?u)) - x / ?u\<bar> * ?u"
    by (simp add: abs_mult)
  also have "\<dots> \<le> 1 / 2 * ?u"
    by (rule mult_right_mono [OF round_half_even_err]) simp
  also have "\<dots> = two_pow (binade x) / 2 ^ 53" using two_pow_split52 [of "binade x"] by simp
  also have "\<dots> \<le> x / 2 ^ 53" using binade_bounds [OF assms] by (simp add: divide_right_mono)
  finally show ?thesis .
qed

subsection \<open>Rounding a rational\<close>

lemma fl_0 [simp]: "fl 0 = 0"
  by (simp add: fl_def)

lemma fl_minus: "fl (- x) = - fl x"
  by (simp add: fl_def)

lemma fl_pos_iff [simp]: "0 < fl x \<longleftrightarrow> 0 < x"
  using fl_pos_pos [of x] fl_pos_pos [of "- x"] by (auto simp: fl_def)

lemma fl_neg_iff [simp]: "fl x < 0 \<longleftrightarrow> x < 0"
  using fl_pos_iff [of "- x"] by (simp add: fl_minus)

lemma fl_eq_0_iff [simp]: "fl x = 0 \<longleftrightarrow> x = 0"
proof
  assume "fl x = 0"
  then have "\<not> 0 < fl x" "\<not> fl x < 0" by simp_all
  then show "x = 0" by (simp del: not_less)
qed simp

lemma fl_nonneg_iff [simp]: "0 \<le> fl x \<longleftrightarrow> 0 \<le> x"
  using fl_neg_iff [of x] by linarith

lemma fl_mono:
  assumes "x \<le> y" shows "fl x \<le> fl y"
proof -
  consider "0 < x" | "x \<le> 0" "0 \<le> y" | "y < 0" using assms by linarith
  then show ?thesis
  proof cases
    case 1
    with assms fl_pos_mono [of x y] show ?thesis by (simp add: fl_def)
  next
    case 2
    then have "\<not> 0 < fl x" "0 \<le> fl y" by (simp_all del: fl_eq_0_iff)
    then show ?thesis by linarith
  next
    case 3
    with assms fl_pos_mono [of "- y" "- x"] show ?thesis by (simp add: fl_def)
  qed
qed

lemma fl_fixed:
  assumes "\<bar>m\<bar> \<le> 2 ^ 53" shows "fl (of_int m * two_pow k) = of_int m * two_pow k"
proof (cases m "0::int" rule: linorder_cases)
  case less
  then have "fl (of_int (- m) * two_pow k) = of_int (- m) * two_pow k"
    using assms fl_pos_fixed [of "- m" k] by (simp add: fl_def mult_less_0_iff)
  then show ?thesis using fl_minus [of "of_int m * two_pow k"] by simp
qed (use assms fl_pos_fixed [of m k] in \<open>auto simp: fl_def\<close>)

text \<open>Integers of the safe range are exact (\<open>Number.MAX_SAFE_INTEGER\<close> is 2 to the 53, less 1).\<close>

lemma fl_of_int: "\<bar>n\<bar> \<le> 2 ^ 53 \<Longrightarrow> fl (of_int n) = of_int n"
  using fl_fixed [of n 0] by simp

lemma fl_err: "\<bar>fl x - x\<bar> \<le> \<bar>x\<bar> / 2 ^ 53"
proof (cases x "0::rat" rule: linorder_cases)
  case less
  then have "\<bar>fl_pos (- x) - - x\<bar> \<le> - x / 2 ^ 53" using fl_pos_err [of "- x"] by simp
  moreover have "fl x - x = - (fl_pos (- x) - - x)" using less by (simp add: fl_def)
  ultimately show ?thesis using less by (simp only: abs_minus_cancel abs_of_neg)
qed (use fl_pos_err [of x] in \<open>auto simp: fl_def\<close>)

lemma fl_idem [simp]: "fl (fl x) = fl x"
proof -
  have pos: "fl (fl_pos y) = fl_pos y" if "0 < y" for y
  proof -
    let ?u = "two_pow (binade y - 52)"
    have f: "fl_pos y = of_int (round_half_even (y / ?u)) * ?u" by (simp add: fl_pos_def Let_def)
    have "fl_pos y \<le> 2 ^ 53 * ?u"
      using fl_pos_bounds(2) [OF binade_bounds [OF that]] two_pow_split52 [of "binade y"]
      by (simp add: two_pow_Suc)
    then have "of_int (round_half_even (y / ?u)) \<le> (of_int (2 ^ 53) :: rat)" by (simp add: f)
    then have "round_half_even (y / ?u) \<le> 2 ^ 53" by (simp only: of_int_le_iff)
    moreover have "0 < round_half_even (y / ?u)"
      using fl_pos_pos [OF that] two_pow_pos [of "binade y - 52"]
      by (simp add: f zero_less_mult_iff not_less [symmetric])
    ultimately show ?thesis unfolding f by (intro fl_fixed) simp
  qed
  show ?thesis
    using pos [of x] pos [of "- x"] fl_minus [of "fl_pos (- x)"] by (auto simp: fl_def [of x])
qed

subsection \<open>Arithmetic on numbers\<close>

definition js_add :: "rat \<Rightarrow> rat \<Rightarrow> rat" where "js_add x y = fl (x + y)"

definition js_sub :: "rat \<Rightarrow> rat \<Rightarrow> rat" where "js_sub x y = fl (x - y)"

definition js_mul :: "rat \<Rightarrow> rat \<Rightarrow> rat" where "js_mul x y = fl (x * y)"

text \<open>Division is only used by the model where the divisor is not 0.\<close>

definition js_div :: "rat \<Rightarrow> rat \<Rightarrow> rat" where "js_div x y = fl (x / y)"

text \<open>\<open>Math.floor\<close> and \<open>Math.round\<close> are exact; \<open>Math.round\<close> rounds halves up.\<close>

definition js_floor :: "rat \<Rightarrow> rat" where "js_floor x = of_int \<lfloor>x\<rfloor>"

definition js_round :: "rat \<Rightarrow> rat" where "js_round x = of_int \<lfloor>x + 1 / 2\<rfloor>"

definition is_integer :: "rat \<Rightarrow> bool" where "is_integer x \<longleftrightarrow> of_int \<lfloor>x\<rfloor> = x"

text \<open>
  \<open>Number(x.toFixed(d))\<close>: the decimal with \<open>d\<close> digits nearest to \<open>x\<close>, the larger of two
  equally near ones, read back as a number.
\<close>

definition to_fixed :: "nat \<Rightarrow> rat \<Rightarrow> rat" where
  "to_fixed d x = fl (of_int \<lfloor>x * 10 ^ d + 1 / 2\<rfloor> / 10 ^ d)"

lemmas js_arith_defs = js_add_def js_sub_def js_mul_def js_div_def js_floor_def

lemma js_mul_of_int: "\<bar>a * b\<bar> \<le> 2 ^ 53 \<Longrightarrow> js_mul (of_int a) (of_int b) = of_int (a * b)"
  by (simp only: js_mul_def of_int_mult [symmetric] fl_of_int)

lemma js_add_of_int: "\<bar>a + b\<bar> \<le> 2 ^ 53 \<Longrightarrow> js_add (of_int a) (of_int b) = of_int (a + b)"
  by (simp only: js_add_def of_int_add [symmetric] fl_of_int)

lemma js_sub_of_int: "\<bar>a - b\<bar> \<le> 2 ^ 53 \<Longrightarrow> js_sub (of_int a) (of_int b) = of_int (a - b)"
  by (simp only: js_sub_def of_int_diff [symmetric] fl_of_int)

lemma is_integer_of_int [simp]: "is_integer (of_int n)"
  by (simp add: is_integer_def)

lemma is_integer_iff: "is_integer x \<longleftrightarrow> (\<exists>n. x = of_int n)"
  by (metis is_integer_def is_integer_of_int)

text \<open>
  The floor of a rounded quotient of safe integers is the integer quotient: rounding can
  never carry \<open>a / b\<close> up to the next integer.
\<close>

lemma floor_fl_quotient:
  assumes "0 \<le> a" "a < 2 ^ 53" "0 < b"
  shows "\<lfloor>fl (of_int a / of_int b)\<rfloor> = a div b"
proof (rule floor_unique)
  let ?k = "a div b" and ?x = "of_int a / of_int b :: rat"
  have b: "(0::rat) < of_int b" using assms by simp
  have k: "0 \<le> ?k" "?k \<le> a" using assms zdiv_mono2 [of a 1 b]
    by (simp_all add: pos_imp_zdiv_nonneg_iff)
  have "?k * b \<le> a" using assms by (simp add: minus_mod_eq_div_mult [symmetric])
  then have "(of_int ?k * of_int b :: rat) \<le> of_int a" by (simp only: of_int_mult [symmetric] of_int_le_iff)
  then have "of_int ?k \<le> ?x" using b by (simp add: le_divide_eq)
  from fl_mono [OF this] show "of_int ?k \<le> fl ?x" using k assms by (simp add: fl_of_int)
  have "a + 1 \<le> (?k + 1) * b"
    using assms by (simp add: distrib_right minus_mod_eq_div_mult [symmetric] pos_mod_bound add1_zle_eq)
  then have "of_int (a + 1) \<le> (of_int ((?k + 1) * b) :: rat)" by (simp only: of_int_le_iff)
  then have up: "of_int (a + 1) / of_int b \<le> (of_int ?k + 1 :: rat)" using b by (simp add: divide_le_eq)
  have "of_int a < (of_int (2 ^ 53) :: rat)" using assms by (simp only: of_int_less_iff)
  then have "?x / 2 ^ 53 < 1 / of_int b" using b by (simp add: divide_simps)
  moreover have "fl ?x \<le> ?x + ?x / 2 ^ 53"
  proof -
    have "0 \<le> ?x" using assms b by simp
    then have "\<bar>?x\<bar> = ?x" by (rule abs_of_nonneg)
    then show ?thesis using fl_err [of ?x] by linarith
  qed
  ultimately show "fl ?x < of_int ?k + 1" using up by (simp add: add_divide_distrib)
qed

lemma js_floor_quotient:
  "0 \<le> a \<Longrightarrow> a < 2 ^ 53 \<Longrightarrow> 0 < b \<Longrightarrow> js_floor (js_div (of_int a) (of_int b)) = of_int (a div b)"
  by (simp add: js_floor_def js_div_def floor_fl_quotient)

text \<open>A rounded quotient of safe integers is below 1 exactly when the exact one is.\<close>

lemma fl_quotient_less_1:
  assumes "0 \<le> a" "a < b" "b \<le> 2 ^ 53"
  shows "fl (of_int a / of_int b) \<le> 1 - 1 / 2 ^ 53"
proof -
  have b: "(0::rat) < of_int b" "(of_int b :: rat) \<le> of_int (2 ^ 53)"
    using assms by (simp, simp only: of_int_le_iff)
  have "of_int (a + 1) \<le> (of_int b :: rat)" using assms by (simp only: of_int_le_iff)
  then have "of_int a / of_int b \<le> 1 - 1 / (of_int b :: rat)" using b by (simp add: field_simps)
  also have "\<dots> \<le> 1 - 1 / 2 ^ 53" using b by (simp add: frac_le)
  finally have "fl (of_int a / of_int b) \<le> fl (1 - 1 / 2 ^ 53)" by (rule fl_mono)
  moreover have e: "(1 - 1 / 2 ^ 53 :: rat) = of_int (2 ^ 53 - 1) * two_pow (- 53)"
    by (simp add: two_pow_def)
  have "fl (1 - 1 / 2 ^ 53) = 1 - 1 / 2 ^ 53" unfolding e by (rule fl_fixed) simp
  ultimately show ?thesis by simp
qed

lemma fl_quotient_ge_1:
  assumes "b \<le> a" "0 < b" shows "1 \<le> fl (of_int a / of_int b)"
proof -
  have "(1::rat) \<le> of_int a / of_int b" using assms by (simp add: le_divide_eq)
  from fl_mono [OF this] show ?thesis using fl_of_int [of 1] by simp
qed

subsection \<open>Four fifths of a whole number\<close>

lemma fl_four_fifths: "(4 / 5 :: rat) \<le> fl (4 / 5)"
  by code_simp

lemma js_four_fifths:
  assumes "0 \<le> v" "v \<le> 2 ^ 49"
  shows "js_floor (js_mul (of_int v) (fl (4 / 5))) = of_int (4 * v div 5)"
proof -
  let ?f = "fl (4 / 5)" and ?n = "4 * v div 5" and ?y = "fl (of_int v * fl (4 / 5))"
  have "(of_int v :: rat) \<le> of_int (2 ^ 49)" using assms(2) by (simp only: of_int_le_iff)
  then have v: "(0::rat) \<le> of_int v" "(of_int v :: rat) \<le> 2 ^ 49" using assms(1) by simp_all
  have q: "of_int ?n \<le> 4 * of_int v / (5::rat)" "4 * of_int v / (5::rat) \<le> of_int ?n + 4 / 5"
  proof -
    have "5 * ?n \<le> 4 * v" "4 * v \<le> 5 * ?n + 4" by presburger+
    then have "of_int (5 * ?n) \<le> (of_int (4 * v) :: rat)" "(of_int (4 * v) :: rat) \<le> of_int (5 * ?n + 4)"
      by (simp_all only: of_int_le_iff)
    then show "of_int ?n \<le> 4 * of_int v / (5::rat)" "4 * of_int v / (5::rat) \<le> of_int ?n + 4 / 5" by simp_all
  qed
  have lo: "of_int ?n \<le> ?y"
  proof -
    have "of_int ?n \<le> of_int v * ?f" using q(1) mult_left_mono [OF fl_four_fifths v(1)] by linarith
    then have "fl (of_int ?n) \<le> ?y" by (rule fl_mono)
    moreover have "\<bar>?n\<bar> \<le> 2 ^ 53" using assms by simp
    ultimately show ?thesis by (simp add: fl_of_int)
  qed
  have hi: "?y < of_int ?n + 1"
  proof -
    have f: "?f \<le> 4 / 5 + 4 / 5 / 2 ^ 53" using fl_err [of "4 / 5"] by linarith
    have p0: "0 \<le> of_int v * ?f" using v(1) by simp
    have p: "of_int v * ?f \<le> of_int v * (4 / 5) + 2 ^ 49 * (4 / 5 / 2 ^ 53)"
      using mult_left_mono [OF f v(1)] mult_right_mono [OF v(2), of "4 / 5 / 2 ^ 53"] by (simp add: algebra_simps)
    have "?y \<le> of_int v * ?f + of_int v * ?f / 2 ^ 53" using fl_err [of "of_int v * ?f"] p0 by linarith
    then show ?thesis using p q(2) v(2) by simp
  qed
  have "\<lfloor>?y\<rfloor> = ?n" using lo hi by (intro floor_unique) auto
  then show ?thesis by (simp add: js_floor_def js_mul_def)
qed

end
