(* ===== verification/Prelude.thy ===== *)
theory Prelude
  imports Js_Number "HOL-Library.AList" "HOL-Library.Sublist"
begin

section \<open>Shared vocabulary of the development\<close>

text \<open>
  What the components share: the JavaScript \<open>Map\<close> as an association list in insertion
  order, JSON values, HTTP requests and responses as Express hands them to the code, errors
  as values, paging of lists, and the collections of facts the component proofs use.
\<close>

named_theorems handler_defs \<open>definitions of the route handlers and of their guards\<close>
named_theorems store_defs \<open>definitions of the operations of the in-memory store\<close>
named_theorems state_inv \<open>preservation facts of the invariants of a component's state\<close>

subsection \<open>The JavaScript Map\<close>

text \<open>
  A \<open>Map\<close> iterates in insertion order, and \<open>set\<close> on a key that is present keeps its place.
  \<open>AList.update\<close> does exactly this on a list of pairs.
\<close>

type_synonym ('k, 'v) js_map = "('k \<times> 'v) list"

definition m_get :: "('k, 'v) js_map \<Rightarrow> 'k \<Rightarrow> 'v option" where "m_get m k = map_of m k"

definition m_set :: "'k \<Rightarrow> 'v \<Rightarrow> ('k, 'v) js_map \<Rightarrow> ('k, 'v) js_map" where
  "m_set k v m = AList.update k v m"

definition m_delete :: "'k \<Rightarrow> ('k, 'v) js_map \<Rightarrow> ('k, 'v) js_map" where
  "m_delete k m = AList.delete k m"

definition m_has :: "('k, 'v) js_map \<Rightarrow> 'k \<Rightarrow> bool" where "m_has m k \<longleftrightarrow> m_get m k \<noteq> None"

definition m_keys :: "('k, 'v) js_map \<Rightarrow> 'k list" where "m_keys m = map fst m"

definition m_values :: "('k, 'v) js_map \<Rightarrow> 'v list" where "m_values m = map snd m"

text \<open>A \<open>Map\<close> holds each key once.\<close>

definition m_wf :: "('k, 'v) js_map \<Rightarrow> bool" where "m_wf m \<longleftrightarrow> distinct (m_keys m)"

lemmas m_defs = m_get_def m_set_def m_delete_def m_has_def m_keys_def m_values_def m_wf_def

lemma m_get_Nil [simp]: "m_get [] k = None"
  by (simp add: m_defs)

lemma m_get_set [simp]: "m_get (m_set k v m) k' = (if k' = k then Some v else m_get m k')"
  by (simp add: m_defs update_conv')

lemma m_get_delete [simp]: "m_get (m_delete k m) k' = (if k' = k then None else m_get m k')"
  by (simp add: m_defs delete_conv')

lemma m_wf_Nil [simp]: "m_wf []"
  by (simp add: m_defs)

lemma m_wf_set [simp, intro]: "m_wf m \<Longrightarrow> m_wf (m_set k v m)"
  by (simp add: m_defs distinct_update)

lemma m_wf_delete [simp, intro]: "m_wf m \<Longrightarrow> m_wf (m_delete k m)"
  by (simp add: m_defs distinct_delete)

lemma m_keys_set: "m_keys (m_set k v m) = (if k \<in> set (m_keys m) then m_keys m else m_keys m @ [k])"
  unfolding m_defs by (induction m) auto

lemma m_set_absent: "m_get m k = None \<Longrightarrow> m_set k v m = m @ [(k, v)]"
  unfolding m_defs by (induction m) (auto split: if_splits)

lemma m_get_in_values: "m_get m k = Some v \<Longrightarrow> v \<in> set (m_values m)"
  by (force simp: m_defs dest: map_of_SomeD)

lemma m_in_values_get: "m_wf m \<Longrightarrow> v \<in> set (m_values m) \<Longrightarrow> \<exists>k. m_get m k = Some v"
  by (auto simp: m_defs)

lemma m_values_set:
  assumes "m_wf m"
  shows "set (m_values (m_set k v m)) = insert v {w. \<exists>k'. k' \<noteq> k \<and> m_get m k' = Some w}"
proof -
  have "w \<in> set (m_values (m_set k v m)) \<longleftrightarrow> (\<exists>k'. m_get (m_set k v m) k' = Some w)" for w
    using m_in_values_get [of "m_set k v m" w] m_get_in_values [of "m_set k v m" _ w] assms by blast
  then show ?thesis by (auto split: if_splits)
qed

text \<open>Dropping entries, as a loop that deletes while it iterates does.\<close>

definition m_keep :: "('k \<Rightarrow> 'v \<Rightarrow> bool) \<Rightarrow> ('k, 'v) js_map \<Rightarrow> ('k, 'v) js_map" where
  "m_keep P m = filter (\<lambda>(k, v). P k v) m"

lemma m_wf_keep [simp, intro]: "m_wf m \<Longrightarrow> m_wf (m_keep P m)"
  unfolding m_defs m_keep_def by (rule distinct_map_filter)

lemma m_get_keep:
  "m_wf m \<Longrightarrow> m_get (m_keep P m) k = (case m_get m k of None \<Rightarrow> None | Some v \<Rightarrow> if P k v then Some v else None)"
  unfolding m_defs m_keep_def by (induction m) (auto split: option.splits simp: map_of_eq_None_iff)

lemma m_values_set_sub: "set (m_values (m_set k v m)) \<subseteq> insert v (set (m_values m))"
  unfolding m_defs by (induction m) auto

lemma m_set_same: "m_get m k = Some v \<Longrightarrow> m_set k v m = m"
  unfolding m_defs by (simp add: update_triv)

lemma m_set_set [simp]: "m_set k v (m_set k w m) = m_set k v m"
  unfolding m_defs by (induction m) auto

lemma m_values_delete_sub: "set (m_values (m_delete k m)) \<subseteq> set (m_values m)"
  unfolding m_defs by (auto simp: AList.delete_eq)

lemma find_snoc: "\<forall>x\<in>set xs. \<not> P x \<Longrightarrow> List.find P (xs @ [y]) = (if P y then Some y else None)"
  by (induction xs) auto

subsection \<open>Slices and pages\<close>

text \<open>\<open>xs.slice(s, e)\<close>: negative indices count from the end, both are clipped to the length.\<close>

definition slice_index :: "int \<Rightarrow> int \<Rightarrow> int" where
  "slice_index n i = (if i < 0 then max (n + i) 0 else min i n)"

definition js_slice :: "int \<Rightarrow> int \<Rightarrow> 'a list \<Rightarrow> 'a list" where
  "js_slice s e xs =
     (let n = int (length xs); k = slice_index n s; f = slice_index n e in
      take (nat (f - k)) (drop (nat k) xs))"

lemma js_slice_nonneg:
  assumes "0 \<le> s" "0 \<le> e" shows "js_slice s e xs = take (nat (e - s)) (drop (nat s) xs)"
proof -
  have "take (nat (min e (int (length xs)) - s)) (drop (nat s) xs) = take (nat (e - s)) (drop (nat s) xs)"
    if "s \<le> int (length xs)"
    using assms that by (auto simp: min_def intro!: take_all [THEN trans] take_all [symmetric])
  then show ?thesis
    using assms by (auto simp: js_slice_def slice_index_def Let_def min_def)
qed

lemma js_slice_subset: "set (js_slice s e xs) \<subseteq> set xs"
  by (auto simp: js_slice_def Let_def dest: in_set_takeD in_set_dropD)

text \<open>Page \<open>p\<close> of size \<open>l\<close>, as the listings cut it; the pages in order give the list back.\<close>

definition page_of :: "int \<Rightarrow> int \<Rightarrow> 'a list \<Rightarrow> 'a list" where
  "page_of p l xs = js_slice ((p - 1) * l) ((p - 1) * l + l) xs"

lemma page_of_take:
  "1 \<le> p \<Longrightarrow> 0 \<le> l \<Longrightarrow> page_of p l xs = take (nat l) (drop (nat ((p - 1) * l)) xs)"
  by (simp add: page_of_def js_slice_nonneg)

lemma length_page_of: "1 \<le> p \<Longrightarrow> 0 \<le> l \<Longrightarrow> length (page_of p l xs) \<le> nat l"
  by (simp add: page_of_take)

lemma page_of_subset: "set (page_of p l xs) \<subseteq> set xs"
  by (simp add: page_of_def js_slice_subset)

lemma concat_pages:
  assumes "0 \<le> l"
  shows "concat (map (\<lambda>i. page_of (int i + 1) l xs) [0..<n]) = take (n * nat l) xs"
proof (induction n)
  case (Suc n)
  have "nat (int n * l) = n * nat l" using assms by (simp add: nat_mult_distrib)
  then have "page_of (int n + 1) l xs = take (nat l) (drop (n * nat l) xs)"
    using assms by (simp add: page_of_take)
  then show ?case using Suc by (simp add: take_add [symmetric] add.commute)
qed simp

lemma concat_all_pages:
  assumes "0 \<le> l" "length xs \<le> n * nat l"
  shows "concat (map (\<lambda>i. page_of (int i + 1) l xs) [0..<n]) = xs"
  using concat_pages [OF assms(1), of xs n] assms(2) by simp

subsection \<open>JSON values\<close>

text \<open>An object keeps the order of its fields, as \<open>JSON.stringify\<close> and \<open>Object.entries\<close> do.\<close>

datatype json =
    JNull
  | JBool bool
  | JNum rat
  | JStr string
  | JArr "json list"
  | JObj "(string \<times> json) list"

text \<open>\<open>body.f\<close>: \<open>None\<close> is \<open>undefined\<close>.\<close>

fun field :: "string \<Rightarrow> json \<Rightarrow> json option" where
  "field f (JObj kvs) = map_of kvs f"
| "field f _ = None"

text \<open>What JavaScript takes for true; \<open>None\<close> is \<open>undefined\<close>.\<close>

fun truthy :: "json option \<Rightarrow> bool" where
  "truthy None = False"
| "truthy (Some JNull) = False"
| "truthy (Some (JBool b)) = b"
| "truthy (Some (JNum x)) = (x \<noteq> 0)"
| "truthy (Some (JStr s)) = (s \<noteq> [])"
| "truthy (Some _) = True"

definition jopt :: "string \<Rightarrow> ('a \<Rightarrow> json) \<Rightarrow> 'a option \<Rightarrow> (string \<times> json) list" where
  "jopt f conv x = (case x of None \<Rightarrow> [] | Some v \<Rightarrow> [(f, conv v)])"

definition jint :: "int \<Rightarrow> json" where "jint n = JNum (of_int n)"

definition error_body :: "string \<Rightarrow> json" where "error_body msg = JObj [(''error'', JStr msg)]"

subsection \<open>Errors, requests and responses\<close>

text \<open>
  A thrown error: its class name and its message. The application's \<open>AppError\<close> carries a
  status and a code besides.
\<close>

datatype js_error =
    JsError (err_name: string) (err_message: string)
  | AppError (app_status: nat) (err_message: string) (app_code: string)

abbreviation reference_error :: "string \<Rightarrow> js_error" where
  "reference_error x \<equiv> JsError ''ReferenceError'' (x @ '' is not defined'')"

abbreviation type_error :: "string \<Rightarrow> js_error" where
  "type_error f \<equiv> JsError ''TypeError'' (f @ '' is not a function'')"

record response =
  rs_status :: nat
  rs_headers :: "(string \<times> string) list"
  rs_body :: json

definition respond :: "nat \<Rightarrow> json \<Rightarrow> response" where
  "respond st b = \<lparr>rs_status = st, rs_headers = [], rs_body = b\<rparr>"

definition with_header :: "string \<Rightarrow> string \<Rightarrow> response \<Rightarrow> response" where
  "with_header h v r = r\<lparr>rs_headers := rs_headers r @ [(h, v)]\<rparr>"

lemma respond_simps [simp]:
  "rs_status (respond st b) = st" "rs_headers (respond st b) = []" "rs_body (respond st b) = b"
  by (simp_all add: respond_def)

lemma respond_eq_iff [simp]: "respond s b = respond s' b' \<longleftrightarrow> s = s' \<and> b = b'"
  by (auto simp: respond_def)

lemma with_header_simps [simp]:
  "rs_status (with_header h v r) = rs_status r" "rs_body (with_header h v r) = rs_body r"
  "rs_headers (with_header h v r) = rs_headers r @ [(h, v)]"
  by (simp_all add: with_header_def)

text \<open>
  \<open>req.user\<close> as the authentication middleware sets it. \<open>role\<close> is a field some handlers
  read; \<open>None\<close> is \<open>undefined\<close>.
\<close>

record auth_user =
  publicKey :: "string option"
  role :: "string option"

text \<open>
  A request: header names are lower case, as Node gives them, and each query parameter
  occurs at most once (a repeated one, which Express hands over as an array, is outside the
  model).
\<close>

record request =
  rq_method :: string
  rq_path :: string
  rq_query :: "(string \<times> string) list"
  rq_headers :: "(string \<times> string) list"
  rq_body :: json
  rq_user :: "auth_user option"

definition header :: "string \<Rightarrow> request \<Rightarrow> string option" where
  "header h r = map_of (rq_headers r) h"

definition query :: "string \<Rightarrow> request \<Rightarrow> string option" where
  "query q r = map_of (rq_query r) q"

text \<open>\<open>user?.publicKey\<close>, and the same with the empty string read as missing.\<close>

definition user_key :: "request \<Rightarrow> string option" where
  "user_key r = Option.bind (rq_user r) publicKey"

definition truthy_str :: "string option \<Rightarrow> string option" where
  "truthy_str s = (case s of None \<Rightarrow> None | Some t \<Rightarrow> if t = [] then None else Some t)"

lemma truthy_str_Some: "truthy_str s = Some t \<longleftrightarrow> s = Some t \<and> t \<noteq> []"
  by (auto simp: truthy_str_def split: option.splits)

lemma truthy_str_simps [simp]:
  "truthy_str None = None" "truthy_str (Some []) = None" "truthy_str (Some (c # s)) = Some (c # s)"
  by (simp_all add: truthy_str_def)

text \<open>The result of a handler: an error handed to \<open>next\<close>, or a response.\<close>

type_synonym outcome = "js_error + response"

end
