(* ===== verification/Js_String.thy ===== *)
theory Js_String
  imports Prelude
begin

section \<open>Strings and their numbers\<close>

text \<open>
  The string functions the code uses: \<open>trim\<close>, \<open>startsWith\<close>, \<open>split\<close>, \<open>toLowerCase\<close>, the
  conversions \<open>String(n)\<close>, \<open>Number(s)\<close> and \<open>parseInt(s, 10)\<close>, and the regular expressions
  for digits and hexadecimal hashes. A string is a list of characters up to U+00FF.
\<close>

subsection \<open>Characters\<close>

definition code :: "char \<Rightarrow> nat" where "code c = of_char c"

definition is_digit :: "char \<Rightarrow> bool" where "is_digit c \<longleftrightarrow> 48 \<le> code c \<and> code c \<le> 57"

definition digit_val :: "char \<Rightarrow> nat" where "digit_val c = code c - 48"

definition is_hex :: "char \<Rightarrow> bool" where
  "is_hex c \<longleftrightarrow> is_digit c \<or> 65 \<le> code c \<and> code c \<le> 70 \<or> 97 \<le> code c \<and> code c \<le> 102"

definition hex_val :: "char \<Rightarrow> nat" where
  "hex_val c = (if is_digit c then digit_val c else if code c \<le> 70 then code c - 55 else code c - 87)"

definition is_space :: "char \<Rightarrow> bool" where
  "is_space c \<longleftrightarrow> code c \<in> {9, 10, 11, 12, 13, 32, 160}"

definition to_lower_char :: "char \<Rightarrow> char" where
  "to_lower_char c =
     (if 65 \<le> code c \<and> code c \<le> 90 \<or> 192 \<le> code c \<and> code c \<le> 222 \<and> code c \<noteq> 215
      then char_of (code c + 32) else c)"

definition to_lower :: "string \<Rightarrow> string" where "to_lower s = map to_lower_char s"

definition starts_with :: "string \<Rightarrow> string \<Rightarrow> bool" where
  "starts_with p s \<longleftrightarrow> take (length p) s = p"

text \<open>\<open>s.includes(part)\<close>.\<close>

definition str_includes :: "string \<Rightarrow> string \<Rightarrow> bool" where
  "str_includes s part \<longleftrightarrow> list_ex (\<lambda>k. starts_with part (drop k s)) [0..<length s + 1]"

definition trim_start :: "string \<Rightarrow> string" where "trim_start s = dropWhile is_space s"

definition trim :: "string \<Rightarrow> string" where
  "trim s = rev (dropWhile is_space (rev (trim_start s)))"

text \<open>\<open>s.split(c)\<close> for a one-character separator.\<close>

fun split_on :: "char \<Rightarrow> string \<Rightarrow> string list" where
  "split_on c [] = [[]]"
| "split_on c (d # s) =
     (if d = c then [] # split_on c s
      else (case split_on c s of [] \<Rightarrow> [[d]] | w # ws \<Rightarrow> (d # w) # ws))"

lemma starts_with_iff: "starts_with p s \<longleftrightarrow> (\<exists>t. s = p @ t)"
  unfolding starts_with_def by (metis append_take_drop_id append_eq_conv_conj)

subsection \<open>Printing integers\<close>

fun string_of_nat :: "nat \<Rightarrow> string" where
  "string_of_nat n =
     (if n < 10 then [char_of (48 + n)] else string_of_nat (n div 10) @ [char_of (48 + n mod 10)])"

declare string_of_nat.simps [simp del]

definition string_of_int :: "int \<Rightarrow> string" where
  "string_of_int i = (if i < 0 then ''-'' @ string_of_nat (nat (- i)) else string_of_nat (nat i))"

subsection \<open>Reading numbers\<close>

definition digits_val :: "string \<Rightarrow> nat" where
  "digits_val s = foldl (\<lambda>n c. 10 * n + digit_val c) 0 s"

definition radix_val :: "nat \<Rightarrow> string \<Rightarrow> nat" where
  "radix_val b s = foldl (\<lambda>n c. b * n + hex_val c) 0 s"

text \<open>A value of type \<open>number\<close> as a conversion can give it.\<close>

datatype js_num = Fin rat | PosInf | NegInf | NaN

fun num_neg :: "js_num \<Rightarrow> js_num" where
  "num_neg (Fin x) = Fin (- x)" | "num_neg PosInf = NegInf" | "num_neg NegInf = PosInf" | "num_neg NaN = NaN"

text \<open>\<open>Number.isInteger\<close> and \<open>Number.isFinite\<close>.\<close>

fun num_is_integer :: "js_num \<Rightarrow> bool" where
  "num_is_integer (Fin x) = is_integer x" | "num_is_integer _ = False"

fun num_is_finite :: "js_num \<Rightarrow> bool" where
  "num_is_finite (Fin x) = True" | "num_is_finite _ = False"

text \<open>The optional exponent of a decimal literal.\<close>

fun exponent :: "string \<Rightarrow> int option" where
  "exponent [] = Some 0"
| "exponent (c # s) =
     (if c \<noteq> CHR ''e'' \<and> c \<noteq> CHR ''E'' then None
      else let neg = starts_with ''-'' s;
               ds = (if starts_with ''-'' s \<or> starts_with ''+'' s then tl s else s) in
           if ds \<noteq> [] \<and> list_all is_digit ds
           then Some (if neg then - int (digits_val ds) else int (digits_val ds)) else None)"

definition ten_pow :: "int \<Rightarrow> rat" where
  "ten_pow e = (if 0 \<le> e then 10 ^ nat e else 1 / 10 ^ nat (- e))"

text \<open>An unsigned decimal literal: digits, an optional fraction, an optional exponent.\<close>

definition unsigned_decimal :: "string \<Rightarrow> js_num" where
  "unsigned_decimal s =
     (let ip = takeWhile is_digit s; r = dropWhile is_digit s;
          dot = starts_with ''.'' r;
          fp = (if dot then takeWhile is_digit (tl r) else []);
          r2 = (if dot then dropWhile is_digit (tl r) else r) in
      if ip = [] \<and> fp = [] then NaN
      else (case exponent r2 of
              None \<Rightarrow> NaN
            | Some e \<Rightarrow> Fin (fl (of_nat (digits_val (ip @ fp)) * ten_pow (e - int (length fp))))))"

definition radix_literal :: "nat \<Rightarrow> string \<Rightarrow> js_num" where
  "radix_literal b s =
     (if s \<noteq> [] \<and> list_all (\<lambda>c. is_hex c \<and> hex_val c < b) s then Fin (fl (of_nat (radix_val b s))) else NaN)"

definition unsigned_number :: "string \<Rightarrow> js_num" where
  "unsigned_number s = (if s = ''Infinity'' then PosInf else unsigned_decimal s)"

text \<open>\<open>Number(s)\<close> on a string.\<close>

definition js_Number :: "string \<Rightarrow> js_num" where
  "js_Number s0 =
     (let s = trim s0; p = to_lower (take 2 s) in
      if s = [] then Fin 0
      else if p = ''0x'' then radix_literal 16 (drop 2 s)
      else if p = ''0o'' then radix_literal 8 (drop 2 s)
      else if p = ''0b'' then radix_literal 2 (drop 2 s)
      else if hd s = CHR ''-'' then num_neg (unsigned_number (tl s))
      else if hd s = CHR ''+'' then unsigned_number (tl s)
      else unsigned_number s)"

text \<open>\<open>parseInt(s, 10)\<close>: the longest prefix of digits after blanks and a sign, \<open>None\<close> for NaN.\<close>

definition parse_int :: "string \<Rightarrow> rat option" where
  "parse_int s0 =
     (let s = trim_start s0; neg = starts_with ''-'' s;
          ds = takeWhile is_digit (if starts_with ''-'' s \<or> starts_with ''+'' s then tl s else s) in
      if ds = [] then None
      else Some (let v = fl (of_nat (digits_val ds)) in if neg then - v else v))"

text \<open>The regular expressions \<open>^\d+$\<close> and \<open>^[a-fA-F0-9]{64}$\<close>.\<close>

definition all_digits :: "string \<Rightarrow> bool" where "all_digits s \<longleftrightarrow> s \<noteq> [] \<and> list_all is_digit s"

definition is_tx_hash :: "string \<Rightarrow> bool" where "is_tx_hash s \<longleftrightarrow> length s = 64 \<and> list_all is_hex s"

subsection \<open>Printing and reading back\<close>

lemma code_char_of [simp]: "n < 256 \<Longrightarrow> code (char_of n) = n"
  by (simp add: code_def)

lemma digit_char: "n < 10 \<Longrightarrow> is_digit (char_of (48 + n)) \<and> digit_val (char_of (48 + n)) = n"
  by (simp add: is_digit_def digit_val_def)

lemma digits_val_snoc [simp]: "digits_val (s @ [c]) = 10 * digits_val s + digit_val c"
  by (simp add: digits_val_def)

lemma string_of_nat_digits: "list_all is_digit (string_of_nat n)"
proof (induction n rule: string_of_nat.induct)
  case (1 n)
  then show ?case
    using digit_char [of n] digit_char [of "n mod 10"] by (subst string_of_nat.simps) simp
qed

lemma string_of_nat_nonempty [simp]: "string_of_nat n \<noteq> []"
  by (subst string_of_nat.simps) simp

lemma digits_val_string_of_nat [simp]: "digits_val (string_of_nat n) = n"
proof (induction n rule: string_of_nat.induct)
  case (1 n)
  show ?case
  proof (cases "n < 10")
    case True
    then show ?thesis
      using digit_char [of n] by (subst string_of_nat.simps) (simp add: digits_val_def)
  next
    case False
    with 1 show ?thesis
      using digit_char [of "n mod 10"] by (subst string_of_nat.simps) simp
  qed
qed

lemma string_of_nat_inj: "string_of_nat m = string_of_nat n \<Longrightarrow> m = n"
  by (metis digits_val_string_of_nat)

lemma is_digit_not:
  assumes "is_digit c"
  shows "\<not> is_space c" "c \<noteq> CHR ''-''" "c \<noteq> CHR ''+''" "to_lower_char c = c" "c \<noteq> CHR ''I''"
  using assms by (auto simp: is_digit_def is_space_def to_lower_char_def code_def)

lemma takeWhile_all_digits:
  "list_all is_digit s \<Longrightarrow> takeWhile is_digit s = s" "list_all is_digit s \<Longrightarrow> dropWhile is_digit s = []"
  by (simp_all add: list_all_iff)

lemma trim_digits:
  assumes "list_all is_digit s" shows "trim s = s" "trim_start s = s"
proof -
  have d: "dropWhile is_space t = t" if "list_all is_digit t" for t
    using that is_digit_not(1) by (cases t) auto
  show "trim s = s" "trim_start s = s"
    using d [OF assms] d [of "rev s"] assms by (simp_all add: trim_def trim_start_def)
qed

lemma unsigned_decimal_digits:
  assumes "list_all is_digit s" "s \<noteq> []"
  shows "unsigned_decimal s = Fin (fl (of_nat (digits_val s)))"
  using assms by (simp add: unsigned_decimal_def Let_def takeWhile_all_digits starts_with_def ten_pow_def)

lemma js_Number_digits:
  assumes s: "list_all is_digit s" "s \<noteq> []"
  shows "js_Number s = Fin (fl (of_nat (digits_val s)))"
proof -
  obtain c t where c: "s = c # t" "is_digit c" using s by (cases s) auto
  have p: "to_lower (take 2 s) \<notin> {''0x'', ''0o'', ''0b''}"
  proof (cases t)
    case (Cons d u)
    then have "is_digit d" using s c by simp
    then have "d \<noteq> CHR ''x'' \<and> d \<noteq> CHR ''o'' \<and> d \<noteq> CHR ''b''" by (auto simp: is_digit_def code_def)
    then show ?thesis using Cons c is_digit_not(4) [OF \<open>is_digit d\<close>] by (simp add: to_lower_def)
  qed (simp add: c to_lower_def)
  then show ?thesis
    using s c is_digit_not [OF c(2)] unsigned_decimal_digits [OF s]
    by (auto simp: js_Number_def Let_def trim_digits unsigned_number_def)
qed

lemma unsigned_number_string_of_nat: "unsigned_number (string_of_nat n) = Fin (fl (of_nat n))"
proof -
  have "string_of_nat n \<noteq> ''Infinity''" using string_of_nat_digits [of n] by (auto simp: is_digit_def code_def)
  then show ?thesis
    by (simp add: unsigned_number_def unsigned_decimal_digits string_of_nat_digits)
qed

lemma js_Number_minus_nat: "js_Number (CHR ''-'' # string_of_nat n) = Fin (- fl (of_nat n))"
proof -
  let ?s = "CHR ''-'' # string_of_nat n"
  have t: "trim ?s = ?s"
  proof -
    have sp: "\<not> is_space CHR ''-''" by (simp add: is_space_def code_def)
    obtain c u where u: "rev (string_of_nat n) = c # u" by (cases "rev (string_of_nat n)") auto
    then have "c \<in> set (string_of_nat n)" by (metis list.set_intros(1) set_rev)
    then have "\<not> is_space c"
      using string_of_nat_digits [of n] is_digit_not(1) by (auto simp: list_all_iff)
    then have "dropWhile is_space (rev ?s) = rev ?s" using u by simp
    then show ?thesis using sp by (simp add: trim_def trim_start_def)
  qed
  have "to_lower (take 2 ?s) \<notin> {''0x'', ''0o'', ''0b''}"
    by (cases "string_of_nat n") (auto simp: to_lower_def to_lower_char_def code_def)
  with t show ?thesis by (simp add: js_Number_def Let_def unsigned_number_string_of_nat)
qed

text \<open>\<open>Number(String(n))\<close> is \<open>n\<close> for the integers a number holds exactly.\<close>

lemma js_Number_string_of_int:
  assumes "\<bar>n\<bar> \<le> 2 ^ 53" shows "js_Number (string_of_int n) = Fin (of_int n)"
proof (cases "n < 0")
  case True
  then have "fl (of_nat (nat (- n))) = of_int (- n)"
    using assms fl_of_int [of "- n"] by (simp add: of_nat_nat)
  with True show ?thesis by (simp add: string_of_int_def js_Number_minus_nat)
next
  case False
  then have "fl (of_nat (nat n)) = of_int n" using assms fl_of_int [of n] by (simp add: of_nat_nat)
  with False show ?thesis
    by (simp add: string_of_int_def js_Number_digits string_of_nat_digits)
qed

end
