(* ===== verification/Interfaces.thy ===== *)
theory Interfaces
  imports Prelude
begin

section \<open>The contracts between the components\<close>

text \<open>
  What a client relies on, stated once for every component that provides it: a table whose
  rows are deleted softly and restored, a listing cut into pages, a cache whose entries live
  for a time, and a gate that lets one action through per window. The theories of the
  components interpret them on the operations of the code.
\<close>

subsection \<open>Soft deletion\<close>

text \<open>
  \<open>lookup\<close> sees every row, \<open>live\<close> only those that are not deleted; \<open>mark\<close> sets the deletion
  date of a row.
\<close>

locale soft_delete_table =
  fixes lookup :: "string \<Rightarrow> 's \<Rightarrow> 'r option"
    and live :: "string \<Rightarrow> 's \<Rightarrow> 'r option"
    and deleted_at :: "'r \<Rightarrow> int option"
    and mark :: "int option \<Rightarrow> 'r \<Rightarrow> 'r"
    and soft_delete :: "int \<Rightarrow> string \<Rightarrow> 's \<Rightarrow> bool \<times> 's"
    and restore :: "string \<Rightarrow> 's \<Rightarrow> bool \<times> 's"
  assumes live_lookup: "live k s =
      (case lookup k s of None \<Rightarrow> None | Some r \<Rightarrow> if deleted_at r = None then Some r else None)"
    and delete_refused: "live k s = None \<Longrightarrow> soft_delete now k s = (False, s)"
    and delete_marks: "live k s = Some r \<Longrightarrow> fst (soft_delete now k s) \<and>
      lookup k' (snd (soft_delete now k s)) = (if k' = k then Some (mark (Some now) r) else lookup k' s)"
    and restore_refused: "lookup k s = None \<or> live k s \<noteq> None \<Longrightarrow> restore k s = (False, s)"
    and restore_clears: "lookup k s = Some r \<Longrightarrow> live k s = None \<Longrightarrow> fst (restore k s) \<and>
      lookup k' (snd (restore k s)) = (if k' = k then Some (mark None r) else lookup k' s)"
    and deleted_at_mark: "deleted_at (mark d r) = d"
    and mark_mark: "mark d (mark d' r) = mark d r"
    and mark_same: "mark (deleted_at r) r = r"
begin

lemma live_SomeD: "live k s = Some r \<Longrightarrow> lookup k s = Some r \<and> deleted_at r = None"
  by (auto simp: live_lookup split: option.splits if_splits)

lemma delete_iff_live: "fst (soft_delete now k s) \<longleftrightarrow> live k s \<noteq> None"
  using delete_refused [of k s now] delete_marks [of k s _ now k] by (cases "live k s") auto

lemma delete_hides: "live k (snd (soft_delete now k s)) = None"
  using delete_refused [of k s now] delete_marks [of k s _ now k]
  by (cases "live k s") (auto simp: live_lookup deleted_at_mark split: option.splits)

lemma delete_others: "k' \<noteq> k \<Longrightarrow> live k' (snd (soft_delete now k s)) = live k' s"
  using delete_refused [of k s now] delete_marks [of k s _ now k']
  by (cases "live k s") (auto simp: live_lookup)

lemma delete_again: "soft_delete now' k (snd (soft_delete now k s)) = (False, snd (soft_delete now k s))"
  by (rule delete_refused [OF delete_hides])

lemma restore_after_delete:
  assumes "live k s = Some r"
  shows "fst (restore k (snd (soft_delete now k s)))"
    and "lookup k' (snd (restore k (snd (soft_delete now k s)))) = lookup k' s"
    and "live k' (snd (restore k (snd (soft_delete now k s)))) = live k' s"
proof -
  let ?s = "snd (soft_delete now k s)"
  have r: "lookup k s = Some r" "mark None r = r"
    using live_SomeD [OF assms] mark_same [of r] by auto
  have d: "lookup k ?s = Some (mark (Some now) r)" "live k ?s = None"
    using delete_marks [OF assms, of now k] delete_hides by auto
  then show "fst (restore k ?s)" using restore_clears [of k ?s] by blast
  show l: "lookup k' (snd (restore k ?s)) = lookup k' s" for k'
    using restore_clears [OF d, of k'] delete_marks [OF assms, of now k'] r by (auto simp: mark_mark)
  show "live k' (snd (restore k ?s)) = live k' s" by (simp add: live_lookup l)
qed

lemma restore_live:
  assumes "fst (restore k s)" shows "live k (snd (restore k s)) \<noteq> None"
proof -
  have "lookup k s \<noteq> None" "live k s = None"
    using restore_refused [of k s] assms by (metis fst_conv)+
  then obtain r where "lookup k s = Some r" "live k s = None" by blast
  with restore_clears [of k s r k] show ?thesis by (simp add: live_lookup deleted_at_mark)
qed

end

subsection \<open>Paged listings\<close>

text \<open>
  \<open>page p l s\<close> is page \<open>p\<close> of the listing with \<open>l\<close> rows to a page, \<open>rows s\<close> everything the
  listing ranges over, in order, and \<open>ok_limit\<close> the page sizes the listing takes as they are.
\<close>

locale paged_listing =
  fixes data :: "int \<Rightarrow> int \<Rightarrow> 's \<Rightarrow> 'a list"
    and total :: "int \<Rightarrow> int \<Rightarrow> 's \<Rightarrow> nat"
    and rows :: "'s \<Rightarrow> 'a list"
    and ok_limit :: "int \<Rightarrow> bool"
  assumes data_page: "1 \<le> p \<Longrightarrow> ok_limit l \<Longrightarrow> data p l s = page_of p l (rows s)"
    and total_rows: "total p l s = length (rows s)"
    and ok_limit_pos: "ok_limit l \<Longrightarrow> 1 \<le> l"
begin

lemma pages_concat:
  assumes "ok_limit l" "total 1 l s \<le> n * nat l"
  shows "concat (map (\<lambda>i. data (int i + 1) l s) [0..<n]) = rows s"
  using assms concat_all_pages [of l "rows s" n] ok_limit_pos [of l] by (simp add: data_page total_rows)

lemma page_bounded: "1 \<le> p \<Longrightarrow> ok_limit l \<Longrightarrow> length (data p l s) \<le> nat l"
  using ok_limit_pos [of l] by (simp add: data_page length_page_of)

lemma page_rows: "1 \<le> p \<Longrightarrow> ok_limit l \<Longrightarrow> set (data p l s) \<subseteq> set (rows s)"
  by (simp add: data_page page_of_subset)

lemma page_beyond:
  assumes "1 \<le> p" "ok_limit l" "int (total p l s) \<le> (p - 1) * l" shows "data p l s = []"
proof -
  have "length (rows s) \<le> nat ((p - 1) * l)" using assms by (simp add: total_rows)
  then show ?thesis using assms ok_limit_pos [of l] by (simp add: data_page page_of_take)
qed

end

subsection \<open>Caches with a lifetime\<close>

text \<open>
  Entries are written with the clock reading of the write; a read returns the entry while its
  age is \<open>fresh\<close>, and may drop expired entries on the way.
\<close>

locale ttl_cache =
  fixes put :: "int \<Rightarrow> string \<Rightarrow> 'v \<Rightarrow> 'c \<Rightarrow> 'c"
    and get :: "int \<Rightarrow> string \<Rightarrow> 'c \<Rightarrow> 'v option \<times> 'c"
    and fresh :: "int \<Rightarrow> bool"
    and ok :: "'c \<Rightarrow> bool"
  assumes put_ok: "ok c \<Longrightarrow> ok (put t k v c)"
    and get_ok: "ok c \<Longrightarrow> ok (snd (get t k c))"
    and get_put: "ok c \<Longrightarrow> fst (get t k' (put t0 k v c)) =
      (if k' = k then (if fresh (t - t0) then Some v else None) else fst (get t k' c))"
    and get_keeps: "ok c \<Longrightarrow> t \<le> t' \<Longrightarrow> fst (get t' k' (snd (get t k c))) = fst (get t' k' c)"
begin

text \<open>A run of reads at the given times and keys.\<close>

fun reads :: "(int \<times> string) list \<Rightarrow> 'c \<Rightarrow> 'c" where
  "reads [] c = c" | "reads ((t, k) # rs) c = reads rs (snd (get t k c))"

lemma reads_keep:
  "ok c \<Longrightarrow> list_all (\<lambda>(t, _). t \<le> t') rs \<Longrightarrow> fst (get t' k (reads rs c)) = fst (get t' k c)"
  by (induction rs arbitrary: c) (auto simp: get_keeps get_ok)

lemma replay_while_fresh:
  assumes "ok c" "fresh (t - t0)" "list_all (\<lambda>(u, _). u \<le> t) rs"
  shows "fst (get t k (reads rs (put t0 k v c))) = Some v"
  using assms by (simp add: reads_keep get_put put_ok)

lemma gone_when_stale:
  assumes "ok c" "\<not> fresh (t - t0)" "list_all (\<lambda>(u, _). u \<le> t) rs"
  shows "fst (get t k (reads rs (put t0 k v c))) = None"
  using assms by (simp add: reads_keep get_put put_ok)

lemma other_keys:
  assumes "ok c" "k' \<noteq> k" "list_all (\<lambda>(u, _). u \<le> t) rs"
  shows "fst (get t k' (reads rs (put t0 k v c))) = fst (get t k' c)"
  using assms by (simp add: reads_keep get_put put_ok)

end

subsection \<open>Cooldowns\<close>

text \<open>
  \<open>attempt t k w s\<close> asks at time \<open>t\<close> for the action \<open>k\<close> with window \<open>w\<close>; it answers whether the
  action is taken.
\<close>

locale cooldown_gate =
  fixes attempt :: "int \<Rightarrow> string \<Rightarrow> int \<Rightarrow> 's \<Rightarrow> bool \<times> 's"
    and last_time :: "string \<Rightarrow> 's \<Rightarrow> int option"
  assumes taken_iff: "fst (attempt t k w s) \<longleftrightarrow>
      (case last_time k s of None \<Rightarrow> True | Some u \<Rightarrow> w \<le> t - u)"
    and last_after: "last_time k' (snd (attempt t k w s)) =
      (if k' = k \<and> fst (attempt t k w s) then Some t else last_time k' s)"
begin

text \<open>The times at which the action \<open>k\<close> is taken in a run of attempts.\<close>

fun taken :: "string \<Rightarrow> (int \<times> string \<times> int) list \<Rightarrow> 's \<Rightarrow> int list" where
  "taken k [] s = []"
| "taken k ((t, k', w) # rs) s =
     (if k' = k \<and> fst (attempt t k' w s) then t # taken k rs (snd (attempt t k' w s))
      else taken k rs (snd (attempt t k' w s)))"

fun spaced :: "int \<Rightarrow> int list \<Rightarrow> bool" where
  "spaced w (a # b # ts) \<longleftrightarrow> w \<le> b - a \<and> spaced w (b # ts)"
| "spaced w _ \<longleftrightarrow> True"

lemma taken_spaced_from:
  assumes "list_all (\<lambda>(_, k', w'). k' = k \<longrightarrow> w \<le> w') rs" "last_time k s = Some u"
  shows "spaced w (u # taken k rs s)"
  using assms
proof (induction k rs s arbitrary: u rule: taken.induct)
  case (2 k t k' w' rs s)
  show ?case
  proof (cases "k' = k \<and> fst (attempt t k' w' s)")
    case True
    then have "w' \<le> t - u" using \<open>last_time k s = Some u\<close> taken_iff [of t k w' s] by auto
    moreover have "last_time k (snd (attempt t k' w' s)) = Some t"
      using True by (auto simp: last_after)
    ultimately show ?thesis using True 2 by auto
  next
    case False
    then have "last_time k (snd (attempt t k' w' s)) = Some u"
      using 2 by (auto simp: last_after)
    with False 2 show ?thesis by auto
  qed
qed simp

text \<open>The same action is never taken twice within its window.\<close>

lemma taken_spaced:
  "list_all (\<lambda>(_, k', w'). k' = k \<longrightarrow> w \<le> w') rs \<Longrightarrow> spaced w (taken k rs s)"
proof (induction k rs s rule: taken.induct)
  case (2 k t k' w' rs s)
  then show ?case
    using taken_spaced_from [of k w rs "snd (attempt t k' w' s)" t] by (auto simp: last_after)
qed simp

end

end
