(* ===== verification/Caches.thy ===== *)
theory Caches
  imports Js_String Interfaces
begin

section \<open>Caches\<close>

text \<open>
  The four in-memory caches: appraisals (backend/src/utils/appraisalCache.ts), GET responses
  (utils/responseCache.ts), idempotency keys (middleware/idempotency.ts) and duplicate POSTs
  (middleware/deduplication.ts). Each keeps a \<open>Map\<close>; \<open>now\<close> is the clock reading of the call.
  The three that replay responses keep the contract \<open>ttl_cache\<close>. A middleware that replaces
  \<open>res.json\<close> is two operations: what it does on the way in, and what the replaced \<open>res.json\<close>
  does with the response on the way out.
\<close>

subsection \<open>Appraisals\<close>

record appraisal_entry =
  ae_value :: json
  ae_cachedAt :: int
  ae_stale :: bool

record appraisal_cache =
  ac_cache :: "(string, appraisal_entry) js_map"
  ac_ttlMs :: int

definition initial_appraisal_cache :: appraisal_cache where
  "initial_appraisal_cache = \<lparr>ac_cache = [], ac_ttlMs = 5 * 60 * 1000\<rparr>"

definition configureCacheTTL :: "int \<Rightarrow> appraisal_cache \<Rightarrow> appraisal_cache" where
  "configureCacheTTL ms c = c\<lparr>ac_ttlMs := ms\<rparr>"

definition getAppraisal :: "int \<Rightarrow> string \<Rightarrow> appraisal_cache \<Rightarrow> appraisal_entry option" where
  "getAppraisal now k c =
     (case m_get (ac_cache c) k of
        None \<Rightarrow> None
      | Some e \<Rightarrow> Some (if ac_ttlMs c < now - ae_cachedAt e then e\<lparr>ae_stale := True\<rparr> else e\<lparr>ae_stale := False\<rparr>))"

definition setAppraisal :: "int \<Rightarrow> string \<Rightarrow> json \<Rightarrow> appraisal_cache \<Rightarrow> appraisal_cache" where
  "setAppraisal now k v c =
     c\<lparr>ac_cache := m_set k \<lparr>ae_value = v, ae_cachedAt = now, ae_stale = False\<rparr> (ac_cache c)\<rparr>"

definition invalidateAppraisal :: "string \<Rightarrow> appraisal_cache \<Rightarrow> appraisal_cache" where
  "invalidateAppraisal k c = c\<lparr>ac_cache := m_delete k (ac_cache c)\<rparr>"

definition invalidateAll :: "appraisal_cache \<Rightarrow> appraisal_cache" where
  "invalidateAll c = c\<lparr>ac_cache := []\<rparr>"

definition cacheSize :: "appraisal_cache \<Rightarrow> nat" where "cacheSize c = length (ac_cache c)"

lemma getAppraisal_set:
  "getAppraisal t k' (setAppraisal t0 k v c) =
     (if k' = k then Some \<lparr>ae_value = v, ae_cachedAt = t0, ae_stale = ac_ttlMs c < t - t0\<rparr>
      else getAppraisal t k' c)"
  by (auto simp: getAppraisal_def setAppraisal_def split: option.splits)

lemma getAppraisal_invalidated [simp]:
  "getAppraisal t k (invalidateAll c) = None"
  "getAppraisal t k' (invalidateAppraisal k c) = (if k' = k then None else getAppraisal t k' c)"
  by (auto simp: getAppraisal_def invalidateAll_def invalidateAppraisal_def split: option.splits)

subsection \<open>Responses of GET requests\<close>

record cached_body =
  cb_body :: json
  cb_cachedAt :: int

type_synonym response_cache = "(string, cached_body) js_map"

definition DEFAULT_CACHE_TTL_MS :: int where "DEFAULT_CACHE_TTL_MS = 30000"

text \<open>\<open>qs\<close> is \<open>new URLSearchParams(req.query).toString()\<close>.\<close>

definition cacheKey :: "(request \<Rightarrow> string) \<Rightarrow> request \<Rightarrow> string" where
  "cacheKey qs req =
     rq_path req @ ''?'' @ qs req @ ''::'' @ (case user_key req of None \<Rightarrow> ''anonymous'' | Some u \<Rightarrow> u)"

definition isExpired :: "int \<Rightarrow> cached_body \<Rightarrow> int \<Rightarrow> bool" where
  "isExpired now e ttlMs \<longleftrightarrow> ttlMs < now - cb_cachedAt e"

definition no_cache :: "request \<Rightarrow> bool" where
  "no_cache req \<longleftrightarrow> header ''cache-control'' req = Some ''no-cache'' \<or> header ''pragma'' req = Some ''no-cache''"

text \<open>The way in: a hit answers at once, otherwise the route runs.\<close>

definition response_cache_enter ::
  "int \<Rightarrow> (request \<Rightarrow> string) \<Rightarrow> int \<Rightarrow> request \<Rightarrow> response_cache \<Rightarrow> response option" where
  "response_cache_enter ttlMs qs now req c =
     (if no_cache req then None
      else (case m_get c (cacheKey qs req) of
              None \<Rightarrow> None
            | Some e \<Rightarrow>
                if isExpired now e ttlMs then None
                else Some (with_header ''X-Cache'' ''HIT'' (respond 200 (cb_body e)))))"

text \<open>The way out: the replaced \<open>res.json\<close>.\<close>

definition response_cache_json ::
  "(request \<Rightarrow> string) \<Rightarrow> int \<Rightarrow> request \<Rightarrow> response \<Rightarrow> response_cache \<Rightarrow> response \<times> response_cache" where
  "response_cache_json qs now req res c =
     (with_header ''X-Cache'' ''MISS'' res,
      if rs_status res = 200 \<and> \<not> no_cache req
      then m_set (cacheKey qs req) \<lparr>cb_body = rs_body res, cb_cachedAt = now\<rparr> c else c)"

definition invalidateCache :: "string \<Rightarrow> response_cache \<Rightarrow> response_cache" where
  "invalidateCache pathPrefix c = m_keep (\<lambda>k _. \<not> starts_with pathPrefix k) c"

lemma m_wf_invalidateCache [simp, intro]: "m_wf c \<Longrightarrow> m_wf (invalidateCache p c)"
  by (simp add: invalidateCache_def m_wf_keep)

lemma invalidateCache_get:
  "m_wf c \<Longrightarrow> m_get (invalidateCache p c) k = (if starts_with p k then None else m_get c k)"
  by (simp add: invalidateCache_def m_get_keep split: option.splits)

subsection \<open>Idempotency keys\<close>

record idempotency_entry =
  ie_status :: nat
  ie_body :: json
  ie_createdAt :: int

type_synonym idempotency_cache = "(string, idempotency_entry) js_map"

definition IDEMPOTENCY_TTL_MS :: int where "IDEMPOTENCY_TTL_MS = 24 * 60 * 60 * 1000"

definition getIdempotencyEntry ::
  "int \<Rightarrow> string \<Rightarrow> idempotency_cache \<Rightarrow> idempotency_entry option \<times> idempotency_cache" where
  "getIdempotencyEntry now k c =
     (case m_get c k of
        None \<Rightarrow> (None, c)
      | Some e \<Rightarrow> if IDEMPOTENCY_TTL_MS < now - ie_createdAt e then (None, m_delete k c) else (Some e, c))"

definition setIdempotencyEntry :: "int \<Rightarrow> string \<Rightarrow> nat \<Rightarrow> json \<Rightarrow> idempotency_cache \<Rightarrow> idempotency_cache" where
  "setIdempotencyEntry now k st b c = m_set k \<lparr>ie_status = st, ie_body = b, ie_createdAt = now\<rparr> c"

subsection \<open>Duplicate POSTs\<close>

record dedupe_entry =
  de_status :: nat
  de_body :: json
  de_createdAt :: int

type_synonym dedupe_cache = "(string, dedupe_entry) js_map"

definition DEDUPE_TTL_MS :: int where "DEDUPE_TTL_MS = 5000"

text \<open>\<open>hash\<close> is the hexadecimal SHA-256 of the JSON text of a body.\<close>

definition dedupeKey :: "(json \<Rightarrow> string) \<Rightarrow> string \<Rightarrow> json \<Rightarrow> string" where
  "dedupeKey hash pk body = pk @ '':'' @ hash body"

definition evictExpired :: "int \<Rightarrow> dedupe_cache \<Rightarrow> dedupe_cache" where
  "evictExpired now c = m_keep (\<lambda>_ e. \<not> DEDUPE_TTL_MS \<le> now - de_createdAt e) c"

datatype dedupe_in = DedupePass | DedupeReplay response | DedupeWatch string

definition deduplication_enter ::
  "(json \<Rightarrow> string) \<Rightarrow> int \<Rightarrow> request \<Rightarrow> dedupe_cache \<Rightarrow> dedupe_in \<times> dedupe_cache" where
  "deduplication_enter hash now req c =
     (if rq_method req \<noteq> ''POST'' then (DedupePass, c)
      else (case truthy_str (user_key req) of
              None \<Rightarrow> (DedupePass, c)
            | Some pk \<Rightarrow>
                (let c' = evictExpired now c; k = dedupeKey hash pk (rq_body req) in
                 case m_get c' k of
                   Some e \<Rightarrow> (DedupeReplay (with_header ''X-Deduplicated'' ''true'' (respond (de_status e) (de_body e))), c')
                 | None \<Rightarrow> (DedupeWatch k, c'))))"

definition deduplication_json :: "int \<Rightarrow> string \<Rightarrow> response \<Rightarrow> dedupe_cache \<Rightarrow> dedupe_cache" where
  "deduplication_json now k res c =
     (if 200 \<le> rs_status res \<and> rs_status res < 300
      then m_set k \<lparr>de_status = rs_status res, de_body = rs_body res, de_createdAt = now\<rparr> c else c)"

text \<open>The cache alone, as the middleware uses it.\<close>

definition dedupe_lookup :: "int \<Rightarrow> string \<Rightarrow> dedupe_cache \<Rightarrow> (nat \<times> json) option \<times> dedupe_cache" where
  "dedupe_lookup now k c =
     (let c' = evictExpired now c in (map_option (\<lambda>e. (de_status e, de_body e)) (m_get c' k), c'))"

definition dedupe_store :: "int \<Rightarrow> string \<Rightarrow> nat \<times> json \<Rightarrow> dedupe_cache \<Rightarrow> dedupe_cache" where
  "dedupe_store now k v c = m_set k \<lparr>de_status = fst v, de_body = snd v, de_createdAt = now\<rparr> c"

definition idempotency_lookup ::
  "int \<Rightarrow> string \<Rightarrow> idempotency_cache \<Rightarrow> (nat \<times> json) option \<times> idempotency_cache" where
  "idempotency_lookup now k c =
     map_prod (map_option (\<lambda>e. (ie_status e, ie_body e))) id (getIdempotencyEntry now k c)"

definition body_lookup :: "int \<Rightarrow> int \<Rightarrow> string \<Rightarrow> response_cache \<Rightarrow> json option \<times> response_cache" where
  "body_lookup ttlMs now k c =
     (case m_get c k of
        None \<Rightarrow> (None, c)
      | Some e \<Rightarrow> (if isExpired now e ttlMs then None else Some (cb_body e), c))"

subsection \<open>The contract of a cache with a lifetime\<close>

interpretation idem: ttl_cache "\<lambda>t k v. setIdempotencyEntry t k (fst v) (snd v)" idempotency_lookup
  "\<lambda>age. age \<le> IDEMPOTENCY_TTL_MS" m_wf
  by unfold_locales
    (auto simp: setIdempotencyEntry_def idempotency_lookup_def getIdempotencyEntry_def split: option.splits)

interpretation dedupe: ttl_cache dedupe_store dedupe_lookup "\<lambda>age. age < DEDUPE_TTL_MS" m_wf
  by unfold_locales
    (auto simp: dedupe_store_def dedupe_lookup_def evictExpired_def Let_def m_get_keep not_le m_wf_keep
      split: option.splits)

interpretation bodies: ttl_cache "\<lambda>t k v. m_set k \<lparr>cb_body = v, cb_cachedAt = t\<rparr>" "body_lookup ttlMs"
  "\<lambda>age. age \<le> ttlMs" m_wf for ttlMs
  by unfold_locales (auto simp: body_lookup_def isExpired_def not_less split: option.splits)

lemma response_cache_enter_eq:
  "response_cache_enter ttlMs qs now req c =
     (if no_cache req then None
      else map_option (\<lambda>b. with_header ''X-Cache'' ''HIT'' (respond 200 b))
             (fst (body_lookup ttlMs now (cacheKey qs req) c)))"
  by (auto simp: response_cache_enter_def body_lookup_def split: option.splits)

lemma deduplication_enter_eq:
  assumes "rq_method req = ''POST''" "truthy_str (user_key req) = Some pk"
  shows "deduplication_enter hash now req c =
    (let k = dedupeKey hash pk (rq_body req); (v, c') = dedupe_lookup now k c in
     (case v of Some w \<Rightarrow> DedupeReplay (with_header ''X-Deduplicated'' ''true'' (respond (fst w) (snd w)))
              | None \<Rightarrow> DedupeWatch k, c'))"
  using assms by (auto simp: deduplication_enter_def dedupe_lookup_def Let_def split: option.splits)

lemma deduplication_json_eq:
  "200 \<le> rs_status res \<Longrightarrow> rs_status res < 300 \<Longrightarrow>
   deduplication_json now k res c = dedupe_store now k (rs_status res, rs_body res) c"
  by (simp add: deduplication_json_def dedupe_store_def)

subsection \<open>Properties\<close>

text \<open>A response recorded under an idempotency key is what every later request with that key
  is answered for 24 hours, whatever keys are looked up in between, and no longer.\<close>

theorem idempotent_replay:
  assumes "m_wf c" "list_all (\<lambda>(u, _). u \<le> t) rs"
  shows "map_option (\<lambda>e. (ie_status e, ie_body e))
           (fst (getIdempotencyEntry t k (idem.reads rs (setIdempotencyEntry t0 k st b c)))) =
         (if t - t0 \<le> 24 * 60 * 60 * 1000 then Some (st, b) else None)"
proof -
  have "fst (idempotency_lookup t k (idem.reads rs (setIdempotencyEntry t0 k st b c))) =
      (if t - t0 \<le> IDEMPOTENCY_TTL_MS then Some (st, b) else None)"
    using assms idem.replay_while_fresh [of c t t0 rs k "(st, b)"] idem.gone_when_stale [of c t t0 rs k "(st, b)"]
    by simp
  then show ?thesis by (simp add: idempotency_lookup_def fst_map_prod IDEMPOTENCY_TTL_MS_def)
qed

theorem idempotent_replay_witness:
  "map_option (\<lambda>e. (ie_status e, ie_body e))
     (fst (getIdempotencyEntry 86400000 ''key'' (idem.reads [(5, ''key''), (9, ''other'')]
        (setIdempotencyEntry 0 ''key'' 200 JNull [])))) = Some (200, JNull)"
  using idempotent_replay [of "[]" 86400000 "[(5, ''key''), (9, ''other'')]" "''key''" 0 200 JNull] by simp

text \<open>Two POSTs of one wallet with the same body within five seconds are answered alike even
  when they go to different routes: the second never reaches its route, and a duplicate of
  five seconds or more is processed again.\<close>

theorem duplicate_post_replayed:
  assumes "m_wf c" "rq_method req2 = ''POST''" "truthy_str (user_key req2) = Some pk"
    and "rq_body req2 = body" "200 \<le> rs_status res" "rs_status res < 300"
  shows "fst (deduplication_enter hash t2 req2 (deduplication_json t1 (dedupeKey hash pk body) res c)) =
    (if t2 - t1 < 5000
     then DedupeReplay (with_header ''X-Deduplicated'' ''true'' (respond (rs_status res) (rs_body res)))
     else DedupeWatch (dedupeKey hash pk body))"
  using assms dedupe.get_put [of c t2 "dedupeKey hash pk body" t1 "dedupeKey hash pk body"]
  by (simp add: deduplication_enter_eq deduplication_json_eq DEDUPE_TTL_MS_def Let_def split_beta)

definition post_to :: "string \<Rightarrow> request" where
  "post_to p = \<lparr>rq_method = ''POST'', rq_path = p, rq_query = [], rq_headers = [], rq_body = JObj [],
     rq_user = Some \<lparr>publicKey = Some ''GALICE'', role = None\<rparr>\<rparr>"

theorem duplicate_post_replayed_witness:
  "fst (deduplication_enter (\<lambda>_. ''h'') 4999 (post_to ''/api/loan/liquidate'')
     (deduplication_json 0 (dedupeKey (\<lambda>_. ''h'') ''GALICE'' (rq_body (post_to ''/api/loan/repay'')))
        (respond 200 (JStr ''repay xdr'')) [])) =
   DedupeReplay (with_header ''X-Deduplicated'' ''true'' (respond 200 (JStr ''repay xdr'')))"
  using duplicate_post_replayed [of "[]" "post_to ''/api/loan/liquidate''" "''GALICE''" "JObj []"
      "respond 200 (JStr ''repay xdr'')" "\<lambda>_. ''h''" 4999 0]
  by (simp add: post_to_def user_key_def)

text \<open>A GET response is served from the cache to the same user for exactly the lifetime of the
  route, never to another user or for another path, never when the request forbids caching, and
  never after an invalidation of a prefix of its path; a response other than 200 is not kept.\<close>

theorem response_cache_serves:
  assumes "m_wf c" "\<not> no_cache req" "no_cache fresh_req"
    and "cacheKey qs other \<noteq> cacheKey qs req" "starts_with pre (rq_path req)"
  shows "let c' = snd (response_cache_json qs t0 req (respond 200 b) c) in
         response_cache_enter ttl qs t req c' =
           (if t - t0 \<le> ttl then Some (with_header ''X-Cache'' ''HIT'' (respond 200 b)) else None) \<and>
         response_cache_enter ttl qs t fresh_req c' = None \<and>
         response_cache_enter ttl qs t other c' = response_cache_enter ttl qs t other c \<and>
         response_cache_enter ttl qs t req (invalidateCache pre c') = None \<and>
         snd (response_cache_json qs t0 req (respond 500 b) c) = c"
proof -
  have "starts_with pre (cacheKey qs req)"
    using assms(5) by (auto simp: starts_with_iff cacheKey_def)
  then show ?thesis
    using assms bodies.get_put [of c ttl t]
    by (auto simp: response_cache_json_def response_cache_enter_eq Let_def body_lookup_def
        invalidateCache_get m_wf_set isExpired_def split: option.splits)
qed

definition get_of :: "string \<Rightarrow> string \<Rightarrow> (string \<times> string) list \<Rightarrow> request" where
  "get_of p who hs = \<lparr>rq_method = ''GET'', rq_path = p, rq_query = [], rq_headers = hs, rq_body = JObj [],
     rq_user = Some \<lparr>publicKey = Some who, role = None\<rparr>\<rparr>"

theorem response_cache_serves_witness:
  "let c = snd (response_cache_json (\<lambda>_. []) 0 (get_of ''/api/loans'' ''GA'' []) (respond 200 JNull) []) in
   response_cache_enter 30000 (\<lambda>_. []) 30000 (get_of ''/api/loans'' ''GA'' []) c =
     Some (with_header ''X-Cache'' ''HIT'' (respond 200 JNull)) \<and>
   response_cache_enter 30000 (\<lambda>_. []) 1 (get_of ''/api/loans'' ''GA'' []) (invalidateCache ''/api/loan'' c) = None"
  using response_cache_serves [of "[]" "get_of ''/api/loans'' ''GA'' []"
      "get_of ''/api/loans'' ''GA'' [(''pragma'', ''no-cache'')]" "\<lambda>_. []" "get_of ''/api/loans'' ''GB'' []"
      "''/api/loan''" 0 JNull 30000 30000]
    response_cache_serves [of "[]" "get_of ''/api/loans'' ''GA'' []"
      "get_of ''/api/loans'' ''GA'' [(''pragma'', ''no-cache'')]" "\<lambda>_. []" "get_of ''/api/loans'' ''GB'' []"
      "''/api/loan''" 0 JNull 30000 1]
  by (simp add: Let_def get_of_def no_cache_def header_def cacheKey_def user_key_def starts_with_def)

end
