(* ===== verification/Contract_Tx.thy ===== *)
theory Contract_Tx
  imports Js_String
begin

section \<open>Contract transactions and contract errors\<close>

text \<open>
  How the backend turns a request into an unsigned Soroban transaction: the two copies of
  \<open>buildContractTx\<close> (backend/src/index.ts and backend/src/services/contractTx.ts), the error
  map of backend/src/utils/sorobanErrors.ts, and the decoders of simulation results in
  index.ts. The Stellar SDK and the RPC server are parameters: \<open>sdk\<close> encodes arguments and
  builds transactions, \<open>rpc\<close> answers calls; either may throw.
\<close>

subsection \<open>The SDK and the RPC server\<close>

text \<open>The argument constructors the code calls, with the type hints it passes.\<close>

datatype scarg =
    ArgAddress string
  | ArgSymbol string
  | ArgString string
  | ArgU32 rat
  | ArgU64 rat
  | ArgI128 rat
  | ArgVec "scarg list"
  | ArgVoid

text \<open>Accounts, encoded values, transactions and their XDR are opaque to the code.\<close>

record sdk =
  sdk_encode :: "scarg \<Rightarrow> js_error + string"
  sdk_build :: "string \<Rightarrow> string \<Rightarrow> string list \<Rightarrow> js_error + string"

text \<open>What \<open>scValToNative\<close> and JSON hand to the decoders; the keys of a \<open>Map\<close> are already
  the strings \<open>String(k)\<close> gives.\<close>

datatype native =
    NUndefined
  | NNull
  | NBool bool
  | NNumber js_num
  | NBigint int
  | NString string
  | NArray "native list"
  | NObject "(string \<times> native) list"
  | NMap "(string \<times> native) list"

record rpc =
  rpc_getAccount :: "string \<Rightarrow> js_error + string"
  rpc_prepare :: "string \<Rightarrow> js_error + string"
  rpc_simulate :: "string \<Rightarrow> js_error + native"
  rpc_scValToNative :: "native \<Rightarrow> js_error + native"

fun bind_r :: "'e + 'a \<Rightarrow> ('a \<Rightarrow> 'e + 'b) \<Rightarrow> 'e + 'b" where
  "bind_r (Inl e) f = Inl e" | "bind_r (Inr x) f = f x"

fun collect :: "('a \<Rightarrow> 'e + 'b) \<Rightarrow> 'a list \<Rightarrow> 'e + 'b list" where
  "collect f [] = Inr []"
| "collect f (x # xs) = bind_r (f x) (\<lambda>y. bind_r (collect f xs) (\<lambda>ys. Inr (y # ys)))"

lemma bind_r_Inr: "bind_r m f = Inr z \<longleftrightarrow> (\<exists>x. m = Inr x \<and> f x = Inr z)"
  by (cases m) auto

lemma bind_r_Inl: "bind_r m f = Inl e \<longleftrightarrow> m = Inl e \<or> (\<exists>x. m = Inr x \<and> f x = Inl e)"
  by (cases m) auto

subsection \<open>Contract error codes (sorobanErrors.ts)\<close>

text \<open>Messages are byte strings; the dash of message 13 is its UTF-8 encoding.\<close>

definition SOROBAN_ERROR_MESSAGES :: "nat \<Rightarrow> string option" where
  "SOROBAN_ERROR_MESSAGES = map_of
    [(1, ''Contract is not initialized''),
     (2, ''Contract is already initialized''),
     (3, ''Unauthorized: caller does not have the required permissions''),
     (4, ''Insufficient collateral: loan amount exceeds the maximum allowed by the LTV ratio''),
     (5, ''Loan not found''),
     (6, ''Collateral not found''),
     (7, ''Health factor is safe: loan is not eligible for liquidation''),
     (8, ''Invalid amount: value must be positive and must not cause overflow''),
     (9, ''Loan is already closed''),
     (10, ''Invalid fee rate: rate exceeds the protocol maximum of 5%''),
     (11, ''Exceeds close factor: repay amount is above the close-factor cap''),
     (12, ''Invalid close factor: value must be between 1 and 10 000 bps''),
     (13, ''Contract is paused '' @ [CHR 0xE2, CHR 0x80, CHR 0x94] @ '' new operations are temporarily disabled''),
     (14, ''Oracle is already registered''),
     (15, ''Oracle limit reached: maximum number of oracles has been registered''),
     (16, ''Oracle not found''),
     (17, ''Insufficient oracle quorum: not enough valid price submissions''),
     (18, ''Invalid price: price value is out of bounds or otherwise invalid''),
     (19, ''Contract is not paused'')]"

text \<open>The regular expression \<open>/Error\(Contract,\s*#(\d+)\)/\<close>: the digits of a match at the front
  of the string, then the first match anywhere.\<close>

definition match_contract_error :: "string \<Rightarrow> string option" where
  "match_contract_error s =
     (if \<not> starts_with ''Error(Contract,'' s then None
      else (let r = dropWhile is_space (drop 15 s) in
            if \<not> starts_with ''#'' r then None
            else (let ds = takeWhile is_digit (tl r); r' = dropWhile is_digit (tl r) in
                  if ds \<noteq> [] \<and> starts_with '')'' r' then Some ds else None)))"

fun CONTRACT_ERROR_RE :: "string \<Rightarrow> string option" where
  "CONTRACT_ERROR_RE [] = None"
| "CONTRACT_ERROR_RE (c # s) =
     (case match_contract_error (c # s) of Some ds \<Rightarrow> Some ds | None \<Rightarrow> CONTRACT_ERROR_RE s)"

text \<open>A thrown value that is no \<open>Error\<close> does not occur in the model, so an error without a
  contract code comes back unchanged. Codes are 32-bit, so a code prints as its digits.\<close>

definition mapSorobanError :: "js_error \<Rightarrow> js_error" where
  "mapSorobanError err =
     (case CONTRACT_ERROR_RE (err_message err) of
        Some ds \<Rightarrow>
          (let ec = digits_val ds in
           JsError ''Error'' (case SOROBAN_ERROR_MESSAGES ec of
               Some d \<Rightarrow> d
             | None \<Rightarrow> ''Contract error code '' @ string_of_nat ec))
      | None \<Rightarrow> err)"

text \<open>How the host prints a contract error.\<close>

definition host_error :: "nat \<Rightarrow> string" where
  "host_error ec = ''Error(Contract, #'' @ string_of_nat ec @ '')''"

lemma match_host_error: "match_contract_error (host_error ec @ rest) = Some (string_of_nat ec)"
proof -
  have d: "\<forall>c\<in>set (string_of_nat ec). is_digit c" using string_of_nat_digits by (simp add: list_all_iff)
  have "takeWhile is_digit (string_of_nat ec @ '')'' @ rest) = string_of_nat ec"
    "dropWhile is_digit (string_of_nat ec @ '')'' @ rest) = '')'' @ rest"
    using d by (simp_all add: takeWhile_append2 dropWhile_append2 is_digit_def code_def)
  then show ?thesis
    by (simp add: match_contract_error_def host_error_def starts_with_def Let_def is_space_def code_def)
qed

text \<open>A text before the code that holds no capital E cannot hide it.\<close>

lemma CONTRACT_ERROR_RE_host:
  "CHR ''E'' \<notin> set pre \<Longrightarrow> CONTRACT_ERROR_RE (pre @ host_error ec @ rest) = Some (string_of_nat ec)"
proof (induction pre)
  case Nil
  have "host_error ec @ rest = CHR ''E'' # tl (host_error ec) @ rest" by (simp add: host_error_def)
  then show ?case using match_host_error [of ec rest] by (metis CONTRACT_ERROR_RE.simps(2) append_Nil option.simps(5))
next
  case (Cons c pre)
  then have "match_contract_error (c # pre @ host_error ec @ rest) = None"
    by (auto simp: match_contract_error_def starts_with_def)
  with Cons show ?case by simp
qed

subsection \<open>Building a transaction\<close>

text \<open>The copy in index.ts, which translates the errors of the preparation (only of that).\<close>

definition buildContractTx ::
  "sdk \<Rightarrow> rpc \<Rightarrow> string \<Rightarrow> string \<Rightarrow> string list \<Rightarrow> js_error + string" where
  "buildContractTx k r sourceAddress contract_method args =
     bind_r (rpc_getAccount r sourceAddress) (\<lambda>account.
     bind_r (sdk_build k account contract_method args) (\<lambda>tx.
       (case rpc_prepare r tx of Inr x \<Rightarrow> Inr x | Inl err \<Rightarrow> Inl (mapSorobanError err))))"

text \<open>The copy in services/contractTx.ts, which does not.\<close>

definition buildContractTx_service ::
  "sdk \<Rightarrow> rpc \<Rightarrow> string \<Rightarrow> string \<Rightarrow> string list \<Rightarrow> js_error + string" where
  "buildContractTx_service k r sourceAddress contract_method args =
     bind_r (rpc_getAccount r sourceAddress) (\<lambda>account.
     bind_r (sdk_build k account contract_method args) (rpc_prepare r))"

text \<open>The arguments are encoded before the call, in order.\<close>

definition call_contract ::
  "(string \<Rightarrow> string \<Rightarrow> string list \<Rightarrow> js_error + string) \<Rightarrow> sdk \<Rightarrow> string \<Rightarrow> string \<Rightarrow> scarg list \<Rightarrow>
   js_error + string" where
  "call_contract build k sourceAddress contract_method args =
     bind_r (collect (sdk_encode k) args) (build sourceAddress contract_method)"

subsection \<open>Decoding simulation results (index.ts)\<close>

definition toNumber :: "native \<Rightarrow> rat option" where
  "toNumber v =
     (case v of
        NNumber (Fin x) \<Rightarrow> Some x
      | NBigint n \<Rightarrow> Some (fl (of_int n))
      | NString s \<Rightarrow> (case js_Number s of Fin x \<Rightarrow> Some x | _ \<Rightarrow> None)
      | _ \<Rightarrow> None)"

text \<open>\<open>Object.fromEntries\<close>: a repeated key keeps its first place and its last value.\<close>

definition fromEntries :: "(string \<times> native) list \<Rightarrow> (string \<times> native) list" where
  "fromEntries kvs = fold (\<lambda>(k, v) m. m_set k v m) kvs []"

fun normalizeNativeScVal :: "native \<Rightarrow> native" where
  "normalizeNativeScVal (NMap kvs) = NObject (fromEntries (map (\<lambda>(k, v). (k, normalizeNativeScVal v)) kvs))"
| "normalizeNativeScVal (NArray vs) = NArray (map normalizeNativeScVal vs)"
| "normalizeNativeScVal (NObject kvs) = NObject (fromEntries (map (\<lambda>(k, v). (k, normalizeNativeScVal v)) kvs))"
| "normalizeNativeScVal v = v"

text \<open>\<open>value?.name\<close>.\<close>

definition get_prop :: "string \<Rightarrow> native \<Rightarrow> native" where
  "get_prop name v =
     (case v of NObject kvs \<Rightarrow> (case m_get kvs name of None \<Rightarrow> NUndefined | Some w \<Rightarrow> w) | _ \<Rightarrow> NUndefined)"

definition is_object :: "native \<Rightarrow> bool" where
  "is_object v = (case v of NObject _ \<Rightarrow> True | NArray _ \<Rightarrow> True | NMap _ \<Rightarrow> True | _ \<Rightarrow> False)"

record LoanPreviewShape =
  lp_principal :: rat
  lp_outstanding :: rat
  lp_collateral_value :: rat

definition parseLoanFromSimulation ::
  "(native \<Rightarrow> js_error + native) \<Rightarrow> native \<Rightarrow> js_error + LoanPreviewShape" where
  "parseLoanFromSimulation scValToNative retval =
     (case toNumber (get_prop ''value'' retval) of
        Some v \<Rightarrow> Inr \<lparr>lp_principal = v, lp_outstanding = v, lp_collateral_value = v\<rparr>
      | None \<Rightarrow>
          bind_r (scValToNative retval) (\<lambda>raw.
            let n = normalizeNativeScVal raw in
            if \<not> is_object n then Inl (JsError ''Error'' ''Unable to decode loan record'')
            else (case (toNumber (get_prop ''principal'' n), toNumber (get_prop ''outstanding'' n),
                        toNumber (get_prop ''collateral_value'' n)) of
                    (Some p, Some out, Some cv) \<Rightarrow>
                      Inr \<lparr>lp_principal = p, lp_outstanding = out, lp_collateral_value = cv\<rparr>
                  | _ \<Rightarrow> Inl (JsError ''Error'' ''Loan record is missing numeric fields''))))"

definition parseFeeConfigFromSimulation ::
  "(native \<Rightarrow> js_error + native) \<Rightarrow> native \<Rightarrow> js_error + rat option" where
  "parseFeeConfigFromSimulation scValToNative retval =
     bind_r (scValToNative retval) (\<lambda>raw.
       let n = normalizeNativeScVal raw in
       Inr (if \<not> is_object n then None else toNumber (get_prop ''interest_fee_bps'' n)))"

subsection \<open>Properties\<close>

lemma mapSorobanError_host:
  "CHR ''E'' \<notin> set pre \<Longrightarrow>
   mapSorobanError (JsError nm (pre @ host_error ec @ rest)) =
     JsError ''Error'' (case SOROBAN_ERROR_MESSAGES ec of
        Some d \<Rightarrow> d | None \<Rightarrow> ''Contract error code '' @ string_of_nat ec)"
  by (simp add: mapSorobanError_def CONTRACT_ERROR_RE_host)

text \<open>A transaction whose preparation the host refuses with a contract error reaches the
  client of index.ts as the message of the table for that code, or as a text naming the code;
  the copy of the builder that the services use passes the raw host error on.\<close>

theorem contract_errors_translated:
  assumes "rpc_getAccount r src = Inr acc" "sdk_build k acc m args = Inr tx"
    and "rpc_prepare r tx = Inl (JsError nm (pre @ host_error ec @ rest))" "CHR ''E'' \<notin> set pre"
  shows "buildContractTx k r src m args =
           Inl (JsError ''Error'' (if ec \<in> {1..19} then the (SOROBAN_ERROR_MESSAGES ec)
                                  else ''Contract error code '' @ string_of_nat ec)) \<and>
         buildContractTx_service k r src m args = Inl (JsError nm (pre @ host_error ec @ rest))"
proof -
  have "SOROBAN_ERROR_MESSAGES ec = None \<longleftrightarrow> ec \<notin> {1..19}"
    unfolding SOROBAN_ERROR_MESSAGES_def map_of_eq_None_iff by (auto; presburger)
  then have "(case SOROBAN_ERROR_MESSAGES ec of
        Some d \<Rightarrow> d | None \<Rightarrow> ''Contract error code '' @ string_of_nat ec) =
      (if ec \<in> {1..19} then the (SOROBAN_ERROR_MESSAGES ec)
       else ''Contract error code '' @ string_of_nat ec)"
    by (auto split: option.splits)
  then show ?thesis
    using assms mapSorobanError_host [of pre nm ec rest]
    by (simp add: buildContractTx_def buildContractTx_service_def)
qed

definition sample_sdk :: sdk where
  "sample_sdk = \<lparr>sdk_encode = (\<lambda>_. Inr ''val''), sdk_build = (\<lambda>acc m _. Inr (acc @ m))\<rparr>"

definition failing_rpc :: "nat \<Rightarrow> rpc" where
  "failing_rpc ec = \<lparr>rpc_getAccount = (\<lambda>a. Inr a),
     rpc_prepare = (\<lambda>_. Inl (JsError ''Error'' (''host: '' @ host_error ec @ []))),
     rpc_simulate = (\<lambda>_. Inr NNull), rpc_scValToNative = Inr\<rparr>"

lemma string_of_nat_20: "string_of_nat 20 = ''20''"
  by code_simp

theorem contract_errors_translated_witness:
  "buildContractTx sample_sdk (failing_rpc 5) ''G'' ''repay_loan'' [] = Inl (JsError ''Error'' ''Loan not found'') \<and>
   buildContractTx sample_sdk (failing_rpc 20) ''G'' ''repay_loan'' [] =
     Inl (JsError ''Error'' ''Contract error code 20'')"
  using contract_errors_translated [of "failing_rpc 5" "''G''" "''G''" sample_sdk "''repay_loan''" "[]" _
      "''Error''" "''host: ''" 5 "[]"]
    contract_errors_translated [of "failing_rpc 20" "''G''" "''G''" sample_sdk "''repay_loan''" "[]" _
      "''Error''" "''host: ''" 20 "[]"]
  by (simp add: failing_rpc_def sample_sdk_def SOROBAN_ERROR_MESSAGES_def string_of_nat_20)

end
