(* ===== verification/Encodings.thy ===== *)
theory Encodings
  imports Js_String
begin

section \<open>Bytes as text\<close>

text \<open>
  \<open>Buffer\<close> conversions: hexadecimal, as tokens, nonces and signatures travel, and base64url,
  as the parts of a JSON web token travel (backend/src/middleware/auth.ts, \<open>b64url\<close>).
\<close>

subsection \<open>Bytes in hexadecimal\<close>

definition hex_digit :: "nat \<Rightarrow> char" where
  "hex_digit n = (if n < 10 then char_of (48 + n) else char_of (87 + n))"

definition hex_encode :: "string \<Rightarrow> string" where
  "hex_encode s = concat (map (\<lambda>c. [hex_digit (code c div 16), hex_digit (code c mod 16)]) s)"

text \<open>\<open>Buffer.from(s, "hex")\<close> stops at the first pair that is not hexadecimal.\<close>

fun hex_decode :: "string \<Rightarrow> string" where
  "hex_decode (a # b # s) =
     (if is_hex a \<and> is_hex b then char_of (16 * hex_val a + hex_val b) # hex_decode s else [])"
| "hex_decode _ = []"

lemma hex_digit: "n < 16 \<Longrightarrow> is_hex (hex_digit n) \<and> hex_val (hex_digit n) = n"
  by (auto simp: hex_digit_def is_hex_def hex_val_def is_digit_def digit_val_def)

lemma hex_decode_encode [simp]: "hex_decode (hex_encode s) = s"
proof (induction s)
  case (Cons c s)
  have "code c div 16 < 16" by (simp add: code_def less_mult_imp_div_less)
  then show ?case
    using Cons hex_digit [of "code c div 16"] hex_digit [of "code c mod 16"]
    by (simp add: hex_encode_def code_def)
qed (simp add: hex_encode_def)

lemma hex_encode_inj: "hex_encode s = hex_encode t \<Longrightarrow> s = t"
  by (metis hex_decode_encode)

lemma hex_encode_hex: "list_all is_hex (hex_encode s)"
proof (induction s)
  case (Cons c s)
  have "code c div 16 < 16" by (simp add: code_def less_mult_imp_div_less)
  then show ?case
    using Cons hex_digit [of "code c div 16"] hex_digit [of "code c mod 16"] by (simp add: hex_encode_def)
qed (simp add: hex_encode_def)

subsection \<open>Base64 for URLs\<close>

definition b64_char :: "nat \<Rightarrow> char" where
  "b64_char n =
     (if n < 26 then char_of (65 + n) else if n < 52 then char_of (71 + n)
      else if n < 62 then char_of (n - 4) else if n = 62 then CHR ''-'' else CHR ''_'')"

definition b64_val :: "char \<Rightarrow> nat option" where
  "b64_val c =
     (let n = code c in
      if 65 \<le> n \<and> n \<le> 90 then Some (n - 65)
      else if 97 \<le> n \<and> n \<le> 122 then Some (n - 71)
      else if 48 \<le> n \<and> n \<le> 57 then Some (n + 4)
      else if c = CHR ''-'' \<or> c = CHR ''+'' then Some 62
      else if c = CHR ''_'' \<or> c = CHR ''/'' then Some 63 else None)"

text \<open>Three bytes are four characters; the rest is not padded.\<close>

fun b64url :: "string \<Rightarrow> string" where
  "b64url (a # b # c # s) =
     b64_char (code a div 4) # b64_char (code a mod 4 * 16 + code b div 16)
     # b64_char (code b mod 16 * 4 + code c div 64) # b64_char (code c mod 64) # b64url s"
| "b64url [a, b] =
     [b64_char (code a div 4), b64_char (code a mod 4 * 16 + code b div 16), b64_char (code b mod 16 * 4)]"
| "b64url [a] = [b64_char (code a div 4), b64_char (code a mod 4 * 16)]"
| "b64url [] = []"

text \<open>\<open>Buffer.from(s, "base64")\<close>: characters outside the alphabet are skipped, so the values of
  the others are regrouped.\<close>

fun b64_group :: "nat list \<Rightarrow> string" where
  "b64_group (w # x # y # z # s) =
     char_of (w * 4 + x div 16) # char_of (x mod 16 * 16 + y div 4) # char_of (y mod 4 * 64 + z) # b64_group s"
| "b64_group [w, x, y] = [char_of (w * 4 + x div 16), char_of (x mod 16 * 16 + y div 4)]"
| "b64_group [w, x] = [char_of (w * 4 + x div 16)]"
| "b64_group _ = []"

definition b64_decode :: "string \<Rightarrow> string" where
  "b64_decode s = b64_group (List.map_filter b64_val (takeWhile (\<lambda>c. c \<noteq> CHR ''='') s))"

lemma b64_char_val: "n < 64 \<Longrightarrow> b64_val (b64_char n) = Some n"
  by (auto simp: b64_val_def b64_char_def Let_def code_def)

lemma b64_char_not: "n < 64 \<Longrightarrow> b64_char n \<noteq> CHR ''='' \<and> b64_char n \<noteq> CHR ''.''"
  using b64_char_val [of n] by (auto simp: b64_val_def code_def)

lemma code_less [simp]: "code c < 256"
  by (simp add: code_def)

lemma code_div [simp]:
  "code c div 16 < 16" "code c div 64 < 4" "code c div 4 < 64" "code b div 16 div 16 = 0" "code b div 64 div 4 = 0"
  "code b div 16 mod 16 = code b div 16" "code b div 64 mod 4 = code b div 64"
proof -
  have d: "code x div 16 < 16" "code x div 64 < 4" "code x div 4 < 64" for x
    by (simp_all add: less_mult_imp_div_less)
  then show "code c div 16 < 16" "code c div 64 < 4" "code c div 4 < 64" "code b div 16 div 16 = 0"
    "code b div 64 div 4 = 0" "code b div 16 mod 16 = code b div 16" "code b div 64 mod 4 = code b div 64"
    by simp_all
qed

lemma b64_parts [simp]:
  "code a mod 4 * 16 + code b div 16 < 64" "code b mod 16 * 4 + code c div 64 < 64"
  "code b mod 16 * 4 < 64" "code a mod 4 * 16 < 64"
proof -
  have "code a mod 4 < 4" "code b mod 16 < 16" by simp_all
  then show "code a mod 4 * 16 + code b div 16 < 64" "code b mod 16 * 4 + code c div 64 < 64"
    "code b mod 16 * 4 < 64" "code a mod 4 * 16 < 64"
    using code_div(1) [of b] code_div(2) [of c] by linarith+
qed

lemma b64url_chars: "set (b64url s) \<subseteq> b64_char ` {..<64}"
  by (induction s rule: b64url.induct) (auto intro!: imageI)

lemma b64url_plain: "CHR ''='' \<notin> set (b64url s)" "CHR ''.'' \<notin> set (b64url s)"
proof -
  have "b64_char n \<noteq> CHR ''='' \<and> b64_char n \<noteq> CHR ''.''" if "n < 64" for n
    by (rule b64_char_not [OF that])
  then show "CHR ''='' \<notin> set (b64url s)" "CHR ''.'' \<notin> set (b64url s)"
    using b64url_chars [of s] by fastforce+
qed

lemma char_of_code [simp]: "char_of (code c) = c"
  by (simp add: code_def)

lemma b64_group_b64url: "b64_group (List.map_filter b64_val (b64url s)) = s"
  by (induction s rule: b64url.induct) (simp_all add: List.map_filter_simps b64_char_val)

lemma b64_roundtrip [simp]: "b64_decode (b64url s) = s"
proof -
  have "\<forall>c\<in>set (b64url s). c \<noteq> CHR ''=''" using b64url_plain(1) [of s] by blast
  then have "takeWhile (\<lambda>c. c \<noteq> CHR ''='') (b64url s) = b64url s"
    by (simp only: takeWhile_eq_all_conv)
  then show ?thesis by (simp only: b64_decode_def b64_group_b64url)
qed

subsection \<open>Splitting at a character that does not occur\<close>

lemma split_on_none: "c \<notin> set s \<Longrightarrow> split_on c s = [s]"
  by (induction s) auto

lemma split_on_nonempty: "split_on c s \<noteq> []"
  by (induction s) (auto split: list.splits)

lemma split_on_first: "c \<notin> set s \<Longrightarrow> split_on c (s @ c # t) = s # split_on c t"
  by (induction s) auto

end
