(* ===== verification/Webhooks.thy ===== *)
theory Webhooks
  imports Encodings
begin

section \<open>Webhooks (backend/src/webhooks.ts)\<close>

text \<open>
  Registration, listing and removal of webhooks, the signed delivery of an event to each of
  them with its retries and log, and the payload encryption helpers. Outside the model, as
  parameters: the URL parser (\<open>parse_url\<close> gives the protocol of a valid URL), the random
  bytes and ids, \<open>hmac\<close> (HMAC-SHA256 in hexadecimal), \<open>hkdf\<close>, AES-256-GCM, \<open>JSON.stringify\<close>
  and the answer of the receiver to each attempt. Buffers and texts are byte strings.
\<close>

subsection \<open>State\<close>

record WebhookRegistration =
  wh_id :: string
  wh_url :: string
  wh_secret :: string
  wh_createdAt :: int

record DeliveryLog =
  dl_webhookId :: string
  dl_event :: string
  dl_payload :: json
  dl_attempts :: nat
  dl_lastStatus :: "nat option"
  dl_lastError :: "string option"
  dl_deliveredAt :: "int option"

record hooks =
  webhooks :: "(string, WebhookRegistration) js_map"
  deliveryLogs :: "DeliveryLog list"

definition resetForTests :: "hooks \<Rightarrow> hooks" where
  "resetForTests h = h\<lparr>webhooks := [], deliveryLogs := []\<rparr>"

subsection \<open>Encryption helpers\<close>

definition deriveEncryptionKey ::
  "(string \<Rightarrow> string \<Rightarrow> string \<Rightarrow> nat \<Rightarrow> string) \<Rightarrow> string \<Rightarrow> string" where
  "deriveEncryptionKey hkdf secret = hkdf secret [] ''stellarkraal-webhook-encryption'' 32"

record encrypted =
  en_iv :: string
  en_payload :: string
  en_tag :: string

definition encryptPayload ::
  "(string \<Rightarrow> string \<Rightarrow> string \<Rightarrow> string \<times> string) \<Rightarrow> string \<Rightarrow> string \<Rightarrow> string \<Rightarrow> encrypted" where
  "encryptPayload aes_gcm iv plaintext key =
     (let (ct, tag) = aes_gcm key iv plaintext in
      \<lparr>en_iv = hex_encode iv, en_payload = hex_encode ct, en_tag = hex_encode tag\<rparr>)"

definition decryptPayload ::
  "(string \<Rightarrow> string \<Rightarrow> string \<Rightarrow> string \<Rightarrow> js_error + string) \<Rightarrow>
   string \<Rightarrow> string \<Rightarrow> string \<Rightarrow> string \<Rightarrow> js_error + string" where
  "decryptPayload aes_gcm_open iv encryptedPayload authTag key =
     aes_gcm_open key (hex_decode iv) (hex_decode encryptedPayload) (hex_decode authTag)"

subsection \<open>Registration\<close>

text \<open>The flag \<open>encrypt\<close> is accepted and dropped, as in the source.\<close>

definition registerWebhook ::
  "(string \<Rightarrow> string option) \<Rightarrow> int \<Rightarrow> string \<Rightarrow> string \<Rightarrow> string \<Rightarrow> bool \<Rightarrow> hooks \<Rightarrow>
   js_error + WebhookRegistration \<times> hooks" where
  "registerWebhook parse_url now uuid random32 url encrypt h =
     (case parse_url url of
        None \<Rightarrow> Inl (JsError ''Error'' ''Invalid webhook URL'')
      | Some protocol \<Rightarrow>
          if protocol \<noteq> ''https:'' \<and> protocol \<noteq> ''http:''
          then Inl (JsError ''Error'' ''Webhook URL must use http or https'')
          else (let reg = \<lparr>wh_id = uuid, wh_url = url, wh_secret = hex_encode random32, wh_createdAt = now\<rparr> in
                Inr (reg, h\<lparr>webhooks := m_set uuid reg (webhooks h)\<rparr>)))"

text \<open>A listed webhook has no secret.\<close>

record listed_webhook =
  lw_id :: string
  lw_url :: string
  lw_createdAt :: int

definition getWebhooks :: "hooks \<Rightarrow> listed_webhook list" where
  "getWebhooks h =
     map (\<lambda>w. \<lparr>lw_id = wh_id w, lw_url = wh_url w, lw_createdAt = wh_createdAt w\<rparr>) (m_values (webhooks h))"

definition deleteWebhook :: "string \<Rightarrow> hooks \<Rightarrow> bool \<times> hooks" where
  "deleteWebhook k h = (m_has (webhooks h) k, h\<lparr>webhooks := m_delete k (webhooks h)\<rparr>)"

definition getDeliveryLogs :: "hooks \<Rightarrow> DeliveryLog list" where "getDeliveryLogs h = deliveryLogs h"

subsection \<open>Delivery\<close>

definition sign :: "(string \<Rightarrow> string \<Rightarrow> string) \<Rightarrow> string \<Rightarrow> string \<Rightarrow> string" where
  "sign hmac payload secret = ''sha256='' @ hmac secret payload"

text \<open>What \<open>fetch\<close> comes to: a response with its status and \<open>ok\<close>, or an exception.\<close>

datatype fetch_result = Responds nat bool | Throws string

definition MAX_ATTEMPTS :: nat where "MAX_ATTEMPTS = 5"

text \<open>One attempt: the log afterwards, and the delay of the next attempt when there is one.\<close>

definition deliver_attempt :: "int \<Rightarrow> fetch_result \<Rightarrow> nat \<Rightarrow> DeliveryLog \<Rightarrow> DeliveryLog \<times> nat option" where
  "deliver_attempt now res attempt log0 =
     (let lg = log0\<lparr>dl_attempts := attempt + 1\<rparr>;
          retry = (if attempt + 1 < MAX_ATTEMPTS then Some (2 ^ attempt * 1000) else None) in
      case res of
        Responds st ok \<Rightarrow>
          (let lg = lg\<lparr>dl_lastStatus := Some st\<rparr> in
           if ok then (lg\<lparr>dl_deliveredAt := Some now\<rparr>, None)
           else (lg\<lparr>dl_lastError := Some (''HTTP '' @ string_of_nat st)\<rparr>, retry))
      | Throws msg \<Rightarrow> (lg\<lparr>dl_lastError := Some msg, dl_lastStatus := None\<rparr>, retry))"

lemma deliver_attempt_retry:
  "(log', Some d) = deliver_attempt now res attempt lg \<Longrightarrow> attempt + 1 < MAX_ATTEMPTS \<and> d = 2 ^ attempt * 1000"
  by (auto simp: deliver_attempt_def Let_def split: fetch_result.splits if_splits)

text \<open>
  A delivery from a given attempt on: \<open>answer i\<close> is the clock and the answer at attempt \<open>i\<close>. The
  second component lists the delays of the timers that were set.
\<close>

function deliver :: "(nat \<Rightarrow> int \<times> fetch_result) \<Rightarrow> nat \<Rightarrow> DeliveryLog \<Rightarrow> DeliveryLog \<times> nat list" where
  "deliver answer attempt lg =
     (case deliver_attempt (fst (answer attempt)) (snd (answer attempt)) attempt lg of
        (log', None) \<Rightarrow> (log', [])
      | (log', Some delay) \<Rightarrow> (let (log'', ds) = deliver answer (attempt + 1) log' in (log'', delay # ds)))"
  by pat_completeness auto

termination
  by (relation "measure (\<lambda>(_, attempt, _). MAX_ATTEMPTS - attempt)") (auto dest: deliver_attempt_retry)

declare deliver.simps [simp del]

text \<open>
  \<open>fireWebhooks\<close>: one log and one delivery per webhook, in order of registration. What is sent is
  returned beside the state: URL, body, signature and the place of the lg. The first attempt
  starts at once, so the lg counts one attempt.
\<close>

record sent =
  st_url :: string
  st_body :: string
  st_signature :: string
  st_log :: nat

definition new_log :: "string \<Rightarrow> json \<Rightarrow> WebhookRegistration \<Rightarrow> DeliveryLog" where
  "new_log event payload w =
     \<lparr>dl_webhookId = wh_id w, dl_event = event, dl_payload = payload, dl_attempts = 0,
      dl_lastStatus = None, dl_lastError = None, dl_deliveredAt = None\<rparr>"

definition event_body :: "(json \<Rightarrow> string) \<Rightarrow> string \<Rightarrow> json \<Rightarrow> int \<Rightarrow> string" where
  "event_body stringify event payload now =
     stringify (JObj [(''event'', JStr event), (''payload'', payload), (''timestamp'', jint now)])"

definition fireWebhooks ::
  "(string \<Rightarrow> string \<Rightarrow> string) \<Rightarrow> (json \<Rightarrow> string) \<Rightarrow> int \<Rightarrow> string \<Rightarrow> json \<Rightarrow> hooks \<Rightarrow> sent list \<times> hooks" where
  "fireWebhooks hmac stringify now event payload h =
     (let body = event_body stringify event payload now; whs = m_values (webhooks h);
          n = length (deliveryLogs h) in
      (map (\<lambda>(i, w). \<lparr>st_url = wh_url w, st_body = body, st_signature = sign hmac body (wh_secret w), st_log = n + i\<rparr>)
         (enumerate 0 whs),
       h\<lparr>deliveryLogs := deliveryLogs h @ map (\<lambda>w. (new_log event payload w)\<lparr>dl_attempts := 1\<rparr>) whs\<rparr>))"

subsection \<open>Deliveries end\<close>

definition succeeds :: "(nat \<Rightarrow> int \<times> fetch_result) \<Rightarrow> nat \<Rightarrow> bool" where
  "succeeds answer i = (case snd (answer i) of Responds _ ok \<Rightarrow> ok | Throws _ \<Rightarrow> False)"

lemma deliver_attempt_cases:
  "deliver_attempt now res attempt lg =
     (case res of Responds st ok \<Rightarrow>
        if ok then (lg\<lparr>dl_attempts := attempt + 1, dl_lastStatus := Some st, dl_deliveredAt := Some now\<rparr>, None)
        else (lg\<lparr>dl_attempts := attempt + 1, dl_lastStatus := Some st,
                 dl_lastError := Some (''HTTP '' @ string_of_nat st)\<rparr>,
              if attempt + 1 < 5 then Some (2 ^ attempt * 1000) else None)
      | Throws msg \<Rightarrow> (lg\<lparr>dl_attempts := attempt + 1, dl_lastStatus := None, dl_lastError := Some msg\<rparr>,
          if attempt + 1 < 5 then Some (2 ^ attempt * 1000) else None))"
  by (auto simp: deliver_attempt_def MAX_ATTEMPTS_def Let_def split: fetch_result.splits)

lemma deliver_attempt_ok:
  assumes "succeeds answer i"
  shows "\<exists>lg'. deliver_attempt (fst (answer i)) (snd (answer i)) i lg = (lg', None) \<and>
    dl_attempts lg' = i + 1 \<and> dl_deliveredAt lg' = Some (fst (answer i))"
  using assms by (cases "snd (answer i)") (simp_all add: deliver_attempt_cases succeeds_def)

lemma deliver_attempt_bad:
  assumes "\<not> succeeds answer i"
  shows "\<exists>lg'. deliver_attempt (fst (answer i)) (snd (answer i)) i lg =
      (lg', if i + 1 < 5 then Some (2 ^ i * 1000) else None) \<and>
    dl_attempts lg' = i + 1 \<and> dl_deliveredAt lg' = dl_deliveredAt lg \<and> dl_lastError lg' \<noteq> None"
  using assms by (cases "snd (answer i)") (simp_all add: deliver_attempt_cases succeeds_def)

lemma deliver_success:
  assumes "attempt \<le> n" "n < 5" "succeeds answer n" "\<forall>i. attempt \<le> i \<and> i < n \<longrightarrow> \<not> succeeds answer i"
  shows "dl_attempts (fst (deliver answer attempt lg)) = n + 1 \<and>
         dl_deliveredAt (fst (deliver answer attempt lg)) = Some (fst (answer n)) \<and>
         snd (deliver answer attempt lg) = map (\<lambda>i. 2 ^ i * 1000) [attempt..<n]"
  using assms
proof (induction "n - attempt" arbitrary: attempt lg)
  case 0
  then have n: "attempt = n" by simp
  obtain lg' where a: "deliver_attempt (fst (answer n)) (snd (answer n)) n lg = (lg', None)"
    "dl_attempts lg' = n + 1" "dl_deliveredAt lg' = Some (fst (answer n))"
    using deliver_attempt_ok [OF 0(4), of lg] by blast
  have "deliver answer n lg = (lg', [])" by (subst deliver.simps) (simp add: a)
  with a n show ?case by simp
next
  case (Suc d)
  then have lt: "attempt < n" "\<not> succeeds answer attempt" by auto
  then obtain log' where a:
    "deliver_attempt (fst (answer attempt)) (snd (answer attempt)) attempt lg = (log', Some (2 ^ attempt * 1000))"
    using deliver_attempt_bad [OF lt(2), of lg] Suc.prems(2) by auto
  have "dl_attempts (fst (deliver answer (attempt + 1) log')) = n + 1 \<and>
      dl_deliveredAt (fst (deliver answer (attempt + 1) log')) = Some (fst (answer n)) \<and>
      snd (deliver answer (attempt + 1) log') = map (\<lambda>i. 2 ^ i * 1000) [attempt + 1..<n]"
    using Suc lt by (intro Suc.hyps) auto
  moreover have "deliver answer attempt lg =
      (fst (deliver answer (attempt + 1) log'), 2 ^ attempt * 1000 # snd (deliver answer (attempt + 1) log'))"
    by (subst deliver.simps) (simp add: a Let_def split_beta)
  ultimately show ?case using lt by (simp add: upt_conv_Cons)
qed

lemma deliver_failure:
  assumes "attempt < 5" "\<forall>i. attempt \<le> i \<and> i < 5 \<longrightarrow> \<not> succeeds answer i"
  shows "dl_attempts (fst (deliver answer attempt lg)) = 5 \<and>
         dl_deliveredAt (fst (deliver answer attempt lg)) = dl_deliveredAt lg \<and>
         dl_lastError (fst (deliver answer attempt lg)) \<noteq> None \<and>
         snd (deliver answer attempt lg) = map (\<lambda>i. 2 ^ i * 1000) [attempt..<4]"
  using assms
proof (induction "4 - attempt" arbitrary: attempt lg)
  case 0
  then have n: "attempt = 4" by simp
  with 0 obtain lg' where a: "deliver_attempt (fst (answer 4)) (snd (answer 4)) 4 lg = (lg', None)"
    "dl_attempts lg' = 5" "dl_deliveredAt lg' = dl_deliveredAt lg" "dl_lastError lg' \<noteq> None"
    using deliver_attempt_bad [of answer 4 lg] by auto
  have "deliver answer 4 lg = (lg', [])" by (subst deliver.simps) (simp add: a)
  with a n show ?case by simp
next
  case (Suc d)
  then have lt: "attempt < 4" "\<not> succeeds answer attempt" by auto
  then obtain log' where a:
    "deliver_attempt (fst (answer attempt)) (snd (answer attempt)) attempt lg = (log', Some (2 ^ attempt * 1000))"
    "dl_deliveredAt log' = dl_deliveredAt lg"
    using deliver_attempt_bad [OF lt(2), of lg] by auto
  have "dl_attempts (fst (deliver answer (attempt + 1) log')) = 5 \<and>
      dl_deliveredAt (fst (deliver answer (attempt + 1) log')) = dl_deliveredAt log' \<and>
      dl_lastError (fst (deliver answer (attempt + 1) log')) \<noteq> None \<and>
      snd (deliver answer (attempt + 1) log') = map (\<lambda>i. 2 ^ i * 1000) [attempt + 1..<4]"
    using Suc lt by (intro Suc.hyps) auto
  moreover have "deliver answer attempt lg =
      (fst (deliver answer (attempt + 1) log'), 2 ^ attempt * 1000 # snd (deliver answer (attempt + 1) log'))"
    by (subst deliver.simps) (simp add: a Let_def split_beta)
  ultimately show ?case using lt a by (simp add: upt_conv_Cons)
qed

subsection \<open>Properties\<close>

text \<open>C34: A delivery always ends, after the first accepted attempt or after the fifth: the log then
  counts the attempts made, holds the time of the success or the last error, and the pauses
  between the attempts were 1, 2, 4 and 8 seconds.\<close>

theorem delivery_ends:
  "let (lg, delays) = deliver answer 0 (new_log event payload w);
       first = (if list_ex (succeeds answer) [0..<5] then the (List.find (succeeds answer) [0..<5]) else 4) in
   dl_attempts lg = first + 1 \<and> delays = map (\<lambda>i. 2 ^ i * 1000) [0..<first] \<and>
   (if list_ex (succeeds answer) [0..<5] then dl_deliveredAt lg = Some (fst (answer first))
    else dl_deliveredAt lg = None \<and> dl_lastError lg \<noteq> None)"
proof (cases "list_ex (succeeds answer) [0..<5]")
  case True
  then obtain n where n: "List.find (succeeds answer) [0..<5] = Some n"
    by (cases "List.find (succeeds answer) [0..<5]") (auto simp: find_None_iff list_ex_iff)
  then have "n < 5" "succeeds answer n" "\<forall>i. 0 \<le> i \<and> i < n \<longrightarrow> \<not> succeeds answer i"
    by (auto simp: find_Some_iff)
  with deliver_success [of 0 n answer "new_log event payload w"] True n show ?thesis
    by (simp add: split_beta Let_def)
next
  case False
  then have "\<forall>i. 0 \<le> i \<and> i < 5 \<longrightarrow> \<not> succeeds answer i" by (auto simp: list_ex_iff)
  with deliver_failure [of 0 answer "new_log event payload w"] False show ?thesis
    by (simp add: split_beta Let_def new_log_def)
qed

text \<open>An event goes to every registered webhook exactly once and in order of registration, with
  a body that names the event and a signature under the webhook's own secret, and it gets one
  new log each, which no earlier log is changed for.\<close>

theorem event_goes_to_every_webhook:
  "let (out, h') = fireWebhooks hmac stringify now event payload h;
       body = event_body stringify event payload now in
   map (\<lambda>s. (st_url s, st_body s, st_signature s)) out =
     map (\<lambda>w. (wh_url w, body, ''sha256='' @ hmac (wh_secret w) body)) (m_values (webhooks h)) \<and>
   take (length (deliveryLogs h)) (deliveryLogs h') = deliveryLogs h \<and>
   map (\<lambda>s. dl_webhookId (deliveryLogs h' ! st_log s)) out = map wh_id (m_values (webhooks h)) \<and>
   webhooks h' = webhooks h"
  by (auto simp: fireWebhooks_def Let_def sign_def new_log_def enumerate_eq_zip nth_append zip_map_fst_snd
      intro!: nth_equalityI)

text \<open>A payload encrypted for transport decrypts to itself under the same key, given that
  AES-256-GCM opens what it sealed; hexadecimal in between loses nothing.\<close>

theorem encrypted_payload_roundtrip:
  assumes "\<And>k iv m. aes_open k iv (fst (aes_seal k iv m)) (snd (aes_seal k iv m)) = Inr m"
  shows "let e = encryptPayload aes_seal iv plaintext key in
         decryptPayload aes_open (en_iv e) (en_payload e) (en_tag e) key = Inr plaintext"
  using assms by (simp add: encryptPayload_def decryptPayload_def split_beta Let_def)

theorem encrypted_payload_roundtrip_witness:
  "let e = encryptPayload (\<lambda>k iv m. (rev m, k)) ''iv'' ''payload'' ''key'' in
   decryptPayload (\<lambda>k iv c t. if t = k then Inr (rev c) else Inl (JsError ''Error'' ''bad tag''))
     (en_iv e) (en_payload e) (en_tag e) ''key'' = Inr ''payload''"
  using encrypted_payload_roundtrip [of "\<lambda>k iv c t. if t = k then Inr (rev c) else Inl (JsError ''Error'' ''bad tag'')"
      "\<lambda>k iv m. (rev m, k)" "''iv''" "''payload''" "''key''"] by simp

text \<open>The \<open>encrypt\<close> flag of a registration has no effect at all: whoever asks for encrypted
  deliveries gets the same registration, and every event is sent in the clear.\<close>

theorem encrypt_flag_ignored:
  "registerWebhook parse_url now uuid random32 url True h = registerWebhook parse_url now uuid random32 url False h"
  by (simp add: registerWebhook_def)

end
