(* ===== verification/Store.thy ===== *)
theory Store
  imports Js_String Interfaces "HOL-Library.Multiset"
begin

section \<open>The in-memory store (backend/src/db/store.ts)\<close>

text \<open>
  The four tables and every exported operation on them. A table is a JavaScript \<open>Map\<close>, a
  record that the code mutates in place is written back under its key, and an operation
  returns its value beside the store it leaves. \<open>now\<close> is the clock reading of the call in
  milliseconds; it stands for the ISO strings of the records, which print and parse it without
  loss. \<open>rnd\<close> is the random part of a generated id, and \<open>parse_date\<close> what \<open>new Date(s)\<close>
  makes of a string of the caller (\<open>None\<close> for an invalid date, which compares false with
  everything). Numbers are the finite values of the type \<open>number\<close>.
\<close>

subsection \<open>Records\<close>

datatype CollateralStatus = Available | Pledged | CLiquidated

datatype LoanStatus = LActive | LAtRisk | LRepaid | LLiquidated

datatype TransactionType = TLoan | TRepayment | TLiquidation

datatype TransactionStatus = TPending | TCompleted | TFailed

fun CollateralStatus_str :: "CollateralStatus \<Rightarrow> string" where
  "CollateralStatus_str Available = ''available''"
| "CollateralStatus_str Pledged = ''pledged''"
| "CollateralStatus_str CLiquidated = ''liquidated''"

fun LoanStatus_str :: "LoanStatus \<Rightarrow> string" where
  "LoanStatus_str LActive = ''active''"
| "LoanStatus_str LAtRisk = ''at_risk''"
| "LoanStatus_str LRepaid = ''repaid''"
| "LoanStatus_str LLiquidated = ''liquidated''"

fun TransactionType_str :: "TransactionType \<Rightarrow> string" where
  "TransactionType_str TLoan = ''loan''"
| "TransactionType_str TRepayment = ''repayment''"
| "TransactionType_str TLiquidation = ''liquidation''"

fun TransactionStatus_str :: "TransactionStatus \<Rightarrow> string" where
  "TransactionStatus_str TPending = ''pending''"
| "TransactionStatus_str TCompleted = ''completed''"
| "TransactionStatus_str TFailed = ''failed''"

record AppraisalEntry =
  a_date :: int
  a_value :: rat
  a_appraiser :: "string option"

text \<open>The fields a caller of \<open>insertCollateral\<close> gives, and those the store adds.\<close>

record CollateralData =
  c_id :: string
  c_owner :: string
  c_animal_type :: string
  c_breed :: "string option"
  c_age_years :: "rat option"
  c_weight_kg :: "rat option"
  c_photo_url :: "string option"
  c_count :: rat
  c_appraised_value :: rat
  c_species :: "string option"
  c_age :: "rat option"
  c_weight :: "rat option"
  c_image_url :: "string option"
  c_status :: "CollateralStatus option"

record CollateralRecord = CollateralData +
  c_appraisal_history :: "AppraisalEntry list"
  c_createdAt :: int
  c_deletedAt :: "int option"

record LoanData =
  l_id :: string
  l_borrower :: string
  l_collateral_id :: string
  l_amount :: rat
  l_status :: "LoanStatus option"
  l_health_factor :: "rat option"

record LoanRecord = LoanData +
  l_createdAt :: int
  l_deletedAt :: "int option"

record TransactionData =
  t_borrower :: string
  t_type :: TransactionType
  t_status :: TransactionStatus
  t_amount :: rat
  t_loanId :: "string option"
  t_collateralId :: "string option"

record TransactionRecord = TransactionData +
  t_id :: string
  t_createdAt :: int
  t_updatedAt :: int

record LiquidationData =
  q_loan_id :: string
  q_liquidator :: string
  q_repay_amount :: rat

record LiquidationEvent = LiquidationData +
  q_id :: string
  q_timestamp :: int

record LoanSummary =
  activeLoans :: nat
  totalCollateralValue :: rat
  averageHealthFactor :: rat
  atRiskCount :: nat

record store =
  collateralTable :: "(string, CollateralRecord) js_map"
  loanTable :: "(string, LoanRecord) js_map"
  transactionTable :: "(string, TransactionRecord) js_map"
  liquidationEventTable :: "(string, LiquidationEvent) js_map"

definition empty_store :: store where
  "empty_store =
     \<lparr>collateralTable = [], loanTable = [], transactionTable = [], liquidationEventTable = []\<rparr>"

text \<open>A page of a listing.\<close>

record 'a listing =
  ls_data :: "'a list"
  ls_total :: nat
  ls_page :: int
  ls_limit :: int

subsection \<open>Collateral\<close>

definition insertCollateral :: "int \<Rightarrow> CollateralData \<Rightarrow> store \<Rightarrow> CollateralRecord \<times> store" where
  "insertCollateral now d s =
     (let r = CollateralData.extend
                (d\<lparr>c_status := (case c_status d of None \<Rightarrow> Some Available | Some st \<Rightarrow> Some st)\<rparr>)
                \<lparr>c_appraisal_history = [\<lparr>a_date = now, a_value = c_appraised_value d, a_appraiser = None\<rparr>],
                 c_createdAt = now, c_deletedAt = None\<rparr> in
      (r, s\<lparr>collateralTable := m_set (c_id r) r (collateralTable s)\<rparr>))"

definition addAppraisal :: "int \<Rightarrow> string \<Rightarrow> rat \<Rightarrow> string option \<Rightarrow> store \<Rightarrow> bool \<times> store" where
  "addAppraisal now k v appraiser s =
     (case m_get (collateralTable s) k of
        None \<Rightarrow> (False, s)
      | Some r \<Rightarrow>
          if c_deletedAt r \<noteq> None then (False, s)
          else (True, s\<lparr>collateralTable := m_set k
                  (r\<lparr>c_appraised_value := v,
                     c_appraisal_history := c_appraisal_history r @
                       [\<lparr>a_date = now, a_value = v, a_appraiser = truthy_str appraiser\<rparr>]\<rparr>)
                  (collateralTable s)\<rparr>))"

definition getAppraisalHistory ::
  "string \<Rightarrow> int option \<Rightarrow> int option \<Rightarrow> store \<Rightarrow> AppraisalEntry listing option" where
  "getAppraisalHistory k page limit s =
     (case m_get (collateralTable s) k of
        None \<Rightarrow> None
      | Some r \<Rightarrow>
          if c_deletedAt r \<noteq> None then None
          else (let p = (case page of None \<Rightarrow> 1 | Some n \<Rightarrow> n);
                    l = (case limit of None \<Rightarrow> 20 | Some n \<Rightarrow> n);
                    sorted = sort_key (\<lambda>a. - a_date a) (c_appraisal_history r);
                    cappedLimit = min l 100; safePage = max p 1 in
                Some \<lparr>ls_data = js_slice ((safePage - 1) * cappedLimit) (safePage * cappedLimit) sorted,
                      ls_total = length sorted, ls_page = safePage, ls_limit = cappedLimit\<rparr>))"

record collateral_filter =
  cf_status :: "CollateralStatus option"
  cf_ownerId :: "string option"
  cf_page :: "int option"
  cf_limit :: "int option"

definition listCollateral :: "collateral_filter \<Rightarrow> store \<Rightarrow> CollateralRecord listing" where
  "listCollateral f s =
     (let limit = min (case cf_limit f of None \<Rightarrow> 20 | Some n \<Rightarrow> n) 100;
          page = max (case cf_page f of None \<Rightarrow> 1 | Some n \<Rightarrow> n) 1;
          r0 = filter (\<lambda>r. c_deletedAt r = None) (m_values (collateralTable s));
          r1 = (case cf_status f of None \<Rightarrow> r0 | Some st \<Rightarrow> filter (\<lambda>r. c_status r = Some st) r0);
          r2 = (case truthy_str (cf_ownerId f) of None \<Rightarrow> r1 | Some w \<Rightarrow> filter (\<lambda>r. c_owner r = w) r1);
          results = sort_key (\<lambda>r. - c_createdAt r) r2;
          start = (page - 1) * limit in
      \<lparr>ls_data = js_slice start (start + limit) results, ls_total = length results,
       ls_page = page, ls_limit = limit\<rparr>)"

definition getCollateral :: "string \<Rightarrow> store \<Rightarrow> CollateralRecord option" where
  "getCollateral k s =
     (case m_get (collateralTable s) k of
        None \<Rightarrow> None
      | Some r \<Rightarrow> if c_deletedAt r = None then Some r else None)"

definition getCollateralIncludingDeleted :: "string \<Rightarrow> store \<Rightarrow> CollateralRecord option" where
  "getCollateralIncludingDeleted k s = m_get (collateralTable s) k"

text \<open>The partial records the code passes to the update functions; an absent field keeps its value.\<close>

record collateral_updates =
  cu_animal_type :: "string option"
  cu_count :: "rat option"
  cu_appraised_value :: "rat option"
  cu_status :: "CollateralStatus option"

definition no_collateral_updates :: collateral_updates where
  "no_collateral_updates =
     \<lparr>cu_animal_type = None, cu_count = None, cu_appraised_value = None, cu_status = None\<rparr>"

definition merge_collateral :: "CollateralRecord \<Rightarrow> collateral_updates \<Rightarrow> CollateralRecord" where
  "merge_collateral r u =
     r\<lparr>c_animal_type := (case cu_animal_type u of None \<Rightarrow> c_animal_type r | Some v \<Rightarrow> v),
       c_count := (case cu_count u of None \<Rightarrow> c_count r | Some v \<Rightarrow> v),
       c_appraised_value := (case cu_appraised_value u of None \<Rightarrow> c_appraised_value r | Some v \<Rightarrow> v),
       c_status := (case cu_status u of None \<Rightarrow> c_status r | Some v \<Rightarrow> Some v)\<rparr>"

definition updateCollateral ::
  "string \<Rightarrow> collateral_updates \<Rightarrow> store \<Rightarrow> CollateralRecord option \<times> store" where
  "updateCollateral k u s =
     (case m_get (collateralTable s) k of
        None \<Rightarrow> (None, s)
      | Some r \<Rightarrow>
          (let r' = merge_collateral r u in
           (Some r', s\<lparr>collateralTable := m_set k r' (collateralTable s)\<rparr>)))"

definition softDeleteCollateral :: "int \<Rightarrow> string \<Rightarrow> store \<Rightarrow> bool \<times> store" where
  "softDeleteCollateral now k s =
     (case m_get (collateralTable s) k of
        None \<Rightarrow> (False, s)
      | Some r \<Rightarrow>
          if c_deletedAt r \<noteq> None then (False, s)
          else (True, s\<lparr>collateralTable := m_set k (r\<lparr>c_deletedAt := Some now\<rparr>) (collateralTable s)\<rparr>))"

definition restoreCollateral :: "string \<Rightarrow> store \<Rightarrow> bool \<times> store" where
  "restoreCollateral k s =
     (case m_get (collateralTable s) k of
        None \<Rightarrow> (False, s)
      | Some r \<Rightarrow>
          if c_deletedAt r = None then (False, s)
          else (True, s\<lparr>collateralTable := m_set k (r\<lparr>c_deletedAt := None\<rparr>) (collateralTable s)\<rparr>))"

definition listDeletedCollateral :: "store \<Rightarrow> CollateralRecord list" where
  "listDeletedCollateral s = filter (\<lambda>r. c_deletedAt r \<noteq> None) (m_values (collateralTable s))"

subsection \<open>Loans\<close>

definition insertLoan :: "int \<Rightarrow> LoanData \<Rightarrow> store \<Rightarrow> LoanRecord \<times> store" where
  "insertLoan now d s =
     (let r = LoanData.extend
                (d\<lparr>l_status := (case l_status d of None \<Rightarrow> Some LActive | Some st \<Rightarrow> Some st)\<rparr>)
                \<lparr>l_createdAt = now, l_deletedAt = None\<rparr> in
      (r, s\<lparr>loanTable := m_set (l_id r) r (loanTable s)\<rparr>))"

record loan_filter =
  lf_status :: "string option"
  lf_borrowerAddress :: "string option"
  lf_from :: "string option"
  lf_to :: "string option"
  lf_page :: "int option"
  lf_limit :: "int option"

definition no_loan_filter :: loan_filter where
  "no_loan_filter = \<lparr>lf_status = None, lf_borrowerAddress = None, lf_from = None, lf_to = None,
     lf_page = None, lf_limit = None\<rparr>"

text \<open>\<open>x || d\<close> on an optional number.\<close>

definition or_default :: "int option \<Rightarrow> int \<Rightarrow> int" where
  "or_default x d = (case x of None \<Rightarrow> d | Some n \<Rightarrow> if n = 0 then d else n)"

text \<open>The comparisons with a date the caller gave.\<close>

definition not_before :: "(string \<Rightarrow> int option) \<Rightarrow> string \<Rightarrow> int \<Rightarrow> bool" where
  "not_before parse_date d t = (case parse_date d of None \<Rightarrow> False | Some u \<Rightarrow> u \<le> t)"

definition not_after :: "(string \<Rightarrow> int option) \<Rightarrow> string \<Rightarrow> int \<Rightarrow> bool" where
  "not_after parse_date d t = (case parse_date d of None \<Rightarrow> False | Some u \<Rightarrow> t \<le> u)"

definition loan_matches :: "(string \<Rightarrow> int option) \<Rightarrow> loan_filter \<Rightarrow> LoanRecord \<Rightarrow> bool" where
  "loan_matches parse_date f r \<longleftrightarrow>
     l_deletedAt r = None \<and>
     (case truthy_str (lf_status f) of None \<Rightarrow> True | Some st \<Rightarrow> map_option LoanStatus_str (l_status r) = Some st) \<and>
     (case truthy_str (lf_borrowerAddress f) of None \<Rightarrow> True | Some w \<Rightarrow> l_borrower r = w) \<and>
     (case truthy_str (lf_from f) of None \<Rightarrow> True | Some d \<Rightarrow> not_before parse_date d (l_createdAt r)) \<and>
     (case truthy_str (lf_to f) of None \<Rightarrow> True | Some d \<Rightarrow> not_after parse_date d (l_createdAt r))"

definition listLoans :: "(string \<Rightarrow> int option) \<Rightarrow> loan_filter \<Rightarrow> store \<Rightarrow> LoanRecord listing" where
  "listLoans parse_date f s =
     (let limit = min (or_default (lf_limit f) 20) 100;
          page = max (or_default (lf_page f) 1) 1;
          results = sort_key (\<lambda>r. - l_createdAt r) (filter (loan_matches parse_date f) (m_values (loanTable s))) in
      \<lparr>ls_data = js_slice ((page - 1) * limit) (page * limit) results, ls_total = length results,
       ls_page = page, ls_limit = limit\<rparr>)"

definition is_open_status :: "LoanStatus option \<Rightarrow> bool" where
  "is_open_status st \<longleftrightarrow> st = Some LActive \<or> st = Some LAtRisk"

definition listActiveLoans :: "store \<Rightarrow> LoanRecord list" where
  "listActiveLoans s =
     filter (\<lambda>r. l_deletedAt r = None \<and> is_open_status (l_status r)) (m_values (loanTable s))"

definition normalizeHealthFactor :: "rat option \<Rightarrow> rat option" where
  "normalizeHealthFactor v =
     (case v of
        None \<Rightarrow> None
      | Some x \<Rightarrow> if x \<le> 0 then None else Some (if 100 < x then js_div x 10000 else x))"

definition getLoanSummaryForBorrower :: "string \<Rightarrow> store \<Rightarrow> LoanSummary" where
  "getLoanSummaryForBorrower borrower s =
     (let active = filter (\<lambda>r. l_deletedAt r = None \<and> l_borrower r = borrower \<and> is_open_status (l_status r))
                     (m_values (loanTable s));
          total = foldl (\<lambda>sum loan. case m_get (collateralTable s) (l_collateral_id loan) of
                           None \<Rightarrow> sum
                         | Some c \<Rightarrow> if c_deletedAt c \<noteq> None then sum else js_add sum (c_appraised_value c))
                    0 active;
          hfs = List.map_filter (\<lambda>loan. normalizeHealthFactor (l_health_factor loan)) active;
          avg = (if hfs \<noteq> [] then to_fixed 4 (js_div (foldl js_add 0 hfs) (of_nat (length hfs))) else 0);
          risk = length (filter (\<lambda>loan. case normalizeHealthFactor (l_health_factor loan) of
                                   None \<Rightarrow> False | Some hf \<Rightarrow> hf < fl (6 / 5)) active) in
      \<lparr>activeLoans = length active, totalCollateralValue = total, averageHealthFactor = avg,
       atRiskCount = risk\<rparr>)"

definition getLoan :: "string \<Rightarrow> store \<Rightarrow> LoanRecord option" where
  "getLoan k s =
     (case m_get (loanTable s) k of
        None \<Rightarrow> None
      | Some r \<Rightarrow> if l_deletedAt r = None then Some r else None)"

record loan_updates =
  lu_amount :: "rat option"
  lu_status :: "LoanStatus option"
  lu_health_factor :: "rat option option"

definition no_loan_updates :: loan_updates where
  "no_loan_updates = \<lparr>lu_amount = None, lu_status = None, lu_health_factor = None\<rparr>"

definition merge_loan :: "LoanRecord \<Rightarrow> loan_updates \<Rightarrow> LoanRecord" where
  "merge_loan r u =
     r\<lparr>l_amount := (case lu_amount u of None \<Rightarrow> l_amount r | Some v \<Rightarrow> v),
       l_status := (case lu_status u of None \<Rightarrow> l_status r | Some v \<Rightarrow> Some v),
       l_health_factor := (case lu_health_factor u of None \<Rightarrow> l_health_factor r | Some v \<Rightarrow> v)\<rparr>"

definition updateLoan :: "string \<Rightarrow> loan_updates \<Rightarrow> store \<Rightarrow> LoanRecord option \<times> store" where
  "updateLoan k u s =
     (case m_get (loanTable s) k of
        None \<Rightarrow> (None, s)
      | Some r \<Rightarrow>
          (let r' = merge_loan r u in (Some r', s\<lparr>loanTable := m_set k r' (loanTable s)\<rparr>)))"

definition softDeleteLoan :: "int \<Rightarrow> string \<Rightarrow> store \<Rightarrow> bool \<times> store" where
  "softDeleteLoan now k s =
     (case m_get (loanTable s) k of
        None \<Rightarrow> (False, s)
      | Some r \<Rightarrow>
          if l_deletedAt r \<noteq> None then (False, s)
          else (True, s\<lparr>loanTable := m_set k (r\<lparr>l_deletedAt := Some now\<rparr>) (loanTable s)\<rparr>))"

definition restoreLoan :: "string \<Rightarrow> store \<Rightarrow> bool \<times> store" where
  "restoreLoan k s =
     (case m_get (loanTable s) k of
        None \<Rightarrow> (False, s)
      | Some r \<Rightarrow>
          if l_deletedAt r = None then (False, s)
          else (True, s\<lparr>loanTable := m_set k (r\<lparr>l_deletedAt := None\<rparr>) (loanTable s)\<rparr>))"

definition listDeletedLoans :: "store \<Rightarrow> LoanRecord list" where
  "listDeletedLoans s = filter (\<lambda>r. l_deletedAt r \<noteq> None) (m_values (loanTable s))"

definition isCollateralPledged :: "string \<Rightarrow> store \<Rightarrow> bool" where
  "isCollateralPledged cid s \<longleftrightarrow>
     list_ex (\<lambda>r. l_collateral_id r = cid \<and> is_open_status (l_status r) \<and> l_deletedAt r = None)
       (m_values (loanTable s))"

subsection \<open>Transactions and liquidation events\<close>

definition insertTransaction ::
  "int \<Rightarrow> string \<Rightarrow> TransactionData \<Rightarrow> store \<Rightarrow> TransactionRecord \<times> store" where
  "insertTransaction now rnd d s =
     (let k = ''tx_'' @ string_of_int now @ ''_'' @ rnd;
          r = TransactionData.extend d \<lparr>t_id = k, t_createdAt = now, t_updatedAt = now\<rparr> in
      (r, s\<lparr>transactionTable := m_set (t_id r) r (transactionTable s)\<rparr>))"

record transaction_filter =
  tf_borrower :: "string option"
  tf_type :: "string option"
  tf_status :: "string option"
  tf_loanId :: "string option"
  tf_collateralId :: "string option"
  tf_startDate :: "string option"
  tf_endDate :: "string option"
  tf_page :: "int option"
  tf_pageSize :: "int option"

definition transaction_matches ::
  "(string \<Rightarrow> int option) \<Rightarrow> transaction_filter \<Rightarrow> TransactionRecord \<Rightarrow> bool" where
  "transaction_matches parse_date f r \<longleftrightarrow>
     (case truthy_str (tf_borrower f) of None \<Rightarrow> True | Some w \<Rightarrow> t_borrower r = w) \<and>
     (case truthy_str (tf_type f) of None \<Rightarrow> True | Some ty \<Rightarrow> TransactionType_str (t_type r) = ty) \<and>
     (case truthy_str (tf_status f) of None \<Rightarrow> True | Some st \<Rightarrow> TransactionStatus_str (t_status r) = st) \<and>
     (case truthy_str (tf_loanId f) of None \<Rightarrow> True | Some l \<Rightarrow> t_loanId r = Some l) \<and>
     (case truthy_str (tf_collateralId f) of None \<Rightarrow> True | Some c \<Rightarrow> t_collateralId r = Some c) \<and>
     (case truthy_str (tf_startDate f) of None \<Rightarrow> True | Some d \<Rightarrow> not_before parse_date d (t_createdAt r)) \<and>
     (case truthy_str (tf_endDate f) of None \<Rightarrow> True | Some d \<Rightarrow> not_after parse_date d (t_createdAt r))"

definition listTransactions ::
  "(string \<Rightarrow> int option) \<Rightarrow> transaction_filter \<Rightarrow> store \<Rightarrow> TransactionRecord listing" where
  "listTransactions parse_date f s =
     (let pageSize = or_default (tf_pageSize f) 20;
          page = or_default (tf_page f) 1;
          results = sort_key (\<lambda>r. - t_createdAt r)
            (filter (transaction_matches parse_date f) (m_values (transactionTable s)));
          start = (page - 1) * pageSize in
      \<lparr>ls_data = js_slice start (start + pageSize) results, ls_total = length results,
       ls_page = page, ls_limit = pageSize\<rparr>)"

definition getTransaction :: "string \<Rightarrow> store \<Rightarrow> TransactionRecord option" where
  "getTransaction k s = m_get (transactionTable s) k"

record transaction_updates =
  tu_type :: "TransactionType option"
  tu_status :: "TransactionStatus option"
  tu_amount :: "rat option"

definition updateTransaction ::
  "int \<Rightarrow> string \<Rightarrow> transaction_updates \<Rightarrow> store \<Rightarrow> TransactionRecord option \<times> store" where
  "updateTransaction now k u s =
     (case m_get (transactionTable s) k of
        None \<Rightarrow> (None, s)
      | Some r \<Rightarrow>
          (let r' = r\<lparr>t_type := (case tu_type u of None \<Rightarrow> t_type r | Some v \<Rightarrow> v),
                      t_status := (case tu_status u of None \<Rightarrow> t_status r | Some v \<Rightarrow> v),
                      t_amount := (case tu_amount u of None \<Rightarrow> t_amount r | Some v \<Rightarrow> v),
                      t_updatedAt := now\<rparr> in
           (Some r', s\<lparr>transactionTable := m_set k r' (transactionTable s)\<rparr>)))"

definition insertLiquidationEvent ::
  "int \<Rightarrow> string \<Rightarrow> LiquidationData \<Rightarrow> store \<Rightarrow> LiquidationEvent \<times> store" where
  "insertLiquidationEvent now rnd d s =
     (let k = ''liq_'' @ string_of_int now @ ''_'' @ rnd;
          r = LiquidationData.extend d \<lparr>q_id = k, q_timestamp = now\<rparr> in
      (r, s\<lparr>liquidationEventTable := m_set k r (liquidationEventTable s)\<rparr>))"

definition getLiquidationEvents :: "string \<Rightarrow> store \<Rightarrow> LiquidationEvent list" where
  "getLiquidationEvents loan s =
     filter (\<lambda>e. q_loan_id e = loan) (m_values (liquidationEventTable s))"

subsection \<open>The simplifier's view of the operations\<close>

lemmas collateral_defs = insertCollateral_def addAppraisal_def updateCollateral_def
  softDeleteCollateral_def restoreCollateral_def

lemmas loan_defs = insertLoan_def updateLoan_def softDeleteLoan_def restoreLoan_def

lemmas transaction_defs = insertTransaction_def updateTransaction_def insertLiquidationEvent_def

lemmas get_defs = getCollateral_def getCollateralIncludingDeleted_def getLoan_def getTransaction_def

lemma merge_collateral_keeps [simp]:
  "c_id (merge_collateral r u) = c_id r" "c_owner (merge_collateral r u) = c_owner r"
  "c_appraisal_history (merge_collateral r u) = c_appraisal_history r"
  "c_createdAt (merge_collateral r u) = c_createdAt r" "c_deletedAt (merge_collateral r u) = c_deletedAt r"
  by (simp_all add: merge_collateral_def)

lemma merge_loan_keeps [simp]:
  "l_id (merge_loan r u) = l_id r" "l_borrower (merge_loan r u) = l_borrower r"
  "l_collateral_id (merge_loan r u) = l_collateral_id r"
  "l_createdAt (merge_loan r u) = l_createdAt r" "l_deletedAt (merge_loan r u) = l_deletedAt r"
  by (simp_all add: merge_loan_def)

lemma merge_status:
  "c_status (merge_collateral r u) = (case cu_status u of None \<Rightarrow> c_status r | Some v \<Rightarrow> Some v)"
  "l_status (merge_loan r' u') = (case lu_status u' of None \<Rightarrow> l_status r' | Some v \<Rightarrow> Some v)"
  by (simp_all add: merge_collateral_def merge_loan_def)

lemma merge_loan_one [simp]:
  "merge_loan r (no_loan_updates\<lparr>lu_status := Some st\<rparr>) = r\<lparr>l_status := Some st\<rparr>"
  "merge_loan r (no_loan_updates\<lparr>lu_amount := Some a\<rparr>) = r\<lparr>l_amount := a\<rparr>"
  by (cases r; simp add: merge_loan_def no_loan_updates_def)+

lemma merge_collateral_one [simp]:
  "merge_collateral c (no_collateral_updates\<lparr>cu_status := Some st\<rparr>) = c\<lparr>c_status := Some st\<rparr>"
  by (cases c) (simp add: merge_collateral_def no_collateral_updates_def)

lemma updateCollateral_get:
  "getCollateral k (snd (updateCollateral k' u s)) =
     (if k = k' then map_option (\<lambda>r. merge_collateral r u) (getCollateral k s) else getCollateral k s)"
  by (auto simp: updateCollateral_def getCollateral_def Let_def split: option.splits)

lemma updateLoan_get:
  "getLoan k (snd (updateLoan k' u s)) =
     (if k = k' then map_option (\<lambda>r. merge_loan r u) (getLoan k s) else getLoan k s)"
  by (auto simp: updateLoan_def getLoan_def Let_def split: option.splits)

text \<open>No operation of one table touches another.\<close>

lemma collateral_frame [simp]:
  "loanTable (snd (insertCollateral now d s)) = loanTable s"
  "loanTable (snd (addAppraisal now k v a s)) = loanTable s"
  "loanTable (snd (updateCollateral k u s)) = loanTable s"
  "loanTable (snd (softDeleteCollateral now k s)) = loanTable s"
  "loanTable (snd (restoreCollateral k s)) = loanTable s"
  "transactionTable (snd (updateCollateral k u s)) = transactionTable s"
  "liquidationEventTable (snd (updateCollateral k u s)) = liquidationEventTable s"
  by (auto simp: collateral_defs Let_def split: option.splits)

lemma loan_frame [simp]:
  "collateralTable (snd (insertLoan now l s)) = collateralTable s"
  "collateralTable (snd (updateLoan k lu s)) = collateralTable s"
  "collateralTable (snd (softDeleteLoan now k s)) = collateralTable s"
  "collateralTable (snd (restoreLoan k s)) = collateralTable s"
  "transactionTable (snd (updateLoan k lu s)) = transactionTable s"
  "liquidationEventTable (snd (updateLoan k lu s)) = liquidationEventTable s"
  by (auto simp: loan_defs Let_def split: option.splits)

lemma transaction_frame [simp]:
  "collateralTable (snd (insertTransaction now rnd d s)) = collateralTable s"
  "loanTable (snd (insertTransaction now rnd d s)) = loanTable s"
  "liquidationEventTable (snd (insertTransaction now rnd d s)) = liquidationEventTable s"
  "collateralTable (snd (insertLiquidationEvent now rnd q s)) = collateralTable s"
  "loanTable (snd (insertLiquidationEvent now rnd q s)) = loanTable s"
  "transactionTable (snd (insertLiquidationEvent now rnd q s)) = transactionTable s"
  "collateralTable (snd (updateTransaction now k u s)) = collateralTable s"
  "loanTable (snd (updateTransaction now k u s)) = loanTable s"
  "liquidationEventTable (snd (updateTransaction now k u s)) = liquidationEventTable s"
  by (simp_all add: transaction_defs Let_def split: option.split)

subsection \<open>Well-formed stores\<close>

text \<open>
  A table holds every record once, under the record's own id. A collateral record has a status
  and a valuation in its history, a loan has a status, and an update of a transaction is not
  dated before its creation when the clock does not run backwards.
\<close>

definition table_ok :: "('r \<Rightarrow> string) \<Rightarrow> ('r \<Rightarrow> bool) \<Rightarrow> (string, 'r) js_map \<Rightarrow> bool" where
  "table_ok key ok t \<longleftrightarrow> m_wf t \<and> list_all (\<lambda>(k, r). key r = k \<and> ok r) t"

definition collateral_ok :: "CollateralRecord \<Rightarrow> bool" where
  "collateral_ok r \<longleftrightarrow> c_status r \<noteq> None \<and> c_appraisal_history r \<noteq> []"

definition loan_ok :: "LoanRecord \<Rightarrow> bool" where "loan_ok r \<longleftrightarrow> l_status r \<noteq> None"

definition store_wf :: "store \<Rightarrow> bool" where
  "store_wf s \<longleftrightarrow>
     table_ok c_id collateral_ok (collateralTable s) \<and> table_ok l_id loan_ok (loanTable s) \<and>
     table_ok t_id (\<lambda>_. True) (transactionTable s) \<and> table_ok q_id (\<lambda>_. True) (liquidationEventTable s)"

lemma table_ok_Nil [simp]: "table_ok key ok []"
  by (simp add: table_ok_def)

lemma table_ok_set:
  assumes "table_ok key ok t" "key r = k" "ok r"
  shows "table_ok key ok (m_set k r t)"
proof -
  have "set (m_set k r t) \<subseteq> insert (k, r) (set t)"
    unfolding m_set_def by (induction t) auto
  with assms show ?thesis by (auto simp: table_ok_def list_all_iff)
qed

lemma table_ok_get:
  assumes "table_ok key ok t" "m_get t k = Some r" shows "key r = k" "ok r"
  using assms map_of_SomeD [of t k r] by (auto simp: table_ok_def list_all_iff m_get_def)

lemma table_ok_wf: "table_ok key ok t \<Longrightarrow> m_wf t"
  by (simp add: table_ok_def)

lemma store_wf_empty [state_inv]: "store_wf empty_store"
  by (simp add: store_wf_def empty_store_def)

lemma store_wf_collateral:
  "store_wf s \<Longrightarrow> m_get (collateralTable s) k = Some r \<Longrightarrow> c_id r' = k \<Longrightarrow> collateral_ok r' \<Longrightarrow>
   store_wf (s\<lparr>collateralTable := m_set k r' (collateralTable s)\<rparr>)"
  by (simp add: store_wf_def table_ok_set)

lemma store_wf_loan:
  "store_wf s \<Longrightarrow> m_get (loanTable s) k = Some r \<Longrightarrow> l_id r' = k \<Longrightarrow> loan_ok r' \<Longrightarrow>
   store_wf (s\<lparr>loanTable := m_set k r' (loanTable s)\<rparr>)"
  by (simp add: store_wf_def table_ok_set)

lemma store_wf_get_collateral:
  "store_wf s \<Longrightarrow> m_get (collateralTable s) k = Some r \<Longrightarrow> c_id r = k \<and> collateral_ok r"
  using table_ok_get [of c_id collateral_ok "collateralTable s" k r] by (simp add: store_wf_def)

lemma store_wf_get_loan:
  "store_wf s \<Longrightarrow> m_get (loanTable s) k = Some r \<Longrightarrow> l_id r = k \<and> loan_ok r"
  using table_ok_get [of l_id loan_ok "loanTable s" k r] by (simp add: store_wf_def)

lemma store_wf_get_transaction:
  "store_wf s \<Longrightarrow> m_get (transactionTable s) k = Some r \<Longrightarrow> t_id r = k"
  using table_ok_get [of t_id "\<lambda>_. True" "transactionTable s" k r] by (simp add: store_wf_def)

lemma store_wf_insertCollateral [state_inv]: "store_wf s \<Longrightarrow> store_wf (snd (insertCollateral now d s))"
  by (auto simp: insertCollateral_def store_wf_def Let_def collateral_ok_def CollateralData.defs
      intro!: table_ok_set split: option.splits)

lemma store_wf_collateral_ops [state_inv]:
  assumes "store_wf s"
  shows "store_wf (snd (addAppraisal now k v a s))" "store_wf (snd (updateCollateral k u s))"
    "store_wf (snd (softDeleteCollateral now k s))" "store_wf (snd (restoreCollateral k s))"
  using assms store_wf_get_collateral [OF assms, of k]
  by (auto simp: addAppraisal_def updateCollateral_def softDeleteCollateral_def restoreCollateral_def Let_def
      collateral_ok_def merge_status intro!: store_wf_collateral split: option.splits)

lemma store_wf_insertLoan [state_inv]: "store_wf s \<Longrightarrow> store_wf (snd (insertLoan now d s))"
  by (auto simp: insertLoan_def store_wf_def Let_def loan_ok_def LoanData.defs
      intro!: table_ok_set split: option.splits)

lemma store_wf_loan_ops [state_inv]:
  assumes "store_wf s"
  shows "store_wf (snd (updateLoan k u s))" "store_wf (snd (softDeleteLoan now k s))"
    "store_wf (snd (restoreLoan k s))"
  using assms store_wf_get_loan [OF assms, of k]
  by (auto simp: updateLoan_def softDeleteLoan_def restoreLoan_def Let_def
      loan_ok_def merge_status intro!: store_wf_loan split: option.splits)

lemma store_wf_transaction_ops [state_inv]:
  assumes "store_wf s"
  shows "store_wf (snd (insertTransaction now rnd d s))" "store_wf (snd (updateTransaction now k u s))"
    "store_wf (snd (insertLiquidationEvent now rnd q s))"
  using assms store_wf_get_transaction [OF assms, of k]
  by (auto simp: transaction_defs store_wf_def Let_def TransactionData.defs LiquidationData.defs
      intro!: table_ok_set split: option.splits)

subsection \<open>Every run of operations keeps the store well formed\<close>

datatype store_op =
    InsertCollateral int CollateralData
  | AddAppraisal int string rat "string option"
  | UpdateCollateral string collateral_updates
  | SoftDeleteCollateral int string
  | RestoreCollateral string
  | InsertLoan int LoanData
  | UpdateLoan string loan_updates
  | SoftDeleteLoan int string
  | RestoreLoan string
  | InsertTransaction int string TransactionData
  | UpdateTransaction int string transaction_updates
  | InsertLiquidationEvent int string LiquidationData

fun run_op :: "store_op \<Rightarrow> store \<Rightarrow> store" where
  "run_op (InsertCollateral now d) s = snd (insertCollateral now d s)"
| "run_op (AddAppraisal now k v a) s = snd (addAppraisal now k v a s)"
| "run_op (UpdateCollateral k u) s = snd (updateCollateral k u s)"
| "run_op (SoftDeleteCollateral now k) s = snd (softDeleteCollateral now k s)"
| "run_op (RestoreCollateral k) s = snd (restoreCollateral k s)"
| "run_op (InsertLoan now d) s = snd (insertLoan now d s)"
| "run_op (UpdateLoan k u) s = snd (updateLoan k u s)"
| "run_op (SoftDeleteLoan now k) s = snd (softDeleteLoan now k s)"
| "run_op (RestoreLoan k) s = snd (restoreLoan k s)"
| "run_op (InsertTransaction now rnd d) s = snd (insertTransaction now rnd d s)"
| "run_op (UpdateTransaction now k u) s = snd (updateTransaction now k u s)"
| "run_op (InsertLiquidationEvent now rnd d) s = snd (insertLiquidationEvent now rnd d s)"

lemma store_wf_run_op [state_inv]: "store_wf s \<Longrightarrow> store_wf (run_op opn s)"
  by (cases opn) (simp_all add: state_inv)

lemma store_wf_run: "store_wf s \<Longrightarrow> store_wf (fold run_op ops s)"
  by (induction ops arbitrary: s) (simp_all add: state_inv)

subsection \<open>The tables keep the contract of soft deletion\<close>

interpretation collaterals: soft_delete_table getCollateralIncludingDeleted getCollateral c_deletedAt
  "\<lambda>d r. r\<lparr>c_deletedAt := d\<rparr>" softDeleteCollateral restoreCollateral
  by unfold_locales (auto simp: get_defs collateral_defs split: option.splits if_splits)

interpretation loans: soft_delete_table "\<lambda>k s. m_get (loanTable s) k" getLoan l_deletedAt
  "\<lambda>d r. r\<lparr>l_deletedAt := d\<rparr>" softDeleteLoan restoreLoan
  by unfold_locales (auto simp: get_defs loan_defs split: option.splits if_splits)

lemma restore_deleted_loan:
  "getLoan k s = Some r \<Longrightarrow> restoreLoan k (snd (softDeleteLoan now k s)) = (True, s)"
  by (auto simp: getLoan_def loan_defs m_set_same split: option.splits if_splits)

lemma restore_deleted_collateral:
  "getCollateral k s = Some r \<Longrightarrow> restoreCollateral k (snd (softDeleteCollateral now k s)) = (True, s)"
  by (auto simp: getCollateral_def collateral_defs m_set_same split: option.splits if_splits)

lemma listDeletedLoans_iff:
  "m_wf (loanTable s) \<Longrightarrow>
   r \<in> set (listDeletedLoans s) \<longleftrightarrow> (\<exists>k. m_get (loanTable s) k = Some r \<and> l_deletedAt r \<noteq> None)"
  using m_in_values_get [of "loanTable s" r] m_get_in_values [of "loanTable s" _ r]
  by (auto simp: listDeletedLoans_def)

lemma listDeletedCollateral_iff:
  "m_wf (collateralTable s) \<Longrightarrow>
   r \<in> set (listDeletedCollateral s) \<longleftrightarrow> (\<exists>k. m_get (collateralTable s) k = Some r \<and> c_deletedAt r \<noteq> None)"
  using m_in_values_get [of "collateralTable s" r] m_get_in_values [of "collateralTable s" _ r]
  by (auto simp: listDeletedCollateral_def)

lemma isCollateralPledged_iff:
  assumes "store_wf s"
  shows "isCollateralPledged c s \<longleftrightarrow>
    (\<exists>k r. getLoan k s = Some r \<and> l_collateral_id r = c \<and> is_open_status (l_status r))"
proof -
  have "m_wf (loanTable s)" using assms by (auto simp: store_wf_def dest: table_ok_wf)
  then have "r \<in> set (m_values (loanTable s)) \<longleftrightarrow> (\<exists>k. m_get (loanTable s) k = Some r)" for r
    using m_in_values_get m_get_in_values by metis
  then show ?thesis
    by (fastforce simp: isCollateralPledged_def list_ex_iff getLoan_def split: option.splits if_splits)
qed

subsection \<open>The listings keep the contract of paging\<close>

definition loan_rows :: "(string \<Rightarrow> int option) \<Rightarrow> loan_filter \<Rightarrow> store \<Rightarrow> LoanRecord list" where
  "loan_rows parse_date f s =
     sort_key (\<lambda>r. - l_createdAt r) (filter (loan_matches parse_date f) (m_values (loanTable s)))"

definition collateral_matches :: "collateral_filter \<Rightarrow> CollateralRecord \<Rightarrow> bool" where
  "collateral_matches f r \<longleftrightarrow> c_deletedAt r = None \<and>
     (case cf_status f of None \<Rightarrow> True | Some st \<Rightarrow> c_status r = Some st) \<and>
     (case truthy_str (cf_ownerId f) of None \<Rightarrow> True | Some w \<Rightarrow> c_owner r = w)"

definition collateral_rows :: "collateral_filter \<Rightarrow> store \<Rightarrow> CollateralRecord list" where
  "collateral_rows f s =
     sort_key (\<lambda>r. - c_createdAt r) (filter (collateral_matches f) (m_values (collateralTable s)))"

definition transaction_rows ::
  "(string \<Rightarrow> int option) \<Rightarrow> transaction_filter \<Rightarrow> store \<Rightarrow> TransactionRecord list" where
  "transaction_rows parse_date f s =
     sort_key (\<lambda>r. - t_createdAt r)
       (filter (transaction_matches parse_date f) (m_values (transactionTable s)))"

lemma collateral_matches_page [simp]:
  "collateral_matches (f\<lparr>cf_page := p, cf_limit := l\<rparr>) = collateral_matches f"
  by (auto simp: collateral_matches_def)

lemma matches_page [simp]:
  "loan_matches pd (f\<lparr>lf_page := p, lf_limit := l\<rparr>) = loan_matches pd f"
  "transaction_matches pd (g\<lparr>tf_page := p, tf_pageSize := l\<rparr>) = transaction_matches pd g"
  by (auto simp: loan_matches_def transaction_matches_def)

lemma listCollateral_rows:
  "listCollateral f s =
     (let limit = min (case cf_limit f of None \<Rightarrow> 20 | Some n \<Rightarrow> n) 100;
          page = max (case cf_page f of None \<Rightarrow> 1 | Some n \<Rightarrow> n) 1 in
      \<lparr>ls_data = page_of page limit (collateral_rows f s), ls_total = length (collateral_rows f s),
       ls_page = page, ls_limit = limit\<rparr>)"
proof -
  have "(case truthy_str (cf_ownerId f) of None \<Rightarrow> r1 | Some w \<Rightarrow> filter (\<lambda>r. c_owner r = w) r1) =
      filter (collateral_matches f) (m_values (collateralTable s))"
    if "r1 = (case cf_status f of None \<Rightarrow> r0 | Some st \<Rightarrow> filter (\<lambda>r. c_status r = Some st) r0)"
      "r0 = filter (\<lambda>r. c_deletedAt r = None) (m_values (collateralTable s))" for r0 r1
    unfolding that collateral_matches_def
    by (auto simp: conj_commute intro!: filter_cong split: option.splits)
  then show ?thesis by (simp add: listCollateral_def collateral_rows_def Let_def page_of_def)
qed

interpretation loan_pages: paged_listing
  "\<lambda>p l s. ls_data (listLoans pd (f\<lparr>lf_page := Some p, lf_limit := Some l\<rparr>) s)"
  "\<lambda>p l s. ls_total (listLoans pd (f\<lparr>lf_page := Some p, lf_limit := Some l\<rparr>) s)"
  "loan_rows pd f" "\<lambda>l. 1 \<le> l \<and> l \<le> 100" for pd f
  by unfold_locales
    (auto simp: listLoans_def loan_rows_def Let_def or_default_def page_of_def algebra_simps)

interpretation collateral_pages: paged_listing
  "\<lambda>p l s. ls_data (listCollateral (f\<lparr>cf_page := Some p, cf_limit := Some l\<rparr>) s)"
  "\<lambda>p l s. ls_total (listCollateral (f\<lparr>cf_page := Some p, cf_limit := Some l\<rparr>) s)"
  "collateral_rows f" "\<lambda>l. 1 \<le> l \<and> l \<le> 100" for f
  by unfold_locales
    (auto simp: listCollateral_rows Let_def collateral_rows_def)

interpretation transaction_pages: paged_listing
  "\<lambda>p l s. ls_data (listTransactions pd (f\<lparr>tf_page := Some p, tf_pageSize := Some l\<rparr>) s)"
  "\<lambda>p l s. ls_total (listTransactions pd (f\<lparr>tf_page := Some p, tf_pageSize := Some l\<rparr>) s)"
  "transaction_rows pd f" "\<lambda>l. 1 \<le> l" for pd f
  by unfold_locales
    (auto simp: listTransactions_def transaction_rows_def Let_def or_default_def page_of_def)

lemma newest_first:
  "sorted_wrt (\<lambda>a b. l_createdAt b \<le> l_createdAt a) (loan_rows pd f s)"
  "sorted_wrt (\<lambda>a b. c_createdAt b \<le> c_createdAt a) (collateral_rows g s)"
  "sorted_wrt (\<lambda>a b. t_createdAt b \<le> t_createdAt a) (transaction_rows pd h s)"
  using sorted_sort_key [of "\<lambda>r. - l_createdAt r"] sorted_sort_key [of "\<lambda>r. - c_createdAt r"]
    sorted_sort_key [of "\<lambda>r. - t_createdAt r"]
  by (simp_all add: loan_rows_def collateral_rows_def transaction_rows_def sorted_map)

lemma rows_mset:
  "mset (loan_rows pd f s) = filter_mset (loan_matches pd f) (mset (m_values (loanTable s)))"
  "mset (collateral_rows g s) = filter_mset (collateral_matches g) (mset (m_values (collateralTable s)))"
  "mset (transaction_rows pd h s) =
     filter_mset (transaction_matches pd h) (mset (m_values (transactionTable s)))"
  by (simp_all add: loan_rows_def collateral_rows_def transaction_rows_def)

lemma sort_key_snoc_first:
  assumes "\<forall>x\<in>set xs. f e < f x" shows "sort_key f (xs @ [e]) = e # sort_key f xs"
proof (rule properties_for_sort_key)
  fix k assume "k \<in> set (e # sort_key f xs)"
  moreover have "filter (\<lambda>x. f x = f e) xs = []" using assms by (auto simp: filter_empty_conv)
  ultimately show "filter (\<lambda>x. f k = f x) (e # sort_key f xs) = filter (\<lambda>x. f k = f x) (xs @ [e])"
    using assms sort_key_stable [of f "f k" xs] by (auto simp: eq_commute [of "f k"] filter_empty_conv)
qed (use assms in \<open>auto intro: less_imp_le\<close>)

subsection \<open>The summary of a borrower\<close>

definition open_loans :: "string \<Rightarrow> store \<Rightarrow> LoanRecord list" where
  "open_loans borrower s =
     filter (\<lambda>r. l_deletedAt r = None \<and> l_borrower r = borrower \<and> is_open_status (l_status r))
       (m_values (loanTable s))"

text \<open>What a loan adds to the total: the value of its collateral unless that is missing or deleted.\<close>

definition pledged_value :: "store \<Rightarrow> LoanRecord \<Rightarrow> rat" where
  "pledged_value s loan =
     (case getCollateral (l_collateral_id loan) s of None \<Rightarrow> 0 | Some c \<Rightarrow> c_appraised_value c)"

lemma summary_fold:
  "foldl (\<lambda>sum loan. case m_get (collateralTable s) (l_collateral_id loan) of
           None \<Rightarrow> sum
         | Some c \<Rightarrow> if c_deletedAt c \<noteq> None then sum else js_add sum (c_appraised_value c)) (of_int a) ls
   = of_int (a + sum_list (map f ls))"
  if "0 \<le> a" "\<forall>l\<in>set ls. pledged_value s l = of_int (f l) \<and> 0 \<le> f l" "a + sum_list (map f ls) \<le> 2 ^ 53"
  using that
proof (induction ls arbitrary: a)
  case (Cons l ls)
  have nn: "0 \<le> sum_list (map f ls)" using Cons.prems by (intro sum_list_nonneg) auto
  have v: "pledged_value s l = of_int (f l)" "0 \<le> f l" using Cons.prems by auto
  let ?st = "case m_get (collateralTable s) (l_collateral_id l) of
      None \<Rightarrow> of_int a
    | Some c \<Rightarrow> if c_deletedAt c \<noteq> None then of_int a else js_add (of_int a) (c_appraised_value c)"
  have "?st = of_int (a + f l)"
    using v nn Cons.prems js_add_of_int [of a "f l"]
    by (auto simp: pledged_value_def getCollateral_def split: option.splits)
  then show ?case using Cons.IH [of "a + f l"] Cons.prems v by (simp add: add.assoc)
qed simp

lemma getLoanSummary_eqs:
  "activeLoans (getLoanSummaryForBorrower b s) = length (open_loans b s)"
  "atRiskCount (getLoanSummaryForBorrower b s) =
     length (filter (\<lambda>loan. case normalizeHealthFactor (l_health_factor loan) of
                              None \<Rightarrow> False | Some hf \<Rightarrow> hf < fl (6 / 5)) (open_loans b s))"
  by (simp_all add: getLoanSummaryForBorrower_def open_loans_def Let_def)

lemma getLoanSummary_total:
  assumes "\<forall>l\<in>set (open_loans b s). pledged_value s l = of_int (f l) \<and> 0 \<le> f l"
    and "sum_list (map f (open_loans b s)) \<le> 2 ^ 53"
  shows "totalCollateralValue (getLoanSummaryForBorrower b s) = of_int (sum_list (map f (open_loans b s)))"
  using summary_fold [of 0 "open_loans b s" s f] assms
  by (simp add: getLoanSummaryForBorrower_def open_loans_def Let_def)

subsection \<open>A concrete store\<close>

text \<open>A small store on which the properties are applied.\<close>

definition sample_collateral :: "string \<Rightarrow> rat \<Rightarrow> CollateralData" where
  "sample_collateral k v =
     \<lparr>c_id = k, c_owner = ''GALICE'', c_animal_type = ''cattle'', c_breed = None, c_age_years = None,
      c_weight_kg = None, c_photo_url = None, c_count = 5, c_appraised_value = v, c_species = None,
      c_age = None, c_weight = None, c_image_url = None, c_status = None\<rparr>"

definition sample_loan :: "string \<Rightarrow> string \<Rightarrow> rat \<Rightarrow> rat option \<Rightarrow> LoanData" where
  "sample_loan k c a hf =
     \<lparr>l_id = k, l_borrower = ''GALICE'', l_collateral_id = c, l_amount = a, l_status = None,
      l_health_factor = hf\<rparr>"

definition sample_store :: store where
  "sample_store = fold run_op
     [InsertCollateral 1000 (sample_collateral ''c1'' 1000), InsertCollateral 1001 (sample_collateral ''c2'' 500),
      InsertLoan 2000 (sample_loan ''7'' ''c1'' 600 (Some 50)), InsertLoan 3000 (sample_loan ''8'' ''c2'' 100 (Some 50))]
     empty_store"

lemma sample_store_eq: "sample_store =
  \<lparr>collateralTable =
     [(''c1'', fst (insertCollateral 1000 (sample_collateral ''c1'' 1000) empty_store)),
      (''c2'', fst (insertCollateral 1001 (sample_collateral ''c2'' 500) empty_store))],
   loanTable =
     [(''7'', fst (insertLoan 2000 (sample_loan ''7'' ''c1'' 600 (Some 50)) empty_store)),
      (''8'', fst (insertLoan 3000 (sample_loan ''8'' ''c2'' 100 (Some 50)) empty_store))],
   transactionTable = [], liquidationEventTable = []\<rparr>"
  by (simp add: sample_store_def insertCollateral_def insertLoan_def Let_def empty_store_def sample_collateral_def
      sample_loan_def CollateralData.defs LoanData.defs m_set_def)

lemma sample_store_facts [simp]:
  "map_option c_appraised_value (getCollateral ''c1'' sample_store) = Some 1000"
  "map_option (\<lambda>c. map a_date (c_appraisal_history c)) (getCollateral ''c1'' sample_store) = Some [1000]"
  "open_loans ''GALICE'' sample_store = m_values (loanTable sample_store)"
  "map_option l_amount (getLoan ''7'' sample_store) = Some 600"
  "length (m_values (loanTable sample_store)) = 2"
  by (simp_all add: sample_store_eq getCollateral_def getLoan_def open_loans_def insertCollateral_def insertLoan_def
      Let_def sample_collateral_def sample_loan_def CollateralData.defs LoanData.defs m_get_def m_values_def
      is_open_status_def)

subsection \<open>Properties of the store\<close>


text \<open>C31: The pages of a loan listing, read in order, are exactly the loans that match the
  filter and are not deleted: each once, none else, the newest first, and no page is longer than
  the page size asked for.\<close>

theorem loan_pages_partition:
  assumes "1 \<le> l" "l \<le> 100"
    and "ls_total (listLoans pd (f\<lparr>lf_page := Some 1, lf_limit := Some l\<rparr>) s) \<le> n * nat l"
  shows "let page = (\<lambda>p. ls_data (listLoans pd (f\<lparr>lf_page := Some p, lf_limit := Some l\<rparr>) s));
             rows = concat (map (\<lambda>i. page (int i + 1)) [0..<n]) in
         sorted_wrt (\<lambda>a b. l_createdAt b \<le> l_createdAt a) rows \<and>
         mset rows = filter_mset (loan_matches pd f) (mset (m_values (loanTable s))) \<and>
         length (page (int i + 1)) \<le> nat l"
proof -
  have "concat (map (\<lambda>i. ls_data (listLoans pd (f\<lparr>lf_page := Some (int i + 1), lf_limit := Some l\<rparr>) s))
      [0..<n]) = loan_rows pd f s"
    using assms by (intro loan_pages.pages_concat) auto
  then show ?thesis
    using assms loan_pages.page_bounded [of "int i + 1" l pd f s] by (simp add: newest_first rows_mset)
qed

theorem loan_pages_partition_witness:
  "ls_total (listLoans (\<lambda>_. None) (no_loan_filter\<lparr>lf_page := Some 1, lf_limit := Some 1\<rparr>) sample_store) = 2 \<and>
   mset (concat (map (\<lambda>i. ls_data (listLoans (\<lambda>_. None)
       (no_loan_filter\<lparr>lf_page := Some (int i + 1), lf_limit := Some 1\<rparr>) sample_store)) [0..<2])) =
     filter_mset (loan_matches (\<lambda>_. None) no_loan_filter) (mset (m_values (loanTable sample_store)))"
proof -
  have t: "ls_total (listLoans (\<lambda>_. None) (no_loan_filter\<lparr>lf_page := Some 1, lf_limit := Some 1\<rparr>) sample_store) = 2"
    by (simp add: sample_store_eq listLoans_def Let_def m_values_def loan_matches_def no_loan_filter_def
        insertLoan_def sample_loan_def LoanData.defs)
  then show ?thesis
    using loan_pages_partition [of 1 "\<lambda>_. None" no_loan_filter sample_store 2 0] by (simp add: Let_def)
qed

text \<open>C23: A loan that is deleted softly is out of every lookup while all other loans stay, it can
  not be deleted twice, and restoring it gives back the very store from before the deletion.\<close>

theorem loan_soft_delete_restore:
  assumes "getLoan k s = Some r"
  shows "let s' = snd (softDeleteLoan now k s) in
         fst (softDeleteLoan now k s) \<and> getLoan k s' = None \<and>
         (\<forall>k'. k' \<noteq> k \<longrightarrow> getLoan k' s' = getLoan k' s) \<and>
         softDeleteLoan later k s' = (False, s') \<and> restoreLoan k s' = (True, s)"
  using assms loans.delete_iff_live [of now k s]
  by (simp add: Let_def loans.delete_hides loans.delete_others loans.delete_again restore_deleted_loan)

theorem loan_soft_delete_restore_witness:
  "getLoan ''7'' (snd (softDeleteLoan 9000 ''7'' sample_store)) = None \<and>
   restoreLoan ''7'' (snd (softDeleteLoan 9000 ''7'' sample_store)) = (True, sample_store)"
proof -
  obtain r where "getLoan ''7'' sample_store = Some r"
    using sample_store_facts(4) by (cases "getLoan ''7'' sample_store") auto
  from loan_soft_delete_restore [OF this] show ?thesis by (simp add: Let_def)
qed

text \<open>An accepted appraisal becomes the current value, is shown first in the history when it
  is the latest, keeps every earlier valuation, and touches no other record.\<close>

theorem appraisal_recorded:
  assumes "getCollateral k s = Some r" "\<forall>a\<in>set (c_appraisal_history r). a_date a < now"
  shows "let s' = snd (addAppraisal now k v who s);
             e = \<lparr>a_date = now, a_value = v, a_appraiser = truthy_str who\<rparr> in
         map_option c_appraised_value (getCollateral k s') = Some v \<and>
         map_option (\<lambda>l. (ls_total l, hd (ls_data l))) (getAppraisalHistory k None None s') =
           Some (length (c_appraisal_history r) + 1, e) \<and>
         map_option (\<lambda>c. mset (c_appraisal_history c)) (getCollateral k s') =
           Some (add_mset e (mset (c_appraisal_history r))) \<and>
         (\<forall>k'. k' \<noteq> k \<longrightarrow> getCollateral k' s' = getCollateral k' s)"
proof -
  define e where "e = \<lparr>a_date = now, a_value = v, a_appraiser = truthy_str who\<rparr>"
  define h where "h = c_appraisal_history r"
  have r: "m_get (collateralTable s) k = Some r" "c_deletedAt r = None"
    using assms by (auto simp: getCollateral_def split: option.splits if_splits)
  have s: "sort_key (\<lambda>a. - a_date a) (h @ [e]) = e # sort_key (\<lambda>a. - a_date a) h"
    using assms(2) by (intro sort_key_snoc_first) (simp add: e_def h_def)
  let ?r = "r\<lparr>c_appraised_value := v, c_appraisal_history := h @ [e]\<rparr>"
  have a: "snd (addAppraisal now k v who s) = s\<lparr>collateralTable := m_set k ?r (collateralTable s)\<rparr>"
    using r by (simp add: addAppraisal_def e_def h_def)
  show ?thesis
    unfolding a e_def [symmetric] h_def [symmetric] using r s
    by (simp add: Let_def getCollateral_def getAppraisalHistory_def js_slice_nonneg)
qed

theorem appraisal_recorded_witness:
  "map_option c_appraised_value (getCollateral ''c1'' (snd (addAppraisal 5000 ''c1'' 900 None sample_store))) = Some 900 \<and>
   map_option (\<lambda>l. a_value (hd (ls_data l)))
     (getAppraisalHistory ''c1'' None None (snd (addAppraisal 5000 ''c1'' 900 None sample_store))) = Some 900"
proof -
  obtain r where r: "getCollateral ''c1'' sample_store = Some r"
    using sample_store_facts(1) by (cases "getCollateral ''c1'' sample_store") auto
  then have "\<forall>a\<in>set (c_appraisal_history r). a_date a < 5000"
    using sample_store_facts(2) by auto
  from appraisal_recorded [OF r this, of 900 None] show ?thesis
    by (auto simp: Let_def)
qed

text \<open>The summary of a borrower counts exactly the open loans that are not deleted, never
  more loans at risk than loans, and its total is the exact sum of the values of their live
  collateral when those are whole numbers that a number can add without rounding.\<close>

theorem summary_aggregates:
  assumes "\<forall>l\<in>set (open_loans b s). pledged_value s l = of_int (f l) \<and> 0 \<le> f l"
    and "sum_list (map f (open_loans b s)) \<le> 2 ^ 53"
  shows "activeLoans (getLoanSummaryForBorrower b s) = length (open_loans b s) \<and>
         atRiskCount (getLoanSummaryForBorrower b s) \<le> length (open_loans b s) \<and>
         totalCollateralValue (getLoanSummaryForBorrower b s) = of_int (sum_list (map f (open_loans b s)))"
  using getLoanSummary_total [OF assms] by (simp add: getLoanSummary_eqs)

theorem summary_aggregates_witness:
  "totalCollateralValue (getLoanSummaryForBorrower ''GALICE'' sample_store) = 1500"
proof -
  let ?f = "\<lambda>l. if l_id l = ''7'' then 1000 else (500 :: int)"
  have "\<forall>l\<in>set (open_loans ''GALICE'' sample_store). pledged_value sample_store l = of_int (?f l) \<and> 0 \<le> ?f l"
    "sum_list (map ?f (open_loans ''GALICE'' sample_store)) = 1500"
    by (simp_all add: sample_store_eq open_loans_def pledged_value_def getCollateral_def insertCollateral_def
        insertLoan_def Let_def sample_collateral_def sample_loan_def CollateralData.defs LoanData.defs m_get_def
        m_values_def is_open_status_def)
  with summary_aggregates [of "''GALICE''" sample_store ?f] show ?thesis by simp
qed

text \<open>A health factor of at most 100 basis points, the worst there is, is read as a ratio and
  not as basis points, so a loan that the health job has just marked at risk is left out of the
  count of loans at risk while its factor lies between 1.2 and 100 basis points.\<close>

theorem worst_loans_not_counted:
  assumes "fl (6 / 5) \<le> bps" "bps \<le> 100"
    and "\<forall>l\<in>set (open_loans b s). l_health_factor l = Some bps"
  shows "atRiskCount (getLoanSummaryForBorrower b s) = 0"
  using assms by (auto simp: getLoanSummary_eqs normalizeHealthFactor_def filter_empty_conv)

theorem worst_loans_not_counted_witness:
  "list_all (\<lambda>l. l_health_factor l = Some 50) (open_loans ''GALICE'' sample_store) \<and>
   activeLoans (getLoanSummaryForBorrower ''GALICE'' sample_store) = 2 \<and>
   atRiskCount (getLoanSummaryForBorrower ''GALICE'' sample_store) = 0"
proof -
  have h: "\<forall>l\<in>set (open_loans ''GALICE'' sample_store). l_health_factor l = Some 50"
    by (simp add: sample_store_eq m_values_def insertLoan_def sample_loan_def LoanData.defs Let_def open_loans_def
        is_open_status_def)
  have "fl (6 / 5) \<le> 50" using fl_mono [of "6 / 5" 50] fl_of_int [of 50] by simp
  from worst_loans_not_counted [OF this _ h] h show ?thesis by (simp add: getLoanSummary_eqs list_all_iff)
qed

end
