(* ===== verification/Alerting.thy ===== *)
theory Alerting
  imports Js_String Interfaces "HOL-Library.Option_ord"
begin

section \<open>Alerts (backend/src/utils/alerting.ts, alertRules.ts; index.ts, track5xx)\<close>

text \<open>
  Alert rules, the dispatch of an alert to Slack and PagerDuty behind a cooldown per rule, and
  the rolling window that turns a burst of server errors into an alert. What is sent is returned
  beside the state; a failing \<open>fetch\<close> is only logged, so it does not show. \<open>show\<close> is \<open>String(v)\<close>
  on the values of an alert's metadata.
\<close>

datatype AlertSeverity = Warning | Critical

text \<open>Severities are ordered, the critical one above the warning.\<close>

instantiation AlertSeverity :: linorder
begin

definition less_eq_AlertSeverity :: "AlertSeverity \<Rightarrow> AlertSeverity \<Rightarrow> bool" where
  "less_eq_AlertSeverity a b \<longleftrightarrow> a = Warning \<or> b = Critical"

definition less_AlertSeverity :: "AlertSeverity \<Rightarrow> AlertSeverity \<Rightarrow> bool" where
  "less_AlertSeverity a b \<longleftrightarrow> a = Warning \<and> b = Critical"

instance
proof
  fix a b c :: AlertSeverity
  show "a < b \<longleftrightarrow> a \<le> b \<and> \<not> b \<le> a" "a \<le> a" "a \<le> b \<or> b \<le> a"
    by (cases a; cases b; simp add: less_eq_AlertSeverity_def less_AlertSeverity_def)+
  show "a \<le> b \<Longrightarrow> b \<le> c \<Longrightarrow> a \<le> c" "a \<le> b \<Longrightarrow> b \<le> a \<Longrightarrow> a = b"
    by (cases a; cases b; cases c; simp add: less_eq_AlertSeverity_def)+
qed

end

record AlertRule =
  ar_id :: string
  ar_name :: string
  ar_severity :: AlertSeverity
  ar_cooldownMs :: int
  ar_runbook :: string
  ar_pagerduty :: bool

subsection \<open>The rules\<close>

definition rule_rpcFailure :: AlertRule where
  "rule_rpcFailure = \<lparr>ar_id = ''rpc-failure'', ar_name = ''RPC Failure'', ar_severity = Critical,
     ar_cooldownMs = 5 * 60 * 1000, ar_runbook = ''rpc-failure.md'', ar_pagerduty = False\<rparr>"

definition rule_rpcCircuitOpen :: AlertRule where
  "rule_rpcCircuitOpen = \<lparr>ar_id = ''rpc-circuit-open'', ar_name = ''RPC Circuit Breaker Opened'',
     ar_severity = Critical, ar_cooldownMs = 10 * 60 * 1000, ar_runbook = ''rpc-failure.md'', ar_pagerduty = False\<rparr>"

definition rule_dbError :: AlertRule where
  "rule_dbError = \<lparr>ar_id = ''db-error'', ar_name = ''Database Error'', ar_severity = Critical,
     ar_cooldownMs = 5 * 60 * 1000, ar_runbook = ''db-error.md'', ar_pagerduty = False\<rparr>"

definition rule_liquidationFailure :: AlertRule where
  "rule_liquidationFailure = \<lparr>ar_id = ''liquidation-failure'', ar_name = ''Liquidation Engine Failure'',
     ar_severity = Critical, ar_cooldownMs = 2 * 60 * 1000, ar_runbook = ''liquidation-failure.md'', ar_pagerduty = False\<rparr>"

definition rule_fivexxSpike :: AlertRule where
  "rule_fivexxSpike = \<lparr>ar_id = ''5xx-spike'', ar_name = ''5xx Error Spike'', ar_severity = Critical,
     ar_cooldownMs = 60 * 1000, ar_runbook = ''5xx-spike.md'', ar_pagerduty = True\<rparr>"

definition rule_backupFailure :: AlertRule where
  "rule_backupFailure = \<lparr>ar_id = ''backup-failure'', ar_name = ''Database Backup Failed'', ar_severity = Critical,
     ar_cooldownMs = 60 * 60 * 1000, ar_runbook = ''restore-procedure.md'', ar_pagerduty = True\<rparr>"

definition rules :: "AlertRule list" where
  "rules = [rule_rpcFailure, rule_rpcCircuitOpen, rule_dbError, rule_liquidationFailure, rule_fivexxSpike,
            rule_backupFailure]"

subsection \<open>Dispatch\<close>

record alert_env =
  SLACK_WEBHOOK :: "string option"
  PAGERDUTY_KEY :: "string option"
  RUNBOOK_BASE_URL :: "string option"
  show_value :: "json option \<Rightarrow> string"

definition RUNBOOK_BASE :: "alert_env \<Rightarrow> string" where
  "RUNBOOK_BASE env = (case truthy_str (RUNBOOK_BASE_URL env) of Some u \<Rightarrow> u
     | None \<Rightarrow> ''https://github.com/michaelvic123/StellarKraal-/blob/main/docs/runbooks'')"

type_synonym last_fired = "(string, int) js_map"

definition isCoolingDown :: "int \<Rightarrow> AlertRule \<Rightarrow> last_fired \<Rightarrow> bool" where
  "isCoolingDown now rule lf =
     (case m_get lf (ar_id rule) of None \<Rightarrow> False | Some t \<Rightarrow> now - t < ar_cooldownMs rule)"

text \<open>What goes out: the URL it is posted to and its JSON body.\<close>

type_synonym post = "string \<times> json"

text \<open>The details of an alert; a value may be undefined, which JSON leaves out.\<close>

type_synonym alert_meta = "(string \<times> json option) list"

definition defined_fields :: "alert_meta \<Rightarrow> (string \<times> json) list" where
  "defined_fields meta = concat (map (\<lambda>(k, v). jopt k (\<lambda>x. x) v) meta)"

fun severity_upper :: "AlertSeverity \<Rightarrow> string" where
  "severity_upper Warning = ''WARNING''" | "severity_upper Critical = ''CRITICAL''"

definition slack_field :: "string \<Rightarrow> string \<Rightarrow> bool \<Rightarrow> json" where
  "slack_field t v short = JObj [(''title'', JStr t), (''value'', JStr v), (''short'', JBool short)]"

definition sendSlack :: "alert_env \<Rightarrow> int \<Rightarrow> AlertRule \<Rightarrow> string \<Rightarrow> alert_meta \<Rightarrow> post list" where
  "sendSlack env now rule msg meta =
     (case truthy_str (SLACK_WEBHOOK env) of
        None \<Rightarrow> []
      | Some url \<Rightarrow>
          [(url, JObj [(''attachments'', JArr [JObj
             [(''color'', JStr (if ar_severity rule = Critical then ''#dc2626'' else ''#ca8a04'')),
              (''title'', JStr (''['' @ severity_upper (ar_severity rule) @ ''] '' @ ar_name rule)),
              (''text'', JStr msg),
              (''fields'', JArr (slack_field ''Runbook'' (RUNBOOK_BASE env @ ''/'' @ ar_runbook rule) False
                 # map (\<lambda>(k, v). slack_field k (show_value env v) True) meta)),
              (''footer'', JStr ''StellarKraal Alerting''),
              (''ts'', jint (now div 1000))]])])])"

definition sendPagerDuty :: "alert_env \<Rightarrow> AlertRule \<Rightarrow> string \<Rightarrow> alert_meta \<Rightarrow> post list" where
  "sendPagerDuty env rule msg meta =
     (case truthy_str (PAGERDUTY_KEY env) of
        None \<Rightarrow> []
      | Some key \<Rightarrow>
          if \<not> ar_pagerduty rule then []
          else [(''https://events.pagerduty.com/v2/enqueue'', JObj
             [(''routing_key'', JStr key), (''event_action'', JStr ''trigger''), (''dedup_key'', JStr (ar_id rule)),
              (''payload'', JObj
                 [(''summary'', JStr (''['' @ ar_name rule @ ''] '' @ msg)), (''severity'', JStr ''critical''),
                  (''source'', JStr ''stellarkraal-backend''),
                  (''custom_details'', JObj (AList.update ''runbook''
                     (JStr (RUNBOOK_BASE env @ ''/'' @ ar_runbook rule)) (defined_fields meta)))])])])"

definition fireAlert ::
  "alert_env \<Rightarrow> int \<Rightarrow> AlertRule \<Rightarrow> string \<Rightarrow> alert_meta \<Rightarrow> last_fired \<Rightarrow> post list \<times> last_fired" where
  "fireAlert env now rule msg meta lf =
     (if isCoolingDown now rule lf then ([], lf)
      else (sendSlack env now rule msg meta @ sendPagerDuty env rule msg meta, m_set (ar_id rule) now lf))"

subsection \<open>Bursts of server errors\<close>

definition FIVEXX_WINDOW_MS :: int where "FIVEXX_WINDOW_MS = 60000"

definition FIVEXX_THRESHOLD :: nat where "FIVEXX_THRESHOLD = 10"

definition track5xx :: "alert_env \<Rightarrow> int \<Rightarrow> int list \<times> last_fired \<Rightarrow> post list \<times> int list \<times> last_fired" where
  "track5xx env now st =
     (let times = dropWhile (\<lambda>t. t < now - FIVEXX_WINDOW_MS) (fst st @ [now]); n = length times in
      if FIVEXX_THRESHOLD \<le> n
      then (let (out, lf) = fireAlert env now rule_fivexxSpike (string_of_nat n @ '' 5xx errors in the last 60s'')
                  [(''count'', Some (jint (int n))), (''window'', Some (JStr ''60s''))] (snd st) in (out, times, lf))
      else ([], times, snd st))"

text \<open>The events of the circuit breakers, as rpcClient.ts listens to them.\<close>

datatype breaker_event = BreakerOpen | BreakerHalfOpen | BreakerClose | BreakerFallback string

definition on_breaker :: "alert_env \<Rightarrow> int \<Rightarrow> string \<Rightarrow> breaker_event \<Rightarrow> last_fired \<Rightarrow> post list \<times> last_fired" where
  "on_breaker env now breaker ev lf =
     (case ev of
        BreakerOpen \<Rightarrow> fireAlert env now rule_rpcCircuitOpen (''Circuit breaker opened for '' @ breaker)
          [(''breaker'', Some (JStr breaker))] lf
      | BreakerFallback msg \<Rightarrow> fireAlert env now rule_rpcFailure (''RPC call failed: '' @ msg)
          [(''breaker'', Some (JStr breaker)), (''error'', Some (JStr msg))] lf
      | _ \<Rightarrow> ([], lf))"

subsection \<open>The cooldown of an alert\<close>

text \<open>Whether an alert with this id and this cooldown is let through now.\<close>

definition alert_attempt :: "int \<Rightarrow> string \<Rightarrow> int \<Rightarrow> last_fired \<Rightarrow> bool \<times> last_fired" where
  "alert_attempt t k w lf =
     (let cooling = (case m_get lf k of None \<Rightarrow> False | Some u \<Rightarrow> t - u < w) in
      (\<not> cooling, if cooling then lf else m_set k t lf))"

interpretation alerts: cooldown_gate alert_attempt "\<lambda>k lf. m_get lf k"
  by unfold_locales (auto simp: alert_attempt_def Let_def isCoolingDown_def not_less split: option.splits)

lemma fireAlert_attempt:
  "snd (fireAlert env t rule msg meta lf) = snd (alert_attempt t (ar_id rule) (ar_cooldownMs rule) lf)"
  "fst (fireAlert env t rule msg meta lf) =
     (if fst (alert_attempt t (ar_id rule) (ar_cooldownMs rule) lf)
      then sendSlack env t rule msg meta @ sendPagerDuty env rule msg meta else [])"
  by (simp_all add: fireAlert_def alert_attempt_def Let_def isCoolingDown_def)

lemma alert_attempt_taken:
  "fst (alert_attempt t (ar_id rule) (ar_cooldownMs rule) lf) = (\<not> isCoolingDown t rule lf)"
  by (simp add: alert_attempt_def Let_def isCoolingDown_def)

subsection \<open>Runs\<close>

text \<open>The times at which alerts of a rule go out in a run of calls.\<close>

fun fire_all :: "alert_env \<Rightarrow> (int \<times> AlertRule \<times> string) list \<Rightarrow> last_fired \<Rightarrow> (int \<times> string \<times> post list) list" where
  "fire_all env [] lf = []"
| "fire_all env ((t, rule, msg) # cs) lf =
     (let (out, lf') = fireAlert env t rule msg [] lf in
      (if isCoolingDown t rule lf then fire_all env cs lf' else (t, ar_id rule, out) # fire_all env cs lf'))"

lemma fire_all_taken:
  "map fst (filter (\<lambda>(_, k', _). k' = k) (fire_all env cs lf)) =
     alerts.taken k (map (\<lambda>(t, rule, _). (t, ar_id rule, ar_cooldownMs rule)) cs) lf"
  by (induction cs arbitrary: lf) (auto simp: split_beta fireAlert_attempt alert_attempt_taken)

text \<open>The window holds the server errors of the last minute.\<close>

fun times_after :: "alert_env \<Rightarrow> int list \<Rightarrow> int list \<times> last_fired \<Rightarrow> int list \<times> last_fired" where
  "times_after env [] st = st" | "times_after env (t # ts) st = times_after env ts (snd (track5xx env t st))"

lemma dropWhile_sorted:
  "sorted (xs :: int list) \<Longrightarrow> dropWhile (\<lambda>t. t < c) xs = filter (\<lambda>t. c \<le> t) xs"
  by (induction xs) (auto intro!: filter_id_conv [THEN iffD2, symmetric])

lemma track5xx_times: "fst (snd (track5xx env now st)) = dropWhile (\<lambda>t. t < now - FIVEXX_WINDOW_MS) (fst st @ [now])"
  by (simp add: track5xx_def Let_def split_beta)

lemma window_after:
  assumes "sorted (fst st @ ts @ [now])"
  shows "fst (snd (track5xx env now (times_after env ts st))) = filter (\<lambda>t. now - 60000 \<le> t) (fst st @ ts @ [now])"
  using assms
proof (induction ts arbitrary: st)
  case Nil
  then show ?case by (simp add: track5xx_times dropWhile_sorted FIVEXX_WINDOW_MS_def)
next
  case (Cons t ts)
  let ?st = "snd (track5xx env t st)"
  have f: "fst ?st = filter (\<lambda>u. t - 60000 \<le> u) (fst st @ [t])"
    using Cons.prems by (simp add: track5xx_times dropWhile_sorted sorted_append FIVEXX_WINDOW_MS_def)
  then have "sorted (fst ?st @ ts @ [now])"
    using Cons.prems by (auto simp: sorted_append intro: sorted_wrt_filter)
  moreover have "filter (\<lambda>u. now - 60000 \<le> u) (fst ?st) = filter (\<lambda>u. now - 60000 \<le> u) (fst st @ [t])"
    using Cons.prems f by (auto simp: sorted_append intro!: filter_cong)
  ultimately show ?case using Cons.IH [of ?st] by simp
qed

subsection \<open>Properties\<close>

text \<open>However often alerts are raised, two alerts of one rule that really go out are at least the
  rule's cooldown apart, also when different rules are raised in between.\<close>

theorem alerts_spaced:
  assumes "list_all (\<lambda>(_, r, _). ar_id r = ar_id rule \<longrightarrow> r = rule) calls"
  shows "alerts.spaced (ar_cooldownMs rule)
    (map fst (filter (\<lambda>(_, k, _). k = ar_id rule) (fire_all env calls lf)))"
proof -
  have "list_all (\<lambda>(_, k, w). k = ar_id rule \<longrightarrow> ar_cooldownMs rule \<le> w)
      (map (\<lambda>(t, rule, _). (t, ar_id rule, ar_cooldownMs rule)) calls)"
    using assms by (auto simp: list_all_iff)
  then show ?thesis unfolding fire_all_taken by (rule alerts.taken_spaced)
qed

definition quiet_env :: alert_env where
  "quiet_env = \<lparr>SLACK_WEBHOOK = Some ''https://hooks'', PAGERDUTY_KEY = Some ''pd'', RUNBOOK_BASE_URL = None,
     show_value = (\<lambda>_. [])\<rparr>"

theorem alerts_spaced_witness:
  "map fst (filter (\<lambda>(_, k, _). k = ''db-error'') (fire_all quiet_env
     [(0, rule_dbError, ''a''), (299999, rule_dbError, ''b''), (300000, rule_dbError, ''c'')] [])) = [0, 300000] \<and>
   alerts.spaced 300000 (map fst (filter (\<lambda>(_, k, _). k = ''db-error'') (fire_all quiet_env
     [(0, rule_dbError, ''a''), (299999, rule_dbError, ''b''), (300000, rule_dbError, ''c'')] [])))"
  using alerts_spaced [of rule_dbError "[(0, rule_dbError, ''a''), (299999, rule_dbError, ''b''), (300000, rule_dbError, ''c'')]"
      quiet_env "[]"]
  by (simp add: rule_dbError_def fireAlert_def isCoolingDown_def Let_def m_set_def m_get_def)

text \<open>A server error raises the spike alert exactly when it is at least the tenth within the last
  minute and the alert has not gone out within the last minute; the alert then goes to Slack and
  to PagerDuty where they are configured. The clock is taken to run forwards.\<close>

theorem fivexx_spike_exact:
  assumes "sorted (ts @ [now])"
  shows "fst (track5xx env now (times_after env ts ([], lf))) \<noteq> [] \<longleftrightarrow>
    10 \<le> length (filter (\<lambda>t. now - 60000 \<le> t) (ts @ [now])) \<and>
    \<not> isCoolingDown now rule_fivexxSpike (snd (times_after env ts ([], lf))) \<and>
    (truthy_str (SLACK_WEBHOOK env) \<noteq> None \<or> truthy_str (PAGERDUTY_KEY env) \<noteq> None)"
proof -
  let ?st = "times_after env ts ([], lf)"
  have "dropWhile (\<lambda>t. t < now - FIVEXX_WINDOW_MS) (fst ?st @ [now]) = filter (\<lambda>t. now - 60000 \<le> t) (ts @ [now])"
    using window_after [of "([], lf)" ts now env] assms by (simp add: track5xx_times)
  then show ?thesis
    by (auto simp: track5xx_def Let_def split_beta FIVEXX_THRESHOLD_def fireAlert_def sendSlack_def sendPagerDuty_def
        rule_fivexxSpike_def split: option.splits)
qed

theorem fivexx_spike_exact_witness:
  "fst (track5xx quiet_env 9 (times_after quiet_env [0, 1, 2, 3, 4, 5, 6, 7, 8] ([], []))) \<noteq> []"
proof -
  have "snd (times_after quiet_env [0, 1, 2, 3, 4, 5, 6, 7, 8] ([], [])) = []"
    by (simp add: track5xx_def Let_def FIVEXX_THRESHOLD_def FIVEXX_WINDOW_MS_def)
  then show ?thesis
    using fivexx_spike_exact [of "[0, 1, 2, 3, 4, 5, 6, 7, 8]" 9 quiet_env "[]"]
    by (simp add: isCoolingDown_def quiet_env_def)
qed

end
