(* ===== verification/Health_Job.thy ===== *)
theory Health_Job
  imports Store Alerting
begin

section \<open>The background jobs (backend/src/jobs)\<close>

text \<open>
  healthFactorJob.ts recomputes the health factor of every open loan, marks loans at risk and
  raises alerts with a cooldown per loan and level. repaymentReminderJob.ts mails borrowers, at
  most once per loan and day. The health job awaits between loans, so it is a loop of steps over
  the records it read at its start; each step has the clock of its moment, and whatever the rest
  of the program does may happen between two steps.
\<close>

subsection \<open>Health factors\<close>

definition LIQUIDATION_THRESHOLD_BPS :: rat where "LIQUIDATION_THRESHOLD_BPS = 8000"

definition SCALE :: rat where "SCALE = 10000"

definition ALERT_COOLDOWN_MS :: int where "ALERT_COOLDOWN_MS = 60 * 60 * 1000"

definition computeHealthFactor :: "rat \<Rightarrow> rat \<Rightarrow> rat option" where
  "computeHealthFactor collateralValue outstanding =
     (if outstanding \<le> 0 \<or> collateralValue \<le> 0 then None
      else Some (js_mul (js_div (js_mul collateralValue LIQUIDATION_THRESHOLD_BPS) (js_mul outstanding SCALE)) SCALE))"

record job_env =
  je_alerts :: alert_env
  WARN_THRESHOLD :: rat
  CRIT_THRESHOLD :: rat

record job_state =
  jb_store :: store
  jb_cooldowns :: "(string, int) js_map"
  jb_fired :: last_fired

fun level_str :: "AlertSeverity \<Rightarrow> string" where
  "level_str Warning = ''warning''" | "level_str Critical = ''critical''"

fun level_title :: "AlertSeverity \<Rightarrow> string" where
  "level_title Warning = ''Warning''" | "level_title Critical = ''Critical''"

definition isOnCooldown :: "int \<Rightarrow> string \<Rightarrow> (string, int) js_map \<Rightarrow> bool" where
  "isOnCooldown now key cd = (case m_get cd key of None \<Rightarrow> False | Some t \<Rightarrow> now - t < ALERT_COOLDOWN_MS)"

definition cooldown_key :: "string \<Rightarrow> AlertSeverity \<Rightarrow> string" where
  "cooldown_key loanId level = loanId @ '':'' @ level_str level"

definition loan_rule :: "string \<Rightarrow> AlertSeverity \<Rightarrow> AlertRule" where
  "loan_rule loanId level =
     \<lparr>ar_id = ''health_factor_'' @ level_str level @ ''_'' @ loanId, ar_name = ''Health Factor '' @ level_title level,
      ar_severity = level, ar_cooldownMs = ALERT_COOLDOWN_MS, ar_runbook = ''liquidation-failure.md'',
      ar_pagerduty = (level = Critical)\<rparr>"

definition maybeAlert ::
  "job_env \<Rightarrow> int \<Rightarrow> string \<Rightarrow> AlertSeverity \<Rightarrow> rat \<Rightarrow> job_state \<Rightarrow> post list \<times> job_state" where
  "maybeAlert env now loanId level hf st =
     (let key = cooldown_key loanId level in
      if isOnCooldown now key (jb_cooldowns st) then ([], st)
      else (let (out, lf) = fireAlert (je_alerts env) now (loan_rule loanId level)
                  (''Loan '' @ loanId @ '' health factor '' @ show_value (je_alerts env) (Some (JNum hf)) @ '' dropped below ''
                     @ level_str level @ '' threshold'')
                  [(''loanId'', Some (JStr loanId)), (''healthFactor'', Some (JNum hf)),
                   (''warnThreshold'', Some (JNum (WARN_THRESHOLD env))),
                   (''critThreshold'', Some (JNum (CRIT_THRESHOLD env)))] (jb_fired st) in
            (out, st\<lparr>jb_cooldowns := m_set key now (jb_cooldowns st), jb_fired := lf\<rparr>)))"

text \<open>The value of the collateral the job sees: 0 when the record is missing or deleted.\<close>

definition collateral_value :: "LoanRecord \<Rightarrow> store \<Rightarrow> rat" where
  "collateral_value loan s =
     (case getCollateral (l_collateral_id loan) s of None \<Rightarrow> 0 | Some c \<Rightarrow> c_appraised_value c)"

definition loan_hf :: "LoanRecord \<Rightarrow> store \<Rightarrow> rat option" where
  "loan_hf loan s = computeHealthFactor (collateral_value loan s) (l_amount loan)"

definition new_status :: "rat option \<Rightarrow> LoanStatus" where
  "new_status hf = (case hf of None \<Rightarrow> LActive | Some h \<Rightarrow> if h < SCALE then LAtRisk else LActive)"

text \<open>One turn of the loop, on the record \<open>loan\<close> read at the start.\<close>

definition job_step :: "job_env \<Rightarrow> int \<Rightarrow> LoanRecord \<Rightarrow> nat \<times> job_state \<Rightarrow> post list \<times> nat \<times> job_state" where
  "job_step env now loan nst =
     (let (updated, st) = nst; s = jb_store st; hf = loan_hf loan s; ns = new_status hf;
          changed = (l_health_factor loan \<noteq> hf \<or> l_status loan \<noteq> Some ns);
          s' = (if changed
                then snd (updateLoan (l_id loan) (no_loan_updates\<lparr>lu_health_factor := Some hf, lu_status := Some ns\<rparr>) s)
                else s);
          st' = st\<lparr>jb_store := s'\<rparr>;
          (out, st'') = (case hf of
              None \<Rightarrow> ([], st')
            | Some h \<Rightarrow>
                if h < CRIT_THRESHOLD env then maybeAlert env now (l_id loan) Critical h st'
                else if h < WARN_THRESHOLD env then maybeAlert env now (l_id loan) Warning h st'
                else ([], st')) in
      (out, if changed then updated + 1 else updated, st''))"

text \<open>The severity of the alert for a health factor: a worse factor never raises a milder one.\<close>

definition severity_of :: "job_env \<Rightarrow> rat \<Rightarrow> AlertSeverity option" where
  "severity_of env h =
     (if h < CRIT_THRESHOLD env then Some Critical else if h < WARN_THRESHOLD env then Some Warning else None)"

lemma severity_decides:
  "(if h < CRIT_THRESHOLD env then maybeAlert env now k Critical h st
    else if h < WARN_THRESHOLD env then maybeAlert env now k Warning h st else ([], st)) =
   (case severity_of env h of None \<Rightarrow> ([], st) | Some l \<Rightarrow> maybeAlert env now k l h st)"
  by (simp add: severity_of_def)

lemma severity_antimono: "antimono (severity_of env)"
  by (rule antimonoI) (auto simp: severity_of_def less_eq_AlertSeverity_def)

fun job_loop :: "job_env \<Rightarrow> (int \<times> LoanRecord) list \<Rightarrow> nat \<times> job_state \<Rightarrow> post list \<times> nat \<times> job_state" where
  "job_loop env [] nst = ([], nst)"
| "job_loop env ((now, loan) # rest) nst =
     (let (out, nst') = job_step env now loan nst; (out', nst'') = job_loop env rest nst' in (out @ out', nst''))"

definition runHealthFactorJob :: "job_env \<Rightarrow> (nat \<Rightarrow> int) \<Rightarrow> job_state \<Rightarrow> post list \<times> nat \<times> job_state" where
  "runHealthFactorJob env clock st =
     job_loop env (map (\<lambda>(i, l). (clock i, l)) (enumerate 0 (listActiveLoans (jb_store st)))) (0, st)"

definition resetAlertCooldowns :: "job_state \<Rightarrow> job_state" where
  "resetAlertCooldowns st = st\<lparr>jb_cooldowns := []\<rparr>"

subsection \<open>Exactness of the risk mark\<close>

lemma js_mul_SCALE: "js_mul x SCALE = fl (10000 * x)"
  by (simp add: js_mul_def SCALE_def mult.commute)

lemma just_below_scale: "fl (10000 * (1 - 1 / 2 ^ 53)) < 10000"
  by code_simp

lemma computeHealthFactor_int:
  assumes "0 < cv" "0 < a" "cv * 8000 \<le> 2 ^ 53" "a * 10000 \<le> 2 ^ 53"
  shows "\<exists>hf. computeHealthFactor (of_int cv) (of_int a) = Some hf \<and> 0 < hf \<and> (hf < SCALE \<longleftrightarrow> cv * 8000 < a * 10000)"
proof -
  let ?q = "fl (of_int (cv * 8000) / of_int (a * 10000))"
  have m: "js_mul (of_int cv) LIQUIDATION_THRESHOLD_BPS = of_int (cv * 8000)"
    "js_mul (of_int a) SCALE = of_int (a * 10000)"
    using assms js_mul_of_int [of cv 8000] js_mul_of_int [of a 10000]
    by (simp_all add: LIQUIDATION_THRESHOLD_BPS_def SCALE_def)
  have c: "computeHealthFactor (of_int cv) (of_int a) = Some (fl (10000 * ?q))"
    unfolding computeHealthFactor_def m using assms by (simp add: js_div_def js_mul_SCALE)
  have "fl (10000 * ?q) < 10000 \<longleftrightarrow> cv * 8000 < a * 10000"
  proof
    assume "cv * 8000 < a * 10000"
    then have "?q \<le> 1 - 1 / 2 ^ 53" using assms by (intro fl_quotient_less_1) auto
    then have "fl (10000 * ?q) \<le> fl (10000 * (1 - 1 / 2 ^ 53))" by (intro fl_mono mult_left_mono) auto
    then show "fl (10000 * ?q) < 10000" using just_below_scale by linarith
  next
    assume less: "fl (10000 * ?q) < 10000"
    show "cv * 8000 < a * 10000"
    proof (rule ccontr)
      assume "\<not> cv * 8000 < a * 10000"
      then have "1 \<le> ?q" using assms by (intro fl_quotient_ge_1) auto
      then have "fl 10000 \<le> fl (10000 * ?q)" by (intro fl_mono) auto
      then show False using less fl_of_int [of 10000] by simp
    qed
  qed
  then show ?thesis using c assms by (simp add: SCALE_def)
qed

subsection \<open>The loop without interference\<close>

text \<open>What the job makes of a loan.\<close>

definition assessed :: "store \<Rightarrow> LoanRecord \<Rightarrow> LoanRecord" where
  "assessed s loan = loan\<lparr>l_health_factor := loan_hf loan s, l_status := Some (new_status (loan_hf loan s))\<rparr>"

lemma maybeAlert_store [simp]: "jb_store (snd (maybeAlert env now k level h st)) = jb_store st"
  by (simp add: maybeAlert_def Let_def split_beta)

lemma job_step_store:
  "jb_store (snd (snd (job_step env now loan (n, st)))) =
     (if l_health_factor loan \<noteq> loan_hf loan (jb_store st) \<or>
         l_status loan \<noteq> Some (new_status (loan_hf loan (jb_store st)))
      then snd (updateLoan (l_id loan) (no_loan_updates\<lparr>lu_health_factor := Some (loan_hf loan (jb_store st)),
              lu_status := Some (new_status (loan_hf loan (jb_store st)))\<rparr>) (jb_store st))
      else jb_store st)"
  by (auto simp: job_step_def Let_def split_beta split: option.split)

lemma job_step_count:
  "fst (snd (job_step env now loan (n, st))) =
     (if loan \<noteq> assessed (jb_store st) loan then n + 1 else n)"
proof -
  have "loan = assessed (jb_store st) loan \<longleftrightarrow> l_health_factor loan = loan_hf loan (jb_store st) \<and>
      l_status loan = Some (new_status (loan_hf loan (jb_store st)))"
    by (cases loan) (auto simp: assessed_def)
  then show ?thesis by (simp add: job_step_def Let_def split_beta)
qed

lemma merge_loan_assessed:
  "merge_loan r (no_loan_updates\<lparr>lu_health_factor := Some hf, lu_status := Some ns\<rparr>) =
     r\<lparr>l_health_factor := hf, l_status := Some ns\<rparr>"
  by (simp add: merge_loan_def no_loan_updates_def)

lemma job_step_loans:
  assumes "m_get (loanTable (jb_store st)) (l_id loan) = Some loan"
  shows "m_get (loanTable (jb_store (snd (snd (job_step env now loan (n, st)))))) k =
      (if k = l_id loan then Some (assessed (jb_store st) loan) else m_get (loanTable (jb_store st)) k)"
proof -
  have "loan = assessed (jb_store st) loan \<longleftrightarrow> l_health_factor loan = loan_hf loan (jb_store st) \<and>
      l_status loan = Some (new_status (loan_hf loan (jb_store st)))"
    by (cases loan) (auto simp: assessed_def)
  then show ?thesis
    using assms unfolding job_step_store
    by (auto simp: updateLoan_def Let_def merge_loan_assessed assessed_def)
qed

lemma job_step_frame [simp]:
  "collateralTable (jb_store (snd (snd (job_step env now loan (n, st))))) = collateralTable (jb_store st)"
  "transactionTable (jb_store (snd (snd (job_step env now loan (n, st))))) = transactionTable (jb_store st)"
  by (simp_all add: job_step_store)

lemma assessed_collateral: "collateralTable s = collateralTable s' \<Longrightarrow> assessed s = assessed s'"
  by (simp add: assessed_def loan_hf_def collateral_value_def getCollateral_def fun_eq_iff)

definition assess_all :: "store \<Rightarrow> LoanRecord set \<Rightarrow> LoanRecord option \<Rightarrow> LoanRecord option" where
  "assess_all s ls r = map_option (\<lambda>r. if r \<in> ls then assessed s r else r) r"

lemma job_loop_loans:
  assumes "distinct (map (l_id \<circ> snd) ls)"
    and "\<forall>(t, l)\<in>set ls. m_get (loanTable (jb_store st)) (l_id l) = Some l"
    and "\<forall>k r. m_get (loanTable (jb_store st)) k = Some r \<longrightarrow> l_id r = k"
  shows "(\<forall>k. m_get (loanTable (jb_store (snd (snd (job_loop env ls (n, st)))))) k =
        assess_all (jb_store st) (snd ` set ls) (m_get (loanTable (jb_store st)) k)) \<and>
    fst (snd (job_loop env ls (n, st))) = n + length (filter (\<lambda>(_, l). l \<noteq> assessed (jb_store st) l) ls) \<and>
    collateralTable (jb_store (snd (snd (job_loop env ls (n, st))))) = collateralTable (jb_store st)"
  using assms
proof (induction ls arbitrary: n st)
  case Nil
  have "assess_all (jb_store st) {} r = r" for r by (simp add: assess_all_def option.map_ident)
  then show ?case by simp
next
  case (Cons p ls)
  obtain t l where p: "p = (t, l)" by (cases p)
  obtain out m st' where s: "job_step env t l (n, st) = (out, m, st')" by (cases "job_step env t l (n, st)") auto
  have s': "st' = snd (snd (job_step env t l (n, st)))" "m = fst (snd (job_step env t l (n, st)))"
    by (simp_all add: s)
  have l: "m_get (loanTable (jb_store st)) (l_id l) = Some l" using Cons.prems(2) p by auto
  have tab: "m_get (loanTable (jb_store st')) k =
      (if k = l_id l then Some (assessed (jb_store st) l) else m_get (loanTable (jb_store st)) k)" for k
    unfolding s' by (rule job_step_loans [OF l])
  have col: "collateralTable (jb_store st') = collateralTable (jb_store st)" by (simp add: s')
  note ass = assessed_collateral [OF col]
  have nin: "r \<notin> snd ` set ls" if "l_id r = l_id l" for r
    using Cons.prems(1) p that by (force simp: comp_def)
  have ida: "l_id (assessed s r) = l_id r" for s r by (simp add: assessed_def)
  have rest: "distinct (map (l_id \<circ> snd) ls)"
    "\<forall>(t, l)\<in>set ls. m_get (loanTable (jb_store st')) (l_id l) = Some l"
    "\<forall>k r. m_get (loanTable (jb_store st')) k = Some r \<longrightarrow> l_id r = k"
  proof -
    show "distinct (map (l_id \<circ> snd) ls)" using Cons.prems(1) by (simp add: comp_def)
    show "\<forall>(t, l)\<in>set ls. m_get (loanTable (jb_store st')) (l_id l) = Some l"
    proof clarify
      fix t' l' assume m: "(t', l') \<in> set ls"
      then have "l' \<in> snd ` set ls" by force
      then have "l_id l' \<noteq> l_id l" using nin by blast
      then show "m_get (loanTable (jb_store st')) (l_id l') = Some l'"
        using Cons.prems(2) m by (auto simp: tab)
    qed
    show "\<forall>k r. m_get (loanTable (jb_store st')) k = Some r \<longrightarrow> l_id r = k"
      using Cons.prems(3) by (simp add: tab ida)
  qed
  note IH = Cons.IH [OF rest, of m]
  have unf: "snd (job_loop env (p # ls) (n, st)) = snd (job_loop env ls (m, st'))"
    by (simp add: p s split_beta Let_def)
  have step: "assess_all (jb_store st) (snd ` set ls) (m_get (loanTable (jb_store st')) k) =
      assess_all (jb_store st) (snd ` set (p # ls)) (m_get (loanTable (jb_store st)) k)" for k
  proof (cases "k = l_id l")
    case True
    then show ?thesis using l nin [of "assessed (jb_store st) l"] by (simp add: tab assess_all_def ida p)
  next
    case False
    then have "m_get (loanTable (jb_store st)) k \<noteq> Some l" using Cons.prems(3) by blast
    then show ?thesis using False by (cases "m_get (loanTable (jb_store st)) k") (auto simp: tab assess_all_def p)
  qed
  have as': "assess_all (jb_store st') = assess_all (jb_store st)" by (intro ext) (simp only: assess_all_def ass)
  show ?case
    unfolding unf using IH p by (simp add: step as' ass col s'(2) job_step_count)
qed

lemma length_filter_snd: "length (filter (\<lambda>(_, l). P l) xs) = length (filter P (map snd xs))"
  by (induction xs) auto

lemma active_loans_current:
  assumes "store_wf s"
  shows "r \<in> set (listActiveLoans s) \<longleftrightarrow> getLoan (l_id r) s = Some r \<and> is_open_status (l_status r)"
    and "distinct (map l_id (listActiveLoans s))"
    and "m_get (loanTable s) k = Some r \<Longrightarrow> l_id r = k"
proof -
  have t: "table_ok l_id loan_ok (loanTable s)" using assms by (simp add: store_wf_def)
  have k: "m_get (loanTable s) k = Some r \<Longrightarrow> l_id r = k" for k r using table_ok_get [OF t] by blast
  then show "m_get (loanTable s) k = Some r \<Longrightarrow> l_id r = k" .
  have "r \<in> set (m_values (loanTable s)) \<longleftrightarrow> m_get (loanTable s) (l_id r) = Some r"
    using m_in_values_get [OF table_ok_wf [OF t]] m_get_in_values k by metis
  then show "r \<in> set (listActiveLoans s) \<longleftrightarrow> getLoan (l_id r) s = Some r \<and> is_open_status (l_status r)"
    by (auto simp: listActiveLoans_def getLoan_def split: option.splits if_splits)
  have "map l_id (m_values (loanTable s)) = m_keys (loanTable s)"
    using t by (auto simp: table_ok_def m_values_def m_keys_def list_all_iff)
  then have "distinct (map l_id (m_values (loanTable s)))"
    using table_ok_wf [OF t] by (simp add: m_wf_def)
  then show "distinct (map l_id (listActiveLoans s))"
    by (simp add: listActiveLoans_def distinct_map_filter)
qed

subsection \<open>Reminders\<close>

text \<open>
  A loan as the job is given it, the mail it makes of it, and the transport: \<open>None\<close> when none is
  configured, otherwise what sending the mail comes to. A day is the number of UTC days, which
  the ISO date names.
\<close>

definition REMINDER_THRESHOLD :: rat where "REMINDER_THRESHOLD = 13000"

record reminder_loan =
  rl_id :: string
  rl_borrower :: string
  rl_health_factor :: "rat option"
  rl_amount :: rat
  rl_status :: string

text \<open>\<open>x.toFixed(d)\<close> for numbers that are not negative.\<close>

definition pad_left :: "nat \<Rightarrow> string \<Rightarrow> string" where
  "pad_left n s = replicate (n - length s) CHR ''0'' @ s"

definition toFixed_str :: "nat \<Rightarrow> rat \<Rightarrow> string" where
  "toFixed_str d x =
     (let n = nat \<lfloor>x * 10 ^ d + 1 / 2\<rfloor>; q = n div 10 ^ d; r = n mod 10 ^ d in
      string_of_nat q @ (if d = 0 then [] else ''.'' @ pad_left d (string_of_nat r)))"

record mail =
  ml_to :: string
  ml_subject :: string
  ml_text :: "string list"

definition em_dash :: string where "em_dash = [CHR 0xE2, CHR 0x80, CHR 0x94]"

definition reminder_mail :: "reminder_loan \<Rightarrow> mail" where
  "reminder_mail loan =
     (let hf = (case rl_health_factor loan of None \<Rightarrow> ''N/A'' | Some h \<Rightarrow> toFixed_str 4 (js_div h SCALE));
          balance = toFixed_str 2 (js_div (rl_amount loan) 10000000) in
      \<lparr>ml_to = rl_borrower loan,
       ml_subject = ''[StellarKraal] Repayment reminder '' @ em_dash @ '' Loan '' @ rl_id loan,
       ml_text = [''Hello,'', [], ''Your loan (ID: '' @ rl_id loan @ '') requires attention.'', [],
          ''  Health Factor : '' @ hf, ''  Outstanding   : '' @ balance @ '' XLM'', [],
          ''Please repay or add collateral to avoid liquidation.'', [], em_dash @ '' StellarKraal'']\<rparr>)"

text \<open>What was mailed or logged, or the error of the transport.\<close>

definition sendReminderEmail :: "(mail \<Rightarrow> js_error + unit) option \<Rightarrow> reminder_loan \<Rightarrow> js_error + mail" where
  "sendReminderEmail transport loan =
     (let m = reminder_mail loan in
      case transport of None \<Rightarrow> Inr m | Some send \<Rightarrow> (case send m of Inl e \<Rightarrow> Inl e | Inr _ \<Rightarrow> Inr m))"

type_synonym reminder_dates = "(string, int) js_map"

definition alreadySentToday :: "string \<Rightarrow> int \<Rightarrow> reminder_dates \<Rightarrow> bool" where
  "alreadySentToday k today d \<longleftrightarrow> m_get d k = Some today"

definition markReminderSent :: "string \<Rightarrow> int \<Rightarrow> reminder_dates \<Rightarrow> reminder_dates" where
  "markReminderSent k today d = m_set k today d"

definition wants_reminder :: "reminder_loan \<Rightarrow> bool" where
  "wants_reminder loan \<longleftrightarrow> (rl_status loan = ''active'' \<or> rl_status loan = ''at_risk'') \<and>
     (case rl_health_factor loan of None \<Rightarrow> False | Some h \<Rightarrow> h < REMINDER_THRESHOLD)"

fun reminder_loop ::
  "(mail \<Rightarrow> js_error + unit) option \<Rightarrow> int \<Rightarrow> reminder_loan list \<Rightarrow> reminder_dates \<Rightarrow> (string \<times> mail) list \<times> reminder_dates" where
  "reminder_loop transport today [] d = ([], d)"
| "reminder_loop transport today (loan # rest) d =
     (if \<not> wants_reminder loan \<or> alreadySentToday (rl_id loan) today d then reminder_loop transport today rest d
      else (case sendReminderEmail transport loan of
              Inl _ \<Rightarrow> reminder_loop transport today rest d
            | Inr m \<Rightarrow> (let (out, d') = reminder_loop transport today rest (markReminderSent (rl_id loan) today d) in
                        ((rl_id loan, m) # out, d'))))"

text \<open>What a loan fetcher gives: an array, or another object, which the loop cannot iterate.\<close>

datatype fetched = LoanArray "reminder_loan list" | NotIterable

definition runRepaymentReminderJob ::
  "(mail \<Rightarrow> js_error + unit) option \<Rightarrow> int \<Rightarrow> fetched \<Rightarrow> reminder_dates \<Rightarrow>
   (js_error + (string \<times> mail) list) \<times> reminder_dates" where
  "runRepaymentReminderJob transport now loans d =
     (case loans of
        NotIterable \<Rightarrow> (Inl (JsError ''TypeError'' ''loans is not iterable''), d)
      | LoanArray ls \<Rightarrow> (let (out, d') = reminder_loop transport (now div 86400000) ls d in (Inr out, d')))"

text \<open>The default fetcher hands over the result of \<open>listLoans()\<close>, an object with the fields of a
  page and no iterator.\<close>

definition defaultFetchLoans :: "LoanRecord listing \<Rightarrow> fetched" where
  "defaultFetchLoans page = NotIterable"

text \<open>The scheduled run catches what the job throws.\<close>

definition scheduledReminderRun ::
  "(mail \<Rightarrow> js_error + unit) option \<Rightarrow> (string \<Rightarrow> int option) \<Rightarrow> int \<Rightarrow> store \<Rightarrow> reminder_dates \<Rightarrow>
   (string \<times> mail) list \<times> reminder_dates" where
  "scheduledReminderRun transport parse_date now s d =
     (case runRepaymentReminderJob transport now (defaultFetchLoans (listLoans parse_date no_loan_filter s)) d of
        (Inl _, d') \<Rightarrow> ([], d')
      | (Inr out, d') \<Rightarrow> (out, d'))"

lemma reminder_loop_dates:
  "m_get (snd (reminder_loop tr today ls d)) k =
     (if k \<in> fst ` set (fst (reminder_loop tr today ls d)) then Some today else m_get d k)"
  by (induction tr today ls d rule: reminder_loop.induct)
    (auto simp: Let_def split_beta markReminderSent_def split: sum.splits)

lemma reminder_loop_fresh:
  "(k, m) \<in> set (fst (reminder_loop tr today ls d)) \<Longrightarrow> m_get d k \<noteq> Some today"
  by (induction tr today ls d rule: reminder_loop.induct)
    (auto simp: Let_def split_beta markReminderSent_def alreadySentToday_def split: sum.splits if_splits)

lemma reminder_loop_distinct: "distinct (map fst (fst (reminder_loop tr today ls d)))"
proof (induction tr today ls d rule: reminder_loop.induct)
  case (2 tr today loan rest d)
  have "rl_id loan \<notin> fst ` set (fst (reminder_loop tr today rest (markReminderSent (rl_id loan) today d)))"
    by (force dest: reminder_loop_fresh simp: markReminderSent_def)
  with 2 show ?case by (auto simp: Let_def split_beta split: sum.splits)
qed simp

text \<open>Several runs, each with its own transport, clock and loans.\<close>

fun reminder_runs ::
  "((mail \<Rightarrow> js_error + unit) option \<times> int \<times> reminder_loan list) list \<Rightarrow> reminder_dates \<Rightarrow> (int \<times> string) list" where
  "reminder_runs [] d = []"
| "reminder_runs ((tr, now, ls) # rs) d =
     (case runRepaymentReminderJob tr now (LoanArray ls) d of
        (Inl _, d') \<Rightarrow> reminder_runs rs d'
      | (Inr out, d') \<Rightarrow> map (\<lambda>(k, _). (now div 86400000, k)) out @ reminder_runs rs d')"

lemma reminder_runs_after:
  assumes "sorted (map (\<lambda>(_, now, _). now div 86400000) rs)" "\<forall>(_, now, _)\<in>set rs. day \<le> now div 86400000"
    and "m_get d k = Some day"
  shows "(day, k) \<notin> set (reminder_runs rs d)"
  using assms
proof (induction rs arbitrary: d)
  case (Cons r rs)
  obtain tr now ls where r: "r = (tr, now, ls)" by (cases r)
  let ?t = "now div 86400000"
  obtain out d' where o: "reminder_loop tr ?t ls d = (out, d')" by fastforce
  have dates: "m_get d' k = (if k \<in> fst ` set out then Some ?t else m_get d k)"
    using reminder_loop_dates [of tr ?t ls d k] o by simp
  have now: "(day, k) \<notin> set (map (\<lambda>(k, _). (?t, k)) out)"
    using reminder_loop_fresh [of k _ tr ?t ls d] Cons.prems(3) o by force
  have later: "(day, k) \<notin> set (reminder_runs rs d')"
  proof (cases "m_get d' k = Some day")
    case True
    then show ?thesis using Cons by (auto simp: r)
  next
    case False
    then have "day < ?t" using dates Cons.prems by (auto simp: r split: if_splits)
    then have "\<forall>(_, now, _)\<in>set rs. day < now div 86400000" using Cons.prems(1) by (fastforce simp: r)
    then show ?thesis
    proof (induction rs arbitrary: d')
      case (Cons a rs)
      then show ?case by (cases a) (auto simp: runRepaymentReminderJob_def split_beta Let_def)
    qed simp
  qed
  show ?case using now later o by (auto simp: r runRepaymentReminderJob_def)
qed simp

lemma reminder_runs_distinct:
  assumes "sorted (map (\<lambda>(_, now, _). now div 86400000) rs)"
  shows "distinct (reminder_runs rs d)"
  using assms
proof (induction rs arbitrary: d)
  case (Cons r rs)
  obtain tr now ls where r: "r = (tr, now, ls)" by (cases r)
  let ?t = "now div 86400000"
  obtain out d' where o: "reminder_loop tr ?t ls d = (out, d')" by fastforce
  have "distinct (map fst out)" using reminder_loop_distinct [of tr ?t ls d] o by simp
  then have "distinct (map (\<lambda>(k, _). (?t, k)) out)"
    by (auto simp: distinct_map inj_on_def split_beta)
  moreover have "(?t, k) \<notin> set (reminder_runs rs d')" if "(k, m) \<in> set out" for k m
  proof -
    have "m_get d' k = Some ?t" using reminder_loop_dates [of tr ?t ls d k] o that by force
    moreover have "\<forall>(_, now, _)\<in>set rs. ?t \<le> now div 86400000" using Cons.prems r by fastforce
    ultimately show ?thesis using Cons.prems by (intro reminder_runs_after) (auto simp: r)
  qed
  ultimately show ?case using Cons o by (auto simp: r runRepaymentReminderJob_def)
qed simp

subsection \<open>Properties\<close>

text \<open>For whole amounts up to 2^53 the health factor the job computes with rounding falls below
  1 (10000 basis points) exactly when 80% of the collateral is worth less than the debt, so the
  mark at risk is exact and no rounding ever moves a loan across the line.\<close>

theorem risk_mark_exact:
  assumes "0 < cv" "0 < a" "cv * 8000 \<le> 2 ^ 53" "a * 10000 \<le> 2 ^ 53"
  shows "new_status (computeHealthFactor (of_int cv) (of_int a)) = (if cv * 8000 < a * 10000 then LAtRisk else LActive)"
  using computeHealthFactor_int [OF assms] by (auto simp: new_status_def)

theorem risk_mark_exact_witness:
  "new_status (computeHealthFactor 1000 801) = LAtRisk \<and> new_status (computeHealthFactor 1000 800) = LActive"
  using risk_mark_exact [of 1000 801] risk_mark_exact [of 1000 800] by simp

lemma health_job_run:
  assumes "store_wf (jb_store st)"
  shows "(\<forall>k. m_get (loanTable (jb_store (snd (snd (runHealthFactorJob env clock st))))) k =
      map_option (\<lambda>r. if l_deletedAt r = None \<and> is_open_status (l_status r) then assessed (jb_store st) r else r)
        (m_get (loanTable (jb_store st)) k)) \<and>
    collateralTable (jb_store (snd (snd (runHealthFactorJob env clock st)))) = collateralTable (jb_store st) \<and>
    fst (snd (runHealthFactorJob env clock st)) =
      length (filter (\<lambda>l. l \<noteq> assessed (jb_store st) l) (listActiveLoans (jb_store st)))"
proof -
  let ?s = "jb_store st"
  let ?ls = "map (\<lambda>(i, l). (clock i, l)) (enumerate 0 (listActiveLoans ?s))"
  note act = active_loans_current [OF assms]
  have "map snd ?ls = map snd (enumerate 0 (listActiveLoans ?s))" by (simp add: comp_def split_beta)
  then have snds: "map snd ?ls = listActiveLoans ?s" by (simp only: enumerate_eq_zip) simp
  have im: "snd ` set ?ls = set (listActiveLoans ?s)" using arg_cong [OF snds, of set] by (simp only: set_map)
  have d: "distinct (map (l_id \<circ> snd) ?ls)"
    using act(2) by (metis map_map snds)
  have cur: "\<forall>(t, l)\<in>set ?ls. m_get (loanTable ?s) (l_id l) = Some l"
  proof clarify
    fix t l assume "(t, l) \<in> set ?ls"
    from imageI [OF this, of snd] have "l \<in> set (listActiveLoans ?s)" unfolding im by simp
    then show "m_get (loanTable ?s) (l_id l) = Some l"
      using act(1) by (auto simp: getLoan_def split: option.splits if_splits)
  qed
  have ids: "\<forall>k r. m_get (loanTable ?s) k = Some r \<longrightarrow> l_id r = k" using act(3) by blast
  have loop: "(\<forall>k. m_get (loanTable (jb_store (snd (snd (runHealthFactorJob env clock st))))) k =
        assess_all ?s (set (listActiveLoans ?s)) (m_get (loanTable ?s) k)) \<and>
      fst (snd (runHealthFactorJob env clock st)) = length (filter (\<lambda>(_, l). l \<noteq> assessed ?s l) ?ls) \<and>
      collateralTable (jb_store (snd (snd (runHealthFactorJob env clock st)))) = collateralTable ?s"
    unfolding runHealthFactorJob_def by (rule job_loop_loans [OF d cur ids, of env 0, unfolded im add_0])
  have "assess_all ?s (set (listActiveLoans ?s)) (m_get (loanTable ?s) k) =
      map_option (\<lambda>r. if l_deletedAt r = None \<and> is_open_status (l_status r) then assessed ?s r else r)
        (m_get (loanTable ?s) k)" for k
    using act(1,3) by (cases "m_get (loanTable ?s) k") (auto simp: assess_all_def getLoan_def)
  moreover have "length (filter (\<lambda>(_, l). l \<noteq> assessed ?s l) ?ls) =
      length (filter (\<lambda>l. l \<noteq> assessed ?s l) (listActiveLoans ?s))"
    by (rule length_filter_snd [of _ ?ls, unfolded snds])
  ultimately show ?thesis using loop by metis
qed

text \<open>C24: A run of the health job that nothing interrupts gives every open loan the factor and the
  status of its current collateral, changes no other loan and no collateral, and returns the
  number of loans it changed.\<close>

theorem health_job_assesses:
  assumes "store_wf (jb_store st)"
  shows "let s = jb_store st; (out, n, st') = runHealthFactorJob env clock st; s' = jb_store st' in
    (\<forall>k. m_get (loanTable s') k =
       map_option (\<lambda>r. if l_deletedAt r = None \<and> is_open_status (l_status r) then assessed s r else r)
         (m_get (loanTable s) k)) \<and>
    collateralTable s' = collateralTable s \<and>
    n = length (filter (\<lambda>l. l \<noteq> assessed s l) (listActiveLoans s))"
  using health_job_run [OF assms, of env clock] unfolding Let_def split_beta by blast

definition calm_env :: job_env where
  "calm_env = \<lparr>je_alerts = quiet_env, WARN_THRESHOLD = 13000, CRIT_THRESHOLD = 10000\<rparr>"

theorem health_job_assesses_witness:
  "m_get (loanTable (jb_store (snd (snd (runHealthFactorJob calm_env (\<lambda>_. 5)
      \<lparr>jb_store = sample_store, jb_cooldowns = [], jb_fired = []\<rparr>))))) ''7'' =
   map_option (assessed sample_store) (getLoan ''7'' sample_store)"
proof -
  have w: "store_wf sample_store" unfolding sample_store_def by (rule store_wf_run [OF store_wf_empty])
  have g: "\<exists>r. m_get (loanTable sample_store) ''7'' = Some r \<and> l_deletedAt r = None \<and> is_open_status (l_status r)"
    by (simp add: sample_store_eq m_get_def insertLoan_def Let_def sample_loan_def LoanData.defs is_open_status_def)
  then show ?thesis
    using health_job_assesses [of "\<lparr>jb_store = sample_store, jb_cooldowns = [], jb_fired = []\<rparr>" calm_env "\<lambda>_. 5"] w
    by (auto simp: Let_def split_beta getLoan_def)
qed

text \<open>A loan that is liquidated while the job is between two loans is open again after the job has
  reached it: the job writes the status it computes from the record it read at its start over
  the status liquidated.\<close>

theorem job_reopens_liquidated_loan:
  assumes "getLoan k s = Some loan" "l_id loan = k" "jb_store st = snd (updateLoan k (no_loan_updates\<lparr>lu_status := Some LLiquidated\<rparr>) s)"
    and "loan \<noteq> assessed s loan"
  shows "let s' = jb_store (snd (snd (job_step env now loan (n, st)))) in
    map_option l_status (getLoan k (jb_store st)) = Some (Some LLiquidated) \<and>
    map_option l_status (getLoan k s') = Some (Some (new_status (loan_hf loan s))) \<and>
    is_open_status (Some (new_status (loan_hf loan s)))"
proof -
  have hf: "loan_hf loan (jb_store st) = loan_hf loan s"
    by (simp add: assms(3) loan_hf_def collateral_value_def getCollateral_def)
  have ch: "l_health_factor loan \<noteq> loan_hf loan s \<or> l_status loan \<noteq> Some (new_status (loan_hf loan s))"
    using assms(4) by (cases loan) (auto simp: assessed_def)
  have "getLoan k (jb_store st) = Some (loan\<lparr>l_status := Some LLiquidated\<rparr>)"
    using assms(1) by (simp add: assms(3) updateLoan_get merge_loan_def no_loan_updates_def)
  then show ?thesis
    using ch assms(2) unfolding Let_def job_step_store hf
    by (simp add: updateLoan_get merge_loan_assessed) (simp add: new_status_def is_open_status_def split: option.split)
qed

theorem job_reopens_liquidated_loan_witness:
  "let s = snd (updateLoan ''7'' (no_loan_updates\<lparr>lu_status := Some LLiquidated\<rparr>) sample_store);
       loan = the (getLoan ''7'' sample_store);
       s' = jb_store (snd (snd (job_step calm_env 0 loan (0, \<lparr>jb_store = s, jb_cooldowns = [], jb_fired = []\<rparr>)))) in
   map_option l_status (getLoan ''7'' s) = Some (Some LLiquidated) \<and>
   map_option l_status (getLoan ''7'' s') = Some (Some LActive)"
proof -
  have g: "getLoan ''7'' sample_store = Some (the (getLoan ''7'' sample_store))" "l_id (the (getLoan ''7'' sample_store)) = ''7''"
    "l_health_factor (the (getLoan ''7'' sample_store)) = Some 50" "l_amount (the (getLoan ''7'' sample_store)) = 600"
    "collateral_value (the (getLoan ''7'' sample_store)) sample_store = 1000"
    by (simp_all add: sample_store_eq getLoan_def m_get_def insertLoan_def Let_def sample_loan_def LoanData.defs
        collateral_value_def getCollateral_def insertCollateral_def sample_collateral_def CollateralData.defs)
  let ?l = "the (getLoan ''7'' sample_store)"
  obtain hf where hf: "loan_hf ?l sample_store = Some hf" "\<not> hf < SCALE"
    using computeHealthFactor_int [of 1000 600] g by (auto simp: loan_hf_def)
  have "SCALE = 10000" by (simp add: SCALE_def)
  then have "?l \<noteq> assessed sample_store ?l" using hf g(3) by (auto simp: assessed_def dest: arg_cong [where f = l_health_factor])
  moreover have "new_status (Some hf) = LActive" using hf by (simp add: new_status_def)
  ultimately show ?thesis
    using job_reopens_liquidated_loan [OF g(1,2), of "\<lparr>jb_store = snd (updateLoan ''7'' (no_loan_updates\<lparr>lu_status := Some LLiquidated\<rparr>) sample_store),
        jb_cooldowns = [], jb_fired = []\<rparr>" calm_env 0 0] hf
    by (simp add: Let_def)
qed

text \<open>However often the reminder job runs on a day, with whatever loans and however often the mail
  transport fails, no loan is mailed about twice on one day.\<close>

theorem one_reminder_per_day:
  assumes "sorted (map (\<lambda>(_, now, _). now div 86400000) runs)"
  shows "distinct (reminder_runs runs d)"
  by (rule reminder_runs_distinct [OF assms])

definition due_loan :: reminder_loan where
  "due_loan = \<lparr>rl_id = ''7'', rl_borrower = ''a@b'', rl_health_factor = Some 12000, rl_amount = 10000000, rl_status = ''active''\<rparr>"

theorem one_reminder_per_day_witness:
  "reminder_runs [(None, 5, [due_loan, due_loan]), (None, 9, [due_loan]), (None, 86400000, [due_loan])] [] =
     [(0, ''7''), (1, ''7'')] \<and>
   distinct (reminder_runs [(None, 5, [due_loan, due_loan]), (None, 9, [due_loan]), (None, 86400000, [due_loan])] [])"
  using one_reminder_per_day [of "[(None, 5, [due_loan, due_loan]), (None, 9, [due_loan]), (None, 86400000, [due_loan])]" "[]"]
  by (simp add: runRepaymentReminderJob_def wants_reminder_def due_loan_def REMINDER_THRESHOLD_def alreadySentToday_def
      sendReminderEmail_def Let_def markReminderSent_def)

text \<open>The scheduled reminder run never sends a reminder: its default fetcher hands the loop the page
  object of \<open>listLoans\<close>, which cannot be iterated, so the run fails before the first loan
  whatever the store holds, while the same job given the loans as an array does send.\<close>

theorem scheduled_reminders_never_sent:
  "scheduledReminderRun transport parse_date now s d = ([], d) \<and>
   fst (runRepaymentReminderJob None now (LoanArray [due_loan]) []) = Inr [(''7'', reminder_mail due_loan)]"
  by (simp add: scheduledReminderRun_def defaultFetchLoans_def runRepaymentReminderJob_def wants_reminder_def due_loan_def
      REMINDER_THRESHOLD_def alreadySentToday_def sendReminderEmail_def Let_def markReminderSent_def)

end
