(* ===== verification/Loan_Service.thy ===== *)
theory Loan_Service
  imports Contract_Tx Webhooks Health_Job
begin

section \<open>The services (backend/src/services/loanService.ts, collateralService.ts)\<close>

text \<open>
  The operations behind the version 1 routes: contract transactions for requests, repayments and
  registrations, liquidation with its checks before the RPC call and its writes after it, the
  simulations, and the validated loan listing. An operation returns its value or its error, what
  it sent to webhooks, and the state it leaves. Inputs are the values the schemas let through:
  integers where the schema says \<open>int()\<close>.
\<close>

record LoanRequestInput =
  lr_borrower :: string
  lr_collateral_ids :: "int list"
  lr_amount :: int
  lr_min_disbursement :: "int option"

record LoanRepayInput =
  lp_borrower :: string
  lp_loan_id :: int
  lp_amount :: int

record LoanLiquidateInput =
  ll_liquidator :: string
  ll_loan_id :: int
  ll_repay_amount :: int

record RegisterCollateralInput =
  rc_owner :: string
  rc_animal_type :: string
  rc_count :: int
  rc_appraised_value :: int

datatype service_error =
    LoanNotFoundError string
  | LoanNotLiquidatableError "rat option"
  | InvalidPaginationError string
  | Thrown js_error

fun service_message :: "service_error \<Rightarrow> string" where
  "service_message (LoanNotFoundError k) = ''Loan '' @ k @ '' not found''"
| "service_message (LoanNotLiquidatableError hf) = ''Loan health factor is above liquidation threshold''"
| "service_message (InvalidPaginationError m) = m"
| "service_message (Thrown e) = err_message e"

text \<open>The surroundings of a service call: SDK, RPC server, webhook signatures and JSON text.\<close>

record service_env =
  se_sdk :: sdk
  se_rpc :: rpc
  se_hmac :: "string \<Rightarrow> string \<Rightarrow> string"
  se_stringify :: "json \<Rightarrow> string"

definition lift_thrown :: "js_error + 'a \<Rightarrow> service_error + 'a" where
  "lift_thrown r = (case r of Inl e \<Rightarrow> Inl (Thrown e) | Inr x \<Rightarrow> Inr x)"

definition service_tx :: "service_env \<Rightarrow> string \<Rightarrow> string \<Rightarrow> scarg list \<Rightarrow> js_error + string" where
  "service_tx env src m args =
     call_contract (buildContractTx_service (se_sdk env) (se_rpc env)) (se_sdk env) src m args"

definition fire :: "service_env \<Rightarrow> int \<Rightarrow> string \<Rightarrow> json \<Rightarrow> hooks \<Rightarrow> sent list \<times> hooks" where
  "fire env now event payload h = fireWebhooks (se_hmac env) (se_stringify env) now event payload h"

subsection \<open>Requests, repayments and registrations\<close>

definition min_disbursement_arg :: "int option \<Rightarrow> scarg" where
  "min_disbursement_arg m = (case m of None \<Rightarrow> ArgVoid | Some n \<Rightarrow> ArgI128 (of_int n))"

definition requestLoan ::
  "service_env \<Rightarrow> int \<Rightarrow> LoanRequestInput \<Rightarrow> hooks \<Rightarrow> (service_error + string) \<times> sent list \<times> hooks" where
  "requestLoan env now i h =
     (case service_tx env (lr_borrower i) ''request_loan''
             [ArgAddress (lr_borrower i), ArgVec (map (\<lambda>n. ArgU64 (of_int n)) (lr_collateral_ids i)),
              ArgI128 (of_int (lr_amount i)), min_disbursement_arg (lr_min_disbursement i)] of
        Inl e \<Rightarrow> (Inl (Thrown e), [], h)
      | Inr xdr \<Rightarrow> (Inr xdr, fire env now ''loan.approved'' (JObj
             [(''borrower'', JStr (lr_borrower i)), (''collateral_ids'', JArr (map jint (lr_collateral_ids i))),
              (''amount'', jint (lr_amount i))]) h))"

definition repayLoan ::
  "service_env \<Rightarrow> int \<Rightarrow> LoanRepayInput \<Rightarrow> hooks \<Rightarrow> (service_error + string) \<times> sent list \<times> hooks" where
  "repayLoan env now i h =
     (case service_tx env (lp_borrower i) ''repay_loan''
             [ArgAddress (lp_borrower i), ArgU64 (of_int (lp_loan_id i)), ArgI128 (of_int (lp_amount i))] of
        Inl e \<Rightarrow> (Inl (Thrown e), [], h)
      | Inr xdr \<Rightarrow> (Inr xdr, fire env now ''loan.repaid'' (JObj
             [(''borrower'', JStr (lp_borrower i)), (''loan_id'', jint (lp_loan_id i)),
              (''amount'', jint (lp_amount i))]) h))"

definition registerCollateral :: "service_env \<Rightarrow> RegisterCollateralInput \<Rightarrow> js_error + string" where
  "registerCollateral env i =
     service_tx env (rc_owner i) ''register_livestock''
       [ArgAddress (rc_owner i), ArgSymbol (rc_animal_type i), ArgU32 (of_int (rc_count i)),
        ArgI128 (of_int (rc_appraised_value i))]"

text \<open>\<open>Promise.all\<close>: all results in order, or the error of an item that failed (here the first one).\<close>

definition batchRegisterCollateral :: "service_env \<Rightarrow> RegisterCollateralInput list \<Rightarrow> js_error + string list" where
  "batchRegisterCollateral env items = collect (registerCollateral env) items"

definition getCollateralById :: "string \<Rightarrow> store \<Rightarrow> CollateralRecord option" where
  "getCollateralById k s = getCollateral k s"

subsection \<open>Liquidation\<close>

text \<open>What the code holds on to across the RPC call.\<close>

record liquidation =
  lq_loan :: LoanRecord
  lq_collateral :: "CollateralRecord option"

definition liquidation_hf :: "LoanRecord \<Rightarrow> CollateralRecord option \<Rightarrow> rat option" where
  "liquidation_hf loan collateral =
     (let collateralValue = (case collateral of None \<Rightarrow> 0 | Some c \<Rightarrow> c_appraised_value c) in
      if 0 < l_amount loan \<and> 0 < collateralValue
      then Some (js_mul (js_div (js_mul collateralValue 8000) (js_mul (l_amount loan) SCALE)) SCALE)
      else None)"

text \<open>Up to the RPC call: the checks.\<close>

definition liquidate_check :: "LoanLiquidateInput \<Rightarrow> store \<Rightarrow> service_error + liquidation" where
  "liquidate_check i s =
     (case getLoan (string_of_int (ll_loan_id i)) s of
        None \<Rightarrow> Inl (LoanNotFoundError (string_of_int (ll_loan_id i)))
      | Some loan \<Rightarrow>
          (let collateral = getCollateral (l_collateral_id loan) s; hf = liquidation_hf loan collateral in
           case hf of
             None \<Rightarrow> Inl (LoanNotLiquidatableError None)
           | Some h \<Rightarrow>
               if SCALE \<le> h then Inl (LoanNotLiquidatableError (Some h))
               else Inr \<lparr>lq_loan = loan, lq_collateral = collateral\<rparr>))"

definition liquidate_tx :: "service_env \<Rightarrow> LoanLiquidateInput \<Rightarrow> js_error + string" where
  "liquidate_tx env i =
     service_tx env (ll_liquidator i) ''liquidate''
       [ArgAddress (ll_liquidator i), ArgU64 (of_int (ll_loan_id i)), ArgI128 (of_int (ll_repay_amount i))]"

text \<open>After it: the writes, on what was read before.\<close>

definition liquidate_commit ::
  "service_env \<Rightarrow> int \<Rightarrow> string \<Rightarrow> string \<Rightarrow> LoanLiquidateInput \<Rightarrow> liquidation \<Rightarrow> store \<Rightarrow> hooks \<Rightarrow>
   LoanRecord option \<times> sent list \<times> store \<times> hooks" where
  "liquidate_commit env now rnd1 rnd2 i q s h =
     (let loan = lq_loan q;
          (updatedLoan, s1) = updateLoan (l_id loan) (no_loan_updates\<lparr>lu_status := Some LLiquidated\<rparr>) s;
          s2 = (case lq_collateral q of None \<Rightarrow> s1
                | Some c \<Rightarrow> snd (updateCollateral (c_id c) (no_collateral_updates\<lparr>cu_status := Some CLiquidated\<rparr>) s1));
          s3 = snd (insertLiquidationEvent now rnd1
                 \<lparr>q_loan_id = l_id loan, q_liquidator = ll_liquidator i, q_repay_amount = of_int (ll_repay_amount i)\<rparr> s2);
          s4 = snd (insertTransaction now rnd2
                 \<lparr>t_borrower = l_borrower loan, t_type = TLiquidation, t_status = TCompleted,
                  t_amount = of_int (ll_repay_amount i), t_loanId = Some (l_id loan),
                  t_collateralId = Some (l_collateral_id loan)\<rparr> s3);
          (out, h') = fire env now ''loan.liquidated'' (JObj
             [(''liquidator'', JStr (ll_liquidator i)), (''loan_id'', jint (ll_loan_id i)),
              (''repay_amount'', jint (ll_repay_amount i))]) h in
      (updatedLoan, out, s4, h'))"

text \<open>The whole operation when nothing else runs during the RPC call.\<close>

definition liquidateLoan ::
  "service_env \<Rightarrow> int \<Rightarrow> string \<Rightarrow> string \<Rightarrow> LoanLiquidateInput \<Rightarrow> store \<Rightarrow> hooks \<Rightarrow>
   (service_error + string \<times> LoanRecord option) \<times> sent list \<times> store \<times> hooks" where
  "liquidateLoan env now rnd1 rnd2 i s h =
     (case liquidate_check i s of
        Inl e \<Rightarrow> (Inl e, [], s, h)
      | Inr q \<Rightarrow>
          (case liquidate_tx env i of
             Inl e \<Rightarrow> (Inl (Thrown e), [], s, h)
           | Inr xdr \<Rightarrow>
               (let (loan, out, s', h') = liquidate_commit env now rnd1 rnd2 i q s h in
                (Inr (xdr, loan), out, s', h'))))"

subsection \<open>Simulations\<close>

text \<open>\<open>BigInt(s)\<close> on a string.\<close>

definition js_BigInt :: "string \<Rightarrow> js_error + int" where
  "js_BigInt s0 =
     (let s = trim s0; p = to_lower (take 2 s);
          bad = Inl (JsError ''SyntaxError'' (''Cannot convert '' @ s0 @ '' to a BigInt''));
          radix = (\<lambda>b. if drop 2 s \<noteq> [] \<and> list_all (\<lambda>c. is_hex c \<and> hex_val c < b) (drop 2 s)
                       then Inr (int (radix_val b (drop 2 s))) else bad);
          neg = starts_with ''-'' s;
          ds = (if starts_with ''-'' s \<or> starts_with ''+'' s then tl s else s) in
      if s = [] then Inr 0
      else if p = ''0x'' then radix 16
      else if p = ''0o'' then radix 8
      else if p = ''0b'' then radix 2
      else if all_digits ds then Inr (if neg then - int (digits_val ds) else int (digits_val ds))
      else bad)"

definition SIMULATION_ACCOUNT :: string where
  "SIMULATION_ACCOUNT = ''GASPH4OCYOERATXIKLPNURXUP7ISAQU2KWFB5XLUJ3LQHKHOCN3CEGD6''"

text \<open>A simulated read of the contract with the loan id as its argument.\<close>

definition simulate_read :: "service_env \<Rightarrow> string \<Rightarrow> string \<Rightarrow> string \<Rightarrow> js_error + native" where
  "simulate_read env account contract_method loanId =
     bind_r (rpc_getAccount (se_rpc env) account) (\<lambda>acc.
     bind_r (js_BigInt loanId) (\<lambda>n.
     bind_r (sdk_encode (se_sdk env) (ArgU64 (of_int n))) (\<lambda>arg.
     bind_r (sdk_build (se_sdk env) acc contract_method [arg]) (rpc_simulate (se_rpc env)))))"

definition getLoanOnChain :: "service_env \<Rightarrow> string \<Rightarrow> js_error + native" where
  "getLoanOnChain env loanId = simulate_read env SIMULATION_ACCOUNT ''get_loan'' loanId"

definition getHealthFactor :: "service_env \<Rightarrow> string \<Rightarrow> js_error + native" where
  "getHealthFactor env loanId = simulate_read env SIMULATION_ACCOUNT ''health_factor'' loanId"

subsection \<open>The loan listing\<close>

record ListLoansQuery =
  qy_page :: "string option"
  qy_pageSize :: "string option"
  qy_limit :: "string option"
  qy_status :: "string option"
  qy_borrowerAddress :: "string option"
  qy_from :: "string option"
  qy_to :: "string option"

text \<open>A number that passed \<open>Number.isInteger\<close>.\<close>

fun num_int :: "js_num \<Rightarrow> int" where "num_int (Fin x) = \<lfloor>x\<rfloor>" | "num_int _ = 0"

definition pos_integer :: "js_num \<Rightarrow> bool" where
  "pos_integer n \<longleftrightarrow> num_is_integer n \<and> 1 \<le> num_int n"

definition bad_date :: "(string \<Rightarrow> int option) \<Rightarrow> string option \<Rightarrow> bool" where
  "bad_date parse_date d = (case truthy_str d of None \<Rightarrow> False | Some s \<Rightarrow> parse_date s = None)"

definition listLoansPaginated ::
  "(string \<Rightarrow> int option) \<Rightarrow> ListLoansQuery \<Rightarrow> store \<Rightarrow> service_error + LoanRecord listing" where
  "listLoansPaginated parse_date q s =
     (let pageRaw = (case qy_page q of None \<Rightarrow> Fin 1 | Some p \<Rightarrow> js_Number p);
          limitRaw = (case qy_pageSize q of Some n \<Rightarrow> js_Number n
                      | None \<Rightarrow> (case qy_limit q of Some n \<Rightarrow> js_Number n | None \<Rightarrow> Fin 20));
          isPageSize = (qy_pageSize q \<noteq> None);
          invalid = Inl (InvalidPaginationError ''Invalid pagination parameters'') in
      if \<not> pos_integer pageRaw \<or> \<not> pos_integer limitRaw then invalid
      else if \<not> isPageSize \<and> 100 < num_int limitRaw then invalid
      else if (case truthy_str (qy_status q) of None \<Rightarrow> False
               | Some st \<Rightarrow> st \<notin> {''active'', ''repaid'', ''liquidated''})
      then Inl (InvalidPaginationError ''status must be one of: active, repaid, liquidated'')
      else if bad_date parse_date (qy_from q) then Inl (InvalidPaginationError ''from must be a valid ISO date'')
      else if bad_date parse_date (qy_to q) then Inl (InvalidPaginationError ''to must be a valid ISO date'')
      else Inr (listLoans parse_date
             \<lparr>lf_status = qy_status q, lf_borrowerAddress = qy_borrowerAddress q, lf_from = qy_from q,
              lf_to = qy_to q, lf_page = Some (num_int pageRaw), lf_limit = Some (min (num_int limitRaw) 100)\<rparr> s))"

subsection \<open>Liquidation in facts\<close>

lemma liquidation_hf_eq: "liquidation_hf loan (getCollateral (l_collateral_id loan) s) = loan_hf loan s"
  by (auto simp: liquidation_hf_def loan_hf_def collateral_value_def computeHealthFactor_def
      LIQUIDATION_THRESHOLD_BPS_def Let_def split: option.splits)

lemma liquidate_check_Inr:
  "liquidate_check i s = Inr q \<longleftrightarrow>
     (\<exists>loan h. getLoan (string_of_int (ll_loan_id i)) s = Some loan \<and> loan_hf loan s = Some h \<and> h < SCALE \<and>
        q = \<lparr>lq_loan = loan, lq_collateral = getCollateral (l_collateral_id loan) s\<rparr>)"
  by (auto simp: liquidate_check_def Let_def liquidation_hf_eq not_le split: option.splits if_splits)

lemma new_status_at_risk: "new_status hf = LAtRisk \<longleftrightarrow> (\<exists>h. hf = Some h \<and> h < SCALE)"
  by (auto simp: new_status_def split: option.splits)

lemma liquidateLoan_Inr:
  "liquidateLoan env now rnd1 rnd2 i s h = (Inr (xdr, ul), out, s', h') \<longleftrightarrow>
     (\<exists>q. liquidate_check i s = Inr q \<and> liquidate_tx env i = Inr xdr \<and>
        liquidate_commit env now rnd1 rnd2 i q s h = (ul, out, s', h'))"
  by (auto simp: liquidateLoan_def Let_def split_beta prod_eq_iff split: sum.splits)

text \<open>The store after the writes, table by table.\<close>

definition liquidated_tx :: "int \<Rightarrow> string \<Rightarrow> LoanLiquidateInput \<Rightarrow> LoanRecord \<Rightarrow> TransactionRecord" where
  "liquidated_tx now rnd i loan =
     \<lparr>t_borrower = l_borrower loan, t_type = TLiquidation, t_status = TCompleted,
      t_amount = of_int (ll_repay_amount i), t_loanId = Some (l_id loan),
      t_collateralId = Some (l_collateral_id loan), t_id = ''tx_'' @ string_of_int now @ ''_'' @ rnd,
      t_createdAt = now, t_updatedAt = now\<rparr>"

definition liquidated_event :: "int \<Rightarrow> string \<Rightarrow> LoanLiquidateInput \<Rightarrow> LoanRecord \<Rightarrow> LiquidationEvent" where
  "liquidated_event now rnd i loan =
     \<lparr>q_loan_id = l_id loan, q_liquidator = ll_liquidator i, q_repay_amount = of_int (ll_repay_amount i),
      q_id = ''liq_'' @ string_of_int now @ ''_'' @ rnd, q_timestamp = now\<rparr>"

lemma liquidate_commit_tables:
  assumes "liquidate_commit env now rnd1 rnd2 i q s h = (ul, out, s', h')"
  defines "s1 \<equiv> snd (updateLoan (l_id (lq_loan q)) (no_loan_updates\<lparr>lu_status := Some LLiquidated\<rparr>) s)"
  shows "loanTable s' = loanTable s1"
    and "collateralTable s' = collateralTable (case lq_collateral q of None \<Rightarrow> s1
      | Some c \<Rightarrow> snd (updateCollateral (c_id c) (no_collateral_updates\<lparr>cu_status := Some CLiquidated\<rparr>) s1))"
    and "transactionTable s' =
      m_set (''tx_'' @ string_of_int now @ ''_'' @ rnd2) (liquidated_tx now rnd2 i (lq_loan q)) (transactionTable s)"
    and "liquidationEventTable s' =
      m_set (''liq_'' @ string_of_int now @ ''_'' @ rnd1) (liquidated_event now rnd1 i (lq_loan q)) (liquidationEventTable s)"
    and "(out, h') = fire env now ''loan.liquidated'' (JObj
             [(''liquidator'', JStr (ll_liquidator i)), (''loan_id'', jint (ll_loan_id i)),
              (''repay_amount'', jint (ll_repay_amount i))]) h"
    and "ul = fst (updateLoan (l_id (lq_loan q)) (no_loan_updates\<lparr>lu_status := Some LLiquidated\<rparr>) s)"
  using assms
  by (auto simp: liquidate_commit_def Let_def split_beta insertTransaction_def insertLiquidationEvent_def
      TransactionData.defs LiquidationData.defs liquidated_tx_def liquidated_event_def split: option.splits)

lemma liquidate_commit_store:
  assumes "liquidate_commit env now rnd1 rnd2 i q s h = (ul, out, s', h')"
  shows "getLoan k s' = (if k = l_id (lq_loan q)
           then map_option (\<lambda>r. r\<lparr>l_status := Some LLiquidated\<rparr>) (getLoan k s) else getLoan k s)"
    and "getCollateral c s' = (if map_option c_id (lq_collateral q) = Some c
           then map_option (\<lambda>r. r\<lparr>c_status := Some CLiquidated\<rparr>) (getCollateral c s) else getCollateral c s)"
proof -
  let ?s1 = "snd (updateLoan (l_id (lq_loan q)) (no_loan_updates\<lparr>lu_status := Some LLiquidated\<rparr>) s)"
  let ?s2 = "case lq_collateral q of None \<Rightarrow> ?s1
      | Some c \<Rightarrow> snd (updateCollateral (c_id c) (no_collateral_updates\<lparr>cu_status := Some CLiquidated\<rparr>) ?s1)"
  have "getLoan k s' = getLoan k ?s1" "getCollateral c s' = getCollateral c ?s2"
    by (simp_all add: getLoan_def getCollateral_def liquidate_commit_tables [OF assms])
  moreover have fr: "getCollateral c ?s1 = getCollateral c s" for c by (simp add: getCollateral_def)
  ultimately show "getLoan k s' = (if k = l_id (lq_loan q)
           then map_option (\<lambda>r. r\<lparr>l_status := Some LLiquidated\<rparr>) (getLoan k s) else getLoan k s)"
    and "getCollateral c s' = (if map_option c_id (lq_collateral q) = Some c
           then map_option (\<lambda>r. r\<lparr>c_status := Some CLiquidated\<rparr>) (getCollateral c s) else getCollateral c s)"
    by (simp_all add: updateLoan_get updateCollateral_get fr split: option.split)
qed

lemma liquidate_check_again:
  assumes "store_wf s" "liquidate_check i s = Inr q"
    and "liquidate_commit env now rnd1 rnd2 i q s h = (ul, out, s', h')"
  shows "\<exists>q'. liquidate_check i s' = Inr q' \<and> l_id (lq_loan q') = l_id (lq_loan q)"
proof -
  let ?k = "string_of_int (ll_loan_id i)"
  obtain loan hf where l: "getLoan ?k s = Some loan" "loan_hf loan s = Some hf" "hf < SCALE"
      "q = \<lparr>lq_loan = loan, lq_collateral = getCollateral (l_collateral_id loan) s\<rparr>"
    using assms(2) by (auto simp: liquidate_check_Inr)
  let ?loan = "loan\<lparr>l_status := Some LLiquidated\<rparr>"
  have "l_id loan = ?k"
    using store_wf_get_loan [OF assms(1)] l(1) by (auto simp: getLoan_def split: option.splits if_splits)
  then have g: "getLoan ?k s' = Some ?loan" using liquidate_commit_store(1) [OF assms(3)] l by simp
  have "collateral_value ?loan s' = collateral_value loan s"
    unfolding collateral_value_def liquidate_commit_store(2) [OF assms(3)] by (auto split: option.splits)
  then have "loan_hf ?loan s' = Some hf" using l(2) by (simp add: loan_hf_def)
  with g l(3) show ?thesis by (auto simp: liquidate_check_Inr l(4))
qed

subsection \<open>Properties\<close>

text \<open>C11: A live loan on whole amounts can be liquidated exactly when 80% of its live collateral is
  worth less than the debt, which is exactly when the health job marks it at risk: the two
  computations never disagree, rounding included.\<close>

theorem liquidatable_iff_at_risk:
  assumes "getLoan (string_of_int (ll_loan_id i)) s = Some loan"
    and "collateral_value loan s = of_int cv" "l_amount loan = of_int a"
    and "0 < cv" "0 < a" "cv * 8000 \<le> 2 ^ 53" "a * 10000 \<le> 2 ^ 53"
  shows "((\<exists>q. liquidate_check i s = Inr q) \<longleftrightarrow> cv * 8000 < a * 10000) \<and>
         (new_status (loan_hf loan s) = LAtRisk \<longleftrightarrow> cv * 8000 < a * 10000)"
proof -
  obtain hf where hf: "loan_hf loan s = Some hf" "hf < SCALE \<longleftrightarrow> cv * 8000 < a * 10000"
    using computeHealthFactor_int [OF assms(4-7)] assms(2,3) by (auto simp: loan_hf_def)
  then show ?thesis using assms(1) by (auto simp: liquidate_check_Inr new_status_at_risk)
qed

definition risky_store :: store where
  "risky_store = snd (updateLoan ''7'' (no_loan_updates\<lparr>lu_amount := Some 900\<rparr>) sample_store)"

definition seize :: LoanLiquidateInput where
  "seize = \<lparr>ll_liquidator = ''GL'', ll_loan_id = 7, ll_repay_amount = 1\<rparr>"

lemma seven: "string_of_int (ll_loan_id seize) = ''7''"
  by code_simp

lemma risky_loan:
  "\<exists>loan. getLoan ''7'' risky_store = Some loan \<and> collateral_value loan risky_store = of_int 1000 \<and>
     l_amount loan = of_int 900 \<and> l_id loan = ''7''"
  by (simp add: risky_store_def updateLoan_get no_loan_updates_def merge_loan_def)
    (simp add: sample_store_eq getLoan_def m_get_def insertLoan_def Let_def sample_loan_def LoanData.defs
      collateral_value_def getCollateral_def insertCollateral_def sample_collateral_def CollateralData.defs)

theorem liquidatable_iff_at_risk_witness: "\<not> isl (liquidate_check seize risky_store)"
proof -
  from risky_loan obtain loan where "getLoan ''7'' risky_store = Some loan" "collateral_value loan risky_store = of_int 1000"
    "l_amount loan = of_int 900" by blast
  then show ?thesis using liquidatable_iff_at_risk [of seize risky_store loan 1000 900] seven by auto
qed


text \<open>C9: A liquidation does everything or nothing. When it is refused or its transaction fails, the
  store and the webhooks stay as they were; when it succeeds, exactly this loan and its live
  collateral become liquidated, one event and one completed transaction with the repaid amount
  are written, every other loan and collateral keeps its state, and each webhook is told.\<close>

theorem liquidation_all_or_nothing:
  assumes "store_wf s" "k = string_of_int (ll_loan_id i)"
    and "liquidateLoan env now rnd1 rnd2 i s h = (res, out, s', h')"
  shows "case res of
      Inl _ \<Rightarrow> out = [] \<and> s' = s \<and> h' = h
    | Inr (_, ul) \<Rightarrow> \<exists>loan. getLoan k s = Some loan \<and> ul = Some (loan\<lparr>l_status := Some LLiquidated\<rparr>) \<and>
        (\<forall>k'. getLoan k' s' = (if k' = k then ul else getLoan k' s)) \<and>
        (\<forall>c. getCollateral c s' = (if c = l_collateral_id loan
           then map_option (\<lambda>r. r\<lparr>c_status := Some CLiquidated\<rparr>) (getCollateral c s) else getCollateral c s)) \<and>
        transactionTable s' =
          m_set (''tx_'' @ string_of_int now @ ''_'' @ rnd2) (liquidated_tx now rnd2 i loan) (transactionTable s) \<and>
        liquidationEventTable s' =
          m_set (''liq_'' @ string_of_int now @ ''_'' @ rnd1) (liquidated_event now rnd1 i loan) (liquidationEventTable s) \<and>
        map st_url out = map wh_url (m_values (webhooks h))"
proof (cases res)
  case (Inl e)
  then show ?thesis using assms(3) by (auto simp: liquidateLoan_def split_beta Let_def split: sum.splits)
next
  case (Inr xu)
  obtain xdr ul where xu: "xu = (xdr, ul)" by (cases xu)
  then obtain q where q: "liquidate_check i s = Inr q" "liquidate_commit env now rnd1 rnd2 i q s h = (ul, out, s', h')"
    using assms(3) Inr by (auto simp: liquidateLoan_Inr)
  then obtain loan where l: "getLoan k s = Some loan"
      "q = \<lparr>lq_loan = loan, lq_collateral = getCollateral (l_collateral_id loan) s\<rparr>"
    using assms(2) by (auto simp: liquidate_check_Inr)
  note tabs = liquidate_commit_tables [OF q(2)] and sto = liquidate_commit_store [OF q(2)]
  have k: "l_id loan = k" "m_get (loanTable s) k = Some loan"
    using store_wf_get_loan [OF assms(1)] l(1) by (auto simp: getLoan_def split: option.splits if_splits)
  have ul: "ul = Some (loan\<lparr>l_status := Some LLiquidated\<rparr>)"
    using tabs(6) k by (simp add: l(2) updateLoan_def Let_def)
  have c: "getCollateral (l_collateral_id loan) s = Some c \<Longrightarrow> c_id c = l_collateral_id loan" for c
    using store_wf_get_collateral [OF assms(1)] by (auto simp: getCollateral_def split: option.splits if_splits)
  have col: "getCollateral c s' = (if c = l_collateral_id loan
      then map_option (\<lambda>r. r\<lparr>c_status := Some CLiquidated\<rparr>) (getCollateral c s) else getCollateral c s)" for c
    unfolding sto(2) using c by (cases "getCollateral (l_collateral_id loan) s") (auto simp: l(2))
  have lo: "getLoan k' s' = (if k' = k then ul else getLoan k' s)" for k'
    unfolding sto(1) using l k ul by simp
  have out: "map st_url out = map wh_url (m_values (webhooks h))"
    using tabs(5) by (auto simp: fire_def fireWebhooks_def Let_def enumerate_eq_zip intro!: nth_equalityI)
  show ?thesis using l(1) ul lo col out tabs(3,4) by (auto simp: Inr xu l(2))
qed

definition calm_rpc :: rpc where
  "calm_rpc = \<lparr>rpc_getAccount = (\<lambda>a. Inr a), rpc_prepare = (\<lambda>t. Inr t), rpc_simulate = (\<lambda>_. Inr NNull),
     rpc_scValToNative = Inr\<rparr>"

definition calm_service :: service_env where
  "calm_service = \<lparr>se_sdk = sample_sdk, se_rpc = calm_rpc, se_hmac = (\<lambda>_ _. ''00''), se_stringify = (\<lambda>_. ''{}'')\<rparr>"

definition no_hooks :: hooks where "no_hooks = \<lparr>webhooks = [], deliveryLogs = []\<rparr>"

lemma risky_wf: "store_wf risky_store"
  unfolding risky_store_def sample_store_def by (intro store_wf_loan_ops store_wf_run store_wf_empty)

lemma calm_tx: "liquidate_tx calm_service seize = Inr ''GLliquidate''"
  by (simp add: liquidate_tx_def service_tx_def call_contract_def calm_service_def sample_sdk_def
      buildContractTx_service_def calm_rpc_def seize_def)

theorem liquidation_all_or_nothing_witness:
  "\<exists>xdr ul out s' h'. liquidateLoan calm_service 9 ''a'' ''b'' seize risky_store no_hooks = (Inr (xdr, ul), out, s', h') \<and>
     map_option l_status (getLoan ''7'' s') = Some (Some LLiquidated)"
proof -
  obtain q where q: "liquidate_check seize risky_store = Inr q"
    using liquidatable_iff_at_risk_witness by (cases "liquidate_check seize risky_store") auto
  obtain ul out s' h' where c: "liquidate_commit calm_service 9 ''a'' ''b'' seize q risky_store no_hooks = (ul, out, s', h')"
    by (cases "liquidate_commit calm_service 9 ''a'' ''b'' seize q risky_store no_hooks") auto
  have r: "liquidateLoan calm_service 9 ''a'' ''b'' seize risky_store no_hooks = (Inr (''GLliquidate'', ul), out, s', h')"
    using q c calm_tx by (auto simp: liquidateLoan_Inr)
  from liquidation_all_or_nothing [OF risky_wf refl r] r show ?thesis by (auto simp: seven)
qed

text \<open>A loan that has been liquidated passes the checks again, so the same loan can be liquidated
  any number of times, each time with a new transaction: the checks never look at its status.\<close>

theorem liquidation_repeatable:
  assumes "store_wf s" "liquidateLoan env now rnd1 rnd2 i s h = (Inr (xdr, ul), out, s', h')"
  shows "map_option l_status (getLoan (string_of_int (ll_loan_id i)) s') = Some (Some LLiquidated) \<and>
    (\<exists>ul2 out2 s2 h2. liquidateLoan env later rnd3 rnd4 i s' h' = (Inr (xdr, ul2), out2, s2, h2))"
proof -
  obtain q where q: "liquidate_check i s = Inr q" "liquidate_tx env i = Inr xdr"
      "liquidate_commit env now rnd1 rnd2 i q s h = (ul, out, s', h')"
    using assms(2) by (auto simp: liquidateLoan_Inr)
  obtain q' where "liquidate_check i s' = Inr q'" using liquidate_check_again [OF assms(1) q(1,3)] by blast
  then have "\<exists>ul2 out2 s2 h2. liquidateLoan env later rnd3 rnd4 i s' h' = (Inr (xdr, ul2), out2, s2, h2)"
    using q(2) by (cases "liquidate_commit env later rnd3 rnd4 i q' s' h'") (auto simp: liquidateLoan_Inr)
  moreover have "map_option l_status (getLoan (string_of_int (ll_loan_id i)) s') = Some (Some LLiquidated)"
  proof -
    obtain loan where l: "getLoan (string_of_int (ll_loan_id i)) s = Some loan" "lq_loan q = loan"
      using q(1) by (auto simp: liquidate_check_Inr)
    then have "l_id loan = string_of_int (ll_loan_id i)"
      using store_wf_get_loan [OF assms(1)] by (auto simp: getLoan_def split: option.splits if_splits)
    then show ?thesis using liquidate_commit_store(1) [OF q(3)] l by simp
  qed
  ultimately show ?thesis by blast
qed

theorem liquidation_repeatable_witness:
  "\<exists>xdr ul out s' h' ul2 out2 s2 h2.
     liquidateLoan calm_service 9 ''a'' ''b'' seize risky_store no_hooks = (Inr (xdr, ul), out, s', h') \<and>
     liquidateLoan calm_service 10 ''c'' ''d'' seize s' h' = (Inr (xdr, ul2), out2, s2, h2)"
proof -
  obtain q where q: "liquidate_check seize risky_store = Inr q"
  proof -
    from risky_loan obtain loan where "getLoan ''7'' risky_store = Some loan" "collateral_value loan risky_store = of_int 1000"
      "l_amount loan = of_int 900" by blast
    moreover obtain hf where "computeHealthFactor (of_int 1000) (of_int 900) = Some hf" "hf < SCALE"
      using computeHealthFactor_int [of 1000 900] by auto
    ultimately have "\<exists>q. liquidate_check seize risky_store = Inr q"
      by (auto simp: liquidate_check_Inr seven loan_hf_def)
    then show ?thesis using that by blast
  qed
  obtain ul out s' h' where c: "liquidate_commit calm_service 9 ''a'' ''b'' seize q risky_store no_hooks = (ul, out, s', h')"
    by (cases "liquidate_commit calm_service 9 ''a'' ''b'' seize q risky_store no_hooks") auto
  have r: "liquidateLoan calm_service 9 ''a'' ''b'' seize risky_store no_hooks = (Inr (''GLliquidate'', ul), out, s', h')"
    using q c calm_tx by (auto simp: liquidateLoan_Inr)
  from liquidation_repeatable [OF risky_wf r, of 10 "''c''" "''d''"] r show ?thesis by blast
qed

text \<open>A loan whose id is not the text of a whole number, as every loan created over the API has a
  UUID for its id, can never be liquidated through the service, however bad its collateral.\<close>

theorem uuid_loans_not_liquidatable:
  assumes "\<forall>k\<in>set (m_keys (loanTable s)). CHR ''-'' \<in> set k" "0 \<le> ll_loan_id i"
  shows "liquidateLoan env now rnd1 rnd2 i s h =
    (Inl (LoanNotFoundError (string_of_int (ll_loan_id i))), [], s, h)"
proof -
  have "CHR ''-'' \<notin> set (string_of_int (ll_loan_id i))"
    using string_of_nat_digits [of "nat (ll_loan_id i)"] assms(2) is_digit_not(2)
    by (auto simp: string_of_int_def list_all_iff)
  then have "m_get (loanTable s) (string_of_int (ll_loan_id i)) = None"
    using assms(1) by (auto simp: m_get_def m_keys_def map_of_eq_None_iff)
  then show ?thesis by (simp add: liquidateLoan_def liquidate_check_def getLoan_def)
qed

theorem uuid_loans_not_liquidatable_witness:
  "fst (liquidateLoan calm_service 9 ''a'' ''b'' seize
     (snd (insertLoan 1 (sample_loan ''9f-1c'' ''c1'' 5000 None) empty_store)) no_hooks) =
   Inl (LoanNotFoundError ''7'')"
  using uuid_loans_not_liquidatable [of "snd (insertLoan 1 (sample_loan ''9f-1c'' ''c1'' 5000 None) empty_store)" seize]
  by (simp add: seven insertLoan_def Let_def empty_store_def sample_loan_def LoanData.defs m_set_def m_keys_def)
    (simp add: seize_def)


end
