(* ===== verification/Schemas.thy ===== *)
theory Schemas
  imports Loan_Service
begin

section \<open>Request schemas (validators, middleware/validate.ts and the zod objects of the routes)\<close>

text \<open>
  What the zod schemas of the repository let through, as functions from JSON to the parsed value;
  \<open>None\<close> is a failed parse. Object schemas drop unknown fields unless they are strict, and
  \<open>int()\<close> is an integer of the safe range, as in version 4 of zod. The texts of the issues of a
  failed parse are zod's, so they are a parameter of the operations that answer with them.
  \<open>valid_key\<close> is \<open>StrKey.isValidEd25519PublicKey\<close>.
\<close>

subsection \<open>Fields\<close>

definition required :: "(json \<Rightarrow> 'a option) \<Rightarrow> string \<Rightarrow> json \<Rightarrow> 'a option" where
  "required p f body = Option.bind (field f body) p"

text \<open>\<open>optional()\<close>: an absent field is no value; \<open>null\<close> is refused.\<close>

definition optional :: "(json \<Rightarrow> 'a option) \<Rightarrow> string \<Rightarrow> json \<Rightarrow> 'a option option" where
  "optional p f body = (case field f body of None \<Rightarrow> Some None | Some v \<Rightarrow> map_option Some (p v))"

definition zod_string :: "json \<Rightarrow> string option" where
  "zod_string v = (case v of JStr s \<Rightarrow> Some s | _ \<Rightarrow> None)"

definition zod_boolean :: "json \<Rightarrow> bool option" where
  "zod_boolean v = (case v of JBool b \<Rightarrow> Some b | _ \<Rightarrow> None)"

definition min_length :: "nat \<Rightarrow> string \<Rightarrow> string option" where
  "min_length n s = (if n \<le> length s then Some s else None)"

definition zod_number :: "json \<Rightarrow> rat option" where
  "zod_number v = (case v of JNum x \<Rightarrow> Some x | _ \<Rightarrow> None)"

definition safe_int :: "rat \<Rightarrow> bool" where
  "safe_int x \<longleftrightarrow> is_integer x \<and> \<bar>x\<bar> \<le> 2 ^ 53 - 1"

definition zod_int :: "json \<Rightarrow> int option" where
  "zod_int v = (case v of JNum x \<Rightarrow> if safe_int x then Some \<lfloor>x\<rfloor> else None | _ \<Rightarrow> None)"

definition zod_positive :: "json \<Rightarrow> int option" where
  "zod_positive v = Option.bind (zod_int v) (\<lambda>n. if 0 < n then Some n else None)"

definition zod_nonnegative :: "json \<Rightarrow> int option" where
  "zod_nonnegative v = Option.bind (zod_int v) (\<lambda>n. if 0 \<le> n then Some n else None)"

definition strict :: "string list \<Rightarrow> json \<Rightarrow> bool" where
  "strict fs body = (case body of JObj kvs \<Rightarrow> list_all (\<lambda>(k, _). k \<in> set fs) kvs | _ \<Rightarrow> False)"

definition zod_array :: "(json \<Rightarrow> 'a option) \<Rightarrow> json \<Rightarrow> 'a list option" where
  "zod_array p v = (case v of JArr vs \<Rightarrow> those (map p vs) | _ \<Rightarrow> None)"

subsection \<open>Stellar keys\<close>

definition stellarPublicKeySchema :: "(string \<Rightarrow> bool) \<Rightarrow> json \<Rightarrow> string option" where
  "stellarPublicKeySchema valid_key v =
     (case v of
        JStr s \<Rightarrow> if length s = 56 \<and> starts_with ''G'' s \<and> valid_key s then Some s else None
      | _ \<Rightarrow> None)"

record key_result =
  kr_success :: bool
  kr_data :: "string option"
  kr_error :: "string option"

text \<open>\<open>first_message\<close> is the message of zod's first issue; it is never empty here.\<close>

definition validateStellarPublicKey :: "(string \<Rightarrow> bool) \<Rightarrow> (string \<Rightarrow> string) \<Rightarrow> string \<Rightarrow> key_result" where
  "validateStellarPublicKey valid_key first_message key =
     (case stellarPublicKeySchema valid_key (JStr key) of
        Some d \<Rightarrow> \<lparr>kr_success = True, kr_data = Some d, kr_error = None\<rparr>
      | None \<Rightarrow> \<lparr>kr_success = False, kr_data = None,
          kr_error = Some (case truthy_str (Some (first_message key)) of
                             Some m \<Rightarrow> m | None \<Rightarrow> ''Invalid Stellar public key format'')\<rparr>)"

subsection \<open>The schemas of index.ts\<close>

definition registerCollateralSchema :: "(string \<Rightarrow> bool) \<Rightarrow> json \<Rightarrow> RegisterCollateralInput option" where
  "registerCollateralSchema valid_key body =
     Option.bind (required (stellarPublicKeySchema valid_key) ''owner'' body) (\<lambda>owner.
     Option.bind (required (\<lambda>v. Option.bind (zod_string v) (min_length 1)) ''animal_type'' body) (\<lambda>animal_type.
     Option.bind (required zod_positive ''count'' body) (\<lambda>count.
     Option.bind (required zod_positive ''appraised_value'' body) (\<lambda>appraised_value.
       Some \<lparr>rc_owner = owner, rc_animal_type = animal_type, rc_count = count,
             rc_appraised_value = appraised_value\<rparr>))))"

record LoanRequestBody =
  lb_borrower :: string
  lb_collateral_id :: int
  lb_amount :: int
  lb_min_disbursement :: "int option"

definition loanRequestSchema :: "(string \<Rightarrow> bool) \<Rightarrow> json \<Rightarrow> LoanRequestBody option" where
  "loanRequestSchema valid_key body =
     Option.bind (required (stellarPublicKeySchema valid_key) ''borrower'' body) (\<lambda>borrower.
     Option.bind (required zod_nonnegative ''collateral_id'' body) (\<lambda>collateral_id.
     Option.bind (required zod_positive ''amount'' body) (\<lambda>amount.
     Option.bind (optional zod_positive ''min_disbursement'' body) (\<lambda>min_disbursement.
       Some \<lparr>lb_borrower = borrower, lb_collateral_id = collateral_id, lb_amount = amount,
             lb_min_disbursement = min_disbursement\<rparr>))))"

text \<open>The bodies of a repayment and of a liquidation have the same shape.\<close>

definition loanRepaySchema :: "(string \<Rightarrow> bool) \<Rightarrow> json \<Rightarrow> LoanRepayInput option" where
  "loanRepaySchema valid_key body =
     Option.bind (required (stellarPublicKeySchema valid_key) ''borrower'' body) (\<lambda>borrower.
     Option.bind (required zod_nonnegative ''loan_id'' body) (\<lambda>loan_id.
     Option.bind (required zod_positive ''amount'' body) (\<lambda>amount.
       Some \<lparr>lp_borrower = borrower, lp_loan_id = loan_id, lp_amount = amount\<rparr>)))"

definition loanLiquidateSchema :: "(string \<Rightarrow> bool) \<Rightarrow> json \<Rightarrow> LoanRepayInput option" where
  "loanLiquidateSchema valid_key body = loanRepaySchema valid_key body"

definition loanRepaymentPreviewSchema :: "json \<Rightarrow> (int \<times> int) option" where
  "loanRepaymentPreviewSchema body =
     Option.bind (required zod_nonnegative ''loan_id'' body) (\<lambda>loan_id.
     Option.bind (required zod_positive ''amount'' body) (\<lambda>amount. Some (loan_id, amount)))"

record CreateLoanInput =
  cl_borrowerAddress :: string
  cl_collateralId :: string
  cl_requestedAmount :: int

definition createLoanSchema :: "(string \<Rightarrow> bool) \<Rightarrow> json \<Rightarrow> CreateLoanInput option" where
  "createLoanSchema valid_key body =
     Option.bind (required (stellarPublicKeySchema valid_key) ''borrowerAddress'' body) (\<lambda>borrowerAddress.
     Option.bind (required (\<lambda>v. Option.bind (zod_string v) (min_length 1)) ''collateralId'' body) (\<lambda>collateralId.
     Option.bind (required zod_positive ''requestedAmount'' body) (\<lambda>requestedAmount.
       Some \<lparr>cl_borrowerAddress = borrowerAddress, cl_collateralId = collateralId,
             cl_requestedAmount = requestedAmount\<rparr>)))"

definition loanEstimateSchema :: "json \<Rightarrow> int option" where
  "loanEstimateSchema body = required zod_positive ''principal'' body"

text \<open>Query parameters are strings, coerced to numbers.\<close>

definition coerce_positive :: "int option \<Rightarrow> int \<Rightarrow> string option \<Rightarrow> int option" where
  "coerce_positive max_value dflt q =
     (case q of
        None \<Rightarrow> Some dflt
      | Some s \<Rightarrow>
          (case js_Number s of
             Fin x \<Rightarrow>
               if safe_int x \<and> 0 < x \<and> (case max_value of None \<Rightarrow> True | Some m \<Rightarrow> x \<le> of_int m)
               then Some \<lfloor>x\<rfloor> else None
           | _ \<Rightarrow> None))"

definition CollateralStatus_of :: "string \<Rightarrow> CollateralStatus option" where
  "CollateralStatus_of s = List.find (\<lambda>st. CollateralStatus_str st = s) [Available, Pledged, CLiquidated]"

definition collateralQuerySchema :: "request \<Rightarrow> collateral_filter option" where
  "collateralQuerySchema req =
     Option.bind (coerce_positive None 1 (query ''page'' req)) (\<lambda>page.
     Option.bind (coerce_positive (Some 100) 20 (query ''limit'' req)) (\<lambda>limit.
     Option.bind (case query ''status'' req of None \<Rightarrow> Some None | Some s \<Rightarrow> map_option Some (CollateralStatus_of s)) (\<lambda>status.
       Some \<lparr>cf_status = status, cf_ownerId = query ''ownerId'' req, cf_page = Some page, cf_limit = Some limit\<rparr>)))"

subsection \<open>The collateral schemas (validators/collateral.ts)\<close>

definition animalTypeSchema :: "json \<Rightarrow> string option" where
  "animalTypeSchema v = Option.bind (zod_string v) (\<lambda>s. min_length 1 (trim s))"

definition countSchema :: "json \<Rightarrow> int option" where "countSchema v = zod_positive v"

definition appraisedValueSchema :: "json \<Rightarrow> rat option" where
  "appraisedValueSchema v = Option.bind (zod_number v) (\<lambda>x. if 0 < x then Some x else None)"

record CreateCollateralInput =
  cc_animal_type :: string
  cc_count :: int
  cc_appraised_value :: rat

definition createCollateralSchema :: "json \<Rightarrow> CreateCollateralInput option" where
  "createCollateralSchema body =
     (if \<not> strict [''animal_type'', ''count'', ''appraised_value''] body then None
      else
        Option.bind (required animalTypeSchema ''animal_type'' body) (\<lambda>animal_type.
        Option.bind (required countSchema ''count'' body) (\<lambda>count.
        Option.bind (required appraisedValueSchema ''appraised_value'' body) (\<lambda>appraised_value.
          Some \<lparr>cc_animal_type = animal_type, cc_count = count, cc_appraised_value = appraised_value\<rparr>))))"

definition updateCollateralSchema :: "json \<Rightarrow> collateral_updates option" where
  "updateCollateralSchema body =
     (if \<not> strict [''animal_type'', ''count'', ''appraised_value''] body \<or> body = JObj [] then None
      else
        Option.bind (optional animalTypeSchema ''animal_type'' body) (\<lambda>animal_type.
        Option.bind (optional countSchema ''count'' body) (\<lambda>count.
        Option.bind (optional appraisedValueSchema ''appraised_value'' body) (\<lambda>appraised_value.
          Some (no_collateral_updates\<lparr>cu_animal_type := animal_type, cu_count := map_option of_int count,
                  cu_appraised_value := appraised_value\<rparr>)))))"

subsection \<open>Validation as middleware\<close>

text \<open>An issue: its path, as strings, and its message.\<close>

type_synonym zod_issue = "string list \<times> string"

fun join_dots :: "string list \<Rightarrow> string" where
  "join_dots [] = []" | "join_dots [s] = s" | "join_dots (s # t # ss) = s @ ''.'' @ join_dots (t # ss)"

definition toValidationMessagesByField :: "zod_issue list \<Rightarrow> (string, string list) js_map" where
  "toValidationMessagesByField issues =
     foldl (\<lambda>acc (path, message).
        let f = (if path \<noteq> [] then join_dots path else ''_root'') in
        m_set f ((case m_get acc f of None \<Rightarrow> [] | Some ms \<Rightarrow> ms) @ [message]) acc) [] issues"

datatype error_shape = ListShape | DictionaryShape

definition issue_list :: "zod_issue list \<Rightarrow> json" where
  "issue_list issues =
     JArr (map (\<lambda>(path, message). JObj [(''field'', JStr (join_dots path)), (''message'', JStr message)]) issues)"

definition validate ::
  "(json \<Rightarrow> 'a option) \<Rightarrow> (json \<Rightarrow> zod_issue list) \<Rightarrow> nat option \<Rightarrow> error_shape option \<Rightarrow> json \<Rightarrow> response + 'a" where
  "validate schema issues statusCode errorShape body =
     (let st = (case statusCode of None \<Rightarrow> 400 | Some n \<Rightarrow> n);
          shape = (case errorShape of None \<Rightarrow> ListShape | Some s \<Rightarrow> s) in
      case schema body of
        Some d \<Rightarrow> Inr d
      | None \<Rightarrow>
          if shape = DictionaryShape
          then Inl (respond st (JObj
                 [(''error'', JStr ''Validation failed''), (''code'', JStr ''VALIDATION_ERROR''),
                  (''details'', JObj (map (\<lambda>(f, ms). (f, JArr (map JStr ms))) (toValidationMessagesByField (issues body))))]))
          else Inl (respond st (JObj [(''errors'', issue_list (issues body))])))"


subsection \<open>What a parsed value guarantees\<close>

lemma safe_int_of_int: "safe_int x \<longleftrightarrow> (\<exists>n. x = of_int n \<and> \<bar>n\<bar> \<le> 2 ^ 53 - 1)"
proof
  assume a: "safe_int x"
  then have x: "x = of_int \<lfloor>x\<rfloor>" unfolding safe_int_def is_integer_def by argo
  then have "\<bar>of_int \<lfloor>x\<rfloor> :: rat\<bar> \<le> of_int (2 ^ 53 - 1)" using a by (simp add: safe_int_def)
  then have "\<bar>\<lfloor>x\<rfloor>\<bar> \<le> 2 ^ 53 - 1" by linarith
  with x show "\<exists>n. x = of_int n \<and> \<bar>n\<bar> \<le> 2 ^ 53 - 1" by blast
next
  assume "\<exists>n. x = of_int n \<and> \<bar>n\<bar> \<le> 2 ^ 53 - 1"
  then obtain n where n: "x = of_int n" "\<bar>n\<bar> \<le> 2 ^ 53 - 1" by blast
  then have "\<bar>of_int n :: rat\<bar> \<le> of_int (2 ^ 53 - 1)" by linarith
  then show "safe_int x" using n(1) by (simp add: safe_int_def is_integer_def)
qed

lemma zod_int_Some: "zod_int v = Some n \<longleftrightarrow> v = JNum (of_int n) \<and> \<bar>n\<bar> \<le> 2 ^ 53 - 1"
  by (auto simp: zod_int_def safe_int_of_int split: json.splits)

lemma zod_positive_Some: "zod_positive v = Some n \<longleftrightarrow> v = JNum (of_int n) \<and> 0 < n \<and> n \<le> 2 ^ 53 - 1"
  by (auto simp: zod_positive_def bind_eq_Some_conv zod_int_Some)

lemma zod_nonnegative_Some: "zod_nonnegative v = Some n \<longleftrightarrow> v = JNum (of_int n) \<and> 0 \<le> n \<and> n \<le> 2 ^ 53 - 1"
  by (auto simp: zod_nonnegative_def bind_eq_Some_conv zod_int_Some)

lemma required_Some: "required p f body = Some x \<longleftrightarrow> (\<exists>v. field f body = Some v \<and> p v = Some x)"
  by (auto simp: required_def bind_eq_Some_conv)

lemma stellarPublicKeySchema_Some:
  "stellarPublicKeySchema valid_key v = Some s \<longleftrightarrow> v = JStr s \<and> length s = 56 \<and> starts_with ''G'' s \<and> valid_key s"
  by (auto simp: stellarPublicKeySchema_def split: json.splits)

lemmas zod_Some = zod_positive_Some zod_nonnegative_Some required_Some stellarPublicKeySchema_Some

text \<open>The messages of a field are those of its issues, in order; a field without an issue is not listed.\<close>

definition messages_of :: "string \<Rightarrow> zod_issue list \<Rightarrow> string list" where
  "messages_of f issues =
     map snd (filter (\<lambda>(path, _). (if path \<noteq> [] then join_dots path else ''_root'') = f) issues)"

lemma toValidationMessagesByField_get:
  "m_get (toValidationMessagesByField issues) f =
     (if messages_of f issues = [] then None else Some (messages_of f issues))"
proof (induction issues rule: rev_induct)
  case Nil
  then show ?case by (simp add: toValidationMessagesByField_def messages_of_def)
next
  case (snoc i issues)
  obtain path message where i: "i = (path, message)" by (cases i)
  define g where "g = (if path \<noteq> [] then join_dots path else ''_root'')"
  let ?t = "toValidationMessagesByField issues"
  have "toValidationMessagesByField (issues @ [i]) =
      m_set g ((case m_get ?t g of None \<Rightarrow> [] | Some ms \<Rightarrow> ms) @ [message]) ?t"
    by (simp add: toValidationMessagesByField_def i g_def Let_def)
  moreover have "messages_of f (issues @ [i]) = messages_of f issues @ (if g = f then [message] else [])"
    by (simp add: messages_of_def i g_def)
  ultimately show ?case using snoc by (auto split: if_splits)
qed


end
