(* ===== verification/Api_State.thy ===== *)
theory Api_State
  imports Caches Schemas
begin

section \<open>State and surroundings of the routes (backend/src/index.ts)\<close>

text \<open>
  The module state the route handlers of index.ts share: the store, the appraisal, response and
  idempotency caches, the webhooks with what was sent to them, and the set of collateral ids
  with a loan under way. A handler is a function of its surroundings, the clock, the request and
  this state; it returns a response or the error it hands to the error handler, and the state it
  leaves. A request without a JSON body, whose \<open>req.body\<close> is undefined, has the body
  \<open>JNull\<close> (a parsed body is an object or an array). Rate limiters and timers run before a handler and are not part of it.
\<close>

record api_state =
  as_store :: store
  as_appraisals :: appraisal_cache
  as_responses :: response_cache
  as_idempotency :: idempotency_cache
  as_hooks :: hooks
  as_pending :: "string list"
  as_sent :: "sent list"

definition initial_api :: api_state where
  "initial_api =
     \<lparr>as_store = empty_store, as_appraisals = initial_appraisal_cache, as_responses = [], as_idempotency = [],
      as_hooks = \<lparr>webhooks = [], deliveryLogs = []\<rparr>, as_pending = [], as_sent = []\<rparr>"

text \<open>
  \<open>ev_issues\<close> is the issue list of a failed parse, \<open>ev_iso\<close> prints a time as an ISO string,
  \<open>ev_query_string\<close> is \<open>URLSearchParams\<close>, \<open>ev_parse_url\<close> gives the protocol of a URL and
  \<open>ev_native_json\<close> the JSON of a simulation result.
\<close>

record api_env =
  ev_service :: service_env
  ev_valid_key :: "string \<Rightarrow> bool"
  ev_issues :: "json \<Rightarrow> zod_issue list"
  ev_parse_date :: "string \<Rightarrow> int option"
  ev_iso :: "int \<Rightarrow> string"
  ev_query_string :: "request \<Rightarrow> string"
  ev_parse_url :: "string \<Rightarrow> string option"
  ev_native_json :: "native \<Rightarrow> json"
  ev_ORIG_FEE_BPS :: string
  ev_ADMIN_API_KEY :: "string option"

type_synonym handler = "api_env \<Rightarrow> int \<Rightarrow> request \<Rightarrow> api_state \<Rightarrow> outcome \<times> api_state"

abbreviation ok :: "json \<Rightarrow> outcome" where "ok b \<equiv> Inr (respond 200 b)"

abbreviation fail :: "nat \<Rightarrow> string \<Rightarrow> outcome" where "fail st msg \<equiv> Inr (respond st (error_body msg))"

definition invalid_body :: "api_env \<Rightarrow> json \<Rightarrow> outcome" where
  "invalid_body env body = Inr (respond 400 (JObj
     [(''error'', JStr ''Validation failed''), (''details'', issue_list (ev_issues env body))]))"

text \<open>Reading a property of a body that is undefined throws.\<close>

definition body_field :: "string \<Rightarrow> json \<Rightarrow> js_error + json option" where
  "body_field f body =
     (if body = JNull
      then Inl (JsError ''TypeError'' (''Cannot destructure property '' @ f @ '' of req.body as it is undefined.''))
      else Inr (field f body))"

definition api_tx :: "api_env \<Rightarrow> string \<Rightarrow> string \<Rightarrow> scarg list \<Rightarrow> js_error + string" where
  "api_tx env src m args =
     call_contract (buildContractTx (se_sdk (ev_service env)) (se_rpc (ev_service env))) (se_sdk (ev_service env)) src m args"

definition send_webhooks :: "api_env \<Rightarrow> int \<Rightarrow> string \<Rightarrow> json \<Rightarrow> api_state \<Rightarrow> api_state" where
  "send_webhooks env now event payload s =
     (let (out, h) = fire (ev_service env) now event payload (as_hooks s) in
      s\<lparr>as_hooks := h, as_sent := as_sent s @ out\<rparr>)"

definition drop_cached :: "string \<Rightarrow> api_state \<Rightarrow> api_state" where
  "drop_cached pathPrefix s = s\<lparr>as_responses := invalidateCache pathPrefix (as_responses s)\<rparr>"

definition with_store :: "(store \<Rightarrow> 'a \<times> store) \<Rightarrow> api_state \<Rightarrow> 'a \<times> api_state" where
  "with_store f s = (let (x, st) = f (as_store s) in (x, s\<lparr>as_store := st\<rparr>))"

text \<open>A route behind the response cache. An error passes through it to the error handler.\<close>

definition cached_route :: "int \<Rightarrow> handler \<Rightarrow> handler" where
  "cached_route ttlMs h env now req s =
     (case response_cache_enter ttlMs (ev_query_string env) now req (as_responses s) of
        Some r \<Rightarrow> (Inr r, s)
      | None \<Rightarrow>
          (case h env now req s of
             (Inl e, s') \<Rightarrow> (Inl e, s')
           | (Inr res, s') \<Rightarrow>
               (let (res', c) = response_cache_json (ev_query_string env) now req res (as_responses s') in
                (Inr res', s'\<lparr>as_responses := c\<rparr>))))"

lemma send_webhooks_keeps [simp]:
  "as_store (send_webhooks env now e p s) = as_store s" "as_pending (send_webhooks env now e p s) = as_pending s"
  "as_responses (send_webhooks env now e p s) = as_responses s"
  "as_idempotency (send_webhooks env now e p s) = as_idempotency s"
  "as_appraisals (send_webhooks env now e p s) = as_appraisals s"
  by (simp_all add: send_webhooks_def split_beta)

lemma drop_cached_keeps [simp]:
  "as_store (drop_cached p s) = as_store s" "as_pending (drop_cached p s) = as_pending s"
  "as_hooks (drop_cached p s) = as_hooks s" "as_sent (drop_cached p s) = as_sent s"
  "as_idempotency (drop_cached p s) = as_idempotency s" "as_appraisals (drop_cached p s) = as_appraisals s"
  by (simp_all add: drop_cached_def)

lemma with_store_snd [simp]:
  "as_store (snd (with_store f s)) = snd (f (as_store s))" "fst (with_store f s) = fst (f (as_store s))"
  "as_pending (snd (with_store f s)) = as_pending s" "as_responses (snd (with_store f s)) = as_responses s"
  "as_hooks (snd (with_store f s)) = as_hooks s" "as_sent (snd (with_store f s)) = as_sent s"
  by (simp_all add: with_store_def split_beta)

lemma cached_route_store:
  "as_store (snd (cached_route ttl h env now req s)) = as_store s \<or>
   as_store (snd (cached_route ttl h env now req s)) = as_store (snd (h env now req s))"
  by (auto simp: cached_route_def split_beta split: option.splits prod.splits sum.splits)

subsection \<open>Records as JSON\<close>

definition appraisal_json :: "api_env \<Rightarrow> AppraisalEntry \<Rightarrow> json" where
  "appraisal_json env a = JObj ([(''date'', JStr (ev_iso env (a_date a))), (''value'', JNum (a_value a))] @
     jopt ''appraiser'' JStr (a_appraiser a))"

definition or_null :: "('a \<Rightarrow> json) \<Rightarrow> 'a option \<Rightarrow> json" where
  "or_null f x = (case x of None \<Rightarrow> JNull | Some v \<Rightarrow> f v)"

definition collateral_json :: "api_env \<Rightarrow> CollateralRecord \<Rightarrow> json" where
  "collateral_json env r = JObj (
     jopt ''status'' (\<lambda>st. JStr (CollateralStatus_str st)) (c_status r) @
     [(''id'', JStr (c_id r)), (''owner'', JStr (c_owner r)), (''animal_type'', JStr (c_animal_type r)),
      (''count'', JNum (c_count r)), (''appraised_value'', JNum (c_appraised_value r))] @
     jopt ''species'' JStr (c_species r) @ jopt ''breed'' JStr (c_breed r) @ jopt ''age'' JNum (c_age r) @
     jopt ''weight'' JNum (c_weight r) @ jopt ''image_url'' JStr (c_image_url r) @
     jopt ''age_years'' JNum (c_age_years r) @ jopt ''weight_kg'' JNum (c_weight_kg r) @
     jopt ''photo_url'' JStr (c_photo_url r) @
     [(''appraisal_history'', JArr (map (appraisal_json env) (c_appraisal_history r))),
      (''createdAt'', JStr (ev_iso env (c_createdAt r))),
      (''deletedAt'', or_null (\<lambda>t. JStr (ev_iso env t)) (c_deletedAt r))])"

definition loan_json :: "api_env \<Rightarrow> LoanRecord \<Rightarrow> json" where
  "loan_json env r = JObj (
     jopt ''status'' (\<lambda>st. JStr (LoanStatus_str st)) (l_status r) @
     [(''id'', JStr (l_id r)), (''borrower'', JStr (l_borrower r)), (''collateral_id'', JStr (l_collateral_id r)),
      (''amount'', JNum (l_amount r))] @
     jopt ''health_factor'' JNum (l_health_factor r) @
     [(''createdAt'', JStr (ev_iso env (l_createdAt r))),
      (''deletedAt'', or_null (\<lambda>t. JStr (ev_iso env t)) (l_deletedAt r))])"

definition transaction_json :: "api_env \<Rightarrow> TransactionRecord \<Rightarrow> json" where
  "transaction_json env r = JObj (
     [(''borrower'', JStr (t_borrower r)), (''type'', JStr (TransactionType_str (t_type r))),
      (''status'', JStr (TransactionStatus_str (t_status r))), (''amount'', JNum (t_amount r))] @
     jopt ''loanId'' JStr (t_loanId r) @ jopt ''collateralId'' JStr (t_collateralId r) @
     [(''id'', JStr (t_id r)), (''createdAt'', JStr (ev_iso env (t_createdAt r))),
      (''updatedAt'', JStr (ev_iso env (t_updatedAt r)))])"

definition webhook_json :: "WebhookRegistration \<Rightarrow> json" where
  "webhook_json w = JObj [(''id'', JStr (wh_id w)), (''url'', JStr (wh_url w)),
     (''secret'', JStr (wh_secret w)), (''createdAt'', jint (wh_createdAt w))]"

definition listed_webhook_json :: "listed_webhook \<Rightarrow> json" where
  "listed_webhook_json w = JObj [(''id'', JStr (lw_id w)), (''url'', JStr (lw_url w)),
     (''createdAt'', jint (lw_createdAt w))]"

definition delivery_json :: "DeliveryLog \<Rightarrow> json" where
  "delivery_json l = JObj (
     [(''webhookId'', JStr (dl_webhookId l)), (''event'', JStr (dl_event l)), (''payload'', dl_payload l),
      (''attempts'', jint (int (dl_attempts l))),
      (''lastStatus'', or_null (\<lambda>n. jint (int n)) (dl_lastStatus l)),
      (''lastError'', or_null JStr (dl_lastError l)), (''deliveredAt'', or_null jint (dl_deliveredAt l))])"

definition page_json :: "('a \<Rightarrow> json) \<Rightarrow> string \<Rightarrow> 'a listing \<Rightarrow> json" where
  "page_json f limit_name l = JObj [(''data'', JArr (map f (ls_data l))), (''total'', jint (int (ls_total l))),
     (''page'', jint (ls_page l)), (limit_name, jint (ls_limit l))]"

text \<open>The page parameters most listings read: whole numbers, the second one at most 100.\<close>

definition query_number :: "string \<Rightarrow> int \<Rightarrow> request \<Rightarrow> js_num" where
  "query_number q dflt req = (case query q req of None \<Rightarrow> Fin (of_int dflt) | Some s \<Rightarrow> js_Number s)"

definition page_params :: "string \<Rightarrow> js_num \<Rightarrow> js_num \<Rightarrow> outcome + int \<times> int" where
  "page_params limit_name page limit =
     (if \<not> pos_integer page then Inl (fail 400 ''page must be a positive integer'')
      else if \<not> pos_integer limit \<or> 100 < num_int limit
      then Inl (fail 400 (limit_name @ '' must be between 1 and 100''))
      else Inr (num_int page, num_int limit))"

lemma page_params_Inr:
  "page_params n p l = Inr (i, j) \<longleftrightarrow> pos_integer p \<and> pos_integer l \<and> num_int l \<le> 100 \<and> i = num_int p \<and> j = num_int l"
  by (auto simp: page_params_def)

end
