(* ===== verification/Loan_Api.thy ===== *)
theory Loan_Api
  imports Api_State
begin

section \<open>The loan routes (backend/src/index.ts)\<close>

text \<open>
  Every route of index.ts about loans and transactions, each as its handler, with the handlers
  that wait for the RPC server cut at that point where they use what they read before. The
  theorems are about the repayment preview (the split of a repayment adds up), the creation of
  loans (at most 80 percent of the appraised value, never on a collateral in use) and the recording of
  repayments (which fails after it has changed the loan).
\<close>

subsection \<open>Contract transactions\<close>

definition loan_request :: handler where
  "loan_request env now req s =
     (case loanRequestSchema (ev_valid_key env) (rq_body req) of
        None \<Rightarrow> (invalid_body env (rq_body req), s)
      | Some i \<Rightarrow>
          (let k = string_of_int (lb_collateral_id i); cached = getAppraisal now k (as_appraisals s);
               s1 = (case (cached, field ''appraised_value'' (rq_body req)) of
                       (None, Some v) \<Rightarrow> s\<lparr>as_appraisals := setAppraisal now k v (as_appraisals s)\<rparr>
                     | _ \<Rightarrow> s) in
           case api_tx env (lb_borrower i) ''request_loan''
                  [ArgAddress (lb_borrower i), ArgU64 (of_int (lb_collateral_id i)), ArgI128 (of_int (lb_amount i)),
                   min_disbursement_arg (lb_min_disbursement i)] of
             Inl e \<Rightarrow> (Inl e, s1)
           | Inr xdr \<Rightarrow>
               (ok (JObj ([(''xdr'', JStr xdr)] @
                      (case cached of Some a \<Rightarrow> if ae_stale a then [(''stale'', JBool True)] else [] | None \<Rightarrow> []))),
                drop_cached ''/api/loans'' (send_webhooks env now ''loan.approved''
                  (JObj [(''borrower'', JStr (lb_borrower i)), (''collateral_id'', jint (lb_collateral_id i)),
                         (''amount'', jint (lb_amount i))]) s1))))"

text \<open>The repayment route up to the RPC call: an answer at once, or what is to be done.\<close>

definition loan_repay_enter ::
  "api_env \<Rightarrow> int \<Rightarrow> request \<Rightarrow> api_state \<Rightarrow> (response + string \<times> LoanRepayInput) \<times> api_state" where
  "loan_repay_enter env now req s =
     (case truthy_str (header ''idempotency-key'' req) of
        None \<Rightarrow> (Inl (respond 400 (error_body ''Idempotency-Key header is required for repay requests'')), s)
      | Some key \<Rightarrow>
          (let (cached, c) = getIdempotencyEntry now key (as_idempotency s); s1 = s\<lparr>as_idempotency := c\<rparr> in
           case cached of
             Some e \<Rightarrow> (Inl (with_header ''X-Idempotent-Replayed'' ''true'' (respond (ie_status e) (ie_body e))), s1)
           | None \<Rightarrow>
               (case loanRepaySchema (ev_valid_key env) (rq_body req) of
                  None \<Rightarrow>
                    (let body = JObj [(''error'', JStr ''Validation failed''),
                                      (''details'', issue_list (ev_issues env (rq_body req)))] in
                     (Inl (respond 400 body),
                      s1\<lparr>as_idempotency := setIdempotencyEntry now key 400 body (as_idempotency s1)\<rparr>))
                | Some i \<Rightarrow> (Inr (key, i), s1))))"

definition loan_repay_tx :: "api_env \<Rightarrow> LoanRepayInput \<Rightarrow> js_error + string" where
  "loan_repay_tx env i =
     api_tx env (lp_borrower i) ''repay_loan''
       [ArgAddress (lp_borrower i), ArgU64 (of_int (lp_loan_id i)), ArgI128 (of_int (lp_amount i))]"

definition loan_repay_exit :: "int \<Rightarrow> string \<Rightarrow> js_error + string \<Rightarrow> api_state \<Rightarrow> outcome \<times> api_state" where
  "loan_repay_exit now key tx s =
     (case tx of
        Inl e \<Rightarrow> (Inl e, s)
      | Inr xdr \<Rightarrow>
          (let body = JObj [(''xdr'', JStr xdr)] in
           (ok body, s\<lparr>as_idempotency := setIdempotencyEntry now key 200 body (as_idempotency s)\<rparr>)))"

definition loan_repay :: handler where
  "loan_repay env now req s =
     (case loan_repay_enter env now req s of
        (Inl res, s1) \<Rightarrow> (Inr res, s1)
      | (Inr (key, i), s1) \<Rightarrow> loan_repay_exit now key (loan_repay_tx env i) s1)"

definition loan_liquidate :: handler where
  "loan_liquidate env now req s =
     (case loanLiquidateSchema (ev_valid_key env) (rq_body req) of
        None \<Rightarrow> (invalid_body env (rq_body req), s)
      | Some i \<Rightarrow>
          (case api_tx env (lp_borrower i) ''liquidate_loan''
                  [ArgAddress (lp_borrower i), ArgU64 (of_int (lp_loan_id i)), ArgI128 (of_int (lp_amount i))] of
             Inl e \<Rightarrow> (Inl e, s)
           | Inr xdr \<Rightarrow>
               (ok (JObj [(''xdr'', JStr xdr)]),
                send_webhooks env now ''loan.liquidated''
                  (JObj [(''loanId'', JStr (string_of_int (lp_loan_id i))), (''borrower'', JStr (lp_borrower i)),
                         (''amount'', jint (lp_amount i)), (''timestamp'', jint now)]) s)))"

subsection \<open>The repayment preview\<close>

record preview =
  pv_repayment :: rat
  pv_principal :: rat
  pv_interest :: rat
  pv_fees :: rat
  pv_remaining :: rat
  pv_health_factor_bps :: "rat option"

definition repayment_preview :: "rat \<Rightarrow> rat \<Rightarrow> LoanPreviewShape \<Rightarrow> preview" where
  "repayment_preview interestFeeBps amount parsed =
     (let cappedRepayment = min amount (lp_outstanding parsed);
          interestOutstanding = max (js_sub (lp_outstanding parsed) (lp_principal parsed)) 0;
          interestPaid = min cappedRepayment interestOutstanding;
          principalPaid = js_sub cappedRepayment interestPaid;
          fees = js_floor (js_div (js_mul interestPaid interestFeeBps) 10000);
          remainingBalance = max (js_sub (lp_outstanding parsed) cappedRepayment) 0 in
      \<lparr>pv_repayment = cappedRepayment, pv_principal = principalPaid, pv_interest = interestPaid,
       pv_fees = fees, pv_remaining = remainingBalance,
       pv_health_factor_bps =
         (if remainingBalance = 0 then None
          else Some (js_floor (js_div (js_mul (js_mul (lp_collateral_value parsed) 8000) 10000)
                                      (js_mul remainingBalance 10000))))\<rparr>)"

definition preview_json :: "int \<Rightarrow> preview \<Rightarrow> json" where
  "preview_json loan_id p =
     JObj [(''loan_id'', jint loan_id), (''repayment_amount'', JNum (pv_repayment p)),
       (''breakdown'', JObj [(''principal'', JNum (pv_principal p)), (''interest'', JNum (pv_interest p)),
          (''fees'', JNum (pv_fees p)), (''remaining_balance'', JNum (pv_remaining p))]),
       (''projected_health_factor_bps'', or_null JNum (pv_health_factor_bps p)),
       (''fully_repaid'', JBool (pv_remaining p = 0))]"

text \<open>The two routes differ in the account, the name of the fee method and the default fee. A fee
  lookup that fails leaves the default.\<close>

definition preview_route :: "string \<Rightarrow> string \<Rightarrow> rat \<Rightarrow> handler" where
  "preview_route read_account fee_method default_fee env now req s =
     (case loanRepaymentPreviewSchema (rq_body req) of
        None \<Rightarrow> (invalid_body env (rq_body req), s)
      | Some (loan_id, amount) \<Rightarrow>
          (let r = se_rpc (ev_service env); k = se_sdk (ev_service env) in
           (bind_r (rpc_getAccount r read_account) (\<lambda>account.
            bind_r (sdk_encode k (ArgU64 (of_int loan_id))) (\<lambda>arg.
            bind_r (sdk_build k account ''get_loan'' [arg]) (\<lambda>loanTx.
            bind_r (rpc_simulate r loanTx) (\<lambda>retval.
            bind_r (parseLoanFromSimulation (rpc_scValToNative r) retval) (\<lambda>parsed.
              let feeConfig = bind_r (sdk_build k account fee_method []) (\<lambda>feeTx.
                    bind_r (rpc_simulate r feeTx) (parseFeeConfigFromSimulation (rpc_scValToNative r)));
                  interestFeeBps = (case feeConfig of Inr (Some bps) \<Rightarrow> bps | _ \<Rightarrow> default_fee) in
              ok (preview_json loan_id (repayment_preview interestFeeBps (of_int amount) parsed))))))), s)))"

definition loan_repayment_preview :: handler where
  "loan_repayment_preview =
     preview_route ''GAAZI4TCR3TY5OJHCTJC2A4QSY6CJWJH5IAJTGKIN2ER7LBNVKOCCWN'' ''get_fee_config'' 1000"

text \<open>Registered again later for the same path, so never reached.\<close>

definition loan_repayment_preview_shadowed :: handler where
  "loan_repayment_preview_shadowed = preview_route SIMULATION_ACCOUNT ''fee_config'' 100"


subsection \<open>Creating a loan\<close>

text \<open>Up to the RPC call: the checks, and the reservation of the collateral.\<close>

definition create_amount :: "rat \<Rightarrow> int \<Rightarrow> rat" where
  "create_amount appraised_value requestedAmount =
     min (of_int requestedAmount) (js_floor (js_mul appraised_value (fl (4 / 5))))"

definition loan_create_enter ::
  "api_env \<Rightarrow> request \<Rightarrow> api_state \<Rightarrow> (outcome + CreateLoanInput \<times> rat) \<times> api_state" where
  "loan_create_enter env req s =
     (case createLoanSchema (ev_valid_key env) (rq_body req) of
        None \<Rightarrow> (Inl (invalid_body env (rq_body req)), s)
      | Some i \<Rightarrow>
          (case getCollateral (cl_collateralId i) (as_store s) of
             None \<Rightarrow> (Inl (fail 404 ''Collateral not found''), s)
           | Some collateral \<Rightarrow>
               if c_owner collateral \<noteq> (case user_key req of Some u \<Rightarrow> u | None \<Rightarrow> cl_borrowerAddress i)
               then (Inl (fail 400 (''Collateral '' @ cl_collateralId i @ '' does not belong to authenticated user'')), s)
               else if cl_collateralId i \<in> set (as_pending s) \<or> isCollateralPledged (cl_collateralId i) (as_store s)
               then (Inl (fail 409 (''Collateral '' @ cl_collateralId i @ '' is already pledged to another active loan'')), s)
               else (Inr (i, create_amount (c_appraised_value collateral) (cl_requestedAmount i)),
                     s\<lparr>as_pending := cl_collateralId i # as_pending s\<rparr>)))"

definition loan_create_tx :: "api_env \<Rightarrow> CreateLoanInput \<Rightarrow> rat \<Rightarrow> js_error + string" where
  "loan_create_tx env i loanAmount =
     api_tx env (cl_borrowerAddress i) ''request_loan''
       [ArgAddress (cl_borrowerAddress i), ArgString (cl_collateralId i), ArgI128 loanAmount]"

text \<open>After it: the loan is recorded when the transaction was built, and the reservation ends either way.\<close>

definition loan_create_exit ::
  "api_env \<Rightarrow> int \<Rightarrow> string \<Rightarrow> CreateLoanInput \<Rightarrow> rat \<Rightarrow> js_error + string \<Rightarrow> api_state \<Rightarrow> outcome \<times> api_state" where
  "loan_create_exit env now uuid i loanAmount tx s =
     (let unreserve = (\<lambda>s. s\<lparr>as_pending := filter (\<lambda>c. c \<noteq> cl_collateralId i) (as_pending s)\<rparr>) in
      case tx of
        Inl e \<Rightarrow> (Inl e, unreserve s)
      | Inr xdr \<Rightarrow>
          (let (loan, s1) = with_store (insertLoan now
                 \<lparr>l_id = uuid, l_borrower = cl_borrowerAddress i, l_collateral_id = cl_collateralId i,
                  l_amount = loanAmount, l_status = None, l_health_factor = None\<rparr>) s in
           (Inr (respond 201 (JObj [(''loan'', loan_json env loan), (''xdr'', JStr xdr)])), unreserve s1)))"

definition loan_create :: "string \<Rightarrow> handler" where
  "loan_create uuid env now req s =
     (case loan_create_enter env req s of
        (Inl res, s1) \<Rightarrow> (res, s1)
      | (Inr (i, loanAmount), s1) \<Rightarrow>
          loan_create_exit env now uuid i loanAmount (loan_create_tx env i loanAmount) s1)"

subsection \<open>Reading loans\<close>

definition list_loans_handler :: handler where
  "list_loans_handler env now req s =
     (let page = query_number ''page'' 1 req;
          limit = (case query ''pageSize'' req of Some n \<Rightarrow> js_Number n | None \<Rightarrow> query_number ''limit'' 20 req) in
      case page_params ''pageSize'' page limit of
        Inl res \<Rightarrow> (res, s)
      | Inr (p, l) \<Rightarrow>
          (let result = listLoans (ev_parse_date env) (no_loan_filter\<lparr>lf_page := Some p, lf_limit := Some l\<rparr>) (as_store s);
               res = respond 200 (JObj [(''data'', JArr (map (loan_json env) (ls_data result))),
                  (''total'', jint (int (ls_total result))), (''page'', jint (ls_page result)),
                  (''limit'', jint (ls_limit result)), (''pageSize'', jint (ls_limit result))]) in
           (Inr (if query ''page'' req = None
                 then with_header ''Warning'' ''299 - \"Unpaginated usage is deprecated; use ?page=1&pageSize=20\"''
                        (with_header ''Deprecation'' ''true'' res)
                 else res), s)))"

definition list_loans_route :: handler where
  "list_loans_route = cached_route DEFAULT_CACHE_TTL_MS list_loans_handler"

definition borrower_profile :: "string \<Rightarrow> handler" where
  "borrower_profile wallet env now req s =
     (let cs = listCollateral \<lparr>cf_status = None, cf_ownerId = Some wallet, cf_page = Some 1, cf_limit = Some 100\<rparr> (as_store s);
          ls = listLoans (ev_parse_date env)
                 (no_loan_filter\<lparr>lf_borrowerAddress := Some wallet, lf_page := Some 1, lf_limit := Some 100\<rparr>) (as_store s) in
      (ok (JObj [(''wallet'', JStr wallet), (''collateral'', JArr (map (collateral_json env) (ls_data cs))),
                 (''loans'', JArr (map (loan_json env) (ls_data ls)))]), s))"

text \<open>The state on chain is fetched as far as possible; every failure reads as \<open>null\<close>.\<close>

definition on_chain_status :: "api_env \<Rightarrow> LoanRecord \<Rightarrow> json" where
  "on_chain_status env loan =
     (case simulate_read (ev_service env) SIMULATION_ACCOUNT ''get_loan'' (l_id loan) of
        Inl _ \<Rightarrow> JNull
      | Inr NUndefined \<Rightarrow> JNull
      | Inr NNull \<Rightarrow> JNull
      | Inr v \<Rightarrow> ev_native_json env v)"

definition loan_detail :: "string \<Rightarrow> handler" where
  "loan_detail k env now req s =
     (case getLoan k (as_store s) of
        None \<Rightarrow> (fail 404 (''Loan '' @ k @ '' not found''), s)
      | Some loan \<Rightarrow>
          (ok (JObj [(''loan'', loan_json env loan),
             (''collateral'', or_null (collateral_json env) (getCollateral (l_collateral_id loan) (as_store s))),
             (''onChainStatus'', on_chain_status env loan)]), s))"

definition READ_ACCOUNT :: string where
  "READ_ACCOUNT = ''GAKH4BC5GSE5UQDWWPCBCNVYRDBI5JGYRQRGZJT3YJ477ZFDK5EUBMBH''"

text \<open>A field that is undefined is left out of the JSON text.\<close>

definition native_field :: "api_env \<Rightarrow> string \<Rightarrow> native \<Rightarrow> json" where
  "native_field env f v = JObj (if v = NUndefined then [] else [(f, ev_native_json env v)])"

definition loan_on_chain :: "string \<Rightarrow> handler" where
  "loan_on_chain k env now req s =
     (bind_r (simulate_read (ev_service env) READ_ACCOUNT ''get_loan'' k) (\<lambda>v. ok (native_field env ''result'' v)), s)"

definition loan_health :: "string \<Rightarrow> handler" where
  "loan_health k env now req s =
     (bind_r (simulate_read (ev_service env) READ_ACCOUNT ''health_factor'' k) (\<lambda>v. ok (native_field env ''health_factor'' v)), s)"

definition loans_summary_handler :: handler where
  "loans_summary_handler env now req s =
     (case truthy_str (user_key req) of
        None \<Rightarrow> (fail 401 ''Authenticated wallet address required'', s)
      | Some w \<Rightarrow>
          (let m = getLoanSummaryForBorrower w (as_store s) in
           (ok (JObj [(''activeLoans'', jint (int (activeLoans m))), (''totalCollateralValue'', JNum (totalCollateralValue m)),
              (''averageHealthFactor'', JNum (averageHealthFactor m)), (''atRiskCount'', jint (int (atRiskCount m)))]), s)))"

definition loans_summary_route :: handler where
  "loans_summary_route = cached_route 30000 loans_summary_handler"



subsection \<open>The estimate\<close>

definition ONE_XLM_STROOPS :: int where "ONE_XLM_STROOPS = 10000000"

text \<open>The configured fee passed \<open>^\d+$\<close>, so \<open>parseInt\<close> gives a number.\<close>

definition orig_fee_bps :: "api_env \<Rightarrow> rat" where
  "orig_fee_bps env = (case parse_int (ev_ORIG_FEE_BPS env) of None \<Rightarrow> 0 | Some x \<Rightarrow> x)"

definition loan_estimate :: handler where
  "loan_estimate env now req s =
     (case loanEstimateSchema (rq_body req) of
        None \<Rightarrow> (invalid_body env (rq_body req), s)
      | Some xlm \<Rightarrow>
          if xlm < ONE_XLM_STROOPS
          then (Inr (respond 400 (JObj [(''error'', JStr ''Validation failed''),
                  (''message'', JStr (''principal must be at least 1 XLM ('' @ string_of_int ONE_XLM_STROOPS @ '' stroops)''))])), s)
          else (let origFeeBps = orig_fee_bps env;
                    originationFee = js_floor (js_div (js_mul (of_int xlm) origFeeBps) 10000) in
                (ok (JObj [(''principal'', jint xlm), (''originationFee'', JNum originationFee),
                   (''totalAmount'', JNum (js_add (of_int xlm) originationFee)),
                   (''interestRate'', JNum (js_div origFeeBps 100))]), s)))"

subsection \<open>Deleting and restoring\<close>

definition deleted_loans :: handler where
  "deleted_loans env now req s = (ok (JArr (map (loan_json env) (listDeletedLoans (as_store s)))), s)"

definition restore_loan_route :: "string \<Rightarrow> handler" where
  "restore_loan_route k env now req s =
     (let (done, s1) = with_store (restoreLoan k) s in
      (if done then ok (JObj [(''restored'', JBool True), (''id'', JStr k)])
       else fail 404 ''Record not found or not deleted'', s1))"

definition delete_loan_route :: "string \<Rightarrow> handler" where
  "delete_loan_route k env now req s =
     (let (done, s1) = with_store (softDeleteLoan now k) s in
      (if done then ok (JObj [(''deleted'', JBool True), (''id'', JStr k)]) else fail 404 ''Record not found'', s1))"

subsection \<open>Transactions\<close>

definition list_transactions_route :: handler where
  "list_transactions_route env now req s =
     (case page_params ''pageSize'' (query_number ''page'' 1 req) (query_number ''pageSize'' 20 req) of
        Inl res \<Rightarrow> (res, s)
      | Inr (p, l) \<Rightarrow>
          if bad_date (ev_parse_date env) (query ''startDate'' req)
          then (fail 400 ''startDate must be a valid ISO date'', s)
          else if bad_date (ev_parse_date env) (query ''endDate'' req)
          then (fail 400 ''endDate must be a valid ISO date'', s)
          else (ok (page_json (transaction_json env) ''pageSize'' (listTransactions (ev_parse_date env)
                  \<lparr>tf_borrower = query ''borrower'' req, tf_type = query ''type'' req, tf_status = query ''status'' req,
                   tf_loanId = None, tf_collateralId = None, tf_startDate = query ''startDate'' req,
                   tf_endDate = query ''endDate'' req, tf_page = Some p, tf_pageSize = Some l\<rparr> (as_store s))), s))"

definition not_one_of :: "string list \<Rightarrow> string option \<Rightarrow> bool" where
  "not_one_of vs x = (case truthy_str x of None \<Rightarrow> False | Some v \<Rightarrow> v \<notin> set vs)"

definition my_transactions_route :: handler where
  "my_transactions_route env now req s =
     (case truthy_str (user_key req) of
        None \<Rightarrow> (fail 401 ''Authenticated wallet address required'', s)
      | Some w \<Rightarrow>
          (case page_params ''pageSize'' (query_number ''page'' 1 req) (query_number ''pageSize'' 20 req) of
             Inl res \<Rightarrow> (res, s)
           | Inr (p, l) \<Rightarrow>
               if not_one_of [''loan'', ''repayment'', ''liquidation''] (query ''type'' req)
               then (fail 400 ''type must be one of: loan, repayment, liquidation'', s)
               else if not_one_of [''pending'', ''completed'', ''failed''] (query ''status'' req)
               then (fail 400 ''status must be one of: pending, completed, failed'', s)
               else (ok (page_json (transaction_json env) ''pageSize'' (listTransactions (ev_parse_date env)
                       \<lparr>tf_borrower = Some w, tf_type = query ''type'' req, tf_status = query ''status'' req,
                        tf_loanId = query ''loanId'' req, tf_collateralId = query ''collateralId'' req,
                        tf_startDate = None, tf_endDate = None, tf_page = Some p, tf_pageSize = Some l\<rparr>
                       (as_store s))), s)))"

definition transaction_detail :: "string \<Rightarrow> handler" where
  "transaction_detail k env now req s =
     (case getTransaction k (as_store s) of
        None \<Rightarrow> (fail 404 ''Transaction not found'', s)
      | Some t \<Rightarrow> (ok (transaction_json env t), s))"

text \<open>
  Recording a repayment. \<open>insertTransaction\<close> is not imported in index.ts, so the call of it is a
  \<open>ReferenceError\<close>, after the loan has been updated.
\<close>

definition record_repayment :: "string \<Rightarrow> handler" where
  "record_repayment k env now req s =
     (case body_field ''amount'' (rq_body req) of
        Inl e \<Rightarrow> (Inl e, s)
      | Inr a \<Rightarrow>
          (case a of
             Some (JNum amount) \<Rightarrow>
               if amount \<le> 0 then (fail 400 ''amount must be a positive number'', s)
               else (case field ''transactionHash'' (rq_body req) of
                  Some (JStr h) \<Rightarrow>
                    if h = [] then (fail 400 ''transactionHash is required'', s)
                    else (case getLoan k (as_store s) of
                       None \<Rightarrow> (fail 404 ''Loan not found'', s)
                     | Some loan \<Rightarrow>
                         if l_amount loan < amount then (fail 400 ''amount exceeds outstanding balance'', s)
                         else (let newBalance = js_sub (l_amount loan) amount;
                                   (updated, s1) = with_store (updateLoan k (no_loan_updates\<lparr>lu_amount := Some newBalance\<rparr>)) s in
                               (Inl (reference_error ''insertTransaction''), drop_cached ''/api/loans'' s1)))
                | _ \<Rightarrow> (fail 400 ''transactionHash is required'', s))
           | _ \<Rightarrow> (fail 400 ''amount must be a positive number'', s)))"

subsection \<open>Facts about the handlers\<close>

lemma loan_create_enter_store [simp]: "as_store (snd (loan_create_enter env req s)) = as_store s"
  by (simp add: loan_create_enter_def split: option.split if_split)

lemma loan_create_enter_Inr:
  "loan_create_enter env req s = (Inr (i, a), s1) \<longleftrightarrow>
     (\<exists>c. createLoanSchema (ev_valid_key env) (rq_body req) = Some i \<and>
        getCollateral (cl_collateralId i) (as_store s) = Some c \<and>
        c_owner c = (case user_key req of Some u \<Rightarrow> u | None \<Rightarrow> cl_borrowerAddress i) \<and>
        cl_collateralId i \<notin> set (as_pending s) \<and> \<not> isCollateralPledged (cl_collateralId i) (as_store s) \<and>
        a = create_amount (c_appraised_value c) (cl_requestedAmount i) \<and>
        s1 = s\<lparr>as_pending := cl_collateralId i # as_pending s\<rparr>)"
  by (auto simp: loan_create_enter_def split: option.splits if_splits)

lemma createLoanSchema_Some:
  "createLoanSchema valid_key body = Some i \<Longrightarrow>
     length (cl_borrowerAddress i) = 56 \<and> cl_collateralId i \<noteq> [] \<and> 0 < cl_requestedAmount i \<and>
     cl_requestedAmount i \<le> 2 ^ 53 - 1"
  by (auto simp: createLoanSchema_def bind_eq_Some_conv zod_Some min_length_def split: if_splits)


lemma create_amount_of_int:
  "0 \<le> v \<Longrightarrow> v \<le> 2 ^ 49 \<Longrightarrow> create_amount (of_int v) r = of_int (min r (4 * v div 5))"
  by (simp add: create_amount_def js_four_fifths)

lemma create_amount_le: "create_amount v r \<le> of_int r" "create_amount v r \<le> js_mul v (fl (4 / 5))"
  by (auto simp: create_amount_def js_floor_def min_def intro: order_trans [OF _ of_int_floor_le])

lemma loan_create_eq:
  "loan_create uuid env now req s =
     (case loan_create_enter env req s of
        (Inl res, s1) \<Rightarrow> (res, s1)
      | (Inr (i, a), s1) \<Rightarrow>
          (case loan_create_tx env i a of
             Inl e \<Rightarrow> (Inl e, s1\<lparr>as_pending := filter (\<lambda>c. c \<noteq> cl_collateralId i) (as_pending s1)\<rparr>)
           | Inr xdr \<Rightarrow> loan_create_exit env now uuid i a (Inr xdr) s1))"
  by (auto simp: loan_create_def loan_create_exit_def split: prod.splits sum.splits)

text \<open>The loan a successful creation records.\<close>

definition created_loan :: "int \<Rightarrow> string \<Rightarrow> CreateLoanInput \<Rightarrow> rat \<Rightarrow> LoanRecord" where
  "created_loan now uuid i a =
     \<lparr>l_id = uuid, l_borrower = cl_borrowerAddress i, l_collateral_id = cl_collateralId i, l_amount = a,
      l_status = Some LActive, l_health_factor = None, l_createdAt = now, l_deletedAt = None\<rparr>"

lemma loan_create_exit_Inr:
  "loan_create_exit env now uuid i a (Inr xdr) s =
     (Inr (respond 201 (JObj [(''loan'', loan_json env (created_loan now uuid i a)), (''xdr'', JStr xdr)])),
      s\<lparr>as_store := (as_store s)\<lparr>loanTable := m_set uuid (created_loan now uuid i a) (loanTable (as_store s))\<rparr>,
        as_pending := filter (\<lambda>c. c \<noteq> cl_collateralId i) (as_pending s)\<rparr>)"
  by (simp add: loan_create_exit_def with_store_def insertLoan_def created_loan_def LoanData.defs Let_def)

lemma isCollateralPledged_set_loan:
  assumes "m_wf (loanTable s)" "m_get (loanTable s) k = None"
  shows "isCollateralPledged c (s\<lparr>loanTable := m_set k r (loanTable s)\<rparr>) \<longleftrightarrow>
    isCollateralPledged c s \<or> l_collateral_id r = c \<and> is_open_status (l_status r) \<and> l_deletedAt r = None"
proof -
  have "set (m_values (m_set k r (loanTable s))) = insert r (set (m_values (loanTable s)))"
  proof -
    have "x \<in> set (m_values (loanTable s)) \<longleftrightarrow> (\<exists>j. j \<noteq> k \<and> m_get (loanTable s) j = Some x)" for x
      using assms m_in_values_get [OF assms(1), of x] m_get_in_values [of "loanTable s" _ x] by (metis option.distinct(1))
    then show ?thesis by (auto simp: m_values_set [OF assms(1)])
  qed
  then show ?thesis by (auto simp: isCollateralPledged_def list_ex_iff)
qed



subsection \<open>Properties\<close>

text \<open>C26: The preview of a repayment adds up. For whole amounts up to 2^53 the interest owed is paid
  first, what is left of the repayment goes to the principal, the repayment and the remaining
  balance together are the outstanding balance, the fee is the whole part of its share of the
  interest, and a health factor is given exactly when something remains.\<close>

theorem repayment_preview_adds_up:
  fixes out pr amount bps :: int
  assumes "lp_outstanding p = of_int out" "lp_principal p = of_int pr" "0 \<le> out" "out \<le> 2 ^ 53"
    "0 \<le> pr" "pr \<le> 2 ^ 53" "0 < amount" "0 \<le> bps" "out * bps < 2 ^ 53"
  defines "paid \<equiv> min amount out" and "interest \<equiv> min (min amount out) (max (out - pr) 0)"
  shows "pv_repayment (repayment_preview (of_int bps) (of_int amount) p) = of_int paid \<and>
    pv_interest (repayment_preview (of_int bps) (of_int amount) p) = of_int interest \<and>
    pv_principal (repayment_preview (of_int bps) (of_int amount) p) = of_int (paid - interest) \<and>
    pv_remaining (repayment_preview (of_int bps) (of_int amount) p) = of_int (out - paid) \<and>
    pv_fees (repayment_preview (of_int bps) (of_int amount) p) = of_int (interest * bps div 10000) \<and>
    (pv_health_factor_bps (repayment_preview (of_int bps) (of_int amount) p) = None \<longleftrightarrow> out \<le> amount)"
proof -
  let ?v = "repayment_preview (of_int bps) (of_int amount) p"
  have owed: "max (js_sub (of_int out) (of_int pr)) (0::rat) = of_int (max (out - pr) 0)"
    using assms(3-6) by (simp add: js_sub_of_int max_def)
  have paid: "min (of_int amount) (of_int out) = (of_int paid :: rat)" by (simp add: paid_def min_def)
  have int: "min (of_int paid) (of_int (max (out - pr) 0)) = (of_int interest :: rat)"
    by (simp add: interest_def paid_def min_def)
  have b: "0 \<le> interest" "interest \<le> paid" "0 \<le> paid" "paid \<le> out"
    using assms(3,7) by (auto simp: interest_def paid_def)
  have prin: "js_sub (of_int paid) (of_int interest) = (of_int (paid - interest) :: rat)"
    using b assms(4) by (intro js_sub_of_int) auto
  have rest: "js_sub (of_int out) (of_int paid) = (of_int (out - paid) :: rat)"
    using b assms(4) by (intro js_sub_of_int) auto
  have le: "interest * bps \<le> out * bps" using b assms(8) by (intro mult_right_mono) auto
  have nn: "0 \<le> interest * bps" using b(1) assms(8) by simp
  have "js_mul (of_int interest) (of_int bps) = (of_int (interest * bps) :: rat)"
    using nn le assms(9) by (intro js_mul_of_int) simp
  then have fees: "js_floor (js_div (js_mul (of_int interest) (of_int bps)) 10000) = (of_int (interest * bps div 10000) :: rat)"
    using js_floor_quotient [of "interest * bps" 10000] nn le assms(9) by simp
  have "max (of_int (out - paid)) (0::rat) = of_int (out - paid)" using b by simp
  moreover have "of_int (out - paid) = (0::rat) \<longleftrightarrow> out \<le> amount" by (auto simp: paid_def)
  ultimately show ?thesis
    unfolding repayment_preview_def Let_def assms(1,2) owed paid int prin rest fees preview.simps by simp
qed

theorem repayment_preview_adds_up_witness:
  "pv_interest (repayment_preview 100 500 \<lparr>lp_principal = 1000, lp_outstanding = 1200, lp_collateral_value = 5000\<rparr>) = 200 \<and>
   pv_principal (repayment_preview 100 500 \<lparr>lp_principal = 1000, lp_outstanding = 1200, lp_collateral_value = 5000\<rparr>) = 300 \<and>
   pv_remaining (repayment_preview 100 500 \<lparr>lp_principal = 1000, lp_outstanding = 1200, lp_collateral_value = 5000\<rparr>) = 700"
  using repayment_preview_adds_up [of "\<lparr>lp_principal = 1000, lp_outstanding = 1200, lp_collateral_value = 5000\<rparr>" 1200 1000 500 100]
  by simp

text \<open>C2: Creating a loan either answers 201, and then the collateral belonged to the caller and
  backed no open loan before, and exactly one loan is added: active, on that collateral, of at
  most the requested amount and, for a whole appraised value, the smaller of it and 80 percent of the value, which leaves the
  collateral pledged; or it answers otherwise and no table changes. No reservation is left behind
  either way.\<close>

theorem loan_create_outcome:
  assumes "store_wf (as_store s)" "m_get (loanTable (as_store s)) uuid = None"
    and "loan_create uuid env now req s = (res, s')"
  shows "(case res of
      Inr r \<Rightarrow> if rs_status r = 201
        then (\<exists>i c loan.
          createLoanSchema (ev_valid_key env) (rq_body req) = Some i \<and>
          getCollateral (cl_collateralId i) (as_store s) = Some c \<and>
          c_owner c = (case user_key req of Some u \<Rightarrow> u | None \<Rightarrow> cl_borrowerAddress i) \<and>
          \<not> isCollateralPledged (cl_collateralId i) (as_store s) \<and>
          isCollateralPledged (cl_collateralId i) (as_store s') \<and>
          getLoan uuid (as_store s') = Some loan \<and> (\<forall>k. k \<noteq> uuid \<longrightarrow> getLoan k (as_store s') = getLoan k (as_store s)) \<and>
          l_collateral_id loan = cl_collateralId i \<and> l_borrower loan = cl_borrowerAddress i \<and> l_status loan = Some LActive \<and>
          l_amount loan \<le> of_int (cl_requestedAmount i) \<and>
          (\<forall>v. c_appraised_value c = of_int v \<longrightarrow> 0 \<le> v \<longrightarrow> v \<le> 2 ^ 49 \<longrightarrow>
             l_amount loan = of_int (min (cl_requestedAmount i) (4 * v div 5))))
        else as_store s' = as_store s
    | Inl _ \<Rightarrow> as_store s' = as_store s) \<and> as_pending s' = as_pending s"
proof (cases "loan_create_enter env req s")
  case (Pair entered s1)
  show ?thesis
  proof (cases entered)
    case (Inl res0)
    then have "as_pending s' = as_pending s" "as_store s' = as_store s" "res = res0" "\<And>r. res0 = Inr r \<Longrightarrow> rs_status r \<noteq> 201"
      using assms(3) Pair
      by (auto simp: loan_create_def loan_create_enter_def invalid_body_def split: option.splits if_splits)
    then show ?thesis by (auto split: sum.split)
  next
    case (Inr ia)
    obtain i a where ia: "ia = (i, a)" by (cases ia)
    then obtain c where c: "createLoanSchema (ev_valid_key env) (rq_body req) = Some i"
        "getCollateral (cl_collateralId i) (as_store s) = Some c"
        "c_owner c = (case user_key req of Some u \<Rightarrow> u | None \<Rightarrow> cl_borrowerAddress i)"
        "cl_collateralId i \<notin> set (as_pending s)" "\<not> isCollateralPledged (cl_collateralId i) (as_store s)"
        "a = create_amount (c_appraised_value c) (cl_requestedAmount i)"
        "s1 = s\<lparr>as_pending := cl_collateralId i # as_pending s\<rparr>"
    proof -
      have "loan_create_enter env req s = (Inr (i, a), s1)" using Pair Inr ia by simp
      then show ?thesis using that unfolding loan_create_enter_Inr by blast
    qed
    have pend: "filter (\<lambda>x. x \<noteq> cl_collateralId i) (as_pending s) = as_pending s"
      using c(4) by (intro filter_True) auto
    show ?thesis
    proof (cases "loan_create_tx env i a")
      case (Inl e)
      then show ?thesis using assms(3) Pair Inr pend by (auto simp: loan_create_eq ia c(7))
    next
      case (Inr xdr)
      have st: "as_store s' = (as_store s)\<lparr>loanTable := m_set uuid (created_loan now uuid i a) (loanTable (as_store s))\<rparr>"
          "as_pending s' = as_pending s" "res = Inr (respond 201 (JObj [(''loan'', loan_json env (created_loan now uuid i a)), (''xdr'', JStr xdr)]))"
        using assms(3) Pair \<open>entered = Inr ia\<close> Inr pend by (auto simp: loan_create_eq ia c(7) loan_create_exit_Inr)
      have wf: "m_wf (loanTable (as_store s))" using assms(1) by (auto simp: store_wf_def dest: table_ok_wf)
      have "isCollateralPledged (cl_collateralId i) (as_store s')"
        unfolding st(1) isCollateralPledged_set_loan [OF wf assms(2)] by (simp add: created_loan_def is_open_status_def)
      moreover have "getLoan uuid (as_store s') = Some (created_loan now uuid i a)"
          "\<forall>k. k \<noteq> uuid \<longrightarrow> getLoan k (as_store s') = getLoan k (as_store s)"
        by (simp_all add: st(1) getLoan_def created_loan_def)
      ultimately show ?thesis
        using c create_amount_le st(2,3) by (auto simp: created_loan_def create_amount_of_int)
    qed
  qed
qed



definition calm_api :: api_env where
  "calm_api = \<lparr>ev_service = calm_service, ev_valid_key = (\<lambda>_. True), ev_issues = (\<lambda>_. []), ev_parse_date = (\<lambda>_. None),
     ev_iso = string_of_int, ev_query_string = (\<lambda>_. []), ev_parse_url = (\<lambda>_. Some ''https:''),
     ev_native_json = (\<lambda>_. JNull), ev_ORIG_FEE_BPS = ''50'', ev_ADMIN_API_KEY = None\<rparr>"

definition wallet_G :: string where "wallet_G = CHR ''G'' # replicate 55 CHR ''A''"

definition herd :: CollateralData where
  "herd = \<lparr>c_id = ''c1'', c_owner = wallet_G, c_animal_type = ''cattle'', c_breed = None, c_age_years = None,
     c_weight_kg = None, c_photo_url = None, c_count = 1, c_appraised_value = 1003, c_species = None, c_age = None,
     c_weight = None, c_image_url = None, c_status = None\<rparr>"

definition herd_api :: api_state where
  "herd_api = initial_api\<lparr>as_store := snd (insertCollateral 0 herd empty_store)\<rparr>"

definition post_json :: "json \<Rightarrow> request" where
  "post_json body = \<lparr>rq_method = ''POST'', rq_path = ''/'', rq_query = [], rq_headers = [], rq_body = body, rq_user = None\<rparr>"

definition create_body :: json where
  "create_body = JObj [(''borrowerAddress'', JStr wallet_G), (''collateralId'', JStr ''c1''), (''requestedAmount'', JNum 1000)]"

lemma herd_api_wf: "store_wf (as_store herd_api)"
  by (simp add: herd_api_def store_wf_empty store_wf_insertCollateral)

lemma herd_api_facts:
  "m_get (loanTable (as_store herd_api)) k = None" "as_pending herd_api = []"
  "\<exists>c. getCollateral ''c1'' (as_store herd_api) = Some c \<and> c_owner c = wallet_G \<and> c_appraised_value c = of_int 1003"
  "\<not> isCollateralPledged c (as_store herd_api)"
  by (simp_all add: herd_api_def initial_api_def insertCollateral_def herd_def empty_store_def getCollateral_def
      CollateralData.defs Let_def isCollateralPledged_def m_values_def)

lemma create_body_parse: "createLoanSchema (ev_valid_key calm_api) create_body =
    Some \<lparr>cl_borrowerAddress = wallet_G, cl_collateralId = ''c1'', cl_requestedAmount = 1000\<rparr>"
proof -
  have "zod_positive (JNum 1000) = Some 1000" by (simp add: zod_positive_Some)
  then show ?thesis
    by (simp add: createLoanSchema_def required_def create_body_def stellarPublicKeySchema_def zod_string_def
        min_length_def wallet_G_def calm_api_def starts_with_def)
qed

lemma herd_loan_created:
  "fst (loan_create ''u1'' calm_api 5 (post_json create_body) herd_api) =
     Inr (respond 201 (JObj [(''loan'', loan_json calm_api (created_loan 5 ''u1''
       \<lparr>cl_borrowerAddress = wallet_G, cl_collateralId = ''c1'', cl_requestedAmount = 1000\<rparr> 802)), (''xdr'', JStr ''GAAAAAAAAAAAAAAAAAAAAAAAAAAAAAAAAAAAAAAAAAAAAAAAAAAAAAAArequest_loan'')]))"
proof -
  let ?i = "\<lparr>cl_borrowerAddress = wallet_G, cl_collateralId = ''c1'', cl_requestedAmount = 1000\<rparr>"
  obtain c where c: "getCollateral ''c1'' (as_store herd_api) = Some c" "c_owner c = wallet_G" "c_appraised_value c = of_int 1003"
    using herd_api_facts(3) by blast
  have a: "create_amount (of_int 1003) 1000 = 802" by (subst create_amount_of_int) simp_all
  have e: "loan_create_enter calm_api (post_json create_body) herd_api =
      (Inr (?i, 802), herd_api\<lparr>as_pending := ''c1'' # as_pending herd_api\<rparr>)"
    unfolding loan_create_enter_Inr using c a create_body_parse herd_api_facts(2,4) by (simp add: post_json_def user_key_def)
  have t: "loan_create_tx calm_api ?i 802 = Inr ''GAAAAAAAAAAAAAAAAAAAAAAAAAAAAAAAAAAAAAAAAAAAAAAAAAAAAAAArequest_loan''"
    by (simp add: loan_create_tx_def api_tx_def call_contract_def calm_api_def calm_service_def sample_sdk_def
        buildContractTx_def calm_rpc_def wallet_G_def numeral_eq_Suc)
  show ?thesis by (simp add: loan_create_eq e t loan_create_exit_Inr)
qed

theorem loan_create_outcome_witness:
  "\<exists>s' loan. loan_create ''u1'' calm_api 5 (post_json create_body) herd_api =
       (fst (loan_create ''u1'' calm_api 5 (post_json create_body) herd_api), s') \<and>
     getLoan ''u1'' (as_store s') = Some loan \<and> l_amount loan = 802 \<and> as_pending s' = []"
proof -
  obtain s' where s: "loan_create ''u1'' calm_api 5 (post_json create_body) herd_api =
      (fst (loan_create ''u1'' calm_api 5 (post_json create_body) herd_api), s')"
    by (cases "loan_create ''u1'' calm_api 5 (post_json create_body) herd_api") auto
  obtain c where c: "getCollateral ''c1'' (as_store herd_api) = Some c" "c_appraised_value c = of_int 1003"
    using herd_api_facts(3) by blast
  show ?thesis
    using loan_create_outcome [OF herd_api_wf herd_api_facts(1) s] c s herd_api_facts(2) create_body_parse
    unfolding herd_loan_created by (auto simp: post_json_def)
qed

text \<open>C29: Recording a repayment changes the loan and then fails: a repayment within the balance is
  taken off the loan, whose status stays what it was even when nothing remains, but no transaction is
  recorded and the caller gets an error, because a function the route calls is not imported.\<close>

theorem repayment_recorded_then_fails:
  assumes "store_wf (as_store s)" "getLoan k (as_store s) = Some loan"
    and "field ''amount'' (rq_body req) = Some (JNum amount)" "0 < amount" "amount \<le> l_amount loan"
    and "field ''transactionHash'' (rq_body req) = Some (JStr h)" "h \<noteq> []"
    and "record_repayment k env now req s = (res, s')"
  shows "res = Inl (reference_error ''insertTransaction'') \<and>
    getLoan k (as_store s') = Some (loan\<lparr>l_amount := js_sub (l_amount loan) amount\<rparr>) \<and>
    transactionTable (as_store s') = transactionTable (as_store s)"
proof -
  have k: "m_get (loanTable (as_store s)) k = Some loan" "l_deletedAt loan = None"
    using assms(2) by (auto simp: getLoan_def split: option.splits if_splits)
  have b: "rq_body req \<noteq> JNull" using assms(3) by auto
  show ?thesis
    using assms(2-8) b k
    by (auto simp: record_repayment_def body_field_def with_store_def updateLoan_def Let_def merge_loan_def
        no_loan_updates_def getLoan_def split: prod.splits)
qed



theorem repayment_recorded_then_fails_witness:
  "\<exists>s' loan. record_repayment ''7'' calm_api 5
       (post_json (JObj [(''amount'', JNum 900), (''transactionHash'', JStr ''h'')])) (initial_api\<lparr>as_store := risky_store\<rparr>) =
     (Inl (reference_error ''insertTransaction''), s') \<and>
     getLoan ''7'' (as_store s') = Some loan \<and> l_amount loan = 0"
proof -
  let ?req = "post_json (JObj [(''amount'', JNum 900), (''transactionHash'', JStr ''h'')])"
  obtain loan where l: "getLoan ''7'' risky_store = Some loan" "l_amount loan = of_int 900" using risky_loan by blast
  obtain res s' where r: "record_repayment ''7'' calm_api 5 ?req (initial_api\<lparr>as_store := risky_store\<rparr>) = (res, s')"
    by (cases "record_repayment ''7'' calm_api 5 ?req (initial_api\<lparr>as_store := risky_store\<rparr>)") auto
  have z: "js_sub 900 900 = 0" by (simp add: js_sub_def)
  show ?thesis
    using repayment_recorded_then_fails [of "initial_api\<lparr>as_store := risky_store\<rparr>" "''7''" loan ?req 900 "''h''" calm_api 5 res s']
      risky_wf l r z by (auto simp: post_json_def)
qed

text \<open>
  Nothing reserves an idempotency key while a repayment waits for the RPC server: a second request
  with the same key that arrives before the first has finished passes the check as well.
\<close>

lemma repay_key_not_reserved:
  assumes "loan_repay_enter env now req s = (Inr (key, i), s1)"
  shows "loan_repay_enter env now req s1 = (Inr (key, i), s1)"
  using assms
  by (auto simp: loan_repay_enter_def getIdempotencyEntry_def split_beta Let_def split: option.splits if_splits)

text \<open>A finished repayment is replayed to every later request with its key within the lifetime of the entry.\<close>

lemma repay_replayed:
  assumes "truthy_str (header ''idempotency-key'' req) = Some key" "later - now \<le> IDEMPOTENCY_TTL_MS"
    and "loan_repay_exit now key (Inr xdr) s = (res, s')"
  shows "fst (loan_repay env later req s') =
    Inr (with_header ''X-Idempotent-Replayed'' ''true'' (respond 200 (JObj [(''xdr'', JStr xdr)])))"
  using assms
  by (auto simp: loan_repay_def loan_repay_enter_def loan_repay_exit_def getIdempotencyEntry_def
      setIdempotencyEntry_def Let_def)


end
