(* ===== verification/Pledge_Safety.thy ===== *)
theory Pledge_Safety
  imports Loan_Api
begin

section \<open>No collateral backs two open loans\<close>

text \<open>
  POST /api/loan/create of index.ts under concurrent requests: a creation reserves its collateral,
  waits for the RPC server and then records the loan, and any number of creations and of other
  operations run in between. The steps are those of the code (its two halves around the wait, and the
  store operations the other routes and jobs use); the invariant is that the collateral of the
  waiting creations is reserved and free, and that no two open loans share their collateral. The
  restoration of a deleted loan, which does not look at pledges, is left out of the steps and shown
  to break it.
\<close>

definition open_on :: "string \<Rightarrow> string \<Rightarrow> store \<Rightarrow> bool" where
  "open_on c k s \<longleftrightarrow> (case getLoan k s of
     None \<Rightarrow> False | Some r \<Rightarrow> l_collateral_id r = c \<and> is_open_status (l_status r))"

definition exclusive :: "store \<Rightarrow> bool" where
  "exclusive s \<longleftrightarrow> (\<forall>c k k'. open_on c k s \<longrightarrow> open_on c k' s \<longrightarrow> k = k')"

text \<open>The store operations that open no loan: all but adding and restoring loans, and an update opens
  only a loan that is open already.\<close>

fun opens :: "LoanStatus option \<Rightarrow> bool" where
  "opens (Some LActive) = True" | "opens (Some LAtRisk) = True" | "opens _ = False"

fun quiet :: "store \<Rightarrow> store_op \<Rightarrow> bool" where
  "quiet s (InsertLoan now d) = False"
| "quiet s (RestoreLoan k) = False"
| "quiet s (UpdateLoan k u) =
     (opens (lu_status u) \<longrightarrow> (case getLoan k s of None \<Rightarrow> True | Some r \<Rightarrow> is_open_status (l_status r)))"
| "quiet s _ = True"

lemma opens_iff: "opens st \<longleftrightarrow> is_open_status st"
  by (cases st rule: opens.cases) (simp_all add: is_open_status_def)

lemma quiet_opens_nothing:
  assumes "quiet s opn" "open_on c k (run_op opn s)"
  shows "open_on c k s"
  using assms
proof (cases opn)
  case (UpdateLoan k' u)
  then show ?thesis using assms
    by (cases "k = k'")
      (auto simp: open_on_def updateLoan_get merge_loan_def opens_iff is_open_status_def split: option.splits)
next
  case (SoftDeleteLoan now k')
  then show ?thesis using assms
    by (auto simp: open_on_def softDeleteLoan_def getLoan_def split: option.splits if_splits)
qed (auto simp: open_on_def getLoan_def)

lemma open_on_pledged: "store_wf s \<Longrightarrow> isCollateralPledged c s \<longleftrightarrow> (\<exists>k. open_on c k s)"
  by (auto simp: isCollateralPledged_iff open_on_def split: option.splits)

lemma loan_create_exit_Inl:
  "loan_create_exit env now uuid i a (Inl e) s =
     (Inl e, s\<lparr>as_pending := filter (\<lambda>c. c \<noteq> cl_collateralId i) (as_pending s)\<rparr>)"
  by (simp add: loan_create_exit_def)

subsection \<open>The steps\<close>

record pledge_state =
  ps_api :: api_state
  ps_flight :: "(CreateLoanInput \<times> rat) list"

definition pledge_init :: pledge_state where
  "pledge_init = \<lparr>ps_api = initial_api, ps_flight = []\<rparr>"

inductive pledge_step :: "api_env \<Rightarrow> pledge_state \<Rightarrow> pledge_state \<Rightarrow> bool" for env where
  create_enter: "loan_create_enter env req (ps_api p) = (Inr ia, s) \<Longrightarrow>
    pledge_step env p \<lparr>ps_api = s, ps_flight = ia # ps_flight p\<rparr>"
| create_exit: "(i, a) \<in> set (ps_flight p) \<Longrightarrow> m_get (loanTable (as_store (ps_api p))) uuid = None \<Longrightarrow>
    loan_create_exit env now uuid i a tx (ps_api p) = (res, s) \<Longrightarrow>
    pledge_step env p \<lparr>ps_api = s, ps_flight = remove1 (i, a) (ps_flight p)\<rparr>"
| store_operation: "quiet (as_store (ps_api p)) opn \<Longrightarrow>
    pledge_step env p (p\<lparr>ps_api := (ps_api p)\<lparr>as_store := run_op opn (as_store (ps_api p))\<rparr>\<rparr>)"
| elsewhere: "as_store s = as_store (ps_api p) \<Longrightarrow> as_pending s = as_pending (ps_api p) \<Longrightarrow>
    pledge_step env p (p\<lparr>ps_api := s\<rparr>)"

inductive_cases pledge_stepE: "pledge_step env p p'"

definition flight_ids :: "pledge_state \<Rightarrow> string list" where
  "flight_ids p = map (cl_collateralId \<circ> fst) (ps_flight p)"

definition pledge_inv :: "pledge_state \<Rightarrow> bool" where
  "pledge_inv p \<longleftrightarrow>
     store_wf (as_store (ps_api p)) \<and> exclusive (as_store (ps_api p)) \<and> distinct (flight_ids p) \<and>
     set (as_pending (ps_api p)) = set (flight_ids p) \<and>
     (\<forall>c\<in>set (flight_ids p). \<not> isCollateralPledged c (as_store (ps_api p)))"

lemma exclusive_mono:
  "exclusive s \<Longrightarrow> (\<And>c k. open_on c k s' \<Longrightarrow> open_on c k s) \<Longrightarrow> exclusive s'"
  unfolding exclusive_def by meson

lemma pledged_mono:
  "store_wf s \<Longrightarrow> store_wf s' \<Longrightarrow> (\<And>c k. open_on c k s' \<Longrightarrow> open_on c k s) \<Longrightarrow>
   isCollateralPledged c s' \<Longrightarrow> isCollateralPledged c s"
  by (auto simp: open_on_pledged)

lemma open_on_insert:
  assumes "m_get (loanTable s) uuid = None"
  shows "open_on c k (s\<lparr>loanTable := m_set uuid (created_loan now uuid i a) (loanTable s)\<rparr>) \<longleftrightarrow>
    open_on c k s \<or> k = uuid \<and> c = cl_collateralId i"
  using assms by (auto simp: open_on_def getLoan_def created_loan_def is_open_status_def split: option.splits)

lemma store_wf_created:
  "store_wf s \<Longrightarrow> store_wf (s\<lparr>loanTable := m_set uuid (created_loan now uuid i a) (loanTable s)\<rparr>)"
  by (simp add: store_wf_def table_ok_set created_loan_def loan_ok_def)

lemma flight_ids_remove:
  assumes "distinct (flight_ids p)" "(i, a) \<in> set (ps_flight p)"
  shows "distinct (map (cl_collateralId \<circ> fst) (remove1 (i, a) (ps_flight p)))"
    "set (map (cl_collateralId \<circ> fst) (remove1 (i, a) (ps_flight p))) = set (flight_ids p) - {cl_collateralId i}"
proof -
  have d: "distinct (ps_flight p)" using assms(1) by (simp add: flight_ids_def distinct_map)
  have inj: "inj_on (cl_collateralId \<circ> fst) (set (ps_flight p))" using assms(1) by (simp add: flight_ids_def distinct_map)
  show "distinct (map (cl_collateralId \<circ> fst) (remove1 (i, a) (ps_flight p)))"
    using d inj by (auto simp: distinct_map intro: inj_on_subset)
  have "(cl_collateralId \<circ> fst) ` (set (ps_flight p) - {(i, a)}) =
      (cl_collateralId \<circ> fst) ` set (ps_flight p) - (cl_collateralId \<circ> fst) ` {(i, a)}"
    using inj assms(2) by (intro inj_on_image_set_diff) auto
  then show "set (map (cl_collateralId \<circ> fst) (remove1 (i, a) (ps_flight p))) = set (flight_ids p) - {cl_collateralId i}"
    using d by (simp add: flight_ids_def)
qed

lemma pledge_inv_enter:
  assumes "pledge_inv p" "loan_create_enter env req (ps_api p) = (Inr ia, s)"
  shows "pledge_inv \<lparr>ps_api = s, ps_flight = ia # ps_flight p\<rparr>"
proof -
  obtain i a where ia: "ia = (i, a)" by (cases ia)
  then have "cl_collateralId i \<notin> set (as_pending (ps_api p))" "\<not> isCollateralPledged (cl_collateralId i) (as_store (ps_api p))"
      "s = (ps_api p)\<lparr>as_pending := cl_collateralId i # as_pending (ps_api p)\<rparr>"
    using assms(2) by (auto simp: loan_create_enter_Inr)
  then show ?thesis using assms(1) by (auto simp: pledge_inv_def flight_ids_def ia)
qed

lemma pledge_inv_exit:
  assumes inv: "pledge_inv p" and m: "(i, a) \<in> set (ps_flight p)"
    and f: "m_get (loanTable (as_store (ps_api p))) uuid = None"
    and e: "loan_create_exit env now uuid i a tx (ps_api p) = (res, s)"
  shows "pledge_inv \<lparr>ps_api = s, ps_flight = remove1 (i, a) (ps_flight p)\<rparr>"
proof -
  let ?st = "as_store (ps_api p)" and ?c = "cl_collateralId i"
  let ?new = "?st\<lparr>loanTable := m_set uuid (created_loan now uuid i a) (loanTable ?st)\<rparr>"
  note ids = flight_ids_remove [OF _ m]
  have d: "distinct (flight_ids p)" and pend: "set (as_pending (ps_api p)) = set (flight_ids p)"
    and wf: "store_wf ?st" and ex: "exclusive ?st"
    and free: "c \<in> set (flight_ids p) \<Longrightarrow> \<not> isCollateralPledged c ?st" for c
    using inv by (auto simp: pledge_inv_def)
  have c: "?c \<in> set (flight_ids p)" using m by (force simp: flight_ids_def)
  have s: "set (as_pending s) = set (flight_ids p) - {?c}" "as_store s = ?st \<or> as_store s = ?new"
  proof -
    have "as_pending s = filter (\<lambda>x. x \<noteq> ?c) (as_pending (ps_api p)) \<and> (as_store s = ?st \<or> as_store s = ?new)"
    proof -
      have s: "s = snd (loan_create_exit env now uuid i a tx (ps_api p))" by (simp add: e)
      show ?thesis unfolding s by (cases tx) (simp_all add: loan_create_exit_Inr loan_create_exit_Inl)
    qed
    then show "set (as_pending s) = set (flight_ids p) - {?c}" "as_store s = ?st \<or> as_store s = ?new"
      using pend by (simp_all add: set_filter set_diff_eq)
  qed
  have "store_wf ?new \<and> exclusive ?new \<and> (\<forall>x\<in>set (flight_ids p) - {?c}. \<not> isCollateralPledged x ?new)"
  proof -
    have none: "\<not> open_on ?c k ?st" for k using free [OF c] wf by (auto simp: open_on_pledged)
    have "exclusive ?new" using ex none by (auto simp: exclusive_def open_on_insert [OF f])
    moreover have "store_wf ?new" using wf by (rule store_wf_created)
    moreover have "\<not> isCollateralPledged x ?new" if "x \<in> set (flight_ids p) - {?c}" for x
      using free [of x] that wf \<open>store_wf ?new\<close> by (auto simp: open_on_pledged open_on_insert [OF f])
    ultimately show ?thesis by blast
  qed
  moreover have "store_wf ?st \<and> exclusive ?st \<and> (\<forall>x\<in>set (flight_ids p) - {?c}. \<not> isCollateralPledged x ?st)"
    using wf ex free by blast
  ultimately have "store_wf (as_store s) \<and> exclusive (as_store s) \<and>
      (\<forall>x\<in>set (flight_ids p) - {?c}. \<not> isCollateralPledged x (as_store s))"
    using s(2) by metis
  moreover have "flight_ids \<lparr>ps_api = s, ps_flight = remove1 (i, a) (ps_flight p)\<rparr> =
      map (cl_collateralId \<circ> fst) (remove1 (i, a) (ps_flight p))"
    by (simp add: flight_ids_def)
  ultimately show ?thesis unfolding pledge_inv_def using s(1) ids [OF d] by simp
qed

lemma pledge_inv_quiet:
  assumes "pledge_inv p" "quiet (as_store (ps_api p)) opn"
  shows "pledge_inv (p\<lparr>ps_api := (ps_api p)\<lparr>as_store := run_op opn (as_store (ps_api p))\<rparr>\<rparr>)"
proof -
  let ?s = "as_store (ps_api p)"
  have wf: "store_wf ?s" "store_wf (run_op opn ?s)" using assms(1) by (auto simp: pledge_inv_def store_wf_run_op)
  note closed = quiet_opens_nothing [OF assms(2)]
  have "exclusive (run_op opn ?s)" using assms(1) exclusive_mono [OF _ closed] by (auto simp: pledge_inv_def)
  moreover have "isCollateralPledged c (run_op opn ?s) \<Longrightarrow> isCollateralPledged c ?s" for c
    using pledged_mono [OF wf closed] .
  ultimately show ?thesis using assms(1) wf by (auto simp: pledge_inv_def flight_ids_def)
qed

lemma pledge_inv_step: "pledge_step env p p' \<Longrightarrow> pledge_inv p \<Longrightarrow> pledge_inv p'"
  by (induction rule: pledge_step.induct)
    (auto intro: pledge_inv_enter pledge_inv_exit pledge_inv_quiet, simp add: pledge_inv_def flight_ids_def)

lemma pledge_inv_init: "pledge_inv pledge_init"
  using store_wf_empty
  by (simp add: pledge_inv_def pledge_init_def initial_api_def exclusive_def open_on_def flight_ids_def getLoan_def)
    (simp add: empty_store_def)

lemma pledge_inv_reachable: "(pledge_step env)\<^sup>*\<^sup>* pledge_init p \<Longrightarrow> pledge_inv p"
  by (induction rule: rtranclp_induct) (auto intro: pledge_inv_init pledge_inv_step)


subsection \<open>Two creations in a row\<close>

abbreviation "herd_input \<equiv> \<lparr>cl_borrowerAddress = wallet_G, cl_collateralId = ''c1'', cl_requestedAmount = 1000\<rparr>"

definition idle_with :: "store \<Rightarrow> pledge_state" where
  "idle_with st = \<lparr>ps_api = initial_api\<lparr>as_store := st\<rparr>, ps_flight = []\<rparr>"

lemma initial_pending [simp]: "as_pending initial_api = []" "as_store initial_api = empty_store"
  by (simp_all add: initial_api_def)

lemma initial_no_pending [simp]: "initial_api\<lparr>as_store := x, as_pending := []\<rparr> = initial_api\<lparr>as_store := x\<rparr>"
  by (simp add: initial_api_def)

lemma create_cycle:
  assumes "getCollateral ''c1'' st = Some c" "c_owner c = wallet_G" "\<not> isCollateralPledged ''c1'' st"
    and "m_get (loanTable st) uuid = None"
  shows "\<exists>a. (pledge_step calm_api)\<^sup>*\<^sup>* (idle_with st)
    (idle_with (st\<lparr>loanTable := m_set uuid (created_loan 5 uuid herd_input a) (loanTable st)\<rparr>))"
proof -
  let ?a = "create_amount (c_appraised_value c) 1000"
  let ?s = "initial_api\<lparr>as_store := st, as_pending := [''c1'']\<rparr>"
  have "loan_create_enter calm_api (post_json create_body) (ps_api (idle_with st)) = (Inr (herd_input, ?a), ?s)"
    unfolding loan_create_enter_Inr using assms create_body_parse by (simp add: post_json_def user_key_def idle_with_def)
  then have 1: "pledge_step calm_api (idle_with st) \<lparr>ps_api = ?s, ps_flight = [(herd_input, ?a)]\<rparr>"
    using pledge_step.create_enter [of calm_api "post_json create_body" "idle_with st"] by (simp add: idle_with_def)
  have 2: "pledge_step calm_api \<lparr>ps_api = ?s, ps_flight = [(herd_input, ?a)]\<rparr>
      (idle_with (st\<lparr>loanTable := m_set uuid (created_loan 5 uuid herd_input ?a) (loanTable st)\<rparr>))"
    using pledge_step.create_exit [of herd_input ?a "\<lparr>ps_api = ?s, ps_flight = [(herd_input, ?a)]\<rparr>" uuid calm_api 5 "Inr []"]
      assms(4) by (simp add: loan_create_exit_Inr idle_with_def)
  show ?thesis
    using converse_rtranclp_into_rtranclp [of "pledge_step calm_api", OF 1 r_into_rtranclp [of "pledge_step calm_api", OF 2]]
    by blast
qed

lemma idle_store_operation:
  "quiet st opn \<Longrightarrow> pledge_step env (idle_with st) (idle_with (run_op opn st))"
  using pledge_step.store_operation [of "idle_with st" opn env] by (simp add: idle_with_def)

lemma idle_init: "pledge_init = idle_with empty_store"
  by (simp add: pledge_init_def idle_with_def initial_api_def)

lemma herd_registered: "(pledge_step env)\<^sup>*\<^sup>* pledge_init (idle_with (as_store herd_api))"
  using idle_store_operation [of empty_store "InsertCollateral 0 herd" env] by (simp add: idle_init herd_api_def)

definition herd_loan :: "rat \<Rightarrow> store" where
  "herd_loan a = (as_store herd_api)\<lparr>loanTable := m_set ''u1'' (created_loan 5 ''u1'' herd_input a) (loanTable (as_store herd_api))\<rparr>"

lemma herd_loan_reachable: "\<exists>a. (pledge_step calm_api)\<^sup>*\<^sup>* pledge_init (idle_with (herd_loan a))"
proof -
  obtain c where c: "getCollateral ''c1'' (as_store herd_api) = Some c" "c_owner c = wallet_G"
    using herd_api_facts(3) by blast
  from create_cycle [OF c herd_api_facts(4,1), of "''u1''"] herd_registered [of calm_api] show ?thesis
    unfolding herd_loan_def by (meson rtranclp_trans)
qed

lemma herd_loan_open: "open_on ''c1'' ''u1'' (herd_loan a)"
  unfolding herd_loan_def open_on_insert [OF herd_api_facts(1)] by simp

subsection \<open>Properties\<close>



text \<open>Restoring a deleted loan can put two open loans on one collateral: the loan is deleted, the
  collateral is pledged again, and the restoration does not look at that.\<close>

theorem restore_double_pledges:
  "\<exists>p. (pledge_step calm_api)\<^sup>*\<^sup>* pledge_init p \<and>
     \<not> exclusive (as_store (snd (restore_loan_route ''u1'' calm_api 9 (post_json JNull) (ps_api p))))"
proof -
  obtain a where a: "(pledge_step calm_api)\<^sup>*\<^sup>* pledge_init (idle_with (herd_loan a))" using herd_loan_reachable by blast
  let ?h = "herd_loan a"
  define d where "d = run_op (SoftDeleteLoan 7 ''u1'') ?h"
  have 1: "pledge_step calm_api (idle_with ?h) (idle_with d)"
    unfolding d_def by (rule idle_store_operation) simp
  have hl: "loanTable ?h = [(''u1'', created_loan 5 ''u1'' herd_input a)]" "collateralTable ?h = collateralTable (as_store herd_api)"
    by (simp_all add: herd_loan_def m_set_def herd_api_def insertCollateral_def Let_def empty_store_def)
  have dl: "loanTable d = [(''u1'', (created_loan 5 ''u1'' herd_input a)\<lparr>l_deletedAt := Some 7\<rparr>)]"
      "collateralTable d = collateralTable (as_store herd_api)"
    using hl by (simp_all add: d_def softDeleteLoan_def m_get_def m_set_def created_loan_def)
  obtain c where c: "getCollateral ''c1'' (as_store herd_api) = Some c" "c_owner c = wallet_G"
    using herd_api_facts(3) by blast
  have "getCollateral ''c1'' d = Some c" using c(1) dl(2) by (simp add: getCollateral_def)
  moreover have "\<not> isCollateralPledged ''c1'' d" "m_get (loanTable d) ''u2'' = None"
    using dl(1) by (simp_all add: isCollateralPledged_def m_values_def m_get_def)
  ultimately obtain b where 2: "(pledge_step calm_api)\<^sup>*\<^sup>* (idle_with d)
      (idle_with (d\<lparr>loanTable := m_set ''u2'' (created_loan 5 ''u2'' herd_input b) (loanTable d)\<rparr>))"
    using create_cycle [of d c "''u2''"] c(2) by blast
  let ?e = "d\<lparr>loanTable := m_set ''u2'' (created_loan 5 ''u2'' herd_input b) (loanTable d)\<rparr>"
  have "(pledge_step calm_api)\<^sup>*\<^sup>* pledge_init (idle_with ?e)"
    using a 1 2 by (meson rtranclp.rtrancl_into_rtrancl rtranclp_trans)
  moreover have "open_on ''c1'' ''u1'' (snd (restoreLoan ''u1'' ?e)) \<and> open_on ''c1'' ''u2'' (snd (restoreLoan ''u1'' ?e))"
    by (simp add: dl restoreLoan_def open_on_def getLoan_def m_get_def m_set_def created_loan_def is_open_status_def)
  ultimately show ?thesis
    by (intro exI [of _ "idle_with ?e"])
      (auto simp: exclusive_def idle_with_def restore_loan_route_def split_beta)
qed


end
