(* ===== verification/Collateral_Api.thy ===== *)
theory Collateral_Api
  imports Loan_Api
begin

section \<open>The collateral, webhook and admin routes (backend/src/index.ts)\<close>

text \<open>
  Every route of index.ts about collateral, webhooks, the appraisal oracle and the administration,
  each as its handler. Two routes are registered for PATCH /api/v1/collateral/:id; Express takes
  the first, so the second, with its check of pledges, is dead code and modelled as such. The theorems
  show what a patch, an appraisal and a deletion do to the store.
\<close>

subsection \<open>Registration\<close>

definition collateral_register :: handler where
  "collateral_register env now req s =
     (case registerCollateralSchema (ev_valid_key env) (rq_body req) of
        None \<Rightarrow> (invalid_body env (rq_body req), s)
      | Some i \<Rightarrow>
          (bind_r (api_tx env (rc_owner i) ''register_livestock''
             [ArgAddress (rc_owner i), ArgSymbol (rc_animal_type i), ArgU32 (of_int (rc_count i)),
              ArgI128 (of_int (rc_appraised_value i))])
             (\<lambda>xdr. ok (JObj [(''xdr'', JStr xdr)])), s))"

text \<open>A multipart form: its text fields, and the media type of the image with the name it is stored
  under. The upload is refused first when it is no image.\<close>

record collateral_form =
  fm_species :: "string option"
  fm_breed :: "string option"
  fm_age :: "string option"
  fm_weight :: "string option"
  fm_file :: "(string \<times> string) option"

definition blank :: "string option \<Rightarrow> bool" where
  "blank x = (case x of None \<Rightarrow> True | Some t \<Rightarrow> trim t = [])"

definition form_number :: "string option \<Rightarrow> rat option" where
  "form_number x = (case truthy_str x of None \<Rightarrow> None | Some t \<Rightarrow> (case js_Number t of Fin v \<Rightarrow> Some v | _ \<Rightarrow> None))"

definition form_collateral :: "string \<Rightarrow> string \<Rightarrow> collateral_form \<Rightarrow> rat \<Rightarrow> rat \<Rightarrow> string \<Rightarrow> CollateralData" where
  "form_collateral uuid owner fm age weight file =
     (let species = trim (the (fm_species fm)) in
      \<lparr>c_id = uuid, c_owner = owner, c_animal_type = species, c_breed = Some (trim (the (fm_breed fm))),
       c_age_years = None, c_weight_kg = None, c_photo_url = None, c_count = 1,
       c_appraised_value = js_round (js_mul weight 100), c_species = Some species, c_age = Some age,
       c_weight = Some weight, c_image_url = Some (''/uploads/'' @ file), c_status = None\<rparr>)"

definition create_collateral_form :: "string \<Rightarrow> collateral_form \<Rightarrow> handler" where
  "create_collateral_form uuid fm env now req s =
     (if (case fm_file fm of None \<Rightarrow> False | Some (mimetype, _) \<Rightarrow> \<not> starts_with ''image/'' mimetype)
      then (Inl (JsError ''Error'' ''Only image files are allowed''), s)
      else if blank (fm_species fm) then (fail 400 ''species is required'', s)
      else if blank (fm_breed fm) then (fail 400 ''breed is required'', s)
      else (case form_number (fm_age fm) of
         None \<Rightarrow> (fail 400 ''age must be a non-negative number'', s)
       | Some age \<Rightarrow>
           if age < 0 then (fail 400 ''age must be a non-negative number'', s)
           else (case form_number (fm_weight fm) of
              None \<Rightarrow> (fail 400 ''weight must be a positive number'', s)
            | Some weight \<Rightarrow>
                if weight \<le> 0 then (fail 400 ''weight must be a positive number'', s)
                else (case fm_file fm of
                   None \<Rightarrow> (fail 400 ''image file is required'', s)
                 | Some (_, file) \<Rightarrow>
                     (case truthy_str (user_key req) of
                        None \<Rightarrow> (fail 401 ''Authenticated wallet address required'', s)
                      | Some owner \<Rightarrow>
                          (let (r, s1) = with_store (insertCollateral now (form_collateral uuid owner fm age weight file)) s in
                           (Inr (respond 201 (collateral_json env r)), drop_cached ''/api/collateral'' s1)))))))"

definition v1_collateral :: "string \<Rightarrow> string \<Rightarrow> CreateCollateralInput \<Rightarrow> CollateralData" where
  "v1_collateral uuid owner i =
     \<lparr>c_id = uuid, c_owner = owner, c_animal_type = cc_animal_type i, c_breed = None, c_age_years = None,
      c_weight_kg = None, c_photo_url = None, c_count = of_int (cc_count i), c_appraised_value = cc_appraised_value i,
      c_species = None, c_age = None, c_weight = None, c_image_url = None, c_status = None\<rparr>"

definition create_collateral_v1 :: "string \<Rightarrow> handler" where
  "create_collateral_v1 uuid env now req s =
     (case validate createCollateralSchema (ev_issues env) (Some 422) (Some DictionaryShape) (rq_body req) of
        Inl res \<Rightarrow> (Inr res, s)
      | Inr i \<Rightarrow>
          (case truthy_str (user_key req) of
             None \<Rightarrow> (fail 401 ''Authenticated wallet address required'', s)
           | Some owner \<Rightarrow>
               (let (r, s1) = with_store (insertCollateral now (v1_collateral uuid owner i)) s in
                (Inr (respond 201 (collateral_json env r)), drop_cached ''/api/collateral'' s1))))"

subsection \<open>Listings\<close>

definition list_collateral_handler :: handler where
  "list_collateral_handler env now req s =
     (case collateralQuerySchema req of
        None \<Rightarrow> (Inr (respond 400 (JObj [(''errors'', issue_list (ev_issues env (JObj (map (\<lambda>(k, v). (k, JStr v)) (rq_query req)))))])), s)
      | Some f \<Rightarrow> (ok (page_json (collateral_json env) ''limit'' (listCollateral f (as_store s))), s))"

definition list_collateral_route :: handler where
  "list_collateral_route = cached_route DEFAULT_CACHE_TTL_MS list_collateral_handler"

definition list_collateral_v1 :: handler where
  "list_collateral_v1 env now req s =
     (case page_params ''pageSize'' (query_number ''page'' 1 req) (query_number ''pageSize'' 20 req) of
        Inl res \<Rightarrow> (res, s)
      | Inr (p, l) \<Rightarrow>
          (let result = listCollateral \<lparr>cf_status = None, cf_ownerId = query ''owner'' req, cf_page = Some p, cf_limit = Some l\<rparr> (as_store s);
               animalType = truthy_str (query ''animal_type'' req);
               data = (case animalType of None \<Rightarrow> ls_data result | Some a \<Rightarrow> filter (\<lambda>r. c_animal_type r = a) (ls_data result));
               total = (case animalType of None \<Rightarrow> ls_total result | Some _ \<Rightarrow> length data) in
           (ok (JObj [(''data'', JArr (map (collateral_json env) data)), (''total'', jint (int total)),
              (''page'', jint (ls_page result)), (''pageSize'', jint (ls_limit result))]), s)))"

definition appraisal_history_handler :: "string \<Rightarrow> handler" where
  "appraisal_history_handler k env now req s =
     (case getCollateral k (as_store s) of
        None \<Rightarrow> (fail 404 ''Collateral not found'', s)
      | Some r \<Rightarrow>
          if (case rq_user req of None \<Rightarrow> True | Some u \<Rightarrow> role u \<noteq> Some ''admin'' \<and> publicKey u \<noteq> Some (c_owner r))
          then (fail 404 ''Collateral not found'', s)
          else (case page_params ''limit'' (query_number ''page'' 1 req) (query_number ''limit'' 20 req) of
             Inl res \<Rightarrow> (res, s)
           | Inr (p, l) \<Rightarrow>
               (case getAppraisalHistory k (Some p) (Some l) (as_store s) of
                  None \<Rightarrow> (ok JNull, s)
                | Some h \<Rightarrow> (ok (page_json (appraisal_json env) ''limit'' h), s))))"

definition appraisal_history_route :: "string \<Rightarrow> handler" where
  "appraisal_history_route k = cached_route (5 * 60 * 1000) (appraisal_history_handler k)"

subsection \<open>Changes\<close>

text \<open>The route that answers a PATCH.\<close>

definition patch_collateral :: "string \<Rightarrow> handler" where
  "patch_collateral k env now req s =
     (case validate updateCollateralSchema (ev_issues env) (Some 422) (Some DictionaryShape) (rq_body req) of
        Inl res \<Rightarrow> (Inr res, s)
      | Inr updates \<Rightarrow>
          (case getCollateral k (as_store s) of
             None \<Rightarrow> (fail 404 ''Record not found'', s)
           | Some record \<Rightarrow>
               (case with_store (updateCollateral k updates) s of
                  (None, s1) \<Rightarrow> (fail 404 ''Record not found'', s1)
                | (Some updated, s1) \<Rightarrow> (ok (collateral_json env updated), drop_cached ''/api/collateral'' s1))))"

definition patchSchema :: "json \<Rightarrow> collateral_updates option" where
  "patchSchema body =
     (if \<not> strict [''animal_type'', ''count'', ''appraised_value''] body then None
      else
        Option.bind (optional (\<lambda>v. Option.bind (zod_string v) (min_length 1)) ''animal_type'' body) (\<lambda>animal_type.
        Option.bind (optional zod_positive ''count'' body) (\<lambda>count.
        Option.bind (optional zod_int ''appraised_value'' body) (\<lambda>appraised_value.
          Some (no_collateral_updates\<lparr>cu_animal_type := animal_type, cu_count := map_option of_int count,
                  cu_appraised_value := map_option of_int appraised_value\<rparr>)))))"

text \<open>The one registered after it. \<open>insertAuditEntry\<close> is no export of the store, so a patch that
  went through would end in a \<open>TypeError\<close>.\<close>

definition patch_collateral_shadowed :: "string \<Rightarrow> handler" where
  "patch_collateral_shadowed k env now req s =
     (case patchSchema (rq_body req) of
        None \<Rightarrow> (invalid_body env (rq_body req), s)
      | Some updates \<Rightarrow>
          if (case cu_appraised_value updates of None \<Rightarrow> False | Some v \<Rightarrow> v \<le> 0)
          then (fail 400 ''appraised_value must be positive'', s)
          else (case getCollateral k (as_store s) of
             None \<Rightarrow> (fail 404 ''Record not found'', s)
           | Some record \<Rightarrow>
               if (case cu_appraised_value updates of None \<Rightarrow> False | Some v \<Rightarrow> v < c_appraised_value record) \<and>
                  isCollateralPledged k (as_store s)
               then (fail 409 ''Cannot reduce appraised_value: collateral is pledged to an active loan'', s)
               else (case with_store (updateCollateral k updates) s of
                  (None, s1) \<Rightarrow> (fail 404 ''Record not found'', s1)
                | (Some updated, s1) \<Rightarrow> (Inl (type_error ''(0, store_1.insertAuditEntry)''), s1))))"

text \<open>The routes for PATCH /api/v1/collateral/:id in order of registration, and what Express makes of
  them: the first one answers.\<close>

definition patch_collateral_routes :: "string \<Rightarrow> handler list" where
  "patch_collateral_routes k = [patch_collateral k, patch_collateral_shadowed k]"

definition patch_collateral_v1 :: "string \<Rightarrow> handler" where
  "patch_collateral_v1 k = hd (patch_collateral_routes k)"

definition appraise_collateral :: "string \<Rightarrow> handler" where
  "appraise_collateral k env now req s =
     (case body_field ''appraised_value'' (rq_body req) of
        Inl e \<Rightarrow> (Inl e, s)
      | Inr (Some (JNum v)) \<Rightarrow>
          if \<not> is_integer v \<or> v \<le> 0 then (fail 400 ''appraised_value must be a positive integer'', s)
          else (case getCollateral k (as_store s) of
             None \<Rightarrow> (fail 404 ''Record not found'', s)
           | Some record \<Rightarrow>
               (let s1 = s\<lparr>as_store := (as_store s)\<lparr>collateralTable :=
                             m_set k (record\<lparr>c_appraised_value := v\<rparr>) (collateralTable (as_store s))\<rparr>\<rparr>;
                    s2 = s1\<lparr>as_appraisals := setAppraisal now k (JNum v) (as_appraisals s1)\<rparr>;
                    (_, s3) = with_store (addAppraisal now k v (user_key req)) s2;
                    s4 = drop_cached (''/api/v1/collateral/'' @ k @ ''/appraisals'') s3 in
                (case getCollateral k (as_store s4) of
                   None \<Rightarrow> (fail 404 ''Record not found'', s4)
                 | Some r \<Rightarrow> (ok (collateral_json env r), s4))))
      | Inr _ \<Rightarrow> (fail 400 ''appraised_value must be a positive integer'', s))"

definition delete_collateral :: "string \<Rightarrow> handler" where
  "delete_collateral k env now req s =
     (case getCollateral k (as_store s) of
        None \<Rightarrow> (fail 404 ''Record not found'', s)
      | Some record \<Rightarrow>
          if isCollateralPledged k (as_store s)
          then (fail 409 ''Collateral is currently pledged to an active loan'', s)
          else (let isOwner = (case rq_user req of None \<Rightarrow> False | Some u \<Rightarrow> publicKey u = Some (c_owner record));
                    key = truthy_str (ev_ADMIN_API_KEY env);
                    isUserAdmin = ((case rq_user req of None \<Rightarrow> False | Some u \<Rightarrow> role u = Some ''admin'') \<or>
                      (case key of None \<Rightarrow> False
                       | Some a \<Rightarrow> user_key req = Some a \<or> header ''x-admin-key'' req = Some a \<or> header ''admin-api-key'' req = Some a)) in
                if \<not> isOwner \<and> \<not> isUserAdmin
                then (fail 403 ''Forbidden: Only the owner or an admin can delete this collateral'', s)
                else (let (done, s1) = with_store (softDeleteCollateral now k) s in
                      (if done then ok (JObj [(''deleted'', JBool True), (''id'', JStr k)])
                       else fail 404 ''Record not found'', s1))))"

definition deleted_collateral :: handler where
  "deleted_collateral env now req s = (ok (JArr (map (collateral_json env) (listDeletedCollateral (as_store s)))), s)"

definition restore_collateral_admin :: "string \<Rightarrow> handler" where
  "restore_collateral_admin k env now req s =
     (let (done, s1) = with_store (restoreCollateral k) s in
      (if done then ok (JObj [(''restored'', JBool True), (''id'', JStr k)])
       else fail 404 ''Record not found or not deleted'', s1))"

definition restore_collateral_v1 :: "string \<Rightarrow> handler" where
  "restore_collateral_v1 k env now req s =
     (case getCollateralIncludingDeleted k (as_store s) of
        None \<Rightarrow> (fail 404 ''Record not found or not deleted'', s)
      | Some c \<Rightarrow>
          if c_deletedAt c = None then (fail 404 ''Record not found or not deleted'', s)
          else if isCollateralPledged k (as_store s)
          then (fail 409 ''Collateral is currently pledged to an active loan'', s)
          else (let (done, s1) = with_store (restoreCollateral k) s in
                if done then (ok (JObj [(''restored'', JBool True), (''id'', JStr k)]), drop_cached ''/api/collateral'' s1)
                else (fail 404 ''Record not found or not deleted'', s1)))"

subsection \<open>Oracle, webhooks and administration\<close>

definition oracle_price_update :: handler where
  "oracle_price_update env now req s =
     (ok (JObj [(''invalidated'', JBool True)]), s\<lparr>as_appraisals := invalidateAll (as_appraisals s)\<rparr>)"

definition register_webhook_route :: "string \<Rightarrow> string \<Rightarrow> handler" where
  "register_webhook_route uuid random32 env now req s =
     (case body_field ''url'' (rq_body req) of
        Inl e \<Rightarrow> (Inl e, s)
      | Inr (Some (JStr url)) \<Rightarrow>
          if url = [] then (fail 400 ''url is required'', s)
          else (case registerWebhook (ev_parse_url env) now uuid random32 url False (as_hooks s) of
             Inl e \<Rightarrow> (fail 400 (err_message e), s)
           | Inr (reg, h) \<Rightarrow> (Inr (respond 201 (webhook_json reg)), s\<lparr>as_hooks := h\<rparr>))
      | Inr _ \<Rightarrow> (fail 400 ''url is required'', s))"

definition list_webhooks_route :: handler where
  "list_webhooks_route env now req s = (ok (JArr (map listed_webhook_json (getWebhooks (as_hooks s)))), s)"

definition delivery_logs_route :: handler where
  "delivery_logs_route env now req s = (ok (JArr (map delivery_json (getDeliveryLogs (as_hooks s)))), s)"

definition is_admin :: "request \<Rightarrow> bool" where
  "is_admin req = (case rq_user req of None \<Rightarrow> False | Some u \<Rightarrow> role u = Some ''admin'')"

definition MS_90_DAYS :: int where "MS_90_DAYS = 90 * 24 * 60 * 60 * 1000"

text \<open>\<open>listAuditEntries\<close> is no export of the store either.\<close>

definition admin_audit :: handler where
  "admin_audit env now req s =
     (if \<not> is_admin req then (fail 403 ''Forbidden: admin role required'', s)
      else (case page_params ''limit'' (query_number ''page'' 1 req) (query_number ''limit'' 20 req) of
         Inl res \<Rightarrow> (res, s)
       | Inr _ \<Rightarrow>
           (let from = truthy_str (query ''from'' req); to = truthy_str (query ''to'' req);
                date = (\<lambda>d. Option.bind d (ev_parse_date env)) in
            if bad_date (ev_parse_date env) (query ''from'' req) then (fail 400 ''from must be a valid ISO date'', s)
            else if bad_date (ev_parse_date env) (query ''to'' req) then (fail 400 ''to must be a valid ISO date'', s)
            else if (case (date from, date to) of (Some f, Some t) \<Rightarrow> MS_90_DAYS < t - f | _ \<Rightarrow> False)
            then (fail 400 ''Date range must not exceed 90 days'', s)
            else (Inl (type_error ''(0, store_1.listAuditEntries)''), s))))"

text \<open>The manual run of the health job works on the job's own state, which holds the store.\<close>

definition liquidation_check :: "job_env \<Rightarrow> (nat \<Rightarrow> int) \<Rightarrow> string \<Rightarrow> request \<Rightarrow> job_state \<Rightarrow> outcome \<times> post list \<times> job_state" where
  "liquidation_check jenv clock iso_now req st =
     (if \<not> is_admin req then (fail 403 ''Forbidden: admin role required'', [], st)
      else (let (out, updated, st') = runHealthFactorJob jenv clock st in
            (ok (JObj [(''updated'', jint (int updated)), (''triggeredAt'', JStr iso_now)]), out, st')))"


subsection \<open>Properties\<close>

text \<open>Who may delete a collateral record.\<close>

definition may_delete :: "api_env \<Rightarrow> request \<Rightarrow> CollateralRecord \<Rightarrow> bool" where
  "may_delete env req c \<longleftrightarrow>
     (\<exists>u. rq_user req = Some u \<and> (publicKey u = Some (c_owner c) \<or> role u = Some ''admin'')) \<or>
     (\<exists>a. truthy_str (ev_ADMIN_API_KEY env) = Some a \<and>
        (user_key req = Some a \<or> header ''x-admin-key'' req = Some a \<or> header ''admin-api-key'' req = Some a))"

lemma delete_collateral_eq:
  "delete_collateral k env now req s =
     (case getCollateral k (as_store s) of
        None \<Rightarrow> (fail 404 ''Record not found'', s)
      | Some c \<Rightarrow>
          if isCollateralPledged k (as_store s)
          then (fail 409 ''Collateral is currently pledged to an active loan'', s)
          else if may_delete env req c
          then (ok (JObj [(''deleted'', JBool True), (''id'', JStr k)]),
                s\<lparr>as_store := snd (softDeleteCollateral now k (as_store s))\<rparr>)
          else (fail 403 ''Forbidden: Only the owner or an admin can delete this collateral'', s))"
proof -
  have "fst (softDeleteCollateral now k (as_store s))" if "getCollateral k (as_store s) = Some c" for c
    using that by (auto simp: getCollateral_def softDeleteCollateral_def split: option.splits if_splits)
  then show ?thesis
    by (auto simp: delete_collateral_def may_delete_def with_store_def split_beta Let_def split: option.splits)
qed

text \<open>C20: A collateral record is deleted exactly when it is there, backs no open loan, and the caller is
  its owner or an administrator; it is then hidden with its data kept, and nothing else changes. In
  every other case nothing changes at all.\<close>

theorem collateral_deletion_guarded:
  assumes "delete_collateral k env now req s = (res, s')"
  shows "if \<exists>c. getCollateral k (as_store s) = Some c \<and> \<not> isCollateralPledged k (as_store s) \<and> may_delete env req c
    then res = ok (JObj [(''deleted'', JBool True), (''id'', JStr k)]) \<and>
      getCollateral k (as_store s') = None \<and>
      restoreCollateral k (as_store s') = (True, as_store s) \<and>
      (\<forall>k'. k' \<noteq> k \<longrightarrow> getCollateral k' (as_store s') = getCollateral k' (as_store s)) \<and>
      loanTable (as_store s') = loanTable (as_store s)
    else s' = s \<and> (\<exists>st msg. st \<in> {403, 404, 409} \<and> res = fail st msg)"
proof (cases "\<exists>c. getCollateral k (as_store s) = Some c \<and> \<not> isCollateralPledged k (as_store s) \<and> may_delete env req c")
  case True
  then obtain c where c: "getCollateral k (as_store s) = Some c" "\<not> isCollateralPledged k (as_store s)" "may_delete env req c"
    by blast
  then have "res = ok (JObj [(''deleted'', JBool True), (''id'', JStr k)])"
      "as_store s' = snd (softDeleteCollateral now k (as_store s))"
    using assms by (auto simp: delete_collateral_eq)
  moreover have "getCollateral k' (snd (softDeleteCollateral now k (as_store s))) =
      (if k' = k then None else getCollateral k' (as_store s))" for k'
    by (auto simp: getCollateral_def softDeleteCollateral_def split: option.splits)
  ultimately show ?thesis using True restore_deleted_collateral [OF c(1)] by simp
next
  case False
  then show ?thesis using assms
    by (auto simp: delete_collateral_eq split: option.splits if_splits)
qed

theorem collateral_deletion_guarded_witness:
  "\<exists>s'. delete_collateral ''c1'' calm_api 9 ((post_json JNull)\<lparr>rq_user := Some \<lparr>publicKey = Some wallet_G, role = None\<rparr>\<rparr>) herd_api =
     (ok (JObj [(''deleted'', JBool True), (''id'', JStr ''c1'')]), s') \<and> getCollateral ''c1'' (as_store s') = None"
proof -
  let ?req = "(post_json JNull)\<lparr>rq_user := Some \<lparr>publicKey = Some wallet_G, role = None\<rparr>\<rparr>"
  obtain res s' where r: "delete_collateral ''c1'' calm_api 9 ?req herd_api = (res, s')"
    by (cases "delete_collateral ''c1'' calm_api 9 ?req herd_api") auto
  obtain c where "getCollateral ''c1'' (as_store herd_api) = Some c" "c_owner c = wallet_G" using herd_api_facts(3) by blast
  then have "\<exists>c. getCollateral ''c1'' (as_store herd_api) = Some c \<and> \<not> isCollateralPledged ''c1'' (as_store herd_api) \<and>
      may_delete calm_api ?req c"
    using herd_api_facts(4) by (auto simp: may_delete_def)
  with collateral_deletion_guarded [OF r] r show ?thesis by simp
qed

text \<open>A patch can lower the appraised value of a collateral that backs an open loan: the route that
  answers does not look at pledges, and the route that would refuse the same patch with status 409 is
  registered second and never runs.\<close>

theorem patch_lowers_pledged_collateral:
  assumes "getCollateral k (as_store s) = Some c" "isCollateralPledged k (as_store s)"
    and "0 < v" "of_int v < c_appraised_value c" "v \<le> 2 ^ 53 - 1" "rq_body req = JObj [(''appraised_value'', jint v)]"
  shows "(\<exists>s'. patch_collateral_v1 k env now req s = (ok (collateral_json env (c\<lparr>c_appraised_value := of_int v\<rparr>)), s') \<and>
      getCollateral k (as_store s') = Some (c\<lparr>c_appraised_value := of_int v\<rparr>) \<and>
      isCollateralPledged k (as_store s')) \<and>
    (\<exists>msg. patch_collateral_shadowed k env now req s = (fail 409 msg, s))"
proof -
  let ?u = "no_collateral_updates\<lparr>cu_appraised_value := Some (of_int v)\<rparr>"
  have z: "zod_int (jint v) = Some v" using assms(3,5) by (simp add: zod_int_Some jint_def)
  have u: "updateCollateralSchema (rq_body req) = Some ?u" "patchSchema (rq_body req) = Some ?u"
    using z assms(3) by (simp_all add: assms(6) updateCollateralSchema_def patchSchema_def strict_def optional_def
        appraisedValueSchema_def zod_number_def jint_def no_collateral_updates_def)
  have m: "merge_collateral c ?u = c\<lparr>c_appraised_value := of_int v\<rparr>"
    by (cases c) (simp add: merge_collateral_def no_collateral_updates_def)
  have g: "m_get (collateralTable (as_store s)) k = Some c" "c_deletedAt c = None"
    using assms(1) by (auto simp: getCollateral_def split: option.splits if_splits)
  have up: "updateCollateral k ?u (as_store s) = (Some (c\<lparr>c_appraised_value := of_int v\<rparr>),
      (as_store s)\<lparr>collateralTable := m_set k (c\<lparr>c_appraised_value := of_int v\<rparr>) (collateralTable (as_store s))\<rparr>)"
    by (simp add: updateCollateral_def g(1) m Let_def)
  have "\<exists>s'. patch_collateral_v1 k env now req s = (ok (collateral_json env (c\<lparr>c_appraised_value := of_int v\<rparr>)), s') \<and>
      getCollateral k (as_store s') = Some (c\<lparr>c_appraised_value := of_int v\<rparr>) \<and>
      isCollateralPledged k (as_store s')"
    using assms(2) g
    by (simp add: patch_collateral_v1_def patch_collateral_routes_def patch_collateral_def validate_def u(1) assms(1)
        with_store_def up Let_def getCollateral_def isCollateralPledged_def)
  moreover have "\<exists>msg. patch_collateral_shadowed k env now req s = (fail 409 msg, s)"
    using assms(2-4) by (intro exI) (simp add: patch_collateral_shadowed_def u(2) assms(1) no_collateral_updates_def)
  ultimately show ?thesis by blast
qed

theorem patch_lowers_pledged_collateral_witness:
  "\<exists>s' c. patch_collateral_v1 ''c1'' calm_api 9 (post_json (JObj [(''appraised_value'', jint 1)]))
       (initial_api\<lparr>as_store := sample_store\<rparr>) = (ok (collateral_json calm_api c), s') \<and> c_appraised_value c = 1"
proof -
  obtain c where c: "getCollateral ''c1'' sample_store = Some c" "c_appraised_value c = 1000"
    using sample_store_facts(1) by (cases "getCollateral ''c1'' sample_store") auto
  have p: "isCollateralPledged ''c1'' sample_store"
    by (simp add: sample_store_eq isCollateralPledged_def m_values_def insertLoan_def sample_loan_def LoanData.defs
        Let_def is_open_status_def)
  show ?thesis
    using patch_lowers_pledged_collateral [of "''c1''" "initial_api\<lparr>as_store := sample_store\<rparr>" c 1
        "post_json (JObj [(''appraised_value'', jint 1)])" calm_api 9] c p
    by (auto simp: post_json_def intro!: exI [of _ "c\<lparr>c_appraised_value := 1\<rparr>"])
qed

end
