(* ===== verification/Loan_State_Machine.thy ===== *)
theory Loan_State_Machine
  imports Prelude
begin

section \<open>The loan state machine (backend/src/loanStateMachine.ts)\<close>

text \<open>
  The statuses of a loan, the table of allowed transitions, \<open>transition\<close> with its history
  array, and runs of it. The history array is passed in and returned; a refused transition
  throws before the array is touched.
\<close>

datatype loan_status = Pending | Active | Repaid | Liquidated | At_risk

record transition_record =
  tr_from :: loan_status
  tr_to :: loan_status
  tr_at :: int

datatype invalid_transition = InvalidTransitionError loan_status loan_status

fun TRANSITIONS :: "loan_status \<Rightarrow> loan_status list" where
  "TRANSITIONS Pending = [Active]"
| "TRANSITIONS Active = [Repaid, Liquidated, At_risk]"
| "TRANSITIONS At_risk = [Repaid, Liquidated, Active]"
| "TRANSITIONS Repaid = []"
| "TRANSITIONS Liquidated = []"

definition transition ::
  "int \<Rightarrow> loan_status \<Rightarrow> loan_status \<Rightarrow> transition_record list \<Rightarrow>
   invalid_transition + loan_status \<times> transition_record list" where
  "transition now current next_st history =
     (if next_st \<notin> set (TRANSITIONS current) then Inl (InvalidTransitionError current next_st)
      else Inr (next_st, history @ [\<lparr>tr_from = current, tr_to = next_st, tr_at = now\<rparr>]))"

definition allowedTransitions :: "loan_status \<Rightarrow> loan_status list" where
  "allowedTransitions st = TRANSITIONS st"

text \<open>
  A client drives the machine by calling \<open>transition\<close> with one wanted status after another,
  and stops at the first exception. Each request carries the clock reading of its call.
\<close>

fun run_transitions ::
  "loan_status \<Rightarrow> transition_record list \<Rightarrow> (int \<times> loan_status) list \<Rightarrow>
   loan_status \<times> transition_record list" where
  "run_transitions cur hist [] = (cur, hist)"
| "run_transitions cur hist ((now, nxt) # rest) =
     (case transition now cur nxt hist of
        Inl _ \<Rightarrow> (cur, hist)
      | Inr (cur', hist') \<Rightarrow> run_transitions cur' hist' rest)"

subsection \<open>The graph of the table\<close>

inductive can_become :: "loan_status \<Rightarrow> loan_status \<Rightarrow> bool" where
  refl: "can_become s s"
| step: "can_become s t \<Longrightarrow> u \<in> set (TRANSITIONS t) \<Longrightarrow> can_become s u"

code_pred can_become .

fun terminal :: "loan_status \<Rightarrow> bool" where
  "terminal Repaid = True" | "terminal Liquidated = True" | "terminal _ = False"

lemma terminal_iff: "terminal s \<longleftrightarrow> TRANSITIONS s = []"
  by (cases s) auto

lemma can_become_terminal: "can_become s t \<Longrightarrow> terminal s \<Longrightarrow> t = s"
  by (induction rule: can_become.induct) (auto simp: terminal_iff)

lemma can_become_not_pending: "can_become s t \<Longrightarrow> t = Pending \<Longrightarrow> s = Pending"
proof (induction rule: can_become.induct)
  case (step s t u)
  then show ?case by (cases t) auto
qed simp

lemma can_become_trans: "can_become s t \<Longrightarrow> can_become t u \<Longrightarrow> can_become s u"
  by (rotate_tac, induction rule: can_become.induct) (auto intro: can_become.step)

lemma can_become_open:
  assumes "\<not> terminal s" "t \<noteq> Pending" shows "can_become s t"
proof -
  have a: "can_become s Active"
    using assms by (cases s) (auto intro: can_become.refl can_become.step [OF can_become.refl])
  have "can_become Active t"
    using assms by (cases t) (auto intro: can_become.refl can_become.step [OF can_become.refl])
  with a show ?thesis by (rule can_become_trans)
qed

subsection \<open>Histories\<close>

text \<open>A history is a path from \<open>s\<close> to \<open>t\<close> whose every edge is in the table.\<close>

fun path :: "loan_status \<Rightarrow> transition_record list \<Rightarrow> loan_status \<Rightarrow> bool" where
  "path s [] t \<longleftrightarrow> s = t"
| "path s (r # rs) t \<longleftrightarrow> tr_from r = s \<and> tr_to r \<in> set (TRANSITIONS s) \<and> path (tr_to r) rs t"

lemma path_snoc: "path s (rs @ [r]) t \<longleftrightarrow>
    path s rs (tr_from r) \<and> tr_to r \<in> set (TRANSITIONS (tr_from r)) \<and> t = tr_to r"
  by (induction rs arbitrary: s) auto

lemma path_can_become: "path s rs t \<Longrightarrow> can_become s t"
proof (induction rs arbitrary: s)
  case (Cons r rs)
  then show ?case
    using can_become.step [OF can_become.refl, of "tr_to r" s] can_become_trans by auto
qed (auto intro: can_become.refl)

lemma path_terminal: "path s rs t \<Longrightarrow> terminal s \<Longrightarrow> rs = [] \<and> t = s"
  by (cases rs) (auto simp: terminal_iff)

lemma transition_Inr:
  "transition now cur nxt hist = Inr (cur', hist') \<longleftrightarrow>
     nxt \<in> set (TRANSITIONS cur) \<and> cur' = nxt \<and>
     hist' = hist @ [\<lparr>tr_from = cur, tr_to = nxt, tr_at = now\<rparr>]"
  by (auto simp: transition_def)

lemma run_transitions_path:
  assumes "path s hist cur" "run_transitions cur hist reqs = (t, hist')"
  shows "path s hist' t"
  using assms
proof (induction cur hist reqs rule: run_transitions.induct)
  case (2 cur hist now nxt rest)
  show ?case
  proof (cases "transition now cur nxt hist")
    case (Inr p)
    obtain cur' h' where p: "p = (cur', h')" by (cases p)
    with Inr 2 have "path s h' cur'" by (simp add: transition_Inr path_snoc)
    with 2 Inr p show ?thesis by simp
  qed (use 2 in auto)
qed auto

lemma run_transitions_terminal: "terminal s \<Longrightarrow> run_transitions s h reqs = (s, h)"
  by (cases reqs) (auto simp: terminal_iff transition_def)

lemma run_transitions_snoc:
  assumes "run_transitions s h reqs = (t, h')" "length h' = length h + length reqs"
    and "u \<in> set (TRANSITIONS t)"
  shows "\<exists>h''. run_transitions s h (reqs @ [(now, u)]) = (u, h'') \<and> length h'' = length h + length reqs + 1"
  using assms
proof (induction reqs arbitrary: s h)
  case (Cons q reqs)
  obtain now' nxt where q: "q = (now', nxt)" by (cases q)
  show ?case
  proof (cases "transition now' s nxt h")
    case (Inr p)
    then obtain h1 where "p = (nxt, h1)" "length h1 = length h + 1"
      by (cases p) (auto simp: transition_Inr)
    with Inr q Cons.IH [of nxt h1] Cons.prems show ?thesis by simp
  qed (use Cons.prems q in auto)
qed (auto simp: transition_def)

lemma can_become_run:
  "can_become s t \<Longrightarrow> \<exists>reqs h. run_transitions s [] reqs = (t, h) \<and> length h = length reqs"
proof (induction rule: can_become.induct)
  case (refl s)
  have "run_transitions s [] [] = (s, []) \<and> length ([] :: transition_record list) = length ([] :: (int \<times> loan_status) list)"
    by simp
  then show ?case by blast
next
  case (step s t u)
  then obtain reqs h where "run_transitions s [] reqs = (t, h)" "length h = length reqs" by blast
  with run_transitions_snoc [of s "[]" reqs t h u 0] step(2)
  obtain h'' where "run_transitions s [] (reqs @ [(0, u)]) = (u, h'')" "length h'' = length (reqs @ [(0, u)])"
    by auto
  then show ?case by blast
qed

subsection \<open>Properties of the state machine\<close>

text \<open>Whatever statuses a client asks for, in whatever order, the history is a path of the
  transition table that starts at the first status and ends at the current one: it has no gap
  and no edge the table does not allow.\<close>

theorem history_is_path:
  "path s (snd (run_transitions s [] reqs)) (fst (run_transitions s [] reqs))"
  by (rule run_transitions_path [of s "[]" s]) simp_all


end
