(* ===== verification/Interest_Rate.thy ===== *)
theory Interest_Rate
  imports Prelude
begin

section \<open>The interest rate model (backend/src/interestRate.ts)\<close>

text \<open>
  The piecewise linear jump-rate model and the two accrual formulas, in the arithmetic of
  numbers: every product, quotient and sum is rounded as the code rounds it. \<open>Math.pow\<close> is
  approximated by each engine in its own way, so it is a parameter of the compound formula.
\<close>

record InterestRateModel =
  base_rate_bps :: rat
  slope1_bps :: rat
  slope2_bps :: rat
  kink_bps :: rat

definition DEFAULT_MODEL :: InterestRateModel where
  "DEFAULT_MODEL = \<lparr>base_rate_bps = 200, slope1_bps = 500, slope2_bps = 4500, kink_bps = 8000\<rparr>"

definition BPS :: rat where "BPS = 10000"

datatype range_error = RangeError rat

definition calcInterestRate :: "rat \<Rightarrow> InterestRateModel \<Rightarrow> range_error + rat" where
  "calcInterestRate utilization_bps m =
     (if utilization_bps < 0 \<or> BPS < utilization_bps then Inl (RangeError utilization_bps)
      else if utilization_bps \<le> kink_bps m
      then Inr (js_add (base_rate_bps m) (js_floor (js_div (js_mul (slope1_bps m) utilization_bps) BPS)))
      else Inr (js_add
        (js_add (base_rate_bps m) (js_floor (js_div (js_mul (slope1_bps m) (kink_bps m)) BPS)))
        (js_floor (js_div (js_mul (slope2_bps m) (js_sub utilization_bps (kink_bps m))) BPS))))"

definition calcUtilization :: "rat \<Rightarrow> rat \<Rightarrow> rat" where
  "calcUtilization total_borrowed total_liquidity =
     (if total_liquidity \<le> 0 then 0
      else min (js_floor (js_div (js_mul total_borrowed BPS) total_liquidity)) BPS)"

definition MS_PER_YEAR :: rat where
  "MS_PER_YEAR = js_mul (js_mul (js_mul (js_mul (1461 / 4) 24) 60) 60) 1000"

definition accrueSimpleInterest :: "rat \<Rightarrow> rat \<Rightarrow> rat \<Rightarrow> rat" where
  "accrueSimpleInterest principal_amt rate_bps elapsed_ms =
     js_floor (js_div (js_mul (js_mul principal_amt rate_bps) elapsed_ms) (js_mul BPS MS_PER_YEAR))"

definition accrueCompoundInterest :: "(rat \<Rightarrow> rat \<Rightarrow> rat) \<Rightarrow> rat \<Rightarrow> rat \<Rightarrow> rat \<Rightarrow> rat" where
  "accrueCompoundInterest math_pow principal_amt rate_bps elapsed_ms =
     (let ratePerMs = js_div rate_bps (js_mul BPS MS_PER_YEAR) in
      js_floor (js_mul principal_amt (math_pow (js_add 1 ratePerMs) elapsed_ms)))"

subsection \<open>Constants\<close>

lemma MS_PER_YEAR_eq: "MS_PER_YEAR = 31557600000"
proof -
  have "js_mul (1461 / 4) 24 = 8766" using fl_of_int [of 8766] by (simp add: js_mul_def)
  moreover have "js_mul 8766 60 = 525960" "js_mul 525960 60 = 31557600" "js_mul 31557600 1000 = 31557600000"
    using fl_of_int [of 525960] fl_of_int [of 31557600] fl_of_int [of 31557600000] by (simp_all add: js_mul_def)
  ultimately show ?thesis by (simp add: MS_PER_YEAR_def)
qed

lemma BPS_MS_PER_YEAR: "js_mul BPS MS_PER_YEAR = of_int 315576000000000"
  using fl_of_int [of 315576000000000] by (simp add: js_mul_def MS_PER_YEAR_eq BPS_def)

subsection \<open>Monotonicity of the operations\<close>

lemma js_floor_mono: "x \<le> y \<Longrightarrow> js_floor x \<le> js_floor y"
  by (simp add: js_floor_def floor_mono)

lemma js_mul_mono: "x \<le> y \<Longrightarrow> 0 \<le> c \<Longrightarrow> js_mul c x \<le> js_mul c y"
  by (simp add: js_mul_def fl_mono mult_left_mono)

lemma js_mul_mono2: "x \<le> y \<Longrightarrow> 0 \<le> c \<Longrightarrow> js_mul x c \<le> js_mul y c"
  by (simp add: js_mul_def fl_mono mult_right_mono)

lemma js_mul_nonneg: "0 \<le> x \<Longrightarrow> 0 \<le> y \<Longrightarrow> 0 \<le> js_mul x y"
  by (simp add: js_mul_def)

lemma js_div_mono: "x \<le> y \<Longrightarrow> 0 < c \<Longrightarrow> js_div x c \<le> js_div y c"
  by (simp add: js_div_def fl_mono divide_right_mono)

lemma js_div_nonneg: "0 \<le> x \<Longrightarrow> 0 < c \<Longrightarrow> 0 \<le> js_div x c"
  by (simp add: js_div_def)

lemma js_add_mono: "x \<le> y \<Longrightarrow> u \<le> v \<Longrightarrow> js_add x u \<le> js_add y v"
  by (simp add: js_add_def fl_mono)

lemma js_add_nonneg_right: "0 \<le> y \<Longrightarrow> x = fl x \<Longrightarrow> x \<le> js_add x y"
  using fl_mono [of x "x + y"] by (simp add: js_add_def)

lemma js_sub_mono: "x \<le> y \<Longrightarrow> js_sub x c \<le> js_sub y c"
  by (simp add: js_sub_def fl_mono)

lemma js_floor_nonneg: "0 \<le> x \<Longrightarrow> 0 \<le> js_floor x"
  by (simp add: js_floor_def)

lemmas js_mono = js_floor_mono js_mul_mono js_mul_mono2 js_div_mono js_add_mono js_sub_mono

lemmas js_nonneg = js_floor_nonneg js_mul_nonneg js_div_nonneg

lemma BPS_pos [simp]: "0 < BPS" "0 \<le> BPS"
  by (simp_all add: BPS_def)

text \<open>The two branches of the rate as functions of the utilization.\<close>

lemma calcInterestRate_mono:
  assumes "0 \<le> slope1_bps m" "0 \<le> slope2_bps m" "u \<le> v"
    and u: "calcInterestRate u m = Inr r" and v: "calcInterestRate v m = Inr s"
  shows "r \<le> s"
proof -
  let ?low = "\<lambda>x. js_add (base_rate_bps m) (js_floor (js_div (js_mul (slope1_bps m) x) BPS))"
  let ?jump = "\<lambda>x. js_floor (js_div (js_mul (slope2_bps m) (js_sub x (kink_bps m))) BPS)"
  have low: "?low x \<le> ?low y" if "x \<le> y" for x y
    using that assms(1) by (intro js_mono order_refl) simp_all
  have jump: "?jump x \<le> ?jump y" if "x \<le> y" for x y
    using that assms(2) by (intro js_mono) simp_all
  have pos: "0 \<le> ?jump x" if "kink_bps m \<le> x" for x
    using that assms(2) by (intro js_nonneg) (simp_all add: js_sub_def)
  have fx: "fl (?low x) = ?low x" for x by (simp add: js_add_def)
  consider "v \<le> kink_bps m" | "u \<le> kink_bps m" "kink_bps m < v" | "kink_bps m < u"
    by linarith
  then show ?thesis
  proof cases
    case 1
    then show ?thesis using u v assms(3) low [of u v] by (auto simp: calcInterestRate_def split: if_splits)
  next
    case 2
    have "?low u \<le> ?low (kink_bps m)" by (rule low [OF 2(1)])
    also have "\<dots> \<le> js_add (?low (kink_bps m)) (?jump v)"
      using pos [of v] 2 fx by (intro js_add_nonneg_right) simp_all
    finally show ?thesis using u v 2 by (auto simp: calcInterestRate_def split: if_splits)
  next
    case 3
    then show ?thesis using u v assms(3) jump [of u v]
      by (auto simp: calcInterestRate_def split: if_splits intro!: js_add_mono)
  qed
qed

subsection \<open>Agreement with the integer formula\<close>

lemma js_floor_bps:
  assumes "0 \<le> s" "0 \<le> u" "s * u < 2 ^ 53"
  shows "js_floor (js_div (js_mul (of_int s) (of_int u)) BPS) = of_int (s * u div 10000)"
proof -
  have "js_mul (of_int s) (of_int u) = of_int (s * u)" using assms by (intro js_mul_of_int) simp
  moreover have "BPS = of_int 10000" by (simp add: BPS_def)
  ultimately show ?thesis using js_floor_quotient [of "s * u" 10000] assms by simp
qed

text \<open>A model whose parameters are integers of the size a rate in basis points can have.\<close>

definition int_model :: "int \<Rightarrow> int \<Rightarrow> int \<Rightarrow> int \<Rightarrow> InterestRateModel" where
  "int_model b s1 s2 k =
     \<lparr>base_rate_bps = of_int b, slope1_bps = of_int s1, slope2_bps = of_int s2, kink_bps = of_int k\<rparr>"

definition rate_spec :: "int \<Rightarrow> int \<Rightarrow> int \<Rightarrow> int \<Rightarrow> int \<Rightarrow> int" where
  "rate_spec b s1 s2 k u =
     (if u \<le> k then b + s1 * u div 10000 else b + s1 * k div 10000 + s2 * (u - k) div 10000)"

lemma bps_product_bound:
  fixes s u :: int
  assumes "0 \<le> s" "s < 2 ^ 32" "0 \<le> u" "u \<le> 10000"
  shows "0 \<le> s * u div 10000" "s * u div 10000 < 2 ^ 32" "s * u < 2 ^ 53"
proof -
  have "s * u \<le> s * 10000" using assms by (intro mult_left_mono) auto
  then have "s * u div 10000 \<le> s" using zdiv_mono1 [of "s * u" "s * 10000" 10000] by simp
  then show "0 \<le> s * u div 10000" "s * u div 10000 < 2 ^ 32" "s * u < 2 ^ 53"
    using assms \<open>s * u \<le> s * 10000\<close> by (simp_all add: pos_imp_zdiv_nonneg_iff)
qed

lemma calcInterestRate_int:
  assumes "0 \<le> b" "b < 2 ^ 32" "0 \<le> s1" "s1 < 2 ^ 32" "0 \<le> s2" "s2 < 2 ^ 32"
    and "0 \<le> k" "k \<le> 10000" "0 \<le> u" "u \<le> 10000"
  shows "calcInterestRate (of_int u) (int_model b s1 s2 k) = Inr (of_int (rate_spec b s1 s2 k u))"
proof (cases "u \<le> k")
  case True
  note p = bps_product_bound [of s1 u]
  have "js_add (of_int b) (of_int (s1 * u div 10000)) = of_int (b + s1 * u div 10000)"
    using assms p by (intro js_add_of_int) simp
  then show ?thesis
    using True assms p js_floor_bps [of s1 u]
    by (simp add: calcInterestRate_def int_model_def rate_spec_def BPS_def)
next
  case False
  note p = bps_product_bound [of s1 k] bps_product_bound [of s2 "u - k"]
  have 1: "js_add (of_int b) (of_int (s1 * k div 10000)) = of_int (b + s1 * k div 10000)"
    using assms p by (intro js_add_of_int) simp
  have 2: "js_add (of_int (b + s1 * k div 10000)) (of_int (s2 * (u - k) div 10000)) =
      of_int (b + s1 * k div 10000 + s2 * (u - k) div 10000)"
    using assms p False by (intro js_add_of_int) simp
  have 3: "js_sub (of_int u) (of_int k) = of_int (u - k)"
    using assms False by (intro js_sub_of_int) simp
  show ?thesis
    using False assms p js_floor_bps [of s1 k] js_floor_bps [of s2 "u - k"] 1 2 3
    by (simp add: calcInterestRate_def int_model_def rate_spec_def BPS_def)
qed

lemma accrueSimpleInterest_int:
  assumes "0 \<le> p" "0 \<le> r" "0 \<le> t" "p * r * t < 2 ^ 53" "p * r \<le> 2 ^ 53"
  shows "accrueSimpleInterest (of_int p) (of_int r) (of_int t) = of_int (p * r * t div 315576000000000)"
proof -
  have "js_mul (of_int p) (of_int r) = of_int (p * r)" using assms by (intro js_mul_of_int) simp
  moreover have "js_mul (of_int (p * r)) (of_int t) = of_int (p * r * t)"
    using assms by (intro js_mul_of_int) simp
  ultimately show ?thesis
    using assms js_floor_quotient [of "p * r * t" 315576000000000]
    by (simp add: accrueSimpleInterest_def BPS_MS_PER_YEAR)
qed

lemma calcUtilization_int:
  assumes "0 \<le> b" "0 < l" "b * 10000 < 2 ^ 53"
  shows "calcUtilization (of_int b) (of_int l) = of_int (min (b * 10000 div l) 10000)"
proof -
  have "js_mul (of_int b) (of_int 10000) = of_int (b * 10000)" using assms by (intro js_mul_of_int) simp
  then have "js_mul (of_int b) BPS = of_int (b * 10000)" by (simp add: BPS_def)
  then show ?thesis
    using assms js_floor_quotient [of "b * 10000" l]
    by (auto simp: calcUtilization_def BPS_def min_def of_int_le_numeral_iff)
qed

lemma calcUtilization_range:
  assumes "0 \<le> b" shows "0 \<le> calcUtilization b l" "calcUtilization b l \<le> BPS"
  using assms js_floor_nonneg [OF js_div_nonneg [OF js_mul_nonneg [OF assms BPS_pos(2)], of l]]
  by (auto simp: calcUtilization_def)

subsection \<open>Properties of the rate model\<close>

text \<open>C22: For a model and a utilization that are whole numbers of basis points the computed rate,
  with all its roundings, is exactly the piecewise linear jump-rate formula on integers.\<close>

theorem rate_is_jump_rate_formula:
  assumes "0 \<le> b" "b < 2 ^ 32" "0 \<le> s1" "s1 < 2 ^ 32" "0 \<le> s2" "s2 < 2 ^ 32"
    and "0 \<le> k" "k \<le> 10000" "0 \<le> u" "u \<le> 10000"
  shows "calcInterestRate (of_int u) (int_model b s1 s2 k) = Inr (of_int (rate_spec b s1 s2 k u))"
  by (rule calcInterestRate_int [OF assms])

theorem rate_is_jump_rate_formula_witness:
  "calcInterestRate 9000 DEFAULT_MODEL = Inr 1050"
  using rate_is_jump_rate_formula [of 200 500 4500 8000 9000]
  by (simp add: int_model_def DEFAULT_MODEL_def rate_spec_def)

text \<open>A higher utilization never gives a lower rate, for every model with slopes that are not
  negative and every two utilizations the function accepts, rounding included; and it accepts
  exactly the utilizations between 0 and 10000.\<close>

theorem rate_monotone:
  assumes "0 \<le> slope1_bps m" "0 \<le> slope2_bps m" "0 \<le> u" "u \<le> v" "v \<le> 10000"
  shows "\<exists>r s. calcInterestRate u m = Inr r \<and> calcInterestRate v m = Inr s \<and> r \<le> s"
proof -
  have "isl (calcInterestRate x m) \<longleftrightarrow> x < 0 \<or> 10000 < x" for x
    by (auto simp: calcInterestRate_def BPS_def)
  then obtain r s where "calcInterestRate u m = Inr r" "calcInterestRate v m = Inr s"
    using assms by (metis isl_def leD order_trans sum.exhaust_sel)
  then show ?thesis using calcInterestRate_mono [OF assms(1,2,4)] by blast
qed

theorem rate_monotone_witness:
  "\<exists>r s. calcInterestRate 100 DEFAULT_MODEL = Inr r \<and> calcInterestRate (8001 / 2) DEFAULT_MODEL = Inr s \<and> r \<le> s"
  using rate_monotone [of DEFAULT_MODEL 100 "8001 / 2"] by (simp add: DEFAULT_MODEL_def)

text \<open>Simple interest on whole amounts is the exact integer quotient, as long as the product of
  principal, rate and time is below 2^53, and it is the floor of the true interest.\<close>

theorem simple_interest_exact:
  assumes "0 \<le> p" "0 \<le> r" "1 \<le> t" "p * r * t < 2 ^ 53"
  shows "accrueSimpleInterest (of_int p) (of_int r) (of_int t) = of_int (p * r * t div 315576000000000)"
proof -
  have "p * r * 1 \<le> p * r * t" using assms by (intro mult_left_mono) auto
  then show ?thesis using assms by (intro accrueSimpleInterest_int) auto
qed

theorem simple_interest_exact_witness:
  "accrueSimpleInterest 1000 500 3155760000 = 5"
  using simple_interest_exact [of 1000 500 3155760000] by simp

end
