(* ===== verification/Auth.thy ===== *)
theory Auth
  imports Encodings
begin

section \<open>Authentication (backend/src/middleware/auth.ts, apiKey.ts)\<close>

text \<open>
  Challenges and login, JSON web tokens, refresh tokens with rotation, the middleware that guards
  the routes, and API keys. Cryptography, randomness and JSON text are parameters: \<open>crypto\<close>
  holds SHA-256 (hexadecimal), HMAC-SHA256 (bytes), ed25519 verification (it throws on a
  malformed key) and \<open>JSON.stringify\<close>/\<open>JSON.parse\<close>; random bytes are arguments.
\<close>

record crypto =
  cr_sha256 :: "string \<Rightarrow> string"
  cr_hmac :: "string \<Rightarrow> string \<Rightarrow> string"
  cr_ed25519 :: "string \<Rightarrow> string \<Rightarrow> string \<Rightarrow> js_error + bool"
  cr_stringify :: "json \<Rightarrow> string"
  cr_parse :: "string \<Rightarrow> js_error + json"

record auth_config =
  JWT_SECRET :: string
  ACCESS_TTL_MS :: int
  REFRESH_TTL_MS :: int
  production :: bool

definition CHALLENGE_TTL_MS :: int where "CHALLENGE_TTL_MS = 5 * 60 * 1000"

definition REFRESH_COOKIE :: string where "REFRESH_COOKIE = ''refreshToken''"

record refresh_entry =
  re_publicKey :: string
  re_exp :: int

record auth_state =
  challenges :: "(string, int) js_map"
  refreshTokens :: "(string, refresh_entry) js_map"

subsection \<open>JSON web tokens\<close>

definition signJwt :: "crypto \<Rightarrow> string \<Rightarrow> json \<Rightarrow> string" where
  "signJwt cr secret payload =
     (let hdr = b64url (cr_stringify cr (JObj [(''alg'', JStr ''HS256''), (''typ'', JStr ''JWT'')]));
          body = b64url (cr_stringify cr payload);
          sig = b64url (cr_hmac cr secret (hdr @ ''.'' @ body)) in
      hdr @ ''.'' @ body @ ''.'' @ sig)"

definition verifyJwt :: "crypto \<Rightarrow> string \<Rightarrow> int \<Rightarrow> string \<Rightarrow> js_error + json" where
  "verifyJwt cr secret now token =
     (case split_on CHR ''.'' token of
        [hdr, body, sig] \<Rightarrow>
          if sig \<noteq> b64url (cr_hmac cr secret (hdr @ ''.'' @ body)) then Inl (JsError ''Error'' ''invalid signature'')
          else (case cr_parse cr (b64_decode body) of
                  Inl e \<Rightarrow> Inl e
                | Inr payload \<Rightarrow>
                    if payload = JNull then Inl (JsError ''TypeError'' ''Cannot read properties of null'')
                    else (case field ''exp'' payload of
                            Some (JNum ex) \<Rightarrow>
                              if ex < of_int (now div 1000) then Inl (JsError ''Error'' ''expired'') else Inr payload
                          | _ \<Rightarrow> Inr payload))
      | _ \<Rightarrow> Inl (JsError ''Error'' ''malformed''))"

subsection \<open>Issuing tokens\<close>

definition hashToken :: "crypto \<Rightarrow> string \<Rightarrow> string" where "hashToken cr raw = cr_sha256 cr raw"

record issued =
  is_accessToken :: string
  is_rawRefresh :: string
  is_expiresIn :: rat

definition access_payload :: "auth_config \<Rightarrow> int \<Rightarrow> string \<Rightarrow> json" where
  "access_payload cfg now pk =
     JObj [(''sub'', JStr pk), (''iat'', jint (now div 1000)), (''exp'', jint ((now + ACCESS_TTL_MS cfg) div 1000))]"

definition issueTokens ::
  "crypto \<Rightarrow> auth_config \<Rightarrow> int \<Rightarrow> string \<Rightarrow> string \<Rightarrow> auth_state \<Rightarrow> issued \<times> auth_state" where
  "issueTokens cr cfg now random32 pk s =
     (let accessToken = signJwt cr (JWT_SECRET cfg) (access_payload cfg now pk);
          rawRefresh = hex_encode random32 in
      (\<lparr>is_accessToken = accessToken, is_rawRefresh = rawRefresh,
        is_expiresIn = js_div (of_int (ACCESS_TTL_MS cfg)) 1000\<rparr>,
       s\<lparr>refreshTokens := m_set (hashToken cr rawRefresh)
            \<lparr>re_publicKey = pk, re_exp = now + REFRESH_TTL_MS cfg\<rparr> (refreshTokens s)\<rparr>))"

record cookie =
  ck_name :: string
  ck_value :: string
  ck_httpOnly :: bool
  ck_secure :: bool
  ck_sameSite :: string
  ck_maxAge :: int
  ck_path :: string

definition setRefreshCookie :: "auth_config \<Rightarrow> string \<Rightarrow> cookie" where
  "setRefreshCookie cfg rawToken =
     \<lparr>ck_name = REFRESH_COOKIE, ck_value = rawToken, ck_httpOnly = True, ck_secure = production cfg,
      ck_sameSite = ''strict'', ck_maxAge = REFRESH_TTL_MS cfg, ck_path = ''/api/v1/auth/refresh''\<rparr>"

subsection \<open>The routes\<close>

definition challenge_route :: "int \<Rightarrow> string \<Rightarrow> auth_state \<Rightarrow> response \<times> auth_state" where
  "challenge_route now random32 s =
     (let challenge = hex_encode random32 in
      (respond 200 (JObj [(''challenge'', JStr challenge)]),
       s\<lparr>challenges := m_set challenge (now + CHALLENGE_TTL_MS) (challenges s)\<rparr>))"

definition token_body :: "issued \<Rightarrow> json" where
  "token_body i = JObj [(''accessToken'', JStr (is_accessToken i)), (''expiresIn'', JNum (is_expiresIn i))]"

text \<open>The signature check of a login; a value that is no string makes the SDK throw.\<close>

definition verify_signature :: "crypto \<Rightarrow> json option \<Rightarrow> string \<Rightarrow> json option \<Rightarrow> js_error + bool" where
  "verify_signature cr walletAddress n signature =
     (case (walletAddress, signature) of
        (Some (JStr w), Some (JStr g)) \<Rightarrow> cr_ed25519 cr w (hex_decode n) (hex_decode g)
      | _ \<Rightarrow> Inl (type_error ''fromPublicKey''))"

definition login_route ::
  "crypto \<Rightarrow> auth_config \<Rightarrow> int \<Rightarrow> string \<Rightarrow> json \<Rightarrow> auth_state \<Rightarrow> (response \<times> cookie option) \<times> auth_state" where
  "login_route cr cfg now random32 body s =
     (let walletAddress = field ''walletAddress'' body;
          signedChallenge = field ''signedChallenge'' body;
          nonce = Option.bind signedChallenge (field ''nonce'');
          signature = Option.bind signedChallenge (field ''signature'') in
      if \<not> truthy walletAddress \<or> \<not> truthy nonce \<or> \<not> truthy signature
      then ((respond 400 (error_body ''walletAddress and signedChallenge (with nonce and signature) are required''), None), s)
      else (case nonce of
          Some (JStr n) \<Rightarrow>
            (case m_get (challenges s) n of
               None \<Rightarrow> ((respond 401 (error_body ''Invalid or expired challenge''), None), s)
             | Some expiry \<Rightarrow>
                 if expiry = 0 \<or> expiry < now
                 then ((respond 401 (error_body ''Invalid or expired challenge''), None), s)
                 else (let s' = s\<lparr>challenges := m_delete n (challenges s)\<rparr>;
                           verified = verify_signature cr walletAddress n signature in
                       (case verified of
                          Inl _ \<Rightarrow> ((respond 401 (error_body ''Invalid wallet address or signature''), None), s')
                        | Inr False \<Rightarrow> ((respond 401 (error_body ''Signature verification failed''), None), s')
                        | Inr True \<Rightarrow>
                            (let w = (case walletAddress of Some (JStr w) \<Rightarrow> w | _ \<Rightarrow> []);
                                 (i, s'') = issueTokens cr cfg now random32 w s' in
                             ((respond 200 (token_body i), Some (setRefreshCookie cfg (is_rawRefresh i))), s'')))))
        | _ \<Rightarrow> ((respond 401 (error_body ''Invalid or expired challenge''), None), s)))"

text \<open>The regular expression \<open>(?:^|;\s*)refreshToken=([^;]+)\<close>: its value at the front of a text,
  then the first place where it matches.\<close>

definition cookie_value :: "string \<Rightarrow> string option" where
  "cookie_value s =
     (if starts_with ''refreshToken='' s
      then (let v = takeWhile (\<lambda>c. c \<noteq> CHR '';'') (drop 13 s) in if v = [] then None else Some v)
      else None)"

fun cookie_scan :: "string \<Rightarrow> string option" where
  "cookie_scan [] = None"
| "cookie_scan (c # s) =
     (if c = CHR '';''
      then (case cookie_value (dropWhile is_space s) of Some v \<Rightarrow> Some v | None \<Rightarrow> cookie_scan s)
      else cookie_scan s)"

definition refresh_cookie_of :: "string \<Rightarrow> string option" where
  "refresh_cookie_of s = (case cookie_value s of Some v \<Rightarrow> Some v | None \<Rightarrow> cookie_scan s)"

definition refresh_error :: "string \<Rightarrow> string \<Rightarrow> json" where
  "refresh_error e msg = JObj [(''error'', JStr e), (''message'', JStr msg)]"

definition refresh_route ::
  "crypto \<Rightarrow> auth_config \<Rightarrow> int \<Rightarrow> string \<Rightarrow> request \<Rightarrow> auth_state \<Rightarrow> (response \<times> cookie option) \<times> auth_state" where
  "refresh_route cr cfg now random32 req s =
     (case refresh_cookie_of (case header ''cookie'' req of None \<Rightarrow> [] | Some h \<Rightarrow> h) of
        None \<Rightarrow> ((respond 400 (refresh_error ''MISSING_TOKEN'' ''Refresh token cookie is required''), None), s)
      | Some rawToken \<Rightarrow>
          (let tokenHash = hashToken cr rawToken;
               rejected = ((respond 401 (refresh_error ''INVALID_TOKEN'' ''Refresh token is invalid or expired''), None), s) in
           case m_get (refreshTokens s) tokenHash of
             None \<Rightarrow> rejected
           | Some entry \<Rightarrow>
               if re_exp entry < now then rejected
               else (let s' = s\<lparr>refreshTokens := m_delete tokenHash (refreshTokens s)\<rparr>;
                         (i, s'') = issueTokens cr cfg now random32 (re_publicKey entry) s' in
                     ((respond 200 (token_body i), Some (setRefreshCookie cfg (is_rawRefresh i))), s''))))"

subsection \<open>API keys\<close>

record ApiKeyRecord =
  ak_id :: string
  ak_ownerPublicKey :: string
  ak_keyHash :: string
  ak_createdAt :: int
  ak_revokedAt :: "int option"

type_synonym api_keys = "(string, ApiKeyRecord) js_map"

definition hashKey :: "crypto \<Rightarrow> string \<Rightarrow> string" where "hashKey cr raw = cr_sha256 cr raw"

definition create_api_key ::
  "crypto \<Rightarrow> int \<Rightarrow> string \<Rightarrow> string \<Rightarrow> request \<Rightarrow> api_keys \<Rightarrow> response \<times> api_keys" where
  "create_api_key cr now random32 random8 req keys =
     (case truthy_str (user_key req) of
        None \<Rightarrow> (respond 401 (error_body ''Authentication required''), keys)
      | Some pk \<Rightarrow>
          (let raw = ''sk_'' @ hex_encode random32; k = hex_encode random8 in
           (respond 201 (JObj [(''id'', JStr k), (''key'', JStr raw),
              (''message'', JStr (''Store this key '' @ [CHR 0xE2, CHR 0x80, CHR 0x94] @ '' it will not be shown again.''))]),
            m_set k \<lparr>ak_id = k, ak_ownerPublicKey = pk, ak_keyHash = hashKey cr raw, ak_createdAt = now,
                     ak_revokedAt = None\<rparr> keys)))"

definition revoke_api_key :: "int \<Rightarrow> string \<Rightarrow> request \<Rightarrow> api_keys \<Rightarrow> response \<times> api_keys" where
  "revoke_api_key now k req keys =
     (case truthy_str (user_key req) of
        None \<Rightarrow> (respond 401 (error_body ''Authentication required''), keys)
      | Some pk \<Rightarrow>
          (case m_get keys k of
             None \<Rightarrow> (respond 404 (error_body ''API key not found''), keys)
           | Some r \<Rightarrow>
               if ak_ownerPublicKey r \<noteq> pk then (respond 403 (error_body ''Forbidden''), keys)
               else (respond 200 (JObj [(''message'', JStr ''API key revoked'')]),
                     m_set k (r\<lparr>ak_revokedAt := Some now\<rparr>) keys)))"

definition authenticateApiKey :: "crypto \<Rightarrow> string \<Rightarrow> api_keys \<Rightarrow> string option" where
  "authenticateApiKey cr authHeader keys =
     (if \<not> starts_with ''Bearer sk_'' authHeader then None
      else (let hashed = hashKey cr (drop 7 authHeader) in
            case List.find (\<lambda>r. ak_keyHash r = hashed) (m_values keys) of
              None \<Rightarrow> None
            | Some r \<Rightarrow>
                (case ak_revokedAt r of
                   Some t \<Rightarrow> if t \<noteq> 0 then None else Some (ak_ownerPublicKey r)
                 | None \<Rightarrow> Some (ak_ownerPublicKey r))))"

subsection \<open>The middleware\<close>

datatype gate = Proceed request | Reject response

text \<open>The three protected patterns; \<open>[^/]+\<close> is a segment that is not empty.\<close>

definition is_segment :: "string \<Rightarrow> bool" where
  "is_segment s \<longleftrightarrow> s \<noteq> [] \<and> CHR ''/'' \<notin> set s"

definition protected_get :: "string \<Rightarrow> bool" where
  "protected_get p \<longleftrightarrow>
     (starts_with ''/api/loans/'' p \<and> is_segment (drop 11 p)) \<or>
     p = ''/api/collateral'' \<or> p = ''/api/v1/loans/summary''"

definition is_mutating :: "string \<Rightarrow> bool" where
  "is_mutating m \<longleftrightarrow> m \<in> {''POST'', ''PUT'', ''DELETE'', ''PATCH''}"

text \<open>The \<open>sub\<close> of a payload; the server signs only payloads whose \<open>sub\<close> is a string.\<close>

definition payload_sub :: "json \<Rightarrow> string option" where
  "payload_sub p = (case field ''sub'' p of Some (JStr s) \<Rightarrow> Some s | _ \<Rightarrow> None)"

definition with_user :: "string option \<Rightarrow> request \<Rightarrow> request" where
  "with_user pk req = req\<lparr>rq_user := Some \<lparr>publicKey = pk, role = None\<rparr>\<rparr>"

definition jwtMiddleware ::
  "crypto \<Rightarrow> auth_config \<Rightarrow> int \<Rightarrow> api_keys \<Rightarrow> request \<Rightarrow> gate" where
  "jwtMiddleware cr cfg now keys req =
     (if \<not> is_mutating (rq_method req) \<and> \<not> (rq_method req = ''GET'' \<and> protected_get (rq_path req)) then Proceed req
      else if starts_with ''/api/auth/'' (rq_path req) then Proceed req
      else (case header ''authorization'' req of
          None \<Rightarrow> Reject (respond 401 (error_body ''Authorization header required''))
        | Some h \<Rightarrow>
            if \<not> starts_with ''Bearer '' h then Reject (respond 401 (error_body ''Authorization header required''))
            else if starts_with ''Bearer sk_'' h
            then (case truthy_str (authenticateApiKey cr h keys) of
                    None \<Rightarrow> Reject (respond 401 (error_body ''Invalid or revoked API key''))
                  | Some pk \<Rightarrow> Proceed (with_user (Some pk) req))
            else (case verifyJwt cr (JWT_SECRET cfg) now (drop 7 h) of
                    Inr payload \<Rightarrow> Proceed (with_user (payload_sub payload) req)
                  | Inl e \<Rightarrow>
                      Reject (respond 401 (error_body
                        (if err_message e = ''expired'' then ''Token expired'' else ''Invalid token''))))))"

subsection \<open>Tokens\<close>

lemma split_token:
  "split_on CHR ''.'' (b64url a @ ''.'' @ b64url b @ ''.'' @ b64url c) = [b64url a, b64url b, b64url c]"
  by (simp add: split_on_first split_on_none b64url_plain)

lemma verify_signed:
  assumes "cr_parse cr (cr_stringify cr p) = Inr p" "p \<noteq> JNull"
  shows "verifyJwt cr secret now (signJwt cr secret p) =
    (case field ''exp'' p of
       Some (JNum ex) \<Rightarrow> if ex < of_int (now div 1000) then Inl (JsError ''Error'' ''expired'') else Inr p
     | _ \<Rightarrow> Inr p)"
  using assms unfolding signJwt_def verifyJwt_def Let_def split_token by simp

lemma verify_accepts:
  assumes "verifyJwt cr secret now token = Inr p"
  shows "\<exists>hdr body. split_on CHR ''.'' token = [hdr, body, b64url (cr_hmac cr secret (hdr @ ''.'' @ body))] \<and>
    cr_parse cr (b64_decode body) = Inr p"
  using assms unfolding verifyJwt_def
  by (auto split: list.splits if_splits sum.splits option.splits json.splits)

lemma signed_not_api_key:
  assumes "cr_stringify cr (JObj [(''alg'', JStr ''HS256''), (''typ'', JStr ''JWT'')]) = CHR ''{'' # t"
  shows "\<not> starts_with ''sk_'' (signJwt cr secret p)"
proof -
  have "b64_char 30 = CHR ''e''" "code CHR ''{'' div 4 = 30" by code_simp+
  then obtain u where "b64url (CHR ''{'' # t) = CHR ''e'' # u"
    by (cases "CHR ''{'' # t" rule: b64url.cases) auto
  then show ?thesis using assms by (simp add: signJwt_def Let_def starts_with_def)
qed

lemma issueTokens_challenges [simp]: "challenges (snd (issueTokens cr cfg now r pk s)) = challenges s"
  by (simp add: issueTokens_def Let_def)

subsection \<open>Cookies\<close>

lemma refresh_cookie_plain:
  assumes "raw \<noteq> []" "CHR '';'' \<notin> set raw"
  shows "refresh_cookie_of (''refreshToken='' @ raw) = Some raw"
proof -
  have "\<forall>c\<in>set raw. c \<noteq> CHR '';''" using assms by blast
  then have "takeWhile (\<lambda>c. c \<noteq> CHR '';'') raw = raw" by (simp only: takeWhile_eq_all_conv)
  note tw = this
  show ?thesis using assms(1) unfolding refresh_cookie_of_def cookie_value_def starts_with_def Let_def
    by (simp add: tw)
qed

lemma hex_no_semicolon: "CHR '';'' \<notin> set (hex_encode s)"
  using hex_encode_hex [of s] by (auto simp: list_all_iff is_hex_def is_digit_def code_def)

text \<open>Which request paths a cookie with a path goes to (RFC 6265).\<close>

definition cookie_path_matches :: "string \<Rightarrow> string \<Rightarrow> bool" where
  "cookie_path_matches cpath p \<longleftrightarrow>
     p = cpath \<or> starts_with cpath p \<and> (last cpath = CHR ''/'' \<or> hd (drop (length cpath) p) = CHR ''/'')"

definition mounted_refresh_path :: string where "mounted_refresh_path = ''/api/auth'' @ ''/refresh''"

subsection \<open>Properties\<close>


definition toy_crypto :: crypto where
  "toy_crypto = \<lparr>cr_sha256 = (\<lambda>s. s), cr_hmac = (\<lambda>k m. k), cr_ed25519 = (\<lambda>_ _ _. Inr True),
     cr_stringify = (\<lambda>_. ''{}''), cr_parse = (\<lambda>_. Inr (JObj [(''sub'', JStr ''GA'')]))\<rparr>"

definition toy_config :: auth_config where
  "toy_config = \<lparr>JWT_SECRET = ''s'', ACCESS_TTL_MS = 900000, REFRESH_TTL_MS = 604800000, production = True\<rparr>"

definition bearer :: "string \<Rightarrow> request" where
  "bearer t = \<lparr>rq_method = ''POST'', rq_path = ''/api/loan/create'', rq_query = [],
     rq_headers = [(''authorization'', ''Bearer '' @ t)], rq_body = JObj [], rq_user = None\<rparr>"

lemma toy_token: "signJwt toy_crypto ''s'' p = ''e30.e30.cw''"
  unfolding signJwt_def Let_def toy_crypto_def by (simp, code_simp)

lemma toy_accepts:
  "jwtMiddleware toy_crypto toy_config 0 [] (bearer ''e30.e30.cw'') = Proceed (with_user (Some ''GA'') (bearer ''e30.e30.cw''))"
  by code_simp


lemma access_token_gate:
  assumes "is_mutating (rq_method req)" "\<not> starts_with ''/api/auth/'' (rq_path req)"
    and "header ''authorization'' req = Some (''Bearer '' @ is_accessToken (fst (issueTokens cr cfg t0 r32 pk s)))"
    and "cr_parse cr (cr_stringify cr (access_payload cfg t0 pk)) = Inr (access_payload cfg t0 pk)"
    and "cr_stringify cr (JObj [(''alg'', JStr ''HS256''), (''typ'', JStr ''JWT'')]) = CHR ''{'' # rest"
  shows "jwtMiddleware cr cfg now keys req =
    (if now div 1000 \<le> (t0 + ACCESS_TTL_MS cfg) div 1000 then Proceed (with_user (Some pk) req)
     else Reject (respond 401 (error_body ''Token expired'')))"
proof -
  let ?tok = "signJwt cr (JWT_SECRET cfg) (access_payload cfg t0 pk)"
  have h: "header ''authorization'' req = Some (''Bearer '' @ ?tok)"
    using assms(3) by (simp add: issueTokens_def Let_def)
  have nk: "\<not> starts_with ''Bearer sk_'' (''Bearer '' @ ?tok)" "starts_with ''Bearer '' (''Bearer '' @ ?tok)"
    using signed_not_api_key [OF assms(5)] by (simp_all add: starts_with_def)
  have v: "verifyJwt cr (JWT_SECRET cfg) now ?tok =
      (if (t0 + ACCESS_TTL_MS cfg) div 1000 < now div 1000 then Inl (JsError ''Error'' ''expired'')
       else Inr (access_payload cfg t0 pk))"
    using verify_signed [OF assms(4)] by (simp add: access_payload_def jint_def)
  show ?thesis
    using assms(1,2) nk h v
    by (auto simp: jwtMiddleware_def payload_sub_def access_payload_def not_less)
qed

text \<open>The access token of a login opens the routes for its wallet until it expires and gives
  "Token expired" afterwards, given that JSON text reads back as what was written.\<close>

theorem access_token_lifetime:
  assumes "is_mutating (rq_method req)" "\<not> starts_with ''/api/auth/'' (rq_path req)"
    and "header ''authorization'' req = Some (''Bearer '' @ is_accessToken (fst (issueTokens cr cfg t0 r32 pk s)))"
    and "cr_parse cr (cr_stringify cr (access_payload cfg t0 pk)) = Inr (access_payload cfg t0 pk)"
    and "cr_stringify cr (JObj [(''alg'', JStr ''HS256''), (''typ'', JStr ''JWT'')]) = CHR ''{'' # rest"
  shows "jwtMiddleware cr cfg now keys req =
    (if now div 1000 \<le> (t0 + ACCESS_TTL_MS cfg) div 1000 then Proceed (with_user (Some pk) req)
     else Reject (respond 401 (error_body ''Token expired'')))"
  using assms by (rule access_token_gate)

theorem access_token_lifetime_witness:
  "let cr = toy_crypto\<lparr>cr_parse := (\<lambda>_. Inr (access_payload toy_config 0 ''GA''))\<rparr>;
       tok = is_accessToken (fst (issueTokens cr toy_config 0 [] ''GA'' \<lparr>challenges = [], refreshTokens = []\<rparr>)) in
   jwtMiddleware cr toy_config 900999 [] (bearer tok) = Proceed (with_user (Some ''GA'') (bearer tok)) \<and>
   jwtMiddleware cr toy_config 901000 [] (bearer tok) = Reject (respond 401 (error_body ''Token expired''))"
proof -
  let ?cr = "toy_crypto\<lparr>cr_parse := (\<lambda>_. Inr (access_payload toy_config 0 ''GA''))\<rparr>"
  let ?s = "\<lparr>challenges = [], refreshTokens = []\<rparr>"
  let ?r = "bearer (is_accessToken (fst (issueTokens ?cr toy_config 0 [] ''GA'' ?s)))"
  have "is_mutating (rq_method ?r)" "\<not> starts_with ''/api/auth/'' (rq_path ?r)"
    "header ''authorization'' ?r = Some (''Bearer '' @ is_accessToken (fst (issueTokens ?cr toy_config 0 [] ''GA'' ?s)))"
    by (simp_all add: bearer_def is_mutating_def starts_with_def header_def)
  moreover have "cr_parse ?cr (cr_stringify ?cr (access_payload toy_config 0 ''GA'')) = Inr (access_payload toy_config 0 ''GA'')"
    "cr_stringify ?cr (JObj [(''alg'', JStr ''HS256''), (''typ'', JStr ''JWT'')]) = CHR ''{'' # ''}''"
    by (simp_all add: toy_crypto_def)
  ultimately show ?thesis
    using access_token_lifetime [of ?r ?cr toy_config 0 "[]" "''GA''" ?s "''}''" 900999 "[]"]
      access_token_lifetime [of ?r ?cr toy_config 0 "[]" "''GA''" ?s "''}''" 901000 "[]"]
    by (simp add: Let_def toy_config_def)
qed

text \<open>C32: A challenge counts for one login attempt: once a request names a valid nonce, with a good or
  a bad signature, every later login with that nonce is refused, issues nothing and changes
  nothing.\<close>

theorem challenge_single_use:
  assumes "Option.bind (field ''signedChallenge'' body1) (field ''nonce'') = Some (JStr n)"
    and "Option.bind (field ''signedChallenge'' body2) (field ''nonce'') = Some (JStr n)"
    and "truthy (field ''walletAddress'' body1)" "n \<noteq> []"
    and "truthy (Option.bind (field ''signedChallenge'' body1) (field ''signature''))"
    and "m_get (challenges s) n = Some e" "e \<noteq> 0" "t1 \<le> e"
  shows "let s1 = snd (login_route cr cfg t1 r1 body1 s); out = login_route cr cfg t2 r2 body2 s1 in
         rs_status (fst (fst out)) \<in> {400, 401} \<and> snd (fst out) = None \<and> snd out = s1"
proof -
  let ?s1 = "snd (login_route cr cfg t1 r1 body1 s)"
  have "challenges ?s1 = m_delete n (challenges s)"
    unfolding login_route_def Let_def assms(1) using assms(3-8)
    by (cases "verify_signature cr (field ''walletAddress'' body1) n
        (Option.bind (field ''signedChallenge'' body1) (field ''signature''))")
      (simp_all add: split_beta not_less split: bool.split)
  then have n: "m_get (challenges ?s1) n = None" by simp
  show ?thesis
    unfolding Let_def login_route_def [of cr cfg t2 r2 body2] assms(2) using n by simp
qed

definition login_body :: "string \<Rightarrow> json" where
  "login_body sig = JObj [(''walletAddress'', JStr ''GA''),
     (''signedChallenge'', JObj [(''nonce'', JStr ''61''), (''signature'', JStr sig)])]"

theorem challenge_single_use_witness:
  "let s = snd (challenge_route 0 ''a'' \<lparr>challenges = [], refreshTokens = []\<rparr>);
       s1 = snd (login_route toy_crypto toy_config 1000 ''x'' (login_body ''00'') s) in
   snd (fst (login_route toy_crypto toy_config 2000 ''y'' (login_body ''01'') s1)) = None"
proof -
  let ?s = "snd (challenge_route 0 ''a'' \<lparr>challenges = [], refreshTokens = []\<rparr>)"
  have "m_get (challenges ?s) ''61'' = Some 300000" by code_simp
  then show ?thesis
    using challenge_single_use [of "login_body ''00''" "''61''" "login_body ''01''" ?s 300000 1000 toy_crypto toy_config
        "''x''" 2000 "''y''"]
    by (simp add: login_body_def Let_def)
qed

text \<open>C33: A refresh token works once: the refresh that uses it gives a new token of the same wallet
  that works until its own expiry, and the used one is refused from then on, provided the new
  token does not hash to the old one's hash.\<close>

theorem refresh_rotates:
  assumes "header ''cookie'' req = Some (''refreshToken='' @ raw)" "raw \<noteq> []" "CHR '';'' \<notin> set raw"
    and "m_get (refreshTokens s) (hashToken cr raw) = Some e" "t1 \<le> re_exp e"
    and "hashToken cr (hex_encode r1) \<noteq> hashToken cr raw"
  shows "let ((res, ck), s1) = refresh_route cr cfg t1 r1 req s in
         rs_status res = 200 \<and> map_option ck_value ck = Some (hex_encode r1) \<and>
         fst (refresh_route cr cfg t2 r2 req s1) =
           (respond 401 (refresh_error ''INVALID_TOKEN'' ''Refresh token is invalid or expired''), None) \<and>
         m_get (refreshTokens s1) (hashToken cr (hex_encode r1)) =
           Some \<lparr>re_publicKey = re_publicKey e, re_exp = t1 + REFRESH_TTL_MS cfg\<rparr>"
proof -
  have c: "refresh_cookie_of (case header ''cookie'' req of None \<Rightarrow> [] | Some h \<Rightarrow> h) = Some raw"
    unfolding assms(1) option.case by (rule refresh_cookie_plain [OF assms(2,3)])
  show ?thesis
    using assms(4-6) unfolding refresh_route_def c option.case
    by (simp add: issueTokens_def Let_def setRefreshCookie_def split_beta not_less)
qed

definition with_cookie :: "string \<Rightarrow> request" where
  "with_cookie c = \<lparr>rq_method = ''POST'', rq_path = ''/api/auth/refresh'', rq_query = [],
     rq_headers = [(''cookie'', c)], rq_body = JObj [], rq_user = None\<rparr>"

theorem refresh_rotates_witness:
  "rs_status (fst (fst (refresh_route toy_crypto toy_config 9 ''b'' (with_cookie ''refreshToken=61'')
      (snd (refresh_route toy_crypto toy_config 5 ''b'' (with_cookie ''refreshToken=61'')
        (snd (issueTokens toy_crypto toy_config 0 ''a'' ''GA'' \<lparr>challenges = [], refreshTokens = []\<rparr>))))))) = 401"
proof -
  let ?s = "snd (issueTokens toy_crypto toy_config 0 ''a'' ''GA'' \<lparr>challenges = [], refreshTokens = []\<rparr>)"
  have h: "header ''cookie'' (with_cookie ''refreshToken=61'') = Some (''refreshToken='' @ ''61'')"
    by (simp add: header_def with_cookie_def)
  have g: "m_get (refreshTokens ?s) (hashToken toy_crypto ''61'') = Some \<lparr>re_publicKey = ''GA'', re_exp = 604800000\<rparr>"
    "hashToken toy_crypto (hex_encode ''b'') \<noteq> hashToken toy_crypto ''61''"
    by code_simp+
  show ?thesis
    using refresh_rotates [OF h _ _ g(1) _ g(2), of 5 toy_config 9 "''b''"] by (simp add: Let_def split_beta)
qed

text \<open>The refresh cookie is bound to a path under which the refresh route is not mounted, so a
  browser never sends the cookie of a login or of a refresh to the refresh route.\<close>

theorem refresh_cookie_not_sent:
  "\<not> cookie_path_matches (ck_path (setRefreshCookie cfg raw)) mounted_refresh_path"
  by (simp add: cookie_path_matches_def setRefreshCookie_def mounted_refresh_path_def starts_with_def)

text \<open>An API key opens the routes for the wallet that made it until its owner revokes it, after
  which it is never accepted again; another wallet cannot revoke it. Hashes of different keys
  are taken to differ.\<close>

theorem api_key_lifecycle:
  assumes "user_key req = Some pk" "pk \<noteq> []" "user_key other \<noteq> Some pk" "t1 \<noteq> 0"
    and "hex_encode r8 \<notin> set (m_keys keys)"
    and "\<forall>r\<in>set (m_values keys). ak_keyHash r \<noteq> hashKey cr (''sk_'' @ hex_encode r32)"
  shows "let keys1 = snd (create_api_key cr t0 r32 r8 req keys); k = hex_encode r8;
             hdr = ''Bearer sk_'' @ hex_encode r32;
             keys2 = snd (revoke_api_key t1 k req keys1) in
         authenticateApiKey cr hdr keys1 = Some pk \<and>
         snd (revoke_api_key t1 k other keys1) = keys1 \<and>
         authenticateApiKey cr hdr keys2 = None"
proof -
  let ?h = "hashKey cr (''sk_'' @ hex_encode r32)"
  let ?r = "\<lparr>ak_id = hex_encode r8, ak_ownerPublicKey = pk, ak_keyHash = ?h, ak_createdAt = t0, ak_revokedAt = None\<rparr>"
  have u: "truthy_str (user_key req) = Some pk" using assms(1,2) by (simp add: truthy_str_Some)
  have n: "m_get keys (hex_encode r8) = None"
    using assms(5) by (simp add: m_get_def m_keys_def map_of_eq_None_iff)
  then have k1: "snd (create_api_key cr t0 r32 r8 req keys) = keys @ [(hex_encode r8, ?r)]"
    using u by (simp add: create_api_key_def Let_def m_set_absent)
  have g: "m_get (keys @ [(hex_encode r8, ?r)]) (hex_encode r8) = Some ?r"
    using n by (simp add: m_get_def map_add_def)
  have "m_set (hex_encode r8) (?r\<lparr>ak_revokedAt := Some t1\<rparr>) (keys @ [(hex_encode r8, ?r)]) =
      keys @ [(hex_encode r8, ?r\<lparr>ak_revokedAt := Some t1\<rparr>)]"
    using m_set_absent [OF n] m_set_set [of "hex_encode r8" _ ?r keys] by (metis (no_types) m_set_absent n)
  then have k2: "snd (revoke_api_key t1 (hex_encode r8) req (keys @ [(hex_encode r8, ?r)])) =
      keys @ [(hex_encode r8, ?r\<lparr>ak_revokedAt := Some t1\<rparr>)]"
    using u g by (simp add: revoke_api_key_def)
  have k3: "snd (revoke_api_key t1 (hex_encode r8) other (keys @ [(hex_encode r8, ?r)])) = keys @ [(hex_encode r8, ?r)]"
    using assms(3) g by (auto simp: revoke_api_key_def truthy_str_Some split: option.splits)
  have f: "List.find (\<lambda>r. ak_keyHash r = ?h) (m_values (keys @ [(k', r')])) = Some r'" if "ak_keyHash r' = ?h" for k' r'
    using that assms(6) by (simp add: m_values_def find_snoc)
  show ?thesis
    unfolding Let_def k1 k2 k3 using assms(4) f [of ?r] f [of "?r\<lparr>ak_revokedAt := Some t1\<rparr>"]
    by (simp add: authenticateApiKey_def starts_with_def Let_def)
qed

theorem api_key_lifecycle_witness:
  "let me = with_user (Some ''GA'') (bearer []); keys = snd (create_api_key toy_crypto 1 ''k'' ''i'' me []) in
   authenticateApiKey toy_crypto (''Bearer sk_'' @ hex_encode ''k'') keys = Some ''GA'' \<and>
   authenticateApiKey toy_crypto (''Bearer sk_'' @ hex_encode ''k'')
     (snd (revoke_api_key 2 (hex_encode ''i'') me keys)) = None"
  using api_key_lifecycle [of "with_user (Some ''GA'') (bearer [])" "''GA''" "with_user (Some ''GB'') (bearer [])" 2
      "''i''" "[]" toy_crypto "''k''" 1]
  by (simp add: with_user_def user_key_def Let_def m_keys_def m_values_def)

end
