(* ===== verification/Event_Listener.thy ===== *)
theory Event_Listener
  imports Contract_Tx Store
begin

section \<open>The contract event listener (backend/src/contractEventListener.ts)\<close>

text \<open>
  The listener polls the RPC server for contract events and writes them into the store. The decoding
  of XDR belongs to the SDK: a decoded value is opaque, and its accessors, which throw when the value
  is of another kind, are parameters. Handling an event gives its log entries and the store, and an error
  only when logging fails; the writes made before an error stay. The theorems show how the cursor
  moves and which events do not reach the store as documented.
\<close>

subsection \<open>Events and log entries\<close>

record raw_event =
  re_type :: string
  re_topic :: "string list option"
  re_value :: string
  re_ledger :: "js_num option"
  re_id :: "string option"

record EventLogEntry =
  le_timestamp :: int
  le_eventType :: string
  le_contractId :: string
  le_ledger :: int
  le_correlationId :: string
  le_context :: "json option"
  le_error :: "string option"

text \<open>The accessors of decoded values, and the environment of the process.\<close>

record listener_env =
  ln_fromXDR :: "string \<Rightarrow> js_error + string"
  ln_sym :: "string \<Rightarrow> js_error + string"
  ln_u64 :: "string \<Rightarrow> js_error + string"
  ln_u32 :: "string \<Rightarrow> js_error + rat"
  ln_i128_lo :: "string \<Rightarrow> js_error + rat"
  ln_vec :: "string \<Rightarrow> js_error + string list"
  ln_address :: "string \<Rightarrow> js_error + string"
  ln_CONTRACT_ID :: string
  ln_LOG_LEVEL :: "string option"

definition getConfiguredLogLevel :: "listener_env \<Rightarrow> string" where
  "getConfiguredLogLevel env =
     (let raw = to_lower (case ln_LOG_LEVEL env of None \<Rightarrow> ''info'' | Some l \<Rightarrow> l) in
      if raw \<in> {''debug'', ''info'', ''warn'', ''error''} then raw else ''info'')"

definition safeLedger :: "js_num option \<Rightarrow> int" where
  "safeLedger ledger =
     (case ledger of
        Some (Fin x) \<Rightarrow> if is_integer x \<and> 0 \<le> x then \<lfloor>x\<rfloor> else 0
      | _ \<Rightarrow> 0)"

definition deriveCorrelationId :: "raw_event \<Rightarrow> string" where
  "deriveCorrelationId e =
     (case truthy_str (re_id e) of Some i \<Rightarrow> i | None \<Rightarrow> ''ledger-'' @ string_of_int (safeLedger (re_ledger e)))"

definition log_entry :: "listener_env \<Rightarrow> int \<Rightarrow> string \<Rightarrow> raw_event \<Rightarrow> json option \<Rightarrow> js_error option \<Rightarrow> EventLogEntry" where
  "log_entry env now eventType e context err =
     \<lparr>le_timestamp = now, le_eventType = eventType,
      le_contractId = (case truthy_str (Some (ln_CONTRACT_ID env)) of Some c \<Rightarrow> c | None \<Rightarrow> ''unknown-contract''),
      le_ledger = safeLedger (re_ledger e), le_correlationId = deriveCorrelationId e,
      le_context = context, le_error = map_option err_message err\<rparr>"

text \<open>The schema refuses an entry with an empty string where it asks for one character; only the
  type and the message of an error can be empty.\<close>

definition createEventLogEntry ::
  "listener_env \<Rightarrow> int \<Rightarrow> string \<Rightarrow> raw_event \<Rightarrow> json option \<Rightarrow> js_error option \<Rightarrow> js_error + EventLogEntry" where
  "createEventLogEntry env now eventType e context err =
     (let entry = log_entry env now eventType e context err in
      if le_eventType entry = [] \<or> le_error entry = Some []
      then Inl (JsError ''ZodError'' ''Too small: expected string to have >=1 characters'')
      else Inr entry)"

text \<open>What is logged: the level and the entry.\<close>

type_synonym logged = "string \<times> EventLogEntry"

definition logEvent ::
  "listener_env \<Rightarrow> int \<Rightarrow> string \<Rightarrow> raw_event \<Rightarrow> json option \<Rightarrow> js_error option \<Rightarrow> (js_error + unit) \<times> logged list" where
  "logEvent env now eventType e context err =
     (case createEventLogEntry env now eventType e context err of
        Inl z \<Rightarrow> (Inl z, [])
      | Inr entry \<Rightarrow> (Inr (), [(getConfiguredLogLevel env, entry)]))"

subsection \<open>Handling one event\<close>

text \<open>What a decoded event asks for, or nothing, or the error of an accessor. The key comes first and is
  logged before the data is decoded.\<close>

definition event_key :: "listener_env \<Rightarrow> raw_event \<Rightarrow> js_error + (string \<times> string list) option" where
  "event_key env e =
     (if re_type e \<noteq> ''contract'' then Inr None
      else bind_r (collect (ln_fromXDR env) (case re_topic e of None \<Rightarrow> [] | Some ts \<Rightarrow> ts)) (\<lambda>topics.
        if length topics < 2 then Inr None
        else bind_r (ln_sym env (topics ! 0)) (\<lambda>ns.
          if ns = [] then Inr None
          else bind_r (ln_sym env (topics ! 1)) (\<lambda>act.
            Inr (Some (if act \<noteq> [] then ns @ ''/'' @ act else ns, topics))))))"

definition address_or_empty :: "listener_env \<Rightarrow> string \<Rightarrow> string" where
  "address_or_empty env v = (case ln_address env v of Inl _ \<Rightarrow> [] | Inr a \<Rightarrow> a)"

definition event_values :: "listener_env \<Rightarrow> raw_event \<Rightarrow> js_error + string list" where
  "event_values env e = bind_r (ln_fromXDR env (re_value e)) (ln_vec env)"

datatype sync =
    NothingToSync
  | SyncCollateral string string string rat rat
  | SyncLoan string string rat
  | SyncRepaid string rat rat
  | SyncLiquidated string rat rat

definition decode_event :: "listener_env \<Rightarrow> raw_event \<Rightarrow> string \<Rightarrow> string list \<Rightarrow> js_error + sync" where
  "decode_event env e key topics =
     (if key = ''collateral_registered''
      then bind_r (event_values env e) (\<lambda>vals.
        if length vals < 4 then Inr NothingToSync
        else bind_r (ln_u64 env (vals ! 0)) (\<lambda>i. bind_r (ln_sym env (vals ! 1)) (\<lambda>animal_type.
             bind_r (ln_u32 env (vals ! 2)) (\<lambda>heads. bind_r (ln_i128_lo env (vals ! 3)) (\<lambda>appraised_value.
               Inr (SyncCollateral i (address_or_empty env (topics ! 1)) animal_type heads appraised_value))))))
      else if key = ''loan/requested''
      then bind_r (event_values env e) (\<lambda>vals.
        if length vals < 3 then Inr NothingToSync
        else bind_r (ln_u64 env (vals ! 0)) (\<lambda>i. bind_r (ln_i128_lo env (vals ! 2)) (\<lambda>amount.
               Inr (SyncLoan i (address_or_empty env (vals ! 1)) amount))))
      else if key = ''loan_repaid''
      then bind_r (event_values env e) (\<lambda>vals.
        if length vals < 4 then Inr NothingToSync
        else bind_r (ln_u64 env (vals ! 0)) (\<lambda>i. bind_r (ln_i128_lo env (vals ! 1)) (\<lambda>principalPaid.
             bind_r (ln_i128_lo env (vals ! 2)) (\<lambda>interestPaid. Inr (SyncRepaid i principalPaid interestPaid)))))
      else if key = ''loan/liquidated''
      then bind_r (event_values env e) (\<lambda>vals.
        if length vals < 3 then Inr NothingToSync
        else bind_r (ln_u64 env (vals ! 0)) (\<lambda>i. bind_r (ln_i128_lo env (vals ! 1)) (\<lambda>repayAmount.
             bind_r (ln_i128_lo env (vals ! 2)) (\<lambda>collateralSeized. Inr (SyncLiquidated i repayAmount collateralSeized)))))
      else Inr NothingToSync)"

definition synced_collateral :: "string \<Rightarrow> string \<Rightarrow> string \<Rightarrow> rat \<Rightarrow> rat \<Rightarrow> CollateralData" where
  "synced_collateral i owner animal_type heads appraised_value =
     \<lparr>c_id = i, c_owner = owner, c_animal_type = animal_type, c_breed = None, c_age_years = None, c_weight_kg = None,
      c_photo_url = None, c_count = heads, c_appraised_value = appraised_value, c_species = None, c_age = None,
      c_weight = None, c_image_url = None, c_status = None\<rparr>"

definition no_transaction_updates :: transaction_updates where
  "no_transaction_updates = \<lparr>tu_type = None, tu_status = None, tu_amount = None\<rparr>"

text \<open>
  The writes of an event, and the log entry that follows them or the error that stops them. The branch of
  a liquidation names the variables \<open>liquidator\<close> and \<open>borrower\<close>, which are declared nowhere: it
  fails at the first of them, when the arguments of \<open>insertLiquidationEvent\<close> are evaluated.
\<close>

fun apply_sync :: "int \<Rightarrow> sync \<Rightarrow> store \<Rightarrow> (js_error + (string \<times> json) option) \<times> store" where
  "apply_sync now NothingToSync s = (Inr None, s)"
| "apply_sync now (SyncCollateral i owner animal_type heads appraised_value) s =
     (Inr (Some (''contract.event.collateral_synced'',
        JObj [(''id'', JStr i), (''owner'', JStr owner), (''animal_type'', JStr animal_type)])),
      snd (insertCollateral now (synced_collateral i owner animal_type heads appraised_value) s))"
| "apply_sync now (SyncLoan i borrower amount) s =
     (Inr (Some (''contract.event.loan_synced'',
        JObj [(''id'', JStr i), (''borrower'', JStr borrower), (''amount'', JNum amount)])),
      snd (insertLoan now \<lparr>l_id = i, l_borrower = borrower, l_collateral_id = [], l_amount = amount,
        l_status = None, l_health_factor = None\<rparr> s))"
| "apply_sync now (SyncRepaid i principalPaid interestPaid) s =
     (let repayAmount = js_add principalPaid interestPaid in
      (Inr (Some (''contract.event.loan_repaid_synced'',
         JObj [(''id'', JStr i), (''repayAmount'', JNum repayAmount), (''principalPaid'', JNum principalPaid),
               (''interestPaid'', JNum interestPaid)])),
       snd (updateTransaction now i (no_transaction_updates\<lparr>tu_status := Some TCompleted, tu_amount := Some repayAmount\<rparr>) s)))"
| "apply_sync now (SyncLiquidated i repayAmount collateralSeized) s =
     (Inl (reference_error ''liquidator''),
      snd (updateTransaction now i (no_transaction_updates\<lparr>tu_status := Some TCompleted, tu_type := Some TLiquidation\<rparr>)
        (snd (updateLoan i (no_loan_updates\<lparr>lu_status := Some LLiquidated\<rparr>) s))))"

text \<open>The body of the \<open>try\<close>.\<close>

definition try_event :: "listener_env \<Rightarrow> int \<Rightarrow> raw_event \<Rightarrow> store \<Rightarrow> (js_error + unit) \<times> logged list \<times> store" where
  "try_event env now e s =
     (case event_key env e of
        Inl err \<Rightarrow> (Inl err, [], s)
      | Inr None \<Rightarrow> (Inr (), [], s)
      | Inr (Some (key, topics)) \<Rightarrow>
          (case logEvent env now ''contract.event.received'' e (Some (JObj [(''key'', JStr key)])) None of
             (Inl err, l1) \<Rightarrow> (Inl err, l1, s)
           | (Inr _, l1) \<Rightarrow>
               (case decode_event env e key topics of
                  Inl err \<Rightarrow> (Inl err, l1, s)
                | Inr sy \<Rightarrow>
                    (case apply_sync now sy s of
                       (Inl err, s') \<Rightarrow> (Inl err, l1, s')
                     | (Inr None, s') \<Rightarrow> (Inr (), l1, s')
                     | (Inr (Some (ty, context)), s') \<Rightarrow>
                         (let (r, l2) = logEvent env now ty e (Some context) None in (r, l1 @ l2, s'))))))"

definition handleEvent :: "listener_env \<Rightarrow> int \<Rightarrow> raw_event \<Rightarrow> store \<Rightarrow> (js_error + unit) \<times> logged list \<times> store" where
  "handleEvent env now e s =
     (case try_event env now e s of
        (Inr u, l, s') \<Rightarrow> (Inr u, l, s')
      | (Inl err, l, s') \<Rightarrow>
          (let (r, l') = logEvent env now ''contract.event.parse_error'' e None (Some err) in (r, l @ l', s')))"

subsection \<open>Polling\<close>

record listener_state =
  li_lastLedger :: rat
  li_store :: store

fun handle_events ::
  "listener_env \<Rightarrow> int \<Rightarrow> raw_event list \<Rightarrow> listener_state \<Rightarrow> (js_error + unit) \<times> logged list \<times> listener_state" where
  "handle_events env now [] st = (Inr (), [], st)"
| "handle_events env now (e # es) st =
     (case handleEvent env now e (li_store st) of
        (Inl err, l, s') \<Rightarrow> (Inl err, l, st\<lparr>li_store := s'\<rparr>)
      | (Inr _, l, s') \<Rightarrow>
          (let last = (case re_ledger e of
                 Some (Fin x) \<Rightarrow> if li_lastLedger st < x then x else li_lastLedger st
               | _ \<Rightarrow> li_lastLedger st);
               (r, l', st') = handle_events env now es \<lparr>li_lastLedger = last, li_store = s'\<rparr> in
           (r, l @ l', st')))"

text \<open>The request of a poll: the ledger to start from, or the cursor at the beginning.\<close>

datatype events_request = StartLedger rat | Cursor string

definition poll_request :: "listener_state \<Rightarrow> events_request" where
  "poll_request st = (if 0 < li_lastLedger st then StartLedger (js_add (li_lastLedger st) 1) else Cursor ''0'')"

definition stub_event :: "listener_state \<Rightarrow> raw_event" where
  "stub_event st = \<lparr>re_type = [], re_topic = None, re_value = [], re_ledger = Some (Fin (li_lastLedger st)), re_id = None\<rparr>"

definition poll ::
  "listener_env \<Rightarrow> int \<Rightarrow> (events_request \<Rightarrow> js_error + raw_event list) \<Rightarrow> listener_state \<Rightarrow>
   (js_error + unit) \<times> logged list \<times> listener_state" where
  "poll env now getEvents st =
     (if ln_CONTRACT_ID env = [] then (Inr (), [], st)
      else (let (r, l, st') = (case getEvents (poll_request st) of
                  Inl err \<Rightarrow> (Inl err, [], st)
                | Inr events \<Rightarrow> handle_events env now events st) in
            case r of
              Inr u \<Rightarrow> (Inr u, l, st')
            | Inl err \<Rightarrow>
                (let (r', l') = logEvent env now ''contract.event.poll_error'' (stub_event st') None (Some err) in
                 (r', l @ l', st'))))"

text \<open>The loop: a poll runs, then a timer is set for the next one. Stopping clears the timer there is. The
  listener is started once.\<close>

datatype phase = Stopped | Polling | Waiting

definition startEventListener :: "listener_env \<Rightarrow> phase \<Rightarrow> phase" where
  "startEventListener env ph = (if ln_CONTRACT_ID env = [] then ph else Polling)"

definition poll_finished :: "js_error + unit \<Rightarrow> phase \<Rightarrow> phase" where
  "poll_finished r ph = (case r of Inr _ \<Rightarrow> Waiting | Inl _ \<Rightarrow> Stopped)"

definition stopEventListener :: "phase \<Rightarrow> phase" where
  "stopEventListener ph = (case ph of Waiting \<Rightarrow> Stopped | Polling \<Rightarrow> Polling | Stopped \<Rightarrow> Stopped)"


subsection \<open>Properties\<close>

lemma store_wf_apply_sync [state_inv]: "store_wf s \<Longrightarrow> store_wf (snd (apply_sync now sy s))"
  by (cases sy) (simp_all add: state_inv Let_def)

lemma logEvent_plain [simp]:
  "logEvent env now (c # ty) e context None = (Inr (), [(getConfiguredLogLevel env, log_entry env now (c # ty) e context None)])"
  by (simp add: logEvent_def createEventLogEntry_def log_entry_def Let_def)

lemma logEvent_error:
  "err_message err \<noteq> [] \<Longrightarrow> logEvent env now (c # ty) e context (Some err) =
     (Inr (), [(getConfiguredLogLevel env, log_entry env now (c # ty) e context (Some err))])"
  by (simp add: logEvent_def createEventLogEntry_def log_entry_def Let_def)

lemma try_event_eq:
  "try_event env now e s =
     (case event_key env e of
        Inl err \<Rightarrow> (Inl err, [], s)
      | Inr None \<Rightarrow> (Inr (), [], s)
      | Inr (Some (key, topics)) \<Rightarrow>
          (let l1 = [(getConfiguredLogLevel env,
                 log_entry env now ''contract.event.received'' e (Some (JObj [(''key'', JStr key)])) None)] in
           case decode_event env e key topics of
             Inl err \<Rightarrow> (Inl err, l1, s)
           | Inr sy \<Rightarrow>
               (case apply_sync now sy s of
                  (Inl err, s') \<Rightarrow> (Inl err, l1, s')
                | (Inr None, s') \<Rightarrow> (Inr (), l1, s')
                | (Inr (Some (ty, context)), s') \<Rightarrow>
                    (let (r, l2) = logEvent env now ty e (Some context) None in (r, l1 @ l2, s')))))"
  by (simp add: try_event_def Let_def split: sum.split option.split prod.split)

lemma apply_sync_Inl: "apply_sync now sy s = (Inl err, s') \<Longrightarrow> err = reference_error ''liquidator''"
  by (cases sy) (auto simp: Let_def)

lemma apply_sync_log:
  assumes "apply_sync now sy s = (Inr (Some (ty, context)), s')"
  shows "\<exists>l. logEvent env now ty e (Some context) None = (Inr (), l)"
  using assms by (cases sy) (auto simp: Let_def)

text \<open>Handling an event only writes what the decoded event asks for.\<close>

lemma try_event_store:
  assumes "try_event env now e s = (r, l, s')"
  shows "s' = s \<or> (\<exists>sy. s' = snd (apply_sync now sy s))"
proof -
  have sy: "\<exists>sy. snd p = snd (apply_sync now sy s)" if "p = apply_sync now sy s" for p sy using that by blast
  show ?thesis using assms unfolding try_event_eq Let_def
    by (auto split: sum.splits option.splits prod.splits) (metis snd_conv)+
qed

lemma handleEvent_store:
  assumes "handleEvent env now e s = (r, l, s')"
  shows "s' = s \<or> (\<exists>sy. s' = snd (apply_sync now sy s))"
  using assms try_event_store unfolding handleEvent_def Let_def by (fastforce split: sum.splits prod.splits)

lemma store_wf_handleEvent: "handleEvent env now e s = (r, l, s') \<Longrightarrow> store_wf s \<Longrightarrow> store_wf s'"
  using handleEvent_store [of env now e s r l s'] store_wf_apply_sync by metis

text \<open>Logging fails only for an error without a message, so an event is always handled when the errors
  of the accessors have messages.\<close>

definition errors_speak :: "listener_env \<Rightarrow> bool" where
  "errors_speak env \<longleftrightarrow>
     (\<forall>v err. (ln_fromXDR env v = Inl err \<or> ln_sym env v = Inl err \<or> ln_u64 env v = Inl err \<or>
        ln_u32 env v = Inl err \<or> ln_i128_lo env v = Inl err \<or> ln_vec env v = Inl err) \<longrightarrow> err_message err \<noteq> [])"

lemma collect_Inl: "collect f xs = Inl e \<Longrightarrow> \<exists>x\<in>set xs. f x = Inl e"
  by (induction xs) (auto simp: bind_r_Inl)

lemma event_key_Inl:
  assumes "errors_speak env" "event_key env e = Inl err" shows "err_message err \<noteq> []"
  using assms by (auto simp: event_key_def errors_speak_def bind_r_Inl split: if_splits option.splits dest!: collect_Inl)

lemma decode_event_Inl:
  assumes "errors_speak env" "decode_event env e key topics = Inl err" shows "err_message err \<noteq> []"
  using assms unfolding errors_speak_def
  by (auto simp: decode_event_def event_values_def bind_r_Inl split: if_splits)

lemma try_event_Inl:
  assumes "errors_speak env" "try_event env now e s = (Inl err, l, s')" shows "err_message err \<noteq> []"
proof (cases "event_key env e")
  case (Inl err')
  then show ?thesis using assms event_key_Inl by (auto simp: try_event_eq)
next
  case (Inr k)
  then obtain key topics where k: "event_key env e = Inr (Some (key, topics))"
    using assms(2) by (cases k) (auto simp: try_event_eq)
  show ?thesis
  proof (cases "decode_event env e key topics")
    case (Inl err')
    then show ?thesis using assms k decode_event_Inl by (auto simp: try_event_eq)
  next
    case (Inr sy)
    obtain x s1 where x: "apply_sync now sy s = (x, s1)" by (cases "apply_sync now sy s")
    then show ?thesis
      using assms(2) k Inr apply_sync_Inl [of now sy s] apply_sync_log [of now sy s _ _ s1 env e]
      by (cases x) (auto simp: try_event_eq Let_def split: option.splits prod.splits)
  qed
qed

lemma handleEvent_Inr:
  assumes "errors_speak env" shows "fst (handleEvent env now e s) = Inr ()"
proof (cases "try_event env now e s")
  case (fields r l s')
  then show ?thesis
    using try_event_Inl [OF assms, of now e s] by (cases r) (auto simp: handleEvent_def logEvent_error)
qed



text \<open>An SDK for examples: values are texts with a letter in front that names their kind.\<close>

definition arm :: "char \<Rightarrow> string \<Rightarrow> js_error + string" where
  "arm c v = (case v of d # t \<Rightarrow> if d = c then Inr t else Inl (JsError ''TypeError'' ''not set'')
     | [] \<Rightarrow> Inl (JsError ''TypeError'' ''not set''))"

definition toy_listener :: listener_env where
  "toy_listener = \<lparr>ln_fromXDR = Inr, ln_sym = arm CHR ''s'', ln_u64 = arm CHR ''u'',
     ln_u32 = (\<lambda>v. bind_r (arm CHR ''n'' v) (\<lambda>t. Inr (of_nat (digits_val t)))),
     ln_i128_lo = (\<lambda>v. bind_r (arm CHR ''i'' v) (\<lambda>t. Inr (of_nat (digits_val t)))),
     ln_vec = (\<lambda>v. Inr (split_on CHR '','' v)), ln_address = arm CHR ''a'', ln_CONTRACT_ID = ''C'', ln_LOG_LEVEL = None\<rparr>"

definition liquidated_event :: raw_event where
  "liquidated_event = \<lparr>re_type = ''contract'', re_topic = Some [''sloan'', ''sliquidated''], re_value = ''u7,i40,i3'',
     re_ledger = Some (Fin 12), re_id = Some ''e1''\<rparr>"

lemma toy_speaks: "errors_speak toy_listener"
  by (auto simp: errors_speak_def toy_listener_def arm_def bind_r_Inl split: list.splits if_splits)


text \<open>An on-chain liquidation is only half recorded: the loan is marked liquidated, but no
  liquidation event is stored and the listener logs a parse error, because the handler uses a
  variable it never declares.\<close>

theorem liquidation_event_incomplete:
  assumes "event_key env e = Inr (Some (key, topics))"
    and "decode_event env e key topics = Inr (SyncLiquidated k repayAmount collateralSeized)"
    and "getLoan k s = Some loan" "handleEvent env now e s = (r, l, s')"
  shows "getLoan k s' = Some (loan\<lparr>l_status := Some LLiquidated\<rparr>) \<and>
    liquidationEventTable s' = liquidationEventTable s \<and>
    l \<noteq> [] \<and> le_eventType (snd (last l)) = ''contract.event.parse_error'' \<and>
    le_error (snd (last l)) = Some ''liquidator is not defined''"
proof -
  have t: "try_event env now e s = (Inl (reference_error ''liquidator''),
      [(getConfiguredLogLevel env, log_entry env now ''contract.event.received'' e (Some (JObj [(''key'', JStr key)])) None)],
      snd (apply_sync now (SyncLiquidated k repayAmount collateralSeized) s))"
    using assms(1,2) by (simp add: try_event_eq Let_def)
  have g: "getLoan k (snd (apply_sync now (SyncLiquidated k repayAmount collateralSeized) s)) =
      Some (loan\<lparr>l_status := Some LLiquidated\<rparr>)"
    using assms(3) updateLoan_get [of k k "no_loan_updates\<lparr>lu_status := Some LLiquidated\<rparr>" s] by (simp add: getLoan_def)
  have e: "s' = snd (apply_sync now (SyncLiquidated k repayAmount collateralSeized) s)"
      "l = [(getConfiguredLogLevel env, log_entry env now ''contract.event.received'' e (Some (JObj [(''key'', JStr key)])) None),
            (getConfiguredLogLevel env, log_entry env now ''contract.event.parse_error'' e None (Some (reference_error ''liquidator'')))]"
    using assms(4) t by (auto simp: handleEvent_def logEvent_error)
  show ?thesis unfolding e(1) using g by (simp add: e(2) log_entry_def)
qed

theorem liquidation_event_incomplete_witness:
  "\<exists>l s'. handleEvent toy_listener 5 liquidated_event sample_store = (Inr (), l, s') \<and>
     map_option l_status (getLoan ''7'' s') = Some (Some LLiquidated) \<and> liquidationEventTable s' = []"
proof -
  obtain loan where g: "getLoan ''7'' sample_store = Some loan"
    using sample_store_facts(4) by (cases "getLoan ''7'' sample_store") auto
  obtain r l s' where h: "handleEvent toy_listener 5 liquidated_event sample_store = (r, l, s')"
    by (cases "handleEvent toy_listener 5 liquidated_event sample_store") auto
  have k: "event_key toy_listener liquidated_event = Inr (Some (''loan/liquidated'', [''sloan'', ''sliquidated'']))"
    by (simp add: event_key_def liquidated_event_def toy_listener_def arm_def)
  have d: "decode_event toy_listener liquidated_event ''loan/liquidated'' [''sloan'', ''sliquidated''] =
      Inr (SyncLiquidated ''7'' (of_nat (digits_val ''40'')) (of_nat (digits_val ''3'')))"
    by (simp add: decode_event_def event_values_def liquidated_event_def toy_listener_def arm_def)
  from liquidation_event_incomplete [OF k d g h] h handleEvent_Inr [OF toy_speaks, of 5 liquidated_event sample_store]
  show ?thesis by (simp add: sample_store_eq)
qed

text \<open>
  A repayment event never reaches the store: it looks for a transaction under the id of the loan, and the
  ids of transactions begin with \<open>tx_\<close>.
\<close>

lemma repaid_event_changes_nothing:
  assumes "\<forall>k\<in>set (m_keys (transactionTable s)). starts_with ''tx_'' k" "\<not> starts_with ''tx_'' k"
  shows "snd (apply_sync now (SyncRepaid k p i) s) = s"
proof -
  have "m_get (transactionTable s) k = None" using assms by (auto simp: m_get_def m_keys_def map_of_eq_None_iff)
  then show ?thesis by (simp add: updateTransaction_def Let_def)
qed

text \<open>Stopping the listener while a poll runs has no effect: the poll sets the next timer when it is done.\<close>

lemma stop_during_poll_ignored:
  "poll_finished (Inr ()) (stopEventListener Polling) = Waiting" "stopEventListener Waiting = Stopped"
  by (simp_all add: poll_finished_def stopEventListener_def)


end
