(* ===== verification/Middleware.thy ===== *)
theory Middleware
  imports Alerting Prelude
begin

section \<open>Request middleware (backend/src/middleware)\<close>

text \<open>
  The middleware around the routes: request and correlation ids, the limiters' answer, deprecation
  headers, timeouts, the error handler, the redaction of the audit log and the origins of CORS. The
  theorems show what the redaction hides and where it stops, that the timeouts of a route do not
  replace the global one, and that the startup check of the allowed origins is the same twice.
\<close>

subsection \<open>Ids and headers (requestId.ts, correlation.ts, rateLimit.ts, deprecation.ts)\<close>

text \<open>The id of the header when there is one, otherwise a new one; and the header that is set.\<close>

definition requestIdMiddleware :: "string \<Rightarrow> request \<Rightarrow> string \<times> (string \<times> string)" where
  "requestIdMiddleware uuid req =
     (let i = (case truthy_str (header ''x-request-id'' req) of Some h \<Rightarrow> h | None \<Rightarrow> uuid) in (i, (''X-Request-ID'', i)))"

definition correlationMiddleware :: "string \<Rightarrow> request \<Rightarrow> string \<times> (string \<times> string)" where
  "correlationMiddleware uuid req =
     (let i = (case truthy_str (header ''x-correlation-id'' req) of Some h \<Rightarrow> h | None \<Rightarrow> uuid) in
      (i, (''X-Correlation-ID'', i)))"

definition rate_limit_handler :: response where
  "rate_limit_handler = with_header ''Retry-After'' ''60''
     (respond 429 (JObj [(''error'', JStr ''Too many requests''), (''retryAfter'', jint 60)]))"

record DeprecationOptions =
  dp_sunset :: string
  dp_warning :: string
  dp_link :: "string option"

text \<open>\<open>dp_sunset\<close> is the date as \<open>toUTCString\<close> prints it.\<close>

definition applyDeprecationHeaders :: "DeprecationOptions \<Rightarrow> response \<Rightarrow> response" where
  "applyDeprecationHeaders opts res =
     (let r = with_header ''Warning'' (''299 - '' @ [CHR 34] @ dp_warning opts @ [CHR 34])
                (with_header ''Sunset'' (dp_sunset opts) (with_header ''Deprecation'' ''true'' res)) in
      case truthy_str (dp_link opts) of None \<Rightarrow> r | Some l \<Rightarrow> with_header ''Link'' l r)"

definition deprecationHeaders :: "DeprecationOptions \<Rightarrow> request \<Rightarrow> response \<Rightarrow> response" where
  "deprecationHeaders opts req res = applyDeprecationHeaders opts res"

definition deprecationHeadersWhen :: "(request \<Rightarrow> bool) \<Rightarrow> DeprecationOptions \<Rightarrow> request \<Rightarrow> response \<Rightarrow> response" where
  "deprecationHeadersWhen predicate opts req res = (if predicate req then applyDeprecationHeaders opts res else res)"

subsection \<open>Timeouts (timeout.ts)\<close>

definition is_websocket :: "request \<Rightarrow> bool" where
  "is_websocket req \<longleftrightarrow> (case truthy_str (header ''upgrade'' req) of None \<Rightarrow> False | Some u \<Rightarrow> to_lower u = ''websocket'')"

definition timeout_response :: "int \<Rightarrow> request \<Rightarrow> response" where
  "timeout_response ms req = respond 504 (JObj
     [(''error'', JStr ''Gateway Timeout''),
      (''message'', JStr (''Request exceeded the '' @ string_of_int ms @ '' ms timeout for '' @ rq_method req @ '' '' @ rq_path req))])"

text \<open>A timer that fires answers unless an answer was sent before.\<close>

definition timeout_fires :: "int \<Rightarrow> request \<Rightarrow> response option \<Rightarrow> response" where
  "timeout_fires ms req sent_before = (case sent_before of Some r \<Rightarrow> r | None \<Rightarrow> timeout_response ms req)"

text \<open>
  A request that passes the middleware several times runs several timers side by side. The timers, in
  the order they fire, and the handler, which is done at time \<open>finish\<close> with \<open>res\<close>: the first answer is
  the one the client gets.
\<close>

definition answer_with_timers :: "int list \<Rightarrow> request \<Rightarrow> int \<Rightarrow> response \<Rightarrow> response" where
  "answer_with_timers limits req finish res =
     (if is_websocket req then res
      else (let fired = filter (\<lambda>ms. ms < finish) (sort limits);
                sent = fold (\<lambda>ms s. Some (timeout_fires ms req s)) fired None in
            case sent of Some r \<Rightarrow> r | None \<Rightarrow> res))"

subsection \<open>Errors (errorHandler.ts and the error handler of index.ts)\<close>

text \<open>\<open>request_id\<close> is what the request id middleware attached.\<close>

definition errorHandler :: "js_error \<Rightarrow> string option \<Rightarrow> response" where
  "errorHandler err request_id =
     (let statusCode = (case err of AppError st _ _ \<Rightarrow> st | JsError _ _ \<Rightarrow> 500);
          code = (case err of AppError _ _ c \<Rightarrow> c | JsError _ _ \<Rightarrow> ''INTERNAL_ERROR'') in
      respond statusCode (JObj [(''error'', JStr (err_message err)), (''code'', JStr code),
        (''correlationId'', JStr (case request_id of Some i \<Rightarrow> i | None \<Rightarrow> ''unknown''))]))"

definition is_pool_exhausted :: "js_error \<Rightarrow> bool" where
  "is_pool_exhausted err \<longleftrightarrow> (case err of JsError n _ \<Rightarrow> n = ''PoolExhaustedError'' | AppError _ _ _ \<Rightarrow> False)"

definition app_error_handler ::
  "alert_env \<Rightarrow> int \<Rightarrow> js_error \<Rightarrow> string option \<Rightarrow> int list \<times> last_fired \<Rightarrow> response \<times> post list \<times> int list \<times> last_fired" where
  "app_error_handler env now err request_id st =
     (if is_pool_exhausted err
      then (respond 503 (error_body ''Service unavailable: connection pool exhausted''), [], st)
      else (let (out, st') = track5xx env now st in (errorHandler err request_id, out, st')))"

subsection \<open>Redaction (audit.ts)\<close>

definition REDACTED_FIELDS :: "string list" where
  "REDACTED_FIELDS =
     [''password'', ''secret'', ''private_key'', ''privatekey'', ''seed'', ''mnemonic'', ''token'', ''authorization'',
      ''api_key'', ''apikey'', ''secret_key'', ''secretkey'', ''signing_key'', ''signingkey'']"

definition is_upper :: "char \<Rightarrow> bool" where "is_upper c \<longleftrightarrow> 65 \<le> code c \<and> code c \<le> 90"

definition is_lower :: "char \<Rightarrow> bool" where "is_lower c \<longleftrightarrow> 97 \<le> code c \<and> code c \<le> 122"

definition is_word :: "char \<Rightarrow> bool" where "is_word c \<longleftrightarrow> is_upper c \<or> is_lower c \<or> is_digit c \<or> c = CHR ''_''"

definition is_base32 :: "char \<Rightarrow> bool" where "is_base32 c \<longleftrightarrow> is_upper c \<or> (50 \<le> code c \<and> code c \<le> 55)"

definition is_b64url :: "char \<Rightarrow> bool" where "is_b64url c \<longleftrightarrow> is_word c \<or> c = CHR ''-''"

text \<open>A word boundary between the character before and the text after.\<close>

definition boundary :: "char option \<Rightarrow> string \<Rightarrow> bool" where
  "boundary p s \<longleftrightarrow> (case p of None \<Rightarrow> False | Some c \<Rightarrow> is_word c) \<noteq> (case s of [] \<Rightarrow> False | c # _ \<Rightarrow> is_word c)"

text \<open>A match at the front of the text gives its length.\<close>

definition match_pubkey :: "char option \<Rightarrow> string \<Rightarrow> nat option" where
  "match_pubkey p s =
     (if boundary p s \<and> starts_with ''G'' s \<and> 56 \<le> length s \<and> list_all is_base32 (take 55 (drop 1 s)) \<and>
         boundary (Some (s ! 55)) (drop 56 s)
      then Some 56 else None)"

definition match_jwt :: "char option \<Rightarrow> string \<Rightarrow> nat option" where
  "match_jwt p s =
     (let r1 = drop 3 s; n1 = length (takeWhile is_b64url r1); r2 = drop n1 r1;
          r3 = drop 1 r2; n2 = length (takeWhile is_b64url r3); r4 = drop n2 r3;
          r5 = drop 1 r4; n3 = length (takeWhile is_b64url r5);
          ends = filter (\<lambda>n. boundary (Some (r5 ! (n - 1))) (drop n r5)) (rev [1..<n3 + 1]) in
      if boundary p s \<and> starts_with ''eyJ'' s \<and> 0 < n1 \<and> starts_with ''.'' r2 \<and> 0 < n2 \<and> starts_with ''.'' r4 \<and> ends \<noteq> []
      then Some (3 + n1 + 1 + n2 + 1 + hd ends) else None)"

text \<open>\<open>replace\<close> with a global expression; the character before the rest is carried along.\<close>

function replace_all :: "(char option \<Rightarrow> string \<Rightarrow> nat option) \<Rightarrow> (string \<Rightarrow> string) \<Rightarrow> char option \<Rightarrow> string \<Rightarrow> string" where
  "replace_all m f p [] = []"
| "replace_all m f p (c # s) =
     (case m p (c # s) of
        None \<Rightarrow> c # replace_all m f (Some c) s
      | Some n \<Rightarrow> f (take (max n 1) (c # s)) @
          replace_all m f (Some (last (take (max n 1) (c # s)))) (drop (max n 1) (c # s)))"
  by pat_completeness auto

termination by (relation "measure (\<lambda>(_, _, _, s). length s)") auto

definition maskWalletAddress :: "string \<Rightarrow> string" where
  "maskWalletAddress key = take 4 key @ ''...'' @ drop (length key - 4) key"

definition maskString :: "bool \<Rightarrow> string \<Rightarrow> string" where
  "maskString production value =
     (if \<not> production then value
      else replace_all match_jwt (\<lambda>_. ''[REDACTED]'') None (replace_all match_pubkey maskWalletAddress None value))"

text \<open>An array is rebuilt as an object with its indices for keys. The recursion stops below depth 5.\<close>

function redact :: "bool \<Rightarrow> nat \<Rightarrow> json \<Rightarrow> json" where
  "redact production depth (JObj kvs) =
     (if 5 < depth then JObj kvs
      else JObj (map (\<lambda>(k, v). (k, if to_lower k \<in> set REDACTED_FIELDS then JStr ''[REDACTED]''
                                   else redact production (depth + 1) v)) kvs))"
| "redact production depth (JArr vs) =
     (if 5 < depth then JArr vs
      else JObj (map (\<lambda>(k, v). (k, if to_lower k \<in> set REDACTED_FIELDS then JStr ''[REDACTED]''
                                   else redact production (depth + 1) v))
             (zip (map string_of_nat [0..<length vs]) vs)))"
| "redact production depth (JStr s) = JStr (maskString production s)"
| "redact production depth JNull = JNull"
| "redact production depth (JBool b) = JBool b"
| "redact production depth (JNum x) = JNum x"
  by pat_completeness auto

termination by (relation "measure (\<lambda>(_, d, _). 6 - d)") auto

text \<open>What the audit log says of a finished request.\<close>

definition audit_body :: "bool \<Rightarrow> request \<Rightarrow> json option" where
  "audit_body production req = (if rq_method req \<noteq> ''GET'' then Some (redact production 0 (rq_body req)) else None)"

subsection \<open>CORS (cors.ts)\<close>

definition is_http_origin :: "string \<Rightarrow> bool" where
  "is_http_origin s \<longleftrightarrow>
     (let rest = (if starts_with ''http://'' s then drop 7 s else if starts_with ''https://'' s then drop 8 s else []) in
      rest \<noteq> [] \<and> hd rest \<notin> {CHR 10, CHR 13})"

definition origin_list :: "string \<Rightarrow> string list" where
  "origin_list raw = filter (\<lambda>s. s \<noteq> []) (map trim (split_on CHR '','' raw))"

fun check_origins :: "bool \<Rightarrow> string list \<Rightarrow> js_error option" where
  "check_origins inProd [] = None"
| "check_origins inProd (s # ss) =
     (if s = ''*''
      then (if inProd
            then Some (JsError ''Error'' ''ALLOWED_ORIGINS: wildcard \"*\" is not permitted in production (NODE_ENV=production)'')
            else check_origins inProd ss)
      else if \<not> is_http_origin s
      then Some (JsError ''Error'' (''ALLOWED_ORIGINS: invalid origin pattern '' @ s))
      else check_origins inProd ss)"

definition parseAllowedOrigins :: "bool \<Rightarrow> string option \<Rightarrow> js_error + string list option" where
  "parseAllowedOrigins inProd raw =
     (case truthy_str raw of
        None \<Rightarrow> Inr None
      | Some r \<Rightarrow>
          (case check_origins inProd (origin_list r) of
             Some e \<Rightarrow> Inl e
           | None \<Rightarrow> Inr (Some (origin_list r))))"

definition isAuthRoute :: "string \<Rightarrow> bool" where
  "isAuthRoute path \<longleftrightarrow> starts_with ''/api'' path \<and> path \<noteq> ''/api/health''"

text \<open>What is handed to the CORS package: reflect the origin, a star, one origin, none, or a list.\<close>

datatype cors_origin = Reflect | Star | OnlyOrigin string | NoOrigin | ListedOrigins "string list"

definition resolveOrigin :: "bool \<Rightarrow> string list option \<Rightarrow> string option \<Rightarrow> string \<Rightarrow> cors_origin" where
  "resolveOrigin isProduction allowedOrigins frontendUrl path =
     (let authRoute = isAuthRoute path in
      case allowedOrigins of
        Some os \<Rightarrow> if ''*'' \<in> set os then (if authRoute then Reflect else Star) else ListedOrigins os
      | None \<Rightarrow>
          (case truthy_str frontendUrl of
             Some u \<Rightarrow> OnlyOrigin u
           | None \<Rightarrow> if isProduction then NoOrigin else if authRoute then Reflect else Star))"

text \<open>A request without an \<open>Origin\<close> header passes a list.\<close>

definition listed_origin_allowed :: "string list \<Rightarrow> string option \<Rightarrow> bool" where
  "listed_origin_allowed os origin \<longleftrightarrow> (case truthy_str origin of None \<Rightarrow> True | Some u \<Rightarrow> u \<in> set os)"

record cors_options =
  co_origin :: cors_origin
  co_credentials :: bool
  co_maxAge :: nat

definition corsMiddleware :: "bool \<Rightarrow> string list option \<Rightarrow> string option \<Rightarrow> request \<Rightarrow> cors_options" where
  "corsMiddleware isProduction allowedOrigins frontendUrl req =
     \<lparr>co_origin = resolveOrigin isProduction allowedOrigins frontendUrl (rq_path req),
      co_credentials = isAuthRoute (rq_path req), co_maxAge = 600\<rparr>"


subsection \<open>Properties\<close>

lemma map_of_redacted:
  "map_of (map (\<lambda>(k, v). (k, f k v)) kvs) x = map_option (f x) (map_of kvs x)"
  by (induction kvs) auto

text \<open>Looking up a path of keys.\<close>

fun at_path :: "string list \<Rightarrow> json \<Rightarrow> json option" where
  "at_path [] j = Some j"
| "at_path (k # ks) (JObj kvs) = Option.bind (map_of kvs k) (at_path ks)"
| "at_path (k # ks) _ = None"

definition sensitive :: "string \<Rightarrow> bool" where "sensitive k \<longleftrightarrow> to_lower k \<in> set REDACTED_FIELDS"

text \<open>The entries the recursion goes through: those of an object, or of an array under their indices.\<close>

fun entries :: "json \<Rightarrow> (string \<times> json) list" where
  "entries (JObj kvs) = kvs"
| "entries (JArr vs) = zip (map string_of_nat [0..<length vs]) vs"
| "entries _ = []"

lemma at_path_redact:
  assumes "depth \<le> 5"
  shows "at_path (k # ks) (redact production depth j) =
    Option.bind (map_option (\<lambda>v. if sensitive k then JStr ''[REDACTED]'' else redact production (depth + 1) v)
      (map_of (entries j) k)) (at_path ks)"
  using assms by (cases j) (simp_all add: map_of_redacted sensitive_def split: bind_split)

lemma redact_hides_from:
  "at_path ks (redact production depth j) = Some v \<Longrightarrow> ks \<noteq> [] \<Longrightarrow> sensitive (last ks) \<Longrightarrow>
   depth + length ks \<le> 6 \<Longrightarrow> v = JStr ''[REDACTED]''"
proof (induction ks arbitrary: depth j)
  case (Cons k ks)
  have d: "depth \<le> 5" using Cons.prems(4) by simp
  obtain w where w: "map_of (entries j) k = Some w"
      "at_path ks (if sensitive k then JStr ''[REDACTED]'' else redact production (depth + 1) w) = Some v"
    using Cons.prems(1) by (auto simp only: at_path_redact [OF d] map_option_eq_Some bind_eq_Some_conv)
  show ?case
  proof (cases "ks = []")
    case True
    then show ?thesis using w Cons.prems(3) by simp
  next
    case False
    moreover have "\<not> sensitive k" using w(2) False by (cases ks) auto
    ultimately show ?thesis using w(2) Cons.IH [of "depth + 1" w] Cons.prems(3,4) by simp
  qed
qed simp

text \<open>C39: In the body the audit log records, every field with a sensitive name within six levels of nesting,
  in objects and in arrays, has lost its value.\<close>

theorem redact_hides_sensitive_fields:
  assumes "audit_body production req = Some logged_body" "at_path ks logged_body = Some v"
    and "ks \<noteq> []" "to_lower (last ks) \<in> set REDACTED_FIELDS" "length ks \<le> 6"
  shows "v = JStr ''[REDACTED]''"
  using redact_hides_from [of ks production 0 "rq_body req" v] assms
  by (simp add: audit_body_def sensitive_def split: if_splits)

theorem redact_hides_sensitive_fields_witness:
  "\<exists>b v. audit_body False \<lparr>rq_method = ''POST'', rq_path = ''/'', rq_query = [], rq_headers = [],
       rq_body = JObj [(''user'', JObj [(''Secret'', JStr ''s3'')])], rq_user = None\<rparr> = Some b \<and>
     at_path [''user'', ''Secret''] b = Some v \<and> v = JStr ''[REDACTED]''"
proof -
  let ?req = "\<lparr>rq_method = ''POST'', rq_path = ''/'', rq_query = [], rq_headers = [],
       rq_body = JObj [(''user'', JObj [(''Secret'', JStr ''s3'')])], rq_user = None\<rparr>"
  obtain b where b: "audit_body False ?req = Some b" by (simp add: audit_body_def)
  have s: "to_lower ''Secret'' \<in> set REDACTED_FIELDS" "\<not> sensitive ''user''" by code_simp+
  then have "\<exists>v. at_path [''user'', ''Secret''] b = Some v"
    using b by (auto simp: audit_body_def sensitive_def)
  then obtain v where v: "at_path [''user'', ''Secret''] b = Some v" by blast
  have "v = JStr ''[REDACTED]''" using redact_hides_sensitive_fields [OF b v] s(1) by simp
  with b v show ?thesis by blast
qed

text \<open>One level further down a secret is logged as it is.\<close>

lemma redact_leaks_at_seven:
  "at_path [''a'', ''a'', ''a'', ''a'', ''a'', ''a'', ''secret''] (redact False 0
     (JObj [(''a'', JObj [(''a'', JObj [(''a'', JObj [(''a'', JObj [(''a'', JObj [(''a'',
        JObj [(''secret'', JStr ''s3'')])])])])])])])) = Some (JStr ''s3'')"
  by code_simp

subsubsection \<open>Masking\<close>

lemma replace_all_jwt_none: "CHR ''e'' \<notin> set s \<Longrightarrow> replace_all match_jwt f p s = s"
proof (induction s arbitrary: p)
  case (Cons c s)
  then have "\<not> starts_with ''eyJ'' (c # s)" by (auto simp: starts_with_def)
  then have "match_jwt p (c # s) = None" by (simp add: match_jwt_def Let_def)
  then show ?case using Cons by simp
qed simp

lemma is_base32_word: "is_base32 c \<Longrightarrow> is_word c \<and> c \<noteq> CHR ''e''"
  by (auto simp: is_base32_def is_word_def is_upper_def is_digit_def code_def)

lemma is_base32_G: "is_base32 CHR ''G''"
  by (simp add: is_base32_def is_upper_def code_def)

text \<open>In production a wallet address is logged with its first and last four characters only.\<close>

theorem wallet_masked:
  assumes "length s = 56" "starts_with ''G'' s" "list_all is_base32 s"
  shows "maskString True s = take 4 s @ ''...'' @ drop 52 s"
proof -
  obtain t where s: "s = CHR ''G'' # t" "length t = 55" using assms(1,2) by (cases s) (auto simp: starts_with_def)
  have w: "is_word (s ! 55)" using assms(1,3) is_base32_word by (simp add: list_all_length)
  have "boundary None s" "boundary (Some (s ! 55)) (drop 56 s)"
    using w assms(1) is_base32_word [OF is_base32_G] by (simp_all add: boundary_def s(1))
  then have m: "match_pubkey None s = Some 56"
    using assms by (simp add: match_pubkey_def list_all_iff) (metis in_set_dropD in_set_takeD)
  have "replace_all match_pubkey maskWalletAddress None s = maskWalletAddress s"
    using m assms(1) by (simp add: s(1))
  moreover have "CHR ''e'' \<notin> set (maskWalletAddress s)"
    using assms(3) is_base32_word by (auto simp: maskWalletAddress_def list_all_iff dest: in_set_takeD in_set_dropD)
  ultimately show ?thesis
    using assms(1) by (simp add: maskString_def replace_all_jwt_none maskWalletAddress_def)
qed

theorem wallet_masked_witness:
  "maskString True (CHR ''G'' # replicate 54 CHR ''A'' @ ''B'') = ''GAAA...AAAB''"
proof -
  let ?w = "CHR ''G'' # replicate 54 CHR ''A'' @ ''B''"
  have "length ?w = 56" "starts_with ''G'' ?w" "list_all is_base32 ?w" by code_simp+
  from wallet_masked [OF this] have "maskString True ?w = take 4 ?w @ ''...'' @ drop 52 ?w" .
  also have "\<dots> = ''GAAA...AAAB''" by code_simp
  finally show ?thesis .
qed

subsubsection \<open>Timeouts\<close>

text \<open>The longer timeout of a route does not replace the global one: both timers run, and a request
  that takes longer than the shorter of the two is answered by it with status 504.\<close>

theorem shorter_timeout_wins:
  "answer_with_timers [global_ms, route_ms] req finish res =
     (if is_websocket req \<or> finish \<le> min global_ms route_ms then res
      else timeout_response (min global_ms route_ms) req)"
  by (auto simp: answer_with_timers_def timeout_fires_def Let_def)


end
