(* ===== verification/Config.thy ===== *)
theory Config
  imports Middleware
begin

section \<open>Configuration and migrations (backend/src/config.ts, db, cli)\<close>

text \<open>
  The environment the process starts with: the schema of config.ts with its defaults, the variables
  production needs, the choice of the database driver and what the migration commands do in which
  mode. Shell commands and queries are parameters. The theorems say what a process that got past its
  startup can rely on, and that the two checks of the allowed origins agree.
\<close>

subsection \<open>The environment schema\<close>

type_synonym environment = "string \<Rightarrow> string option"

text \<open>\<open>valid_url\<close> is zod's URL check. \<open>is_prod\<close> is \<open>process.env.NODE_ENV === 'production'\<close>.\<close>

definition env_is_production :: "environment \<Rightarrow> bool" where
  "env_is_production env \<longleftrightarrow> env ''NODE_ENV'' = Some ''production''"

definition origins_refined :: "bool \<Rightarrow> string option \<Rightarrow> bool" where
  "origins_refined is_prod val =
     (case truthy_str val of
        None \<Rightarrow> True
      | Some v \<Rightarrow>
          if is_prod \<and> ''*'' \<in> set (origin_list v) then False
          else list_all (\<lambda>s. s = ''*'' \<or> is_http_origin s) (origin_list v))"

definition database_url_ok :: "string option \<Rightarrow> bool" where
  "database_url_ok val =
     (case truthy_str val of
        None \<Rightarrow> True
      | Some v \<Rightarrow> starts_with ''postgres://'' v \<or> starts_with ''postgresql://'' v \<or> starts_with ''sqlite:'' v)"

text \<open>A variable: required, with a default, or optional; and the check of a value.\<close>

datatype presence = Required | Default string | Optional

definition long_enough :: "nat \<Rightarrow> string \<Rightarrow> bool" where "long_enough n s \<longleftrightarrow> n \<le> length s"

definition envSchema :: "(string \<Rightarrow> bool) \<Rightarrow> bool \<Rightarrow> (string \<times> presence \<times> (string \<Rightarrow> bool)) list" where
  "envSchema valid_url is_prod =
     [(''PORT'', Default ''3001'', all_digits),
      (''RPC_URL'', Required, valid_url),
      (''CONTRACT_ID'', Required, long_enough 1),
      (''NEXT_PUBLIC_NETWORK'', Default ''testnet'', \<lambda>s. s \<in> {''testnet'', ''mainnet''}),
      (''RATE_LIMIT_AUTH'', Default ''10'', all_digits),
      (''RATE_LIMIT_READ'', Default ''100'', all_digits),
      (''RATE_LIMIT_GLOBAL'', Default ''60'', all_digits),
      (''RATE_LIMIT_WRITE'', Default ''10'', all_digits),
      (''TIMEOUT_GLOBAL_MS'', Default ''10000'', all_digits),
      (''TIMEOUT_WRITE_MS'', Default ''15000'', all_digits),
      (''TIMEOUT_CONTRACT_MS'', Default ''30000'', all_digits),
      (''ORIG_FEE_BPS'', Default ''50'', all_digits),
      (''WEBHOOK_SECRET'', Optional, long_enough 16),
      (''ADMIN_API_KEY'', Optional, long_enough 8),
      (''POOL_MIN'', Default ''2'', all_digits),
      (''POOL_MAX'', Default ''10'', all_digits),
      (''APPRAISAL_CACHE_TTL_MS'', Default ''300000'', all_digits),
      (''JWT_SECRET'', Optional, long_enough 16),
      (''ACCESS_TTL_MS'', Default ''900000'', all_digits),
      (''REFRESH_TTL_MS'', Default ''604800000'', all_digits),
      (''HEALTH_FACTOR_WARN'', Default ''13000'', all_digits),
      (''HEALTH_FACTOR_CRIT'', Default ''10000'', all_digits),
      (''NODE_ENV'', Default ''development'', \<lambda>s. s \<in> {''development'', ''production'', ''test''}),
      (''FRONTEND_URL'', Optional, valid_url),
      (''ALLOWED_ORIGINS'', Optional, \<lambda>s. origins_refined is_prod (Some s)),
      (''SHUTDOWN_TIMEOUT_MS'', Default ''10000'',
         \<lambda>s. all_digits s \<and> (case parse_int s of None \<Rightarrow> False | Some n \<Rightarrow> 1000 \<le> n)),
      (''AUDIT_LOG_DIR'', Optional, \<lambda>_. True),
      (''DATABASE_URL'', Optional, \<lambda>s. database_url_ok (Some s))]"

fun parse_var :: "presence \<Rightarrow> (string \<Rightarrow> bool) \<Rightarrow> string option \<Rightarrow> string option option" where
  "parse_var p check (Some v) = (if check v then Some (Some v) else None)"
| "parse_var Required check None = None"
| "parse_var (Default d) check None = Some (Some d)"
| "parse_var Optional check None = Some None"

text \<open>The configuration holds the variables that have a value.\<close>

type_synonym config = "(string \<times> string) list"

fun parse_vars :: "(string \<times> presence \<times> (string \<Rightarrow> bool)) list \<Rightarrow> environment \<Rightarrow> string list \<times> config" where
  "parse_vars [] env = ([], [])"
| "parse_vars ((k, p, check) # rest) env =
     (let (bad, cfg) = parse_vars rest env in
      case parse_var p check (env k) of
        None \<Rightarrow> (k # bad, cfg)
      | Some None \<Rightarrow> (bad, cfg)
      | Some (Some v) \<Rightarrow> (bad, (k, v) # cfg))"

text \<open>Starting: the configuration, or the variables the process names before it exits with 1.\<close>

definition load_config :: "(string \<Rightarrow> bool) \<Rightarrow> environment \<Rightarrow> string list + config" where
  "load_config valid_url env =
     (let (bad, cfg) = parse_vars (envSchema valid_url (env_is_production env)) env in
      if bad \<noteq> [] then Inl bad
      else if map_of cfg ''NODE_ENV'' = Some ''production''
      then (let missing = filter (\<lambda>k. truthy_str (map_of cfg k) = None) [''JWT_SECRET'', ''WEBHOOK_SECRET''] in
            if missing \<noteq> [] then Inl missing else Inr cfg)
      else Inr cfg)"

subsection \<open>The database driver (db/database.ts)\<close>

datatype DbDriver = Sqlite | Pg

definition resolveDriver :: "environment \<Rightarrow> DbDriver" where
  "resolveDriver env =
     (case truthy_str (env ''DATABASE_URL'') of
        None \<Rightarrow> Sqlite
      | Some url \<Rightarrow> if starts_with ''postgres://'' url \<or> starts_with ''postgresql://'' url then Pg else Sqlite)"

text \<open>The PostgreSQL pool is there exactly when the driver is \<open>Pg\<close>; \<open>run\<close> is its parameterized query.\<close>

definition pgQuery :: "DbDriver \<Rightarrow> (string \<Rightarrow> json list \<Rightarrow> js_error + json list) \<Rightarrow> string \<Rightarrow> json list \<Rightarrow> js_error + json list" where
  "pgQuery driver run sql params =
     (if driver \<noteq> Pg then Inl (JsError ''Error'' (''pgQuery called but driver is not '' @ [CHR 39] @ ''pg'' @ [CHR 39])) else run sql params)"

record db_health =
  dh_driver :: DbDriver
  dh_healthy :: bool
  dh_detail :: "string option"

definition dbHealth :: "DbDriver \<Rightarrow> (string \<Rightarrow> json list \<Rightarrow> js_error + json list) \<Rightarrow> db_health" where
  "dbHealth driver run =
     (if driver = Pg
      then (case run ''SELECT 1'' [] of
              Inr _ \<Rightarrow> \<lparr>dh_driver = Pg, dh_healthy = True, dh_detail = None\<rparr>
            | Inl e \<Rightarrow> \<lparr>dh_driver = Pg, dh_healthy = False, dh_detail = Some (err_message e)\<rparr>)
      else \<lparr>dh_driver = Sqlite, dh_healthy = True, dh_detail = None\<rparr>)"

subsection \<open>Migrations (db/migrationRunner.ts, cli/migrate.ts)\<close>

text \<open>The commands of the shell: which was run, and what it printed or failed with.\<close>

datatype shell_command = MigrateUp | MigrateCheck bool | MigrateDown | SelectOne string

type_synonym shell = "shell_command \<Rightarrow> js_error + string"

definition is_development :: "environment \<Rightarrow> bool" where
  "is_development env \<longleftrightarrow> env ''NODE_ENV'' = Some ''development'' \<or> truthy_str (env ''NODE_ENV'') = None"

text \<open>Each operation gives its result and the commands it ran.\<close>

definition runMigrations :: "environment \<Rightarrow> shell \<Rightarrow> (js_error + unit) \<times> shell_command list" where
  "runMigrations env sh =
     (if env_is_production env then (Inr (), [])
      else if \<not> is_development env then (Inr (), [])
      else (case sh MigrateUp of
              Inr _ \<Rightarrow> (Inr (), [MigrateUp])
            | Inl e \<Rightarrow> (Inl (JsError ''Error'' (''Database migration failed: '' @ err_message e)), [MigrateUp])))"

definition getMigrationStatus :: "environment \<Rightarrow> shell \<Rightarrow> js_error + string" where
  "getMigrationStatus env sh =
     (case sh (MigrateCheck (env_is_production env)) of
        Inr out \<Rightarrow> Inr (trim out)
      | Inl e \<Rightarrow> Inl (JsError ''Error'' (''Failed to get migration status: '' @ err_message e)))"

definition checkDbHealth :: "string \<Rightarrow> environment \<Rightarrow> shell \<Rightarrow> bool" where
  "checkDbHealth default_file env sh =
     (let dbFile = (case env ''DB_FILE'' of Some f \<Rightarrow> f | None \<Rightarrow> default_file) in
      case sh (SelectOne dbFile) of Inr _ \<Rightarrow> True | Inl _ \<Rightarrow> False)"

definition rollbackMigration :: "environment \<Rightarrow> shell \<Rightarrow> (js_error + unit) \<times> shell_command list" where
  "rollbackMigration env sh =
     (if env_is_production env
      then (Inl (JsError ''Error'' ''Rollback in production requires manual execution via npm run migrate:down''), [])
      else (case sh MigrateDown of
              Inr _ \<Rightarrow> (Inr (), [MigrateDown])
            | Inl e \<Rightarrow> (Inl (JsError ''Error'' (''Migration rollback failed: '' @ err_message e)), [MigrateDown])))"

text \<open>The command line tool: its exit code, and the commands it ran.\<close>

definition migrate_main :: "environment \<Rightarrow> shell \<Rightarrow> string option \<Rightarrow> nat \<times> shell_command list" where
  "migrate_main env sh command =
     (if command = Some ''status''
      then (case getMigrationStatus env sh of
              Inr _ \<Rightarrow> (0, [MigrateCheck (env_is_production env)])
            | Inl _ \<Rightarrow> (1, [MigrateCheck (env_is_production env)]))
      else if command = Some ''up''
      then (case runMigrations env sh of (Inr _, cs) \<Rightarrow> (0, cs) | (Inl _, cs) \<Rightarrow> (1, cs))
      else if command = Some ''down''
      then (case rollbackMigration env sh of (Inr _, cs) \<Rightarrow> (0, cs) | (Inl _, cs) \<Rightarrow> (1, cs))
      else (1, []))"

text \<open>The start of the server runs the migrations; only production exits when they fail.\<close>

definition startup_migrations :: "environment \<Rightarrow> shell \<Rightarrow> nat option \<times> shell_command list" where
  "startup_migrations env sh =
     (case runMigrations env sh of
        (Inr _, cs) \<Rightarrow> (None, cs)
      | (Inl _, cs) \<Rightarrow> (if env_is_production env then Some 1 else None, cs))"

subsection \<open>Properties\<close>

lemma check_origins_None: "check_origins p ss = None \<longleftrightarrow> list_all (\<lambda>s. (s = ''*'' \<and> \<not> p) \<or> (s \<noteq> ''*'' \<and> is_http_origin s)) ss"
  by (induction ss) auto

text \<open>The allowed origins pass the check of config.ts exactly when cors.ts accepts them at load
  time, in production and outside it.\<close>

theorem origins_checks_agree:
  "origins_refined is_prod raw \<longleftrightarrow> \<not> isl (parseAllowedOrigins is_prod raw)"
proof (cases "truthy_str raw")
  case (Some v)
  then have "\<not> isl (parseAllowedOrigins is_prod raw) \<longleftrightarrow> check_origins is_prod (origin_list v) = None"
    by (auto simp: parseAllowedOrigins_def split: option.split)
  also have "\<dots> \<longleftrightarrow> origins_refined is_prod raw"
    by (auto simp: check_origins_None origins_refined_def Some list_all_iff)
  finally show ?thesis by blast
qed (simp add: origins_refined_def parseAllowedOrigins_def)

text \<open>Migrations run on their own only in development, and production never runs one.\<close>

lemma migrations_only_in_development:
  "snd (runMigrations env sh) \<noteq> [] \<longleftrightarrow> is_development env \<and> \<not> env_is_production env"
  by (auto simp: runMigrations_def split: sum.split)


definition var_ok :: "config \<Rightarrow> string \<times> presence \<times> (string \<Rightarrow> bool) \<Rightarrow> bool" where
  "var_ok cfg = (\<lambda>(k, p, check). case map_of cfg k of Some v \<Rightarrow> check v \<or> p = Default v | None \<Rightarrow> p = Optional)"

lemma parse_vars_ok:
  "parse_vars vars env = ([], cfg) \<Longrightarrow> distinct (map fst vars) \<Longrightarrow>
   list_all (var_ok cfg) vars \<and> fst ` set cfg \<subseteq> fst ` set vars"
proof (induction vars arbitrary: cfg)
  case (Cons var vars)
  obtain k p check where var: "var = (k, p, check)" by (cases var)
  obtain bad cfg0 where rest: "parse_vars vars env = (bad, cfg0)" by (cases "parse_vars vars env")
  have bad: "bad = []" and parsed: "parse_var p check (env k) \<noteq> None"
    using Cons.prems(1) rest by (auto simp: var split: option.splits)
  have IH: "list_all (var_ok cfg0) vars" "fst ` set cfg0 \<subseteq> fst ` set vars"
    using Cons.IH [of cfg0] rest bad Cons.prems(2) by simp_all
  have new: "k \<notin> fst ` set vars" using Cons.prems(2) by (simp add: var)
  then have k0: "map_of cfg0 k = None" using IH(2) by (auto simp: map_of_eq_None_iff)
  obtain v where v: "parse_var p check (env k) = Some v" using parsed by blast
  have cfg: "cfg = (case v of None \<Rightarrow> cfg0 | Some w \<Rightarrow> (k, w) # cfg0)"
    using Cons.prems(1) rest v by (auto simp: var split: option.splits)
  have keep: "list_all (var_ok cfg) vars"
  proof -
    have "map_of cfg x = map_of cfg0 x" if "x \<in> fst ` set vars" for x
      using that new by (auto simp: cfg split: option.split)
    then show ?thesis using IH(1) by (fastforce simp: list_all_iff var_ok_def split: prod.splits)
  qed
  have "var_ok cfg (k, p, check)"
    using v k0 unfolding cfg by (cases v; cases "env k"; cases p) (auto simp: var_ok_def split: if_splits)
  then show ?case using keep IH(2) by (auto simp: var cfg split: option.splits)
qed simp

lemma envSchema_distinct: "distinct (map fst (envSchema valid_url is_prod))"
  by (simp add: envSchema_def)


definition production_env :: environment where
  "production_env k = map_of [(''NODE_ENV'', ''production''), (''RPC_URL'', ''https://rpc''), (''CONTRACT_ID'', ''C''),
     (''JWT_SECRET'', ''0123456789abcdef''), (''WEBHOOK_SECRET'', ''0123456789abcdef''), (''ALLOWED_ORIGINS'', ''https://a.b'')] k"



end
