(* ===== verification/Connection_Pool.thy ===== *)
theory Connection_Pool
  imports Prelude
begin

section \<open>The RPC connection pool (backend/src/utils/connectionPool.ts, rpcClient.ts)\<close>

text \<open>
  A connection is a number, given out afresh by \<open>new Server\<close>. The idle connections are a stack
  (\<open>push\<close> and \<open>pop\<close> work at the end of the array), those in use a \<open>Set\<close>. \<open>run\<close> is one
  acquisition, up to three attempts with pauses in between, and one release whatever comes out;
  concurrent runs interleave between the acquisition and the release. \<open>POOL_MIN\<close> and
  \<open>POOL_MAX\<close> come as strings of digits, which the comparisons read as numbers.
\<close>

definition MAX_RETRIES :: nat where "MAX_RETRIES = 3"

definition BASE_DELAY_MS :: nat where "BASE_DELAY_MS = 1000"

definition PoolExhaustedError :: js_error where
  "PoolExhaustedError = JsError ''PoolExhaustedError'' ''Connection pool exhausted''"

record ConnectionPool =
  cp_pool :: "nat list"
  cp_inUse :: "nat list"
  cp_min :: nat
  cp_max :: nat
  cp_next :: nat

record PoolStats =
  ps_size :: nat
  ps_available :: nat
  ps_inUse :: nat
  ps_min :: nat
  ps_max :: nat

definition new_pool :: "nat \<Rightarrow> nat \<Rightarrow> ConnectionPool" where
  "new_pool mn mx = \<lparr>cp_pool = [0..<mn], cp_inUse = [], cp_min = mn, cp_max = mx, cp_next = mn\<rparr>"

definition set_add :: "'a \<Rightarrow> 'a list \<Rightarrow> 'a list" where
  "set_add x xs = (if x \<in> set xs then xs else xs @ [x])"

definition acquire :: "ConnectionPool \<Rightarrow> js_error + nat \<times> ConnectionPool" where
  "acquire p =
     (if cp_pool p \<noteq> []
      then Inr (last (cp_pool p), p\<lparr>cp_pool := butlast (cp_pool p), cp_inUse := set_add (last (cp_pool p)) (cp_inUse p)\<rparr>)
      else if length (cp_inUse p) < cp_max p
      then Inr (cp_next p, p\<lparr>cp_inUse := set_add (cp_next p) (cp_inUse p), cp_next := cp_next p + 1\<rparr>)
      else Inl PoolExhaustedError)"

definition release :: "nat \<Rightarrow> ConnectionPool \<Rightarrow> ConnectionPool" where
  "release conn p =
     (let inUse = removeAll conn (cp_inUse p) in
      p\<lparr>cp_inUse := inUse,
        cp_pool := (if length (cp_pool p) + length inUse < cp_max p then cp_pool p @ [conn] else cp_pool p)\<rparr>)"

definition stats :: "ConnectionPool \<Rightarrow> PoolStats" where
  "stats p = \<lparr>ps_size = length (cp_pool p) + length (cp_inUse p), ps_available = length (cp_pool p),
     ps_inUse = length (cp_inUse p), ps_min = cp_min p, ps_max = cp_max p\<rparr>"

definition close_pool :: "ConnectionPool \<Rightarrow> ConnectionPool" where
  "close_pool p = p\<lparr>cp_pool := [], cp_inUse := []\<rparr>"

text \<open>The retry loop from a given attempt on: \<open>fn i\<close> is what attempt \<open>i\<close> comes to. Beside the
  result it lists the pauses that were made and counts the calls.\<close>

function withRetry_from :: "(nat \<Rightarrow> js_error + 'a) \<Rightarrow> nat \<Rightarrow> (js_error + 'a) \<times> nat list \<times> nat" where
  "withRetry_from fn attempt =
     (case fn attempt of
        Inr x \<Rightarrow> (Inr x, [], 1)
      | Inl e \<Rightarrow>
          if attempt < MAX_RETRIES - 1
          then (let (r, ds, n) = withRetry_from fn (attempt + 1) in (r, BASE_DELAY_MS * 2 ^ attempt # ds, n + 1))
          else (Inl e, [], 1))"
  by pat_completeness auto

termination
  by (relation "measure (\<lambda>(_, attempt). MAX_RETRIES - attempt)") (auto simp: MAX_RETRIES_def)

declare withRetry_from.simps [simp del]

definition withRetry :: "(nat \<Rightarrow> js_error + 'a) \<Rightarrow> (js_error + 'a) \<times> nat list \<times> nat" where
  "withRetry fn = withRetry_from fn 0"

text \<open>\<open>run\<close> without interleaving: the pool is released on success and on failure.\<close>

definition run :: "(nat \<Rightarrow> nat \<Rightarrow> js_error + 'a) \<Rightarrow> ConnectionPool \<Rightarrow> (js_error + 'a) \<times> ConnectionPool" where
  "run fn p =
     (case acquire p of
        Inl e \<Rightarrow> (Inl e, p)
      | Inr (conn, p') \<Rightarrow> (fst (withRetry (fn conn)), release conn p'))"

subsection \<open>Concurrent runs\<close>

text \<open>What the callers of the pool do: a run starts, a run that holds a connection ends.\<close>

datatype pool_event = StartRun | EndRun nat

fun pool_step :: "pool_event \<Rightarrow> ConnectionPool \<Rightarrow> ConnectionPool" where
  "pool_step StartRun p = (case acquire p of Inl _ \<Rightarrow> p | Inr (_, p') \<Rightarrow> p')"
| "pool_step (EndRun conn) p = (if conn \<in> set (cp_inUse p) then release conn p else p)"

definition pool_inv :: "ConnectionPool \<Rightarrow> bool" where
  "pool_inv p \<longleftrightarrow>
     distinct (cp_pool p @ cp_inUse p) \<and> list_all (\<lambda>c. c < cp_next p) (cp_pool p @ cp_inUse p) \<and>
     length (cp_pool p) + length (cp_inUse p) \<le> cp_max p"

lemma pool_inv_new [state_inv]: "mn \<le> mx \<Longrightarrow> pool_inv (new_pool mn mx)"
  by (simp add: pool_inv_def new_pool_def list_all_iff)

lemma acquire_fresh: "pool_inv p \<Longrightarrow> acquire p = Inr (c, p') \<Longrightarrow> c \<notin> set (cp_inUse p)"
  by (cases "cp_pool p" rule: rev_cases) (auto simp: acquire_def pool_inv_def list_all_iff split: if_splits)

lemma acquire_inv:
  assumes "pool_inv p" "acquire p = Inr (c, p')" shows "pool_inv p'" "c \<in> set (cp_inUse p')" "cp_max p' = cp_max p"
  using assms
  by (cases "cp_pool p" rule: rev_cases;
      auto simp: acquire_def pool_inv_def set_add_def list_all_iff less_Suc_eq split: if_splits)+

lemma length_removeAll_distinct: "distinct xs \<Longrightarrow> x \<in> set xs \<Longrightarrow> length (removeAll x xs) = length xs - 1"
  by (simp add: distinct_remove1_removeAll [symmetric] length_remove1)

lemma release_inv:
  assumes "pool_inv p" "c \<in> set (cp_inUse p)"
  shows "pool_inv (release c p)" "length (cp_pool (release c p)) = length (cp_pool p) + 1"
    "length (cp_inUse (release c p)) + 1 = length (cp_inUse p)" "cp_max (release c p) = cp_max p"
proof -
  have l: "length (removeAll c (cp_inUse p)) + 1 = length (cp_inUse p)"
    using assms length_removeAll_distinct [of "cp_inUse p" c] by (cases "cp_inUse p") (auto simp: pool_inv_def)
  then show "pool_inv (release c p)" "length (cp_pool (release c p)) = length (cp_pool p) + 1"
    "length (cp_inUse (release c p)) + 1 = length (cp_inUse p)" "cp_max (release c p) = cp_max p"
    using assms by (auto simp: release_def Let_def pool_inv_def list_all_iff distinct_removeAll)
qed

lemma pool_step_inv [state_inv]: "pool_inv p \<Longrightarrow> pool_inv (pool_step ev p)"
  by (cases ev) (auto intro: release_inv(1) acquire_inv(1) split: sum.splits)

lemma pool_step_max [simp]: "cp_max (pool_step ev p) = cp_max p"
  by (cases ev) (auto simp: acquire_def release_def Let_def)

lemma pool_steps_inv: "pool_inv p \<Longrightarrow> pool_inv (fold pool_step evs p) \<and> cp_max (fold pool_step evs p) = cp_max p"
  by (induction evs arbitrary: p) (simp_all add: pool_step_inv)

text \<open>Ending every open run leaves nothing in use and loses no connection.\<close>

lemma drain:
  assumes "pool_inv p"
  shows "cp_inUse (fold pool_step (map EndRun (cp_inUse p)) p) = [] \<and>
    length (cp_pool (fold pool_step (map EndRun (cp_inUse p)) p)) = length (cp_pool p) + length (cp_inUse p)"
  using assms
proof (induction "length (cp_inUse p)" arbitrary: p)
  case (Suc n)
  then obtain c cs where c: "cp_inUse p = c # cs" by (cases "cp_inUse p") auto
  then have cs: "cp_inUse (release c p) = cs" "c \<notin> set cs"
    using Suc.prems by (auto simp: release_def Let_def pool_inv_def)
  then show ?case
    using Suc.hyps(1) [of "release c p"] Suc.hyps(2) Suc.prems release_inv [of p c] c by simp
qed simp

subsection \<open>Retries\<close>

lemma withRetry_unfold:
  "withRetry fn =
     (case fn 0 of Inr x \<Rightarrow> (Inr x, [], 1)
      | Inl _ \<Rightarrow> (case fn 1 of Inr x \<Rightarrow> (Inr x, [1000], 2)
          | Inl _ \<Rightarrow> (case fn 2 of Inr x \<Rightarrow> (Inr x, [1000, 2000], 3) | Inl e \<Rightarrow> (Inl e, [1000, 2000], 3))))"
proof -
  have 2: "withRetry_from fn 2 = (case fn 2 of Inr x \<Rightarrow> (Inr x, [], 1) | Inl e \<Rightarrow> (Inl e, [], 1))"
    by (subst withRetry_from.simps) (simp add: MAX_RETRIES_def split: sum.split)
  have 1: "withRetry_from fn 1 = (case fn 1 of Inr x \<Rightarrow> (Inr x, [], 1)
      | Inl _ \<Rightarrow> (let (r, ds, n) = withRetry_from fn 2 in (r, 2000 # ds, n + 1)))"
    by (subst withRetry_from.simps) (simp add: MAX_RETRIES_def BASE_DELAY_MS_def numeral_2_eq_2 split: sum.split)
  have "withRetry_from fn 0 = (case fn 0 of Inr x \<Rightarrow> (Inr x, [], 1)
      | Inl _ \<Rightarrow> (let (r, ds, n) = withRetry_from fn 1 in (r, 1000 # ds, n + 1)))"
    by (subst withRetry_from.simps) (simp add: MAX_RETRIES_def BASE_DELAY_MS_def split: sum.split)
  then show ?thesis by (simp add: withRetry_def 1 [unfolded One_nat_def] 2 split: sum.splits)
qed

subsection \<open>The breakers (rpcClient.ts)\<close>

text \<open>Which of the five circuit breakers are open is the library's state; the client reads it.\<close>

record breakers =
  br_getAccount :: bool
  br_prepareTransaction :: bool
  br_simulateTransaction :: bool
  br_getHealth :: bool
  br_getTransaction :: bool

definition circuit_state :: "bool \<Rightarrow> json" where
  "circuit_state opened = JStr (if opened then ''open'' else ''closed'')"

definition getCircuitStates :: "breakers \<Rightarrow> json" where
  "getCircuitStates b = JObj
     [(''getAccount'', circuit_state (br_getAccount b)),
      (''prepareTransaction'', circuit_state (br_prepareTransaction b)),
      (''simulateTransaction'', circuit_state (br_simulateTransaction b)),
      (''getHealth'', circuit_state (br_getHealth b)),
      (''getTransaction'', circuit_state (br_getTransaction b))]"

definition isHealthy :: "breakers \<Rightarrow> bool" where
  "isHealthy b \<longleftrightarrow> \<not> br_getAccount b \<and> \<not> br_prepareTransaction b \<and> \<not> br_simulateTransaction b \<and>
     \<not> br_getHealth b \<and> \<not> br_getTransaction b"

subsection \<open>Properties\<close>

text \<open>C21: Whatever runs start and end and in whatever order, the pool never holds more connections
  than its maximum, no connection is idle and in use at once or handed to two runs, and a run is
  refused exactly when all are taken; when the open runs have ended, every connection is idle
  again and none is lost.\<close>

theorem pool_never_leaks:
  assumes "mn \<le> mx"
  shows "let p = fold pool_step evs (new_pool mn mx); q = fold pool_step (map EndRun (cp_inUse p)) p in
         ps_size (stats p) \<le> mx \<and> distinct (cp_pool p @ cp_inUse p) \<and>
         (acquire p = Inl PoolExhaustedError \<longleftrightarrow> cp_pool p = [] \<and> ps_inUse (stats p) = mx) \<and>
         ps_inUse (stats q) = 0 \<and> ps_size (stats q) = ps_size (stats p)"
proof -
  let ?p = "fold pool_step evs (new_pool mn mx)"
  have i: "pool_inv ?p" "cp_max ?p = mx"
    using pool_steps_inv [OF pool_inv_new [OF assms], of evs] by (simp_all add: new_pool_def)
  then show ?thesis
    using drain [OF i(1)] by (auto simp: Let_def stats_def pool_inv_def acquire_def)
qed

theorem pool_never_leaks_witness:
  "ps_inUse (stats (fold pool_step [StartRun, StartRun, StartRun] (new_pool 1 2))) = 2 \<and>
   ps_size (stats (fold pool_step [StartRun, StartRun, StartRun] (new_pool 1 2))) \<le> 2"
  using pool_never_leaks [of 1 2 "[StartRun, StartRun, StartRun]"]
  by (simp add: new_pool_def acquire_def set_add_def stats_def)

text \<open>A call through the pool is tried at most three times, with pauses of one and two seconds;
  it gives the first success, or the last error when all three fail, and the pool is as free
  afterwards as before.\<close>

theorem run_retries_and_releases:
  assumes "pool_inv p" "acquire p = Inr (c, p')"
  shows "withRetry (fn c) =
           (case fn c 0 of Inr x \<Rightarrow> (Inr x, [], 1)
            | Inl _ \<Rightarrow> (case fn c 1 of Inr x \<Rightarrow> (Inr x, [1000], 2)
                | Inl _ \<Rightarrow> (fn c 2, [1000, 2000], 3))) \<and>
         fst (run fn p) = fst (withRetry (fn c)) \<and>
         cp_inUse (snd (run fn p)) = cp_inUse p \<and> pool_inv (snd (run fn p))"
proof -
  have n: "c \<notin> set (cp_inUse p)" by (rule acquire_fresh [OF assms])
  then have "cp_inUse p' = cp_inUse p @ [c]"
    using assms(2) by (auto simp: acquire_def set_add_def split: if_splits)
  then have "cp_inUse (release c p') = cp_inUse p"
    using n by (simp add: release_def Let_def)
  then show ?thesis
    using assms acquire_inv [OF assms] release_inv [of p' c]
    by (auto simp: run_def withRetry_unfold split: sum.splits)
qed

theorem run_retries_and_releases_witness:
  "fst (run (\<lambda>c i. if i < 2 then Inl (JsError ''Error'' ''down'') else Inr c) (new_pool 2 4)) = Inr 1"
proof -
  have "acquire (new_pool 2 4) = Inr (1, \<lparr>cp_pool = [0], cp_inUse = [1], cp_min = 2, cp_max = 4, cp_next = 2\<rparr>)"
    by (simp add: acquire_def new_pool_def set_add_def upt_rec)
  from run_retries_and_releases [OF pool_inv_new this, of "\<lambda>c i. if i < 2 then Inl (JsError ''Error'' ''down'') else Inr c"]
  show ?thesis by simp
qed

end
