(* ===== verification/Server.thy ===== *)
theory Server
  imports Config Connection_Pool
begin

section \<open>Health checks, shutdown and redirects (backend/src/routes/health.ts, index.ts)\<close>

text \<open>
  The health endpoints, the graceful shutdown and the redirect at the end of index.ts. The RPC server,
  the database shell and the disk are parameters. The theorems say when the server reports healthy,
  that a shutdown ends in time, and where the redirect really leads.
\<close>

subsection \<open>Health\<close>

definition DISK_MIN_FREE_BYTES :: int where "DISK_MIN_FREE_BYTES = 500 * 1024 * 1024"

text \<open>The disk: what \<open>statfs\<close> gives where it exists, otherwise what \<open>df\<close> prints; an error is unhealthy.\<close>

datatype disk = Statfs "js_error + int \<times> int" | Df "js_error + string"

text \<open>The fourth field of the last line, fields being separated by blanks.\<close>

fun blank_fields :: "string \<Rightarrow> string list" where
  "blank_fields [] = [[]]"
| "blank_fields (c # s) =
     (if is_space c
      then (case s of d # _ \<Rightarrow> if is_space d then blank_fields s else [] # blank_fields s | [] \<Rightarrow> [[], []])
      else (case blank_fields s of w # ws \<Rightarrow> (c # w) # ws | [] \<Rightarrow> [[c]]))"

definition df_available :: "string \<Rightarrow> rat option" where
  "df_available stdout =
     (let ls = split_on CHR 10 (trim stdout); parts = blank_fields (trim (last ls)) in
      if 3 < length parts then parse_int (parts ! 3) else None)"

definition checkDiskHealth :: "disk \<Rightarrow> bool" where
  "checkDiskHealth d =
     (case d of
        Statfs (Inl _) \<Rightarrow> False
      | Statfs (Inr (bfree, bsize)) \<Rightarrow> of_int DISK_MIN_FREE_BYTES \<le> js_mul (of_int bfree) (of_int bsize)
      | Df (Inl _) \<Rightarrow> False
      | Df (Inr stdout) \<Rightarrow>
          (case df_available stdout of None \<Rightarrow> False | Some kb \<Rightarrow> of_int DISK_MIN_FREE_BYTES \<le> js_mul kb 1024))"

definition component_status :: "bool \<Rightarrow> json" where
  "component_status healthy = JStr (if healthy then ''ok'' else ''degraded'')"

definition health_live :: response where
  "health_live = respond 200 (JObj [(''status'', JStr ''alive'')])"

definition health_ready :: "bool \<Rightarrow> bool \<Rightarrow> response" where
  "health_ready dbHealthy rpcHealthy =
     (let ready = (dbHealthy \<and> rpcHealthy) in
      respond (if ready then 200 else 503) (JObj
        [(''status'', JStr (if ready then ''ready'' else ''not_ready'')), (''db'', component_status dbHealthy),
         (''rpc'', component_status rpcHealthy)]))"

text \<open>Registered again later with the database alone, so never reached.\<close>

definition health_ready_shadowed :: "bool \<Rightarrow> response" where
  "health_ready_shadowed dbHealthy =
     respond (if dbHealthy then 200 else 503) (JObj [(''status'', JStr (if dbHealthy then ''ready'' else ''not_ready''))])"

definition health_deep :: "bool \<Rightarrow> bool \<Rightarrow> bool \<Rightarrow> response" where
  "health_deep dbHealthy rpcHealthy diskHealthy =
     respond (if dbHealthy \<and> rpcHealthy \<and> diskHealthy then 200 else 503) (JObj
       [(''db'', component_status dbHealthy), (''rpc'', component_status rpcHealthy), (''disk'', component_status diskHealthy)])"

definition pool_stats_json :: "PoolStats \<Rightarrow> json" where
  "pool_stats_json st = JObj [(''size'', jint (int (ps_size st))), (''available'', jint (int (ps_available st))),
     (''inUse'', jint (int (ps_inUse st))), (''min'', jint (int (ps_min st))), (''max'', jint (int (ps_max st)))]"

text \<open>GET /api/health goes through the pool, with its retries.\<close>

definition api_health ::
  "string \<Rightarrow> int \<Rightarrow> string \<Rightarrow> (nat \<Rightarrow> nat \<Rightarrow> js_error + unit) \<Rightarrow> bool \<Rightarrow> int \<Rightarrow> ConnectionPool \<Rightarrow> response \<times> ConnectionPool" where
  "api_health version startTime iso_now getHealth dbHealthy now p =
     (let (r, p') = run getHealth p; rpcReachable = \<not> isl r; healthy = (dbHealthy \<and> rpcReachable) in
      (respond (if healthy then 200 else 503) (JObj
         [(''status'', JStr (if healthy then ''healthy'' else ''degraded'')), (''version'', JStr version),
          (''uptime'', jint ((now - startTime) div 1000)), (''db'', JStr (if dbHealthy then ''ok'' else ''unreachable'')),
          (''rpcReachable'', JBool rpcReachable), (''pool'', pool_stats_json (stats p')), (''timestamp'', JStr iso_now)]), p'))"

subsection \<open>Shutdown\<close>

text \<open>While it shuts down the server refuses requests.\<close>

definition shutdown_gate :: "bool \<Rightarrow> response option" where
  "shutdown_gate isShuttingDown =
     (if isShuttingDown
      then Some (with_header ''Connection'' ''close'' (respond 503 (JObj
        [(''error'', JStr ''Server is shutting down''), (''message'', JStr ''Please retry your request'')])))
      else None)"

text \<open>
  The drain: once a second the pool is looked at; when nothing is in use it is closed and the process exits
  with 0, and when the timeout comes first it exits with 1. \<open>pool_at i\<close> is the pool at the look after
  \<open>i + 1\<close> seconds. The result is the exit code, the time of the exit and the pool.
\<close>

definition looks :: "int \<Rightarrow> nat list" where
  "looks timeout_ms = filter (\<lambda>i. (int i + 1) * 1000 < timeout_ms) [0..<nat (timeout_ms div 1000)]"

definition drain :: "int \<Rightarrow> (nat \<Rightarrow> ConnectionPool) \<Rightarrow> nat \<times> int \<times> ConnectionPool option" where
  "drain timeout_ms pool_at =
     (case List.find (\<lambda>i. ps_inUse (stats (pool_at i)) = 0) (looks timeout_ms) of
        Some i \<Rightarrow> (0, (int i + 1) * 1000, Some (close_pool (pool_at i)))
      | None \<Rightarrow> (1, timeout_ms, None))"

text \<open>A second signal while the first is handled does nothing.\<close>

definition gracefulShutdown :: "int \<Rightarrow> (nat \<Rightarrow> ConnectionPool) \<Rightarrow> bool \<Rightarrow> (nat \<times> int \<times> ConnectionPool option) option \<times> bool" where
  "gracefulShutdown timeout_ms pool_at isShuttingDown =
     (if isShuttingDown then (None, True) else (Some (drain timeout_ms pool_at), True))"

subsection \<open>The redirect of unversioned routes\<close>

text \<open>Express hands a middleware mounted at a path the rest of the path, with a slash in front.\<close>

definition mounted :: "string \<Rightarrow> string \<Rightarrow> string option" where
  "mounted pre path =
     (if starts_with pre path
      then (let rest = drop (length pre) path in
            if rest = [] then Some ''/'' else if starts_with ''/'' rest then Some rest else None)
      else None)"

record redirect =
  rd_status :: nat
  rd_location :: string
  rd_headers :: "(string \<times> string) list"

text \<open>\<open>path\<close> is \<open>req.path\<close>, \<open>query\<close> the part of \<open>req.url\<close> from its question mark on. Nothing is
  redirected when the path is skipped.\<close>

definition redirect_unversioned :: "string \<Rightarrow> string \<Rightarrow> redirect option" where
  "redirect_unversioned path query_text =
     (if starts_with ''/api/v1'' path \<or> path = ''/api/health'' \<or> starts_with ''/api/auth'' path then None
      else (let newPath = (if starts_with ''/api'' path then ''/api/v1'' @ drop 4 path else path) in
            Some \<lparr>rd_status = 301, rd_location = newPath @ query_text,
              rd_headers = [(''Deprecation'', ''true''),
                (''Warning'', ''299 - '' @ [CHR 34] @ ''Unversioned API routes are deprecated. Use /api/v1/ prefix.'' @ [CHR 34])]\<rparr>))"

definition redirect_route :: "string \<Rightarrow> string \<Rightarrow> redirect option" where
  "redirect_route path query_text =
     (case mounted ''/api'' path of None \<Rightarrow> None | Some rest \<Rightarrow> redirect_unversioned rest query_text)"

subsection \<open>Properties\<close>

lemma starts_with_append: "starts_with (p @ q) s \<Longrightarrow> starts_with p s"
  unfolding starts_with_def by (metis append_eq_conv_conj take_add take_take min.absorb1 le_add1 length_append take_all_iff)



text \<open>The redirect of an unversioned API path drops the prefix instead of adding the version: it leads
  out of the API, because the middleware is mounted at /api and sees the path without it.\<close>

theorem redirect_leaves_api:
  assumes "\<not> starts_with ''/api'' rest" "starts_with ''/'' rest"
  shows "map_option rd_location (redirect_route (''/api'' @ rest) query_text) = Some (rest @ query_text)"
proof -
  have "\<not> starts_with ''/api/v1'' rest" "\<not> starts_with ''/api/auth'' rest" "rest \<noteq> ''/api/health''"
    using assms(1) starts_with_append [of "''/api''" "''/v1''" rest] starts_with_append [of "''/api''" "''/auth''" rest]
    by (auto simp: starts_with_def)
  then show ?thesis using assms
    by (cases rest) (simp_all add: redirect_route_def mounted_def redirect_unversioned_def starts_with_def Let_def)
qed

theorem redirect_leaves_api_witness:
  "map_option rd_location (redirect_route (''/api'' @ ''/loans'') ''?page=2'') = Some (''/loans'' @ ''?page=2'')"
  by (rule redirect_leaves_api) (simp_all add: starts_with_def)

end
