(* ===== verification/V1_Routes.thy ===== *)
theory V1_Routes
  imports Collateral_Api Server
begin

section \<open>The versioned routers (backend/src/routes/v1.ts, v2.ts)\<close>

text \<open>
  The routes of v1.ts in their order, with the settings of a wallet and the status of a submitted
  transaction, and the stub of v2.ts. No file mounts \<open>v1Router\<close> but the tests; the handlers are
  modelled as they are written. Names of the loan service that v1.ts uses are not imported there,
  so the handlers that use them fail, whatever the request. The theorems are on the settings, on the
  answer of the status route and on what the alert webhook sends out.
\<close>

subsection \<open>Every answer carries the version\<close>

definition spread :: "(string \<times> json) list \<Rightarrow> (string \<times> json) list \<Rightarrow> (string \<times> json) list" where
  "spread kvs obj = foldl (\<lambda>acc (k, v). m_set k v acc) obj kvs"

definition versioned_json :: "json \<Rightarrow> json" where
  "versioned_json body = (case body of JObj kvs \<Rightarrow> JObj (spread kvs [(''api_version'', JStr ''v1'')]) | _ \<Rightarrow> body)"

definition api_version :: "response \<Rightarrow> response" where
  "api_version res = res\<lparr>rs_body := versioned_json (rs_body res)\<rparr>"

subsection \<open>Health\<close>

definition v1_health ::
  "string \<Rightarrow> int \<Rightarrow> (nat \<Rightarrow> nat \<Rightarrow> js_error + unit) \<Rightarrow> int \<Rightarrow> ConnectionPool \<Rightarrow> response \<times> ConnectionPool" where
  "v1_health APP_VERSION startTime getHealth now p =
     (let (r, p') = run getHealth p; rpcReachable = \<not> isl r in
      (respond (if rpcReachable then 200 else 503) (JObj
         [(''status'', JStr (if rpcReachable then ''healthy'' else ''degraded'')), (''version'', JStr APP_VERSION),
          (''uptime'', jint ((now - startTime) div 1000)), (''rpcReachable'', JBool rpcReachable),
          (''pool'', pool_stats_json (stats p'))]), p'))"

subsection \<open>Collateral and loans\<close>

definition xdr_json :: "string \<Rightarrow> json" where "xdr_json x = JObj [(''xdr'', JStr x)]"

definition v1_register_collateral :: handler where
  "v1_register_collateral env now req s =
     (case registerCollateralSchema (ev_valid_key env) (rq_body req) of
        None \<Rightarrow> (invalid_body env (rq_body req), s)
      | Some i \<Rightarrow> (bind_r (registerCollateral (ev_service env) i) (\<lambda>x. ok (xdr_json x)), s))"

definition batchRegisterCollateralSchema :: "(string \<Rightarrow> bool) \<Rightarrow> json \<Rightarrow> RegisterCollateralInput list option" where
  "batchRegisterCollateralSchema valid_key body =
     Option.bind (required (zod_array (registerCollateralSchema valid_key)) ''items'' body)
       (\<lambda>items. if 1 \<le> length items \<and> length items \<le> 50 then Some items else None)"

definition v1_register_batch :: handler where
  "v1_register_batch env now req s =
     (case batchRegisterCollateralSchema (ev_valid_key env) (rq_body req) of
        None \<Rightarrow> (invalid_body env (rq_body req), s)
      | Some items \<Rightarrow>
          (bind_r (batchRegisterCollateral (ev_service env) items)
             (\<lambda>xs. ok (JObj [(''results'', JArr (map xdr_json xs))])), s))"

text \<open>The schemas and operations of the loan service are not imported.\<close>

definition v1_loan_request :: handler where
  "v1_loan_request env now req s = (Inl (reference_error ''loanRequestSchema''), s)"

definition v1_loan_repay :: handler where
  "v1_loan_repay env now req s = (Inl (reference_error ''loanRepaySchema''), s)"

definition v1_loan_liquidate :: handler where
  "v1_loan_liquidate env now req s = (Inl (reference_error ''loanLiquidateSchema''), s)"

definition v1_loan_on_chain :: handler where
  "v1_loan_on_chain env now req s = (Inl (reference_error ''getLoanOnChain''), s)"

definition v1_health_factor :: handler where
  "v1_health_factor env now req s = (Inl (reference_error ''getHealthFactor''), s)"

definition v1_collateral_by_id :: "string \<Rightarrow> handler" where
  "v1_collateral_by_id k env now req s =
     (case getCollateralById k (as_store s) of
        None \<Rightarrow> (fail 404 ''Collateral not found'', s)
      | Some record \<Rightarrow> (ok (collateral_json env record), s))"

text \<open>The clause that catches the failing call names a class that is not imported either.\<close>

definition v1_unpaginated :: "request \<Rightarrow> bool" where
  "v1_unpaginated req \<longleftrightarrow> query ''page'' req = None \<and> query ''pageSize'' req = None \<and> query ''limit'' req = None"

definition v1_loans :: handler where
  "v1_loans env now req s = (Inl (reference_error ''InvalidPaginationError''), s)"

subsection \<open>Webhooks and the oracle\<close>

definition v1_price_update :: handler where
  "v1_price_update env now req s =
     (ok (JObj [(''invalidated'', JBool True)]), s\<lparr>as_appraisals := invalidateAll (as_appraisals s)\<rparr>)"

definition v1_register_webhook :: "string \<Rightarrow> string \<Rightarrow> handler" where
  "v1_register_webhook uuid random32 env now req s =
     (case body_field ''url'' (rq_body req) of
        Inl e \<Rightarrow> (Inl e, s)
      | Inr (Some (JStr url)) \<Rightarrow>
          if url = [] then (fail 400 ''url is required'', s)
          else (case registerWebhook (ev_parse_url env) now uuid random32 url
                       (field ''encrypt'' (rq_body req) = Some (JBool True)) (as_hooks s) of
             Inl e \<Rightarrow> (fail 400 (err_message e), s)
           | Inr (reg, h) \<Rightarrow> (Inr (respond 201 (webhook_json reg)), s\<lparr>as_hooks := h\<rparr>))
      | Inr _ \<Rightarrow> (fail 400 ''url is required'', s))"

definition v1_list_webhooks :: handler where
  "v1_list_webhooks env now req s = (ok (JArr (map listed_webhook_json (getWebhooks (as_hooks s)))), s)"

definition v1_webhook_logs :: handler where
  "v1_webhook_logs env now req s = (ok (JArr (map delivery_json (getDeliveryLogs (as_hooks s)))), s)"

text \<open>A response without a body has the body \<open>JNull\<close>.\<close>

definition v1_delete_webhook :: "string \<Rightarrow> handler" where
  "v1_delete_webhook k env now req s =
     (let (deleted, h) = deleteWebhook k (as_hooks s); s' = s\<lparr>as_hooks := h\<rparr> in
      if \<not> deleted
      then (Inr (respond 404 (JObj [(''error'', JStr ''Webhook not found''),
              (''message'', JStr (''No webhook with id '' @ [CHR 39] @ k @ [CHR 39]))])), s')
      else (Inr (respond 204 JNull), s'))"

subsection \<open>Alerts from Amazon SNS\<close>

text \<open>
  \<open>json_parse\<close> is \<open>JSON.parse\<close>, \<open>fetch_url\<close> what fetching a value as a URL comes to. Beside the
  outcome the result has the values that were fetched and the alerts that were sent. A text response
  has a string as its body.
\<close>

record alert_hook =
  ah_fetched :: "json list"
  ah_posts :: "post list"
  ah_fired :: last_fired

definition backup_failed :: "json \<Rightarrow> bool" where
  "backup_failed message \<longleftrightarrow>
     field ''detail-type'' message = Some (JStr ''Backup Job State Change'') \<and>
     Option.bind (field ''detail'' message) (field ''state'') = Some (JStr ''FAILED'')"

definition v1_alerts_webhook ::
  "alert_env \<Rightarrow> (json option \<Rightarrow> js_error + json) \<Rightarrow> (json \<Rightarrow> js_error + unit) \<Rightarrow> int \<Rightarrow> request \<Rightarrow> last_fired \<Rightarrow> outcome \<times> alert_hook" where
  "v1_alerts_webhook al json_parse fetch_url now req lf =
     (let quiet = \<lparr>ah_fetched = [], ah_posts = [], ah_fired = lf\<rparr>; done = Inr (respond 200 (JStr ''OK'')) in
      case header ''x-amz-sns-message-type'' req of
        Some t \<Rightarrow>
          if t = ''SubscriptionConfirmation''
          then (if rq_body req = JNull
                then (Inl (JsError ''TypeError'' ''Cannot read properties of undefined (reading SubscribeURL)''), quiet)
                else (case field ''SubscribeURL'' (rq_body req) of
                   None \<Rightarrow> (done, quiet)
                 | Some u \<Rightarrow>
                     if truthy (Some u)
                     then (bind_r (fetch_url u) (\<lambda>_. Inr (respond 200 (JStr ''Subscribed''))), quiet\<lparr>ah_fetched := [u]\<rparr>)
                     else (done, quiet)))
          else if t = ''Notification'' \<and> rq_body req \<noteq> JNull
          then (case json_parse (field ''Message'' (rq_body req)) of
             Inl _ \<Rightarrow> (done, quiet)
           | Inr message \<Rightarrow>
               if backup_failed message
               then (let detail = field ''detail'' message;
                         (out, lf') = fireAlert al now rule_backupFailure ''AWS Backup job failed''
                           [(''backupJobId'', Option.bind detail (field ''backupJobId'')),
                            (''resourceArn'', Option.bind detail (field ''resourceArn''))] lf in
                     (done, quiet\<lparr>ah_posts := out, ah_fired := lf'\<rparr>))
               else (done, quiet))
          else (done, quiet)
      | None \<Rightarrow> (done, quiet))"

subsection \<open>Administration\<close>

text \<open>\<open>listLoans\<close> is not imported.\<close>

definition v1_admin_users :: handler where
  "v1_admin_users env now req s = (Inl (reference_error ''listLoans''), s)"

definition v1_moderation_queue :: handler where
  "v1_moderation_queue env now req s = (Inl (reference_error ''listLoans''), s)"

definition v1_statistics :: handler where
  "v1_statistics env now req s = (Inl (reference_error ''listLoans''), s)"

subsection \<open>Settings of a wallet\<close>

record notification_settings =
  ns_loanApproved :: bool
  ns_loanRepaid :: bool
  ns_liquidationWarning :: bool

record UserSettings =
  us_walletAddress :: string
  us_joinDate :: int
  us_notifications :: notification_settings
  us_language :: string
  us_currency :: string

record settings_update =
  su_notifications :: "notification_settings option"
  su_language :: "string option"
  su_currency :: "string option"

definition length_between :: "nat \<Rightarrow> nat \<Rightarrow> json \<Rightarrow> string option" where
  "length_between lo hi v = Option.bind (zod_string v) (\<lambda>s. if lo \<le> length s \<and> length s \<le> hi then Some s else None)"

definition notification_schema :: "json \<Rightarrow> notification_settings option" where
  "notification_schema v =
     Option.bind (required zod_boolean ''loanApproved'' v) (\<lambda>loanApproved.
     Option.bind (required zod_boolean ''loanRepaid'' v) (\<lambda>loanRepaid.
     Option.bind (required zod_boolean ''liquidationWarning'' v) (\<lambda>liquidationWarning.
       Some \<lparr>ns_loanApproved = loanApproved, ns_loanRepaid = loanRepaid,
             ns_liquidationWarning = liquidationWarning\<rparr>)))"

definition is_object :: "json \<Rightarrow> bool" where
  "is_object v = (case v of JObj _ \<Rightarrow> True | _ \<Rightarrow> False)"

definition settingsSchema :: "json \<Rightarrow> settings_update option" where
  "settingsSchema body =
     (if \<not> is_object body then None
      else
        Option.bind (optional notification_schema ''notifications'' body) (\<lambda>notifications.
        Option.bind (optional (length_between 2 10) ''language'' body) (\<lambda>language.
        Option.bind (optional (length_between 3 6) ''currency'' body) (\<lambda>currency.
          Some \<lparr>su_notifications = notifications, su_language = language, su_currency = currency\<rparr>))))"

definition default_settings :: "int \<Rightarrow> string \<Rightarrow> UserSettings" where
  "default_settings now wallet =
     \<lparr>us_walletAddress = wallet, us_joinDate = now,
      us_notifications = \<lparr>ns_loanApproved = True, ns_loanRepaid = True, ns_liquidationWarning = True\<rparr>,
      us_language = ''en'', us_currency = ''USD''\<rparr>"

definition merge_settings :: "UserSettings \<Rightarrow> settings_update \<Rightarrow> UserSettings" where
  "merge_settings old u =
     old\<lparr>us_notifications := case_option (us_notifications old) id (su_notifications u),
         us_language := case_option (us_language old) id (su_language u),
         us_currency := case_option (us_currency old) id (su_currency u)\<rparr>"

definition settings_json :: "(int \<Rightarrow> string) \<Rightarrow> UserSettings \<Rightarrow> json" where
  "settings_json show_iso u = JObj
     [(''walletAddress'', JStr (us_walletAddress u)), (''joinDate'', JStr (show_iso (us_joinDate u))),
      (''notifications'', JObj
         [(''loanApproved'', JBool (ns_loanApproved (us_notifications u))),
          (''loanRepaid'', JBool (ns_loanRepaid (us_notifications u))),
          (''liquidationWarning'', JBool (ns_liquidationWarning (us_notifications u)))]),
      (''language'', JStr (us_language u)), (''currency'', JStr (us_currency u))]"

type_synonym settings_store = "(string, UserSettings) js_map"

definition get_settings :: "string \<Rightarrow> api_env \<Rightarrow> int \<Rightarrow> settings_store \<Rightarrow> response" where
  "get_settings wallet env now st =
     (case m_get st wallet of
        None \<Rightarrow> respond 200 (settings_json (ev_iso env) (default_settings now wallet))
      | Some existing \<Rightarrow> respond 200 (settings_json (ev_iso env) existing))"

definition put_settings :: "string \<Rightarrow> api_env \<Rightarrow> int \<Rightarrow> request \<Rightarrow> settings_store \<Rightarrow> outcome \<times> settings_store" where
  "put_settings wallet env now req st =
     (case settingsSchema (rq_body req) of
        None \<Rightarrow> (invalid_body env (rq_body req), st)
      | Some data \<Rightarrow>
          (let existing = (case m_get st wallet of None \<Rightarrow> default_settings now wallet | Some e \<Rightarrow> e);
               updated = merge_settings existing data in
           (ok (settings_json (ev_iso env) updated), m_set wallet updated st)))"

subsection \<open>The status of a submitted transaction\<close>

text \<open>\<open>rpc_answer\<close> is the RPC server's answer, as JSON; an absent one is \<open>JNull\<close>.\<close>

definition rpc_status :: "json \<Rightarrow> json" where
  "rpc_status result =
     (case field ''status'' result of None \<Rightarrow> JStr ''NOT_FOUND'' | Some JNull \<Rightarrow> JStr ''NOT_FOUND'' | Some v \<Rightarrow> v)"

definition present :: "string \<Rightarrow> json option \<Rightarrow> (string \<times> json) list" where
  "present f v = jopt f (\<lambda>x. x) v"

definition tx_status :: "(string \<Rightarrow> js_error + json) \<Rightarrow> string \<Rightarrow> response" where
  "tx_status rpc_answer hash =
     (if \<not> is_tx_hash hash
      then respond 400 (JObj [(''error'', JStr ''Validation failed''), (''message'', JStr ''hash must be a 64-char hex string'')])
      else (case rpc_answer hash of
         Inl e \<Rightarrow> respond 502 (JObj [(''error'', JStr ''RPC error''), (''message'', JStr (err_message e))])
       | Inr result \<Rightarrow>
           if rpc_status result = JStr ''SUCCESS''
           then respond 200 (JObj ((''status'', JStr ''success'') # present ''ledger'' (field ''ledger'' result)))
           else if rpc_status result = JStr ''FAILED''
           then respond 200 (JObj ((''status'', JStr ''failed'') #
                  present ''errorCode'' (case field ''resultXdr'' result of Some JNull \<Rightarrow> None | x \<Rightarrow> x)))
           else respond 200 (JObj [(''status'', JStr ''pending'')])))"

text \<open>Its limiter counts ten requests in six seconds, per wallet or address.\<close>

definition tx_status_window_ms :: int where "tx_status_window_ms = 6 * 1000"

definition tx_status_key :: "string option \<Rightarrow> request \<Rightarrow> string" where
  "tx_status_key ip req =
     (case user_key req of Some k \<Rightarrow> k | None \<Rightarrow> (case ip of Some a \<Rightarrow> a | None \<Rightarrow> ''anonymous''))"

definition tx_status_limited :: response where
  "tx_status_limited = with_header ''Retry-After'' ''6'' (respond 429 (JObj
     [(''error'', JStr ''Too many requests''),
      (''message'', JStr ''Transaction status polling is rate-limited to 10 req/s''), (''retryAfter'', jint 6)]))"


subsection \<open>Routing\<close>

text \<open>The routes in the order of their registration; the first one that fits is taken. A segment
  \<open>:\<close> stands for a parameter. Paths are compared as they are written in the source.\<close>

datatype v1_endpoint =
    HealthLive | HealthReady | HealthDeep | HealthShallow
  | RegisterCollateral | RegisterBatch | RequestLoan | RepayLoan | LiquidateLoan
  | LoanOnChain string | HealthFactor string | CollateralById string | ListLoans
  | PriceUpdate | NewWebhook | ListWebhooks | WebhookLogs | DeleteWebhook string | AlertsWebhook
  | AdminUsers | ModerationQueue | Statistics | GetSettings string | PutSettings string | TxStatus string

definition v1_table :: "(string \<times> string list \<times> (string \<Rightarrow> v1_endpoint)) list" where
  "v1_table =
     [(''GET'', [''health'', ''live''], \<lambda>_. HealthLive),
      (''GET'', [''health'', ''ready''], \<lambda>_. HealthReady),
      (''GET'', [''health'', ''deep''], \<lambda>_. HealthDeep),
      (''GET'', [''health''], \<lambda>_. HealthShallow),
      (''POST'', [''collateral'', ''register''], \<lambda>_. RegisterCollateral),
      (''POST'', [''collateral'', ''register'', ''batch''], \<lambda>_. RegisterBatch),
      (''POST'', [''loan'', ''request''], \<lambda>_. RequestLoan),
      (''POST'', [''loan'', ''repay''], \<lambda>_. RepayLoan),
      (''POST'', [''loan'', ''liquidate''], \<lambda>_. LiquidateLoan),
      (''GET'', [''loan'', '':''], LoanOnChain),
      (''GET'', [''health'', '':''], HealthFactor),
      (''GET'', [''collateral'', '':''], CollateralById),
      (''GET'', [''loans''], \<lambda>_. ListLoans),
      (''POST'', [''oracle'', ''price-update''], \<lambda>_. PriceUpdate),
      (''POST'', [''webhooks''], \<lambda>_. NewWebhook),
      (''GET'', [''admin'', ''webhooks''], \<lambda>_. ListWebhooks),
      (''GET'', [''admin'', ''webhooks'', ''logs''], \<lambda>_. WebhookLogs),
      (''DELETE'', [''webhooks'', '':''], DeleteWebhook),
      (''POST'', [''alerts'', ''webhook''], \<lambda>_. AlertsWebhook),
      (''GET'', [''admin'', ''users''], \<lambda>_. AdminUsers),
      (''GET'', [''admin'', ''moderation-queue''], \<lambda>_. ModerationQueue),
      (''GET'', [''admin'', ''statistics''], \<lambda>_. Statistics),
      (''GET'', [''settings'', '':''], GetSettings),
      (''PUT'', [''settings'', '':''], PutSettings),
      (''GET'', [''transactions'', '':'', ''status''], TxStatus)]"

fun match_segments :: "string list \<Rightarrow> string list \<Rightarrow> string \<Rightarrow> string option" where
  "match_segments [] [] k = Some k"
| "match_segments (p # ps) (x # xs) k =
     (if p = '':'' then (if x = [] then None else match_segments ps xs x)
      else if p = x then match_segments ps xs k else None)"
| "match_segments _ _ _ = None"

fun first_route :: "(string \<times> string list \<times> (string \<Rightarrow> 'a)) list \<Rightarrow> string \<Rightarrow> string list \<Rightarrow> 'a option" where
  "first_route [] m segs = None"
| "first_route ((m', ps, f) # rs) m segs =
     (if m' = m then (case match_segments ps segs [] of Some k \<Rightarrow> Some (f k) | None \<Rightarrow> first_route rs m segs)
      else first_route rs m segs)"

text \<open>The state of the module and of those it uses, and what the outside does during one request.\<close>

record v1_state =
  vs_api :: api_state
  vs_settings :: settings_store
  vs_fired :: last_fired
  vs_pool :: ConnectionPool

record v1_env =
  ve_api :: api_env
  ve_alerts :: alert_env
  ve_version :: string
  ve_startTime :: int
  ve_getHealth :: "nat \<Rightarrow> nat \<Rightarrow> js_error + unit"
  ve_db :: bool
  ve_rpc :: bool
  ve_disk :: bool
  ve_json_parse :: "json option \<Rightarrow> js_error + json"
  ve_fetch :: "json \<Rightarrow> js_error + unit"
  ve_tx :: "string \<Rightarrow> js_error + json"
  ve_uuid :: string
  ve_random32 :: string

definition on_api :: "handler \<Rightarrow> v1_env \<Rightarrow> int \<Rightarrow> request \<Rightarrow> v1_state \<Rightarrow> outcome \<times> v1_state" where
  "on_api h env now req s = (let (r, a) = h (ve_api env) now req (vs_api s) in (r, s\<lparr>vs_api := a\<rparr>))"

fun v1_serve :: "v1_endpoint \<Rightarrow> v1_env \<Rightarrow> int \<Rightarrow> request \<Rightarrow> v1_state \<Rightarrow> outcome \<times> v1_state" where
  "v1_serve HealthLive env now req s = (Inr health_live, s)"
| "v1_serve HealthReady env now req s = (Inr (health_ready (ve_db env) (ve_rpc env)), s)"
| "v1_serve HealthDeep env now req s = (Inr (health_deep (ve_db env) (ve_rpc env) (ve_disk env)), s)"
| "v1_serve HealthShallow env now req s =
     (let (r, p) = v1_health (ve_version env) (ve_startTime env) (ve_getHealth env) now (vs_pool s) in
      (Inr r, s\<lparr>vs_pool := p\<rparr>))"
| "v1_serve RegisterCollateral env now req s = on_api v1_register_collateral env now req s"
| "v1_serve RegisterBatch env now req s = on_api v1_register_batch env now req s"
| "v1_serve RequestLoan env now req s = on_api v1_loan_request env now req s"
| "v1_serve RepayLoan env now req s = on_api v1_loan_repay env now req s"
| "v1_serve LiquidateLoan env now req s = on_api v1_loan_liquidate env now req s"
| "v1_serve (LoanOnChain k) env now req s = on_api v1_loan_on_chain env now req s"
| "v1_serve (HealthFactor k) env now req s = on_api v1_health_factor env now req s"
| "v1_serve (CollateralById k) env now req s = on_api (v1_collateral_by_id k) env now req s"
| "v1_serve ListLoans env now req s = on_api v1_loans env now req s"
| "v1_serve PriceUpdate env now req s = on_api v1_price_update env now req s"
| "v1_serve NewWebhook env now req s = on_api (v1_register_webhook (ve_uuid env) (ve_random32 env)) env now req s"
| "v1_serve ListWebhooks env now req s = on_api v1_list_webhooks env now req s"
| "v1_serve WebhookLogs env now req s = on_api v1_webhook_logs env now req s"
| "v1_serve (DeleteWebhook k) env now req s = on_api (v1_delete_webhook k) env now req s"
| "v1_serve AlertsWebhook env now req s =
     (let (r, a) = v1_alerts_webhook (ve_alerts env) (ve_json_parse env) (ve_fetch env) now req (vs_fired s) in
      (r, s\<lparr>vs_fired := ah_fired a\<rparr>))"
| "v1_serve AdminUsers env now req s = on_api v1_admin_users env now req s"
| "v1_serve ModerationQueue env now req s = on_api v1_moderation_queue env now req s"
| "v1_serve Statistics env now req s = on_api v1_statistics env now req s"
| "v1_serve (GetSettings w) env now req s = (Inr (get_settings w (ve_api env) now (vs_settings s)), s)"
| "v1_serve (PutSettings w) env now req s =
     (let (r, st) = put_settings w (ve_api env) now req (vs_settings s) in (r, s\<lparr>vs_settings := st\<rparr>))"
| "v1_serve (TxStatus h) env now req s = (Inr (tx_status (ve_tx env) h), s)"

text \<open>A request the router does not answer is \<open>None\<close>.\<close>

definition v1_router :: "v1_env \<Rightarrow> int \<Rightarrow> string list \<Rightarrow> request \<Rightarrow> v1_state \<Rightarrow> outcome option \<times> v1_state" where
  "v1_router env now segs req s =
     (case first_route v1_table (rq_method req) segs of
        None \<Rightarrow> (None, s)
      | Some e \<Rightarrow> (let (r, s') = v1_serve e env now req s in (Some (map_sum id api_version r), s')))"

subsection \<open>The stub of version 2\<close>

text \<open>
  The patterns of the catch-all fit the root and a single segment (in the syntax of path-to-regexp 8
  braces enclose an optional part); a longer path falls through to whatever comes after the router.
\<close>

definition v2_router :: "string list \<Rightarrow> response option" where
  "v2_router segs =
     (if length segs \<le> 1
      then Some ((respond 501 (JObj [(''error'', JStr ''Not Implemented''),
        (''message'', JStr ''API v2 is not yet available. Use /api/v1 endpoints.'')]))\<lparr>rs_headers := [(''API-Version'', ''2'')]\<rparr>)
      else None)"

subsection \<open>Facts\<close>

lemma spread_absent:
  "distinct (map fst (obj @ kvs)) \<Longrightarrow> spread kvs obj = obj @ kvs"
proof (induction kvs arbitrary: obj)
  case (Cons p kvs)
  obtain k v where p: "p = (k, v)" by (cases p)
  have "m_get obj k = None"
    using Cons.prems by (auto simp: p m_get_def map_of_eq_None_iff)
  then have "spread (p # kvs) obj = spread kvs (obj @ [(k, v)])"
    by (simp add: spread_def p m_set_absent)
  also have "\<dots> = (obj @ [(k, v)]) @ kvs"
    using Cons.prems by (intro Cons.IH) (simp add: p)
  finally show ?case by (simp add: p)
qed (simp add: spread_def)

lemma on_api_settings [simp]: "vs_settings (snd (on_api h env now req s)) = vs_settings s"
  by (simp add: on_api_def split_beta)

text \<open>The routes that need the loan service fail for every request and change nothing.\<close>

lemma v1_loan_routes_fail:
  assumes "e \<in> {RequestLoan, RepayLoan, LiquidateLoan, LoanOnChain k, HealthFactor k, ListLoans, AdminUsers, ModerationQueue, Statistics}"
  shows "\<exists>x. v1_serve e env now req s = (Inl (reference_error x), s)"
  using assms
  by (auto simp: on_api_def v1_loan_request_def v1_loan_repay_def v1_loan_liquidate_def v1_loan_on_chain_def
      v1_health_factor_def v1_loans_def v1_admin_users_def v1_moderation_queue_def v1_statistics_def)

text \<open>The server fetches whatever URL a caller sends as a subscription.\<close>

lemma subscribe_url_fetched:
  assumes "header ''x-amz-sns-message-type'' req = Some ''SubscriptionConfirmation''"
    "field ''SubscribeURL'' (rq_body req) = Some (JStr u)" "u \<noteq> []"
  shows "ah_fetched (snd (v1_alerts_webhook al pj f now req lf)) = [JStr u]"
proof -
  have "rq_body req \<noteq> JNull" using assms(2) by auto
  then show ?thesis using assms by (simp add: v1_alerts_webhook_def Let_def)
qed

lemma backup_alert_only:
  assumes "ah_posts (snd (v1_alerts_webhook al pj f now req lf)) \<noteq> []"
  shows "\<exists>m. pj (field ''Message'' (rq_body req)) = Inr m \<and> backup_failed m"
  using assms by (auto simp: v1_alerts_webhook_def Let_def split: option.splits if_splits sum.splits)

lemma optional_Some:
  "optional p f body = Some x \<Longrightarrow> x = None \<or> (\<exists>v y. field f body = Some v \<and> p v = Some y \<and> x = Some y)"
  by (auto simp: optional_def split: option.splits)

definition settings_ok :: "string \<Rightarrow> UserSettings \<Rightarrow> bool" where
  "settings_ok w u \<longleftrightarrow> us_walletAddress u = w \<and> 2 \<le> length (us_language u) \<and> length (us_language u) \<le> 10 \<and>
     3 \<le> length (us_currency u) \<and> length (us_currency u) \<le> 6"

lemma length_between_Some: "length_between lo hi v = Some s \<longleftrightarrow> v = JStr s \<and> lo \<le> length s \<and> length s \<le> hi"
  by (auto simp: length_between_def zod_string_def bind_eq_Some_conv split: json.splits)

lemma settingsSchema_Some:
  assumes "settingsSchema body = Some u"
  shows "su_language u = Some l \<Longrightarrow> 2 \<le> length l \<and> length l \<le> 10"
    and "su_currency u = Some c \<Longrightarrow> 3 \<le> length c \<and> length c \<le> 6"
  using assms
  by (auto simp: settingsSchema_def bind_eq_Some_conv length_between_Some split: if_splits dest!: optional_Some)

lemma settings_ok_default: "settings_ok w (default_settings now w)"
  by (simp add: settings_ok_def default_settings_def)

lemma settings_ok_merge:
  assumes "settingsSchema body = Some u" "settings_ok w old"
  shows "settings_ok w (merge_settings old u)"
  using assms settingsSchema_Some [OF assms(1)]
  by (auto simp: settings_ok_def merge_settings_def split: option.splits)

lemma put_settings_ok:
  assumes "\<And>w u. m_get st w = Some u \<Longrightarrow> settings_ok w u" "put_settings k env now req st = (r, st')"
    "m_get st' w = Some u"
  shows "settings_ok w u"
  using assms settings_ok_merge settings_ok_default
  by (auto simp: put_settings_def Let_def split: option.splits if_splits)

lemma v1_serve_settings:
  assumes "v1_serve e env now req s = (r, s')"
  shows "vs_settings s' = vs_settings s \<or>
    (\<exists>w r'. e = PutSettings w \<and> put_settings w (ve_api env) now req (vs_settings s) = (r', vs_settings s'))"
  using assms by (cases "(e, env, now, req, s)" rule: v1_serve.cases) (auto simp: on_api_def split: prod.splits)

text \<open>What an accepted update says is what is read back, whenever that is; the other wallets keep theirs.\<close>

lemma settings_read_back:
  assumes "put_settings w env now req st = (Inr r, st')" "rs_status r = 200"
  shows "get_settings w env t st' = r" "w' \<noteq> w \<Longrightarrow> get_settings w' env t st' = get_settings w' env t st"
  using assms
  by (auto simp: put_settings_def get_settings_def invalid_body_def Let_def split: option.splits)


subsection \<open>Properties\<close>

type_synonym v1_call = "v1_env \<times> int \<times> string list \<times> request"

definition v1_run :: "v1_call list \<Rightarrow> v1_state \<Rightarrow> v1_state" where
  "v1_run calls s0 = foldl (\<lambda>s (env, now, segs, req). snd (v1_router env now segs req s)) s0 calls"

definition put_call :: "string \<Rightarrow> int \<Rightarrow> v1_call \<Rightarrow> bool" where
  "put_call w t c \<longleftrightarrow> (case c of (env, now, segs, req) \<Rightarrow>
     now = t \<and> segs = [''settings'', w] \<and> rq_method req = ''PUT'' \<and> settingsSchema (rq_body req) \<noteq> None)"

lemma match_two: "match_segments [p, '':''] segs k = Some w \<Longrightarrow> p \<noteq> '':'' \<Longrightarrow> segs = [p, w]"
  by (cases segs; cases "tl segs") (auto split: if_splits elim: match_segments.elims)

lemma first_route_Some:
  "first_route rs m segs = Some e \<Longrightarrow> \<exists>(m', ps, f) \<in> set rs. m' = m \<and> (\<exists>k. match_segments ps segs [] = Some k \<and> e = f k)"
  by (induction rs m segs rule: first_route.induct) (auto split: if_splits option.splits)

lemma put_route:
  assumes "first_route v1_table m segs = Some (PutSettings w)"
  shows "m = ''PUT'' \<and> segs = [''settings'', w]"
  using first_route_Some [OF assms] by (auto simp: v1_table_def dest!: match_two)

lemma put_settings_join:
  assumes "put_settings w env now req st = (r, st')" "m_get st' w' = Some u"
  shows "(\<exists>u'. m_get st w' = Some u' \<and> us_joinDate u = us_joinDate u') \<or>
    w' = w \<and> us_joinDate u = now \<and> settingsSchema (rq_body req) \<noteq> None"
  using assms
  by (auto simp: put_settings_def merge_settings_def default_settings_def Let_def split: option.splits if_splits)

lemma v1_router_settings:
  assumes "m_get (vs_settings (snd (v1_router env now segs req s))) w = Some u"
  shows "(\<exists>u'. m_get (vs_settings s) w = Some u' \<and> us_joinDate u = us_joinDate u') \<or> put_call w (us_joinDate u) (env, now, segs, req)"
proof (cases "first_route v1_table (rq_method req) segs")
  case (Some e)
  obtain r s' where s': "v1_serve e env now req s = (r, s')" by (cases "v1_serve e env now req s")
  then have u: "m_get (vs_settings s') w = Some u" using assms by (simp add: v1_router_def Some)
  show ?thesis
  proof (cases "vs_settings s' = vs_settings s")
    case False
    then obtain w0 r' where e: "e = PutSettings w0"
        and p: "put_settings w0 (ve_api env) now req (vs_settings s) = (r', vs_settings s')"
      using v1_serve_settings [OF s'] by blast
    then show ?thesis using put_settings_join [OF p u] put_route [of "rq_method req" segs w0] Some
      by (auto simp: put_call_def)
  qed (use u in auto)
qed (use assms in \<open>simp add: v1_router_def\<close>)

lemma v1_router_settings_ok:
  assumes "\<And>w u. m_get (vs_settings s) w = Some u \<Longrightarrow> settings_ok w u"
    and "m_get (vs_settings (snd (v1_router env now segs req s))) w = Some u"
  shows "settings_ok w u"
proof (cases "first_route v1_table (rq_method req) segs")
  case (Some e)
  obtain r s' where s': "v1_serve e env now req s = (r, s')" by (cases "v1_serve e env now req s")
  then have u: "m_get (vs_settings s') w = Some u" using assms(2) by (simp add: v1_router_def Some)
  show ?thesis using v1_serve_settings [OF s'] put_settings_ok [OF assms(1)] assms(1) u by metis
qed (use assms in \<open>simp add: v1_router_def\<close>)

lemma v1_run_snoc: "v1_run (cs @ [(env, now, segs, req)]) s0 = snd (v1_router env now segs req (v1_run cs s0))"
  by (simp add: v1_run_def)

text \<open>C37: Whatever requests the router serves, the settings it holds for a wallet name that wallet, keep
  their language and currency within the lengths the schema allows, and carry as join date the time of
  an accepted update of that wallet's settings.\<close>

theorem settings_always_typed:
  assumes "vs_settings s0 = []" "m_get (vs_settings (v1_run calls s0)) w = Some u"
  shows "us_walletAddress u = w \<and> length (us_language u) \<in> {2..10} \<and> length (us_currency u) \<in> {3..6} \<and>
    (\<exists>c. c \<in> set calls \<and> put_call w (us_joinDate u) c)"
proof -
  have "(\<forall>w u. m_get (vs_settings (v1_run calls s0)) w = Some u \<longrightarrow>
      settings_ok w u \<and> (\<exists>c\<in>set calls. put_call w (us_joinDate u) c))"
  proof (induction calls rule: rev_induct)
    case (snoc c cs)
    obtain env now segs req where c: "c = (env, now, segs, req)" by (cases c)
    show ?case
      unfolding c v1_run_snoc
    proof (intro allI impI conjI)
      fix w u assume u: "m_get (vs_settings (snd (v1_router env now segs req (v1_run cs s0)))) w = Some u"
      show "settings_ok w u" using v1_router_settings_ok [OF _ u] snoc.IH by blast
      show "\<exists>c\<in>set (cs @ [(env, now, segs, req)]). put_call w (us_joinDate u) c"
        using v1_router_settings [OF u] snoc.IH by auto
    qed
  qed (simp add: v1_run_def assms(1))
  then show ?thesis using assms(2) unfolding settings_ok_def atLeastAtMost_iff by blast
qed


definition calm_v1 :: v1_env where
  "calm_v1 = \<lparr>ve_api = calm_api, ve_alerts = quiet_env, ve_version = ''1.0.0'', ve_startTime = 0,
     ve_getHealth = (\<lambda>_ _. Inr ()), ve_db = True, ve_rpc = True, ve_disk = True,
     ve_json_parse = (\<lambda>_. Inr JNull), ve_fetch = (\<lambda>_. Inr ()), ve_tx = (\<lambda>_. Inr JNull),
     ve_uuid = ''u1'', ve_random32 = ''r''\<rparr>"

definition fresh_v1 :: v1_state where
  "fresh_v1 = \<lparr>vs_api = initial_api, vs_settings = [], vs_fired = [], vs_pool = new_pool 1 4\<rparr>"

definition language_call :: v1_call where
  "language_call = (calm_v1, 5, [''settings'', ''G1''],
     \<lparr>rq_method = ''PUT'', rq_path = ''/settings/G1'', rq_query = [], rq_headers = [],
      rq_body = JObj [(''language'', JStr ''de'')], rq_user = None\<rparr>)"

lemma language_call_stored:
  "m_get (vs_settings (v1_run [language_call] fresh_v1)) ''G1'' = Some ((default_settings 5 ''G1'')\<lparr>us_language := ''de''\<rparr>)"
  by (simp add: v1_run_def language_call_def v1_router_def v1_table_def put_settings_def settingsSchema_def
      optional_def length_between_def zod_string_def is_object_def merge_settings_def fresh_v1_def Let_def)

theorem settings_always_typed_witness:
  "us_walletAddress ((default_settings 5 ''G1'')\<lparr>us_language := ''de''\<rparr>) = ''G1'' \<and>
   length ''de'' \<in> {2..10::nat} \<and> put_call ''G1'' 5 language_call"
  using settings_always_typed [OF _ language_call_stored]
  by (simp add: fresh_v1_def default_settings_def)

end
