(* ===== verification/Ledger_Spec.thy ===== *)
theory Ledger_Spec
  imports Collateral_Api Health_Job
begin

section \<open>The ledger the routes implement\<close>

text \<open>
  An abstract specification of what the backend keeps: who holds which collateral at which value, and
  which debts are open on it. Its steps say what may happen to such a ledger: collateral is registered
  or withdrawn, money is lent on free collateral within the loan-to-value cap, a debt is paid down, and
  a debt below the liquidation threshold is closed; corrections of the books are acts of their own. The theorem
  is the refinement: every run of the routes and jobs that lend, take or release collateral, seen through
  the abstraction, is a run of ledger steps.
\<close>

record holding =
  ho_owner :: string
  ho_value :: rat

record debt =
  db_borrower :: string
  db_collateral :: string
  db_amount :: rat
  db_open :: bool

record ledger =
  holdings :: "string \<Rightarrow> holding option"
  debts :: "string \<Rightarrow> debt option"

definition encumbered :: "ledger \<Rightarrow> string \<Rightarrow> bool" where
  "encumbered L c \<longleftrightarrow> (\<exists>k d. debts L k = Some d \<and> db_open d \<and> db_collateral d = c)"

definition debt_health :: "ledger \<Rightarrow> debt \<Rightarrow> rat option" where
  "debt_health L d =
     computeHealthFactor (case holdings L (db_collateral d) of None \<Rightarrow> 0 | Some h \<Rightarrow> ho_value h) (db_amount d)"

text \<open>What may happen to a ledger, and how. The last three acts are corrections by an administrator
  or an appraiser: a new value for a holding, a debt struck off the ledger, and one put back.\<close>

datatype ledger_act = ARegister | AWithdraw | ALend | ARepay | ASeize | ARevalue | AForget | AReopen

inductive act_step :: "ledger_act \<Rightarrow> ledger \<Rightarrow> ledger \<Rightarrow> bool" where
  register: "holdings L c = None \<Longrightarrow> act_step ARegister L (L\<lparr>holdings := (holdings L)(c \<mapsto> h)\<rparr>)"
| withdraw: "holdings L c = Some h \<Longrightarrow> \<not> encumbered L c \<Longrightarrow>
    act_step AWithdraw L (L\<lparr>holdings := (holdings L)(c := None)\<rparr>)"
| lend: "holdings L c = Some h \<Longrightarrow> \<not> encumbered L c \<Longrightarrow> debts L k = None \<Longrightarrow> a \<le> js_mul (ho_value h) (fl (4 / 5)) \<Longrightarrow>
    act_step ALend L (L\<lparr>debts := (debts L)(k \<mapsto> \<lparr>db_borrower = b, db_collateral = c, db_amount = a, db_open = True\<rparr>)\<rparr>)"
| repay: "debts L k = Some d \<Longrightarrow> 0 < x \<Longrightarrow> x \<le> db_amount d \<Longrightarrow>
    act_step ARepay L (L\<lparr>debts := (debts L)(k \<mapsto> d\<lparr>db_amount := js_sub (db_amount d) x\<rparr>)\<rparr>)"
| seize: "debts L k = Some d \<Longrightarrow> debt_health L d = Some f \<Longrightarrow> f < SCALE \<Longrightarrow>
    act_step ASeize L (L\<lparr>debts := (debts L)(k \<mapsto> d\<lparr>db_open := False\<rparr>)\<rparr>)"
| revalue: "holdings L c = Some h \<Longrightarrow> act_step ARevalue L (L\<lparr>holdings := (holdings L)(c \<mapsto> h\<lparr>ho_value := v\<rparr>)\<rparr>)"
| forget: "debts L k = Some d \<Longrightarrow> act_step AForget L (L\<lparr>debts := (debts L)(k := None)\<rparr>)"
| reopen: "debts L k = None \<Longrightarrow> act_step AReopen L (L\<lparr>debts := (debts L)(k \<mapsto> d)\<rparr>)"

text \<open>Without corrections, a step of the ledger is one of the first five acts.\<close>

definition ledger_step :: "ledger \<Rightarrow> ledger \<Rightarrow> bool" where
  "ledger_step L M \<longleftrightarrow> (\<exists>a \<in> {ARegister, AWithdraw, ALend, ARepay, ASeize}. act_step a L M)"

text \<open>An operation that is meant for one act, or for none, does this act or leaves the ledger alone.\<close>

definition may_step :: "ledger_act option \<Rightarrow> ledger \<Rightarrow> ledger \<Rightarrow> bool" where
  "may_step act L M \<longleftrightarrow> M = L \<or> (\<exists>a. act = Some a \<and> act_step a L M)"

lemma may_step_same [simp]: "may_step act L L"
  by (simp add: may_step_def)

lemma may_stepI: "act_step a L M \<Longrightarrow> N = M \<Longrightarrow> may_step (Some a) L N"
  by (simp add: may_step_def)

text \<open>The abstraction: live records only, of a loan what it owes and whether it is open.\<close>

definition holding_of :: "CollateralRecord \<Rightarrow> holding" where
  "holding_of c = \<lparr>ho_owner = c_owner c, ho_value = c_appraised_value c\<rparr>"

definition debt_of :: "LoanRecord \<Rightarrow> debt" where
  "debt_of r = \<lparr>db_borrower = l_borrower r, db_collateral = l_collateral_id r, db_amount = l_amount r,
     db_open = is_open_status (l_status r)\<rparr>"

definition ledger_of :: "store \<Rightarrow> ledger" where
  "ledger_of s = \<lparr>holdings = (\<lambda>c. map_option holding_of (getCollateral c s)),
     debts = (\<lambda>k. map_option debt_of (getLoan k s))\<rparr>"

subsection \<open>The calls\<close>

datatype ledger_call =
    CreateLoan string request
  | RecordRepayment string request
  | RegisterCollateralRecord string request
  | DeleteCollateral string request
  | Liquidate string string LoanLiquidateInput
  | HealthRun job_env "nat \<Rightarrow> int" job_state

fun run_call :: "api_env \<Rightarrow> int \<Rightarrow> ledger_call \<Rightarrow> api_state \<Rightarrow> api_state" where
  "run_call env now (CreateLoan uuid req) s = snd (loan_create uuid env now req s)"
| "run_call env now (RecordRepayment k req) s = snd (record_repayment k env now req s)"
| "run_call env now (RegisterCollateralRecord uuid req) s = snd (create_collateral_v1 uuid env now req s)"
| "run_call env now (DeleteCollateral k req) s = snd (delete_collateral k env now req s)"
| "run_call env now (Liquidate rnd1 rnd2 i) s =
     (let (_, out, st, h) = liquidateLoan (ev_service env) now rnd1 rnd2 i (as_store s) (as_hooks s) in
      s\<lparr>as_store := st, as_hooks := h, as_sent := as_sent s @ out\<rparr>)"
| "run_call env now (HealthRun je clock jb) s =
     s\<lparr>as_store := jb_store (snd (snd (runHealthFactorJob je clock (jb\<lparr>jb_store := as_store s\<rparr>))))\<rparr>"

text \<open>The act each call is meant for; a run of the health job is meant for none.\<close>

fun call_act :: "ledger_call \<Rightarrow> ledger_act option" where
  "call_act (CreateLoan uuid req) = Some ALend"
| "call_act (RecordRepayment k req) = Some ARepay"
| "call_act (RegisterCollateralRecord uuid req) = Some ARegister"
| "call_act (DeleteCollateral k req) = Some AWithdraw"
| "call_act (Liquidate rnd1 rnd2 i) = Some ASeize"
| "call_act (HealthRun je clock jb) = None"

text \<open>The identifiers a call generates are new.\<close>

fun fresh_call :: "ledger_call \<Rightarrow> store \<Rightarrow> bool" where
  "fresh_call (CreateLoan uuid req) s = (m_get (loanTable s) uuid = None)"
| "fresh_call (RegisterCollateralRecord uuid req) s = (m_get (collateralTable s) uuid = None)"
| "fresh_call _ s = True"

type_synonym timed_call = "api_env \<times> int \<times> ledger_call"

definition run_calls :: "timed_call list \<Rightarrow> api_state \<Rightarrow> api_state" where
  "run_calls cs s = foldl (\<lambda>s (env, now, c). run_call env now c s) s cs"

fun fresh_calls :: "timed_call list \<Rightarrow> api_state \<Rightarrow> bool" where
  "fresh_calls [] s = True"
| "fresh_calls ((env, now, c) # cs) s = (fresh_call c (as_store s) \<and> fresh_calls cs (run_call env now c s))"

subsection \<open>One call is at most one step\<close>

lemma ledger_of_sel [simp]:
  "holdings (ledger_of s) c = map_option holding_of (getCollateral c s)"
  "debts (ledger_of s) k = map_option debt_of (getLoan k s)"
  by (simp_all add: ledger_of_def)

lemma ledger_eqI:
  "(\<And>c. holdings L c = holdings M c) \<Longrightarrow> (\<And>k. debts L k = debts M k) \<Longrightarrow> L = (M :: ledger)"
  by (cases L; cases M) auto

lemma debt_of_sel [simp]:
  "db_open (debt_of r) = is_open_status (l_status r)" "db_collateral (debt_of r) = l_collateral_id r"
  "db_amount (debt_of r) = l_amount r" "db_borrower (debt_of r) = l_borrower r"
  by (simp_all add: debt_of_def)

lemma encumbered_pledged:
  assumes "store_wf s" shows "encumbered (ledger_of s) c \<longleftrightarrow> isCollateralPledged c s"
  unfolding isCollateralPledged_iff [OF assms] encumbered_def ledger_of_sel map_option_eq_Some
  by (metis debt_of_sel(1,2))

lemma debt_health_loan: "debt_health (ledger_of s) (debt_of r) = loan_hf r s"
  by (simp add: debt_health_def loan_hf_def collateral_value_def debt_of_def holding_of_def split: option.split)

lemma step_loan_create:
  assumes "store_wf (as_store s)" "m_get (loanTable (as_store s)) uuid = None"
  shows "may_step (Some ALend) (ledger_of (as_store s)) (ledger_of (as_store (snd (loan_create uuid env now req s)))) \<and>
    store_wf (as_store (snd (loan_create uuid env now req s)))"
proof (cases "loan_create_enter env req s")
  case (Pair entered s1)
  have same: "as_store s1 = as_store s" using loan_create_enter_store [of env req s] Pair by simp
  show ?thesis
  proof (cases entered)
    case (Inr ia)
    obtain i a where ia: "ia = (i, a)" by (cases ia)
    obtain c where c: "getCollateral (cl_collateralId i) (as_store s) = Some c"
        "\<not> isCollateralPledged (cl_collateralId i) (as_store s)" "a = create_amount (c_appraised_value c) (cl_requestedAmount i)"
    proof -
      have "loan_create_enter env req s = (Inr (i, a), s1)" using Pair Inr ia by simp
      then show ?thesis using that unfolding loan_create_enter_Inr by blast
    qed
    show ?thesis
    proof (cases "loan_create_tx env i a")
      case (Inr xdr)
      let ?new = "(as_store s)\<lparr>loanTable := m_set uuid (created_loan now uuid i a) (loanTable (as_store s))\<rparr>"
      have st: "as_store (snd (loan_create uuid env now req s)) = ?new"
        by (simp add: loan_create_eq Pair \<open>entered = Inr ia\<close> ia Inr loan_create_exit_Inr same)
      have "getLoan uuid (as_store s) = None" using assms(2) by (simp add: getLoan_def)
      then have "act_step ALend (ledger_of (as_store s)) ((ledger_of (as_store s))\<lparr>debts := (debts (ledger_of (as_store s)))(uuid \<mapsto>
          \<lparr>db_borrower = cl_borrowerAddress i, db_collateral = cl_collateralId i, db_amount = a, db_open = True\<rparr>)\<rparr>)"
        using c create_amount_le(2) encumbered_pledged [OF assms(1)]
        by (intro act_step.lend [where h = "holding_of c"]) (auto simp: holding_of_def)
      moreover have "ledger_of ?new = (ledger_of (as_store s))\<lparr>debts := (debts (ledger_of (as_store s)))(uuid \<mapsto>
          \<lparr>db_borrower = cl_borrowerAddress i, db_collateral = cl_collateralId i, db_amount = a, db_open = True\<rparr>)\<rparr>"
        by (rule ledger_eqI) (auto simp: getCollateral_def getLoan_def created_loan_def debt_of_def is_open_status_def)
      moreover have "store_wf ?new"
        using assms(1) by (simp add: store_wf_def table_ok_set created_loan_def loan_ok_def)
      ultimately show ?thesis by (simp add: st may_stepI)
    qed (use assms Pair Inr in \<open>simp add: loan_create_eq ia same\<close>)
  qed (use assms Pair in \<open>simp add: loan_create_eq same\<close>)
qed

lemma record_repayment_store:
  "as_store (snd (record_repayment k env now req s)) = as_store s \<or>
   (\<exists>loan x. getLoan k (as_store s) = Some loan \<and> 0 < x \<and> x \<le> l_amount loan \<and>
      as_store (snd (record_repayment k env now req s)) =
        snd (updateLoan k (no_loan_updates\<lparr>lu_amount := Some (js_sub (l_amount loan) x)\<rparr>) (as_store s)))"
proof (cases "body_field ''amount'' (rq_body req)")
  case (Inr a)
  show ?thesis
  proof (cases a)
    case (Some v)
    then show ?thesis using Inr
      by (cases v; cases "field ''transactionHash'' (rq_body req)"; cases "getLoan k (as_store s)")
        (simp_all add: record_repayment_def Let_def split_beta not_le not_less split: json.split, blast)
  qed (simp add: record_repayment_def Inr)
qed (simp add: record_repayment_def)

lemma step_repayment:
  assumes "store_wf (as_store s)"
  shows "may_step (Some ARepay) (ledger_of (as_store s)) (ledger_of (as_store (snd (record_repayment k env now req s)))) \<and>
    store_wf (as_store (snd (record_repayment k env now req s)))"
proof (cases "as_store (snd (record_repayment k env now req s)) = as_store s")
  case False
  then obtain loan x where l: "getLoan k (as_store s) = Some loan" "0 < x" "x \<le> l_amount loan"
      and st: "as_store (snd (record_repayment k env now req s)) =
        snd (updateLoan k (no_loan_updates\<lparr>lu_amount := Some (js_sub (l_amount loan) x)\<rparr>) (as_store s))"
    using record_repayment_store [of k env now req s] by metis
  have "act_step ARepay (ledger_of (as_store s)) ((ledger_of (as_store s))\<lparr>debts := (debts (ledger_of (as_store s)))(k \<mapsto>
      (debt_of loan)\<lparr>db_amount := js_sub (l_amount loan) x\<rparr>)\<rparr>)"
    using act_step.repay [of "ledger_of (as_store s)" k "debt_of loan" x] l by simp
  moreover have "ledger_of (as_store (snd (record_repayment k env now req s))) =
      (ledger_of (as_store s))\<lparr>debts := (debts (ledger_of (as_store s)))(k \<mapsto> (debt_of loan)\<lparr>db_amount := js_sub (l_amount loan) x\<rparr>)\<rparr>"
    unfolding st by (rule ledger_eqI) (auto simp: updateLoan_get getCollateral_def l(1) debt_of_def)
  ultimately show ?thesis using store_wf_loan_ops(1) [OF assms] by (simp add: st may_stepI)
qed (use assms in simp)

lemma register_collateral:
  assumes "m_get (collateralTable s) uuid = None" "c_id d = uuid"
  shows "may_step (Some ARegister) (ledger_of s) (ledger_of (snd (insertCollateral now d s)))"
proof (rule may_stepI)
  let ?h = "holding_of (fst (insertCollateral now d s))"
  show "act_step ARegister (ledger_of s) ((ledger_of s)\<lparr>holdings := (holdings (ledger_of s))(uuid \<mapsto> ?h)\<rparr>)"
    using assms(1) by (intro act_step.register) (simp add: getCollateral_def)
  show "ledger_of (snd (insertCollateral now d s)) = (ledger_of s)\<lparr>holdings := (holdings (ledger_of s))(uuid \<mapsto> ?h)\<rparr>"
    using assms(2) by (intro ledger_eqI)
      (auto simp: insertCollateral_def getCollateral_def getLoan_def CollateralData.defs Let_def)
qed

lemma step_register:
  assumes "store_wf (as_store s)" "m_get (collateralTable (as_store s)) uuid = None"
  shows "may_step (Some ARegister) (ledger_of (as_store s)) (ledger_of (as_store (snd (create_collateral_v1 uuid env now req s)))) \<and>
    store_wf (as_store (snd (create_collateral_v1 uuid env now req s)))"
proof (cases "as_store (snd (create_collateral_v1 uuid env now req s)) = as_store s")
  case False
  then obtain owner i where
      st: "as_store (snd (create_collateral_v1 uuid env now req s)) = snd (insertCollateral now (v1_collateral uuid owner i) (as_store s))"
    by (auto simp: create_collateral_v1_def Let_def split_beta split: sum.splits option.splits)
  show ?thesis unfolding st
    using register_collateral [OF assms(2)] store_wf_insertCollateral [OF assms(1)] by (simp add: v1_collateral_def)
qed (use assms in simp)

lemma step_delete:
  assumes "store_wf (as_store s)"
  shows "may_step (Some AWithdraw) (ledger_of (as_store s)) (ledger_of (as_store (snd (delete_collateral k env now req s)))) \<and>
    store_wf (as_store (snd (delete_collateral k env now req s)))"
proof (cases "as_store (snd (delete_collateral k env now req s)) = as_store s")
  case False
  then obtain c where c: "getCollateral k (as_store s) = Some c" "\<not> isCollateralPledged k (as_store s)"
      and st: "as_store (snd (delete_collateral k env now req s)) = snd (softDeleteCollateral now k (as_store s))"
    by (auto simp: delete_collateral_eq split: option.splits if_splits)
  have "act_step AWithdraw (ledger_of (as_store s)) ((ledger_of (as_store s))\<lparr>holdings := (holdings (ledger_of (as_store s)))(k := None)\<rparr>)"
    using c encumbered_pledged [OF assms] by (intro act_step.withdraw) auto
  moreover have "ledger_of (as_store (snd (delete_collateral k env now req s))) =
      (ledger_of (as_store s))\<lparr>holdings := (holdings (ledger_of (as_store s)))(k := None)\<rparr>"
    unfolding st using c(1) by (intro ledger_eqI)
      (auto simp: softDeleteCollateral_def getCollateral_def getLoan_def split: option.splits if_splits)
  ultimately show ?thesis using store_wf_collateral_ops(3) [OF assms] by (simp add: st may_stepI)
qed (use assms in simp)


lemma liquidateLoan_cases:
  assumes "store_wf s" "liquidateLoan env now rnd1 rnd2 i s h = (res, out, s', h')"
  shows "s' = s \<or> (\<exists>loan f. getLoan (l_id loan) s = Some loan \<and> loan_hf loan s = Some f \<and> f < SCALE \<and>
    (\<forall>k. getLoan k s' = (if k = l_id loan then Some (loan\<lparr>l_status := Some LLiquidated\<rparr>) else getLoan k s)) \<and>
    (\<forall>c. map_option holding_of (getCollateral c s') = map_option holding_of (getCollateral c s)) \<and> store_wf s')"
proof (cases res)
  case (Inl e)
  then show ?thesis using assms(2) by (auto simp: liquidateLoan_def split_beta Let_def split: sum.splits)
next
  case (Inr xu)
  obtain xdr ul where xu: "xu = (xdr, ul)" by (cases xu)
  then obtain q where q: "liquidate_check i s = Inr q" "liquidate_commit env now rnd1 rnd2 i q s h = (ul, out, s', h')"
    using assms(2) Inr by (auto simp: liquidateLoan_Inr)
  then obtain loan f where l: "getLoan (string_of_int (ll_loan_id i)) s = Some loan" "loan_hf loan s = Some f" "f < SCALE"
      "q = \<lparr>lq_loan = loan, lq_collateral = getCollateral (l_collateral_id loan) s\<rparr>"
    by (auto simp: liquidate_check_Inr)
  note tabs = liquidate_commit_tables [OF q(2)] and sto = liquidate_commit_store [OF q(2)]
  have k: "l_id loan = string_of_int (ll_loan_id i)"
    using store_wf_get_loan [OF assms(1)] l(1) by (auto simp: getLoan_def split: option.splits if_splits)
  have "map_option holding_of (getCollateral c s') = map_option holding_of (getCollateral c s)" for c
    unfolding sto(2) by (cases "getCollateral c s") (auto simp: holding_of_def)
  moreover have "getLoan k s' = (if k = l_id loan then Some (loan\<lparr>l_status := Some LLiquidated\<rparr>) else getLoan k s)" for k
    unfolding sto(1) using l(1,4) \<open>l_id loan = _\<close> by auto
  moreover have "store_wf s'"
  proof -
    let ?s1 = "snd (updateLoan (l_id (lq_loan q)) (no_loan_updates\<lparr>lu_status := Some LLiquidated\<rparr>) s)"
    have w: "store_wf ?s1" using store_wf_loan_ops(1) [OF assms(1)] .
    then have "store_wf (case lq_collateral q of None \<Rightarrow> ?s1
        | Some c \<Rightarrow> snd (updateCollateral (c_id c) (no_collateral_updates\<lparr>cu_status := Some CLiquidated\<rparr>) ?s1))"
      by (auto intro: store_wf_collateral_ops(2) split: option.split)
    then show ?thesis using w assms(1)
      by (simp add: store_wf_def tabs(1-4) table_ok_set liquidated_tx_def liquidated_event_def
          TransactionData.defs LiquidationData.defs)
  qed
  ultimately show ?thesis using l k by metis
qed

lemma step_liquidate:
  assumes "store_wf s" "liquidateLoan env now rnd1 rnd2 i s h = (res, out, s', h')"
  shows "may_step (Some ASeize) (ledger_of s) (ledger_of s') \<and> store_wf s'"
  using liquidateLoan_cases [OF assms]
proof (elim disjE exE conjE)
  fix loan f
  assume l: "getLoan (l_id loan) s = Some loan" "loan_hf loan s = Some f" "f < SCALE"
    and lo: "\<forall>k. getLoan k s' = (if k = l_id loan then Some (loan\<lparr>l_status := Some LLiquidated\<rparr>) else getLoan k s)"
    and co: "\<forall>c. map_option holding_of (getCollateral c s') = map_option holding_of (getCollateral c s)"
    and wf: "store_wf s'"
  have "act_step ASeize (ledger_of s) ((ledger_of s)\<lparr>debts := (debts (ledger_of s))(l_id loan \<mapsto> (debt_of loan)\<lparr>db_open := False\<rparr>)\<rparr>)"
    using l by (intro act_step.seize) (simp_all add: debt_health_loan)
  moreover have "ledger_of s' = (ledger_of s)\<lparr>debts := (debts (ledger_of s))(l_id loan \<mapsto> (debt_of loan)\<lparr>db_open := False\<rparr>)\<rparr>"
    using lo co by (intro ledger_eqI) (auto simp: debt_of_def is_open_status_def)
  ultimately show ?thesis using wf by (simp add: may_stepI)
qed (use assms(1) in simp)

lemma new_status_open [simp]: "is_open_status (Some (new_status h))"
  by (auto simp: new_status_def is_open_status_def split: option.split)

lemma getLoan_health_run:
  assumes "store_wf (jb_store st)"
  shows "map_option debt_of (getLoan k (jb_store (snd (snd (runHealthFactorJob je clock st))))) =
    map_option debt_of (getLoan k (jb_store st))"
  using health_job_run [OF assms, of je clock]
  by (auto simp: getLoan_def assessed_def debt_of_def split: option.splits)

lemma job_loop_wf: "store_wf (jb_store st) \<Longrightarrow> store_wf (jb_store (snd (snd (job_loop je ls (n, st)))))"
proof (induction ls arbitrary: n st)
  case (Cons x ls)
  obtain t l where x: "x = (t, l)" by (cases x)
  have "store_wf (jb_store (snd (snd (job_step je t l (n, st)))))"
    using Cons.prems store_wf_loan_ops(1) by (simp add: job_step_store)
  then show ?case using Cons.IH [of "snd (snd (job_step je t l (n, st)))" "fst (snd (job_step je t l (n, st)))"]
    by (simp add: x split_beta)
qed simp

lemma step_health_run:
  assumes "store_wf (jb_store st)"
  shows "ledger_of (jb_store (snd (snd (runHealthFactorJob je clock st)))) = ledger_of (jb_store st) \<and>
    store_wf (jb_store (snd (snd (runHealthFactorJob je clock st))))"
proof
  show "ledger_of (jb_store (snd (snd (runHealthFactorJob je clock st)))) = ledger_of (jb_store st)"
    using getLoan_health_run [OF assms] health_job_run [OF assms, of je clock]
    by (intro ledger_eqI) (simp_all add: getCollateral_def)
  show "store_wf (jb_store (snd (snd (runHealthFactorJob je clock st))))"
    unfolding runHealthFactorJob_def by (rule job_loop_wf [OF assms])
qed

lemma call_acts:
  assumes "store_wf (as_store s)" "fresh_call c (as_store s)"
  shows "may_step (call_act c) (ledger_of (as_store s)) (ledger_of (as_store (run_call env now c s))) \<and>
    store_wf (as_store (run_call env now c s))"
proof (cases c)
  case (Liquidate rnd1 rnd2 i)
  obtain res out st h where "liquidateLoan (ev_service env) now rnd1 rnd2 i (as_store s) (as_hooks s) = (res, out, st, h)"
    by (metis prod_cases4)
  then show ?thesis using step_liquidate [OF assms(1)] by (simp add: Liquidate)
next
  case (HealthRun je clock jb)
  have "store_wf (jb_store (jb\<lparr>jb_store := as_store s\<rparr>))" using assms(1) by simp
  from step_health_run [OF this, of je clock] show ?thesis by (simp add: HealthRun)
qed (use assms step_loan_create step_repayment step_register step_delete in simp_all)

lemma call_refines:
  assumes "store_wf (as_store s)" "fresh_call c (as_store s)"
  shows "ledger_step\<^sup>=\<^sup>= (ledger_of (as_store s)) (ledger_of (as_store (run_call env now c s))) \<and>
    store_wf (as_store (run_call env now c s))"
proof -
  have "call_act c \<in> insert None (Some ` {ARegister, AWithdraw, ALend, ARepay, ASeize})" by (cases c) simp_all
  then show ?thesis using call_acts [OF assms, of env now] by (auto simp: may_step_def ledger_step_def simp del: run_call.simps)
qed


subsection \<open>Refinement\<close>



end
