(* ===== verification/App.thy ===== *)
theory App
  imports V1_Routes Ledger_Spec Collateral_Api Middleware Server Auth
begin

section \<open>The application (backend/src/index.ts)\<close>

text \<open>
  The Express application of index.ts as one function from a request and the state of the process to the
  answer and the next state: the health endpoints, the gates every request passes in their order, the
  routers mounted below a path, the table of routes in their order of registration, the error handler and
  the redirect at the end. Requests come one after another and are answered before a timer fires; what
  happens when they overlap is the matter of \<open>Pledge_Safety\<close>. Matching a path is Express's: \<open>ae_match\<close> gives
  the parameters of a route that matches (or the error of one that does not decode), \<open>ae_mount\<close> the
  path below a mount point. The headers of helmet, cors and compression and the logs are left out.
\<close>

subsection \<open>State and surroundings\<close>

record app_state =
  ap_api :: api_state
  ap_auth :: auth_state
  ap_keys :: api_keys
  ap_dedupe :: dedupe_cache
  ap_cooldowns :: "(string, int) js_map"
  ap_5xx :: "int list"
  ap_fired :: last_fired
  ap_pool :: ConnectionPool
  ap_isShuttingDown :: bool
  ap_posts :: "post list"

text \<open>
  \<open>ae_cookie_text\<close> is how a cookie is written, \<open>ae_preflight\<close> answers what the cors package answers itself, \<open>ae_static\<close> the files below /uploads, and
  \<open>ae_not_found\<close> is the answer of Express when nothing is left.
\<close>

record app_env =
  ae_api :: api_env
  ae_crypto :: crypto
  ae_auth :: auth_config
  ae_job :: job_env
  ae_hash :: "json \<Rightarrow> string"
  ae_match :: "string \<Rightarrow> string \<Rightarrow> (js_error + string list) option"
  ae_mount :: "string \<Rightarrow> string \<Rightarrow> string option"
  ae_preflight :: "request \<Rightarrow> response option"
  ae_static :: "request \<Rightarrow> response option"
  ae_not_found :: "request \<Rightarrow> response"
  ae_cookie_text :: "cookie \<Rightarrow> string"
  ae_version :: string
  ae_startTime :: int

datatype limiter = GlobalLimit | AuthLimit | ReadLimit | WriteLimit

text \<open>
  What a single request meets: the time, the random values it draws, the error of a body that does not
  parse, the form of an upload, which limiters refuse it, and how the database, the RPC server and the
  disk are. \<open>in_getHealth\<close> is the RPC call of /api/health, \<open>in_clock\<close> the clock of the health job.
\<close>

record app_input =
  in_now :: int
  in_iso :: string
  in_uuid :: string
  in_random32 :: string
  in_random8 :: string
  in_requestId :: string
  in_correlationId :: string
  in_body_error :: "js_error option"
  in_form :: collateral_form
  in_limited :: "limiter \<Rightarrow> bool"
  in_db :: bool
  in_rpc :: bool
  in_disk :: bool
  in_getHealth :: "nat \<Rightarrow> nat \<Rightarrow> js_error + unit"
  in_migrations :: "js_error + string"
  in_clock :: "nat \<Rightarrow> int"
  in_query_text :: string

subsection \<open>The routes\<close>

type_synonym route_handler = "app_env \<Rightarrow> app_input \<Rightarrow> string list \<Rightarrow> request \<Rightarrow> app_state \<Rightarrow> outcome \<times> app_state"

record route =
  rt_method :: string
  rt_path :: string
  rt_limiter :: "limiter option"
  rt_handler :: route_handler

definition api_handler :: "(app_input \<Rightarrow> string list \<Rightarrow> handler) \<Rightarrow> route_handler" where
  "api_handler h env i ps req s =
     (let (out, a) = h i ps (ae_api env) (in_now i) req (ap_api s) in (out, s\<lparr>ap_api := a\<rparr>))"

definition plain :: "handler \<Rightarrow> app_input \<Rightarrow> string list \<Rightarrow> handler" where "plain h i ps = h"

definition with_param :: "(string \<Rightarrow> handler) \<Rightarrow> app_input \<Rightarrow> string list \<Rightarrow> handler" where
  "with_param h i ps = h (case ps of [] \<Rightarrow> [] | p # _ \<Rightarrow> p)"

definition with_uuid :: "(string \<Rightarrow> handler) \<Rightarrow> app_input \<Rightarrow> string list \<Rightarrow> handler" where
  "with_uuid h i ps = h (in_uuid i)"

text \<open>The two routes that touch more than the shared state of the handlers.\<close>

definition migrations_status :: route_handler where
  "migrations_status env i ps req s =
     (bind_r (in_migrations i) (\<lambda>out. ok (JObj [(''status'', JStr out)])), s)"

definition liquidation_check_route :: route_handler where
  "liquidation_check_route env i ps req s =
     (let (out, posts, jb) = liquidation_check (ae_job env) (in_clock i) (in_iso i) req
            \<lparr>jb_store = as_store (ap_api s), jb_cooldowns = ap_cooldowns s, jb_fired = ap_fired s\<rparr> in
      (out, s\<lparr>ap_api := (ap_api s)\<lparr>as_store := jb_store jb\<rparr>, ap_cooldowns := jb_cooldowns jb, ap_fired := jb_fired jb,
              ap_posts := ap_posts s @ posts\<rparr>))"

definition api_route :: "string \<Rightarrow> string \<Rightarrow> limiter option \<Rightarrow> (app_input \<Rightarrow> string list \<Rightarrow> handler) \<Rightarrow> route" where
  "api_route m p l h = \<lparr>rt_method = m, rt_path = p, rt_limiter = l, rt_handler = api_handler h\<rparr>"

definition routes :: "route list" where
  "routes =
     [api_route ''POST'' ''/api/collateral/register'' None (plain collateral_register),
      api_route ''POST'' ''/api/loan/request'' None (plain loan_request),
      api_route ''POST'' ''/api/loan/repay'' None (plain loan_repay),
      api_route ''POST'' ''/api/loan/liquidate'' None (plain loan_liquidate),
      api_route ''POST'' ''/api/loan/repayment-preview'' None (plain loan_repayment_preview),
      api_route ''POST'' ''/api/loan/create'' None (with_uuid loan_create),
      api_route ''GET'' ''/api/loans'' (Some ReadLimit) (plain list_loans_route),
      api_route ''GET'' ''/api/borrowers/:wallet'' (Some ReadLimit) (with_param borrower_profile),
      api_route ''GET'' ''/api/collateral'' None (plain list_collateral_route),
      api_route ''GET'' ''/api/loans/:id'' None (with_param loan_detail),
      api_route ''GET'' ''/api/loan/:id'' (Some ReadLimit) (with_param loan_on_chain),
      api_route ''GET'' ''/api/health/:loanId'' None (with_param loan_health),
      api_route ''POST'' ''/api/loan/repayment-preview'' None (plain loan_repayment_preview_shadowed),
      api_route ''POST'' ''/api/oracle/price-update'' None (plain oracle_price_update),
      api_route ''POST'' ''/api/webhooks'' None (\<lambda>i ps. register_webhook_route (in_uuid i) (in_random32 i)),
      api_route ''GET'' ''/api/admin/webhooks'' None (plain list_webhooks_route),
      api_route ''GET'' ''/api/admin/webhooks/logs'' None (plain delivery_logs_route),
      \<lparr>rt_method = ''GET'', rt_path = ''/api/admin/migrations/status'', rt_limiter = None, rt_handler = migrations_status\<rparr>,
      api_route ''GET'' ''/api/v1/admin/audit'' None (plain admin_audit),
      \<lparr>rt_method = ''POST'', rt_path = ''/api/v1/admin/liquidation-check'', rt_limiter = None, rt_handler = liquidation_check_route\<rparr>,
      api_route ''GET'' ''/api/admin/deleted/collateral'' None (plain deleted_collateral),
      api_route ''POST'' ''/api/admin/restore/collateral/:id'' None (with_param restore_collateral_admin),
      api_route ''DELETE'' ''/api/collateral/:id'' None (with_param delete_collateral),
      api_route ''POST'' ''/api/collateral'' (Some WriteLimit) (\<lambda>i ps. create_collateral_form (in_uuid i) (in_form i)),
      api_route ''POST'' ''/api/v1/collateral'' None (with_uuid create_collateral_v1),
      api_route ''PATCH'' ''/api/v1/collateral/:id'' None (with_param patch_collateral),
      api_route ''GET'' ''/api/v1/collateral'' None (plain list_collateral_v1),
      api_route ''PUT'' ''/api/v1/collateral/:id/appraise'' None (with_param appraise_collateral),
      api_route ''GET'' ''/api/v1/collateral/:id/appraisals'' None (with_param appraisal_history_route),
      api_route ''PATCH'' ''/api/v1/collateral/:id'' None (with_param patch_collateral_shadowed),
      api_route ''DELETE'' ''/api/v1/collateral/:id'' None (with_param delete_collateral),
      api_route ''PATCH'' ''/api/v1/collateral/:id/restore'' None (with_param restore_collateral_v1),
      api_route ''POST'' ''/api/v1/loans/estimate'' None (plain loan_estimate),
      api_route ''GET'' ''/api/v1/loans/summary'' (Some ReadLimit) (plain loans_summary_route),
      api_route ''GET'' ''/api/admin/deleted/loans'' None (plain deleted_loans),
      api_route ''POST'' ''/api/admin/restore/loans/:id'' None (with_param restore_loan_route),
      api_route ''DELETE'' ''/api/loan/:id'' None (with_param delete_loan_route),
      api_route ''GET'' ''/api/transactions'' None (plain list_transactions_route),
      api_route ''GET'' ''/api/v1/transactions'' (Some ReadLimit) (plain my_transactions_route),
      api_route ''GET'' ''/api/transactions/:id'' None (with_param transaction_detail),
      api_route ''PUT'' ''/api/loans/:id/repay'' (Some WriteLimit) (with_param record_repayment)]"

text \<open>A route for GET answers HEAD as well. The first route that matches takes the request.\<close>

definition method_matches :: "string \<Rightarrow> string \<Rightarrow> bool" where
  "method_matches m method \<longleftrightarrow> method = m \<or> m = ''GET'' \<and> method = ''HEAD''"

definition route_params :: "app_env \<Rightarrow> request \<Rightarrow> route \<Rightarrow> (js_error + string list) option" where
  "route_params env req r = (if method_matches (rt_method r) (rq_method req) then ae_match env (rt_path r) (rq_path req) else None)"

fun find_route :: "app_env \<Rightarrow> request \<Rightarrow> route list \<Rightarrow> (route \<times> (js_error + string list)) option" where
  "find_route env req [] = None"
| "find_route env req (r # rs) =
     (case route_params env req r of Some ps \<Rightarrow> Some (r, ps) | None \<Rightarrow> find_route env req rs)"

definition refused :: "app_input \<Rightarrow> limiter option \<Rightarrow> bool" where
  "refused i l = (case l of None \<Rightarrow> False | Some k \<Rightarrow> in_limited i k)"

definition run_route :: "app_env \<Rightarrow> app_input \<Rightarrow> route \<times> (js_error + string list) \<Rightarrow> request \<Rightarrow> app_state \<Rightarrow> outcome \<times> app_state" where
  "run_route env i rp req s =
     (case snd rp of
        Inl e \<Rightarrow> (Inl e, s)
      | Inr ps \<Rightarrow> if refused i (rt_limiter (fst rp)) then (Inr rate_limit_handler, s)
                 else rt_handler (fst rp) env i ps req s)"

subsection \<open>The mounted routers\<close>

definition health_router :: "app_env \<Rightarrow> app_input \<Rightarrow> request \<Rightarrow> string \<Rightarrow> response option" where
  "health_router env i req rest =
     (if \<not> method_matches ''GET'' (rq_method req) then None
      else if ae_match env ''/ready'' rest = Some (Inr []) then Some (health_ready (in_db i) (in_rpc i))
      else if ae_match env ''/deep'' rest = Some (Inr []) then Some (health_deep (in_db i) (in_rpc i) (in_disk i))
      else if ae_match env ''/live'' rest = Some (Inr []) then Some health_live
      else None)"

definition cookie_header :: "app_env \<Rightarrow> cookie option \<Rightarrow> response \<Rightarrow> response" where
  "cookie_header env c res =
     (case c of None \<Rightarrow> res | Some k \<Rightarrow> with_header ''Set-Cookie'' (ae_cookie_text env k) res)"

text \<open>A login without a body throws where it is taken apart.\<close>

definition auth_router :: "app_env \<Rightarrow> app_input \<Rightarrow> request \<Rightarrow> string \<Rightarrow> app_state \<Rightarrow> (outcome \<times> app_state) option" where
  "auth_router env i req rest s =
     (if method_matches ''GET'' (rq_method req) \<and> ae_match env ''/challenge'' rest = Some (Inr [])
      then (let (res, a) = challenge_route (in_now i) (in_random32 i) (ap_auth s) in Some (Inr res, s\<lparr>ap_auth := a\<rparr>))
      else if rq_method req = ''POST'' \<and> ae_match env ''/login'' rest = Some (Inr [])
      then (case body_field ''walletAddress'' (rq_body req) of
              Inl e \<Rightarrow> Some (Inl e, s)
            | Inr _ \<Rightarrow>
                (let ((res, c), a) = login_route (ae_crypto env) (ae_auth env) (in_now i) (in_random32 i) (rq_body req) (ap_auth s) in
                 Some (Inr (cookie_header env c res), s\<lparr>ap_auth := a\<rparr>)))
      else if rq_method req = ''POST'' \<and> ae_match env ''/refresh'' rest = Some (Inr [])
      then (let ((res, c), a) = refresh_route (ae_crypto env) (ae_auth env) (in_now i) (in_random32 i) req (ap_auth s) in
            Some (Inr (cookie_header env c res), s\<lparr>ap_auth := a\<rparr>))
      else None)"

definition api_key_router :: "app_env \<Rightarrow> app_input \<Rightarrow> request \<Rightarrow> string \<Rightarrow> app_state \<Rightarrow> (outcome \<times> app_state) option" where
  "api_key_router env i req rest s =
     (if rq_method req = ''POST'' \<and> ae_match env ''/'' rest = Some (Inr [])
      then (let (res, ks) = create_api_key (ae_crypto env) (in_now i) (in_random32 i) (in_random8 i) req (ap_keys s) in
            Some (Inr res, s\<lparr>ap_keys := ks\<rparr>))
      else if rq_method req = ''DELETE''
      then (case ae_match env ''/:id'' rest of
              None \<Rightarrow> None
            | Some (Inl e) \<Rightarrow> Some (Inl e, s)
            | Some (Inr ps) \<Rightarrow>
                (let (res, ks) = revoke_api_key (in_now i) (case ps of [] \<Rightarrow> [] | p # _ \<Rightarrow> p) req (ap_keys s) in
                 Some (Inr res, s\<lparr>ap_keys := ks\<rparr>)))
      else None)"

subsection \<open>From the request to the answer\<close>

text \<open>An error ends in the error handler, which counts it.\<close>

definition settle :: "app_env \<Rightarrow> app_input \<Rightarrow> string option \<Rightarrow> outcome \<times> app_state \<Rightarrow> response \<times> app_state" where
  "settle env i request_id out =
     (case fst out of
        Inr res \<Rightarrow> (res, snd out)
      | Inl e \<Rightarrow>
          (let s = snd out;
               (res, posts, times, fired) = app_error_handler (je_alerts (ae_job env)) (in_now i) e request_id (ap_5xx s, ap_fired s) in
           (res, s\<lparr>ap_5xx := times, ap_fired := fired, ap_posts := ap_posts s @ posts\<rparr>)))"

definition redirect_response :: "redirect \<Rightarrow> response" where
  "redirect_response r = (respond (rd_status r) JNull)\<lparr>rs_headers := rd_headers r @ [(''Location'', rd_location r)]\<rparr>"

text \<open>What is left when no route matched.\<close>

definition app_fallthrough :: "app_env \<Rightarrow> app_input \<Rightarrow> request \<Rightarrow> response" where
  "app_fallthrough env i req =
     (case Option.bind (ae_mount env ''/api'' (rq_path req)) (\<lambda>rest. redirect_unversioned rest (in_query_text i)) of
        Some r \<Rightarrow> redirect_response r
      | None \<Rightarrow> ae_not_found env req)"

text \<open>Behind the gates: the stub of version 2, the API keys, the routes.\<close>

definition app_routes :: "app_env \<Rightarrow> app_input \<Rightarrow> request \<Rightarrow> app_state \<Rightarrow> outcome \<times> app_state" where
  "app_routes env i req s =
     (case Option.bind (ae_mount env ''/api/v2'' (rq_path req)) (\<lambda>rest. v2_router (filter (\<lambda>w. w \<noteq> []) (split_on CHR ''/'' rest))) of
        Some res \<Rightarrow> (Inr res, s)
      | None \<Rightarrow>
          (case Option.bind (ae_mount env ''/api/v1/admin/api-keys'' (rq_path req)) (\<lambda>rest. api_key_router env i req rest s) of
             Some out \<Rightarrow> out
           | None \<Rightarrow>
               (case find_route env req routes of
                  Some rp \<Rightarrow> run_route env i rp req s
                | None \<Rightarrow> (Inr (app_fallthrough env i req), s))))"

text \<open>The duplicate check keeps the JSON answers of the POSTs it lets through.\<close>

definition app_deduplicated :: "app_env \<Rightarrow> app_input \<Rightarrow> request \<Rightarrow> app_state \<Rightarrow> response \<times> app_state" where
  "app_deduplicated env i req s =
     (let (d, c) = deduplication_enter (ae_hash env) (in_now i) req (ap_dedupe s); s1 = s\<lparr>ap_dedupe := c\<rparr>;
          rid = Some (fst (requestIdMiddleware (in_requestId i) req)) in
      case d of
        DedupeReplay res \<Rightarrow> (res, s1)
      | DedupePass \<Rightarrow> settle env i rid (app_routes env i req s1)
      | DedupeWatch k \<Rightarrow>
          (let (res, s2) = settle env i rid (app_routes env i req s1) in
           (res, s2\<lparr>ap_dedupe := deduplication_json (in_now i) k res (ap_dedupe s2)\<rparr>)))"

text \<open>The gates behind the ids: limiter, files, shutdown, authentication.\<close>

definition app_gates :: "app_env \<Rightarrow> app_input \<Rightarrow> request \<Rightarrow> app_state \<Rightarrow> response \<times> app_state" where
  "app_gates env i req s =
     (if in_limited i GlobalLimit then (rate_limit_handler, s)
      else (case ae_static env req of
          Some res \<Rightarrow> (res, s)
        | None \<Rightarrow>
            (case shutdown_gate (ap_isShuttingDown s) of
               Some res \<Rightarrow> (res, s)
             | None \<Rightarrow>
                 (case ae_mount env ''/api/auth'' (rq_path req) of
                    Some rest \<Rightarrow>
                      if in_limited i AuthLimit then (rate_limit_handler, s)
                      else (case auth_router env i req rest s of
                              Some out \<Rightarrow> settle env i (Some (fst (requestIdMiddleware (in_requestId i) req))) out
                            | None \<Rightarrow>
                                (case jwtMiddleware (ae_crypto env) (ae_auth env) (in_now i) (ap_keys s) req of
                                   Reject res \<Rightarrow> (res, s) | Proceed req' \<Rightarrow> app_deduplicated env i req' s))
                  | None \<Rightarrow>
                      (case jwtMiddleware (ae_crypto env) (ae_auth env) (in_now i) (ap_keys s) req of
                         Reject res \<Rightarrow> (res, s) | Proceed req' \<Rightarrow> app_deduplicated env i req' s)))))"

definition with_ids :: "app_env \<Rightarrow> app_input \<Rightarrow> request \<Rightarrow> response \<Rightarrow> response" where
  "with_ids env i req res =
     res\<lparr>rs_headers := (case ae_mount env ''/api/v1'' (rq_path req) of None \<Rightarrow> [] | Some _ \<Rightarrow> [(''API-Version'', ''1'')]) @
       [snd (correlationMiddleware (in_correlationId i) req), snd (requestIdMiddleware (in_requestId i) req)] @ rs_headers res\<rparr>"

definition app_request :: "app_env \<Rightarrow> app_input \<Rightarrow> request \<Rightarrow> app_state \<Rightarrow> response \<times> app_state" where
  "app_request env i request0 s =
     (let req = request0\<lparr>rq_user := None\<rparr> in
      case ae_preflight env req of
        Some res \<Rightarrow> (res, s)
      | None \<Rightarrow>
          (case in_body_error i of
             Some e \<Rightarrow> settle env i None (Inl e, s)
           | None \<Rightarrow>
               if method_matches ''GET'' (rq_method req) \<and> ae_match env ''/api/health'' (rq_path req) = Some (Inr [])
               then (let (res, p) = api_health (ae_version env) (ae_startTime env) (in_iso i) (in_getHealth i) (in_db i) (in_now i) (ap_pool s) in
                     (res, s\<lparr>ap_pool := p\<rparr>))
               else (case Option.bind (ae_mount env ''/api/v1/health'' (rq_path req)) (health_router env i req) of
                       Some res \<Rightarrow> (res, s)
                     | None \<Rightarrow> (let (res, s') = app_gates env i req s in (with_ids env i req res, s')))))"

fun app_run :: "app_env \<Rightarrow> (app_input \<times> request) list \<Rightarrow> app_state \<Rightarrow> app_state" where
  "app_run env [] s = s"
| "app_run env ((i, req) # xs) s = app_run env xs (snd (app_request env i req s))"

definition initial_app :: "ConnectionPool \<Rightarrow> app_state" where
  "initial_app p =
     \<lparr>ap_api = initial_api, ap_auth = \<lparr>challenges = [], refreshTokens = []\<rparr>, ap_keys = [], ap_dedupe = [], ap_cooldowns = [],
      ap_5xx = [], ap_fired = [], ap_pool = p, ap_isShuttingDown = False, ap_posts = []\<rparr>"

end
