(* ===== verification/App_Safety.thy ===== *)
theory App_Safety
  imports App Pledge_Safety
begin

section \<open>What the application keeps\<close>

text \<open>
  What every request keeps of the shared state, from what every handler does to it: most handlers only read
  the store or change it without opening a loan. The locale \<open>app_simulation\<close> takes a relation between the states
  before and after a handler to whole requests; \<open>app_invariant\<close>, a case of it, an invariant that some of the
  routes keep to all runs of requests answered by these; it is interpreted for well-formed stores, for
  stores without a doubly pledged collateral, and for the routes that only read.
\<close>

subsection \<open>Effects of the handlers on the store\<close>

text \<open>Operations that open no loan, one after another; a handler that does nothing else to the store and
  leaves the reservations alone; and one that leaves the store alone.\<close>

definition quiet_step :: "store \<Rightarrow> store \<Rightarrow> bool" where
  "quiet_step s s' \<longleftrightarrow> (\<exists>opn. quiet s opn \<and> s' = run_op opn s)"

definition quiet_handler :: "handler \<Rightarrow> bool" where
  "quiet_handler h \<longleftrightarrow> (\<forall>env now req s. quiet_step\<^sup>*\<^sup>* (as_store s) (as_store (snd (h env now req s))) \<and>
     as_pending (snd (h env now req s)) = as_pending s)"

definition reading_handler :: "handler \<Rightarrow> bool" where
  "reading_handler h \<longleftrightarrow> (\<forall>env now req s. as_store (snd (h env now req s)) = as_store s \<and>
     as_pending (snd (h env now req s)) = as_pending s)"

named_theorems handler_effects

lemma reading_quiet: "reading_handler h \<Longrightarrow> quiet_handler h"
  by (simp add: reading_handler_def quiet_handler_def)

lemma reading_cached: "reading_handler h \<Longrightarrow> reading_handler (cached_route ttl h)"
  unfolding reading_handler_def cached_route_def by (auto simp: split_beta split: option.splits sum.splits prod.splits)

lemma quiet_one: "quiet s opn \<Longrightarrow> quiet_step\<^sup>*\<^sup>* s (run_op opn s)"
  by (rule r_into_rtranclp) (auto simp: quiet_step_def)

lemma handler_reading_1 [handler_effects]:
  "reading_handler collateral_register" "reading_handler loan_request" "reading_handler loan_repay"
  "reading_handler loan_liquidate"
     apply (auto simp: reading_handler_def collateral_register_def loan_request_def Let_def split: option.splits sum.splits if_splits)[2]
   apply (auto simp: reading_handler_def loan_repay_def loan_repay_enter_def loan_repay_exit_def Let_def split: option.splits sum.splits if_splits prod.splits)[1]
  apply (auto simp: reading_handler_def loan_liquidate_def Let_def split: option.splits sum.splits if_splits)[1]
  done

lemma handler_reading_2 [handler_effects]:
  "reading_handler (preview_route a f d)" "reading_handler list_loans_handler" "reading_handler (borrower_profile k)"
  "reading_handler list_collateral_handler" "reading_handler (loan_detail k)" "reading_handler (loan_on_chain k)"
  "reading_handler (loan_health k)" "reading_handler oracle_price_update"
  by (auto simp: reading_handler_def preview_route_def list_loans_handler_def borrower_profile_def list_collateral_handler_def
      loan_detail_def loan_on_chain_def loan_health_def oracle_price_update_def Let_def split: option.splits sum.splits if_splits)

lemma handler_reading_3 [handler_effects]:
  "reading_handler (register_webhook_route u r)" "reading_handler list_webhooks_route" "reading_handler delivery_logs_route"
  "reading_handler admin_audit" "reading_handler deleted_collateral" "reading_handler list_collateral_v1"
  "reading_handler (appraisal_history_handler k)" "reading_handler loan_estimate"
  by (auto simp: reading_handler_def register_webhook_route_def list_webhooks_route_def delivery_logs_route_def admin_audit_def
      deleted_collateral_def list_collateral_v1_def appraisal_history_handler_def loan_estimate_def Let_def
      split: option.splits sum.splits if_splits json.splits prod.splits)

lemma handler_reading_4 [handler_effects]:
  "reading_handler loans_summary_handler" "reading_handler deleted_loans" "reading_handler list_transactions_route"
  "reading_handler my_transactions_route" "reading_handler (transaction_detail k)"
  by (auto simp: reading_handler_def loans_summary_handler_def deleted_loans_def list_transactions_route_def
      my_transactions_route_def transaction_detail_def Let_def split: option.splits sum.splits if_splits prod.splits)


lemma quiet_with_store:
  "quiet_step\<^sup>*\<^sup>* (as_store s) (snd (f (as_store s))) \<Longrightarrow> with_store f s = (x, s') \<Longrightarrow>
   quiet_step\<^sup>*\<^sup>* (as_store s) (as_store s') \<and> as_pending s' = as_pending s"
  by (auto simp: with_store_def split_beta)

lemmas quiet_ops = quiet_one [of _ "InsertCollateral now d" for now d, simplified] quiet_one [of _ "UpdateCollateral k u" for k u, simplified]
  quiet_one [of _ "AddAppraisal now k v a" for now k v a, simplified] quiet_one [of _ "SoftDeleteCollateral now k" for now k, simplified]
  quiet_one [of _ "RestoreCollateral k" for k, simplified] quiet_one [of _ "SoftDeleteLoan now k" for now k, simplified]

lemma handler_quiet_1 [handler_effects]:
  "quiet_handler (create_collateral_form u fm)" "quiet_handler (create_collateral_v1 u)" "quiet_handler (patch_collateral k)"
  "quiet_handler (delete_collateral k)" "quiet_handler (restore_collateral_admin k)" "quiet_handler (restore_collateral_v1 k)"
  "quiet_handler (delete_loan_route k)"
  by (auto simp: quiet_handler_def create_collateral_form_def create_collateral_v1_def patch_collateral_def delete_collateral_def
      restore_collateral_admin_def restore_collateral_v1_def delete_loan_route_def Let_def quiet_ops
      split: option.splits sum.splits if_splits prod.splits dest!: quiet_with_store [rotated])

lemma appraise_as_update:
  "getCollateral k s = Some c \<Longrightarrow>
   s\<lparr>collateralTable := m_set k (c\<lparr>c_appraised_value := v\<rparr>) (collateralTable s)\<rparr> =
     run_op (UpdateCollateral k (no_collateral_updates\<lparr>cu_appraised_value := Some v\<rparr>)) s"
  by (cases c) (auto simp: getCollateral_def updateCollateral_def merge_collateral_def no_collateral_updates_def Let_def
    split: option.splits if_splits)

lemma quiet_appraise:
  assumes "getCollateral k s = Some c"
  shows "quiet_step\<^sup>*\<^sup>* s (snd (addAppraisal now k v w (s\<lparr>collateralTable := m_set k (c\<lparr>c_appraised_value := v\<rparr>) (collateralTable s)\<rparr>)))"
  unfolding appraise_as_update [OF assms]
  using quiet_ops(2) [of s k "no_collateral_updates\<lparr>cu_appraised_value := Some v\<rparr>"]
    quiet_ops(3) [of "run_op (UpdateCollateral k (no_collateral_updates\<lparr>cu_appraised_value := Some v\<rparr>)) s" now k v w]
  by simp

lemma handler_quiet_2 [handler_effects]: "quiet_handler (appraise_collateral k)"
  unfolding quiet_handler_def
proof (intro allI)
  fix env now req s
  show "quiet_step\<^sup>*\<^sup>* (as_store s) (as_store (snd (appraise_collateral k env now req s))) \<and>
    as_pending (snd (appraise_collateral k env now req s)) = as_pending s"
  proof (cases "body_field ''appraised_value'' (rq_body req)")
    case (Inr x)
    show ?thesis
    proof (cases x)
      case (Some v)
      then show ?thesis using Inr quiet_appraise
        by (cases v; cases "getCollateral k (as_store s)")
          (simp_all add: appraise_collateral_def Let_def split_beta with_store_def split: option.split)
    qed (simp add: Inr appraise_collateral_def)
  qed (simp add: appraise_collateral_def)
qed

lemma handler_quiet_3 [handler_effects]: "quiet_handler (record_repayment k)"
proof -
  have p: "as_pending (snd (record_repayment k env now req s)) = as_pending s" for env now req s
    by (auto simp: record_repayment_def Let_def split_beta split: sum.split option.split json.split)
  have "quiet st (UpdateLoan k (no_loan_updates\<lparr>lu_amount := Some x\<rparr>))" for st x
    by (simp add: no_loan_updates_def)
  from quiet_one [OF this]
  have "quiet_step\<^sup>*\<^sup>* (as_store s) (as_store (snd (record_repayment k env now req s)))" for env now req s
    using record_repayment_store [of k env now req s] by auto
  then show ?thesis using p by (simp add: quiet_handler_def)
qed

lemma handler_quiet_4 [handler_effects]: "quiet_handler (patch_collateral_shadowed k)"
  by (auto simp: quiet_handler_def patch_collateral_shadowed_def quiet_ops split: option.splits prod.splits if_splits
     dest!: quiet_with_store [rotated])


text \<open>The creation of a loan is the only handler that opens one without being asked to restore it.\<close>

definition calm_state :: "api_state \<Rightarrow> bool" where
  "calm_state a \<longleftrightarrow> store_wf (as_store a) \<and> exclusive (as_store a) \<and> as_pending a = []"

lemma quiet_step_keeps:
  assumes "quiet_step\<^sup>*\<^sup>* s s'" shows "store_wf s \<Longrightarrow> store_wf s'" and "exclusive s \<Longrightarrow> exclusive s'"
proof -
  show "store_wf s \<Longrightarrow> store_wf s'" using assms
    by (induction rule: rtranclp_induct) (auto simp: quiet_step_def store_wf_run_op)
  show "exclusive s \<Longrightarrow> exclusive s'" using assms
  proof (induction rule: rtranclp_induct)
    case (step y z)
    then obtain opn where "quiet y opn" "z = run_op opn y" by (auto simp: quiet_step_def)
    then show ?case using step.IH step.prems exclusive_mono [OF _ quiet_opens_nothing [of y opn]] by simp
  qed
qed

lemma quiet_handler_keeps:
  assumes "quiet_handler h"
  shows "store_wf (as_store s) \<Longrightarrow> store_wf (as_store (snd (h env now req s)))"
    and "calm_state s \<Longrightarrow> calm_state (snd (h env now req s))"
  using assms quiet_step_keeps unfolding quiet_handler_def calm_state_def by (blast, metis)

lemma loan_create_store:
  "as_store (snd (loan_create uuid env now req s)) = as_store s \<or>
   (\<exists>i a. loan_create_enter env req s = (Inr (i, a), s\<lparr>as_pending := cl_collateralId i # as_pending s\<rparr>) \<and>
     as_store (snd (loan_create uuid env now req s)) =
       (as_store s)\<lparr>loanTable := m_set uuid (created_loan now uuid i a) (loanTable (as_store s))\<rparr>)"
  by (auto simp: loan_create_eq loan_create_exit_Inr loan_create_enter_Inr split: prod.splits sum.splits
      dest: arg_cong [of _ _ "\<lambda>x. as_store (snd x)"])

lemma loan_create_pending: "as_pending (snd (loan_create uuid env now req s)) = as_pending s"
proof -
  have "filter (\<lambda>c. c \<noteq> x) xs = xs" if "x \<notin> set xs" for x and xs :: "string list"
    using that by (induction xs) auto
  then show ?thesis
    by (auto simp: loan_create_eq loan_create_exit_Inr loan_create_enter_Inr loan_create_enter_def
      split: prod.splits sum.splits option.splits if_splits)
qed

lemma loan_create_keeps:
  shows "store_wf (as_store s) \<Longrightarrow> store_wf (as_store (snd (loan_create uuid env now req s)))"
    and "calm_state s \<Longrightarrow> calm_state (snd (loan_create uuid env now req s))"
proof -
  show wf: "store_wf (as_store s) \<Longrightarrow> store_wf (as_store (snd (loan_create uuid env now req s)))"
    using loan_create_store [of uuid env now req s] store_wf_created by auto
  assume c: "calm_state s"
  have "exclusive (as_store (snd (loan_create uuid env now req s)))"
    using loan_create_store [of uuid env now req s]
  proof (elim disjE exE conjE)
    fix i a
    assume e: "loan_create_enter env req s = (Inr (i, a), s\<lparr>as_pending := cl_collateralId i # as_pending s\<rparr>)"
      and st: "as_store (snd (loan_create uuid env now req s)) =
        (as_store s)\<lparr>loanTable := m_set uuid (created_loan now uuid i a) (loanTable (as_store s))\<rparr>"
    have free: "\<not> open_on (cl_collateralId i) k (as_store s)" for k
      using e c open_on_pledged [of "as_store s"] by (auto simp: loan_create_enter_Inr calm_state_def)
    have "open_on x k ((as_store s)\<lparr>loanTable := m_set uuid (created_loan now uuid i a) (loanTable (as_store s))\<rparr>) \<longleftrightarrow>
        (if k = uuid then x = cl_collateralId i else open_on x k (as_store s))" for x k
      by (auto simp: open_on_def getLoan_def created_loan_def is_open_status_def)
    then show ?thesis using c free unfolding st exclusive_def calm_state_def by (metis (full_types))
  qed (use c in \<open>simp add: calm_state_def\<close>)
  then show "calm_state (snd (loan_create uuid env now req s))"
    using c wf loan_create_pending by (simp add: calm_state_def)
qed

lemma health_check_keeps:
  assumes "store_wf (as_store a)"
  shows "store_wf (jb_store (snd (snd (liquidation_check je clock iso_now req \<lparr>jb_store = as_store a, jb_cooldowns = cd, jb_fired = f\<rparr>))))"
    and "exclusive (as_store a) \<Longrightarrow>
      exclusive (jb_store (snd (snd (liquidation_check je clock iso_now req \<lparr>jb_store = as_store a, jb_cooldowns = cd, jb_fired = f\<rparr>))))"
proof -
  let ?jb = "\<lparr>jb_store = as_store a, jb_cooldowns = cd, jb_fired = f\<rparr>"
  let ?s' = "jb_store (snd (snd (runHealthFactorJob je clock ?jb)))"
  have r: "ledger_of ?s' = ledger_of (as_store a)" "store_wf ?s'"
    using step_health_run [of ?jb je clock] assms by simp_all
  have s: "jb_store (snd (snd (liquidation_check je clock iso_now req ?jb))) \<in> {as_store a, ?s'}"
    by (auto simp: liquidation_check_def split_beta Let_def)
  then show "store_wf (jb_store (snd (snd (liquidation_check je clock iso_now req ?jb))))" using r assms by auto
  have o: "open_on c k st \<longleftrightarrow> (\<exists>d. debts (ledger_of st) k = Some d \<and> db_collateral d = c \<and> db_open d)" for c k st
    by (auto simp: open_on_def split: option.splits)
  have "open_on c k ?s' \<longleftrightarrow> open_on c k (as_store a)" for c k unfolding o r(1) ..
  then show "exclusive (as_store a) \<Longrightarrow> exclusive (jb_store (snd (snd (liquidation_check je clock iso_now req ?jb))))"
    using s by (auto simp: exclusive_def)
qed


subsection \<open>What a request can reach\<close>

lemma settle_keeps [simp]: "ap_api (snd (settle env i rid out)) = ap_api (snd out)"
  "ap_keys (snd (settle env i rid out)) = ap_keys (snd out)" "ap_auth (snd (settle env i rid out)) = ap_auth (snd out)"
  by (auto simp: settle_def split_beta Let_def split: sum.split)

lemma jwt_proceed:
  "jwtMiddleware cr cfg now keys req = Proceed req' \<Longrightarrow> rq_method req' = rq_method req \<and> rq_path req' = rq_path req \<and> rq_body req' = rq_body req"
  by (auto simp: jwtMiddleware_def with_user_def split: if_splits option.splits sum.splits)

lemma find_route_same:
  "rq_method req' = rq_method req \<Longrightarrow> rq_path req' = rq_path req \<Longrightarrow> find_route env req' rs = find_route env req rs"
  by (induction rs) (simp_all add: route_params_def split: option.split)

lemma find_route_SomeD: "find_route env req rs = Some (r, ps) \<Longrightarrow> r \<in> set rs \<and> route_params env req r = Some ps"
  by (induction rs) (auto split: option.splits)

lemma auth_router_keeps: "auth_router env i req rest s = Some out \<Longrightarrow> ap_api (snd out) = ap_api s \<and> ap_keys (snd out) = ap_keys s"
  by (auto simp: auth_router_def split_beta Let_def split: if_splits sum.splits)

lemma api_key_router_keeps: "api_key_router env i req rest s = Some out \<Longrightarrow> ap_api (snd out) = ap_api s"
  by (auto simp: api_key_router_def split_beta Let_def split: if_splits sum.splits option.splits)

text \<open>The handler that answers a request which the gates let through, when there is one.\<close>

definition reaches :: "app_env \<Rightarrow> app_input \<Rightarrow> request \<Rightarrow> app_state \<Rightarrow> route \<Rightarrow> string list \<Rightarrow> request \<Rightarrow> bool" where
  "reaches env i req s r ps req' \<longleftrightarrow>
     jwtMiddleware (ae_crypto env) (ae_auth env) (in_now i) (ap_keys s) (req\<lparr>rq_user := None\<rparr>) = Proceed req' \<and>
     find_route env req routes = Some (r, Inr ps)"

lemma app_routes_effect:
  "ap_api (snd (app_routes env i req s)) = ap_api s \<or>
   (\<exists>r ps. find_route env req routes = Some (r, Inr ps) \<and>
      ap_api (snd (app_routes env i req s)) = ap_api (snd (rt_handler r env i ps req s)))"
  using api_key_router_keeps [of env i req _ s]
  by (auto simp: app_routes_def run_route_def bind_eq_Some_conv split: option.splits sum.splits)

lemma app_deduplicated_effect:
  "ap_api (snd (app_deduplicated env i req s)) = ap_api s \<or>
   (\<exists>r ps c. find_route env req routes = Some (r, Inr ps) \<and>
      ap_api (snd (app_deduplicated env i req s)) = ap_api (snd (rt_handler r env i ps req (s\<lparr>ap_dedupe := c\<rparr>))))"
proof -
  obtain d c where d: "deduplication_enter (ae_hash env) (in_now i) req (ap_dedupe s) = (d, c)" by (metis prod.collapse)
  have "ap_api (snd (app_deduplicated env i req s)) = ap_api s \<or>
      ap_api (snd (app_deduplicated env i req s)) = ap_api (snd (app_routes env i req (s\<lparr>ap_dedupe := c\<rparr>)))"
    by (cases d) (simp_all add: app_deduplicated_def d split_beta Let_def)
  then show ?thesis using app_routes_effect [of env i req "s\<lparr>ap_dedupe := c\<rparr>"]
    by (elim disjE exE conjE) (simp_all, blast)
qed

lemma app_effect:
  "ap_api (snd (app_request env i req s)) = ap_api s \<or>
   (\<exists>r ps req' c. reaches env i req s r ps req' \<and>
      ap_api (snd (app_request env i req s)) = ap_api (snd (rt_handler r env i ps req' (s\<lparr>ap_dedupe := c\<rparr>))))"
proof -
  let ?req = "req\<lparr>rq_user := None\<rparr>"
  have gates: "ap_api (snd (app_gates env i ?req s)) = ap_api s \<or>
      (\<exists>req'. jwtMiddleware (ae_crypto env) (ae_auth env) (in_now i) (ap_keys s) ?req = Proceed req' \<and>
        ap_api (snd (app_gates env i ?req s)) = ap_api (snd (app_deduplicated env i req' s)))"
    using auth_router_keeps [of env i ?req _ s] by (auto simp: app_gates_def split: option.splits gate.splits)
  have "ap_api (snd (app_request env i req s)) = ap_api s \<or> ap_api (snd (app_request env i req s)) = ap_api (snd (app_gates env i ?req s))"
    by (auto simp: app_request_def split_beta Let_def split: option.splits)
  then show ?thesis
  proof (elim disjE)
    assume e: "ap_api (snd (app_request env i req s)) = ap_api (snd (app_gates env i ?req s))"
    from gates show ?thesis
    proof (elim disjE exE conjE)
      fix req'
      assume p: "jwtMiddleware (ae_crypto env) (ae_auth env) (in_now i) (ap_keys s) ?req = Proceed req'"
        and g: "ap_api (snd (app_gates env i ?req s)) = ap_api (snd (app_deduplicated env i req' s))"
      have "find_route env req' routes = find_route env req routes" using jwt_proceed [OF p] by (intro find_route_same) auto
      with p have "reaches env i req s r ps req'" if "find_route env req' routes = Some (r, Inr ps)" for r ps
        using that by (simp add: reaches_def)
      then show ?thesis using app_deduplicated_effect [of env i req' s] unfolding e g by blast
    qed (use e in simp)
  qed simp
qed

subsection \<open>Invariants of the application\<close>

text \<open>Whether a request is answered by a route of some kind, or by none.\<close>

definition routed_to :: "(route \<Rightarrow> bool) \<Rightarrow> app_env \<Rightarrow> request \<Rightarrow> bool" where
  "routed_to allowed env req \<longleftrightarrow> (case find_route env req routes of None \<Rightarrow> True | Some (r, _) \<Rightarrow> allowed r)"

text \<open>A relation between the shared state before a route's handler and after it, which every request keeps.\<close>

locale app_simulation =
  fixes pre :: "app_input \<Rightarrow> api_state \<Rightarrow> bool" and R :: "route \<Rightarrow> api_state \<Rightarrow> api_state \<Rightarrow> bool"
  assumes route_related: "r \<in> set routes \<Longrightarrow> pre i (ap_api (s :: app_state)) \<Longrightarrow>
      R r (ap_api s) (ap_api (snd (rt_handler r env i ps req s)))"
begin

lemma request_related:
  assumes "pre i (ap_api s)"
  shows "ap_api (snd (app_request env i req s)) = ap_api s \<or>
    (\<exists>r ps. find_route env req routes = Some (r, Inr ps) \<and> r \<in> set routes \<and>
       R r (ap_api s) (ap_api (snd (app_request env i req s))))"
  using app_effect [of env i req s]
proof (elim disjE exE conjE)
  fix r ps req' c
  assume r: "reaches env i req s r ps req'"
    and e: "ap_api (snd (app_request env i req s)) = ap_api (snd (rt_handler r env i ps req' (s\<lparr>ap_dedupe := c\<rparr>)))"
  have f: "find_route env req routes = Some (r, Inr ps)" "r \<in> set routes"
    using r find_route_SomeD by (auto simp: reaches_def)
  have "R r (ap_api s) (ap_api (snd (app_request env i req s)))"
    unfolding e using assms f(2) route_related [of r i "s\<lparr>ap_dedupe := c\<rparr>"] by simp
  then show ?thesis using f by blast
qed simp

end

text \<open>An invariant that the routes of some kind keep is the case of a relation that tells of the state afterwards.\<close>

locale app_invariant =
  fixes inv :: "api_state \<Rightarrow> bool" and allowed :: "route \<Rightarrow> bool"
  assumes route_keeps: "r \<in> set routes \<Longrightarrow> allowed r \<Longrightarrow> inv (ap_api (s :: app_state)) \<Longrightarrow> inv (ap_api (snd (rt_handler r env i ps req s)))"

sublocale app_invariant \<subseteq> sim: app_simulation "\<lambda>i. inv" "\<lambda>r a b. allowed r \<longrightarrow> inv b"
  by unfold_locales (auto intro: route_keeps)

context app_invariant begin

lemma request_keeps:
  assumes "inv (ap_api s)" "routed_to allowed env req"
  shows "inv (ap_api (snd (app_request env i req s)))"
  using sim.request_related [where s = s and i = i and env = env and req = req] assms by (auto simp: routed_to_def)

lemma run_keeps:
  "inv (ap_api s) \<Longrightarrow> list_all (\<lambda>(i, req). routed_to allowed env req) xs \<Longrightarrow> inv (ap_api (app_run env xs s))"
  by (induction env xs s rule: app_run.induct) (auto intro: request_keeps)

end


lemma api_handler_state: "ap_api (snd (api_handler h env i ps req s)) = snd (h i ps (ae_api env) (in_now i) req (ap_api s))"
  by (simp add: api_handler_def split_beta)

lemma other_routes_state:
  "ap_api (snd (migrations_status env i ps req s)) = ap_api s"
  "ap_api (snd (liquidation_check_route env i ps req s)) = (ap_api s)\<lparr>as_store := jb_store (snd (snd (liquidation_check (ae_job env)
     (in_clock i) (in_iso i) req \<lparr>jb_store = as_store (ap_api s), jb_cooldowns = ap_cooldowns s, jb_fired = ap_fired s\<rparr>)))\<rparr>"
  by (simp_all add: migrations_status_def liquidation_check_route_def split_beta)

lemma quiet_routes:
  "quiet_handler (list_loans_route)" "quiet_handler list_collateral_route" "quiet_handler (appraisal_history_route k)"
  "quiet_handler loans_summary_route" "quiet_handler loan_repayment_preview" "quiet_handler loan_repayment_preview_shadowed"
  by (auto simp: list_loans_route_def list_collateral_route_def appraisal_history_route_def loans_summary_route_def
      loan_repayment_preview_def loan_repayment_preview_shadowed_def intro!: reading_quiet reading_cached handler_effects)

text \<open>The routes: the creation of a loan, the restoration of one, the health check, the migrations, and for the
  rest handlers that are quiet.\<close>

definition route_kind :: "route \<Rightarrow> bool" where
  "route_kind r \<longleftrightarrow>
     rt_path r = ''/api/loan/create'' \<and> rt_handler r = api_handler (with_uuid loan_create) \<or>
     rt_path r = ''/api/admin/restore/loans/:id'' \<and> rt_handler r = api_handler (with_param restore_loan_route) \<or>
     rt_handler r = liquidation_check_route \<or> rt_handler r = migrations_status \<or>
     (\<exists>h. rt_handler r = api_handler h \<and> (\<forall>i ps. quiet_handler (h i ps)))"

lemma route_kind_special:
  "route_kind (api_route m ''/api/loan/create'' l (with_uuid loan_create))"
  "route_kind (api_route m ''/api/admin/restore/loans/:id'' l (with_param restore_loan_route))"
  "route_kind \<lparr>rt_method = m, rt_path = p, rt_limiter = l, rt_handler = migrations_status\<rparr>"
  "route_kind \<lparr>rt_method = m, rt_path = p, rt_limiter = l, rt_handler = liquidation_check_route\<rparr>"
  by (simp_all add: route_kind_def api_route_def)

lemma route_kind_quiet:
  "(\<And>i ps. quiet_handler (h i ps)) \<Longrightarrow> route_kind (api_route m p l h)"
  by (auto simp: route_kind_def api_route_def)

lemma plain_quiet: "quiet_handler h \<Longrightarrow> quiet_handler (plain h i ps)" by (simp add: plain_def)

lemma param_quiet: "(\<And>k. quiet_handler (h k)) \<Longrightarrow> quiet_handler (with_param h i ps)" by (simp add: with_param_def)

lemma uuid_quiet: "(\<And>k. quiet_handler (h k)) \<Longrightarrow> quiet_handler (with_uuid h i ps)" by (simp add: with_uuid_def)

lemma all_routes_kind: "list_all route_kind routes"
  unfolding routes_def list.pred_inject(2)
  by (intro conjI; (rule list.pred_inject(1) route_kind_special | (rule route_kind_quiet, (rule plain_quiet | rule param_quiet | rule uuid_quiet)?,
      (rule handler_effects quiet_routes | (rule reading_quiet, rule handler_effects)))))

lemma routes_kind: "r \<in> set routes \<Longrightarrow> route_kind r"
  using all_routes_kind by (simp only: list_all_iff)

text \<open>A store that is well formed stays so, whatever requests come.\<close>

interpretation wf_app: app_invariant "\<lambda>a. store_wf (as_store a)" "\<lambda>r. True"
proof
  fix r env i ps req and s :: app_state
  assume r: "r \<in> set routes" and wf: "store_wf (as_store (ap_api s))"
  have restore: "store_wf (as_store (snd (restore_loan_route k env' now req' (ap_api s))))" for k env' now req'
    using wf store_wf_loan_ops by (simp add: restore_loan_route_def split_beta Let_def)
  from routes_kind [OF r] show "store_wf (as_store (ap_api (snd (rt_handler r env i ps req s))))"
    unfolding route_kind_def
    by (elim disjE exE conjE)
      (simp_all add: api_handler_state other_routes_state with_uuid_def with_param_def loan_create_keeps(1) restore
        health_check_keeps(1) quiet_handler_keeps(1) wf)
qed

text \<open>No collateral gets a second open loan, as long as no deleted loan is restored.\<close>

interpretation calm_app: app_invariant calm_state "\<lambda>r. rt_path r \<noteq> ''/api/admin/restore/loans/:id''"
proof
  fix r env i ps req and s :: app_state
  assume r: "r \<in> set routes" "rt_path r \<noteq> ''/api/admin/restore/loans/:id''" and calm: "calm_state (ap_api s)"
  have check: "calm_state ((ap_api s)\<lparr>as_store := jb_store (snd (snd (liquidation_check je clock iso_now req'
      \<lparr>jb_store = as_store (ap_api s), jb_cooldowns = cd, jb_fired = f\<rparr>)))\<rparr>)" for je clock iso_now req' cd f
    using calm health_check_keeps [of "ap_api s" je clock iso_now req' cd f] by (simp add: calm_state_def)
  from routes_kind [OF r(1)] r(2) show "calm_state (ap_api (snd (rt_handler r env i ps req s)))"
    unfolding route_kind_def
    by (elim disjE exE conjE)
      (simp_all add: api_handler_state other_routes_state with_uuid_def with_param_def loan_create_keeps(2) check
        quiet_handler_keeps(2) calm)
qed

text \<open>The routes for GET leave the store alone.\<close>

definition reading_route :: "route \<Rightarrow> bool" where
  "reading_route r \<longleftrightarrow> rt_handler r = migrations_status \<or> (\<exists>h. rt_handler r = api_handler h \<and> (\<forall>i ps. reading_handler (h i ps)))"

lemma reading_route_api: "(\<And>i ps. reading_handler (h i ps)) \<Longrightarrow> reading_route (api_route m p l h)"
  by (auto simp: reading_route_def api_route_def)

lemma migrations_reading: "reading_route \<lparr>rt_method = m, rt_path = p, rt_limiter = l, rt_handler = migrations_status\<rparr>"
  by (simp add: reading_route_def)

lemma plain_reading: "reading_handler h \<Longrightarrow> reading_handler (plain h i ps)" by (simp add: plain_def)

lemma param_reading: "(\<And>k. reading_handler (h k)) \<Longrightarrow> reading_handler (with_param h i ps)" by (simp add: with_param_def)

lemma reading_routes:
  "reading_handler list_loans_route" "reading_handler list_collateral_route" "reading_handler (appraisal_history_route k)"
  "reading_handler loans_summary_route"
  by (auto simp: list_loans_route_def list_collateral_route_def appraisal_history_route_def loans_summary_route_def
      intro!: reading_cached handler_effects)

lemma get_routes_read: "list_all (\<lambda>r. rt_method r = ''GET'' \<longrightarrow> reading_route r) routes"
  unfolding routes_def list.pred_inject(2)
  by (intro conjI; (rule list.pred_inject(1) | (simp only: api_route_def route.simps; rule impI; simp; fail) |
     (rule impI, (rule migrations_reading | (rule reading_route_api, (rule plain_reading | rule param_reading)?,
       (rule handler_effects reading_routes)))) | simp add: api_route_def))

lemma route_methods: "r \<in> set routes \<Longrightarrow> rt_method r \<in> {''GET'', ''POST'', ''PUT'', ''PATCH'', ''DELETE''}"
  by (auto simp: routes_def api_route_def)

interpretation reading_app: app_invariant "\<lambda>a. as_store a = st" "\<lambda>r. rt_method r = ''GET''" for st
proof
  fix r env i ps req and s :: app_state
  assume r: "r \<in> set routes" "rt_method r = ''GET''" and st: "as_store (ap_api s) = st"
  have "reading_route r" using get_routes_read r by (simp add: list_all_iff)
  then show "as_store (ap_api (snd (rt_handler r env i ps req s))) = st"
    using st by (auto simp: reading_route_def reading_handler_def api_handler_state other_routes_state)
qed

end
