(* ===== verification/App_Flow.thy ===== *)
theory App_Flow
  imports App_Safety
begin

section \<open>Requests on their way through the application\<close>

text \<open>
  What the order of the gates in index.ts gives: changes need credentials, a shutdown refuses everything
  behind the health checks, a POST that comes twice is processed once, and a wallet that logs in owns the
  collateral it registers. The routes are reached as in \<open>App\<close>, their effects on the store come from the
  interpretations of \<open>app_invariant\<close> in \<open>App_Safety\<close>. The example at the end runs a login and a registration on
  a concrete matcher of paths.
\<close>

subsection \<open>Credentials\<close>

text \<open>A request with credentials: a key that is registered or a token that verifies.\<close>

definition authenticated :: "app_env \<Rightarrow> app_input \<Rightarrow> request \<Rightarrow> app_state \<Rightarrow> bool" where
  "authenticated env i req s \<longleftrightarrow>
     (\<exists>h. header ''authorization'' req = Some h \<and> starts_with ''Bearer '' h \<and>
        (if starts_with ''Bearer sk_'' h then (\<exists>pk. truthy_str (authenticateApiKey (ae_crypto env) h (ap_keys s)) = Some pk)
         else (\<exists>p. verifyJwt (ae_crypto env) (JWT_SECRET (ae_auth env)) (in_now i) (drop 7 h) = Inr p)))"

lemma jwt_proceed_authenticated:
  assumes "jwtMiddleware (ae_crypto env) (ae_auth env) (in_now i) (ap_keys s) (req\<lparr>rq_user := None\<rparr>) = Proceed req'"
    and "is_mutating (rq_method req)" "\<not> starts_with ''/api/auth/'' (rq_path req)"
  shows "authenticated env i req s"
proof -
  have "header ''authorization'' (req\<lparr>rq_user := None\<rparr>) = header ''authorization'' req" by (simp add: header_def)
  then show ?thesis
    using assms by (auto simp: jwtMiddleware_def authenticated_def split: option.splits sum.splits if_splits)
qed

text \<open>C5: Nothing in the store changes without credentials: when a request, whatever it is, leaves other
  loans, collateral or transactions behind, it is a POST, PUT, DELETE or PATCH whose Authorization header
  holds a registered API key or a token that verifies. This rests on the documented matching of
  Express only in that no route matches a path below /api/auth/, which the middleware lets through.\<close>

theorem store_changes_need_credentials:
  assumes express: "\<And>r p. r \<in> set routes \<Longrightarrow> starts_with ''/api/auth/'' p \<Longrightarrow> ae_match env (rt_path r) p = None"
    and changed: "as_store (ap_api (snd (app_request env i req s))) \<noteq> as_store (ap_api s)"
  shows "is_mutating (rq_method req) \<and> authenticated env i req s"
proof -
  have "\<not> routed_to (\<lambda>r. rt_method r = ''GET'') env req" using reading_app.request_keeps [OF refl] changed by blast
  then obtain r ps where r: "find_route env req routes = Some (r, ps)" "rt_method r \<noteq> ''GET''"
    by (auto simp: routed_to_def split: option.splits)
  then have m: "r \<in> set routes" "method_matches (rt_method r) (rq_method req)" "ae_match env (rt_path r) (rq_path req) = Some ps"
    using find_route_SomeD [OF r(1)] by (auto simp: route_params_def split: if_splits)
  then have mut: "is_mutating (rq_method req)"
    using route_methods [of r] r(2) by (auto simp: method_matches_def is_mutating_def)
  moreover have "\<not> starts_with ''/api/auth/'' (rq_path req)" using express m by fastforce
  moreover obtain req' where "jwtMiddleware (ae_crypto env) (ae_auth env) (in_now i) (ap_keys s) (req\<lparr>rq_user := None\<rparr>) = Proceed req'"
    using app_effect [of env i req s] changed by (auto simp: reaches_def)
  ultimately show ?thesis using jwt_proceed_authenticated by blast
qed

lemma initial_app_wf: "store_wf (as_store (ap_api (initial_app pl)))"
  using store_wf_empty by (simp add: initial_app_def initial_api_def)

lemma app_run_wf: "store_wf (as_store (ap_api (app_run env xs (initial_app pl))))"
  by (rule wf_app.run_keeps [OF initial_app_wf]) (simp add: routed_to_def list_all_iff split_beta split: option.split)

lemma calm_initial: "calm_state (ap_api (initial_app pl))"
  using initial_app_wf [of pl]
  by (simp add: calm_state_def initial_app_def initial_api_def exclusive_def open_on_def getLoan_def empty_store_def)

text \<open>Whatever requests the application answers from its start, one after another, its store stays
  well formed and no collateral has two open loans, as long as none of them restores a deleted loan.\<close>

theorem application_no_double_pledge:
  assumes "list_all (\<lambda>(i, req). routed_to (\<lambda>r. rt_path r \<noteq> ''/api/admin/restore/loans/:id'') env req) xs"
  shows "let st = as_store (ap_api (app_run env xs (initial_app pl))) in store_wf st \<and> exclusive st"
  using calm_app.run_keeps [OF calm_initial assms] by (simp add: calm_state_def Let_def)

definition health_request :: "app_env \<Rightarrow> request \<Rightarrow> bool" where
  "health_request env req \<longleftrightarrow> method_matches ''GET'' (rq_method req) \<and>
     (ae_match env ''/api/health'' (rq_path req) \<noteq> None \<or> ae_mount env ''/api/v1/health'' (rq_path req) \<noteq> None)"

lemma settle_others [simp]:
  "ap_dedupe (snd (settle env i rid out)) = ap_dedupe (snd out)"
  "ap_isShuttingDown (snd (settle env i rid out)) = ap_isShuttingDown (snd out)"
  by (auto simp: settle_def split_beta Let_def split: sum.split)

lemma with_ids_answer [simp]: "rs_status (with_ids env i req res) = rs_status res" "rs_body (with_ids env i req res) = rs_body res"
  by (simp_all add: with_ids_def)

text \<open>A request that only the authentication stands before, and one that gets past it.\<close>

definition to_gates :: "app_env \<Rightarrow> app_input \<Rightarrow> request \<Rightarrow> bool" where
  "to_gates env i req \<longleftrightarrow>
     ae_preflight env (req\<lparr>rq_user := None\<rparr>) = None \<and> in_body_error i = None \<and> \<not> health_request env req"

definition open_gates :: "app_env \<Rightarrow> app_input \<Rightarrow> request \<Rightarrow> app_state \<Rightarrow> bool" where
  "open_gates env i req s \<longleftrightarrow> to_gates env i req \<and> \<not> in_limited i GlobalLimit \<and>
     ae_static env (req\<lparr>rq_user := None\<rparr>) = None \<and> \<not> ap_isShuttingDown s"

definition passes :: "app_env \<Rightarrow> app_input \<Rightarrow> request \<Rightarrow> app_state \<Rightarrow> request \<Rightarrow> bool" where
  "passes env i req s req' \<longleftrightarrow> open_gates env i req s \<and> ae_mount env ''/api/auth'' (rq_path req) = None \<and>
     jwtMiddleware (ae_crypto env) (ae_auth env) (in_now i) (ap_keys s) (req\<lparr>rq_user := None\<rparr>) = Proceed req'"

lemma to_gates_request:
  assumes "to_gates env i req"
  shows "app_request env i req s = (with_ids env i (req\<lparr>rq_user := None\<rparr>) (fst (app_gates env i (req\<lparr>rq_user := None\<rparr>) s)),
    snd (app_gates env i (req\<lparr>rq_user := None\<rparr>) s))"
proof -
  have "(case Option.bind (ae_mount env ''/api/v1/health'' (rq_path req)) (health_router env i (req\<lparr>rq_user := None\<rparr>)) of
      Some res \<Rightarrow> (res, s) | None \<Rightarrow> x) = x" for x
    using assms by (auto simp: to_gates_def health_request_def health_router_def Let_def split: option.split bind_split)
  then show ?thesis using assms
    by (auto simp: to_gates_def health_request_def app_request_def Let_def split_beta)
qed

definition same_but_counts :: "app_state \<Rightarrow> app_state \<Rightarrow> bool" where
  "same_but_counts s s' \<longleftrightarrow> ap_api s' = ap_api s \<and> ap_auth s' = ap_auth s \<and> ap_keys s' = ap_keys s \<and> ap_dedupe s' = ap_dedupe s"

lemma early_or_gates:
  "same_but_counts s (snd (app_request env i req s)) \<or>
   snd (app_request env i req s) = snd (app_gates env i (req\<lparr>rq_user := None\<rparr>) s)"
  by (simp add: app_request_def same_but_counts_def split_beta Let_def split: option.split)

text \<open>C18: Once the shutdown has begun no request changes loans, collateral, logins, keys or the memory of
  POSTs, and all but health checks, preflights, bodies that do not parse, files and requests over the rate limit
  are answered with 503.\<close>

theorem shutdown_refuses:
  assumes "ap_isShuttingDown s"
  shows "let (res, s') = app_request env i req s in same_but_counts s s' \<and>
    (to_gates env i req \<and> \<not> in_limited i GlobalLimit \<and> ae_static env (req\<lparr>rq_user := None\<rparr>) = None \<longrightarrow> rs_status res = 503)"
proof -
  let ?req = "req\<lparr>rq_user := None\<rparr>"
  have g: "snd (app_gates env i ?req s) = s"
      "\<not> in_limited i GlobalLimit \<Longrightarrow> ae_static env ?req = None \<Longrightarrow> rs_status (fst (app_gates env i ?req s)) = 503"
    using assms by (simp_all add: app_gates_def shutdown_gate_def split: option.split)
  have "same_but_counts s (snd (app_request env i req s))"
    using early_or_gates [of s env i req] unfolding g(1) by (auto simp: same_but_counts_def)
  then show ?thesis using g(2) to_gates_request [of env i req s] by (simp add: split_beta Let_def)
qed

lemma open_gates_request:
  "open_gates env i req s \<Longrightarrow> app_request env i req s = (with_ids env i (req\<lparr>rq_user := None\<rparr>) (fst (app_gates env i (req\<lparr>rq_user := None\<rparr>) s)),
    snd (app_gates env i (req\<lparr>rq_user := None\<rparr>) s))"
  by (simp add: open_gates_def to_gates_request)

lemma passes_request:
  assumes "passes env i req s req'"
  shows "app_request env i req s = (with_ids env i (req\<lparr>rq_user := None\<rparr>) (fst (app_deduplicated env i req' s)), snd (app_deduplicated env i req' s))"
  using assms open_gates_request [of env i req s]
  by (auto simp: passes_def open_gates_def app_gates_def shutdown_gate_def Let_def)

lemma api_key_router_dedupe: "api_key_router env i req rest s = Some out \<Longrightarrow> ap_dedupe (snd out) = ap_dedupe s"
  by (auto simp: api_key_router_def split_beta Let_def split: if_splits sum.splits option.splits)

lemma handler_dedupe: "r \<in> set routes \<Longrightarrow> ap_dedupe (snd (rt_handler r env i ps req s)) = ap_dedupe s"
  by (drule routes_kind) (auto simp: route_kind_def api_handler_def liquidation_check_route_def migrations_status_def split_beta)

lemma app_routes_dedupe: "ap_dedupe (snd (app_routes env i req s)) = ap_dedupe s"
  by (auto simp: app_routes_def run_route_def bind_eq_Some_conv handler_dedupe
      dest!: find_route_SomeD api_key_router_dedupe split: option.split sum.split)

lemma deduplication_enter_watch:
  assumes "deduplication_enter hash now req c = (DedupeWatch k, c')" "truthy_str (user_key req) = Some pk"
  shows "k = dedupeKey hash pk (rq_body req)" "m_wf c \<Longrightarrow> m_wf c'"
  using assms by (auto simp: deduplication_enter_def evictExpired_def Let_def split: if_splits option.splits)

lemma app_deduplicated_watch:
  assumes "deduplication_enter (ae_hash env) (in_now i) req (ap_dedupe s) = (DedupeWatch k, c)"
  shows "ap_dedupe (snd (app_deduplicated env i req s)) = deduplication_json (in_now i) k (fst (app_deduplicated env i req s)) c"
  using app_routes_dedupe [of env i req "s\<lparr>ap_dedupe := c\<rparr>"]
  by (simp add: app_deduplicated_def assms split_beta Let_def)

lemma app_deduplicated_replay:
  assumes "fst (deduplication_enter (ae_hash env) (in_now i) req (ap_dedupe s)) = DedupeReplay res"
  shows "fst (app_deduplicated env i req s) = res \<and> ap_api (snd (app_deduplicated env i req s)) = ap_api s"
  using assms by (auto simp: app_deduplicated_def split_beta Let_def)



text \<open>A request that the login route answers.\<close>

definition logs_in :: "app_env \<Rightarrow> app_input \<Rightarrow> request \<Rightarrow> app_state \<Rightarrow> bool" where
  "logs_in env i req s \<longleftrightarrow> open_gates env i req s \<and> \<not> in_limited i AuthLimit \<and> rq_method req = ''POST'' \<and>
     (case ae_mount env ''/api/auth'' (rq_path req) of Some rest \<Rightarrow> ae_match env ''/login'' rest = Some (Inr []) | None \<Rightarrow> False)"

lemma login_success:
  assumes "login_route cr cfg now r32 body s = ((res, c), s')" "rs_status res = 200"
    and "field ''walletAddress'' body = Some (JStr w)"
  shows "field ''accessToken'' (rs_body res) = Some (JStr (is_accessToken (fst (issueTokens cr cfg now r32 w s))))"
  using assms unfolding login_route_def Let_def
  by (auto simp: token_body_def issueTokens_def Let_def split: if_splits option.splits json.splits sum.splits bool.splits)

lemma logs_in_eq:
  assumes "logs_in env i req s" "field ''walletAddress'' (rq_body req) = Some (JStr w)"
    and "login_route (ae_crypto env) (ae_auth env) (in_now i) (in_random32 i) (rq_body req) (ap_auth s) = ((res, c), a)"
  shows "app_request env i req s = (with_ids env i (req\<lparr>rq_user := None\<rparr>) (cookie_header env c res), s\<lparr>ap_auth := a\<rparr>)"
proof -
  have b: "body_field ''walletAddress'' (rq_body req) = Inr (Some (JStr w))"
    using assms(2) by (cases "rq_body req") (auto simp: body_field_def)
  obtain rest where r: "ae_mount env ''/api/auth'' (rq_path req) = Some rest" "ae_match env ''/login'' rest = Some (Inr [])"
    using assms(1) by (auto simp: logs_in_def split: option.splits)
  then show ?thesis
    using assms(1,3) b open_gates_request [of env i req s]
    by (auto simp: logs_in_def open_gates_def app_gates_def shutdown_gate_def auth_router_def method_matches_def settle_def
        Let_def)
qed

lemma cookie_header_answer [simp]:
  "rs_body (cookie_header env c res) = rs_body res" "rs_status (cookie_header env c res) = rs_status res"
  by (auto simp: cookie_header_def with_header_def split: option.split)

lemma logs_in_request:
  assumes "logs_in env i req s" "rs_status (fst (app_request env i req s)) = 200"
    and "field ''walletAddress'' (rq_body req) = Some (JStr w)"
  shows "field ''accessToken'' (rs_body (fst (app_request env i req s))) =
      Some (JStr (is_accessToken (fst (issueTokens (ae_crypto env) (ae_auth env) (in_now i) (in_random32 i) w (ap_auth s))))) \<and>
    (\<exists>a. snd (app_request env i req s) = s\<lparr>ap_auth := a\<rparr>)"
proof -
  obtain res c a where l: "login_route (ae_crypto env) (ae_auth env) (in_now i) (in_random32 i) (rq_body req) (ap_auth s) = ((res, c), a)"
    by (metis prod.exhaust)
  note e = logs_in_eq [OF assms(1,3) l]
  have "field ''accessToken'' (rs_body (fst (app_request env i req s))) =
      Some (JStr (is_accessToken (fst (issueTokens (ae_crypto env) (ae_auth env) (in_now i) (in_random32 i) w (ap_auth s)))))"
    using login_success [OF l _ assms(3)] assms(2) by (simp add: e)
  moreover have "\<exists>a. snd (app_request env i req s) = s\<lparr>ap_auth := a\<rparr>" unfolding e snd_conv by blast
  ultimately show ?thesis ..
qed

definition v1_collateral_route :: route where
  "v1_collateral_route = api_route ''POST'' ''/api/v1/collateral'' None (with_uuid create_collateral_v1)"

lemma v1_collateral_created:
  assumes "createCollateralSchema (rq_body req) = Some c" "user_key req = Some w" "w \<noteq> []"
  shows "(\<exists>res. fst (rt_handler v1_collateral_route env i ps req s) = Inr res \<and> rs_status res = 201) \<and>
    as_store (ap_api (snd (rt_handler v1_collateral_route env i ps req s))) =
      snd (insertCollateral (in_now i) (v1_collateral (in_uuid i) w c) (as_store (ap_api s))) \<and>
    ap_keys (snd (rt_handler v1_collateral_route env i ps req s)) = ap_keys s \<and>
    ap_isShuttingDown (snd (rt_handler v1_collateral_route env i ps req s)) = ap_isShuttingDown s"
  using assms
  by (simp add: v1_collateral_route_def api_route_def api_handler_def with_uuid_def create_collateral_v1_def validate_def
     truthy_str_def split_beta)

lemma signed_in_creates:
  assumes login: "logs_in env i1 req1 s" "rs_status (fst (app_request env i1 req1 s)) = 200"
      "field ''walletAddress'' (rq_body req1) = Some (JStr w)" "w \<noteq> []"
      "field ''accessToken'' (rs_body (fst (app_request env i1 req1 s))) = Some (JStr token)"
    and json: "let p = access_payload (ae_auth env) (in_now i1) w in cr_parse (ae_crypto env) (cr_stringify (ae_crypto env) p) = Inr p"
      "cr_stringify (ae_crypto env) (JObj [(''alg'', JStr ''HS256''), (''typ'', JStr ''JWT'')]) = CHR ''{'' # rest"
    and gates: "open_gates env i2 req2 (snd (app_request env i1 req1 s))" "ae_mount env ''/api/auth'' (rq_path req2) = None"
      "in_now i2 div 1000 \<le> (in_now i1 + ACCESS_TTL_MS (ae_auth env)) div 1000"
    and req2: "rq_method req2 = ''POST''" "\<not> starts_with ''/api/auth/'' (rq_path req2)"
      "header ''authorization'' req2 = Some (''Bearer '' @ token)" "createCollateralSchema (rq_body req2) = Some c"
    and fresh: "m_get (ap_dedupe s) (dedupeKey (ae_hash env) w (rq_body req2)) = None" "m_wf (ap_dedupe s)"
    and route: "ae_mount env ''/api/v2'' (rq_path req2) = None" "ae_mount env ''/api/v1/admin/api-keys'' (rq_path req2) = None"
      "find_route env req2 routes = Some (v1_collateral_route, Inr [])"
  shows "let (res, s2) = app_request env i2 req2 (snd (app_request env i1 req1 s)) in
    rs_status res = 201 \<and>
    as_store (ap_api s2) = snd (insertCollateral (in_now i2) (v1_collateral (in_uuid i2) w c) (as_store (ap_api s))) \<and>
    ap_keys s2 = ap_keys s \<and> ap_isShuttingDown s2 = ap_isShuttingDown s"
proof -
  let ?t = "fst (issueTokens (ae_crypto env) (ae_auth env) (in_now i1) (in_random32 i1) w (ap_auth s))"
  let ?s1 = "snd (app_request env i1 req1 s)"
  let ?r = "with_user (Some w) (req2\<lparr>rq_user := None\<rparr>)"
  obtain a where t: "token = is_accessToken ?t" and s1: "?s1 = s\<lparr>ap_auth := a\<rparr>"
    using logs_in_request [OF login(1-3)] login(5) by auto
  have jwt: "jwtMiddleware (ae_crypto env) (ae_auth env) (in_now i2) (ap_keys ?s1) (req2\<lparr>rq_user := None\<rparr>) = Proceed ?r"
    using access_token_gate [of "req2\<lparr>rq_user := None\<rparr>", OF _ _ _ json(1) [unfolded Let_def] json(2)] req2 t gates(3)
    by (simp add: is_mutating_def header_def)
  then have "passes env i2 req2 ?s1 ?r" using gates by (simp add: passes_def)
  note out = passes_request [OF this]
  have r: "rq_method ?r = ''POST''" "rq_body ?r = rq_body req2" "rq_path ?r = rq_path req2" "user_key ?r = Some w" "truthy_str (user_key ?r) = Some w"
    using req2(1) login(4) by (simp_all add: with_user_def user_key_def truthy_str_def)
  obtain k cc where d: "deduplication_enter (ae_hash env) (in_now i2) ?r (ap_dedupe ?s1) = (DedupeWatch k, cc)"
    using r fresh by (auto simp: s1 deduplication_enter_def evictExpired_def m_get_keep)
  have f: "find_route env ?r routes = Some (v1_collateral_route, Inr [])"
    using find_route_same [of ?r req2] r req2(1) route(3) by simp
  have ro: "app_routes env i2 ?r (?s1\<lparr>ap_dedupe := cc\<rparr>) = rt_handler v1_collateral_route env i2 [] ?r (?s1\<lparr>ap_dedupe := cc\<rparr>)"
    using f route(1,2) r(3) by (simp add: app_routes_def run_route_def v1_collateral_route_def api_route_def refused_def)
  obtain res where h: "fst (rt_handler v1_collateral_route env i2 [] ?r (?s1\<lparr>ap_dedupe := cc\<rparr>)) = Inr res" "rs_status res = 201"
      "as_store (ap_api (snd (rt_handler v1_collateral_route env i2 [] ?r (?s1\<lparr>ap_dedupe := cc\<rparr>)))) =
       snd (insertCollateral (in_now i2) (v1_collateral (in_uuid i2) w c) (as_store (ap_api s)))"
      "ap_keys (snd (rt_handler v1_collateral_route env i2 [] ?r (?s1\<lparr>ap_dedupe := cc\<rparr>))) = ap_keys s"
      "ap_isShuttingDown (snd (rt_handler v1_collateral_route env i2 [] ?r (?s1\<lparr>ap_dedupe := cc\<rparr>))) = ap_isShuttingDown s"
    using v1_collateral_created [of ?r c w env i2 "[]" "?s1\<lparr>ap_dedupe := cc\<rparr>"] r req2(4) login(4) s1 by auto
  show ?thesis
    using h by (simp add: out app_deduplicated_def d ro settle_def split_beta Let_def)
qed



lemma insert_collateral_effect:
  "getCollateral (c_id d) (snd (insertCollateral now d st)) = Some (fst (insertCollateral now d st))"
  "k \<noteq> c_id d \<Longrightarrow> m_get (collateralTable (snd (insertCollateral now d st))) k = m_get (collateralTable st) k"
  "loanTable (snd (insertCollateral now d st)) = loanTable st"
  by (simp_all add: insertCollateral_def getCollateral_def Let_def CollateralData.defs)

text \<open>C15: From login to collateral: after a login that was answered with a token, a POST to
  /api/v1/collateral with that token before its expiry records the collateral of its body under a new id
  as available property of the wallet that signed the challenge, and changes no other collateral and no loan.\<close>

theorem signed_in_wallet_owns_collateral:
  assumes login: "logs_in env i1 req1 s" "rs_status (fst (app_request env i1 req1 s)) = 200"
      "field ''walletAddress'' (rq_body req1) = Some (JStr w)" "w \<noteq> []"
      "field ''accessToken'' (rs_body (fst (app_request env i1 req1 s))) = Some (JStr token)"
    and json: "let p = access_payload (ae_auth env) (in_now i1) w in cr_parse (ae_crypto env) (cr_stringify (ae_crypto env) p) = Inr p"
      "cr_stringify (ae_crypto env) (JObj [(''alg'', JStr ''HS256''), (''typ'', JStr ''JWT'')]) = CHR ''{'' # rest"
    and gates: "open_gates env i2 req2 (snd (app_request env i1 req1 s))" "ae_mount env ''/api/auth'' (rq_path req2) = None"
      "in_now i2 div 1000 \<le> (in_now i1 + ACCESS_TTL_MS (ae_auth env)) div 1000"
    and req2: "rq_method req2 = ''POST''" "\<not> starts_with ''/api/auth/'' (rq_path req2)"
      "header ''authorization'' req2 = Some (''Bearer '' @ token)" "createCollateralSchema (rq_body req2) = Some c"
    and fresh: "m_get (ap_dedupe s) (dedupeKey (ae_hash env) w (rq_body req2)) = None" "m_wf (ap_dedupe s)"
    and route: "ae_mount env ''/api/v2'' (rq_path req2) = None" "ae_mount env ''/api/v1/admin/api-keys'' (rq_path req2) = None"
      "find_route env req2 routes = Some (v1_collateral_route, Inr [])"
  shows "let (res, s2) = app_request env i2 req2 (snd (app_request env i1 req1 s)); st = as_store (ap_api s2) in
    rs_status res = 201 \<and>
    (\<exists>r. getCollateral (in_uuid i2) st = Some r \<and> c_owner r = w \<and> c_animal_type r = cc_animal_type c \<and>
       c_count r = of_int (cc_count c) \<and> c_appraised_value r = cc_appraised_value c \<and> c_status r = Some Available) \<and>
    (\<forall>k. k \<noteq> in_uuid i2 \<longrightarrow> m_get (collateralTable st) k = m_get (collateralTable (as_store (ap_api s))) k) \<and>
    loanTable st = loanTable (as_store (ap_api s))"
proof -
  let ?d = "v1_collateral (in_uuid i2) w c"
  have d: "c_id ?d = in_uuid i2" by (simp add: v1_collateral_def)
  show ?thesis
    using signed_in_creates [OF assms] insert_collateral_effect [where d = ?d and now = "in_now i2" and st = "as_store (ap_api s)"]
    by (simp add: split_beta Let_def d) (simp add: insertCollateral_def v1_collateral_def CollateralData.defs Let_def)
qed

subsection \<open>An example\<close>

text \<open>Matching as Express does it on paths without escapes: by segments, in any case of the letters, with a
  slash at the end or without.\<close>

definition path_segments :: "string \<Rightarrow> string list" where
  "path_segments p = (let ws = drop 1 (split_on CHR ''/'' p) in if ws \<noteq> [] \<and> last ws = [] then butlast ws else ws)"

fun match_segments :: "string list \<Rightarrow> string list \<Rightarrow> string list option" where
  "match_segments [] [] = Some []"
| "match_segments (p # ps) (w # ws) =
     (if starts_with '':'' p then (if w = [] then None else map_option ((#) w) (match_segments ps ws))
      else if to_lower p = to_lower w then match_segments ps ws else None)"
| "match_segments _ _ = None"

definition path_match :: "string \<Rightarrow> string \<Rightarrow> (js_error + string list) option" where
  "path_match pat p = map_option Inr (match_segments (path_segments pat) (path_segments p))"

definition path_mount :: "string \<Rightarrow> string \<Rightarrow> string option" where
  "path_mount pat p =
     (let ms = path_segments pat; ws = path_segments p; n = length ms in
      if map to_lower ms = map to_lower (take n ws)
      then Some (if drop n ws = [] then ''/'' else concat (map ((#) CHR ''/'') (drop n ws))) else None)"

definition sample_app :: "crypto \<Rightarrow> app_env" where
  "sample_app cr = \<lparr>ae_api = calm_api, ae_crypto = cr, ae_auth = toy_config, ae_job = calm_env, ae_hash = (\<lambda>_. ''h''),
     ae_match = path_match, ae_mount = path_mount, ae_preflight = (\<lambda>_. None), ae_static = (\<lambda>_. None),
     ae_not_found = (\<lambda>_. respond 404 JNull), ae_cookie_text = ck_value, ae_version = ''1.0.0'', ae_startTime = 0\<rparr>"

definition sample_input :: "int \<Rightarrow> string \<Rightarrow> app_input" where
  "sample_input now uuid = \<lparr>in_now = now, in_iso = [], in_uuid = uuid, in_random32 = ''r'', in_random8 = ''k'', in_requestId = [],
     in_correlationId = [], in_body_error = None, in_form = \<lparr>fm_species = None, fm_breed = None, fm_age = None, fm_weight = None, fm_file = None\<rparr>, in_limited = (\<lambda>_. False), in_db = True,
     in_rpc = True, in_disk = True, in_getHealth = (\<lambda>_ _. Inr ()), in_migrations = Inr [], in_clock = (\<lambda>_. now), in_query_text = []\<rparr>"

lemma path_segments_auth: "\<exists>ws. path_segments (''/api/auth/'' @ p) = ''api'' # ''auth'' # ws"
proof -
  have "split_on CHR ''/'' (''/api/auth/'' @ p) = [] # ''api'' # ''auth'' # split_on CHR ''/'' p" by simp
  then show ?thesis by (auto simp: path_segments_def Let_def)
qed

definition not_below_auth :: "string \<Rightarrow> bool" where
  "not_below_auth pat \<longleftrightarrow> (case path_segments pat of _ # w # _ \<Rightarrow> \<not> starts_with '':'' w \<and> to_lower w \<noteq> ''auth'' | _ \<Rightarrow> True)"

lemma not_below_auth_match:
  assumes "not_below_auth pat" "starts_with ''/api/auth/'' p" shows "path_match pat p = None"
proof -
  obtain q where "p = ''/api/auth/'' @ q" using assms(2) by (auto simp: starts_with_iff)
  moreover obtain ws where "path_segments (''/api/auth/'' @ q) = ''api'' # ''auth'' # ws" using path_segments_auth by blast
  moreover have "to_lower ''auth'' = ''auth''" by code_simp
  ultimately show ?thesis using assms(1)
    by (auto simp: not_below_auth_def path_match_def split: list.splits elim!: match_segments.elims)
qed

definition route_table :: "(string \<times> string) list" where
  "route_table = map (\<lambda>r. (rt_method r, rt_path r)) routes"

lemmas route_table_eq = route_table_def [unfolded routes_def api_route_def, simplified]

lemma routes_not_below_auth: "r \<in> set routes \<Longrightarrow> not_below_auth (rt_path r)"
proof -
  have "list_all (not_below_auth \<circ> snd) route_table" unfolding route_table_eq by code_simp
  then show "r \<in> set routes \<Longrightarrow> not_below_auth (rt_path r)" by (auto simp: route_table_def list_all_iff)
qed

definition table_matches :: "request \<Rightarrow> string \<times> string \<Rightarrow> bool" where
  "table_matches req mp \<longleftrightarrow> method_matches (fst mp) (rq_method req) \<and> match_segments (path_segments (snd mp)) (path_segments (rq_path req)) \<noteq> None"

lemma find_route_at:
  assumes "list_all (\<lambda>mp. \<not> table_matches req mp) (take n route_table)" "n < length routes"
    and "method_matches (rt_method (routes ! n)) (rq_method req)"
    and "match_segments (path_segments (rt_path (routes ! n))) (path_segments (rq_path req)) = Some ps"
  shows "find_route (sample_app cr) req routes = Some (routes ! n, Inr ps)"
proof -
  have "find_route (sample_app cr) req (rs @ r # rs') = Some (r, Inr ps)"
    if "list_all (\<lambda>r. \<not> table_matches req (rt_method r, rt_path r)) rs" "method_matches (rt_method r) (rq_method req)"
      "match_segments (path_segments (rt_path r)) (path_segments (rq_path req)) = Some ps" for rs r rs'
    using that by (induction rs) (auto simp: route_params_def sample_app_def path_match_def table_matches_def)
  from this [of "take n routes" "routes ! n" "drop (Suc n) routes"] show ?thesis
    using assms by (simp add: id_take_nth_drop [symmetric] route_table_def take_map list.pred_map comp_def)
qed


definition sample_crypto :: crypto where
  "sample_crypto = toy_crypto\<lparr>cr_parse := (\<lambda>_. Inr (access_payload toy_config 1000 ''GA''))\<rparr>"

definition challenged :: app_state where
  "challenged = (initial_app (new_pool 1 2))\<lparr>ap_auth := snd (challenge_route 0 ''a'' \<lparr>challenges = [], refreshTokens = []\<rparr>)\<rparr>"

definition login_request :: request where
  "login_request = (post_json (login_body ''00''))\<lparr>rq_path := ''/api/auth/login''\<rparr>"

definition herd_json :: json where
  "herd_json = JObj [(''animal_type'', JStr ''cattle''), (''count'', JNum 2), (''appraised_value'', JNum 500)]"

definition herd_request :: request where
  "herd_request = (post_json herd_json)\<lparr>rq_path := ''/api/v1/collateral'', rq_headers := [(''authorization'', ''Bearer e30.e30.cw'')]\<rparr>"

abbreviation "sample_login \<equiv> app_request (sample_app sample_crypto) (sample_input 1000 ''u0'') login_request challenged"

lemma sample_simps [simp]:
  "ae_match (sample_app cr) = path_match" "ae_mount (sample_app cr) = path_mount" "ae_crypto (sample_app cr) = cr"
  "ae_preflight (sample_app cr) = (\<lambda>_. None)" "ae_static (sample_app cr) = (\<lambda>_. None)" "ae_auth (sample_app cr) = toy_config"
  "ae_hash (sample_app cr) = (\<lambda>_. ''h'')"
  "in_now (sample_input t u) = t" "in_uuid (sample_input t u) = u" "in_limited (sample_input t u) = (\<lambda>_. False)"
  "in_body_error (sample_input t u) = None" "in_random32 (sample_input t u) = ''r''"
  by (simp_all add: sample_app_def sample_input_def)

lemma sample_open:
  "\<not> ap_isShuttingDown s \<Longrightarrow> rq_method req = ''POST'' \<Longrightarrow> open_gates (sample_app cr) (sample_input t u) req s"
  by (simp add: open_gates_def to_gates_def health_request_def method_matches_def)

lemma sample_logs_in: "logs_in (sample_app sample_crypto) (sample_input 1000 ''u0'') login_request challenged"
proof -
  have "path_mount ''/api/auth'' ''/api/auth/login'' = Some ''/login''" "path_match ''/login'' ''/login'' = Some (Inr [])"
    by code_simp+
  then show ?thesis
    by (simp add: logs_in_def sample_open challenged_def initial_app_def login_request_def post_json_def)
qed

lemma sample_login_ok:
  "fst (fst (login_route sample_crypto toy_config 1000 ''r'' (login_body ''00'') (ap_auth challenged))) =
     respond 200 (token_body (fst (issueTokens sample_crypto toy_config 1000 ''r'' ''GA'' (ap_auth challenged))))"
proof -
  have "m_get (challenges (ap_auth challenged)) ''61'' = Some 300000" unfolding challenged_def initial_app_def by code_simp
  then show ?thesis
    by (simp add: login_route_def login_body_def sample_crypto_def toy_crypto_def verify_signature_def issueTokens_def Let_def)
qed

lemma sample_token: "is_accessToken (fst (issueTokens sample_crypto toy_config 1000 ''r'' ''GA'' s)) = ''e30.e30.cw''"
  using toy_token [of "access_payload toy_config 1000 ''GA''"]
  by (simp add: issueTokens_def Let_def sample_crypto_def toy_config_def signJwt_def toy_crypto_def)

lemma sample_login_answer:
  "rs_status (fst sample_login) = 200" "field ''accessToken'' (rs_body (fst sample_login)) = Some (JStr ''e30.e30.cw'')"
  "\<exists>a. snd sample_login = challenged\<lparr>ap_auth := a\<rparr>"
proof -
  obtain res c a where l: "login_route sample_crypto toy_config 1000 ''r'' (login_body ''00'') (ap_auth challenged) = ((res, c), a)"
    by (metis prod.exhaust)
  then have res: "res = respond 200 (token_body (fst (issueTokens sample_crypto toy_config 1000 ''r'' ''GA'' (ap_auth challenged))))"
    using sample_login_ok by simp
  have w: "field ''walletAddress'' (rq_body login_request) = Some (JStr ''GA'')" "rq_body login_request = login_body ''00''"
    by (simp_all add: login_request_def post_json_def login_body_def)
  have e: "sample_login = (with_ids (sample_app sample_crypto) (sample_input 1000 ''u0'') (login_request\<lparr>rq_user := None\<rparr>)
      (cookie_header (sample_app sample_crypto) c res), challenged\<lparr>ap_auth := a\<rparr>)"
    by (rule logs_in_eq [OF sample_logs_in w(1)]) (simp add: w(2) l)
  show "rs_status (fst sample_login) = 200" "field ''accessToken'' (rs_body (fst sample_login)) = Some (JStr ''e30.e30.cw'')"
    by (simp_all add: e res token_body_def sample_token)
  show "\<exists>a. snd sample_login = challenged\<lparr>ap_auth := a\<rparr>" unfolding e snd_conv by blast
qed

lemma herd_route: "find_route (sample_app cr) herd_request routes = Some (v1_collateral_route, Inr [])"
proof -
  have n: "routes ! 24 = v1_collateral_route" "24 < length routes" by (simp_all add: routes_def v1_collateral_route_def)
  have "find_route (sample_app cr) herd_request routes = Some (routes ! 24, Inr [])"
  proof (rule find_route_at [OF _ n(2)])
    show "list_all (\<lambda>mp. \<not> table_matches herd_request mp) (take 24 route_table)" unfolding route_table_eq by code_simp
    show "method_matches (rt_method (routes ! 24)) (rq_method herd_request)"
      by (simp add: n v1_collateral_route_def api_route_def method_matches_def herd_request_def post_json_def)
    have "match_segments (path_segments ''/api/v1/collateral'') (path_segments ''/api/v1/collateral'') = Some []" by code_simp
    then show "match_segments (path_segments (rt_path (routes ! 24))) (path_segments (rq_path herd_request)) = Some []"
      by (simp add: n v1_collateral_route_def api_route_def herd_request_def)
  qed
  then show ?thesis unfolding n .
qed

lemma herd_parse: "createCollateralSchema herd_json = Some \<lparr>cc_animal_type = ''cattle'', cc_count = 2, cc_appraised_value = 500\<rparr>"
  by code_simp


lemma sample_facts:
  "path_mount ''/api/auth'' ''/api/v1/collateral'' = None" "path_mount ''/api/v2'' ''/api/v1/collateral'' = None"
  "path_mount ''/api/v1/admin/api-keys'' ''/api/v1/collateral'' = None"
  "cr_parse sample_crypto x = Inr (access_payload toy_config 1000 ''GA'')" "cr_stringify sample_crypto j = ''{}''"
  by (code_simp, code_simp, code_simp, simp_all add: sample_crypto_def toy_crypto_def)

abbreviation "sample_create t u \<equiv> app_request (sample_app sample_crypto) (sample_input t u) herd_request"

lemma herd_request_simps:
  "rq_method herd_request = ''POST''" "rq_path herd_request = ''/api/v1/collateral''" "rq_body herd_request = herd_json"
  "header ''authorization'' herd_request = Some (''Bearer '' @ ''e30.e30.cw'')"
  by (simp_all add: herd_request_def post_json_def header_def)

lemma sample_conditions:
  "field ''walletAddress'' (rq_body login_request) = Some (JStr ''GA'')"
  "open_gates (sample_app sample_crypto) (sample_input 2000 ''c1'') herd_request (snd sample_login)"
  "ap_dedupe challenged = []" "as_store (ap_api challenged) = empty_store"
  "ap_keys challenged = []" "ap_isShuttingDown challenged = False"
proof -
  show "open_gates (sample_app sample_crypto) (sample_input 2000 ''c1'') herd_request (snd sample_login)"
    using sample_login_answer(3) by (auto intro!: sample_open simp: herd_request_simps challenged_def initial_app_def)
qed (simp_all add: login_request_def post_json_def login_body_def challenged_def initial_app_def initial_api_def)

lemma sample_created:
  "rs_status (fst (sample_create 2000 ''c1'' (snd sample_login))) = 201"
  "as_store (ap_api (snd (sample_create 2000 ''c1'' (snd sample_login)))) =
     snd (insertCollateral 2000 (v1_collateral ''c1'' ''GA'' \<lparr>cc_animal_type = ''cattle'', cc_count = 2, cc_appraised_value = 500\<rparr>) empty_store)"
  "ap_keys (snd (sample_create 2000 ''c1'' (snd sample_login))) = []"
  "ap_isShuttingDown (snd (sample_create 2000 ''c1'' (snd sample_login))) = False"
proof -
  have "let (res, s2) = sample_create 2000 ''c1'' (snd sample_login) in
    rs_status res = 201 \<and> as_store (ap_api s2) = snd (insertCollateral (in_now (sample_input 2000 ''c1''))
      (v1_collateral (in_uuid (sample_input 2000 ''c1'')) ''GA'' \<lparr>cc_animal_type = ''cattle'', cc_count = 2, cc_appraised_value = 500\<rparr>)
      (as_store (ap_api challenged))) \<and> ap_keys s2 = ap_keys challenged \<and> ap_isShuttingDown s2 = ap_isShuttingDown challenged"
    by (rule signed_in_creates [where rest = "''}''", OF sample_logs_in sample_login_answer(1) sample_conditions(1) _ sample_login_answer(2) _ _ sample_conditions(2)])
      (simp_all add: herd_request_simps sample_facts toy_config_def starts_with_def herd_parse sample_conditions herd_route)
  then show "rs_status (fst (sample_create 2000 ''c1'' (snd sample_login))) = 201"
    "as_store (ap_api (snd (sample_create 2000 ''c1'' (snd sample_login)))) =
       snd (insertCollateral 2000 (v1_collateral ''c1'' ''GA'' \<lparr>cc_animal_type = ''cattle'', cc_count = 2, cc_appraised_value = 500\<rparr>) empty_store)"
    "ap_keys (snd (sample_create 2000 ''c1'' (snd sample_login))) = []"
    "ap_isShuttingDown (snd (sample_create 2000 ''c1'' (snd sample_login))) = False"
    by (simp_all add: split_beta sample_conditions)
qed

theorem store_changes_need_credentials_witness:
  "authenticated (sample_app sample_crypto) (sample_input 2000 ''c1'') herd_request (snd sample_login)"
proof -
  have e: "ae_match (sample_app sample_crypto) (rt_path r) p = None" if "r \<in> set routes" "starts_with ''/api/auth/'' p" for r p
    using not_below_auth_match [OF routes_not_below_auth] that by simp
  have "as_store (ap_api (snd sample_login)) = empty_store"
    using sample_login_answer(3) by (auto simp: challenged_def initial_app_def initial_api_def)
  then have "as_store (ap_api (snd (sample_create 2000 ''c1'' (snd sample_login)))) \<noteq> as_store (ap_api (snd sample_login))"
    unfolding sample_created by (simp add: insertCollateral_def Let_def empty_store_def m_set_def)
  from store_changes_need_credentials [OF e this] show ?thesis by simp
qed

lemma sample_auth_unrouted:
  "starts_with ''/api/auth/'' (rq_path req) \<Longrightarrow> find_route (sample_app cr) req routes = None"
proof -
  assume p: "starts_with ''/api/auth/'' (rq_path req)"
  have "find_route (sample_app cr) req rs = None" if "set rs \<subseteq> set routes" for rs
    using that by (induction rs) (auto simp: route_params_def not_below_auth_match [OF routes_not_below_auth p])
  then show ?thesis by simp
qed

theorem application_no_double_pledge_witness:
  "exclusive (as_store (ap_api (app_run (sample_app sample_crypto)
     [(sample_input 1000 ''u0'', login_request), (sample_input 2000 ''c1'', herd_request)] (initial_app (new_pool 1 2)))))"
proof -
  have "starts_with ''/api/auth/'' (rq_path login_request)" by (simp add: login_request_def starts_with_def)
  then have "list_all (\<lambda>(i, req). routed_to (\<lambda>r. rt_path r \<noteq> ''/api/admin/restore/loans/:id'') (sample_app sample_crypto) req)
      [(sample_input 1000 ''u0'', login_request), (sample_input 2000 ''c1'', herd_request)]"
    by (simp add: routed_to_def sample_auth_unrouted herd_route v1_collateral_route_def api_route_def)
  from application_no_double_pledge [OF this] show ?thesis by (simp add: Let_def)
qed

lemma sample_passes:
  assumes "ap_keys s = []" "\<not> ap_isShuttingDown s" "t \<in> {2000, 6999}"
  shows "passes (sample_app sample_crypto) (sample_input t u) herd_request s (with_user (Some ''GA'') (herd_request\<lparr>rq_user := None\<rparr>))"
proof -
  have "jwtMiddleware sample_crypto toy_config t [] (herd_request\<lparr>rq_user := None\<rparr>) =
      Proceed (with_user (Some ''GA'') (herd_request\<lparr>rq_user := None\<rparr>))"
    using assms(3) by (elim insertE emptyE; hypsubst; code_simp)
  then show ?thesis using assms by (simp add: passes_def sample_open herd_request_simps sample_facts)
qed


theorem shutdown_refuses_witness:
  "rs_status (fst (sample_create 5 ''c1'' (challenged\<lparr>ap_isShuttingDown := True\<rparr>))) = 503"
proof -
  let ?s = "challenged\<lparr>ap_isShuttingDown := True\<rparr>"
  have "to_gates (sample_app sample_crypto) (sample_input 5 ''c1'') herd_request"
    by (simp add: to_gates_def health_request_def herd_request_simps method_matches_def)
  then show ?thesis
    using shutdown_refuses [of ?s "sample_app sample_crypto" "sample_input 5 ''c1''" herd_request] by (simp add: split_beta)
qed


theorem signed_in_wallet_owns_collateral_witness:
  "map_option c_owner (getCollateral ''c1'' (as_store (ap_api (snd (sample_create 2000 ''c1'' (snd sample_login)))))) = Some ''GA''"
proof -
  have "let (res, s2) = sample_create 2000 ''c1'' (snd sample_login); st = as_store (ap_api s2) in
    rs_status res = 201 \<and>
    (\<exists>r. getCollateral (in_uuid (sample_input 2000 ''c1'')) st = Some r \<and> c_owner r = ''GA'' \<and> c_animal_type r = ''cattle'' \<and>
       c_count r = of_int 2 \<and> c_appraised_value r = 500 \<and> c_status r = Some Available) \<and>
    (\<forall>k. k \<noteq> in_uuid (sample_input 2000 ''c1'') \<longrightarrow> m_get (collateralTable st) k = m_get (collateralTable (as_store (ap_api challenged))) k) \<and>
    loanTable st = loanTable (as_store (ap_api challenged))"
    using signed_in_wallet_owns_collateral [where rest = "''}''" and c = "\<lparr>cc_animal_type = ''cattle'', cc_count = 2, cc_appraised_value = 500\<rparr>",
      OF sample_logs_in sample_login_answer(1) sample_conditions(1) _ sample_login_answer(2) _ _ sample_conditions(2)]
    by (simp add: herd_request_simps sample_facts toy_config_def starts_with_def herd_parse sample_conditions herd_route)
  then show ?thesis by (auto simp: split_beta Let_def)
qed


subsection \<open>What the gates let through\<close>

definition get_request :: "string \<Rightarrow> string \<Rightarrow> request" where
  "get_request m p = \<lparr>rq_method = m, rq_path = p, rq_query = [], rq_headers = [], rq_body = JNull, rq_user = None\<rparr>"

lemma listing_route: "routes ! 8 = api_route ''GET'' ''/api/collateral'' None (plain list_collateral_route)"
  by (simp add: routes_def)

text \<open>The protected listing is open to everyone who writes its path with a slash at the end or in capitals, or
  asks with HEAD.\<close>

lemma protected_listing_open:
  assumes "(m, p) \<in> {(''GET'', ''/api/collateral/''), (''GET'', ''/API/collateral''), (''HEAD'', ''/api/collateral'')}"
  shows "jwtMiddleware cr cfg now keys (get_request m p) = Proceed (get_request m p)"
    and "find_route (sample_app cr) (get_request m p) routes = Some (routes ! 8, Inr [])"
proof -
  show "jwtMiddleware cr cfg now keys (get_request m p) = Proceed (get_request m p)"
    using assms by (auto simp: get_request_def jwtMiddleware_def is_mutating_def protected_get_def is_segment_def starts_with_def)
  show "find_route (sample_app cr) (get_request m p) routes = Some (routes ! 8, Inr [])"
  proof (rule find_route_at)
    show "list_all (\<lambda>mp. \<not> table_matches (get_request m p) mp) (take 8 route_table)"
      using assms unfolding route_table_eq by (elim insertE emptyE Pair_inject; hypsubst; code_simp)
    have "match_segments (path_segments ''/api/collateral'') (path_segments p) = Some []"
      using assms by (elim insertE emptyE Pair_inject; hypsubst; code_simp)
    then show "match_segments (path_segments (rt_path (routes ! 8))) (path_segments (rq_path (get_request m p))) = Some []"
      by (simp add: listing_route api_route_def get_request_def)
    show "method_matches (rt_method (routes ! 8)) (rq_method (get_request m p))"
      using assms by (auto simp: listing_route api_route_def get_request_def method_matches_def)
  qed (simp add: routes_def)
qed

text \<open>A body that is no JSON is answered with a server error and counted as one, before any gate.\<close>

lemma body_errors_counted:
  assumes "in_body_error i = Some (JsError ''SyntaxError'' msg)" "ae_preflight env (req\<lparr>rq_user := None\<rparr>) = None"
  shows "rs_status (fst (app_request env i req s)) = 500" "in_now i \<in> set (ap_5xx (snd (app_request env i req s)))"
proof -
  have d: "in_now i \<in> set (dropWhile (\<lambda>t. t < in_now i - w) (xs @ [in_now i]))" if "0 < w" for w xs
    using that by (induction xs) auto
  show "rs_status (fst (app_request env i req s)) = 500" "in_now i \<in> set (ap_5xx (snd (app_request env i req s)))"
    using assms d by (auto simp: app_request_def settle_def split_beta Let_def app_error_handler_def is_pool_exhausted_def
      errorHandler_def track5xx_def FIVEXX_WINDOW_MS_def)
qed

end
