(* ===== verification/App_Ledger.thy ===== *)
theory App_Ledger
  imports App_Flow
begin

section \<open>The application implements the ledger\<close>

text \<open>
  The refinement of \<open>Ledger_Spec\<close> for the whole application: every request is meant for at most one act of the
  ledger, given by its route, and does this act or nothing. The simulation is an interpretation of
  \<open>app_simulation\<close> over the table of routes; what the ledger keeps is then proved on the ledger alone and
  carried to the store of every run of requests.
\<close>

subsection \<open>What a route is meant for\<close>

definition acting_routes :: "((string \<times> string) \<times> ledger_act) list" where
  "acting_routes =
     [((''POST'', ''/api/loan/create''), ALend),
      ((''PUT'', ''/api/loans/:id/repay''), ARepay),
      ((''DELETE'', ''/api/loan/:id''), AForget),
      ((''POST'', ''/api/admin/restore/loans/:id''), AReopen),
      ((''POST'', ''/api/collateral''), ARegister),
      ((''POST'', ''/api/v1/collateral''), ARegister),
      ((''POST'', ''/api/admin/restore/collateral/:id''), ARegister),
      ((''PATCH'', ''/api/v1/collateral/:id/restore''), ARegister),
      ((''DELETE'', ''/api/collateral/:id''), AWithdraw),
      ((''DELETE'', ''/api/v1/collateral/:id''), AWithdraw),
      ((''PATCH'', ''/api/v1/collateral/:id''), ARevalue),
      ((''PUT'', ''/api/v1/collateral/:id/appraise''), ARevalue)]"

definition route_act :: "route \<Rightarrow> ledger_act option" where
  "route_act r = map_of acting_routes (rt_method r, rt_path r)"

definition request_act :: "app_env \<Rightarrow> request \<Rightarrow> ledger_act option" where
  "request_act env req = (case find_route env req routes of None \<Rightarrow> None | Some (r, _) \<Rightarrow> route_act r)"

text \<open>The identifier drawn for a request is new to the store.\<close>

definition fresh_input :: "app_input \<Rightarrow> api_state \<Rightarrow> bool" where
  "fresh_input i a \<longleftrightarrow> m_get (loanTable (as_store a)) (in_uuid i) = None \<and> m_get (collateralTable (as_store a)) (in_uuid i) = None"

fun fresh_run :: "app_env \<Rightarrow> (app_input \<times> request) list \<Rightarrow> app_state \<Rightarrow> bool" where
  "fresh_run env [] s = True"
| "fresh_run env ((i, req) # xs) s = (fresh_input i (ap_api s) \<and> fresh_run env xs (snd (app_request env i req s)))"

text \<open>Acts, or none, one after another.\<close>

inductive ledger_trace :: "ledger_act option list \<Rightarrow> ledger \<Rightarrow> ledger \<Rightarrow> bool" where
  trace_nil: "ledger_trace [] L L"
| trace_cons: "may_step a L M \<Longrightarrow> ledger_trace as M N \<Longrightarrow> ledger_trace (a # as) L N"

inductive_simps ledger_trace_simps [simp]: "ledger_trace [] L M" "ledger_trace (a # as) L M"

subsection \<open>The handlers that correct the books\<close>

lemma ledger_of_upd:
  assumes "\<And>c. getCollateral c s' = (if c = k then Some r else getCollateral c s)" "loanTable s' = loanTable s"
  shows "ledger_of s' = (ledger_of s)\<lparr>holdings := (holdings (ledger_of s))(k \<mapsto> holding_of r)\<rparr>"
  using assms by (intro ledger_eqI) (auto simp: getLoan_def)

lemma step_revalue:
  assumes "getCollateral k s = Some c" "getCollateral k s' = Some c'" "c_owner c' = c_owner c"
    and "\<And>x. x \<noteq> k \<Longrightarrow> getCollateral x s' = getCollateral x s" "loanTable s' = loanTable s"
  shows "may_step (Some ARevalue) (ledger_of s) (ledger_of s')"
proof (rule may_stepI)
  show "act_step ARevalue (ledger_of s) ((ledger_of s)\<lparr>holdings := (holdings (ledger_of s))(k \<mapsto> (holding_of c)\<lparr>ho_value := c_appraised_value c'\<rparr>)\<rparr>)"
    using assms(1) by (intro act_step.revalue) simp
  show "ledger_of s' = (ledger_of s)\<lparr>holdings := (holdings (ledger_of s))(k \<mapsto> (holding_of c)\<lparr>ho_value := c_appraised_value c'\<rparr>)\<rparr>"
    using ledger_of_upd [of s' k c' s] assms by (auto simp: holding_of_def)
qed

lemma step_updateCollateral:
  assumes "getCollateral k s = Some c"
  shows "may_step (Some ARevalue) (ledger_of s) (ledger_of (snd (updateCollateral k u s)))"
  using assms by (intro step_revalue [of k s c _ "merge_collateral c u"]) (auto simp: updateCollateral_get)

lemma step_patch: "may_step (Some ARevalue) (ledger_of (as_store s)) (ledger_of (as_store (snd (patch_collateral k env now req s))))"
  "may_step (Some ARevalue) (ledger_of (as_store s)) (ledger_of (as_store (snd (patch_collateral_shadowed k env now req s))))"
  by (auto simp: patch_collateral_def patch_collateral_shadowed_def with_store_def split_beta step_updateCollateral
      split: sum.split option.split)

lemma step_appraise: "may_step (Some ARevalue) (ledger_of (as_store s)) (ledger_of (as_store (snd (appraise_collateral k env now req s))))"
proof -
  have "may_step (Some ARevalue) (ledger_of st) (ledger_of (snd (addAppraisal now k v w
      (st\<lparr>collateralTable := m_set k (c\<lparr>c_appraised_value := v\<rparr>) (collateralTable st)\<rparr>))))"
    if "getCollateral k st = Some c" for st c v w
    by (rule step_revalue [OF that, where c' = "c\<lparr>c_appraised_value := v, c_appraisal_history := c_appraisal_history c @
          [\<lparr>a_date = now, a_value = v, a_appraiser = truthy_str w\<rparr>]\<rparr>"])
      (use that in \<open>auto simp: addAppraisal_def getCollateral_def split: option.splits if_splits\<close>)
  then show ?thesis
    by (auto simp: appraise_collateral_def Let_def with_store_def split_beta split: sum.split option.split json.split)
qed

lemma step_readmit: "may_step (Some ARegister) (ledger_of s) (ledger_of (snd (restoreCollateral k s)))"
proof (cases "\<exists>r. m_get (collateralTable s) k = Some r \<and> c_deletedAt r \<noteq> None")
  case True
  then obtain r where r: "m_get (collateralTable s) k = Some r" "c_deletedAt r \<noteq> None" by blast
  show ?thesis
  proof (rule may_stepI [OF act_step.register])
    show "holdings (ledger_of s) k = None" using r by (simp add: getCollateral_def)
    show "ledger_of (snd (restoreCollateral k s)) = (ledger_of s)\<lparr>holdings := (holdings (ledger_of s))(k \<mapsto> holding_of (r\<lparr>c_deletedAt := None\<rparr>))\<rparr>"
      using r by (intro ledger_of_upd) (auto simp: restoreCollateral_def getCollateral_def)
  qed
qed (auto simp: restoreCollateral_def split: option.split)

lemma step_forget: "may_step (Some AForget) (ledger_of s) (ledger_of (snd (softDeleteLoan now k s)))"
proof (cases "getLoan k s")
  case (Some r)
  show ?thesis
  proof (rule may_stepI [OF act_step.forget])
    show "debts (ledger_of s) k = Some (debt_of r)" using Some by simp
    show "ledger_of (snd (softDeleteLoan now k s)) = (ledger_of s)\<lparr>debts := (debts (ledger_of s))(k := None)\<rparr>"
      using Some by (intro ledger_eqI) (auto simp: softDeleteLoan_def getLoan_def getCollateral_def split: option.splits if_splits)
  qed
qed (auto simp: softDeleteLoan_def getLoan_def split: option.splits if_splits)

lemma step_reopen: "may_step (Some AReopen) (ledger_of s) (ledger_of (snd (restoreLoan k s)))"
proof (cases "\<exists>r. m_get (loanTable s) k = Some r \<and> l_deletedAt r \<noteq> None")
  case True
  then obtain r where r: "m_get (loanTable s) k = Some r" "l_deletedAt r \<noteq> None" by blast
  show ?thesis
  proof (rule may_stepI [OF act_step.reopen])
    show "debts (ledger_of s) k = None" using r by (simp add: getLoan_def)
    show "ledger_of (snd (restoreLoan k s)) = (ledger_of s)\<lparr>debts := (debts (ledger_of s))(k \<mapsto> debt_of (r\<lparr>l_deletedAt := None\<rparr>))\<rparr>"
      using r by (intro ledger_eqI) (auto simp: restoreLoan_def getLoan_def getCollateral_def)
  qed
qed (auto simp: restoreLoan_def split: option.split)

lemma step_form:
  assumes "m_get (collateralTable (as_store s)) uuid = None"
  shows "may_step (Some ARegister) (ledger_of (as_store s)) (ledger_of (as_store (snd (create_collateral_form uuid fm env now req s))))"
  using register_collateral [OF assms, of "form_collateral uuid owner fm age weight f" now for owner age weight f]
  by (auto simp: create_collateral_form_def with_store_def split_beta Let_def form_collateral_def split: option.split)

subsection \<open>Every route does at most its act\<close>

definition lawful_route :: "route \<Rightarrow> bool" where
  "lawful_route r \<longleftrightarrow> (\<forall>env i ps req (s :: app_state). store_wf (as_store (ap_api s)) \<longrightarrow> fresh_input i (ap_api s) \<longrightarrow>
     may_step (route_act r) (ledger_of (as_store (ap_api s))) (ledger_of (as_store (ap_api (snd (rt_handler r env i ps req s))))))"

definition lawful_handler :: "ledger_act \<Rightarrow> (app_input \<Rightarrow> string list \<Rightarrow> handler) \<Rightarrow> bool" where
  "lawful_handler a h \<longleftrightarrow> (\<forall>i ps env now req s. store_wf (as_store s) \<longrightarrow> fresh_input i s \<longrightarrow>
     may_step (Some a) (ledger_of (as_store s)) (ledger_of (as_store (snd (h i ps env now req s)))))"

lemma lawful_handlers:
  "lawful_handler ALend (with_uuid loan_create)" "lawful_handler ARepay (with_param record_repayment)"
  "lawful_handler ARegister (with_uuid create_collateral_v1)"
  "lawful_handler ARegister (\<lambda>i ps. create_collateral_form (in_uuid i) (in_form i))"
  "lawful_handler ARegister (with_param restore_collateral_admin)" "lawful_handler ARegister (with_param restore_collateral_v1)"
  "lawful_handler AWithdraw (with_param delete_collateral)"
  "lawful_handler ARevalue (with_param patch_collateral)" "lawful_handler ARevalue (with_param patch_collateral_shadowed)"
  "lawful_handler ARevalue (with_param appraise_collateral)"
  "lawful_handler AForget (with_param delete_loan_route)" "lawful_handler AReopen (with_param restore_loan_route)"
  using step_loan_create step_repayment step_register step_delete step_patch step_appraise step_form step_readmit step_forget step_reopen
  by (auto simp: lawful_handler_def with_uuid_def with_param_def fresh_input_def restore_collateral_admin_def restore_collateral_v1_def
      delete_loan_route_def restore_loan_route_def with_store_def split_beta Let_def split: option.split)

lemma lawful_acting:
  "lawful_handler a h \<Longrightarrow> map_of acting_routes (m, p) = Some a \<Longrightarrow> lawful_route (api_route m p l h)"
  by (simp add: lawful_handler_def lawful_route_def route_act_def api_route_def api_handler_state)

lemma lawful_reading:
  "(\<And>i ps. reading_handler (h i ps)) \<Longrightarrow> lawful_route (api_route m p l h)"
  by (simp add: lawful_route_def api_route_def api_handler_state reading_handler_def)

lemma lawful_special:
  "lawful_route \<lparr>rt_method = m, rt_path = p, rt_limiter = l, rt_handler = migrations_status\<rparr>"
  "lawful_route \<lparr>rt_method = m, rt_path = p, rt_limiter = l, rt_handler = liquidation_check_route\<rparr>"
proof -
  show "lawful_route \<lparr>rt_method = m, rt_path = p, rt_limiter = l, rt_handler = migrations_status\<rparr>"
    by (simp add: lawful_route_def other_routes_state)
  have "ledger_of (jb_store (snd (snd (liquidation_check je clock iso_now req jb)))) = ledger_of (jb_store jb)"
    if "store_wf (jb_store jb)" for je clock iso_now req jb
    using step_health_run [OF that] by (auto simp: liquidation_check_def split_beta Let_def)
  then show "lawful_route \<lparr>rt_method = m, rt_path = p, rt_limiter = l, rt_handler = liquidation_check_route\<rparr>"
    by (simp add: lawful_route_def other_routes_state)
qed

lemma preview_reading: "reading_handler loan_repayment_preview" "reading_handler loan_repayment_preview_shadowed"
  by (auto simp: loan_repayment_preview_def loan_repayment_preview_shadowed_def intro!: reading_cached handler_effects)

lemma all_routes_lawful: "list_all lawful_route routes"
  unfolding routes_def list.pred_inject(2)
  by (intro conjI; (rule list.pred_inject(1) lawful_special | (rule lawful_acting, rule lawful_handlers, (simp add: acting_routes_def; fail)) |
      (rule lawful_reading, (rule plain_reading | rule param_reading)?, (rule handler_effects reading_routes preview_reading))))

lemma routes_lawful: "r \<in> set routes \<Longrightarrow> lawful_route r"
  using all_routes_lawful by (simp only: list_all_iff)

interpretation ledger_app: app_simulation "\<lambda>i a. store_wf (as_store a) \<and> fresh_input i a"
  "\<lambda>r a b. may_step (route_act r) (ledger_of (as_store a)) (ledger_of (as_store b))"
  by unfold_locales (use routes_lawful in \<open>auto simp: lawful_route_def\<close>)

lemma request_step:
  assumes "store_wf (as_store (ap_api s))" "fresh_input i (ap_api s)"
  shows "may_step (request_act env req) (ledger_of (as_store (ap_api s))) (ledger_of (as_store (ap_api (snd (app_request env i req s)))))"
  using ledger_app.request_related [where s = s and i = i and env = env and req = req] assms by (auto simp: request_act_def)

lemma request_wf:
  "store_wf (as_store (ap_api s)) \<Longrightarrow> store_wf (as_store (ap_api (snd (app_request env i req s))))"
  using wf_app.request_keeps [where s = s and i = i and env = env and req = req] by (simp add: routed_to_def split: option.split)

lemma run_trace:
  "store_wf (as_store (ap_api s)) \<Longrightarrow> fresh_run env xs s \<Longrightarrow>
   ledger_trace (map (\<lambda>(i, req). request_act env req) xs) (ledger_of (as_store (ap_api s))) (ledger_of (as_store (ap_api (app_run env xs s))))"
proof (induction env xs s rule: app_run.induct)
  case (2 env i req xs s)
  then show ?case using request_step [of s i env req] request_wf [of s env i req] by auto
qed simp



subsection \<open>What the ledger keeps\<close>

text \<open>Every open debt rests on a holding, and no two open debts on the same one.\<close>

definition secured :: "ledger \<Rightarrow> bool" where
  "secured L \<longleftrightarrow> (\<forall>k d. debts L k = Some d \<and> db_open d \<longrightarrow> holdings L (db_collateral d) \<noteq> None \<and>
     (\<forall>k' d'. debts L k' = Some d' \<and> db_open d' \<and> db_collateral d' = db_collateral d \<longrightarrow> k' = k))"

lemma act_keeps_secured:
  assumes "act_step a L M" "a \<noteq> AReopen" "secured L" shows "secured M"
  using assms
proof cases
  case (withdraw c h)
  then show ?thesis using assms(3) by (auto simp: secured_def encumbered_def)
next
  case (lend c h k x b)
  then show ?thesis using assms(3) by (fastforce simp: secured_def encumbered_def split: if_splits)
qed (use assms(3) in \<open>(simp add: secured_def; metis option.simps(3))+\<close>)

lemma trace_keeps_secured:
  "ledger_trace as L M \<Longrightarrow> Some AReopen \<notin> set as \<Longrightarrow> secured L \<Longrightarrow> secured M"
  by (induction rule: ledger_trace.induct) (auto simp: may_step_def intro: act_keeps_secured)

lemma empty_secured: "secured (ledger_of (as_store (ap_api (initial_app p))))"
  by (simp add: secured_def initial_app_def initial_api_def getLoan_def empty_store_def)



text \<open>A loan on the books stays with its borrower and its collateral, and as open as it was; only a deletion
  takes it off the books.\<close>

lemma act_keeps_debt:
  assumes "act_step a L M" "a \<notin> {ASeize, AForget}" "debts L k = Some d"
  shows "\<exists>d'. debts M k = Some d' \<and> db_borrower d' = db_borrower d \<and> db_collateral d' = db_collateral d \<and> db_open d' = db_open d"
  using assms by cases auto

lemma trace_keeps_debt:
  "ledger_trace as L M \<Longrightarrow> set as \<inter> {Some ASeize, Some AForget} = {} \<Longrightarrow> debts L k = Some d \<Longrightarrow>
   \<exists>d'. debts M k = Some d' \<and> db_borrower d' = db_borrower d \<and> db_collateral d' = db_collateral d \<and> db_open d' = db_open d"
proof (induction arbitrary: d rule: ledger_trace.induct)
  case (trace_cons a L M as N)
  have "\<exists>d'. debts M k = Some d' \<and> db_borrower d' = db_borrower d \<and> db_collateral d' = db_collateral d \<and> db_open d' = db_open d"
    using trace_cons.hyps(1) trace_cons.prems act_keeps_debt [of _ L M k d] by (auto simp: may_step_def)
  then show ?case using trace_cons.IH trace_cons.prems(1) by fastforce
qed simp

lemma request_act_no_seizure: "request_act env req \<noteq> Some ASeize"
proof -
  have "ASeize \<notin> ran (map_of acting_routes)" by (auto simp: acting_routes_def ran_def split: if_splits)
  then show ?thesis by (auto simp: request_act_def route_act_def ran_def split: option.split)
qed

text \<open>An application with a loan on one herd, and the registration of another.\<close>

definition lent_app :: app_state where
  "lent_app = (initial_app (new_pool 1 2))\<lparr>ap_api := herd_api\<lparr>as_store := (as_store herd_api)\<lparr>loanTable :=
     m_set ''u1'' (created_loan 5 ''u1'' \<lparr>cl_borrowerAddress = wallet_G, cl_collateralId = ''c1'', cl_requestedAmount = 1000\<rparr> 802)
       (loanTable (as_store herd_api))\<rparr>\<rparr>\<rparr>"

lemma lent_app_facts:
  "store_wf (as_store (ap_api lent_app))" "fresh_run (sample_app cr) [(sample_input t ''c2'', herd_request)] lent_app"
  "secured (ledger_of (as_store (ap_api lent_app)))" "request_act (sample_app cr) herd_request = Some ARegister"
  "\<exists>r. getLoan ''u1'' (as_store (ap_api lent_app)) = Some r \<and> l_borrower r = wallet_G \<and> l_collateral_id r = ''c1'' \<and> is_open_status (l_status r)"
proof -
  show "store_wf (as_store (ap_api lent_app))" using herd_api_wf by (simp add: lent_app_def store_wf_created)
  show "fresh_run (sample_app cr) [(sample_input t ''c2'', herd_request)] lent_app"
    by (simp add: fresh_input_def lent_app_def herd_api_def insertCollateral_def herd_def empty_store_def CollateralData.defs Let_def)
  show "request_act (sample_app cr) herd_request = Some ARegister"
    by (simp add: request_act_def herd_route v1_collateral_route_def api_route_def route_act_def acting_routes_def)
  show "\<exists>r. getLoan ''u1'' (as_store (ap_api lent_app)) = Some r \<and> l_borrower r = wallet_G \<and> l_collateral_id r = ''c1'' \<and> is_open_status (l_status r)"
    by (simp add: lent_app_def getLoan_def created_loan_def is_open_status_def)
  show "secured (ledger_of (as_store (ap_api lent_app)))" using herd_api_facts(1,3)
    by (auto simp: secured_def lent_app_def getLoan_def getCollateral_def created_loan_def split: if_splits)
qed

subsection \<open>Properties of the application\<close>





text \<open>C7: No request closes a loan: through any run of requests that deletes no loan, a loan keeps its borrower and
  its collateral, and it is open afterwards exactly if it was open before, even when the balance has been repaid in full.\<close>

theorem requests_close_no_loan:
  assumes "store_wf (as_store (ap_api s))" "fresh_run env xs s" "getLoan k (as_store (ap_api s)) = Some r"
    and "list_all (\<lambda>(i, req). request_act env req \<noteq> Some AForget) xs"
  shows "\<exists>r'. getLoan k (as_store (ap_api (app_run env xs s))) = Some r' \<and> l_borrower r' = l_borrower r \<and>
    l_collateral_id r' = l_collateral_id r \<and> is_open_status (l_status r') = is_open_status (l_status r)"
  using trace_keeps_debt [OF run_trace [OF assms(1,2)], of k "debt_of r"] assms(3,4) request_act_no_seizure
  by (fastforce simp: list_all_iff)

theorem requests_close_no_loan_witness:
  "\<exists>r'. getLoan ''u1'' (as_store (ap_api (app_run (sample_app sample_crypto) [(sample_input 2000 ''c2'', herd_request)] lent_app))) = Some r' \<and>
     l_borrower r' = wallet_G \<and> l_collateral_id r' = ''c1'' \<and> is_open_status (l_status r')"
proof -
  obtain r where r: "getLoan ''u1'' (as_store (ap_api lent_app)) = Some r" "l_borrower r = wallet_G" "l_collateral_id r = ''c1''"
      "is_open_status (l_status r)" using lent_app_facts(5) by blast
  from requests_close_no_loan [OF lent_app_facts(1) lent_app_facts(2) [of sample_crypto 2000] r(1)] r show ?thesis
    by (simp add: lent_app_facts(4))
qed



end
