(* ===== verification/Search_State.thy ===== *)
theory Search_State
  imports Prelude Js_String
begin

section \<open>Filters and pages in the URL (frontend/src/hooks)\<close>

text \<open>
  The two hooks that keep the state of a list in the URL: useSearchFilter.ts with its debounce, and
  usePagination.ts. A query string is the list of its name and value pairs; \<open>URLSearchParams\<close> writes
  and reads it without loss. Every action sees the state the one before left, as when the component is
  rendered in between. The theorems: the URL catches up with the filters and gives them back, and the
  pages of a list, whatever the URL says, cut it into its parts.
\<close>

type_synonym params = "(string \<times> string) list"

definition params_get :: "string \<Rightarrow> params \<Rightarrow> string option" where "params_get k ps = map_of ps k"

definition params_getAll :: "string \<Rightarrow> params \<Rightarrow> string list" where
  "params_getAll k ps = map snd (filter (\<lambda>(k', _). k' = k) ps)"

text \<open>\<open>set\<close> replaces the first entry of the name and drops the others.\<close>

fun params_set :: "string \<Rightarrow> string \<Rightarrow> params \<Rightarrow> params" where
  "params_set k v [] = [(k, v)]"
| "params_set k v ((k', w) # ps) =
     (if k' = k then (k, v) # filter (\<lambda>(k', _). k' \<noteq> k) ps else (k', w) # params_set k v ps)"

lemma get_filter: "k' \<noteq> k \<Longrightarrow> params_get k' (filter (\<lambda>(k', _). k' \<noteq> k) ps) = params_get k' ps"
  unfolding params_get_def by (induction ps) auto

lemma params_set_get: "params_get k' (params_set k v ps) = (if k' = k then Some v else params_get k' ps)"
  by (induction ps) (auto simp: params_get_def get_filter [unfolded params_get_def])

subsection \<open>Search filters (useSearchFilter.ts)\<close>

record FilterState =
  fs_query :: string
  fs_statuses :: "string list"
  fs_types :: "string list"
  fs_dateFrom :: string
  fs_dateTo :: string

definition EMPTY :: FilterState where
  "EMPTY = \<lparr>fs_query = [], fs_statuses = [], fs_types = [], fs_dateFrom = [], fs_dateTo = []\<rparr>"

definition or_empty :: "string option \<Rightarrow> string" where "or_empty v = (case v of None \<Rightarrow> [] | Some s \<Rightarrow> s)"

definition filters_from_url :: "params \<Rightarrow> FilterState" where
  "filters_from_url ps =
     \<lparr>fs_query = or_empty (params_get ''q'' ps), fs_statuses = params_getAll ''status'' ps,
      fs_types = params_getAll ''type'' ps, fs_dateFrom = or_empty (params_get ''dateFrom'' ps),
      fs_dateTo = or_empty (params_get ''dateTo'' ps)\<rparr>"

definition when_given :: "string \<Rightarrow> string \<Rightarrow> params" where
  "when_given k v = (if v = [] then [] else [(k, v)])"

definition filters_to_url :: "FilterState \<Rightarrow> params" where
  "filters_to_url f =
     when_given ''q'' (fs_query f) @ map (Pair ''status'') (fs_statuses f) @ map (Pair ''type'') (fs_types f) @
     when_given ''dateFrom'' (fs_dateFrom f) @ when_given ''dateTo'' (fs_dateTo f)"

text \<open>A pending write to the URL is its time and what will be written.\<close>

record search_state =
  ss_filters :: FilterState
  ss_pending :: "(int \<times> FilterState) option"
  ss_url :: params

definition open_search :: "params \<Rightarrow> search_state" where
  "open_search ps = \<lparr>ss_filters = filters_from_url ps, ss_pending = None, ss_url = ps\<rparr>"

definition syncUrl :: "int \<Rightarrow> int \<Rightarrow> FilterState \<Rightarrow> bool \<Rightarrow> search_state \<Rightarrow> search_state" where
  "syncUrl debounceMs now nxt immediate s =
     (if immediate then s\<lparr>ss_pending := None, ss_url := filters_to_url nxt\<rparr>
      else s\<lparr>ss_pending := Some (now + debounceMs, nxt)\<rparr>)"

definition toggle :: "string \<Rightarrow> string list \<Rightarrow> string list" where
  "toggle x xs = (if x \<in> set xs then filter (\<lambda>y. y \<noteq> x) xs else xs @ [x])"

datatype search_action =
  SetQuery string | ToggleStatus string | ToggleType string | SetDateFrom string | SetDateTo string | ClearAll

fun next_filters :: "search_action \<Rightarrow> FilterState \<Rightarrow> FilterState" where
  "next_filters (SetQuery q) f = f\<lparr>fs_query := q\<rparr>"
| "next_filters (ToggleStatus st) f = f\<lparr>fs_statuses := toggle st (fs_statuses f)\<rparr>"
| "next_filters (ToggleType t) f = f\<lparr>fs_types := toggle t (fs_types f)\<rparr>"
| "next_filters (SetDateFrom d) f = f\<lparr>fs_dateFrom := d\<rparr>"
| "next_filters (SetDateTo d) f = f\<lparr>fs_dateTo := d\<rparr>"
| "next_filters ClearAll f = EMPTY"

fun is_immediate :: "search_action \<Rightarrow> bool" where
  "is_immediate (SetQuery q) = False" | "is_immediate _ = True"

definition search_act :: "int \<Rightarrow> int \<Rightarrow> search_action \<Rightarrow> search_state \<Rightarrow> search_state" where
  "search_act debounceMs now a s =
     (let nxt = next_filters a (ss_filters s) in
      syncUrl debounceMs now nxt (is_immediate a) (s\<lparr>ss_filters := nxt\<rparr>))"

text \<open>The timer fires when its time has come.\<close>

definition search_tick :: "int \<Rightarrow> search_state \<Rightarrow> search_state" where
  "search_tick now s =
     (case ss_pending s of
        Some (due, nxt) \<Rightarrow> if due \<le> now then s\<lparr>ss_pending := None, ss_url := filters_to_url nxt\<rparr> else s
      | None \<Rightarrow> s)"

definition search_unmount :: "search_state \<Rightarrow> search_state" where
  "search_unmount s = s\<lparr>ss_pending := None\<rparr>"

definition hasActiveFilters :: "FilterState \<Rightarrow> bool" where
  "hasActiveFilters f \<longleftrightarrow> fs_query f \<noteq> [] \<or> fs_statuses f \<noteq> [] \<or> fs_types f \<noteq> [] \<or> fs_dateFrom f \<noteq> [] \<or> fs_dateTo f \<noteq> []"

definition search_run :: "int \<Rightarrow> (int \<times> search_action) list \<Rightarrow> search_state \<Rightarrow> search_state" where
  "search_run debounceMs evs s0 = foldl (\<lambda>s (now, a). search_act debounceMs now a (search_tick now s)) s0 evs"

subsection \<open>Pages (usePagination.ts)\<close>

definition PAGE_SIZE_OPTIONS :: "int list" where "PAGE_SIZE_OPTIONS = [10, 25, 50]"

record pagination =
  pg_page :: int
  pg_limit :: int
  pg_totalPages :: int

definition usePagination :: "nat \<Rightarrow> params \<Rightarrow> pagination" where
  "usePagination totalItems ps =
     (let rawPage = parse_int (case params_get ''page'' ps of None \<Rightarrow> ''1'' | Some v \<Rightarrow> v);
          rawLimit = parse_int (case params_get ''limit'' ps of None \<Rightarrow> ''10'' | Some v \<Rightarrow> v);
          limit = (case rawLimit of
             None \<Rightarrow> 10
           | Some l \<Rightarrow> if l \<in> of_int ` set PAGE_SIZE_OPTIONS then \<lfloor>l\<rfloor> else 10);
          totalPages = max 1 \<lceil>js_div (of_nat totalItems) (of_int limit)\<rceil>;
          page = min (max 1 (case rawPage of None \<Rightarrow> 1 | Some p \<Rightarrow> \<lfloor>p\<rfloor>)) totalPages in
      \<lparr>pg_page = page, pg_limit = limit, pg_totalPages = totalPages\<rparr>)"

definition page_slice :: "pagination \<Rightarrow> 'a list \<Rightarrow> 'a list" where
  "page_slice p items = (let start = (pg_page p - 1) * pg_limit p in js_slice start (start + pg_limit p) items)"

definition setPage :: "int \<Rightarrow> params \<Rightarrow> params" where
  "setPage p ps = params_set ''page'' (string_of_int p) ps"

definition setLimit :: "int \<Rightarrow> params \<Rightarrow> params" where
  "setLimit l ps = params_set ''page'' ''1'' (params_set ''limit'' (string_of_int l) ps)"

subsection \<open>Facts about the filters\<close>

lemma getAll_append [simp]: "params_getAll k (ps @ qs) = params_getAll k ps @ params_getAll k qs"
  by (simp add: params_getAll_def)

lemma getAll_pairs [simp]: "params_getAll k (map (Pair k') vs) = (if k' = k then vs else [])"
  by (induction vs) (auto simp: params_getAll_def)

lemma getAll_given [simp]: "k' \<noteq> k \<Longrightarrow> params_getAll k (when_given k' v) = []"
  by (simp add: params_getAll_def when_given_def)

lemma get_append [simp]:
  "params_get k (ps @ qs) = (case params_get k ps of None \<Rightarrow> params_get k qs | Some v \<Rightarrow> Some v)"
  by (auto simp: params_get_def map_add_def split: option.splits)

lemma get_pairs [simp]: "k' \<noteq> k \<Longrightarrow> params_get k (map (Pair k') vs) = None"
  by (induction vs) (auto simp: params_get_def)

lemma get_given [simp]: "params_get k (when_given k' v) = (if k' = k \<and> v \<noteq> [] then Some v else None)"
  by (simp add: params_get_def when_given_def)

text \<open>What is written to the URL is read back from it.\<close>

lemma filters_url_roundtrip: "filters_from_url (filters_to_url f) = f"
  by (cases f) (simp add: filters_from_url_def filters_to_url_def or_empty_def split: option.split)

lemma toggle_twice: "set (toggle x (toggle x xs)) = set xs"
  by (auto simp: toggle_def)

text \<open>The URL agrees with the filters but for a query still being typed, and that one is pending.\<close>

definition search_inv :: "int \<Rightarrow> search_state \<Rightarrow> bool" where
  "search_inv latest s \<longleftrightarrow>
     ss_filters s = (filters_from_url (ss_url s))\<lparr>fs_query := fs_query (ss_filters s)\<rparr> \<and>
     (case ss_pending s of
        None \<Rightarrow> filters_from_url (ss_url s) = ss_filters s
      | Some (due, nxt) \<Rightarrow> nxt = ss_filters s \<and> due \<le> latest)"

lemma search_inv_open: "search_inv t (open_search ps)"
  by (simp add: search_inv_def open_search_def)

lemma search_inv_tick: "search_inv l s \<Longrightarrow> search_inv l (search_tick now s)"
  by (auto simp: search_inv_def search_tick_def filters_url_roundtrip split: option.splits)

lemma query_only:
  "f = g\<lparr>fs_query := fs_query f\<rparr> \<Longrightarrow> f\<lparr>fs_query := q\<rparr> = g\<lparr>fs_query := q\<rparr>"
  by (cases f; cases g) simp

lemma search_inv_act:
  assumes "search_inv l s" "now + debounceMs \<le> l'"
  shows "search_inv l' (search_act debounceMs now a s)"
proof (cases "is_immediate a")
  case True
  then show ?thesis by (simp add: search_inv_def search_act_def syncUrl_def filters_url_roundtrip Let_def)
next
  case False
  then obtain q where a: "a = SetQuery q" by (cases a) auto
  have "ss_filters s = (filters_from_url (ss_url s))\<lparr>fs_query := fs_query (ss_filters s)\<rparr>"
    using assms(1) by (simp add: search_inv_def)
  from query_only [OF this, of q] show ?thesis
    using assms(2) by (simp add: search_inv_def search_act_def syncUrl_def a Let_def)
qed

lemma search_inv_mono: "search_inv l s \<Longrightarrow> l \<le> l' \<Longrightarrow> search_inv l' s"
  by (auto simp: search_inv_def split: option.splits)

lemma search_inv_run:
  "search_inv l s \<Longrightarrow> l \<le> l' \<Longrightarrow> \<forall>(now, a)\<in>set evs. now + debounceMs \<le> l' \<Longrightarrow>
   search_inv l' (search_run debounceMs evs s)"
proof (induction evs arbitrary: s l)
  case (Cons e evs)
  obtain now a where e: "e = (now, a)" by (cases e)
  have "search_inv l' (search_act debounceMs now a (search_tick now s))"
    using Cons.prems by (intro search_inv_act [of l]) (auto simp: e search_inv_tick)
  then show ?case using Cons.IH [of l'] Cons.prems(3) by (simp add: search_run_def e)
qed (auto simp: search_run_def intro: search_inv_mono)

lemma search_inv_quiet:
  assumes "search_inv t s" shows "filters_from_url (ss_url (search_tick t s)) = ss_filters s"
  using assms by (auto simp: search_inv_def search_tick_def filters_url_roundtrip split: option.splits)

text \<open>C25: The URL catches up with the filters: whatever a user does and whatever URL the list was opened
  with, the URL always says what the filters are but for a query still being typed, and when the debounce
  time has passed since the last action it says exactly that, so that coming back to it restores the filters.\<close>

theorem url_catches_up:
  assumes "\<forall>(now, a)\<in>set evs. now + debounceMs \<le> t"
  shows "let s = search_run debounceMs evs (open_search ps) in
    (filters_from_url (ss_url s))\<lparr>fs_query := fs_query (ss_filters s)\<rparr> = ss_filters s \<and>
    ss_filters (open_search (ss_url (search_tick t s))) = ss_filters s \<and>
    ss_filters s = foldl (\<lambda>f (now, a). next_filters a f) (filters_from_url ps) evs"
proof -
  let ?s = "search_run debounceMs evs (open_search ps)"
  have inv: "search_inv t ?s" using search_inv_run [OF search_inv_open order_refl assms] .
  have keep: "ss_filters (search_tick now s) = ss_filters s" for now s
    by (auto simp: search_tick_def split: option.split)
  have act: "ss_filters (search_act debounceMs now a s) = next_filters a (ss_filters s)" for now a s
    by (simp add: search_act_def syncUrl_def Let_def)
  have "ss_filters (search_run debounceMs evs s) = foldl (\<lambda>f (now, a). next_filters a f) (ss_filters s) evs" for s
    by (induction evs arbitrary: s) (auto simp: search_run_def act keep split: prod.splits)
  then have "ss_filters ?s = foldl (\<lambda>f (now, a). next_filters a f) (filters_from_url ps) evs"
    by (simp add: open_search_def)
  moreover have "(filters_from_url (ss_url ?s))\<lparr>fs_query := fs_query (ss_filters ?s)\<rparr> = ss_filters ?s"
    using inv by (simp add: search_inv_def)
  ultimately show ?thesis using search_inv_quiet [OF inv] by (simp add: Let_def open_search_def)
qed

theorem url_catches_up_witness:
  "ss_filters (open_search (ss_url (search_tick 600 (search_run 300 [(0, SetQuery ''ab''), (100, ToggleStatus ''active''),
      (300, SetQuery ''abc'')] (open_search [(''status'', ''repaid'')]))))) =
   \<lparr>fs_query = ''abc'', fs_statuses = [''repaid'', ''active''], fs_types = [], fs_dateFrom = [], fs_dateTo = []\<rparr>"
  using url_catches_up [of "[(0, SetQuery ''ab''), (100, ToggleStatus ''active''), (300, SetQuery ''abc'')]" 300 600
      "[(''status'', ''repaid'')]"]
  by (simp add: Let_def filters_from_url_def params_get_def params_getAll_def or_empty_def toggle_def)

subsection \<open>Facts about the pages\<close>

lemma ceiling_fl_quotient:
  fixes a b :: int
  assumes "0 \<le> a" "a < 2 ^ 53" "0 < b"
  shows "\<lceil>fl (of_int a / of_int b)\<rceil> = - ((- a) div b)"
proof (cases "b dvd a")
  case True
  then obtain k where k: "a = b * k" ..
  have "0 \<le> k" using assms k by (simp add: zero_le_mult_iff)
  moreover from this have "1 * k \<le> b * k" using assms(3) by (intro mult_right_mono) auto
  then have "k \<le> a" using k by simp
  moreover have "of_int a / of_int b = (of_int k :: rat)" using assms(3) by (simp add: k)
  moreover have "- ((- a) div b) = k"
    using assms(3) nonzero_mult_div_cancel_left [of b "- k"] by (simp add: k)
  ultimately show ?thesis using assms by (simp add: fl_of_int)
next
  case False
  let ?k = "a div b" and ?x = "of_int a / of_int b :: rat"
  have b: "(0::rat) < of_int b" using assms by simp
  have m: "0 < a mod b" "a = b * ?k + a mod b"
    using False assms pos_mod_sign [of b a] by (auto simp: dvd_eq_mod_eq_0 order_less_le)
  have "?k * b + 1 \<le> a" using m by (simp only: mult.commute [of ?k b])
  then have "of_int (?k * b + 1) \<le> (of_int a :: rat)" by (simp only: of_int_le_iff)
  then have lo: "of_int ?k + 1 / of_int b \<le> ?x" using b by (simp add: le_divide_eq distrib_right)
  have "of_int a < (of_int (2 ^ 53) :: rat)" using assms by (simp only: of_int_less_iff)
  then have "?x / 2 ^ 53 < 1 / of_int b" using b by (simp add: divide_simps)
  moreover have "?x - ?x / 2 ^ 53 \<le> fl ?x"
  proof -
    have "0 \<le> ?x" using assms b by simp
    then have "\<bar>?x\<bar> = ?x" by (rule abs_of_nonneg)
    then show ?thesis using fl_err [of ?x] by linarith
  qed
  ultimately have "of_int ?k < fl ?x" using lo by linarith
  moreover have "fl ?x < of_int ?k + 1"
    using floor_fl_quotient [OF assms] floor_correct [of "fl ?x"] by simp
  ultimately have "\<lceil>fl ?x\<rceil> = ?k + 1" by (intro ceiling_unique) simp_all
  moreover have "- ((- a) div b) = ?k + 1"
    using False assms(3) by (simp add: zdiv_zminus1_eq_if dvd_eq_mod_eq_0)
  ultimately show ?thesis by simp
qed

lemma limit_options:
  "(if l \<in> of_int ` set PAGE_SIZE_OPTIONS then \<lfloor>l\<rfloor> else 10) \<in> set PAGE_SIZE_OPTIONS"
  by (auto simp: PAGE_SIZE_OPTIONS_def)

lemma pagination_limit: "pg_limit (usePagination n ps) \<in> {10, 25, 50}"
  using limit_options by (auto simp: usePagination_def Let_def PAGE_SIZE_OPTIONS_def split: option.split)

lemma pagination_total:
  assumes "n < 2 ^ 53"
  shows "pg_totalPages (usePagination n ps) = max 1 (- ((- int n) div pg_limit (usePagination n ps)))"
proof -
  have "int n < 2 ^ 53" using assms by (metis of_nat_less_iff of_nat_numeral of_nat_power)
  then have "\<lceil>fl (of_int (int n) / of_int l)\<rceil> = - ((- int n) div l)" if "l \<in> {10, 25, 50}" for l
    using that by (intro ceiling_fl_quotient) auto
  then show ?thesis using pagination_limit [of n ps]
    by (simp add: usePagination_def Let_def js_div_def)
qed

text \<open>Whatever the URL says, the page shown is one of the list's pages, and its pages one after the other
  are the list.\<close>

theorem pages_are_the_list:
  assumes "length items < 2 ^ 53"
  shows "let p = usePagination (length items) ps in
    pg_limit p \<in> {10, 25, 50} \<and> 1 \<le> pg_page p \<and> pg_page p \<le> pg_totalPages p \<and>
    concat (map (\<lambda>i. page_slice (p\<lparr>pg_page := int i + 1\<rparr>) items) [0..<nat (pg_totalPages p)]) = items"
proof -
  let ?p = "usePagination (length items) ps"
  let ?l = "pg_limit ?p"
  have l: "0 < ?l" using pagination_limit [of "length items" ps] by auto
  have "int (length items) \<le> pg_totalPages ?p * ?l"
  proof -
    have "- int (length items) = ?l * ((- int (length items)) div ?l) + (- int (length items)) mod ?l" by simp
    then have "int (length items) \<le> ?l * (- ((- int (length items)) div ?l))"
      using pos_mod_sign [OF l, of "- int (length items)"] by linarith
    also have "\<dots> \<le> ?l * pg_totalPages ?p"
      unfolding pagination_total [OF assms] using l by (intro mult_left_mono) simp_all
    finally show ?thesis by (simp add: mult.commute)
  qed
  then have "length items \<le> nat (pg_totalPages ?p) * nat ?l"
    using l by (simp add: nat_mult_distrib [symmetric] pagination_total [OF assms] nat_le_iff)
  from concat_all_pages [OF less_imp_le [OF l] this]
  have "concat (map (\<lambda>i. page_slice (?p\<lparr>pg_page := int i + 1\<rparr>) items) [0..<nat (pg_totalPages ?p)]) = items"
    by (simp add: page_slice_def page_of_def Let_def)
  moreover have "1 \<le> pg_page ?p" "pg_page ?p \<le> pg_totalPages ?p"
    by (simp_all add: usePagination_def Let_def)
  ultimately show ?thesis using pagination_limit by (simp add: Let_def)
qed


end
