(* ===== verification/Js_Num.thy ===== *)
theory Js_Num
  imports Prelude Js_String
begin

section \<open>Numbers that need not be finite\<close>

text \<open>
  The frontend calculates with what \<open>parseInt\<close> and \<open>parseFloat\<close> give it, so with NaN and the
  infinities too. The operators here are those of JavaScript on \<open>js_num\<close>, with one zero; the
  exponent is unbounded as in \<open>Js_Number\<close>. A comparison with NaN is false.
\<close>

subsection \<open>Operators\<close>

fun num_mul :: "js_num \<Rightarrow> js_num \<Rightarrow> js_num" where
  "num_mul (Fin x) (Fin y) = Fin (js_mul x y)"
| "num_mul NaN _ = NaN"
| "num_mul _ NaN = NaN"
| "num_mul PosInf (Fin y) = (if y = 0 then NaN else if 0 < y then PosInf else NegInf)"
| "num_mul NegInf (Fin y) = (if y = 0 then NaN else if 0 < y then NegInf else PosInf)"
| "num_mul (Fin x) PosInf = (if x = 0 then NaN else if 0 < x then PosInf else NegInf)"
| "num_mul (Fin x) NegInf = (if x = 0 then NaN else if 0 < x then NegInf else PosInf)"
| "num_mul PosInf y = y"
| "num_mul NegInf y = num_neg y"

fun num_div :: "js_num \<Rightarrow> js_num \<Rightarrow> js_num" where
  "num_div (Fin x) (Fin y) =
     (if y \<noteq> 0 then Fin (js_div x y) else if x = 0 then NaN else if 0 < x then PosInf else NegInf)"
| "num_div (Fin x) PosInf = Fin 0"
| "num_div (Fin x) NegInf = Fin 0"
| "num_div PosInf (Fin y) = (if 0 \<le> y then PosInf else NegInf)"
| "num_div NegInf (Fin y) = (if 0 \<le> y then NegInf else PosInf)"
| "num_div _ _ = NaN"

fun num_add :: "js_num \<Rightarrow> js_num \<Rightarrow> js_num" where
  "num_add (Fin x) (Fin y) = Fin (js_add x y)"
| "num_add (Fin x) y = y"
| "num_add x (Fin y) = x"
| "num_add PosInf PosInf = PosInf"
| "num_add NegInf NegInf = NegInf"
| "num_add _ _ = NaN"

fun num_floor :: "js_num \<Rightarrow> js_num" where
  "num_floor (Fin x) = Fin (js_floor x)" | "num_floor n = n"

fun num_less :: "js_num \<Rightarrow> js_num \<Rightarrow> bool" where
  "num_less (Fin x) (Fin y) \<longleftrightarrow> x < y"
| "num_less NaN _ \<longleftrightarrow> False"
| "num_less _ NaN \<longleftrightarrow> False"
| "num_less NegInf y \<longleftrightarrow> y \<noteq> NegInf"
| "num_less x PosInf \<longleftrightarrow> x \<noteq> PosInf"
| "num_less _ _ \<longleftrightarrow> False"

definition num_le :: "js_num \<Rightarrow> js_num \<Rightarrow> bool" where
  "num_le x y \<longleftrightarrow> num_less x y \<or> x = y \<and> x \<noteq> NaN"

definition num_truthy :: "js_num \<Rightarrow> bool" where "num_truthy n \<longleftrightarrow> n \<noteq> NaN \<and> n \<noteq> Fin 0"

text \<open>\<open>Number(x.toFixed(d))\<close>; the infinities and NaN are written by name and read back.\<close>

fun num_to_fixed :: "nat \<Rightarrow> js_num \<Rightarrow> js_num" where
  "num_to_fixed d (Fin x) = Fin (to_fixed d x)" | "num_to_fixed d n = n"

text \<open>\<open>JSON.stringify\<close> writes a number that is not finite as \<open>null\<close>.\<close>

fun num_json :: "js_num \<Rightarrow> json" where
  "num_json (Fin x) = JNum x" | "num_json _ = JNull"

subsection \<open>Reading numbers from text\<close>

text \<open>\<open>parseInt(s)\<close>: as with radix 10 but for a prefix \<open>0x\<close>.\<close>

definition parseInt :: "string \<Rightarrow> js_num" where
  "parseInt s0 =
     (let s = trim_start s0; neg = starts_with ''-'' s;
          t = (if neg \<or> starts_with ''+'' s then tl s else s) in
      if to_lower (take 2 t) = ''0x''
      then (let ds = takeWhile is_hex (drop 2 t) in
            if ds = [] then NaN
            else Fin (let v = fl (of_nat (radix_val 16 ds)) in if neg then - v else v))
      else (case parse_int s0 of None \<Rightarrow> NaN | Some x \<Rightarrow> Fin x))"

text \<open>The exponent a decimal literal goes on with, 0 when there is none.\<close>

definition exponent_prefix :: "string \<Rightarrow> int" where
  "exponent_prefix s =
     (case s of
        [] \<Rightarrow> 0
      | c # r \<Rightarrow>
          let neg = starts_with ''-'' r;
              ds = takeWhile is_digit (if neg \<or> starts_with ''+'' r then tl r else r) in
          if (c = CHR ''e'' \<or> c = CHR ''E'') \<and> ds \<noteq> []
          then if neg then - int (digits_val ds) else int (digits_val ds) else 0)"

text \<open>\<open>parseFloat(s)\<close>: the longest prefix that is a decimal literal.\<close>

definition decimal_prefix :: "string \<Rightarrow> js_num" where
  "decimal_prefix s =
     (let ip = takeWhile is_digit s; r = dropWhile is_digit s; dot = starts_with ''.'' r;
          fp = (if dot then takeWhile is_digit (tl r) else []);
          r2 = (if dot then dropWhile is_digit (tl r) else r) in
      if starts_with ''Infinity'' s then PosInf
      else if ip = [] \<and> fp = [] then NaN
      else Fin (fl (of_nat (digits_val (ip @ fp)) * ten_pow (exponent_prefix r2 - int (length fp)))))"

definition parseFloat :: "string \<Rightarrow> js_num" where
  "parseFloat s0 =
     (let s = trim_start s0 in
      if starts_with ''-'' s then num_neg (decimal_prefix (tl s))
      else if starts_with ''+'' s then decimal_prefix (tl s)
      else decimal_prefix s)"

subsection \<open>Facts\<close>

lemma num_less_Fin: "num_less (Fin x) n \<longleftrightarrow> n = PosInf \<or> (\<exists>y. n = Fin y \<and> x < y)"
  by (cases n) auto

lemma fl_int_integer: "is_integer (fl (of_int n))"
proof -
  have nat_case: "is_integer (fl_pos (of_int m))" if m: "0 < m" for m :: int
  proof (cases "m \<le> 2 ^ 53")
    case True
    then show ?thesis using fl_pos_fixed [of m 0] m by simp
  next
    case False
    let ?b = "binade (of_int m)"
    have "of_int (2 ^ 53) < (of_int m :: rat)" using False by (simp only: of_int_less_iff)
    then have "two_pow 53 < two_pow (?b + 1)"
      using binade_bounds [of "of_int m"] m two_pow_nat [of 53] by simp
    then have b: "0 \<le> ?b - 52" by (simp add: two_pow_less_iff)
    then have "fl_pos (of_int m) = of_int (round_half_even (of_int m / two_pow (?b - 52)) * 2 ^ nat (?b - 52))"
      by (simp add: fl_pos_def Let_def two_pow_def)
    then show ?thesis by (metis is_integer_of_int)
  qed
  show ?thesis
  proof (cases "n = 0")
    case True then show ?thesis using is_integer_of_int [of 0] by simp
  next
    case False
    then consider "0 < n" | "0 < - n" by linarith
    then show ?thesis
    proof cases
      case 1 then show ?thesis using nat_case [of n] by (simp add: fl_def)
    next
      case 2
      from nat_case [OF this] obtain k where "fl_pos (- of_int n) = of_int k" by (auto simp: is_integer_iff)
      then have "fl (of_int n) = of_int (- k)" using 2 by (simp add: fl_def)
      then show ?thesis by (metis is_integer_of_int)
    qed
  qed
qed

lemma is_integer_minus: "is_integer x \<Longrightarrow> is_integer (- x)"
  by (metis is_integer_iff of_int_minus)

text \<open>What \<open>parseInt\<close> gives is a whole number or NaN.\<close>

lemma parseInt_integer:
  assumes "parseInt s = Fin x" shows "\<exists>n. x = of_int n"
proof -
  have f: "is_integer (fl (of_nat n))" for n using fl_int_integer [of "int n"] by simp
  have "is_integer x" if "parse_int s = Some x"
    using that f by (auto simp: parse_int_def Let_def is_integer_minus split: if_splits)
  then have "is_integer x"
    using assms f by (auto simp: parseInt_def Let_def is_integer_minus split: if_splits option.splits)
  then show ?thesis by (simp add: is_integer_iff)
qed

lemma parseInt_not_inf: "parseInt s \<noteq> PosInf" "parseInt s \<noteq> NegInf"
  by (auto simp: parseInt_def Let_def split: option.split)

lemma parseInt_positive:
  assumes "num_less (Fin 0) (parseInt s)"
  obtains n where "parseInt s = Fin (of_int n)" "1 \<le> n"
proof -
  obtain x where x: "parseInt s = Fin x" "0 < x" using assms parseInt_not_inf [of s] by (cases "parseInt s") auto
  from parseInt_integer [OF x(1)] obtain n where "x = of_int n" ..
  then show ?thesis using that [of n] x by simp
qed

subsection \<open>Rounding next to a whole number\<close>

lemma round_half_even_near:
  assumes "\<bar>y - of_int k\<bar> < 1 / 2" shows "round_half_even y = k"
proof (cases "of_int k \<le> y")
  case True
  then have "\<lfloor>y\<rfloor> = k" using assms by (intro floor_unique) auto
  then show ?thesis using assms True by (simp add: round_half_even_def Let_def)
next
  case False
  then have "\<lfloor>y\<rfloor> = k - 1" using assms by (intro floor_unique) auto
  moreover have "1 / 2 < y - of_int (k - 1)" using assms False by simp
  ultimately show ?thesis by (simp add: round_half_even_def Let_def)
qed

lemma fl_near_int:
  fixes n :: int
  assumes "0 < n" "n \<le> 2 ^ 52" and near: "\<bar>x - of_int n\<bar> \<le> of_int n * (2 / 5) / 2 ^ 53"
  shows "fl x = of_int n"
proof -
  let ?b = "binade x" and ?n = "of_int n :: rat"
  let ?u = "two_pow (?b - 52)" and ?k = "n * 2 ^ nat (52 - ?b)"
  have n: "(1::rat) \<le> ?n" using assms(1) by simp
  have "of_int n \<le> (of_int (2 ^ 52) :: rat)" using assms(2) by (simp only: of_int_le_iff)
  then have n2: "?n \<le> 2 ^ 52" by simp
  define e where "e = ?n / 2 ^ 53"
  have e: "0 < e" "?n = 2 ^ 53 * e" using n by (simp_all add: e_def)
  have near': "\<bar>x - ?n\<bar> \<le> 2 / 5 * e" using near by (simp add: e_def)
  then have d: "x - ?n \<le> 2 / 5 * e" "?n - x \<le> 2 / 5 * e" by (simp_all only: abs_le_iff minus_diff_eq)
  then have pos: "0 < x" using e by simp
  note b = binade_bounds [OF pos]
  have "x < 2 ^ 53" using d(1) e n2 by simp
  then have "two_pow ?b < two_pow 53" using b(1) two_pow_nat [of 53] by simp
  then have b52: "0 \<le> 52 - ?b" by (simp add: two_pow_less_iff)
  then have "of_int ?k * ?u = ?n * (two_pow (52 - ?b) * ?u)" by (simp add: two_pow_def)
  also have "two_pow (52 - ?b) * ?u = 1" using two_pow_add [of "52 - ?b" "?b - 52"] by simp
  finally have k: "of_int ?k * ?u = ?n" by simp
  have u: "x < 2 ^ 53 * ?u" using b(2) two_pow_split52 [of ?b] by (simp add: two_pow_Suc)
  have "\<bar>x - ?n\<bar> < 1 / 2 * ?u"
  proof -
    have "2 / 5 * e < 1 / 2 * ?u" using d(2) u e by simp
    with near' show ?thesis by linarith
  qed
  moreover have "\<bar>x - ?n\<bar> = \<bar>x / ?u - of_int ?k\<bar> * ?u"
  proof -
    have "x - ?n = (x / ?u - of_int ?k) * ?u" using k by (simp add: left_diff_distrib)
    then show ?thesis by (simp only: abs_mult) simp
  qed
  ultimately have "\<bar>x / ?u - of_int ?k\<bar> < 1 / 2" by simp
  then have "fl_pos x = of_int ?k * ?u" by (simp only: fl_pos_def Let_def round_half_even_near)
  then show ?thesis using k pos by (simp add: fl_def)
qed


text \<open>
  The whole part of \<open>p\<close> hundredths of a whole number, when \<open>f\<close> stands for \<open>p / 100\<close>. Rounding can
  only lose an exact result when \<open>f\<close> is too small, and then not by two fifths of the last place.
\<close>

lemma floor_fl_percent:
  fixes v p :: int
  assumes v: "0 \<le> v" "v \<le> 2 ^ 44" and p: "0 < p" "p \<le> 100"
    and f: "\<bar>f - of_int p / 100\<bar> \<le> of_int p / 100 / 2 ^ 53"
    and small: "of_int p / 100 \<le> f \<or> of_int p / 100 - f \<le> of_int p / 100 * (2 / 5) / 2 ^ 53"
  shows "\<lfloor>fl (of_int v * f)\<rfloor> = v * p div 100"
proof -
  let ?q = "v * p div 100" and ?r = "v * p mod 100"
  let ?c = "of_int p / 100 :: rat" and ?V = "of_int v :: rat"
  have V: "0 \<le> ?V" "?V \<le> 2 ^ 44"
  proof -
    have "?V \<le> of_int (2 ^ 44)" using v(2) by (simp only: of_int_le_iff)
    then show "?V \<le> 2 ^ 44" by simp
  qed (use v in simp)
  have c: "0 < ?c" "?c \<le> 1" using p by simp_all
  have "of_int (v * p) = (of_int (100 * ?q + ?r) :: rat)" by simp
  then have "?V * of_int p = 100 * of_int ?q + of_int ?r" by (simp only: of_int_mult of_int_add of_int_numeral)
  then have qr: "?V * ?c = of_int ?q + of_int ?r / 100" by simp
  have r: "0 \<le> ?r" "?r \<le> 99" by simp_all
  then have r': "of_int ?r / 100 \<le> (99 / 100 :: rat)" by simp
  have q0: "0 \<le> ?q" using v p by (simp add: pos_imp_zdiv_nonneg_iff)
  have vc: "0 \<le> ?V * ?c" "?V * ?c \<le> 2 ^ 44"
    using mult_nonneg_nonneg [OF V(1) less_imp_le [OF c(1)]] order_trans [OF mult_left_le [OF c(2) V(1)] V(2)] .
  have "(0::rat) \<le> of_int ?r / 100" using r(1) by simp
  then have qb: "of_int ?q \<le> (2 ^ 44 :: rat)" using vc(2) qr by linarith
  have lo0: "?V * ?c - ?V * ?c / 2 ^ 53 \<le> ?V * f" and hi0: "?V * f \<le> ?V * ?c + ?V * ?c / 2 ^ 53"
  proof -
    define d where "d = ?c / 2 ^ 53"
    have "f - ?c \<le> d" "?c - f \<le> d" using f by (simp_all only: d_def abs_le_iff minus_diff_eq)
    then have "?c - d \<le> f" "f \<le> ?c + d" by linarith+
    then have "?c - ?c / 2 ^ 53 \<le> f" "f \<le> ?c + ?c / 2 ^ 53" by (simp_all only: d_def)
    from mult_left_mono [OF this(1) V(1)] mult_left_mono [OF this(2) V(1)]
    show "?V * ?c - ?V * ?c / 2 ^ 53 \<le> ?V * f" "?V * f \<le> ?V * ?c + ?V * ?c / 2 ^ 53"
      by (simp_all only: right_diff_distrib distrib_left times_divide_eq_right)
  qed
  define e where "e = ?V * ?c / 2 ^ 53"
  have e: "0 \<le> e" "e \<le> 1 / 500"
  proof -
    have "e \<le> 2 ^ 44 / 2 ^ 53" unfolding e_def by (rule divide_right_mono [OF vc(2)]) simp
    also have "\<dots> \<le> 1 / 500" by simp
    finally show "e \<le> 1 / 500" .
  qed (use vc(1) in \<open>simp add: e_def\<close>)
  have lo: "of_int ?q + of_int ?r / 100 - e \<le> ?V * f" and hi: "?V * f \<le> of_int ?q + of_int ?r / 100 + e"
    using lo0 hi0 by (simp_all only: e_def qr)
  have fq: "fl (of_int ?q) = of_int ?q"
  proof -
    have "(of_int ?q :: rat) \<le> of_int (2 ^ 44)" using qb by simp
    then have "?q \<le> 2 ^ 44" by (simp only: of_int_le_iff)
    then show ?thesis using q0 by (intro fl_of_int) simp
  qed
  have "of_int ?q \<le> fl (?V * f)"
  proof (cases "of_int ?q \<le> ?V * f")
    case True
    from fl_mono [OF this] show ?thesis by (simp only: fq)
  next
    case False
    have "?r = 0"
    proof (rule ccontr)
      assume "?r \<noteq> 0"
      then have "1 \<le> ?r" using r by linarith
      then have "(1 / 100 :: rat) \<le> of_int ?r / 100" by simp
      then show False using False lo e by linarith
    qed
    then have eq: "?V * ?c = of_int ?q" using qr by simp
    have "\<not> ?c \<le> f" using False eq mult_left_mono [of ?c f ?V] V by auto
    then have s: "?c - f \<le> ?c * (2 / 5) / 2 ^ 53" using small by blast
    have "?V * (?c - f) \<le> ?V * (?c * (2 / 5) / 2 ^ 53)" by (rule mult_left_mono [OF s V(1)])
    then have "of_int ?q - ?V * f \<le> of_int ?q * (2 / 5) / 2 ^ 53"
      using eq by (simp only: right_diff_distrib times_divide_eq_right mult.assoc [symmetric])
    then have near: "\<bar>?V * f - of_int ?q\<bar> \<le> of_int ?q * (2 / 5) / 2 ^ 53" using False by simp
    have "0 < ?q"
    proof (rule ccontr)
      assume "\<not> 0 < ?q"
      then have "?q = 0" using q0 by simp
      then have "?V = 0" using eq c by simp
      then show False using False \<open>?q = 0\<close> by simp
    qed
    moreover have "(of_int ?q :: rat) \<le> of_int (2 ^ 52)" using qb by simp
    then have "?q \<le> 2 ^ 52" by (simp only: of_int_le_iff)
    ultimately show ?thesis using fl_near_int [OF _ _ near] by simp
  qed
  moreover have "fl (?V * f) < of_int ?q + 1"
  proof -
    have Vf: "\<bar>?V * f\<bar> \<le> 2 ^ 45"
      using lo hi e r' qb q0 \<open>0 \<le> of_int ?r / 100\<close> by (simp add: abs_le_iff)
    have "\<bar>?V * f\<bar> / 2 ^ 53 \<le> 2 ^ 45 / 2 ^ 53" by (rule divide_right_mono [OF Vf]) simp
    also have "\<dots> \<le> 1 / 250" by simp
    finally have "\<bar>fl (?V * f) - ?V * f\<bar> \<le> 1 / 250" using fl_err order_trans by blast
    then have "fl (?V * f) - ?V * f \<le> 1 / 250" by (simp only: abs_le_iff)
    then show ?thesis using hi e r' by linarith
  qed
  ultimately show ?thesis by (intro floor_unique) auto
qed



subsection \<open>Whole numbers in decimal\<close>

lemma fl_nat: "n \<le> 2 ^ 53 \<Longrightarrow> fl (of_nat n) = of_nat n"
proof -
  assume "n \<le> 2 ^ 53"
  then have "\<bar>int n\<bar> \<le> 2 ^ 53" by (metis abs_of_nat of_nat_le_iff of_nat_numeral of_nat_power)
  from fl_of_int [OF this] show ?thesis by simp
qed

lemma parseInt_digits:
  assumes "all_digits s" "digits_val s \<le> 2 ^ 53"
  shows "parseInt s = Fin (of_nat (digits_val s))"
proof -
  obtain c t where s: "s = c # t" "is_digit c" "list_all is_digit t" using assms(1) by (cases s) (auto simp: all_digits_def)
  have d: "list_all is_digit s" using assms(1) by (simp add: all_digits_def)
  note tr = trim_digits(2) [OF d]
  have sg: "\<not> starts_with ''-'' s" "\<not> starts_with ''+'' s"
    using is_digit_not [OF s(2)] by (auto simp: starts_with_def s(1))
  have hx: "to_lower (take 2 s) \<noteq> ''0x''"
  proof (cases t)
    case (Cons e u)
    then have "is_digit e" using s(3) by simp
    then have "to_lower_char e \<noteq> CHR ''x''" using is_digit_not(4) [of e] by (auto simp: is_digit_def code_def)
    then show ?thesis using Cons by (simp add: s(1) to_lower_def)
  qed (simp add: s(1) to_lower_def)
  have "s \<noteq> []" using s(1) by simp
  then have "parse_int s = Some (of_nat (digits_val s))"
    using fl_nat [OF assms(2)] by (simp add: parse_int_def tr sg Let_def takeWhile_all_digits(1) [OF d])
  then show ?thesis by (simp add: parseInt_def tr sg hx)
qed


end
