(* ===== verification/Views.thy ===== *)
theory Views
  imports Js_Num
begin

section \<open>What a component renders\<close>

text \<open>
  The markup a component returns, as a tree: texts, elements, buttons with what pressing them does, and inputs
  with what entering a text does. Class names, styles, keys and the paths of icons are left out; a component that
  is another theory's matter is an element of its name. From a tree one reads what the page lets a user do.
\<close>

datatype 'a view =
    Txt string
  | El string "(string \<times> string) list" "'a view list"
  | Press "(string \<times> string) list" bool "'a option" "'a view list"
  | Enter "(string \<times> string) list" bool string "string \<Rightarrow> 'a"

text \<open>A disabled button does nothing, nor does one without a handler; a disabled input takes no text.\<close>

fun clicks :: "'a view \<Rightarrow> 'a list" where
  "clicks (Txt t) = []"
| "clicks (El n as vs) = concat (map clicks vs)"
| "clicks (Press as disabled act vs) = (if disabled then [] else (case act of None \<Rightarrow> [] | Some a \<Rightarrow> [a])) @ concat (map clicks vs)"
| "clicks (Enter as disabled v f) = []"

fun entries :: "'a view \<Rightarrow> (string \<Rightarrow> 'a) list" where
  "entries (Txt t) = []"
| "entries (El n as vs) = concat (map entries vs)"
| "entries (Press as disabled act vs) = concat (map entries vs)"
| "entries (Enter as disabled v f) = (if disabled then [] else [f])"

text \<open>The texts on the page, in order.\<close>

fun texts :: "'a view \<Rightarrow> string list" where
  "texts (Txt t) = [t]"
| "texts (El n as vs) = concat (map texts vs)"
| "texts (Press as disabled act vs) = concat (map texts vs)"
| "texts (Enter as disabled v f) = []"

text \<open>Markup under a condition.\<close>

definition shown_if :: "bool \<Rightarrow> 'a view list \<Rightarrow> 'a view list" where "shown_if b vs = (if b then vs else [])"

lemma map_shown_if [simp]: "map f (shown_if b vs) = (if b then map f vs else [])"
  by (simp add: shown_if_def)

abbreviation plain_el :: "string \<Rightarrow> 'a view list \<Rightarrow> 'a view" where "plain_el n vs \<equiv> El n [] vs"

abbreviation label_el :: "string \<Rightarrow> string \<Rightarrow> 'a view" where "label_el n t \<equiv> El n [] [Txt t]"

abbreviation icon :: "'a view" where "icon \<equiv> El ''svg'' [] []"

text \<open>\<open>toFixed\<close> writes the decimal nearest to the number, the larger of two equally near ones; from \<open>10 ^ 21\<close> on
  it is the plain text of the number.\<close>

definition pad_zeros :: "nat \<Rightarrow> string \<Rightarrow> string" where "pad_zeros n s = replicate (n - length s) (CHR ''0'') @ s"

definition toFixed :: "(js_num \<Rightarrow> string) \<Rightarrow> nat \<Rightarrow> js_num \<Rightarrow> string" where
  "toFixed plain d n =
     (case n of
        Fin x \<Rightarrow>
          if 10 ^ 21 \<le> \<bar>x\<bar> then plain n
          else (let k = nat \<lfloor>\<bar>x\<bar> * 10 ^ d + 1 / 2\<rfloor> in
                (if x < 0 then ''-'' else []) @ string_of_nat (k div 10 ^ d) @
                (if d = 0 then [] else ''.'' @ pad_zeros d (string_of_nat (k mod 10 ^ d))))
      | _ \<Rightarrow> plain n)"

text \<open>Some characters, in their bytes.\<close>

definition arrow_left :: string where "arrow_left = [CHR 0xE2, CHR 0x86, CHR 0x90]"

definition arrow_right :: string where "arrow_right = [CHR 0xE2, CHR 0x86, CHR 0x92]"

definition long_dash :: string where "long_dash = [CHR 0xE2, CHR 0x80, CHR 0x94]"

definition warning_sign :: string where "warning_sign = [CHR 0xE2, CHR 0x9A, CHR 0xA0, CHR 0xEF, CHR 0xB8, CHR 0x8F]"

definition check_mark :: string where "check_mark = [CHR 0xE2, CHR 0x9C, CHR 0x85]"

definition lock_sign :: string where "lock_sign = [CHR 0xF0, CHR 0x9F, CHR 0x94, CHR 0x90]"

definition rocket :: string where "rocket = [CHR 0xF0, CHR 0x9F, CHR 0x9A, CHR 0x80]"

definition apostrophe :: string where "apostrophe = [CHR 39]"

definition cow :: string where "cow = [CHR 0xF0, CHR 0x9F, CHR 0x90, CHR 0x84]"

definition goat :: string where "goat = [CHR 0xF0, CHR 0x9F, CHR 0x90, CHR 0x90]"

definition sheep :: string where "sheep = [CHR 0xF0, CHR 0x9F, CHR 0x90, CHR 0x91]"

definition paws :: string where "paws = [CHR 0xF0, CHR 0x9F, CHR 0x90, CHR 0xBE]"

definition animal_icon :: "string \<Rightarrow> string option" where
  "animal_icon t = map_of [(''cattle'', cow), (''goat'', goat), (''sheep'', sheep)] t"

definition capitalise :: "string \<Rightarrow> string" where
  "capitalise s = (case s of [] \<Rightarrow> [] | c # cs \<Rightarrow>
     (if 97 \<le> code c \<and> code c \<le> 122 then char_of (code c - 32) else c) # cs)"

end
