(* ===== verification/Wallet_Client.thy ===== *)
theory Wallet_Client
  imports Js_Num Contract_Tx
begin

section \<open>The wallet and the contract client of the frontend (frontend/src/lib, frontend/src/hooks)\<close>

text \<open>
  The access to the wallet extension with its test hooks (freighterClient.ts), the connected wallet
  (useWallet.ts, useNetworkMismatch.ts), the contract client (stellarKraalSdk.ts) and the submission of
  signed transactions (stellarUtils.ts). The extension, the RPC server and the Stellar SDK are parameters;
  each of their calls may throw. The theorems: what a submission answers and after how many reads, that a
  connected wallet comes back after a reload, and that amounts are shown exactly.
\<close>

subsection \<open>The wallet extension (freighterClient.ts)\<close>

record sign_opts =
  so_network :: "string option"
  so_networkPassphrase :: "string option"
  so_address :: "string option"

text \<open>The extension resolves to an object with the answer; the test hooks may stand in for any call.\<close>

record extension =
  ex_isConnected :: "js_error + bool"
  ex_isAllowed :: "js_error + bool"
  ex_setAllowed :: "js_error + bool"
  ex_getAddress :: "js_error + string"
  ex_signTransaction :: "string \<Rightarrow> string option \<Rightarrow> string option \<Rightarrow> js_error + string"

record test_api =
  ta_isConnected :: "(js_error + bool) option"
  ta_isAllowed :: "(js_error + bool) option"
  ta_setAllowed :: "(js_error + bool) option"
  ta_getAddress :: "(js_error + string) option"
  ta_signTransaction :: "(string \<Rightarrow> sign_opts \<Rightarrow> js_error + string) option"
  ta_submitSignedXdr :: "(string \<Rightarrow> js_error + string) option"

definition mocked :: "'a option \<Rightarrow> 'a \<Rightarrow> 'a" where "mocked m d = (case m of None \<Rightarrow> d | Some x \<Rightarrow> x)"

definition fr_isConnected :: "extension \<Rightarrow> test_api option \<Rightarrow> js_error + bool" where
  "fr_isConnected ex mock = mocked (Option.bind mock ta_isConnected) (ex_isConnected ex)"

definition fr_isAllowed :: "extension \<Rightarrow> test_api option \<Rightarrow> js_error + bool" where
  "fr_isAllowed ex mock = mocked (Option.bind mock ta_isAllowed) (ex_isAllowed ex)"

definition fr_setAllowed :: "extension \<Rightarrow> test_api option \<Rightarrow> js_error + bool" where
  "fr_setAllowed ex mock = mocked (Option.bind mock ta_setAllowed) (ex_setAllowed ex)"

definition fr_getAddress :: "extension \<Rightarrow> test_api option \<Rightarrow> js_error + string" where
  "fr_getAddress ex mock = mocked (Option.bind mock ta_getAddress) (ex_getAddress ex)"

definition signTransaction :: "extension \<Rightarrow> test_api option \<Rightarrow> string \<Rightarrow> sign_opts \<Rightarrow> js_error + string" where
  "signTransaction ex mock xdr opts =
     (case Option.bind mock ta_signTransaction of
        Some f \<Rightarrow> f xdr opts
      | None \<Rightarrow> ex_signTransaction ex xdr
          (case so_networkPassphrase opts of None \<Rightarrow> so_network opts | Some p \<Rightarrow> Some p) (so_address opts))"

subsection \<open>The connected wallet (useWallet.ts)\<close>

text \<open>The state of the hook and the address kept in \<open>localStorage\<close>.\<close>

record wallet =
  wl_address :: "string option"
  wl_freighterInstalled :: "bool option"
  wl_connecting :: bool
  wl_error :: "string option"
  wl_stored :: "string option"

definition open_wallet :: "string option \<Rightarrow> wallet" where
  "open_wallet stored = \<lparr>wl_address = None, wl_freighterInstalled = None, wl_connecting = False,
     wl_error = None, wl_stored = stored\<rparr>"

text \<open>
  \<open>isConnected().then(() => true)\<close> looks only at whether the call resolves, and the object
  \<open>isAllowed()\<close> resolves to is true whatever it says.
\<close>

definition wallet_mount :: "extension \<Rightarrow> test_api option \<Rightarrow> wallet \<Rightarrow> wallet" where
  "wallet_mount ex mock w =
     (case fr_isConnected ex mock of
        Inl _ \<Rightarrow> w\<lparr>wl_freighterInstalled := Some False\<rparr>
      | Inr _ \<Rightarrow>
          (let w1 = w\<lparr>wl_freighterInstalled := Some True\<rparr> in
           case truthy_str (wl_stored w) of
             None \<Rightarrow> w1
           | Some persisted \<Rightarrow>
               (case fr_isAllowed ex mock of
                  Inr _ \<Rightarrow> w1\<lparr>wl_address := Some persisted\<rparr>
                | Inl _ \<Rightarrow> w1\<lparr>wl_stored := None\<rparr>)))"

definition wallet_connect :: "extension \<Rightarrow> test_api option \<Rightarrow> wallet \<Rightarrow> wallet" where
  "wallet_connect ex mock w =
     (case bind_r (fr_setAllowed ex mock) (\<lambda>_. fr_getAddress ex mock) of
        Inr addr \<Rightarrow> w\<lparr>wl_address := Some addr, wl_connecting := False, wl_error := None, wl_stored := Some addr\<rparr>
      | Inl e \<Rightarrow> w\<lparr>wl_connecting := False, wl_error := Some (err_message e)\<rparr>)"

definition wallet_disconnect :: "wallet \<Rightarrow> wallet" where
  "wallet_disconnect w = w\<lparr>wl_address := None, wl_stored := None\<rparr>"

text \<open>useNetworkMismatch.ts: a wallet that cannot tell its network leaves the answer as it was.\<close>

definition wallet_network :: "js_error + string option \<Rightarrow> string option" where
  "wallet_network details = (case details of Inr (Some n) \<Rightarrow> Some (to_lower n) | _ \<Rightarrow> None)"

definition networkMismatch :: "string option \<Rightarrow> js_error + string option \<Rightarrow> string option \<Rightarrow> bool \<Rightarrow> bool" where
  "networkMismatch NEXT_PUBLIC_NETWORK details walletAddress mismatch =
     (case truthy_str walletAddress of
        None \<Rightarrow> False
      | Some _ \<Rightarrow>
          (case truthy_str (wallet_network details) of
             None \<Rightarrow> mismatch
           | Some n \<Rightarrow> n \<noteq> to_lower (case NEXT_PUBLIC_NETWORK of None \<Rightarrow> ''testnet'' | Some m \<Rightarrow> m)))"

subsection \<open>Signed transactions and amounts (stellarUtils.ts)\<close>

record sent =
  sn_status :: string
  sn_hash :: string
  sn_errorResult :: string

text \<open>
  The server of stellarUtils: reading a signed transaction, sending it, and the status the reads of it
  give one after the other.
\<close>

record submit_server =
  sb_fromXDR :: "string \<Rightarrow> js_error + string"
  sb_sendTransaction :: "string \<Rightarrow> js_error + sent"
  sb_getTransaction :: "string \<Rightarrow> nat \<Rightarrow> js_error + string"

definition poll_limit :: nat where "poll_limit = 20"

fun poll_status :: "(nat \<Rightarrow> js_error + string) \<Rightarrow> nat \<Rightarrow> nat \<Rightarrow> string \<Rightarrow> js_error + string" where
  "poll_status get attempts 0 status = Inr status"
| "poll_status get attempts (Suc left) status =
     (if status = ''NOT_FOUND'' then bind_r (get (attempts + 1)) (poll_status get (attempts + 1) left)
      else Inr status)"

definition submitSignedXdr :: "test_api option \<Rightarrow> submit_server \<Rightarrow> string \<Rightarrow> js_error + string" where
  "submitSignedXdr mock srv signedXdr =
     (case Option.bind mock ta_submitSignedXdr of
        Some f \<Rightarrow> f signedXdr
      | None \<Rightarrow>
          bind_r (sb_fromXDR srv signedXdr) (\<lambda>tx.
          bind_r (sb_sendTransaction srv tx) (\<lambda>result.
            if sn_status result = ''ERROR''
            then Inl (JsError ''Error'' (''Transaction failed: '' @ sn_errorResult result))
            else
              bind_r (sb_getTransaction srv (sn_hash result) 0) (\<lambda>first.
              bind_r (poll_status (sb_getTransaction srv (sn_hash result)) 0 poll_limit first) (\<lambda>status.
                if status = ''SUCCESS'' then Inr (sn_hash result)
                else Inl (JsError ''Error'' (''Transaction status: '' @ status)))))))"

text \<open>\<open>x.toFixed(d)\<close> below 10 to the 21st.\<close>

definition pad_left :: "nat \<Rightarrow> string \<Rightarrow> string" where
  "pad_left n s = replicate (n - length s) (CHR ''0'') @ s"

definition toFixed_text :: "nat \<Rightarrow> rat \<Rightarrow> string" where
  "toFixed_text d x0 =
     (let x = \<bar>x0\<bar>; n = nat \<lfloor>x * 10 ^ d + 1 / 2\<rfloor>; s = pad_left (d + 1) (string_of_nat n) in
      (if x0 < 0 then ''-'' else []) @ take (length s - d) s @
      (if d = 0 then [] else CHR ''.'' # drop (length s - d) s))"

text \<open>\<open>replace(/\.?0+$/, "")\<close> takes the zeros at the end and a point before them.\<close>

definition strip_zeros :: "string \<Rightarrow> string" where
  "strip_zeros s =
     (let r = dropWhile (\<lambda>c. c = CHR ''0'') (rev s) in
      if length r < length s \<and> r \<noteq> [] \<and> hd r = CHR ''.'' then rev (tl r) else rev r)"

definition formatStroops :: "rat \<Rightarrow> string" where
  "formatStroops stroops = strip_zeros (toFixed_text 7 (js_div stroops (10 ^ 7))) @ '' XLM''"

definition healthColor :: "rat \<Rightarrow> string" where
  "healthColor bps = (if 15000 \<le> bps then ''#16a34a'' else if 10000 \<le> bps then ''#ca8a04'' else ''#dc2626'')"

text \<open>The copy in design-tokens.ts has another middle colour.\<close>

definition healthColor_tokens :: "rat \<Rightarrow> string" where
  "healthColor_tokens v = (if 15000 \<le> v then ''#16A34A'' else if 10000 \<le> v then ''#D97706'' else ''#DC2626'')"


subsection \<open>The contract client (stellarKraalSdk.ts)\<close>

definition ERROR_MESSAGES :: "(nat \<times> string) list" where
  "ERROR_MESSAGES =
     [(1, ''Contract not initialized''), (2, ''Contract already initialized''), (3, ''Unauthorized''),
      (4, ''Insufficient collateral for requested loan''), (5, ''Loan not found''), (6, ''Collateral not found''),
      (7, ''Health factor is safe '' @ [char_of (226::nat), char_of (128::nat), char_of (148::nat)] @
          '' liquidation not permitted''),
      (8, ''Invalid amount''), (9, ''Loan is already closed''), (10, ''Invalid fee rate (max 500 bps)''),
      (11, ''Repay amount exceeds close factor cap''), (12, ''Invalid close factor''), (13, ''Contract is paused''),
      (14, ''Oracle already registered''), (15, ''Oracle limit reached (max 5)''), (16, ''Oracle not found''),
      (17, ''Insufficient oracle quorum''), (18, ''Invalid price''), (19, ''Contract is not paused''),
      (20, ''Arithmetic overflow''), (21, ''Reentrancy detected'')]"

record client_options =
  co_contractId :: string
  co_networkPassphrase :: "string option"
  co_rpcUrl :: "string option"
  co_publicKey :: "string option"

record kraal_client =
  kc_contractId :: string
  kc_networkPassphrase :: string
  kc_rpcUrl :: string
  kc_publicKey :: "string option"

definition or_else :: "'a option \<Rightarrow> 'a \<Rightarrow> 'a" where "or_else x d = (case x of None \<Rightarrow> d | Some v \<Rightarrow> v)"

text \<open>\<open>networks\<close> holds the passphrases of the SDK: of the public network and of the test network.\<close>

definition new_client :: "string \<times> string \<Rightarrow> (string \<Rightarrow> string option) \<Rightarrow> client_options \<Rightarrow> kraal_client" where
  "new_client networks env opts =
     \<lparr>kc_contractId = co_contractId opts,
      kc_networkPassphrase = or_else (co_networkPassphrase opts)
        (if env ''NEXT_PUBLIC_NETWORK'' = Some ''mainnet'' then fst networks else snd networks),
      kc_rpcUrl = or_else (co_rpcUrl opts) (or_else (env ''NEXT_PUBLIC_RPC_URL'') ''https://soroban-testnet.stellar.org''),
      kc_publicKey = co_publicKey opts\<rparr>"

text \<open>
  The singleton of the module. The constructor of \<open>Contract\<close> throws on an id that is not one of a
  contract; \<open>valid_contract\<close> is that check.
\<close>

definition getStellarKraalClient ::
  "(string \<Rightarrow> bool) \<Rightarrow> string \<times> string \<Rightarrow> (string \<Rightarrow> string option) \<Rightarrow> string option \<Rightarrow> kraal_client option \<Rightarrow>
   (js_error + kraal_client) \<times> kraal_client option" where
  "getStellarKraalClient valid_contract networks env pubKey default_client =
     (case (default_client, truthy_str pubKey) of
        (Some c, None) \<Rightarrow> (Inr c, default_client)
      | _ \<Rightarrow>
          (let contractId = or_else (env ''NEXT_PUBLIC_CONTRACT_ID'') [];
               c = new_client networks env
                 \<lparr>co_contractId = contractId, co_networkPassphrase = None, co_rpcUrl = None, co_publicKey = pubKey\<rparr> in
           if valid_contract contractId then (Inr c, Some c)
           else (Inl (JsError ''Error'' (''Invalid contract ID: '' @ contractId)), default_client)))"

text \<open>
  What a client calls: the account of a source, the encoding of an argument, the transaction of a call
  built with the fee and the timeout the client sets, its XDR, its simulation and the value of a result.
\<close>

record client_server =
  cs_getAccount :: "string \<Rightarrow> js_error + string"
  cs_encode :: "scarg \<Rightarrow> js_error + string"
  cs_build :: "kraal_client \<Rightarrow> string \<Rightarrow> string \<Rightarrow> string list \<Rightarrow> js_error + string"
  cs_toXDR :: "string \<Rightarrow> string"
  cs_simulate :: "string \<Rightarrow> js_error + (string + native option)"
  cs_scValToNative :: "native \<Rightarrow> js_error + native"

definition client_buildTx ::
  "client_server \<Rightarrow> kraal_client \<Rightarrow> string \<Rightarrow> string \<Rightarrow> scarg list \<Rightarrow> js_error + string" where
  "client_buildTx srv c sourceAddress mth args =
     bind_r (collect (cs_encode srv) args) (\<lambda>vals.
     bind_r (cs_getAccount srv sourceAddress) (\<lambda>account. cs_build srv c account mth vals))"

definition client_xdr ::
  "client_server \<Rightarrow> kraal_client \<Rightarrow> string \<Rightarrow> string \<Rightarrow> scarg list \<Rightarrow> js_error + string" where
  "client_xdr srv c sourceAddress mth args =
     bind_r (client_buildTx srv c sourceAddress mth args) (\<lambda>tx. Inr (cs_toXDR srv tx))"

text \<open>The result of a simulation that gave none is \<open>undefined\<close>, and reading its value throws.\<close>

definition client_simulate :: "client_server \<Rightarrow> string \<Rightarrow> js_error + native option" where
  "client_simulate srv tx =
     bind_r (cs_simulate srv tx) (\<lambda>sim. case sim of
       Inl e \<Rightarrow> Inl (JsError ''Error'' (''Simulation failed: '' @ e)) | Inr r \<Rightarrow> Inr r)"

definition CLIENT_READ_ACCOUNT :: string where
  "CLIENT_READ_ACCOUNT = ''GAAZI4TCR3TY5OJHCTJC2A4QSY6CJWJH5IAJTGKIN2ER7LBNVKOCCWN''"

definition client_read :: "client_server \<Rightarrow> kraal_client \<Rightarrow> string \<Rightarrow> scarg list \<Rightarrow> js_error + native" where
  "client_read srv c mth args =
     bind_r (client_buildTx srv c CLIENT_READ_ACCOUNT mth args) (\<lambda>tx.
     bind_r (client_simulate srv tx) (\<lambda>r. case r of
         None \<Rightarrow> Inl (JsError ''TypeError'' ''Cannot read properties of undefined'')
       | Some retval \<Rightarrow> cs_scValToNative srv retval))"

text \<open>The methods that prepare a transaction, each with the account it is of.\<close>

datatype client_call =
    BuildInitialize string string string string rat rat
  | BuildRegisterLivestock string string rat int
  | BuildRequestLoan string "int list" int
  | BuildRepayLoan string int int
  | BuildLiquidate string int int
  | BuildUpdateAppraisal string int int
  | BuildPause string
  | BuildUnpause string
  | BuildUpdateFeeConfig string rat rat
  | BuildSetCloseFactor string rat

abbreviation u64 :: "int \<Rightarrow> scarg" where "u64 n \<equiv> ArgU64 (of_int n)"

abbreviation i128 :: "int \<Rightarrow> scarg" where "i128 n \<equiv> ArgI128 (of_int n)"

fun call_args :: "client_call \<Rightarrow> string \<times> scarg list" where
  "call_args (BuildInitialize admin oracle token treasury ltv_bps threshold_bps) =
     (''initialize'', [ArgAddress admin, ArgAddress oracle, ArgAddress token, ArgAddress treasury,
        ArgU32 ltv_bps, ArgU32 threshold_bps])"
| "call_args (BuildRegisterLivestock owner animal_type n appraised_value) =
     (''register_livestock'', [ArgAddress owner, ArgSymbol animal_type, ArgU32 n, i128 appraised_value])"
| "call_args (BuildRequestLoan borrower collateral_ids amount) =
     (''request_loan'', [ArgAddress borrower, ArgVec (map u64 collateral_ids), i128 amount])"
| "call_args (BuildRepayLoan borrower loan_id amount) =
     (''repay_loan'', [ArgAddress borrower, u64 loan_id, i128 amount])"
| "call_args (BuildLiquidate liquidator loan_id repay_amount) =
     (''liquidate'', [ArgAddress liquidator, u64 loan_id, i128 repay_amount])"
| "call_args (BuildUpdateAppraisal owner collateral_id new_value) =
     (''update_appraisal'', [ArgAddress owner, u64 collateral_id, i128 new_value])"
| "call_args (BuildPause admin) = (''pause'', [ArgAddress admin])"
| "call_args (BuildUnpause admin) = (''unpause'', [ArgAddress admin])"
| "call_args (BuildUpdateFeeConfig admin origination_fee_bps interest_fee_bps) =
     (''update_fee_config'', [ArgAddress admin, ArgU32 origination_fee_bps, ArgU32 interest_fee_bps])"
| "call_args (BuildSetCloseFactor admin close_factor_bps) =
     (''set_close_factor'', [ArgAddress admin, ArgU32 close_factor_bps])"

definition client_build :: "client_server \<Rightarrow> kraal_client \<Rightarrow> string \<Rightarrow> client_call \<Rightarrow> js_error + string" where
  "client_build srv c source call = (case call_args call of (mth, args) \<Rightarrow> client_xdr srv c source mth args)"

text \<open>The methods that read the contract.\<close>

datatype contract_read =
    GetHealthFactor int | GetLoan int | GetCollateral int | GetAppraisalHistory int
  | GetFeeConfig | GetOracles | IsPaused

fun query_args :: "contract_read \<Rightarrow> string \<times> scarg list" where
  "query_args (GetHealthFactor loan_id) = (''health_factor'', [u64 loan_id])"
| "query_args (GetLoan loan_id) = (''get_loan'', [u64 loan_id])"
| "query_args (GetCollateral collateral_id) = (''get_collateral'', [u64 collateral_id])"
| "query_args (GetAppraisalHistory collateral_id) = (''get_appraisal_history'', [u64 collateral_id])"
| "query_args GetFeeConfig = (''get_fee_config'', [])"
| "query_args GetOracles = (''get_oracles'', [])"
| "query_args IsPaused = (''is_paused'', [])"

definition client_query :: "client_server \<Rightarrow> kraal_client \<Rightarrow> contract_read \<Rightarrow> js_error + native" where
  "client_query srv c q = (case query_args q of (mth, args) \<Rightarrow> client_read srv c mth args)"

subsection \<open>Facts about submissions\<close>

text \<open>
  The status a submission ends with is that of the first read that is not \<open>NOT_FOUND\<close>, or of the last
  one of the limit.
\<close>

lemma poll_status_Inr:
  "get a = Inr st \<Longrightarrow> poll_status get a n st = Inr r \<longleftrightarrow>
   (\<exists>k\<le>n. (\<forall>j<k. get (a + j) = Inr ''NOT_FOUND'') \<and> get (a + k) = Inr r \<and> (k = n \<or> r \<noteq> ''NOT_FOUND''))"
proof (induction n arbitrary: a st)
  case 0
  then show ?case by auto
next
  case (Suc n)
  show ?case
  proof (cases "st = ''NOT_FOUND''")
    case False
    have "k = 0" if "\<forall>j<k. get (a + j) = Inr ''NOT_FOUND''" for k
      using that False Suc.prems by (cases k) auto
    with False Suc.prems show ?thesis by auto (metis add.right_neutral sum.inject(2))
  next
    case True
    have "(\<exists>k\<le>Suc n. (\<forall>j<k. get (a + j) = Inr ''NOT_FOUND'') \<and> get (a + k) = Inr r \<and> (k = Suc n \<or> r \<noteq> ''NOT_FOUND'')) \<longleftrightarrow>
      (\<exists>k\<le>n. (\<forall>j<k. get (a + 1 + j) = Inr ''NOT_FOUND'') \<and> get (a + 1 + k) = Inr r \<and> (k = n \<or> r \<noteq> ''NOT_FOUND''))"
      (is "?l \<longleftrightarrow> ?r")
    proof
      assume ?l
      then obtain k where k: "k \<le> Suc n" "\<forall>j<k. get (a + j) = Inr ''NOT_FOUND''" "get (a + k) = Inr r"
        "k = Suc n \<or> r \<noteq> ''NOT_FOUND''" by blast
      then obtain i where "k = Suc i" using True Suc.prems by (cases k) auto
      with k show ?r by (intro exI [of _ i]) auto
    next
      assume ?r
      then obtain k where k: "k \<le> n" "\<forall>j<k. get (a + 1 + j) = Inr ''NOT_FOUND''" "get (a + 1 + k) = Inr r"
        "k = n \<or> r \<noteq> ''NOT_FOUND''" by blast
      have "get (a + j) = Inr ''NOT_FOUND''" if "j < Suc k" for j
        using that k(2) True Suc.prems by (cases j) auto
      with k show ?l by (intro exI [of _ "Suc k"]) auto
    qed
    moreover have "get (a + 1) = Inl e \<Longrightarrow> \<not> (\<exists>k\<le>n. (\<forall>j<k. get (a + 1 + j) = Inr ''NOT_FOUND'') \<and> get (a + 1 + k) = Inr r)" for e
      by (metis Inl_Inr_False add.right_neutral gr0I)
    ultimately show ?thesis using True Suc.IH [of "a + 1"] by (cases "get (a + 1)") auto
  qed
qed

text \<open>C19: A signed transaction that is submitted gives its hash back exactly when the server took it and one
  of at most 21 reads finds it successful, the ones before not finding it; nothing else is reported as
  done.\<close>

theorem submission_succeeds_iff:
  "submitSignedXdr None srv signedXdr = Inr h \<longleftrightarrow>
   (\<exists>tx result k. sb_fromXDR srv signedXdr = Inr tx \<and> sb_sendTransaction srv tx = Inr result \<and>
      sn_status result \<noteq> ''ERROR'' \<and> h = sn_hash result \<and> k \<le> 20 \<and>
      (\<forall>j<k. sb_getTransaction srv h j = Inr ''NOT_FOUND'') \<and> sb_getTransaction srv h k = Inr ''SUCCESS'')"
proof -
  have main: "bind_r (g 0) (\<lambda>first. bind_r (poll_status g 0 poll_limit first)
          (\<lambda>st. if st = ''SUCCESS'' then Inr x else Inl (JsError ''Error'' (''Transaction status: '' @ st)))) = Inr h \<longleftrightarrow>
        x = h \<and> (\<exists>k\<le>20. (\<forall>j<k. g j = Inr ''NOT_FOUND'') \<and> g k = Inr ''SUCCESS'')"
    for g :: "nat \<Rightarrow> js_error + string" and x
  proof (cases "g 0")
    case (Inl e)
    then show ?thesis by simp (metis Inl_Inr_False gr0I)
  next
    case (Inr st)
    have "bind_r m (\<lambda>st. if st = ''SUCCESS'' then Inr x else Inl (JsError ''Error'' (''Transaction status: '' @ st))) = Inr h
        \<longleftrightarrow> x = h \<and> m = Inr ''SUCCESS''" for m :: "js_error + string"
      by (cases m) auto
    with Inr poll_status_Inr [of g 0, OF Inr, of poll_limit "''SUCCESS''"] show ?thesis
      by (simp add: poll_limit_def)
  qed
  show ?thesis
  proof (cases "sb_fromXDR srv signedXdr")
    case (Inr tx)
    show ?thesis
    proof (cases "sb_sendTransaction srv tx")
      case (Inr result)
      have "submitSignedXdr None srv signedXdr = Inr h \<longleftrightarrow> sn_status result \<noteq> ''ERROR'' \<and> sn_hash result = h \<and>
          (\<exists>k\<le>20. (\<forall>j<k. sb_getTransaction srv (sn_hash result) j = Inr ''NOT_FOUND'') \<and>
             sb_getTransaction srv (sn_hash result) k = Inr ''SUCCESS'')"
        using main [of "sb_getTransaction srv (sn_hash result)" "sn_hash result"]
        by (simp add: submitSignedXdr_def \<open>sb_fromXDR srv signedXdr = Inr tx\<close> Inr)
      then show ?thesis using \<open>sb_fromXDR srv signedXdr = Inr tx\<close> Inr by auto
    qed (use \<open>sb_fromXDR srv signedXdr = Inr tx\<close> in \<open>simp add: submitSignedXdr_def\<close>)
  qed (simp add: submitSignedXdr_def)
qed


theorem submission_succeeds_iff_witness:
  "submitSignedXdr None
     \<lparr>sb_fromXDR = Inr, sb_sendTransaction = \<lambda>tx. Inr \<lparr>sn_status = ''PENDING'', sn_hash = ''h'', sn_errorResult = []\<rparr>,
      sb_getTransaction = \<lambda>h k. Inr (if k < 20 then ''NOT_FOUND'' else ''SUCCESS'')\<rparr> ''AAA'' = Inr ''h''"
  by (subst submission_succeeds_iff) (auto intro!: exI [of _ 20])

subsection \<open>Facts about the client and the wallet\<close>

text \<open>The account of the reads is a letter short of an account id, so that no read gets past looking it up.\<close>

theorem client_reads_fail:
  assumes "\<forall>a. length a \<noteq> 56 \<longrightarrow> (\<exists>e. cs_getAccount srv a = Inl e)"
  shows "\<exists>e. client_query srv c q = Inl e"
proof -
  have "length CLIENT_READ_ACCOUNT \<noteq> 56" by (simp add: CLIENT_READ_ACCOUNT_def)
  then obtain e where e: "cs_getAccount srv CLIENT_READ_ACCOUNT = Inl e" using assms by blast
  obtain mth args where q: "query_args q = (mth, args)" by (cases "query_args q")
  show ?thesis
    by (cases "collect (cs_encode srv) args")
      (auto simp: client_query_def client_read_def client_buildTx_def q e)
qed

text \<open>A method that prepares a transaction asks for the account of its source and nothing of the publicKey.\<close>

lemma client_build_uses_source:
  "client_build srv c source call = Inr x \<Longrightarrow> \<exists>account. cs_getAccount srv source = Inr account"
  by (auto simp: client_build_def client_xdr_def client_buildTx_def bind_r_Inr split: prod.splits)

lemma default_client_kept:
  "truthy_str pk = None \<Longrightarrow> getStellarKraalClient v nets env pk (Some c) = (Inr c, Some c)"
  by (simp add: getStellarKraalClient_def)

text \<open>A wallet that was connected is the wallet after a reload, and one that was disconnected is not.\<close>

lemma wallet_survives_reload:
  assumes "wl_error (wallet_connect ex mock w) = None" "fr_getAddress ex mock = Inr (ch # addr)"
    "fr_isConnected ex' mock' = Inr b" "fr_isAllowed ex' mock' = Inr b'"
  shows "wl_address (wallet_mount ex' mock' (open_wallet (wl_stored (wallet_connect ex mock w)))) = Some (ch # addr)"
  using assms by (auto simp: wallet_connect_def wallet_mount_def open_wallet_def bind_r_Inr split: sum.splits)

lemma wallet_gone_after_disconnect:
  "wl_address (wallet_mount ex mock (open_wallet (wl_stored (wallet_disconnect w)))) = None"
  by (simp add: wallet_mount_def open_wallet_def wallet_disconnect_def split: sum.split)

text \<open>The address comes back also when the wallet answers that the site is not allowed any more.\<close>

theorem wallet_restored_without_permission:
  "wl_address (wallet_mount ex None (open_wallet (Some (ch # addr)))) = Some (ch # addr)"
  if "ex_isConnected ex = Inr False" "ex_isAllowed ex = Inr False"
  using that by (simp add: wallet_mount_def open_wallet_def fr_isConnected_def fr_isAllowed_def mocked_def)

subsection \<open>Amounts are shown exactly\<close>

lemma digits_val_append: "digits_val (s @ t) = digits_val s * 10 ^ length t + digits_val t"
  by (induction t rule: rev_induct) (simp_all add: append_assoc [symmetric] algebra_simps del: append_assoc, simp add: digits_val_def)

lemma digits_val_zeros: "digits_val (replicate k (CHR ''0'') @ s) = digits_val s"
  by (induction k) (simp_all add: digits_val_def digit_val_def code_def)

lemma floor_fl_back:
  assumes "n \<le> 2 ^ 51" shows "\<lfloor>fl (of_nat n / 10 ^ 7) * 10 ^ 7 + 1 / 2\<rfloor> = int n"
proof -
  let ?x = "of_nat n / 10 ^ 7 :: rat"
  have "(of_nat n :: rat) \<le> of_nat (2 ^ 51)" using assms by (simp only: of_nat_le_iff)
  then have n: "(of_nat n :: rat) \<le> 2 ^ 51" by simp
  have "\<bar>fl ?x - ?x\<bar> \<le> ?x / 2 ^ 53" using fl_err [of ?x] by simp
  then have "\<bar>fl ?x - ?x\<bar> * 10 ^ 7 \<le> ?x / 2 ^ 53 * 10 ^ 7" by (rule mult_right_mono) simp
  also have "?x / 2 ^ 53 * 10 ^ 7 = of_nat n / 2 ^ 53" by simp
  also have "\<dots> \<le> 2 ^ 51 / 2 ^ 53" by (rule divide_right_mono [OF n]) simp
  also have "\<dots> = 1 / 4" by simp
  finally have "\<bar>(fl ?x - ?x) * 10 ^ 7\<bar> \<le> 1 / 4" by (simp only: abs_mult) simp
  then have "\<bar>fl ?x * 10 ^ 7 - of_nat n\<bar> \<le> 1 / 4" by (simp add: left_diff_distrib)
  then have "fl ?x * 10 ^ 7 - of_nat n \<le> 1 / 4" "of_nat n - fl ?x * 10 ^ 7 \<le> 1 / 4"
    by (simp_all only: abs_le_iff minus_diff_eq)
  then show ?thesis by (intro floor_unique) simp_all
qed

text \<open>An amount in stroops is shown exactly: the text is the decimal number of XLM, with at most seven
  places and without zeros at the end.\<close>

theorem stroops_shown_exactly:
  assumes "n \<le> 2 ^ 51"
  shows "\<exists>ip fp. formatStroops (of_nat n) = ip @ (if fp = [] then [] else CHR ''.'' # fp) @ '' XLM'' \<and>
    all_digits ip \<and> list_all is_digit fp \<and> length fp \<le> 7 \<and> (fp \<noteq> [] \<longrightarrow> last fp \<noteq> CHR ''0'') \<and>
    of_nat (digits_val ip) + of_nat (digits_val fp) / 10 ^ length fp = (of_nat n / 10 ^ 7 :: rat)"
proof -
  define s where "s = pad_left 8 (string_of_nat n)"
  define ip where "ip = take (length s - 7) s"
  define f0 where "f0 = drop (length s - 7) s"
  have len: "8 \<le> length s" by (simp add: s_def pad_left_def)
  have s: "s = ip @ f0" "length f0 = 7" "ip \<noteq> []" using len by (auto simp: ip_def f0_def)
  have dig: "list_all is_digit s"
    using string_of_nat_digits [of n] by (auto simp: s_def pad_left_def list_all_iff is_digit_def code_def)
  have val: "digits_val s = n" by (simp add: s_def pad_left_def digits_val_zeros)
  have tf: "toFixed_text 7 (js_div (of_nat n) (10 ^ 7)) = ip @ CHR ''.'' # f0"
    using floor_fl_back [OF assms]
    by (simp add: toFixed_text_def js_div_def Let_def ip_def f0_def s_def)
  define fp where "fp = rev (dropWhile (\<lambda>c. c = CHR ''0'') (rev f0))"
  obtain z where z: "f0 = fp @ z" "set z \<subseteq> {CHR ''0''}"
  proof
    show "f0 = fp @ rev (takeWhile (\<lambda>c. c = CHR ''0'') (rev f0))"
      by (metis fp_def rev_append rev_rev_ident takeWhile_dropWhile_id)
    show "set (rev (takeWhile (\<lambda>c. c = CHR ''0'') (rev f0))) \<subseteq> {CHR ''0''}"
      by (auto dest: set_takeWhileD)
  qed
  have "strip_zeros (ip @ CHR ''.'' # f0) = ip @ (if fp = [] then [] else CHR ''.'' # fp)"
  proof (cases "fp = []")
    case True
    then have "\<forall>c\<in>set f0. c = CHR ''0''" using z by auto
    then have "dropWhile (\<lambda>c. c = CHR ''0'') (rev (ip @ CHR ''.'' # f0)) = CHR ''.'' # rev ip"
      using dropWhile_append2 [of "rev f0" "\<lambda>c. c = CHR ''0''" "CHR ''.'' # rev ip"] by simp
    then show ?thesis using True s(2) by (simp add: strip_zeros_def Let_def)
  next
    case False
    then obtain x where x: "x \<in> set f0" "x \<noteq> CHR ''0''" using dropWhile_eq_Nil_conv fp_def by force
    have "dropWhile (\<lambda>c. c = CHR ''0'') (rev (ip @ CHR ''.'' # f0)) = rev fp @ CHR ''.'' # rev ip"
      using x by (simp add: fp_def dropWhile_append1)
    moreover have "hd (rev fp @ CHR ''.'' # rev ip) \<noteq> CHR ''.''"
    proof -
      have "last fp \<in> set s" using False z(1) s(1) by simp
      then have "is_digit (last fp)" using dig by (simp add: list_all_iff)
      then have "last fp \<noteq> CHR ''.''" by (auto simp: is_digit_def code_def)
      then show ?thesis using False by (simp add: hd_append hd_rev)
    qed
    ultimately show ?thesis using False by (simp add: strip_zeros_def Let_def)
  qed
  then have "formatStroops (of_nat n) = ip @ (if fp = [] then [] else CHR ''.'' # fp) @ '' XLM''"
    by (simp only: formatStroops_def tf append_assoc)
  moreover have "all_digits ip" "list_all is_digit fp" using dig s z by (auto simp: all_digits_def)
  moreover have "length fp \<le> 7" using s z by simp
  moreover have "fp \<noteq> [] \<longrightarrow> last fp \<noteq> CHR ''0''"
    using hd_dropWhile [of "\<lambda>c. c = CHR ''0''" "rev f0"] by (auto simp: fp_def last_rev)
  moreover have "of_nat (digits_val ip) + of_nat (digits_val fp) / 10 ^ length fp = (of_nat n / 10 ^ 7 :: rat)"
  proof -
    have "z = replicate (length z) (CHR ''0'')" using z(2) by (metis replicate_length_same subsetD singletonD)
    then have "digits_val z = 0" by (metis append_Nil2 digits_val_zeros digits_val_def foldl_Nil)
    then have "digits_val f0 = digits_val fp * 10 ^ length z" using z by (simp add: digits_val_append)
    then have n: "n = digits_val ip * 10 ^ 7 + digits_val fp * 10 ^ length z" using val s by (simp add: digits_val_append)
    have "7 = length fp + length z" using s z by simp
    then have e: "(10::rat) ^ 7 = 10 ^ length fp * 10 ^ length z" by (simp only: power_add [symmetric])
    have "of_nat (digits_val fp) / 10 ^ length fp = of_nat (digits_val fp) * 10 ^ length z / (10::rat) ^ 7"
      unfolding e by simp
    with n show ?thesis by (simp add: add_divide_distrib)
  qed
  ultimately show ?thesis by blast
qed


theorem stroops_shown_exactly_witness:
  "\<exists>ip fp. formatStroops (of_nat 12500000) = ip @ (if fp = [] then [] else CHR ''.'' # fp) @ '' XLM'' \<and>
    all_digits ip \<and> list_all is_digit fp \<and> length fp \<le> 7 \<and> (fp \<noteq> [] \<longrightarrow> last fp \<noteq> CHR ''0'') \<and>
    of_nat (digits_val ip) + of_nat (digits_val fp) / 10 ^ length fp = (of_nat 12500000 / 10 ^ 7 :: rat)"
  by (rule stroops_shown_exactly) simp

theorem client_reads_fail_witness:
  "\<exists>e. client_query \<lparr>cs_getAccount = \<lambda>a. if length a = 56 then Inr a else Inl (JsError ''Error'' ''invalid account id''),
     cs_encode = \<lambda>a. Inr ''v'', cs_build = \<lambda>c a m vs. Inr m, cs_toXDR = id, cs_simulate = \<lambda>tx. Inr (Inr (Some NNull)),
     cs_scValToNative = Inr\<rparr> \<lparr>kc_contractId = ''C'', kc_networkPassphrase = ''N'', kc_rpcUrl = ''U'', kc_publicKey = None\<rparr>
     (GetLoan 1) = Inl e"
  by (rule client_reads_fail) simp

end
