(* ===== verification/Contract_Flow.thy ===== *)
theory Contract_Flow
  imports Wallet_Client Auth Schemas
begin

section \<open>From a form to a submitted transaction (frontend/src/components)\<close>

text \<open>
  What every form that changes the chain does: post its fields to the backend, let the wallet sign the
  transaction that comes back, and submit it. Here are the requests the forms send, the shared course of
  such a submission, the rate limit hook useFetchWithRateLimit.ts, the validation of LoanForm.tsx and the
  submissions of LoanForm.tsx, RepayPanel.tsx and CollateralRegistrationForm.tsx. A server is a function
  from requests to answers or to a failed connection.
\<close>

subsection \<open>Requests and answers\<close>

record web_response =
  wr_status :: nat
  wr_headers :: "(string \<times> string) list"
  wr_json :: "js_error + json"

type_synonym web = "request \<Rightarrow> js_error + web_response"

definition wr_ok :: "web_response \<Rightarrow> bool" where "wr_ok r \<longleftrightarrow> 200 \<le> wr_status r \<and> wr_status r < 300"

definition of_response :: "response \<Rightarrow> web_response" where
  "of_response r = \<lparr>wr_status = rs_status r, wr_headers = rs_headers r, wr_json = Inr (rs_body r)\<rparr>"

text \<open>The forms send a JSON body and no other header.\<close>

definition json_post :: "string \<Rightarrow> json \<Rightarrow> request" where
  "json_post path body = \<lparr>rq_method = ''POST'', rq_path = path, rq_query = [],
     rq_headers = [(''content-type'', ''application/json'')], rq_body = body, rq_user = None\<rparr>"

text \<open>
  What a flow needs of its surroundings. \<open>fe_network\<close> is NEXT_PUBLIC_NETWORK; \<open>fe_sign_odd\<close> is what
  the extension makes of a transaction that is no text, \<open>fe_text\<close> how a value is written as text.
\<close>

record flow_env =
  fe_web :: web
  fe_ext :: extension
  fe_mock :: "test_api option"
  fe_submit :: submit_server
  fe_network :: "string option"
  fe_sign_odd :: "json option \<Rightarrow> js_error + string"
  fe_text :: "json \<Rightarrow> string"

definition sign_network :: "flow_env \<Rightarrow> sign_opts" where
  "sign_network env = \<lparr>so_network = Some (case truthy_str (fe_network env) of None \<Rightarrow> ''TESTNET'' | Some n \<Rightarrow> n),
     so_networkPassphrase = None, so_address = None\<rparr>"

definition sign_answer :: "flow_env \<Rightarrow> json \<Rightarrow> js_error + string" where
  "sign_answer env answer =
     (case answer of
        JNull \<Rightarrow> Inl (JsError ''TypeError'' ''Cannot destructure property of null'')
      | _ \<Rightarrow> (case field ''xdr'' answer of
               Some (JStr xdr) \<Rightarrow> signTransaction (fe_ext env) (fe_mock env) xdr (sign_network env)
             | other \<Rightarrow> fe_sign_odd env other))"

text \<open>\<open>refused\<close> is the error a flow makes of an answer that is not ok.\<close>

definition post_sign_submit ::
  "flow_env \<Rightarrow> (web_response \<Rightarrow> js_error) \<Rightarrow> string \<Rightarrow> json \<Rightarrow> js_error + string" where
  "post_sign_submit env refused path body =
     bind_r (fe_web env (json_post path body)) (\<lambda>res.
       if \<not> wr_ok res then Inl (refused res)
       else bind_r (wr_json res) (\<lambda>answer.
            bind_r (sign_answer env answer) (submitSignedXdr (fe_mock env) (fe_submit env))))"

text \<open>\<open>throw new Error((await res.json()).error || d)\<close>.\<close>

definition server_message :: "flow_env \<Rightarrow> string \<Rightarrow> web_response \<Rightarrow> js_error" where
  "server_message env d res =
     (case wr_json res of
        Inl e \<Rightarrow> e
      | Inr JNull \<Rightarrow> JsError ''TypeError'' ''Cannot read properties of null''
      | Inr answer \<Rightarrow> JsError ''Error'' (case field ''error'' answer of
            Some v \<Rightarrow> if truthy (Some v) then (case v of JStr s \<Rightarrow> s | _ \<Rightarrow> fe_text env v) else d
          | None \<Rightarrow> d))"

subsection \<open>Waiting out a rate limit (useFetchWithRateLimit.ts)\<close>

text \<open>The seconds the hook waits after an answer, \<open>None\<close> when the answer is no 429.\<close>

definition retry_seconds :: "web_response \<Rightarrow> rat option" where
  "retry_seconds res =
     (if wr_status res \<noteq> 429 then None
      else Some (case truthy_str (map_of (wr_headers res) ''retry-after'') of
                   None \<Rightarrow> 60
                 | Some h \<Rightarrow> (case parse_int h of None \<Rightarrow> 60 | Some n \<Rightarrow> n)))"

text \<open>
  The countdown shown and whether its timer runs. A tick of the timer subtracts one and stops the timer at
  zero or below.
\<close>

record countdown =
  cd_shown :: rat
  cd_timer :: bool

definition startCountdown :: "rat \<Rightarrow> countdown \<Rightarrow> countdown" where
  "startCountdown seconds c = \<lparr>cd_shown = seconds, cd_timer = True\<rparr>"

definition countdown_tick :: "countdown \<Rightarrow> countdown" where
  "countdown_tick c =
     (if \<not> cd_timer c then c
      else (let remaining = js_sub (cd_shown c) 1 in \<lparr>cd_shown = remaining, cd_timer = 0 < remaining\<rparr>))"

definition isRateLimited :: "countdown \<Rightarrow> bool" where "isRateLimited c \<longleftrightarrow> 0 < cd_shown c"

definition fetchWithLimit :: "web \<Rightarrow> request \<Rightarrow> countdown \<Rightarrow> (js_error + web_response) \<times> countdown" where
  "fetchWithLimit w req c =
     (let answer = w req in
      (answer, case answer of
         Inl _ \<Rightarrow> c
       | Inr res \<Rightarrow> (case retry_seconds res of None \<Rightarrow> c | Some s \<Rightarrow> startCountdown s c)))"

subsection \<open>The fields of LoanForm.tsx\<close>

definition validateCount :: "string \<Rightarrow> string option" where
  "validateCount v =
     (if trim v = [] then Some ''Count is required.''
      else let n = js_Number v in
        if \<not> num_is_integer n \<or> num_less n (Fin 1) then Some ''Count must be a whole number of at least 1.''
        else if num_less (Fin 10000) n then Some ''Count cannot exceed 10,000.''
        else None)"

definition validateAppraisedValue :: "string \<Rightarrow> string option" where
  "validateAppraisedValue v =
     (if trim v = [] then Some ''Appraised value is required.''
      else let n = js_Number v in
        if \<not> num_is_finite n \<or> num_le n (Fin 0) then Some ''Appraised value must be a positive number.''
        else if \<not> num_is_integer n then Some ''Appraised value must be a whole number of stroops.''
        else None)"

definition validateCollateralId :: "string \<Rightarrow> string option" where
  "validateCollateralId v =
     (if trim v = [] then Some ''Collateral ID is required.''
      else let n = js_Number v in
        if \<not> num_is_integer n \<or> num_less n (Fin 1) then Some ''Collateral ID must be a positive integer.''
        else None)"

definition validateLoanAmount :: "string \<Rightarrow> string option" where
  "validateLoanAmount v =
     (if trim v = [] then Some ''Loan amount is required.''
      else let n = js_Number v in
        if \<not> num_is_finite n \<or> num_le n (Fin 0) then Some ''Loan amount must be a positive number.''
        else if \<not> num_is_integer n then Some ''Loan amount must be a whole number of stroops.''
        else if num_less n (Fin 1000) then Some ''Loan amount must be at least 1,000 stroops.''
        else None)"

text \<open>The bodies of its two requests.\<close>

definition register_body :: "string \<Rightarrow> string \<Rightarrow> string \<Rightarrow> string \<Rightarrow> json" where
  "register_body walletAddress animalType n appraisedValue =
     JObj [(''owner'', JStr walletAddress), (''animal_type'', JStr animalType),
           (''count'', num_json (parseInt n)), (''appraised_value'', num_json (parseInt appraisedValue))]"

definition request_body :: "string \<Rightarrow> string \<Rightarrow> string \<Rightarrow> json" where
  "request_body walletAddress collateralId loanAmount =
     JObj [(''borrower'', JStr walletAddress), (''collateral_id'', num_json (parseInt collateralId)),
           (''amount'', num_json (parseInt loanAmount))]"


subsection \<open>LoanForm.tsx\<close>

datatype toast_variant = ToastSuccess | ToastError | ToastWarning | ToastInfo

type_synonym notice = "toast_variant \<times> string"

datatype loan_form_step = CollateralStep | LoanStep

record loan_form =
  fm_step :: loan_form_step
  fm_animalType :: string
  fm_count :: string
  fm_appraisedValue :: string
  fm_collateralId :: string
  fm_loanAmount :: string
  fm_loading :: bool
  fm_limit :: countdown
  fm_notices :: "notice list"

definition open_loan_form :: "string option \<Rightarrow> loan_form" where
  "open_loan_form initialCollateralId =
     \<lparr>fm_step = (if truthy_str initialCollateralId = None then CollateralStep else LoanStep), fm_animalType = ''cattle'',
      fm_count = [], fm_appraisedValue = [],
      fm_collateralId = (case initialCollateralId of None \<Rightarrow> [] | Some i \<Rightarrow> i), fm_loanAmount = [],
      fm_loading = False, fm_limit = \<lparr>cd_shown = 0, cd_timer = False\<rparr>, fm_notices = []\<rparr>"

text \<open>\<open>touchAll\<close> calls \<open>setTouched\<close>, which the file nowhere defines.\<close>

definition touchAll :: "string list \<Rightarrow> loan_form \<Rightarrow> js_error + loan_form" where
  "touchAll names f = Inl (reference_error ''setTouched'')"

definition collateralHasErrors :: "loan_form \<Rightarrow> bool" where
  "collateralHasErrors f \<longleftrightarrow> validateCount (fm_count f) \<noteq> None \<or> validateAppraisedValue (fm_appraisedValue f) \<noteq> None"

definition loanHasErrors :: "loan_form \<Rightarrow> bool" where
  "loanHasErrors f \<longleftrightarrow> validateCollateralId (fm_collateralId f) \<noteq> None \<or> validateLoanAmount (fm_loanAmount f) \<noteq> None"

text \<open>The countdown and the warning a refused request leaves, as the fetch of the hook leaves them.\<close>

definition with_limit :: "flow_env \<Rightarrow> request \<Rightarrow> loan_form \<Rightarrow> loan_form" where
  "with_limit env req f =
     (case fst (fetchWithLimit (fe_web env) req (fm_limit f)) of
        Inr res \<Rightarrow> (case retry_seconds res of
            None \<Rightarrow> f
          | Some s \<Rightarrow> f\<lparr>fm_limit := snd (fetchWithLimit (fe_web env) req (fm_limit f)),
              fm_notices := fm_notices f @ [(ToastWarning,
                ''Too many requests '' @ [char_of (226::nat), char_of (128::nat), char_of (147::nat)] @
                '' try again in '' @ fe_text env (JNum s) @ '' seconds'')]\<rparr>)
      | Inl _ \<Rightarrow> f)"

definition form_registerCollateral :: "flow_env \<Rightarrow> string \<Rightarrow> loan_form \<Rightarrow> js_error option \<times> loan_form" where
  "form_registerCollateral env walletAddress f =
     (case touchAll [''count'', ''appraisedValue''] f of
        Inl e \<Rightarrow> (Some e, f)
      | Inr f1 \<Rightarrow>
          if collateralHasErrors f1 then (None, f1)
          else
            (let body = register_body walletAddress (fm_animalType f1) (fm_count f1) (fm_appraisedValue f1);
                 path = ''/api/collateral/register''; f2 = with_limit env (json_post path body) f1 in
             (None, case post_sign_submit env (server_message env ''Registration failed'') path body of
                Inr result \<Rightarrow> f2\<lparr>fm_notices := fm_notices f2 @ [(ToastSuccess, ''Collateral registered! ID: '' @ result)],
                    fm_step := LoanStep, fm_loading := False\<rparr>
              | Inl e \<Rightarrow> f2\<lparr>fm_notices := fm_notices f2 @ [(ToastError, err_message e)], fm_loading := False\<rparr>)))"

definition form_requestLoan :: "flow_env \<Rightarrow> string \<Rightarrow> loan_form \<Rightarrow> js_error option \<times> loan_form" where
  "form_requestLoan env walletAddress f =
     (case touchAll [''collateralId'', ''loanAmount''] f of
        Inl e \<Rightarrow> (Some e, f)
      | Inr f1 \<Rightarrow>
          if loanHasErrors f1 then (None, f1)
          else
            (let body = request_body walletAddress (fm_collateralId f1) (fm_loanAmount f1);
                 path = ''/api/loan/request''; f2 = with_limit env (json_post path body) f1 in
             (None, case post_sign_submit env (server_message env ''Loan request failed'') path body of
                Inr result \<Rightarrow> f2\<lparr>fm_notices := fm_notices f2 @ [(ToastSuccess, ''Loan disbursed! Loan ID: '' @ result)],
                    fm_loading := False\<rparr>
              | Inl e \<Rightarrow> f2\<lparr>fm_notices := fm_notices f2 @ [(ToastError, err_message e)], fm_loading := False\<rparr>)))"

subsection \<open>RepayPanel.tsx\<close>

record repay_panel =
  rp_loanId :: string
  rp_amount :: string
  rp_loading :: bool
  rp_notices :: "notice list"

definition repay_body :: "string \<Rightarrow> repay_panel \<Rightarrow> json" where
  "repay_body walletAddress p =
     JObj [(''borrower'', JStr walletAddress), (''loan_id'', num_json (parseInt (rp_loanId p))),
           (''amount'', num_json (parseInt (rp_amount p)))]"

text \<open>The message of an empty error is replaced.\<close>

definition repay :: "flow_env \<Rightarrow> string \<Rightarrow> repay_panel \<Rightarrow> repay_panel" where
  "repay env walletAddress p =
     (case post_sign_submit env (server_message env ''Repayment failed'') ''/api/loan/repay'' (repay_body walletAddress p) of
        Inr _ \<Rightarrow> p\<lparr>rp_loanId := [], rp_amount := [], rp_loading := False,
          rp_notices := rp_notices p @ [(ToastSuccess, ''Repayment submitted successfully!'')]\<rparr>
      | Inl e \<Rightarrow> p\<lparr>rp_loading := False, rp_notices := rp_notices p @ [(ToastError,
          case truthy_str (Some (err_message e)) of
            None \<Rightarrow> ''Something went wrong. Please try again.'' | Some m \<Rightarrow> m)]\<rparr>)"

subsection \<open>CollateralRegistrationForm.tsx\<close>

text \<open>A chosen file has a media type and a size; one restored from saved JSON is an empty object.\<close>

datatype form_image = NoImage | ImageFile string nat | ImageObject

record FormData =
  fd_animalType :: string
  fd_quantity :: string
  fd_weight :: string
  fd_healthStatus :: string
  fd_location :: string
  fd_appraisedValue :: string
  fd_breed :: string
  fd_age :: string
  fd_image :: form_image

definition empty_form :: FormData where
  "empty_form = \<lparr>fd_animalType = ''cattle'', fd_quantity = [], fd_weight = [], fd_healthStatus = ''good'',
     fd_location = [], fd_appraisedValue = [], fd_breed = [], fd_age = [], fd_image = NoImage\<rparr>"

definition positive_error :: "js_num \<Rightarrow> string \<Rightarrow> string option" where
  "positive_error n msg = (if n = NaN \<or> num_le n (Fin 0) then Some msg else None)"

text \<open>\<open>validateField\<close> on the fields that are text; the others are never wrong.\<close>

definition validate_text :: "string \<Rightarrow> string \<Rightarrow> string option" where
  "validate_text name v =
     (if name = ''breed'' then
        if trim v = [] then Some ''Breed is required''
        else if length (trim v) < 2 then Some ''Breed must be at least 2 characters'' else None
      else if name = ''age'' then
        if trim v = [] then Some ''Age is required''
        else if parseInt v = NaN \<or> num_less (parseInt v) (Fin 0) then Some ''Age must be a valid number'' else None
      else if name = ''quantity'' then
        if v = [] then Some ''Quantity is required''
        else positive_error (parseInt v) ''Quantity must be a positive number''
      else if name = ''weight'' then
        if v = [] then Some ''Estimated weight is required''
        else positive_error (parseFloat v) ''Weight must be a positive number''
      else if name = ''location'' then
        if trim v = [] then Some ''Location is required''
        else if length (trim v) < 3 then Some ''Location must be at least 3 characters'' else None
      else if name = ''appraisedValue'' then
        if v = [] then Some ''Appraised value is required''
        else positive_error (parseInt v) ''Appraised value must be a positive number''
      else None)"

definition validate_image :: "form_image \<Rightarrow> string option" where
  "validate_image img =
     (case img of
        NoImage \<Rightarrow> Some ''Image is required''
      | ImageFile media_type sz \<Rightarrow>
          if media_type \<notin> set [''image/jpeg'', ''image/png'', ''image/webp'', ''image/gif'']
          then Some ''Only image files are allowed (JPEG, PNG, WebP, GIF)''
          else if 5 * 1024 * 1024 < sz then Some ''Image must be smaller than 5MB'' else None
      | ImageObject \<Rightarrow> None)"

text \<open>The errors of a form in the order of its fields.\<close>

definition form_errors :: "FormData \<Rightarrow> (string \<times> string) list" where
  "form_errors d =
     concat (map (\<lambda>(k, e). case e of None \<Rightarrow> [] | Some m \<Rightarrow> [(k, m)])
       (map (\<lambda>(k, v). (k, validate_text k v))
          [(''animalType'', fd_animalType d), (''quantity'', fd_quantity d), (''weight'', fd_weight d),
           (''healthStatus'', fd_healthStatus d), (''location'', fd_location d),
           (''appraisedValue'', fd_appraisedValue d), (''breed'', fd_breed d), (''age'', fd_age d)] @
        [(''image'', validate_image (fd_image d))]))"




text \<open>The draft kept in \<open>localStorage\<close>: \<open>JSON.stringify\<close> leaves an empty object of a file.\<close>

definition saved_image :: "form_image \<Rightarrow> form_image" where
  "saved_image img = (case img of NoImage \<Rightarrow> NoImage | _ \<Rightarrow> ImageObject)"

record draft =
  dr_walletAddress :: string
  dr_data :: FormData

record registration =
  rg_data :: FormData
  rg_errors :: "(string \<times> string) list"
  rg_loading :: bool
  rg_showRestorePrompt :: bool
  rg_showConfirm :: bool
  rg_imagePreview :: "string option"
  rg_status :: "string option"
  rg_notices :: "notice list"
  rg_stored :: "draft option"

definition open_registration :: "string \<Rightarrow> draft option \<Rightarrow> registration" where
  "open_registration walletAddress stored =
     \<lparr>rg_data = empty_form, rg_errors = [], rg_loading = False,
      rg_showRestorePrompt = (case stored of None \<Rightarrow> False | Some d \<Rightarrow> dr_walletAddress d = walletAddress),
      rg_showConfirm = False, rg_imagePreview = None, rg_status = None, rg_notices = [], rg_stored = stored\<rparr>"

text \<open>One round of the timer that saves the draft.\<close>

definition auto_save :: "string \<Rightarrow> registration \<Rightarrow> registration" where
  "auto_save walletAddress r =
     (let d = rg_data r in
      if fd_quantity d \<noteq> [] \<or> fd_weight d \<noteq> [] \<or> fd_location d \<noteq> [] \<or> fd_appraisedValue d \<noteq> []
      then r\<lparr>rg_stored := Some \<lparr>dr_walletAddress = walletAddress, dr_data = d\<lparr>fd_image := saved_image (fd_image d)\<rparr>\<rparr>\<rparr>
      else r)"

definition restoreSavedData :: "registration \<Rightarrow> registration" where
  "restoreSavedData r =
     (case rg_stored r of None \<Rightarrow> r | Some d \<Rightarrow> r\<lparr>rg_data := dr_data d, rg_showRestorePrompt := False\<rparr>)"

definition dismissRestore :: "registration \<Rightarrow> registration" where
  "dismissRestore r = r\<lparr>rg_showRestorePrompt := False, rg_stored := None\<rparr>"

text \<open>A change of a field sets or clears its error at once.\<close>

fun set_text :: "string \<Rightarrow> string \<Rightarrow> FormData \<Rightarrow> FormData" where
  "set_text name v d =
     (if name = ''animalType'' then d\<lparr>fd_animalType := v\<rparr>
      else if name = ''quantity'' then d\<lparr>fd_quantity := v\<rparr>
      else if name = ''weight'' then d\<lparr>fd_weight := v\<rparr>
      else if name = ''healthStatus'' then d\<lparr>fd_healthStatus := v\<rparr>
      else if name = ''location'' then d\<lparr>fd_location := v\<rparr>
      else if name = ''appraisedValue'' then d\<lparr>fd_appraisedValue := v\<rparr>
      else if name = ''breed'' then d\<lparr>fd_breed := v\<rparr>
      else if name = ''age'' then d\<lparr>fd_age := v\<rparr> else d)"

definition put_error :: "string \<Rightarrow> string option \<Rightarrow> (string \<times> string) list \<Rightarrow> (string \<times> string) list" where
  "put_error name e errs = (case e of None \<Rightarrow> m_delete name errs | Some m \<Rightarrow> m_set name m errs)"

definition handleChange :: "string \<Rightarrow> string \<Rightarrow> registration \<Rightarrow> registration" where
  "handleChange name v r =
     r\<lparr>rg_data := set_text name v (rg_data r), rg_errors := put_error name (validate_text name v) (rg_errors r)\<rparr>"

text \<open>\<open>preview\<close> is the data URL the reader of the file ends with.\<close>

definition handleImageChange :: "(string \<times> nat) option \<Rightarrow> string \<Rightarrow> registration \<Rightarrow> registration" where
  "handleImageChange file preview r =
     (let img = (case file of None \<Rightarrow> NoImage | Some (t, n) \<Rightarrow> ImageFile t n) in
      r\<lparr>rg_data := (rg_data r)\<lparr>fd_image := img\<rparr>, rg_errors := put_error ''image'' (validate_image img) (rg_errors r),
        rg_imagePreview := (case file of None \<Rightarrow> None | Some _ \<Rightarrow> Some preview)\<rparr>)"

definition handleSubmit :: "registration \<Rightarrow> registration" where
  "handleSubmit r =
     (let errs = form_errors (rg_data r) in
      if errs \<noteq> [] then r\<lparr>rg_errors := errs\<rparr> else r\<lparr>rg_errors := [], rg_showConfirm := True\<rparr>)"

text \<open>The confirmed submission; \<open>onSuccess\<close> gets the second part.\<close>

definition registerCollateral_v1 :: "flow_env \<Rightarrow> string \<Rightarrow> registration \<Rightarrow> registration \<times> string option" where
  "registerCollateral_v1 env walletAddress r =
     (let d = rg_data r in
      case post_sign_submit env (server_message env ''Registration failed'') ''/api/v1/collateral/register''
             (register_body walletAddress (fd_animalType d) (fd_quantity d) (fd_appraisedValue d)) of
        Inr result \<Rightarrow>
          (r\<lparr>rg_notices := rg_notices r @ [(ToastSuccess, ''Collateral registered successfully! ID: '' @ result)],
             rg_stored := None, rg_data := empty_form, rg_imagePreview := None, rg_errors := [], rg_loading := False\<rparr>,
           Some result)
      | Inl e \<Rightarrow>
          (r\<lparr>rg_notices := rg_notices r @ [(ToastError,
               case truthy_str (Some (err_message e)) of None \<Rightarrow> ''Registration failed'' | Some m \<Rightarrow> m)],
             rg_status := Some (''error:'' @ err_message e), rg_loading := False\<rparr>, None))"

subsection \<open>Facts about the flow\<close>

text \<open>What a submission answers is the hash of a transaction the server reports successful, and the
  request that prepared it was answered with a status of the two hundreds.\<close>

lemma post_sign_submit_Inr:
  "post_sign_submit env refused path body = Inr h \<Longrightarrow>
   \<exists>res answer signed. fe_web env (json_post path body) = Inr res \<and> wr_ok res \<and> wr_json res = Inr answer \<and>
     sign_answer env answer = Inr signed \<and> submitSignedXdr (fe_mock env) (fe_submit env) signed = Inr h"
  by (auto simp: post_sign_submit_def bind_r_Inr split: if_splits)

lemma post_sign_submit_refused:
  "fe_web env (json_post path body) = Inr res \<Longrightarrow> \<not> wr_ok res \<Longrightarrow>
   post_sign_submit env refused path body = Inl (refused res)"
  by (simp add: post_sign_submit_def)

text \<open>The backend's middleware in front of any handler.\<close>

definition behind_jwt :: "crypto \<Rightarrow> auth_config \<Rightarrow> int \<Rightarrow> api_keys \<Rightarrow> web \<Rightarrow> web" where
  "behind_jwt cr cfg now keys inner req =
     (case jwtMiddleware cr cfg now keys req of Reject r \<Rightarrow> Inr (of_response r) | Proceed req' \<Rightarrow> inner req')"

lemma jwt_refuses_post:
  "\<not> starts_with ''/api/auth/'' path \<Longrightarrow>
   behind_jwt cr cfg now keys inner (json_post path body) =
   Inr (of_response (respond 401 (error_body ''Authorization header required'')))"
  by (simp add: behind_jwt_def jwtMiddleware_def json_post_def is_mutating_def header_def)

lemma paths_not_auth:
  "\<not> starts_with ''/api/auth/'' ''/api/loan/repay''" "\<not> starts_with ''/api/auth/'' ''/api/v1/collateral/register''"
  "\<not> starts_with ''/api/auth/'' ''/api/loan/request''" "\<not> starts_with ''/api/auth/'' ''/api/collateral/register''"
  by code_simp+

lemma flow_behind_jwt:
  assumes "fe_web env = behind_jwt cr cfg now keys inner" "\<not> starts_with ''/api/auth/'' path"
  shows "post_sign_submit env (server_message env d) path body =
    Inl (JsError ''Error'' ''Authorization header required'')"
proof -
  let ?res = "of_response (respond 401 (error_body ''Authorization header required''))"
  have "fe_web env (json_post path body) = Inr ?res" using assms jwt_refuses_post by simp
  moreover have "\<not> wr_ok ?res" by (simp add: wr_ok_def of_response_def)
  ultimately have "post_sign_submit env (server_message env d) path body = Inl (server_message env d ?res)"
    by (rule post_sign_submit_refused)
  then show ?thesis by (simp add: server_message_def of_response_def error_body_def)
qed

text \<open>C27: The forms send no credentials, so behind the backend's middleware neither a repayment nor a
  registration ever gets to a transaction: both end with the message that the header is missing.\<close>

theorem forms_refused_by_backend:
  assumes "fe_web env = behind_jwt cr cfg now keys inner"
  shows "repay env wallet p = p\<lparr>rp_loading := False,
      rp_notices := rp_notices p @ [(ToastError, ''Authorization header required'')]\<rparr> \<and>
    registerCollateral_v1 env wallet r = (r\<lparr>rg_notices := rg_notices r @ [(ToastError, ''Authorization header required'')],
      rg_status := Some ''error:Authorization header required'', rg_loading := False\<rparr>, None)"
  using flow_behind_jwt [OF assms paths_not_auth(1)] flow_behind_jwt [OF assms paths_not_auth(2)]
  by (simp_all add: repay_def registerCollateral_v1_def Let_def)


theorem forms_refused_by_backend_witness:
  "rp_notices (repay \<lparr>fe_web = behind_jwt toy_crypto toy_config 0 [] (\<lambda>_. Inl (type_error ''inner'')),
       fe_ext = \<lparr>ex_isConnected = Inr True, ex_isAllowed = Inr True, ex_setAllowed = Inr True, ex_getAddress = Inr ''GA'',
         ex_signTransaction = \<lambda>x _ _. Inr x\<rparr>, fe_mock = None,
       fe_submit = \<lparr>sb_fromXDR = Inr, sb_sendTransaction = \<lambda>_. Inl (type_error ''send''), sb_getTransaction = \<lambda>_ _. Inr ''SUCCESS''\<rparr>,
       fe_network = None, fe_sign_odd = \<lambda>_. Inl (type_error ''sign''), fe_text = \<lambda>_. []\<rparr> ''GA''
     \<lparr>rp_loanId = ''1'', rp_amount = ''5'', rp_loading = True, rp_notices = []\<rparr>) =
   [(ToastError, ''Authorization header required'')]"
  by (subst forms_refused_by_backend [THEN conjunct1]) simp_all

lemma loan_form_throws:
  "form_registerCollateral env wallet f = (Some (reference_error ''setTouched''), f)"
  "form_requestLoan env wallet f = (Some (reference_error ''setTouched''), f)"
  by (simp_all add: form_registerCollateral_def form_requestLoan_def touchAll_def)

text \<open>An amount with an exponent passes the check as what it means and is sent as its first digits.\<close>

lemma exponent_misread:
  "validateLoanAmount ''1e3'' = None"
  "request_body ''G'' ''1'' ''1e3'' =
     JObj [(''borrower'', JStr ''G''), (''collateral_id'', JNum 1), (''amount'', JNum 1)]"
proof -
  have "trim ''1e3'' = ''1e3''" "to_lower (take 2 ''1e3'') = ''1e''" by code_simp+
  moreover have "exponent ''e3'' = Some 3" by (simp add: starts_with_def is_digit_def code_def digits_val_def digit_val_def)
  then have "unsigned_decimal ''1e3'' = Fin (fl 1000)"
    by (simp add: unsigned_decimal_def Let_def is_digit_def code_def starts_with_def digits_val_def digit_val_def ten_pow_def)
  ultimately have "js_Number ''1e3'' = Fin 1000"
    using fl_of_int [of 1000] by (simp add: js_Number_def unsigned_number_def Let_def)
  then show "validateLoanAmount ''1e3'' = None"
    using \<open>trim ''1e3'' = ''1e3''\<close> is_integer_of_int [of 1000] by (simp add: validateLoanAmount_def Let_def num_le_def)
  have "parseInt ''1'' = Fin 1" using parseInt_digits [of "''1''"]
    by (simp add: all_digits_def is_digit_def code_def digits_val_def digit_val_def)
  moreover have "parseInt ''1e3'' = Fin 1" using fl_of_int [of 1]
    by (simp add: parseInt_def parse_int_def Let_def trim_start_def is_space_def starts_with_def is_digit_def code_def
        to_lower_def to_lower_char_def digits_val_def digit_val_def)
  ultimately show "request_body ''G'' ''1'' ''1e3'' =
     JObj [(''borrower'', JStr ''G''), (''collateral_id'', JNum 1), (''amount'', JNum 1)]"
    by (simp add: request_body_def)
qed

text \<open>A restored draft has lost its image and passes the check of it.\<close>

lemma restored_image_passes:
  "validate_image (saved_image (ImageFile media_type sz)) = None"
  by (simp add: validate_image_def saved_image_def)

text \<open>A draft is restored as it was typed.\<close>

lemma draft_roundtrip:
  assumes "fd_quantity (rg_data r) \<noteq> []"
  shows "rg_data (restoreSavedData (open_registration w (rg_stored (auto_save w r)))) =
      (rg_data r)\<lparr>fd_image := saved_image (fd_image (rg_data r))\<rparr>"
    and "rg_showRestorePrompt (open_registration w (rg_stored (auto_save w r)))"
  using assms by (simp_all add: auto_save_def Let_def restoreSavedData_def open_registration_def)

lemma form_error_free:
  "form_errors d = [] \<Longrightarrow> validate_text ''quantity'' (fd_quantity d) = None \<and>
     validate_text ''appraisedValue'' (fd_appraisedValue d) = None"
  by (auto simp: form_errors_def split: option.splits)

lemma positive_error_None: "positive_error n msg = None \<longleftrightarrow> num_less (Fin 0) n"
  by (cases n) (auto simp: positive_error_def num_le_def)

lemma zod_positive_of_int:
  "1 \<le> n \<Longrightarrow> zod_positive (JNum (of_int n)) = (if n \<le> 2 ^ 53 - 1 then Some n else None)"
  by (auto simp: zod_positive_def zod_int_def safe_int_def)

text \<open>C28: A registration form without errors is one the backend takes: its quantity and value are whole
  positive numbers, and the schema of the route accepts the body with exactly these, but for a key or a
  number that is out of range.\<close>

theorem valid_registration_accepted:
  assumes "form_errors d = []" "fd_animalType d \<noteq> []"
  shows "\<exists>n v. parseInt (fd_quantity d) = Fin (of_int n) \<and> parseInt (fd_appraisedValue d) = Fin (of_int v) \<and> 1 \<le> n \<and> 1 \<le> v \<and>
    registerCollateralSchema valid_key (register_body w (fd_animalType d) (fd_quantity d) (fd_appraisedValue d)) =
      (if stellarPublicKeySchema valid_key (JStr w) = Some w \<and> n \<le> 2 ^ 53 - 1 \<and> v \<le> 2 ^ 53 - 1
       then Some \<lparr>rc_owner = w, rc_animal_type = fd_animalType d, rc_count = n, rc_appraised_value = v\<rparr> else None)"
proof -
  have "num_less (Fin 0) (parseInt (fd_quantity d))" "num_less (Fin 0) (parseInt (fd_appraisedValue d))"
    using form_error_free [OF assms(1)] by (simp_all add: validate_text_def positive_error_None split: if_splits)
  then obtain n v where nv: "parseInt (fd_quantity d) = Fin (of_int n)" "1 \<le> n"
    "parseInt (fd_appraisedValue d) = Fin (of_int v)" "1 \<le> v" by (metis parseInt_positive)
  have key: "stellarPublicKeySchema valid_key (JStr w) = None \<or> stellarPublicKeySchema valid_key (JStr w) = Some w"
    by (simp add: stellarPublicKeySchema_def)
  have "registerCollateralSchema valid_key (register_body w (fd_animalType d) (fd_quantity d) (fd_appraisedValue d)) =
      (if stellarPublicKeySchema valid_key (JStr w) = Some w \<and> n \<le> 2 ^ 53 - 1 \<and> v \<le> 2 ^ 53 - 1
       then Some \<lparr>rc_owner = w, rc_animal_type = fd_animalType d, rc_count = n, rc_appraised_value = v\<rparr> else None)"
    using nv key assms(2)
    by (auto simp: registerCollateralSchema_def register_body_def required_def zod_string_def min_length_def
        zod_positive_of_int Suc_le_eq)
  with nv show ?thesis by blast
qed



definition sample_form :: FormData where
  "sample_form = \<lparr>fd_animalType = ''goat'', fd_quantity = ''12'', fd_weight = ''40'', fd_healthStatus = ''good'',
     fd_location = ''Garissa'', fd_appraisedValue = ''90000'', fd_breed = ''Galla'', fd_age = ''3'',
     fd_image = ImageFile ''image/png'' 1000\<rparr>"

lemma sample_numbers:
  "parseInt ''12'' = Fin 12" "parseInt ''90000'' = Fin 90000" "parseInt ''3'' = Fin 3" "parseFloat ''40'' = Fin (fl 40)"
proof -
  have "all_digits ''12'' \<and> digits_val ''12'' = 12" "all_digits ''90000'' \<and> digits_val ''90000'' = 90000"
    "all_digits ''3'' \<and> digits_val ''3'' = 3"
    by (simp_all add: all_digits_def is_digit_def code_def digits_val_def digit_val_def)
  then show "parseInt ''12'' = Fin 12" "parseInt ''90000'' = Fin 90000" "parseInt ''3'' = Fin 3"
    by (simp_all add: parseInt_digits)
  show "parseFloat ''40'' = Fin (fl 40)"
    by (simp add: parseFloat_def decimal_prefix_def exponent_prefix_def Let_def trim_start_def is_space_def starts_with_def
        is_digit_def code_def digits_val_def digit_val_def ten_pow_def)
qed

lemma sample_form_valid: "form_errors sample_form = []" "fd_animalType sample_form \<noteq> []"
proof -
  have "trim ''Garissa'' = ''Garissa''" "trim ''Galla'' = ''Galla''" "trim ''3'' = ''3''" by code_simp+
  then show "form_errors sample_form = []"
    by (simp add: form_errors_def sample_form_def validate_text_def validate_image_def positive_error_def num_le_def
        sample_numbers)
qed (simp add: sample_form_def)

theorem valid_registration_accepted_witness:
  "\<exists>n v. parseInt ''12'' = Fin (of_int n) \<and> parseInt ''90000'' = Fin (of_int v)"
proof -
  have "fd_quantity sample_form = ''12''" "fd_appraisedValue sample_form = ''90000''" by (simp_all add: sample_form_def)
  with valid_registration_accepted [OF sample_form_valid, of "\<lambda>_. True" "''G''"] show ?thesis by metis
qed

end
