(* ===== verification/Loan_Wizard.thy ===== *)
theory Loan_Wizard
  imports Contract_Flow
begin

section \<open>The loan wizard (frontend/src/context/LoanWizardContext.tsx and components/wizard)\<close>

text \<open>
  The four steps of a loan request: the context that holds the fields, the amount step with its limit of
  70 % of the collateral, the review, and the confirmation that sends the request. The first step's
  component (StepCollateral.tsx) does not parse at this commit; what it may do through the context is in
  the step relation, its own code is not modelled. The theorems: nobody gets past the amount with more
  than 70 % of the value, the review and the confirmation agree on the fee, and what the confirmation
  sends is what the backend's schema takes.
\<close>

subsection \<open>The context\<close>

text \<open>\<open>defaults\<close> has no \<open>collaterals\<close>, although the type of the state asks for them.\<close>

record WizardState =
  ws_animalType :: string
  ws_count :: string
  ws_appraisedValue :: string
  ws_collateralId :: string
  ws_loanAmount :: string
  ws_loanTermDays :: string
  ws_step :: int
  ws_loading :: bool
  ws_error :: "string option"

definition defaults :: WizardState where
  "defaults = \<lparr>ws_animalType = ''cattle'', ws_count = [], ws_appraisedValue = [], ws_collateralId = [],
     ws_loanAmount = [], ws_loanTermDays = ''30'', ws_step = 1, ws_loading = False, ws_error = None\<rparr>"

datatype wizard_field =
    F_animalType string | F_count string | F_appraisedValue string | F_collateralId string
  | F_loanAmount string | F_loanTermDays string | F_step int | F_loading bool | F_error "string option"

fun setField :: "wizard_field \<Rightarrow> WizardState \<Rightarrow> WizardState" where
  "setField (F_animalType v) s = s\<lparr>ws_animalType := v\<rparr>"
| "setField (F_count v) s = s\<lparr>ws_count := v\<rparr>"
| "setField (F_appraisedValue v) s = s\<lparr>ws_appraisedValue := v\<rparr>"
| "setField (F_collateralId v) s = s\<lparr>ws_collateralId := v\<rparr>"
| "setField (F_loanAmount v) s = s\<lparr>ws_loanAmount := v\<rparr>"
| "setField (F_loanTermDays v) s = s\<lparr>ws_loanTermDays := v\<rparr>"
| "setField (F_step v) s = s\<lparr>ws_step := v\<rparr>"
| "setField (F_loading v) s = s\<lparr>ws_loading := v\<rparr>"
| "setField (F_error v) s = s\<lparr>ws_error := v\<rparr>"

definition canProceed :: "WizardState \<Rightarrow> bool" where
  "canProceed s =
     (if ws_step s = 1
      then ws_count s \<noteq> [] \<and> ws_appraisedValue s \<noteq> [] \<and> num_less (Fin 0) (parseInt (ws_count s)) \<and>
        num_less (Fin 0) (parseInt (ws_appraisedValue s))
      else if ws_step s = 2 then ws_loanAmount s \<noteq> [] \<and> num_less (Fin 0) (parseInt (ws_loanAmount s))
      else True)"

definition nextStep :: "WizardState \<Rightarrow> WizardState" where
  "nextStep s = (if canProceed s then s\<lparr>ws_step := min (ws_step s + 1) 4, ws_error := None\<rparr> else s)"

definition prevStep :: "WizardState \<Rightarrow> WizardState" where
  "prevStep s = s\<lparr>ws_step := max (ws_step s - 1) 1, ws_error := None\<rparr>"

definition reset :: "WizardState \<Rightarrow> WizardState" where "reset s = defaults"

text \<open>Mounting: the text kept in \<open>localStorage\<close>, when it parses, is the state.\<close>

definition wizard_mount :: "(string \<Rightarrow> js_error + WizardState) \<Rightarrow> string option \<Rightarrow> WizardState" where
  "wizard_mount parse saved =
     (case truthy_str saved of None \<Rightarrow> defaults | Some t \<Rightarrow> (case parse t of Inl _ \<Rightarrow> defaults | Inr s \<Rightarrow> s))"

subsection \<open>The amount (StepAmount.tsx)\<close>

definition TERM_OPTIONS :: "(string \<times> string) list" where
  "TERM_OPTIONS = [(''7'', ''2%''), (''30'', ''5%''), (''90'', ''12%''), (''180'', ''20%'')]"

definition maxLoan :: "string \<Rightarrow> js_num" where
  "maxLoan appraisedValue =
     (if appraisedValue = [] then Fin 0 else num_floor (num_mul (parseInt appraisedValue) (Fin (fl (7 / 10)))))"

text \<open>The shown numbers, as what their texts read back as.\<close>

definition ltv :: "WizardState \<Rightarrow> js_num" where
  "ltv s =
     (let m = maxLoan (ws_appraisedValue s) in
      if ws_loanAmount s \<noteq> [] \<and> num_truthy m
      then num_to_fixed 1 (num_mul (num_div (parseInt (ws_loanAmount s)) m) (Fin 70)) else Fin 0)"

definition wizard_health :: "WizardState \<Rightarrow> js_num option" where
  "wizard_health s =
     (if ws_loanAmount s \<noteq> [] \<and> ws_appraisedValue s \<noteq> []
      then Some (num_to_fixed 2 (num_div (num_div (parseInt (ws_appraisedValue s)) (parseInt (ws_loanAmount s)))
             (Fin (3 / 2))))
      else None)"

definition wizard_healthColor :: "WizardState \<Rightarrow> string" where
  "wizard_healthColor s =
     (case wizard_health s of
        None \<Rightarrow> ''text-brown/40''
      | Some h \<Rightarrow> if num_le (Fin (3 / 2)) h then ''text-green-600''
                  else if num_le (Fin 1) h then ''text-yellow-600'' else ''text-red-600'')"

definition ltv_bar :: "WizardState \<Rightarrow> string" where
  "ltv_bar s = (if num_less (Fin 65) (ltv s) then ''bg-error'' else if num_less (Fin 50) (ltv s) then ''bg-warning''
     else ''bg-success'')"

text \<open>\<open>localeText\<close> is \<open>toLocaleString\<close>.\<close>

definition validate_amount :: "(js_num \<Rightarrow> string) \<Rightarrow> WizardState \<Rightarrow> string option" where
  "validate_amount localeText s =
     (let m = maxLoan (ws_appraisedValue s); a = parseInt (ws_loanAmount s) in
      if ws_loanAmount s = [] \<or> num_less a (Fin 1) then Some ''Please enter a loan amount.''
      else if num_less m a then Some (''Loan amount cannot exceed '' @ localeText m @ '' stroops (70% LTV).'')
      else None)"

definition handleNext :: "(js_num \<Rightarrow> string) \<Rightarrow> WizardState \<Rightarrow> WizardState" where
  "handleNext localeText s =
     (case validate_amount localeText s of
        Some err \<Rightarrow> setField (F_error (Some err)) s
      | None \<Rightarrow> nextStep (setField (F_error None) s))"

subsection \<open>The review and the confirmation (StepReview.tsx, StepConfirm.tsx)\<close>

definition TERM_RATES :: "string \<Rightarrow> string" where
  "TERM_RATES t = (case map_of TERM_OPTIONS t of None \<Rightarrow> ''5%'' | Some r \<Rightarrow> r)"

definition amount_or_0 :: "WizardState \<Rightarrow> js_num" where
  "amount_or_0 s = parseInt (if ws_loanAmount s = [] then ''0'' else ws_loanAmount s)"

definition review_fee :: "WizardState \<Rightarrow> js_num" where
  "review_fee s =
     (let rateNum = num_div (parseFloat (TERM_RATES (ws_loanTermDays s))) (Fin 100) in
      num_floor (num_mul (amount_or_0 s) rateNum))"

definition confirm_fee :: "WizardState \<Rightarrow> js_num" where
  "confirm_fee s =
     num_floor (num_div (num_mul (amount_or_0 s) (parseFloat (TERM_RATES (ws_loanTermDays s)))) (Fin 100))"

definition review_total :: "WizardState \<Rightarrow> js_num" where
  "review_total s = num_add (amount_or_0 s) (review_fee s)"

definition confirm_total :: "WizardState \<Rightarrow> js_num" where
  "confirm_total s = num_add (amount_or_0 s) (confirm_fee s)"

definition confirm_body :: "string \<Rightarrow> WizardState \<Rightarrow> json" where
  "confirm_body walletAddress s =
     JObj [(''borrower'', JStr walletAddress), (''collateral_id'', num_json (parseInt (ws_collateralId s))),
           (''amount'', num_json (parseInt (ws_loanAmount s))), (''term_days'', num_json (parseInt (ws_loanTermDays s)))]"

text \<open>useButtonState.ts: what the submit button shows, and when it goes idle again.\<close>

datatype button_state = ButtonIdle | ButtonLoading | ButtonSuccess | ButtonError

fun button_reset_ms :: "button_state \<Rightarrow> int option" where
  "button_reset_ms ButtonSuccess = Some 2000" | "button_reset_ms ButtonError = Some 3000" | "button_reset_ms _ = None"

record confirmation =
  cn_loanId :: "string option"
  cn_button :: button_state
  cn_invalidated :: bool

definition handleConfirm :: "flow_env \<Rightarrow> string \<Rightarrow> WizardState \<times> confirmation \<Rightarrow> WizardState \<times> confirmation" where
  "handleConfirm env walletAddress sc =
     (let s = setField (F_error None) (fst sc); c = (snd sc)\<lparr>cn_button := ButtonLoading\<rparr> in
      case post_sign_submit env (\<lambda>_. JsError ''Error'' ''Loan request failed. Please try again.'')
             ''/api/loan/request'' (confirm_body walletAddress s) of
        Inr result \<Rightarrow> (s, c\<lparr>cn_loanId := Some result, cn_button := ButtonSuccess, cn_invalidated := True\<rparr>)
      | Inl e \<Rightarrow> (setField (F_error (Some (err_message e))) s, c\<lparr>cn_button := ButtonError\<rparr>))"

subsection \<open>The course of a request\<close>

text \<open>What a user can do in each step, and a reload, which reads back the state that was kept.\<close>

fun first_step_field :: "wizard_field \<Rightarrow> bool" where
  "first_step_field (F_step _) = False" | "first_step_field (F_loanAmount _) = False"
| "first_step_field (F_loanTermDays _) = False" | "first_step_field _ = True"

inductive wizard_step :: "(js_num \<Rightarrow> string) \<Rightarrow> WizardState \<Rightarrow> WizardState \<Rightarrow> bool" for localeText where
  enter_collateral: "ws_step s = 1 \<Longrightarrow> first_step_field f \<Longrightarrow> wizard_step localeText s (setField f s)"
| leave_collateral: "ws_step s = 1 \<Longrightarrow> wizard_step localeText s (nextStep s)"
| enter_amount: "ws_step s = 2 \<Longrightarrow> wizard_step localeText s (setField (F_loanAmount v) s)"
| choose_term: "ws_step s = 2 \<Longrightarrow> t \<in> fst ` set TERM_OPTIONS \<Longrightarrow> wizard_step localeText s (setField (F_loanTermDays t) s)"
| leave_amount: "ws_step s = 2 \<Longrightarrow> wizard_step localeText s (handleNext localeText s)"
| leave_review: "ws_step s = 3 \<Longrightarrow> wizard_step localeText s (nextStep s)"
| go_back: "2 \<le> ws_step s \<Longrightarrow> wizard_step localeText s (prevStep s)"
| confirm: "ws_step s = 4 \<Longrightarrow> wizard_step localeText s (fst (handleConfirm env w (s, c)))"
| start_again: "ws_step s = 4 \<Longrightarrow> wizard_step localeText s (reset s)"
| reload: "t \<noteq> [] \<Longrightarrow> parse t = Inr s \<Longrightarrow> wizard_step localeText s (wizard_mount parse (Some t))"

inductive wizard_reachable :: "(js_num \<Rightarrow> string) \<Rightarrow> WizardState \<Rightarrow> bool" for localeText where
  wizard_start: "wizard_reachable localeText defaults"
| wizard_next: "wizard_reachable localeText s \<Longrightarrow> wizard_step localeText s s' \<Longrightarrow> wizard_reachable localeText s'"

inductive_cases wizard_stepE: "wizard_step localeText s s'"

subsection \<open>The limit of the amount\<close>

text \<open>
  Seven tenths is not a number of the machine, and the one next to it is smaller: the limit is the whole
  part of 70 % or one less.
\<close>

lemma fl_seven_tenths: "fl (7 / 10) \<le> 7 / 10" "7 / 10 - 1 / 2 ^ 53 \<le> fl (7 / 10)"
  by code_simp+

lemma max_loan_floor:
  assumes "0 \<le> v" "v \<le> 2 ^ 50"
  shows "js_floor (js_mul (of_int v) (fl (7 / 10))) \<le> of_int (7 * v div 10)"
    and "of_int (7 * v div 10) - 1 \<le> js_floor (js_mul (of_int v) (fl (7 / 10)))"
proof -
  let ?f = "fl (7 / 10)" and ?V = "of_int v :: rat"
  have "?V \<le> of_int (2 ^ 50)" using assms(2) by (simp only: of_int_le_iff)
  then have V: "0 \<le> ?V" "?V \<le> 2 ^ 50" using assms(1) by simp_all
  have q: "of_int (7 * v) / of_int 10 = ?V * (7 / 10)" by simp
  have fq: "\<lfloor>fl (of_int (7 * v) / of_int 10)\<rfloor> = 7 * v div 10" using assms by (intro floor_fl_quotient) auto
  have "fl (?V * ?f) \<le> fl (?V * (7 / 10))" by (intro fl_mono mult_left_mono fl_seven_tenths V)
  then have "\<lfloor>fl (?V * ?f)\<rfloor> \<le> 7 * v div 10" using floor_mono fq q by metis
  then show "js_floor (js_mul ?V ?f) \<le> of_int (7 * v div 10)" by (simp add: js_floor_def js_mul_def)
  have "?V * (7 / 10) - ?V * (1 / 2 ^ 53) \<le> ?V * ?f"
    using mult_left_mono [OF fl_seven_tenths(2) V(1)] by (simp add: right_diff_distrib)
  moreover have "?V * (1 / 2 ^ 53) \<le> 1 / 8" using V(2) by simp
  moreover have "of_int (7 * v div 10) \<le> ?V * (7 / 10)" 
    using of_int_floor_le [of "of_int (7 * v) / of_int 10 :: rat"] by (simp only: floor_divide_of_int_eq q)
  ultimately have "of_int (7 * v div 10 - 1) \<le> ?V * ?f" by simp
  from fl_mono [OF this] have "fl (of_int (7 * v div 10 - 1)) \<le> fl (?V * ?f)" .
  moreover have "fl (of_int (7 * v div 10 - 1)) = of_int (7 * v div 10 - 1)" using assms by (intro fl_of_int) auto
  ultimately have "7 * v div 10 - 1 \<le> \<lfloor>fl (?V * ?f)\<rfloor>" by (simp add: le_floor_iff)
  then have "of_int (7 * v div 10 - 1) \<le> (of_int \<lfloor>fl (?V * ?f)\<rfloor> :: rat)" by (simp only: of_int_le_iff)
  then show "of_int (7 * v div 10) - 1 \<le> js_floor (js_mul ?V ?f)" by (simp add: js_floor_def js_mul_def)
qed

definition within_limit :: "WizardState \<Rightarrow> bool" where
  "within_limit s \<longleftrightarrow> (\<exists>a v. parseInt (ws_loanAmount s) = Fin (of_int a) \<and>
     parseInt (ws_appraisedValue s) = Fin (of_int v) \<and> 1 \<le> a \<and> 1 \<le> v \<and>
     of_int a \<le> js_floor (js_mul (of_int v) (fl (7 / 10))))"

definition wizard_inv :: "WizardState \<Rightarrow> bool" where
  "wizard_inv s \<longleftrightarrow> ws_step s \<in> {1, 2, 3, 4} \<and> ws_loanTermDays s \<in> fst ` set TERM_OPTIONS \<and>
     (2 \<le> ws_step s \<longrightarrow> ws_appraisedValue s \<noteq> [] \<and> num_less (Fin 0) (parseInt (ws_appraisedValue s))) \<and>
     (3 \<le> ws_step s \<longrightarrow> within_limit s)"

lemma wizard_inv_defaults: "wizard_inv defaults"
  by (simp add: wizard_inv_def defaults_def TERM_OPTIONS_def)

lemma amount_within_limit:
  assumes "validate_amount localeText s = None" "num_less (Fin 0) (parseInt (ws_loanAmount s))"
    and "ws_appraisedValue s \<noteq> []" "num_less (Fin 0) (parseInt (ws_appraisedValue s))"
  shows "within_limit s"
proof -
  obtain a v where av: "parseInt (ws_loanAmount s) = Fin (of_int a)" "1 \<le> a"
    "parseInt (ws_appraisedValue s) = Fin (of_int v)" "1 \<le> v" using assms(2,4) by (metis parseInt_positive)
  then show ?thesis using assms(1,3)
    by (auto simp: within_limit_def validate_amount_def maxLoan_def Let_def not_less split: if_splits)
qed

lemma wizard_inv_step: "wizard_step localeText s s' \<Longrightarrow> wizard_inv s \<Longrightarrow> wizard_inv s'"
proof (induction rule: wizard_step.induct)
  case (enter_collateral s f)
  then show ?case by (cases f) (auto simp: wizard_inv_def)
next
  case (leave_collateral s)
  then show ?case by (auto simp: wizard_inv_def nextStep_def canProceed_def)
next
  case (leave_amount s)
  show ?case
  proof (cases "validate_amount localeText s")
    case None
    let ?s = "setField (F_error None) s"
    have "validate_amount localeText ?s = None" using None by (simp add: validate_amount_def)
    with leave_amount amount_within_limit [of localeText s] None show ?thesis
      by (auto simp: handleNext_def nextStep_def canProceed_def wizard_inv_def within_limit_def)
  qed (use leave_amount in \<open>auto simp: handleNext_def wizard_inv_def within_limit_def\<close>)
next
  case (go_back s)
  then show ?case by (auto simp: wizard_inv_def prevStep_def within_limit_def)
next
  case (confirm s env w c)
  then show ?case by (auto simp: handleConfirm_def Let_def wizard_inv_def within_limit_def split: sum.splits)
next
  case (start_again s)
  then show ?case by (simp add: reset_def wizard_inv_defaults)
next
  case (reload t parse s)
  then show ?case by (cases t) (simp_all add: wizard_mount_def)
qed (auto simp: wizard_inv_def nextStep_def canProceed_def within_limit_def)

lemma wizard_limits:
  assumes "wizard_reachable localeText s"
  shows "ws_step s \<in> {1, 2, 3, 4} \<and> ws_loanTermDays s \<in> fst ` set TERM_OPTIONS"
    and "3 \<le> ws_step s \<Longrightarrow> \<exists>a v. parseInt (ws_loanAmount s) = Fin (of_int a) \<and>
      parseInt (ws_appraisedValue s) = Fin (of_int v) \<and> 1 \<le> a \<and> 1 \<le> v \<and> (v \<le> 2 ^ 50 \<longrightarrow> 10 * a \<le> 7 * v)"
proof -
  have inv: "wizard_inv s" using assms by induction (auto intro: wizard_inv_defaults wizard_inv_step)
  then show "ws_step s \<in> {1, 2, 3, 4} \<and> ws_loanTermDays s \<in> fst ` set TERM_OPTIONS" by (simp add: wizard_inv_def)
  assume "3 \<le> ws_step s"
  then obtain a v where av: "parseInt (ws_loanAmount s) = Fin (of_int a)"
    "parseInt (ws_appraisedValue s) = Fin (of_int v)" "1 \<le> a" "1 \<le> v"
    "of_int a \<le> js_floor (js_mul (of_int v) (fl (7 / 10)))" using inv by (auto simp: wizard_inv_def within_limit_def)
  have "10 * a \<le> 7 * v" if "v \<le> 2 ^ 50"
  proof -
    have "of_int a \<le> (of_int (7 * v div 10) :: rat)" using max_loan_floor(1) [of v] av that by simp
    then have "a \<le> 7 * v div 10" by (simp only: of_int_le_iff)
    then show ?thesis by presburger
  qed
  with av show "\<exists>a v. parseInt (ws_loanAmount s) = Fin (of_int a) \<and>
      parseInt (ws_appraisedValue s) = Fin (of_int v) \<and> 1 \<le> a \<and> 1 \<le> v \<and> (v \<le> 2 ^ 50 \<longrightarrow> 10 * a \<le> 7 * v)" by blast
qed



subsection \<open>The fee\<close>

lemma parse_rates:
  "parseFloat ''2%'' = Fin 2" "parseFloat ''5%'' = Fin 5" "parseFloat ''12%'' = Fin 12" "parseFloat ''20%'' = Fin 20"
  using fl_nat [of 2] fl_nat [of 5] fl_nat [of 12] fl_nat [of 20]
  by (simp_all add: parseFloat_def decimal_prefix_def exponent_prefix_def Let_def trim_start_def is_space_def
      starts_with_def is_digit_def code_def digits_val_def digit_val_def ten_pow_def)

lemma term_rate:
  obtains p where "p \<in> {2, 5, 12, 20::int}" "parseFloat (TERM_RATES t) = Fin (of_int p)"
proof -
  have "TERM_RATES t \<in> {''2%'', ''5%'', ''12%'', ''20%''}" by (auto simp: TERM_RATES_def TERM_OPTIONS_def)
  with parse_rates that [of 2] that [of 5] that [of 12] that [of 20] show thesis by auto
qed

lemma fl_percent:
  assumes "p \<in> {2, 5, 12, 20::int}"
  shows "of_int p / 100 \<le> fl (of_int p / 100) \<or>
    of_int p / 100 - fl (of_int p / 100) \<le> of_int p / 100 * (2 / 5) / 2 ^ 53"
proof -
  have "(2 / 100 :: rat) \<le> fl (2 / 100)" "(5 / 100 :: rat) \<le> fl (5 / 100)" "(20 / 100 :: rat) \<le> fl (20 / 100)"
    "12 / 100 - fl (12 / 100) \<le> (12 / 100 * (2 / 5) / 2 ^ 53 :: rat)"
    by code_simp+
  with assms show ?thesis by auto
qed

text \<open>The review and the confirmation multiply and divide in a different order, and the quotient of a rate
  is not exact, yet both show the same fee, the whole part of the rate of the amount, and the same total.\<close>

theorem fees_agree:
  assumes "parseInt (ws_loanAmount s) = Fin (of_int n)" "0 \<le> n" "n \<le> 2 ^ 44"
  shows "\<exists>p\<in>{2, 5, 12, 20}. parseFloat (TERM_RATES (ws_loanTermDays s)) = Fin (of_int p) \<and>
    review_fee s = Fin (of_int (n * p div 100)) \<and> confirm_fee s = Fin (of_int (n * p div 100)) \<and>
    review_total s = Fin (of_int (n + n * p div 100)) \<and> confirm_total s = review_total s"
proof -
  obtain p where p: "p \<in> {2, 5, 12, 20}" "parseFloat (TERM_RATES (ws_loanTermDays s)) = Fin (of_int p)"
    using term_rate .
  have "ws_loanAmount s \<noteq> []"
    using assms(1) by (auto simp: parseInt_def parse_int_def Let_def trim_start_def starts_with_def to_lower_def)
  then have a: "amount_or_0 s = Fin (of_int n)" using assms(1) by (simp add: amount_or_0_def)
  have f: "\<bar>fl (of_int p / 100) - of_int p / 100\<bar> \<le> of_int p / 100 / 2 ^ 53"
    using fl_err [of "of_int p / 100"] p(1) by auto
  have "\<lfloor>fl (of_int n * fl (of_int p / 100))\<rfloor> = n * p div 100"
    using p(1) by (intro floor_fl_percent [OF assms(2,3) _ _ f fl_percent [OF p(1)]]) auto
  then have r: "review_fee s = Fin (of_int (n * p div 100))"
    by (simp add: review_fee_def a p(2) js_div_def js_mul_def js_floor_def)
  have np: "0 \<le> n * p" "n * p \<le> 2 ^ 44 * 20" using p(1) assms(2,3) by auto
  have "\<lfloor>fl (of_int (n * p) / of_int 100)\<rfloor> = n * p div 100" using np by (intro floor_fl_quotient) auto
  moreover have "js_mul (of_int n) (of_int p) = of_int (n * p)" using np by (intro js_mul_of_int) simp
  ultimately have c: "confirm_fee s = Fin (of_int (n * p div 100))"
    by (simp add: confirm_fee_def a p(2) js_div_def js_floor_def)
  have "js_add (of_int n) (of_int (n * p div 100)) = of_int (n + n * p div 100)"
  proof (rule js_add_of_int)
    have "0 \<le> n * p div 100" "n * p div 100 \<le> 2 ^ 44 * 20 div 100"
      using np by (auto intro: zdiv_mono1 simp: pos_imp_zdiv_nonneg_iff)
    then show "\<bar>n + n * p div 100\<bar> \<le> 2 ^ 53" using assms(2,3) by simp
  qed
  then have "review_total s = Fin (of_int (n + n * p div 100))" by (simp add: review_total_def a r)
  then show ?thesis using p r c by (intro bexI [of _ p]) (simp_all add: confirm_total_def review_total_def)
qed

subsection \<open>The request\<close>

text \<open>What the confirmation sends is taken by the schema of the backend's route: in the last step, with
  the key of the wallet and a collateral id that reads as a whole number, the backend sees exactly the
  amount that was reviewed. An id that does not read as a number is refused.\<close>

theorem confirmation_accepted:
  assumes "wizard_reachable localeText s" "ws_step s = 4" "stellarPublicKeySchema valid_key (JStr w) = Some w"
  shows "\<exists>a. parseInt (ws_loanAmount s) = Fin (of_int a) \<and> 1 \<le> a \<and>
    loanRequestSchema valid_key (confirm_body w s) =
      (case parseInt (ws_collateralId s) of
         Fin x \<Rightarrow> if 0 \<le> x \<and> x \<le> 2 ^ 53 - 1 \<and> a \<le> 2 ^ 53 - 1
           then Some \<lparr>lb_borrower = w, lb_collateral_id = \<lfloor>x\<rfloor>, lb_amount = a, lb_min_disbursement = None\<rparr> else None
       | _ \<Rightarrow> None)"
proof -
  obtain a where a: "parseInt (ws_loanAmount s) = Fin (of_int a)" "1 \<le> a"
    using wizard_limits(2) [OF assms(1)] assms(2) by auto
  have nn: "zod_nonnegative (num_json n) = (case n of Fin x \<Rightarrow> if 0 \<le> x \<and> x \<le> 2 ^ 53 - 1 then Some \<lfloor>x\<rfloor> else None | _ \<Rightarrow> None)"
    if "\<forall>x. n = Fin x \<longrightarrow> (\<exists>k. x = of_int k)" for n
    using that by (cases n) (auto simp: zod_nonnegative_def zod_int_def safe_int_def)
  have "loanRequestSchema valid_key (confirm_body w s) =
      (case parseInt (ws_collateralId s) of
         Fin x \<Rightarrow> if 0 \<le> x \<and> x \<le> 2 ^ 53 - 1 \<and> a \<le> 2 ^ 53 - 1
           then Some \<lparr>lb_borrower = w, lb_collateral_id = \<lfloor>x\<rfloor>, lb_amount = a, lb_min_disbursement = None\<rparr> else None
       | _ \<Rightarrow> None)"
    using nn [of "parseInt (ws_collateralId s)"] parseInt_integer zod_positive_of_int [OF a(2)] assms(3) a(1)
    by (auto simp: loanRequestSchema_def confirm_body_def required_def optional_def split: js_num.splits)
  with a show ?thesis by blast
qed



subsection \<open>A request, step by step\<close>

definition sample_wizard :: "int \<Rightarrow> WizardState" where
  "sample_wizard st = defaults\<lparr>ws_count := ''5'', ws_appraisedValue := ''90'', ws_loanAmount := ''62'', ws_collateralId := ''7'',
     ws_step := st\<rparr>"

lemma sample_reads: "parseInt ''5'' = Fin 5" "parseInt ''90'' = Fin 90" "parseInt ''62'' = Fin 62" "parseInt ''7'' = Fin 7"
  using parseInt_digits [of "''5''"] parseInt_digits [of "''90''"] parseInt_digits [of "''62''"] parseInt_digits [of "''7''"]
  by (simp_all add: all_digits_def is_digit_def code_def digits_val_def digit_val_def)

text \<open>70 % of 90 is 63, the limit is 62.\<close>

lemma sample_limit: "maxLoan ''90'' = Fin 62"
proof -
  have "js_floor (js_mul 90 (fl (7 / 10))) = 62" by code_simp
  then show ?thesis by (simp add: maxLoan_def sample_reads)
qed

lemma sample_reachable:
  "wizard_reachable localeText (sample_wizard 3)" "wizard_reachable localeText (sample_wizard 4)"
proof -
  let ?s1 = "setField (F_collateralId ''7'') (setField (F_appraisedValue ''90'') (setField (F_count ''5'') defaults))"
  have "wizard_reachable localeText (setField (F_count ''5'') defaults)"
    by (rule wizard_next [OF wizard_start]) (intro enter_collateral; simp add: defaults_def)
  then have "wizard_reachable localeText (setField (F_appraisedValue ''90'') (setField (F_count ''5'') defaults))"
    by (rule wizard_next) (intro enter_collateral; simp add: defaults_def)
  then have "wizard_reachable localeText ?s1"
    by (rule wizard_next) (intro enter_collateral; simp add: defaults_def)
  then have "wizard_reachable localeText (nextStep ?s1)"
    by (rule wizard_next) (intro leave_collateral; simp add: defaults_def)
  then have "wizard_reachable localeText (setField (F_loanAmount ''62'') (nextStep ?s1))"
    by (rule wizard_next) (intro enter_amount; simp add: defaults_def nextStep_def canProceed_def sample_reads)
  also have "setField (F_loanAmount ''62'') (nextStep ?s1) = sample_wizard 2"
    by (simp add: sample_wizard_def defaults_def nextStep_def canProceed_def sample_reads)
  finally have s2: "wizard_reachable localeText (sample_wizard 2)" .
  have "handleNext localeText (sample_wizard 2) = sample_wizard 3"
    by (simp add: handleNext_def validate_amount_def sample_wizard_def defaults_def sample_limit sample_reads
        nextStep_def canProceed_def)
  moreover have "wizard_reachable localeText (handleNext localeText (sample_wizard 2))"
    by (rule wizard_next [OF s2 leave_amount]) (simp add: sample_wizard_def)
  ultimately show s3: "wizard_reachable localeText (sample_wizard 3)" by simp
  have "nextStep (sample_wizard 3) = sample_wizard 4"
    by (simp add: nextStep_def canProceed_def sample_wizard_def defaults_def)
  moreover have "wizard_reachable localeText (nextStep (sample_wizard 3))"
    by (rule wizard_next [OF s3 leave_review]) (simp add: sample_wizard_def)
  ultimately show "wizard_reachable localeText (sample_wizard 4)" by simp
qed


theorem fees_agree_witness: "\<exists>p\<in>{2, 5, 12, 20}. review_fee (sample_wizard 3) = Fin (of_int (62 * p div 100))"
proof -
  have "parseInt (ws_loanAmount (sample_wizard 3)) = Fin (of_int 62)" by (simp add: sample_wizard_def sample_reads)
  from fees_agree [OF this] show ?thesis by (auto simp del: of_int_numeral)
qed

theorem confirmation_accepted_witness:
  "loanRequestSchema (\<lambda>_. True) (confirm_body (CHR ''G'' # replicate 55 (CHR ''A'')) (sample_wizard 4)) =
   Some \<lparr>lb_borrower = CHR ''G'' # replicate 55 (CHR ''A''), lb_collateral_id = 7, lb_amount = 62, lb_min_disbursement = None\<rparr>"
proof -
  have k: "stellarPublicKeySchema (\<lambda>_. True) (JStr (CHR ''G'' # replicate 55 (CHR ''A''))) = Some (CHR ''G'' # replicate 55 (CHR ''A''))"
    by (simp add: stellarPublicKeySchema_def starts_with_def)
  from confirmation_accepted [OF sample_reachable(2) [of "\<lambda>_. []"] _ k] show ?thesis
    by (auto simp: sample_wizard_def sample_reads)
qed


end
