(* ===== verification/Wizard_View.thy ===== *)
theory Wizard_View
  imports Views Loan_Wizard
begin

section \<open>What the wizard shows (components/wizard, ui/Button.tsx)\<close>

text \<open>
  The markup of the wizard and of its last three steps, with what each button and input does. Everything these
  pages offer is a step of the relation in \<open>Loan_Wizard\<close>, so its limits hold of what a user can really do. The
  confirmation is then followed through its awaits and timers: whoever waits until a failure is no longer
  shown has never two requests under way, whoever does not may.
\<close>

subsection \<open>The button\<close>

definition Button :: "bool \<Rightarrow> bool \<Rightarrow> button_state \<Rightarrow> 'a option \<Rightarrow> 'a view list \<Rightarrow> 'a view" where
  "Button disabled loading state onClick children =
     Press [(''aria-busy'', if state = ButtonLoading then ''true'' else ''false'')]
       (disabled \<or> loading \<or> state = ButtonLoading) onClick
       (shown_if (state = ButtonLoading) [El ''svg'' [(''aria-hidden'', ''true'')] [plain_el ''circle'' [], plain_el ''path'' []]] @
        shown_if (state = ButtonSuccess) [El ''svg'' [(''aria-hidden'', ''true'')] [plain_el ''path'' []]] @
        shown_if (state = ButtonError) [El ''svg'' [(''aria-hidden'', ''true'')] [plain_el ''circle'' [], plain_el ''path'' []]] @
        children)"

abbreviation idle_button :: "'a \<Rightarrow> string \<Rightarrow> 'a view" where
  "idle_button a t \<equiv> Button False False ButtonIdle (Some a) [Txt t]"

subsection \<open>The steps\<close>

datatype wizard_act = PressField wizard_field | PressHandleNext | PressNext | PressBack | PressReset | PressSubmit

text \<open>The terms as the amount step shows them, and how numbers are written: for the locale, and plainly.\<close>

definition term_labels :: "(string \<times> string \<times> string) list" where
  "term_labels = [(''7'', ''7 days'', ''2%''), (''30'', ''30 days'', ''5%''), (''90'', ''90 days'', ''12%''), (''180'', ''180 days'', ''20%'')]"

record number_texts =
  nt_locale :: "js_num \<Rightarrow> string"
  nt_plain :: "js_num \<Rightarrow> string"

definition GlossaryTerm :: "string \<Rightarrow> string \<Rightarrow> 'a view" where
  "GlossaryTerm termKey t = El ''GlossaryTerm'' [(''termKey'', termKey)] [Txt t]"

definition ltv_text :: "number_texts \<Rightarrow> WizardState \<Rightarrow> string" where
  "ltv_text nt s =
     (let m = maxLoan (ws_appraisedValue s) in
      if ws_loanAmount s \<noteq> [] \<and> num_truthy m
      then toFixed (nt_plain nt) 1 (num_mul (num_div (parseInt (ws_loanAmount s)) m) (Fin 70)) else ''0'')"

definition health_text :: "number_texts \<Rightarrow> WizardState \<Rightarrow> string option" where
  "health_text nt s =
     (if ws_loanAmount s \<noteq> [] \<and> ws_appraisedValue s \<noteq> []
      then Some (toFixed (nt_plain nt) 2 (num_div (num_div (parseInt (ws_appraisedValue s)) (parseInt (ws_loanAmount s))) (Fin (3 / 2))))
      else None)"

definition StepAmount :: "number_texts \<Rightarrow> WizardState \<Rightarrow> wizard_act view" where
  "StepAmount nt s =
     (let m = maxLoan (ws_appraisedValue s) in
      plain_el ''div'' (
        [plain_el ''div'' [label_el ''h2'' ''Choose Loan Amount'', label_el ''p'' ''Maximum loan is 70% of your collateral value.''],
         plain_el ''div'' [label_el ''span'' ''Available to borrow'',
           plain_el ''span'' [Txt (nt_locale nt m), Txt '' '', label_el ''span'' ''stroops'']],
         plain_el ''div'' (
           Enter [(''label'', ''Loan Amount (stroops)''), (''type'', ''number''), (''min'', ''1''), (''max'', nt_plain nt m),
             (''placeholder'', ''e.g. 5000000'')] False (ws_loanAmount s) (\<lambda>v. PressField (F_loanAmount v)) #
           shown_if (ws_loanAmount s \<noteq> [] \<and> num_less (Fin 0) m)
             [plain_el ''div'' [
                plain_el ''div'' [plain_el ''span'' [GlossaryTerm ''ltv'' ''LTV'', Txt '': '', Txt (ltv_text nt s), Txt ''%''],
                  label_el ''span'' ''Max: 70%''],
                plain_el ''div'' [plain_el ''div'' []]]]),
         plain_el ''div'' [label_el ''label'' ''Loan Term'',
           plain_el ''div'' (map (\<lambda>(days, label, rate). Press [] False (Some (PressField (F_loanTermDays days)))
             [label_el ''span'' label, plain_el ''span'' [Txt rate, Txt '' fee'']]) term_labels)]] @
        (case health_text nt s of None \<Rightarrow> []
         | Some h \<Rightarrow> [plain_el ''div'' [plain_el ''span'' [GlossaryTerm ''healthFactor'' ''Est. Health Factor''], label_el ''span'' h]]) @
        (case truthy_str (ws_error s) of None \<Rightarrow> [] | Some e \<Rightarrow> [El ''div'' [(''role'', ''alert'')] [Txt e]]) @
        [plain_el ''div'' [idle_button PressBack (arrow_left @ '' Back''), idle_button PressHandleNext (''Review Terms '' @ arrow_right)]]))"

text \<open>The rows of the review; an animal without an icon shows as undefined.\<close>

definition review_rows :: "number_texts \<Rightarrow> WizardState \<Rightarrow> (wizard_act view \<times> string) list" where
  "review_rows nt s =
     [(Txt ''Collateral Type'', (case animal_icon (ws_animalType s) of None \<Rightarrow> ''undefined'' | Some i \<Rightarrow> i) @ '' '' @ capitalise (ws_animalType s)),
      (Txt ''Animal Count'', ws_count s),
      (Txt ''Appraised Value'', nt_locale nt (parseInt (ws_appraisedValue s)) @ '' stroops''),
      (Txt ''Loan Amount'', nt_locale nt (parseInt (ws_loanAmount s)) @ '' stroops''),
      (Txt ''Loan Term'', ws_loanTermDays s @ '' days''),
      (Txt ''Fee Rate'', TERM_RATES (ws_loanTermDays s)),
      (Txt ''Fee Amount'', nt_locale nt (review_fee s) @ '' stroops''),
      (Txt ''Total to Repay'', nt_locale nt (review_total s) @ '' stroops''),
      (GlossaryTerm ''healthFactor'' ''Health Factor'', (case health_text nt s of None \<Rightarrow> long_dash | Some h \<Rightarrow> h))]"

definition StepReview :: "number_texts \<Rightarrow> WizardState \<Rightarrow> wizard_act view" where
  "StepReview nt s =
     plain_el ''div''
       [plain_el ''div'' [label_el ''h2'' ''Review Loan Terms'', label_el ''p'' ''Please review all details carefully before proceeding.''],
        plain_el ''div'' (map (\<lambda>(label, t). plain_el ''div'' [plain_el ''span'' [label], label_el ''span'' t]) (review_rows nt s)),
        plain_el ''div'' [label_el ''span'' warning_sign,
          label_el ''p'' ''If the health factor drops below 1.0, your collateral may be liquidated. Monitor your position regularly.''],
        plain_el ''div'' [idle_button PressBack (arrow_left @ '' Back''), idle_button PressNext (''Confirm & Submit '' @ arrow_right)]]"

definition fact_line :: "string \<Rightarrow> string list \<Rightarrow> 'a view" where
  "fact_line label ts = plain_el ''div'' [label_el ''span'' label, plain_el ''span'' (map Txt ts)]"

definition StepConfirm :: "number_texts \<Rightarrow> WizardState \<Rightarrow> confirmation \<Rightarrow> wizard_act view" where
  "StepConfirm nt s c =
     (let amount = nt_locale nt (parseInt (ws_loanAmount s)) in
      case truthy_str (cn_loanId c) of
        Some loanId \<Rightarrow>
          plain_el ''div''
            [label_el ''div'' check_mark,
             plain_el ''div'' [label_el ''h2'' ''Loan Disbursed!'', label_el ''p'' ''Your loan has been approved and disbursed to your wallet.''],
             plain_el ''div'' [label_el ''p'' ''Loan ID'', label_el ''p'' loanId],
             plain_el ''div'' [fact_line ''Amount received'' [amount, '' stroops''], fact_line ''Due in'' [ws_loanTermDays s, '' days''],
               fact_line ''Total to repay'' [nt_locale nt (confirm_total s), '' stroops'']],
             idle_button PressReset ''Request Another Loan'']
      | None \<Rightarrow>
          plain_el ''div'' (
            [plain_el ''div'' [label_el ''h2'' ''Final Summary'',
               label_el ''p'' ''This is your last chance to review before the transaction is signed.''],
             plain_el ''div'' [
               plain_el ''div'' [
                 plain_el ''div'' [label_el ''p'' (''You'' @ apostrophe @ ''re borrowing''), plain_el ''p'' [Txt amount, label_el ''span'' ''stroops'']],
                 plain_el ''div'' [label_el ''p'' ''Collateral'', plain_el ''p'' [Txt (ws_count s), Txt '' '', Txt (ws_animalType s), Txt ''(s)'']]],
               plain_el ''div'' [
                 plain_el ''div'' [label_el ''p'' ''Term'', plain_el ''p'' [Txt (ws_loanTermDays s), Txt ''d'']],
                 plain_el ''div'' [label_el ''p'' ''Fee'', label_el ''p'' (nt_locale nt (confirm_fee s))],
                 plain_el ''div'' [label_el ''p'' ''Repay total'', label_el ''p'' (nt_locale nt (confirm_total s))]]],
             plain_el ''div'' [label_el ''span'' lock_sign,
               label_el ''p'' ''Clicking submit will open Freighter to sign the transaction. Make sure your wallet is unlocked.'']] @
            (case truthy_str (ws_error s) of None \<Rightarrow> [] | Some e \<Rightarrow> [label_el ''div'' e]) @
            [plain_el ''div'' [
               Button (cn_button c = ButtonLoading) False ButtonIdle (Some PressBack) [Txt (arrow_left @ '' Back'')],
               Button False False (cn_button c) (Some PressSubmit) [Txt (rocket @ '' Submit Loan Request'')]]]))"

text \<open>The frame: how far the request is, and the component of the step.\<close>

definition STEPS :: "(int \<times> string) list" where
  "STEPS = [(1, ''Collateral''), (2, ''Amount''), (3, ''Review''), (4, ''Confirm'')]"

definition WizardInner :: "number_texts \<Rightarrow> string \<Rightarrow> WizardState \<Rightarrow> confirmation \<Rightarrow> wizard_act view" where
  "WizardInner nt walletAddress s c =
     plain_el ''div''
       [plain_el ''div''
          [plain_el ''div'' [label_el ''span'' ''Loan Request'',
             plain_el ''span'' [Txt ''Step '', Txt (string_of_int (ws_step s)), Txt '' of '', Txt (string_of_nat (length STEPS))]],
           plain_el ''div'' (map (\<lambda>(i, number, label). plain_el ''div'' (
             plain_el ''div'' [plain_el ''div'' [if number < ws_step s then plain_el ''svg'' [plain_el ''path'' []] else Txt (string_of_int number)],
               label_el ''span'' label] #
             shown_if (i < length STEPS - 1) [plain_el ''div'' [plain_el ''div'' []]])) (zip [0..<length STEPS] STEPS))],
        plain_el ''div'' (
          shown_if (ws_step s = 1) [El ''StepCollateral'' [(''walletAddress'', walletAddress)] []] @
          shown_if (ws_step s = 2) [StepAmount nt s] @ shown_if (ws_step s = 3) [StepReview nt s] @
          shown_if (ws_step s = 4) [StepConfirm nt s c])]"

subsection \<open>What the pages offer are steps of the wizard\<close>

text \<open>What pressing a button does to the fields; submitting is taken to its end here, and followed step by step below.\<close>

fun wizard_do :: "(js_num \<Rightarrow> string) \<Rightarrow> flow_env \<Rightarrow> string \<Rightarrow> confirmation \<Rightarrow> wizard_act \<Rightarrow> WizardState \<Rightarrow> WizardState" where
  "wizard_do localeText env w c (PressField f) s = setField f s"
| "wizard_do localeText env w c PressHandleNext s = handleNext localeText s"
| "wizard_do localeText env w c PressNext s = nextStep s"
| "wizard_do localeText env w c PressBack s = prevStep s"
| "wizard_do localeText env w c PressReset s = reset s"
| "wizard_do localeText env w c PressSubmit s = fst (handleConfirm env w (s, c))"

lemma clicks_Button [simp]:
  "clicks (Button disabled loading st act vs) =
     (if disabled \<or> loading \<or> st = ButtonLoading then [] else (case act of None \<Rightarrow> [] | Some a \<Rightarrow> [a])) @ concat (map clicks vs)"
  "entries (Button disabled loading st act vs) = concat (map entries vs)"
  by (simp_all add: Button_def shown_if_def)

lemma clicks_StepAmount: "clicks (StepAmount nt s) = map (\<lambda>d. PressField (F_loanTermDays d)) [''7'', ''30'', ''90'', ''180''] @ [PressBack, PressHandleNext]"
  and entries_StepAmount: "entries (StepAmount nt s) = [\<lambda>v. PressField (F_loanAmount v)]"
  by (cases "health_text nt s"; cases "truthy_str (ws_error s)"; simp add: StepAmount_def Let_def GlossaryTerm_def term_labels_def)+

lemma clicks_StepReview: "clicks (StepReview nt s) = [PressBack, PressNext]"
  and entries_StepReview: "entries (StepReview nt s) = []"
  by (simp_all add: StepReview_def review_rows_def GlossaryTerm_def)

lemma clicks_StepConfirm:
  "clicks (StepConfirm nt s c) =
     (if truthy_str (cn_loanId c) \<noteq> None then [PressReset] else if cn_button c = ButtonLoading then [] else [PressBack, PressSubmit])"
  and entries_StepConfirm: "entries (StepConfirm nt s c) = []"
  by (cases "truthy_str (cn_loanId c)"; cases "truthy_str (ws_error s)"; simp add: StepConfirm_def fact_line_def Let_def)+

lemmas step_views = clicks_StepAmount entries_StepAmount clicks_StepReview entries_StepReview clicks_StepConfirm entries_StepConfirm

lemma STEPS_zip: "zip [0..<length STEPS] STEPS = [(0, 1, ''Collateral''), (1, 2, ''Amount''), (2, 3, ''Review''), (3, 4, ''Confirm'')]"
  by (simp add: STEPS_def upt_rec)

lemma inner_views:
  "clicks (WizardInner nt w s c) = (if ws_step s = 2 then clicks (StepAmount nt s) else if ws_step s = 3 then clicks (StepReview nt s)
     else if ws_step s = 4 then clicks (StepConfirm nt s c) else [])"
  "entries (WizardInner nt w s c) = (if ws_step s = 2 then entries (StepAmount nt s) else if ws_step s = 3 then entries (StepReview nt s)
     else if ws_step s = 4 then entries (StepConfirm nt s c) else [])"
  unfolding WizardInner_def STEPS_zip by (simp_all add: shown_if_def)

lemma offered_is_step:
  assumes "a \<in> set (clicks (WizardInner nt w s c)) \<or> (\<exists>f \<in> set (entries (WizardInner nt w s c)). \<exists>v. a = f v)"
  shows "wizard_step localeText s (wizard_do localeText env w c a s)"
proof -
  have "wizard_step localeText s (s\<lparr>ws_loanAmount := v\<rparr>)" if "ws_step s = 2" for v
    using enter_amount [OF that] by simp
  moreover have "wizard_step localeText s (s\<lparr>ws_loanTermDays := t\<rparr>)" if "ws_step s = 2" "t \<in> {''7'', ''30'', ''90'', ''180''}" for t
    using choose_term [OF that(1), of t] that(2) by (auto simp: TERM_OPTIONS_def)
  moreover have "wizard_step localeText s (prevStep s)" if "ws_step s \<in> {2, 3, 4}"
    using go_back [of s] that by auto
  ultimately show ?thesis using assms unfolding inner_views
    by (auto simp: step_views split: if_splits intro: wizard_step.intros)
qed



subsection \<open>The confirmation, step by step\<close>

text \<open>
  The page while a user submits: the fields, what the page shows, how many requests are under way, when the
  timers of useButtonState.ts are due, and the time. The timers are never cleared: the functions that would clear them
  are returned to callers that drop them.
\<close>

record confirm_run =
  cr_wizard :: WizardState
  cr_page :: confirmation
  cr_flights :: nat
  cr_timers :: "int list"
  cr_now :: int

definition set_button :: "button_state \<Rightarrow> confirm_run \<Rightarrow> confirm_run" where
  "set_button b r =
     r\<lparr>cr_page := (cr_page r)\<lparr>cn_button := b\<rparr>,
       cr_timers := cr_timers r @ (case button_reset_ms b of None \<Rightarrow> [] | Some ms \<Rightarrow> [cr_now r + ms])\<rparr>"

text \<open>\<open>handleSubmit\<close> up to its first await, and from its last one on.\<close>

definition submit_enter :: "confirm_run \<Rightarrow> confirm_run" where
  "submit_enter r =
     (let r1 = set_button ButtonLoading r in
      r1\<lparr>cr_wizard := setField (F_error None) (cr_wizard r1), cr_flights := cr_flights r1 + 1\<rparr>)"

definition submit_exit :: "js_error + string \<Rightarrow> confirm_run \<Rightarrow> confirm_run" where
  "submit_exit out r =
     (let r1 = r\<lparr>cr_flights := cr_flights r - 1\<rparr> in
      case out of
        Inr result \<Rightarrow> set_button ButtonSuccess (r1\<lparr>cr_page := (cr_page r1)\<lparr>cn_loanId := Some result, cn_invalidated := True\<rparr>\<rparr>)
      | Inl e \<Rightarrow> set_button ButtonError (r1\<lparr>cr_wizard := setField (F_error (Some (err_message e))) (cr_wizard r1)\<rparr>))"

definition fire_timer :: "int \<Rightarrow> confirm_run \<Rightarrow> confirm_run" where
  "fire_timer t r =
     r\<lparr>cr_now := max (cr_now r) t, cr_timers := remove1 t (cr_timers r), cr_page := (cr_page r)\<lparr>cn_button := ButtonIdle\<rparr>\<rparr>"

text \<open>Cut open, the submission is the one of \<open>Loan_Wizard\<close>.\<close>

lemma submit_split:
  assumes "submit_exit (post_sign_submit env (\<lambda>_. JsError ''Error'' ''Loan request failed. Please try again.'')
      ''/api/loan/request'' (confirm_body w (cr_wizard (submit_enter r)))) (submit_enter r) = r'"
  shows "(cr_wizard r', cr_page r') = handleConfirm env w (cr_wizard r, cr_page r)"
  using assms by (auto simp: submit_exit_def submit_enter_def set_button_def handleConfirm_def Let_def split: sum.splits)

text \<open>The steps while the page is shown. A patient user submits only when nothing of an earlier attempt is
  still to be cleared from the button. The identifier a submission gives is not the empty text.\<close>

inductive confirm_step :: "number_texts \<Rightarrow> bool \<Rightarrow> confirm_run \<Rightarrow> confirm_run \<Rightarrow> bool" for nt patient where
  press_submit: "PressSubmit \<in> set (clicks (StepConfirm nt (cr_wizard r) (cr_page r))) \<Longrightarrow> (patient \<Longrightarrow> cr_timers r = []) \<Longrightarrow>
     confirm_step nt patient r (submit_enter r)"
| submission_ends: "0 < cr_flights r \<Longrightarrow> (\<And>x. out = Inr x \<Longrightarrow> x \<noteq> []) \<Longrightarrow> confirm_step nt patient r (submit_exit out r)"
| timer_fires: "t \<in> set (cr_timers r) \<Longrightarrow> (\<And>u. u \<in> set (cr_timers r) \<Longrightarrow> t \<le> u) \<Longrightarrow> confirm_step nt patient r (fire_timer t r)"
| time_passes: "cr_now r \<le> now \<Longrightarrow> (\<And>u. u \<in> set (cr_timers r) \<Longrightarrow> now < u) \<Longrightarrow> confirm_step nt patient r (r\<lparr>cr_now := now\<rparr>)"

text \<open>The page as it is mounted in the last step.\<close>

definition confirm_mount :: "WizardState \<Rightarrow> int \<Rightarrow> confirm_run" where
  "confirm_mount s now = \<lparr>cr_wizard = s, cr_page = \<lparr>cn_loanId = None, cn_button = ButtonIdle, cn_invalidated = False\<rparr>,
     cr_flights = 0, cr_timers = [], cr_now = now\<rparr>"

definition confirm_inv :: "confirm_run \<Rightarrow> bool" where
  "confirm_inv r \<longleftrightarrow> cr_flights r = 0 \<or> cr_flights r = 1 \<and> cn_button (cr_page r) = ButtonLoading \<and> cr_timers r = [] \<and> cn_loanId (cr_page r) = None"

lemmas confirm_defs = submit_enter_def submit_exit_def set_button_def fire_timer_def

lemma confirm_inv_step:
  assumes "confirm_step nt True r r'" "confirm_inv r" "truthy_str (cn_loanId (cr_page r)) = cn_loanId (cr_page r)"
  shows "confirm_inv r' \<and> truthy_str (cn_loanId (cr_page r')) = cn_loanId (cr_page r')"
  using assms
proof cases
  case (submission_ends out)
  then show ?thesis using assms(2,3) by (auto simp: confirm_inv_def confirm_defs Let_def truthy_str_def split: sum.splits)
qed (use assms(2,3) in \<open>auto simp: confirm_inv_def confirm_defs Let_def clicks_StepConfirm split: if_splits\<close>)

lemma confirm_inv_run:
  "(confirm_step nt True)\<^sup>*\<^sup>* (confirm_mount s now) r \<Longrightarrow>
   confirm_inv r \<and> truthy_str (cn_loanId (cr_page r)) = cn_loanId (cr_page r)"
proof (induction rule: rtranclp_induct)
  case (step y z)
  then show ?case using confirm_inv_step by blast
qed (simp add: confirm_inv_def confirm_mount_def truthy_str_def)

text \<open>One attempt fails at once; a second is made a second later; when three seconds after the failure its timer fires,
  the second attempt is still under way, the button is idle again, and a third can be made.\<close>

lemma hasty_user_submits_twice:
  "\<exists>r. (confirm_step nt False)\<^sup>*\<^sup>* (confirm_mount s now) r \<and> cr_flights r = 2"
proof -
  let ?r1 = "submit_enter (confirm_mount s now)"
  let ?r2 = "submit_exit (Inl (JsError ''Error'' [])) ?r1"
  let ?r3 = "?r2\<lparr>cr_now := now + 1000\<rparr>"
  let ?r4 = "submit_enter ?r3"
  let ?r5 = "fire_timer (now + 3000) ?r4"
  let ?R = "confirm_step nt False"
  have "?R (confirm_mount s now) ?r1" by (rule press_submit) (simp_all add: clicks_StepConfirm confirm_mount_def truthy_str_def)
  moreover have "?R ?r1 ?r2" by (rule submission_ends) (simp_all add: confirm_defs confirm_mount_def)
  moreover have "?R ?r2 ?r3" by (rule time_passes) (simp_all add: confirm_defs confirm_mount_def)
  moreover have "?R ?r3 ?r4" by (rule press_submit) (simp_all add: clicks_StepConfirm confirm_defs confirm_mount_def truthy_str_def)
  moreover have "?R ?r4 ?r5" by (rule timer_fires) (simp_all add: confirm_defs confirm_mount_def)
  moreover have "?R ?r5 (submit_enter ?r5)"
    by (rule press_submit) (simp_all add: clicks_StepConfirm confirm_defs confirm_mount_def truthy_str_def)
  ultimately have "?R\<^sup>*\<^sup>* (confirm_mount s now) (submit_enter ?r5)" by (meson rtranclp.rtrancl_refl rtranclp.rtrancl_into_rtrancl)
  moreover have "cr_flights (submit_enter ?r5) = 2" by (simp add: confirm_defs confirm_mount_def Let_def)
  ultimately show ?thesis by blast
qed



text \<open>C13: A user who waits until a failure is no longer shown on the button never has two loan requests under way, and while
  one is, the page offers nothing to press. A user who retries within the three seconds after a failure can have two:
  the timer of the failure makes the button idle during the retry.\<close>

theorem overlap_only_when_hasty:
  assumes "(confirm_step nt True)\<^sup>*\<^sup>* (confirm_mount s now) r"
  shows "cr_flights r \<le> 1 \<and> (cr_flights r = 1 \<longrightarrow> clicks (StepConfirm nt (cr_wizard r) (cr_page r)) = []) \<and>
    (\<exists>r'. (confirm_step nt False)\<^sup>*\<^sup>* (confirm_mount s now) r' \<and> cr_flights r' = 2)"
proof -
  have "confirm_inv r" using confirm_inv_run [OF assms] by blast
  then show ?thesis using hasty_user_submits_twice [of nt s now]
    by (auto simp: confirm_inv_def clicks_StepConfirm truthy_str_def)
qed

theorem overlap_only_when_hasty_witness:
  "let r = submit_enter (confirm_mount (sample_wizard 4) 0) in cr_flights r = 1 \<and>
     clicks (StepConfirm \<lparr>nt_locale = (\<lambda>_. []), nt_plain = (\<lambda>_. [])\<rparr> (cr_wizard r) (cr_page r)) = []"
proof -
  let ?nt = "\<lparr>nt_locale = (\<lambda>_. []), nt_plain = (\<lambda>_. [])\<rparr>" and ?r = "submit_enter (confirm_mount (sample_wizard 4) 0)"
  have "confirm_step ?nt True (confirm_mount (sample_wizard 4) 0) ?r"
    by (rule press_submit) (simp_all add: clicks_StepConfirm confirm_mount_def truthy_str_def)
  then have "(confirm_step ?nt True)\<^sup>*\<^sup>* (confirm_mount (sample_wizard 4) 0) ?r" by (rule r_into_rtranclp)
  moreover have "cr_flights ?r = 1" by (simp add: confirm_defs confirm_mount_def Let_def)
  ultimately show ?thesis using overlap_only_when_hasty [of ?nt "sample_wizard 4" 0 ?r] by (simp add: Let_def)
qed

end
