(* ===== verification/Ui_State.thy ===== *)
theory Ui_State
  imports Contract_Flow
begin

section \<open>State of the user interface (frontend/src/context, components/toast, lib and hooks)\<close>

text \<open>
  The toasts in use (components/toast) and the provider with a queue (context/ToastContext.tsx), the
  slices of the admin panel (adminSlice.ts), the saved drafts of useFormAutoSave.ts, and the whitelist of
  liquidators (LiquidatorWhitelist.tsx). The updates of a state are applied in the order in which they are
  made, as React applies them. Ids are of a clock reading and a random number; a new one is taken to be
  none of those in use. The theorems: at most three toasts are ever visible and one raised while three are
  is lost, each slice of the admin panel is always in one of its four conditions, and a whitelist only
  gets addresses of the right form, each once.
\<close>

subsection \<open>Toasts (components/toast)\<close>

record toast =
  to_id :: string
  to_message :: string
  to_variant :: toast_variant

definition addToast :: "string \<Rightarrow> string \<Rightarrow> toast_variant \<Rightarrow> toast list \<Rightarrow> toast list" where
  "addToast newId message variant toasts = toasts @ [\<lparr>to_id = newId, to_message = message, to_variant = variant\<rparr>]"

definition removeToast :: "string \<Rightarrow> toast list \<Rightarrow> toast list" where
  "removeToast i toasts = filter (\<lambda>t. to_id t \<noteq> i) toasts"

text \<open>
  A toast on the screen (Toast.tsx): a look every 50 ms shows the share of the 4000 ms that is left, and
  the look that finds none left dismisses the toast 300 ms later.
\<close>

definition AUTO_DISMISS_MS :: int where "AUTO_DISMISS_MS = 4000"

definition toast_progress :: "int \<Rightarrow> rat" where
  "toast_progress elapsed = max 0 (js_sub 100 (js_mul (js_div (of_int elapsed) (of_int AUTO_DISMISS_MS)) 100))"

fun toast_looks :: "int list \<Rightarrow> int option" where
  "toast_looks [] = None"
| "toast_looks (elapsed # es) = (if toast_progress elapsed \<le> 0 then Some (elapsed + 300) else toast_looks es)"

subsection \<open>The provider with a queue (context/ToastContext.tsx)\<close>

record toast_state =
  ts_visible :: "toast list"
  ts_queue :: "toast list"
  ts_timers :: "(string, int) js_map"

definition MAX_VISIBLE :: nat where "MAX_VISIBLE = 3"

definition DISMISS_MS :: int where "DISMISS_MS = 5000"

definition no_toasts :: toast_state where "no_toasts = \<lparr>ts_visible = [], ts_queue = [], ts_timers = []\<rparr>"

definition toast_dismiss :: "string \<Rightarrow> toast_state \<Rightarrow> toast_state" where
  "toast_dismiss i s =
     s\<lparr>ts_timers := m_delete i (ts_timers s), ts_visible := filter (\<lambda>t. to_id t \<noteq> i) (ts_visible s),
       ts_queue := filter (\<lambda>t. to_id t \<noteq> i) (ts_queue s)\<rparr>"

text \<open>
  The update of the visible toasts is made inside the update of the queue and applied after it, so the
  queue keeps what is copied to the screen.
\<close>

definition flushQueue :: "toast_state \<Rightarrow> toast_state" where
  "flushQueue s =
     (let capacity = MAX_VISIBLE - length (ts_visible s) in
      if length (ts_visible s) \<ge> MAX_VISIBLE then s
      else s\<lparr>ts_visible := ts_visible s @ take capacity (ts_queue s)\<rparr>)"

definition raise_toast :: "int \<Rightarrow> string \<Rightarrow> string \<Rightarrow> toast_variant \<Rightarrow> toast_state \<Rightarrow> toast_state" where
  "raise_toast now i message variant s =
     (let t = \<lparr>to_id = i, to_message = message, to_variant = variant\<rparr>;
          s1 = s\<lparr>ts_queue := ts_queue s @ [t]\<rparr>;
          s2 = (if length (ts_visible s1) \<ge> MAX_VISIBLE then s1 else s1\<lparr>ts_visible := ts_visible s1 @ [t]\<rparr>);
          s3 = s2\<lparr>ts_queue := filter (\<lambda>x. to_id x \<noteq> i) (ts_queue s2)\<rparr>;
          s4 = s3\<lparr>ts_timers := m_set i (now + DISMISS_MS) (ts_timers s3)\<rparr> in
      flushQueue s4)"

text \<open>The timer of a toast that is still set when its time has come.\<close>

definition toast_timer :: "int \<Rightarrow> string \<Rightarrow> toast_state \<Rightarrow> toast_state" where
  "toast_timer now i s =
     (case m_get (ts_timers s) i of
        Some due \<Rightarrow> if due \<le> now then flushQueue (toast_dismiss i s) else s
      | None \<Rightarrow> s)"

datatype toast_event = RaiseToast int string string toast_variant | DismissToast string | ToastTimer int string

fun toast_step :: "toast_event \<Rightarrow> toast_state \<Rightarrow> toast_state" where
  "toast_step (RaiseToast now i m v) s = raise_toast now i m v s"
| "toast_step (DismissToast i) s = toast_dismiss i s"
| "toast_step (ToastTimer now i) s = toast_timer now i s"

definition toast_run :: "toast_event list \<Rightarrow> toast_state \<Rightarrow> toast_state" where
  "toast_run es s = foldl (\<lambda>s e. toast_step e s) s es"

subsection \<open>The admin panel (adminSlice.ts)\<close>

record 'a slice =
  sl_data :: "'a option"
  sl_loading :: bool
  sl_error :: "string option"

definition initialSlice :: "'a slice" where
  "initialSlice = \<lparr>sl_data = None, sl_loading = False, sl_error = None\<rparr>"

text \<open>The payloads are what the server sent, of any shape; a missing field is \<open>None\<close>.\<close>

record AdminState =
  ad_users :: "json option slice"
  ad_moderationQueue :: "json option slice"
  ad_statistics :: "json option slice"

definition initialAdminState :: AdminState where
  "initialAdminState = \<lparr>ad_users = initialSlice, ad_moderationQueue = initialSlice, ad_statistics = initialSlice\<rparr>"

datatype admin_slice = UsersSlice | ModerationSlice | StatisticsSlice

datatype AdminAction = Pending admin_slice | Fulfilled admin_slice "json option" | Rejected admin_slice string

fun slice_of :: "AdminAction \<Rightarrow> json option slice" where
  "slice_of (Pending _) = \<lparr>sl_data = None, sl_loading = True, sl_error = None\<rparr>"
| "slice_of (Fulfilled _ payload) = \<lparr>sl_data = Some payload, sl_loading = False, sl_error = None\<rparr>"
| "slice_of (Rejected _ e) = \<lparr>sl_data = None, sl_loading = False, sl_error = Some e\<rparr>"

fun action_slice :: "AdminAction \<Rightarrow> admin_slice" where
  "action_slice (Pending k) = k" | "action_slice (Fulfilled k _) = k" | "action_slice (Rejected k _) = k"

definition adminReducer :: "AdminState \<Rightarrow> AdminAction \<Rightarrow> AdminState" where
  "adminReducer state action =
     (case action_slice action of
        UsersSlice \<Rightarrow> state\<lparr>ad_users := slice_of action\<rparr>
      | ModerationSlice \<Rightarrow> state\<lparr>ad_moderationQueue := slice_of action\<rparr>
      | StatisticsSlice \<Rightarrow> state\<lparr>ad_statistics := slice_of action\<rparr>)"

fun admin_path :: "admin_slice \<Rightarrow> string" where
  "admin_path UsersSlice = ''/api/v1/admin/users''"
| "admin_path ModerationSlice = ''/api/v1/admin/moderation-queue''"
| "admin_path StatisticsSlice = ''/api/v1/admin/statistics''"

definition get_request :: "string \<Rightarrow> request" where
  "get_request path = \<lparr>rq_method = ''GET'', rq_path = path, rq_query = [], rq_headers = [], rq_body = JNull, rq_user = None\<rparr>"

text \<open>
  The three thunks: the first action at once, the second when the answer is in. \<open>json.data\<close> of a body
  that is \<open>null\<close> throws.
\<close>

definition admin_answer :: "admin_slice \<Rightarrow> js_error + web_response \<Rightarrow> AdminAction" where
  "admin_answer k answer =
     (case bind_r answer (\<lambda>res.
             if \<not> wr_ok res then Inl (JsError ''Error'' (''HTTP '' @ string_of_nat (wr_status res)))
             else bind_r (wr_json res) (\<lambda>body.
               if k = StatisticsSlice then Inr (Some body)
               else if body = JNull then Inl (JsError ''TypeError'' ''Cannot read properties of null'')
               else Inr (field ''data'' body))) of
        Inr payload \<Rightarrow> Fulfilled k payload
      | Inl e \<Rightarrow> Rejected k (err_message e))"

definition admin_fetch :: "web \<Rightarrow> admin_slice \<Rightarrow> AdminAction list" where
  "admin_fetch w k = [Pending k, admin_answer k (w (get_request (admin_path k)))]"

definition get_slice :: "admin_slice \<Rightarrow> AdminState \<Rightarrow> json option slice" where
  "get_slice k s = (case k of UsersSlice \<Rightarrow> ad_users s | ModerationSlice \<Rightarrow> ad_moderationQueue s
     | StatisticsSlice \<Rightarrow> ad_statistics s)"

subsection \<open>Saved drafts (useFormAutoSave.ts)\<close>

record 'd saved_data =
  sd_walletAddress :: "string option"
  sd_data :: 'd
  sd_timestamp :: int

text \<open>
  The hook with the text kept under its key, which parses to a saved draft or not. \<open>has_data\<close> is whether
  some field of the form holds anything.
\<close>

record 'd auto_saver =
  sv_lastSaved :: "int option"
  sv_hasSavedData :: bool
  sv_store :: "('d saved_data option) option"

definition form_value_set :: "json \<Rightarrow> bool" where
  "form_value_set v = (case v of JStr s \<Rightarrow> trim s \<noteq> [] | JNum _ \<Rightarrow> True | _ \<Rightarrow> truthy (Some v))"

definition has_data :: "json \<Rightarrow> bool" where
  "has_data d = (case d of JObj kvs \<Rightarrow> list_ex (\<lambda>(_, v). form_value_set v) kvs | _ \<Rightarrow> False)"

definition open_saver :: "string option \<Rightarrow> ('d saved_data option) option \<Rightarrow> 'd auto_saver" where
  "open_saver walletAddress stored =
     \<lparr>sv_lastSaved = None,
      sv_hasSavedData = (case stored of
          Some (Some sd) \<Rightarrow> truthy_str walletAddress = None \<or> sd_walletAddress sd = walletAddress
        | _ \<Rightarrow> False),
      sv_store = stored\<rparr>"

text \<open>One round of the interval.\<close>

definition save_round :: "bool \<Rightarrow> string option \<Rightarrow> int \<Rightarrow> json \<Rightarrow> json auto_saver \<Rightarrow> json auto_saver" where
  "save_round enabled walletAddress now d a =
     (if \<not> enabled \<or> \<not> has_data d then a
      else a\<lparr>sv_store := Some (Some \<lparr>sd_walletAddress = truthy_str walletAddress, sd_data = d, sd_timestamp = now\<rparr>),
             sv_lastSaved := Some now\<rparr>)"

definition saver_restore :: "string option \<Rightarrow> 'd auto_saver \<Rightarrow> 'd option \<times> 'd auto_saver" where
  "saver_restore walletAddress a =
     (case sv_store a of
        Some (Some sd) \<Rightarrow>
          if truthy_str walletAddress \<noteq> None \<and> sd_walletAddress sd \<noteq> walletAddress then (None, a)
          else (Some (sd_data sd), a\<lparr>sv_hasSavedData := False\<rparr>)
      | _ \<Rightarrow> (None, a))"

definition clearSavedData :: "'d auto_saver \<Rightarrow> 'd auto_saver" where
  "clearSavedData a = a\<lparr>sv_store := None, sv_hasSavedData := False, sv_lastSaved := None\<rparr>"


subsection \<open>The whitelist of liquidators (LiquidatorWhitelist.tsx, app/admin/liquidators/page.tsx)\<close>

definition stellar_char :: "char \<Rightarrow> bool" where
  "stellar_char c \<longleftrightarrow> 65 \<le> code c \<and> code c \<le> 90 \<or> 50 \<le> code c \<and> code c \<le> 55"

text \<open>\<open>/^[GC][A-Z2-7]{55}$/\<close> on the trimmed text.\<close>

definition isValidStellarAddress :: "string \<Rightarrow> bool" where
  "isValidStellarAddress address =
     (case trim address of
        [] \<Rightarrow> False
      | c # cs \<Rightarrow> (c = CHR ''G'' \<or> c = CHR ''C'') \<and> length cs = 55 \<and> list_all stellar_char cs)"

record whitelist =
  wh_liquidators :: "(string \<times> int) list"
  wh_newAddress :: string
  wh_fieldError :: "string option"
  wh_successMessage :: "string option"

definition short_address :: "string \<Rightarrow> string" where
  "short_address a = js_slice 0 8 a @ [char_of (226::nat), char_of (128::nat), char_of (166::nat)] @
     js_slice (- 4) (int (length a)) a"

definition whitelist_type :: "string \<Rightarrow> whitelist \<Rightarrow> whitelist" where
  "whitelist_type v w = w\<lparr>wh_newAddress := v, wh_fieldError := None, wh_successMessage := None\<rparr>"

text \<open>The page keeps the list; its \<open>onAdd\<close> appends the address with the time and does not fail.\<close>

definition whitelist_add :: "int \<Rightarrow> whitelist \<Rightarrow> whitelist" where
  "whitelist_add now w =
     (let trimmed = trim (wh_newAddress w); w0 = w\<lparr>wh_successMessage := None\<rparr> in
      if trimmed = [] then w0\<lparr>wh_fieldError := Some ''Address is required.''\<rparr>
      else if \<not> isValidStellarAddress trimmed
      then w0\<lparr>wh_fieldError := Some ''Enter a valid Stellar address (56 characters, starting with G or C).''\<rparr>
      else if list_ex (\<lambda>(a, _). a = trimmed) (wh_liquidators w)
      then w0\<lparr>wh_fieldError := Some ''This address is already on the whitelist.''\<rparr>
      else w0\<lparr>wh_fieldError := None, wh_liquidators := wh_liquidators w @ [(trimmed, now)], wh_newAddress := [],
              wh_successMessage := Some (short_address trimmed @ '' added to whitelist.'')\<rparr>)"

definition whitelist_remove :: "string \<Rightarrow> whitelist \<Rightarrow> whitelist" where
  "whitelist_remove address w =
     w\<lparr>wh_liquidators := filter (\<lambda>(a, _). a \<noteq> address) (wh_liquidators w),
       wh_successMessage := Some (short_address address @ '' removed from whitelist.'')\<rparr>"

definition isOpenMode :: "whitelist \<Rightarrow> bool" where "isOpenMode w \<longleftrightarrow> wh_liquidators w = []"

datatype whitelist_op = TypeAddress string | AddAddress int | RemoveAddress string

fun whitelist_step :: "whitelist_op \<Rightarrow> whitelist \<Rightarrow> whitelist" where
  "whitelist_step (TypeAddress v) w = whitelist_type v w"
| "whitelist_step (AddAddress now) w = whitelist_add now w"
| "whitelist_step (RemoveAddress a) w = whitelist_remove a w"

definition empty_whitelist :: whitelist where
  "empty_whitelist = \<lparr>wh_liquidators = [], wh_newAddress = [], wh_fieldError = None, wh_successMessage = None\<rparr>"

definition whitelist_run :: "whitelist_op list \<Rightarrow> whitelist \<Rightarrow> whitelist" where
  "whitelist_run ops w = foldl (\<lambda>w op. whitelist_step op w) w ops"

subsection \<open>Facts about the toasts\<close>

lemma toast_looks_dismiss:
  "toast_looks es = Some d \<Longrightarrow> \<exists>e\<in>set es. toast_progress e \<le> 0 \<and> d = e + 300"
  by (induction es) (auto split: if_splits)

lemma add_remove_toast: "i \<notin> to_id ` set ts \<Longrightarrow> removeToast i (addToast i m v ts) = ts"
  by (auto simp: removeToast_def addToast_def filter_id_conv)

definition toast_inv :: "toast_state \<Rightarrow> bool" where
  "toast_inv s \<longleftrightarrow> ts_queue s = [] \<and> length (ts_visible s) \<le> MAX_VISIBLE"

lemma flush_empty: "ts_queue s = [] \<Longrightarrow> flushQueue s = s"
  by (simp add: flushQueue_def Let_def)

lemma toast_inv_step: "toast_inv s \<Longrightarrow> toast_inv (toast_step e s)"
proof (cases e)
  case (RaiseToast now i m v)
  assume "toast_inv s"
  with RaiseToast show ?thesis by (auto simp: toast_inv_def raise_toast_def Let_def flush_empty MAX_VISIBLE_def)
next
  case (DismissToast i)
  assume "toast_inv s"
  then have "length (filter (\<lambda>t. to_id t \<noteq> i) (ts_visible s)) \<le> MAX_VISIBLE"
    using length_filter_le order_trans unfolding toast_inv_def by blast
  with \<open>toast_inv s\<close> DismissToast show ?thesis by (simp add: toast_inv_def toast_dismiss_def)
next
  case (ToastTimer now i)
  assume "toast_inv s"
  then have "length (filter (\<lambda>t. to_id t \<noteq> i) (ts_visible s)) \<le> MAX_VISIBLE"
    using length_filter_le order_trans unfolding toast_inv_def by blast
  with \<open>toast_inv s\<close> ToastTimer show ?thesis
    by (auto simp: toast_inv_def toast_timer_def toast_dismiss_def flush_empty split: option.splits)
qed

lemma toast_inv_run: "toast_inv s \<Longrightarrow> toast_inv (toast_run es s)"
  unfolding toast_run_def by (induction es arbitrary: s) (auto simp: toast_inv_step)

lemma toast_visible_step:
  assumes "toast_inv s"
  shows "set (ts_visible (toast_step e s)) \<subseteq> set (ts_visible s) \<union>
    (case e of RaiseToast now i m v \<Rightarrow>
       if length (ts_visible s) < MAX_VISIBLE then {\<lparr>to_id = i, to_message = m, to_variant = v\<rparr>} else {}
     | _ \<Rightarrow> {})"
  using assms
  by (cases e) (auto simp: raise_toast_def toast_dismiss_def toast_timer_def Let_def toast_inv_def flush_empty
      split: option.splits)

text \<open>The provider with a queue never shows more than three toasts and never keeps one back: a toast raised
  while three are visible is on the screen at no later time, unless it is raised again.\<close>

theorem queued_toast_lost:
  assumes "length (ts_visible (toast_run es no_toasts)) = 3"
    and "\<forall>now m' v'. RaiseToast now i m' v' \<notin> set fs" "i \<notin> to_id ` set (ts_visible (toast_run es no_toasts))"
  shows "i \<notin> to_id ` set (ts_visible (toast_run fs (raise_toast now i m v (toast_run es no_toasts))))"
    and "length (ts_visible (toast_run fs (raise_toast now i m v (toast_run es no_toasts)))) \<le> 3"
proof -
  let ?s = "toast_run es no_toasts" and ?r = "raise_toast now i m v (toast_run es no_toasts)"
  have inv: "toast_inv ?s" by (intro toast_inv_run) (simp add: toast_inv_def no_toasts_def)
  have r: "toast_inv ?r" using toast_inv_step [OF inv, of "RaiseToast now i m v"] by simp
  have "set (ts_visible ?r) \<subseteq> set (ts_visible ?s)"
    using toast_visible_step [OF inv, of "RaiseToast now i m v"] assms(1) by (simp add: MAX_VISIBLE_def)
  then have out: "i \<notin> to_id ` set (ts_visible ?r)" using assms(3) by blast
  have "i \<notin> to_id ` set (ts_visible (toast_run fs t))" if "toast_inv t" "i \<notin> to_id ` set (ts_visible t)" for t
    using that assms(2)
  proof (induction fs arbitrary: t)
    case (Cons e fs)
    have "j \<noteq> i" if "e = RaiseToast n j m' v'" for n j m' v' using Cons.prems(3) that by auto
    then have "i \<notin> to_id ` set (ts_visible (toast_step e t))"
      using toast_visible_step [OF Cons.prems(1), of e] Cons.prems(2)
      by (cases e) (auto split: if_splits dest!: subsetD)
    with Cons.IH [OF toast_inv_step [OF Cons.prems(1), of e]] Cons.prems(3) show ?case
      by (simp add: toast_run_def)
  qed (simp add: toast_run_def)
  from this [OF r out] show "i \<notin> to_id ` set (ts_visible (toast_run fs ?r))" .
  show "length (ts_visible (toast_run fs ?r)) \<le> 3"
    using toast_inv_run [OF r, of fs] by (simp add: toast_inv_def MAX_VISIBLE_def)
qed

theorem queued_toast_lost_witness:
  "''d'' \<notin> to_id ` set (ts_visible (toast_run [DismissToast ''a'', ToastTimer 9000 ''d''] (raise_toast 30 ''d'' ''m'' ToastInfo
     (toast_run [RaiseToast 0 ''a'' ''m'' ToastInfo, RaiseToast 10 ''b'' ''m'' ToastInfo, RaiseToast 20 ''c'' ''m'' ToastInfo] no_toasts))))"
proof (rule queued_toast_lost(1))
  show "length (ts_visible (toast_run [RaiseToast 0 ''a'' ''m'' ToastInfo, RaiseToast 10 ''b'' ''m'' ToastInfo,
      RaiseToast 20 ''c'' ''m'' ToastInfo] no_toasts)) = 3" by code_simp
  show "''d'' \<notin> to_id ` set (ts_visible (toast_run [RaiseToast 0 ''a'' ''m'' ToastInfo, RaiseToast 10 ''b'' ''m'' ToastInfo,
      RaiseToast 20 ''c'' ''m'' ToastInfo] no_toasts))" by code_simp
qed auto



subsection \<open>Facts about the admin panel\<close>

text \<open>The conditions of a slice: idle, loading, with data, or with an error.\<close>

definition slice_condition :: "json option slice \<Rightarrow> bool" where
  "slice_condition sl \<longleftrightarrow> sl = initialSlice \<or> sl = \<lparr>sl_data = None, sl_loading = True, sl_error = None\<rparr> \<or>
     (\<exists>d. sl = \<lparr>sl_data = Some d, sl_loading = False, sl_error = None\<rparr>) \<or>
     (\<exists>e. sl = \<lparr>sl_data = None, sl_loading = False, sl_error = Some e\<rparr>)"

lemma get_slice_reducer:
  "get_slice k (adminReducer s a) = (if action_slice a = k then slice_of a else get_slice k s)"
  by (cases a; cases "action_slice a"; cases k) (auto simp: get_slice_def adminReducer_def)

lemma get_slice_run:
  "get_slice k (foldl adminReducer s as) =
   (case filter (\<lambda>a. action_slice a = k) as of [] \<Rightarrow> get_slice k s | b # bs \<Rightarrow> slice_of (last (b # bs)))"
  by (induction as rule: rev_induct) (auto simp: get_slice_reducer last_append split: list.splits)

text \<open>However the answers of the requests of the admin panel come in, each slice shows just what its last
  action says: it is idle, loading, holds data or holds an error, never two of these at once, and after
  the requests of other slices it is as before.\<close>

theorem admin_slices_independent:
  "slice_condition (get_slice k (foldl adminReducer initialAdminState as))"
  "get_slice k (foldl adminReducer initialAdminState as) =
     get_slice k (foldl adminReducer initialAdminState (filter (\<lambda>a. action_slice a = k) as))"
proof -
  have i: "get_slice k initialAdminState = initialSlice" by (cases k) (simp_all add: get_slice_def initialAdminState_def)
  have "slice_condition (slice_of a)" for a by (cases a) (auto simp: slice_condition_def)
  then show "slice_condition (get_slice k (foldl adminReducer initialAdminState as))"
    by (simp add: get_slice_run i slice_condition_def split: list.split)
  show "get_slice k (foldl adminReducer initialAdminState as) =
     get_slice k (foldl adminReducer initialAdminState (filter (\<lambda>a. action_slice a = k) as))"
    by (simp add: get_slice_run)
qed

lemma admin_fetch_settles:
  "sl_loading (get_slice k (foldl adminReducer s (admin_fetch w k))) = False"
  by (cases "w (get_request (admin_path k))")
    (auto simp: admin_fetch_def get_slice_reducer admin_answer_def split: sum.split)

subsection \<open>Facts about saved drafts\<close>

lemma saved_draft_restored:
  assumes "has_data d" "enabled"
  shows "fst (saver_restore wallet (open_saver wallet (sv_store (save_round enabled wallet now d a)))) = Some d"
    and "sv_hasSavedData (open_saver wallet (sv_store (save_round enabled wallet now d a)))"
  using assms by (cases "truthy_str wallet"; auto simp: save_round_def saver_restore_def open_saver_def truthy_str_Some)+

text \<open>A draft of one wallet is not handed to another.\<close>

lemma draft_of_another_wallet:
  assumes "truthy_str wallet' = Some u" "wallet \<noteq> wallet'" "truthy_str wallet = Some t"
  shows "fst (saver_restore wallet' (open_saver wallet' (sv_store (save_round True wallet now d
      \<lparr>sv_lastSaved = None, sv_hasSavedData = False, sv_store = None\<rparr>)))) = None"
  using assms by (auto simp: save_round_def saver_restore_def open_saver_def truthy_str_Some)

subsection \<open>Facts about the whitelist\<close>

definition whitelist_inv :: "whitelist \<Rightarrow> bool" where
  "whitelist_inv w \<longleftrightarrow> distinct (map fst (wh_liquidators w)) \<and>
     (\<forall>a\<in>fst ` set (wh_liquidators w). length a = 56 \<and> (hd a = CHR ''G'' \<or> hd a = CHR ''C'') \<and> list_all stellar_char (tl a))"

lemma trim_trim: "trim (trim s) = trim s"
proof -
  have h: "dropWhile is_space t = [] \<or> \<not> is_space (hd (dropWhile is_space t))" for t
    using hd_dropWhile by blast
  show ?thesis
  proof (cases "trim s = []")
    case True then show ?thesis unfolding True by (simp add: trim_def trim_start_def)
  next
    case False
    let ?t = "dropWhile is_space s"
    obtain u where u: "?t = trim s @ u"
      unfolding trim_def trim_start_def by (metis rev_append rev_rev_ident takeWhile_dropWhile_id)
    then have "hd (trim s) = hd ?t" using False by simp
    then have "\<not> is_space (hd (trim s))" using h [of s] u False by simp
    then have a: "dropWhile is_space (trim s) = trim s" using False by (cases "trim s") auto
    have "rev (trim s) = dropWhile is_space (rev ?t)" by (simp add: trim_def trim_start_def)
    then have "dropWhile is_space (rev (trim s)) = rev (trim s)" by (simp add: dropWhile_idem)
    then show ?thesis using a by (simp add: trim_def trim_start_def)
  qed
qed

lemma whitelist_inv_step: "whitelist_inv w \<Longrightarrow> whitelist_inv (whitelist_step op w)"
proof (cases op)
  case (AddAddress now)
  assume inv: "whitelist_inv w"
  let ?a = "trim (wh_newAddress w)"
  show ?thesis
  proof (cases "isValidStellarAddress ?a \<and> \<not> list_ex (\<lambda>(a, _). a = ?a) (wh_liquidators w)")
    case True
    then have "?a \<notin> fst ` set (wh_liquidators w)" by (auto simp: list_ex_iff)
    moreover obtain c cs where "?a = c # cs" "c = CHR ''G'' \<or> c = CHR ''C''" "length cs = 55" "list_all stellar_char cs"
      using True by (auto simp: isValidStellarAddress_def trim_trim split: list.splits)
    ultimately show ?thesis using inv AddAddress True by (auto simp: whitelist_inv_def whitelist_add_def Let_def)
  qed (use inv AddAddress in \<open>auto simp: whitelist_inv_def whitelist_add_def Let_def\<close>)
next
  case (RemoveAddress a)
  assume "whitelist_inv w"
  with RemoveAddress show ?thesis
    by (auto simp: whitelist_inv_def whitelist_remove_def distinct_map_filter)
qed (auto simp: whitelist_inv_def whitelist_type_def)

text \<open>Whatever is typed, added and removed, the whitelist holds each address once and only texts of the form
  of an account or contract id.\<close>

theorem whitelist_wellformed:
  "distinct (map fst (wh_liquidators (whitelist_run ops empty_whitelist)))"
  "a \<in> fst ` set (wh_liquidators (whitelist_run ops empty_whitelist)) \<Longrightarrow> length a = 56 \<and> (hd a = CHR ''G'' \<or> hd a = CHR ''C'')"
proof -
  have "whitelist_inv w \<Longrightarrow> whitelist_inv (whitelist_run ops w)" for w
    unfolding whitelist_run_def by (induction ops arbitrary: w) (auto simp: whitelist_inv_step)
  moreover have "whitelist_inv empty_whitelist" by (simp add: whitelist_inv_def empty_whitelist_def)
  ultimately have inv: "whitelist_inv (whitelist_run ops empty_whitelist)" by blast
  then show "distinct (map fst (wh_liquidators (whitelist_run ops empty_whitelist)))" by (simp add: whitelist_inv_def)
  show "a \<in> fst ` set (wh_liquidators (whitelist_run ops empty_whitelist)) \<Longrightarrow> length a = 56 \<and> (hd a = CHR ''G'' \<or> hd a = CHR ''C'')"
    using inv by (auto simp: whitelist_inv_def)
qed


end
