(* ===== verification/Data_Hooks.thy ===== *)
theory Data_Hooks
  imports Ui_State Search_State Collateral_Api
begin

section \<open>Data of the pages (frontend/src/hooks, lib/api.ts and the pages that fetch)\<close>

text \<open>
  What the pages ask the backend for and make of its answers: the shared fetcher with its cache keys, the
  lists of loans and collateral, the transactions, the health factor and its polling, the preview of a
  repayment, the notification switches, the currency rates and the onboarding. An answer that comes late
  is an action of its own. The theorems compose the pages with the backend's routes: the pages of loans
  and collateral show nothing of what the backend lists, while the hook useLoans reads it.
\<close>

subsection \<open>The fetcher and its keys (lib/api.ts)\<close>

definition ApiError :: "nat \<Rightarrow> js_error" where
  "ApiError status = JsError ''ApiError'' (''Server error: '' @ string_of_nat status)"

definition fetcher :: "web \<Rightarrow> request \<Rightarrow> js_error + json" where
  "fetcher w req = bind_r (w req) (\<lambda>res. if \<not> wr_ok res then Inl (ApiError (wr_status res)) else wr_json res)"

text \<open>The cached answers by key; an invalidation drops those whose key matches.\<close>

type_synonym swr = "(string, json) js_map"

definition invalidate :: "string \<Rightarrow> swr \<Rightarrow> swr" where
  "invalidate part c = m_keep (\<lambda>k _. \<not> str_includes k part) c"

definition invalidateLoans :: "swr \<Rightarrow> swr" where "invalidateLoans = invalidate ''/loan''"

definition invalidateCollateral :: "swr \<Rightarrow> swr" where "invalidateCollateral = invalidate ''/collateral''"

subsection \<open>Lists (useLoans.ts, useCollateral.ts, LoansListClient.tsx, CollateralListClient.tsx)\<close>

definition array_of :: "json \<Rightarrow> json list" where "array_of j = (case j of JArr xs \<Rightarrow> xs | _ \<Rightarrow> [])"

definition field_array :: "string \<Rightarrow> json \<Rightarrow> json list" where
  "field_array f j = (case field f j of None \<Rightarrow> [] | Some v \<Rightarrow> array_of v)"

text \<open>The hook takes a list as it is and one in \<open>data\<close>; the hook for collateral only the latter.\<close>

definition hook_loans :: "json option \<Rightarrow> json list" where
  "hook_loans d = (case d of None \<Rightarrow> [] | Some (JArr xs) \<Rightarrow> xs | Some j \<Rightarrow> field_array ''data'' j)"

record collateral_params =
  cp_page :: "int option"
  cp_limit :: "int option"
  cp_search :: "string option"
  cp_sort :: "string option"
  cp_types :: "string list"

definition buildCollateralKey :: "collateral_params \<Rightarrow> (string \<times> string) list" where
  "buildCollateralKey ps =
     [(''page'', string_of_int (case cp_page ps of None \<Rightarrow> 1 | Some p \<Rightarrow> p)),
      (''limit'', string_of_int (case cp_limit ps of None \<Rightarrow> 10 | Some l \<Rightarrow> l))] @
     when_given ''search'' (or_empty (cp_search ps)) @ when_given ''sort'' (or_empty (cp_sort ps)) @
     map (Pair ''type'') (cp_types ps)"

definition DEFAULT_META :: json where
  "DEFAULT_META = JObj [(''total'', JNum 0), (''page'', JNum 1), (''limit'', JNum 10), (''pages'', JNum 1)]"

definition hook_collateral :: "json option \<Rightarrow> json list \<times> json" where
  "hook_collateral d =
     (case d of None \<Rightarrow> ([], DEFAULT_META)
      | Some j \<Rightarrow> (field_array ''data'' j, case field ''meta'' j of None \<Rightarrow> DEFAULT_META | Some JNull \<Rightarrow> DEFAULT_META | Some m \<Rightarrow> m))"

definition hook_owner_collateral :: "json option \<Rightarrow> json" where
  "hook_owner_collateral d =
     (case Option.bind d (field ''collaterals'') of None \<Rightarrow> JArr [] | Some JNull \<Rightarrow> JArr [] | Some v \<Rightarrow> v)"

text \<open>The pages take a list only as it is, and show nothing when the request fails.\<close>

definition list_page_items :: "js_error + web_response \<Rightarrow> json list" where
  "list_page_items answer = (case bind_r answer wr_json of Inl _ \<Rightarrow> [] | Inr j \<Rightarrow> array_of j)"

text \<open>The records of the lists, with the fields the pages use, and what a search leaves of them.\<close>

record page_loan =
  pl_id :: string
  pl_borrower :: string
  pl_amount :: rat
  pl_status :: string

record page_collateral =
  pc_id :: string
  pc_owner :: string
  pc_animal_type :: string
  pc_count :: rat
  pc_appraised_value :: rat

definition query_matches :: "string \<Rightarrow> string list \<Rightarrow> bool" where
  "query_matches q texts \<longleftrightarrow> q = [] \<or> list_ex (\<lambda>t. str_includes (to_lower t) q) texts"

definition loans_shown :: "string \<Rightarrow> string list \<Rightarrow> page_loan list \<Rightarrow> page_loan list" where
  "loans_shown q statuses loans =
     filter (\<lambda>l. query_matches (to_lower q) [pl_id l, pl_borrower l, pl_status l] \<and>
       (statuses = [] \<or> pl_status l \<in> set statuses)) loans"

definition collateral_shown :: "string \<Rightarrow> string list \<Rightarrow> page_collateral list \<Rightarrow> page_collateral list" where
  "collateral_shown q types items =
     filter (\<lambda>c. query_matches (to_lower q) [pc_id c, pc_owner c, pc_animal_type c] \<and>
       (types = [] \<or> pc_animal_type c \<in> set types)) items"

subsection \<open>Single fetches (TransactionHistory.tsx, CollateralCard.tsx, profile and detail pages)\<close>

record 'a fetch_state =
  ft_data :: 'a
  ft_loading :: bool
  ft_error :: "string option"

definition server_error :: "web_response \<Rightarrow> js_error" where
  "server_error res = JsError ''Error'' (''Server error: '' @ string_of_nat (wr_status res))"

definition or_message :: "string \<Rightarrow> string \<Rightarrow> string" where
  "or_message m d = (case truthy_str (Some m) of None \<Rightarrow> d | Some t \<Rightarrow> t)"

definition fetchTransactions :: "js_error + web_response \<Rightarrow> json list fetch_state" where
  "fetchTransactions answer =
     (case bind_r answer (\<lambda>res. if \<not> wr_ok res then Inl (server_error res) else wr_json res) of
        Inr body \<Rightarrow> \<lparr>ft_data = field_array ''data'' body, ft_loading = False, ft_error = None\<rparr>
      | Inl e \<Rightarrow> \<lparr>ft_data = [], ft_loading = False, ft_error = Some (or_message (err_message e) ''Failed to load transactions'')\<rparr>)"

definition lookup_loan :: "js_error + web_response \<Rightarrow> json option fetch_state" where
  "lookup_loan answer =
     (case bind_r answer (\<lambda>res. if \<not> wr_ok res then Inl (server_error res) else wr_json res) of
        Inr body \<Rightarrow> \<lparr>ft_data = Some body, ft_loading = False, ft_error = None\<rparr>
      | Inl e \<Rightarrow> \<lparr>ft_data = None, ft_loading = False, ft_error = Some (err_message e)\<rparr>)"

text \<open>The price history: a list, or one in \<open>data\<close>; what is shown stays when a request fails.\<close>

definition price_points :: "js_error + web_response \<Rightarrow> json list fetch_state \<Rightarrow> json list fetch_state" where
  "price_points answer s =
     (case bind_r answer (\<lambda>res.
             if \<not> wr_ok res then Inl (JsError ''Error'' (''HTTP '' @ string_of_nat (wr_status res)))
             else bind_r (wr_json res) (\<lambda>body.
               if body = JNull then Inl (JsError ''TypeError'' ''Cannot read properties of null'') else Inr body)) of
        Inr body \<Rightarrow> \<lparr>ft_data = (case body of JArr xs \<Rightarrow> xs | _ \<Rightarrow> field_array ''data'' body), ft_loading = False, ft_error = None\<rparr>
      | Inl e \<Rightarrow> s\<lparr>ft_loading := False, ft_error := Some (err_message e)\<rparr>)"

text \<open>The profile page: a body that is in stays when a later request fails.\<close>

definition load_profile :: "js_error + web_response \<Rightarrow> json option fetch_state \<Rightarrow> json option fetch_state" where
  "load_profile answer s =
     (case bind_r answer (\<lambda>res. if \<not> wr_ok res then Inl (JsError ''Error'' ''Failed to load profile'') else wr_json res) of
        Inr body \<Rightarrow> \<lparr>ft_data = Some body, ft_loading = False, ft_error = None\<rparr>
      | Inl e \<Rightarrow> s\<lparr>ft_loading := False, ft_error := Some (err_message e)\<rparr>)"

text \<open>The detail page takes \<open>collateral\<close> and \<open>loans\<close> of the body.\<close>

definition fetchDetails :: "js_error + web_response \<Rightarrow> (json option \<times> json) fetch_state \<Rightarrow> (json option \<times> json) fetch_state" where
  "fetchDetails answer s =
     (case bind_r answer (\<lambda>res. if \<not> wr_ok res then Inl (server_error res) else
             bind_r (wr_json res) (\<lambda>body. if body = JNull then Inl (JsError ''TypeError'' ''Cannot read properties of null'') else Inr body)) of
        Inr body \<Rightarrow> \<lparr>ft_data = (field ''collateral'' body,
            if truthy (field ''loans'' body) then the (field ''loans'' body) else JArr []), ft_loading = False, ft_error = None\<rparr>
      | Inl e \<Rightarrow> s\<lparr>ft_loading := False, ft_error := Some (err_message e)\<rparr>)"

text \<open>What the detail page derives from the value and the amounts.\<close>

definition detail_health :: "rat \<Rightarrow> rat list \<Rightarrow> rat option" where
  "detail_health appraised_value amounts =
     (let totalOutstanding = foldl js_add 0 amounts in
      if 0 < totalOutstanding
      then Some (js_round (js_mul (js_div appraised_value totalOutstanding) 10000)) else None)"

definition detail_at_risk :: "rat \<Rightarrow> rat list \<Rightarrow> bool" where
  "detail_at_risk appraised_value amounts =
     (case detail_health appraised_value amounts of None \<Rightarrow> False | Some h \<Rightarrow> h < 12000)"

subsection \<open>The health factor and polling (useHealthFactor.ts, usePolling.ts)\<close>

record health_hook =
  hh_healthFactor :: "js_num option"
  hh_loading :: bool
  hh_error :: "string option"
  hh_lastUpdated :: "int option"

definition open_health :: health_hook where
  "open_health = \<lparr>hh_healthFactor = None, hh_loading = False, hh_error = None, hh_lastUpdated = None\<rparr>"

definition health_begin :: "string \<Rightarrow> health_hook \<Rightarrow> health_hook" where
  "health_begin loanId h = (if loanId = [] then h else h\<lparr>hh_loading := True, hh_error := None\<rparr>)"

text \<open>\<open>Number(data.health_factor ?? 0)\<close>; \<open>toNum\<close> is \<open>Number\<close> on what is neither number nor text.\<close>

definition factor_number :: "(json \<Rightarrow> js_num) \<Rightarrow> json option \<Rightarrow> js_num" where
  "factor_number toNum v =
     (case v of None \<Rightarrow> Fin 0 | Some JNull \<Rightarrow> Fin 0 | Some (JNum x) \<Rightarrow> Fin x | Some (JStr s) \<Rightarrow> js_Number s | Some w \<Rightarrow> toNum w)"

definition health_end :: "(json \<Rightarrow> js_num) \<Rightarrow> int \<Rightarrow> js_error + web_response \<Rightarrow> health_hook \<Rightarrow> health_hook" where
  "health_end toNum now answer h =
     (case bind_r answer (\<lambda>res. if \<not> wr_ok res then Inl (server_error res) else
             bind_r (wr_json res) (\<lambda>d. if d = JNull then Inl (JsError ''TypeError'' ''Cannot read properties of null'') else Inr d)) of
        Inr d \<Rightarrow> h\<lparr>hh_healthFactor := Some (factor_number toNum (field ''health_factor'' d)), hh_lastUpdated := Some now,
                  hh_loading := False\<rparr>
      | Inl e \<Rightarrow> h\<lparr>hh_error := Some (err_message e), hh_loading := False\<rparr>)"

text \<open>What makes a poll: the mount, a tick of the timer, the tab coming to the front.\<close>

datatype poll_event = PollMount | PollTick bool | PollVisibility bool

fun polls :: "poll_event \<Rightarrow> bool" where
  "polls PollMount = True" | "polls (PollTick visible) = visible" | "polls (PollVisibility visible) = visible"

definition poll_calls :: "poll_event list \<Rightarrow> nat" where "poll_calls es = length (filter polls es)"

subsection \<open>Currency rates (useCurrencyConversion.ts, useCurrencySettings.ts)\<close>

datatype Currency = KES | NGN | GHS | USD

definition CACHE_TTL :: int where "CACHE_TTL = 5 * 60 * 1000"

definition STALE_TTL :: int where "STALE_TTL = 10 * 60 * 1000"

type_synonym rates = "Currency \<Rightarrow> rat"

record rate_cache =
  rc_rates :: rates
  rc_fetchedAt :: int

record rate_hook =
  rh_rates :: "rates option"
  rh_fetchedAt :: "int option"
  rh_loading :: bool
  rh_error :: "string option"

definition open_rates :: "rate_cache option \<Rightarrow> rate_hook" where
  "open_rates cache = \<lparr>rh_rates = map_option rc_rates cache, rh_fetchedAt = map_option rc_fetchedAt cache,
     rh_loading = False, rh_error = None\<rparr>"

text \<open>A refresh with what the request of the rates would give; the second part is the shared cache.\<close>

definition refresh_rates ::
  "bool \<Rightarrow> int \<Rightarrow> js_error + rates \<Rightarrow> rate_hook \<times> rate_cache option \<Rightarrow> rate_hook \<times> rate_cache option" where
  "refresh_rates force now answer hc =
     (let h = fst hc in
      case snd hc of
        Some c \<Rightarrow>
          if \<not> force \<and> now - rc_fetchedAt c < CACHE_TTL
          then (h\<lparr>rh_rates := Some (rc_rates c), rh_fetchedAt := Some (rc_fetchedAt c)\<rparr>, snd hc)
          else (case answer of
                  Inr r \<Rightarrow> (h\<lparr>rh_rates := Some r, rh_fetchedAt := Some now, rh_error := None, rh_loading := False\<rparr>,
                            Some \<lparr>rc_rates = r, rc_fetchedAt = now\<rparr>)
                | Inl e \<Rightarrow> (h\<lparr>rh_error := Some (err_message e), rh_loading := False\<rparr>, snd hc))
      | None \<Rightarrow>
          (case answer of
             Inr r \<Rightarrow> (h\<lparr>rh_rates := Some r, rh_fetchedAt := Some now, rh_error := None, rh_loading := False\<rparr>,
                       Some \<lparr>rc_rates = r, rc_fetchedAt = now\<rparr>)
           | Inl e \<Rightarrow> (h\<lparr>rh_error := Some (err_message e), rh_loading := False\<rparr>, None)))"

definition rates_stale :: "int \<Rightarrow> rate_hook \<Rightarrow> bool" where
  "rates_stale now h = (case rh_fetchedAt h of None \<Rightarrow> False | Some t \<Rightarrow> t \<noteq> 0 \<and> STALE_TTL < now - t)"

definition convert :: "rat \<Rightarrow> Currency \<Rightarrow> rate_hook \<Rightarrow> rat option" where
  "convert xlmAmount currency h = (case rh_rates h of None \<Rightarrow> None | Some r \<Rightarrow> Some (js_mul xlmAmount (r currency)))"

record currency_settings =
  cu_currency :: string
  cu_enabled :: bool
  cu_store_currency :: "string option"
  cu_store_enabled :: "string option"

definition open_settings :: "string option \<Rightarrow> string option \<Rightarrow> currency_settings" where
  "open_settings c e =
     \<lparr>cu_currency = (case truthy_str c of None \<Rightarrow> ''KES'' | Some x \<Rightarrow> x),
      cu_enabled = (case e of None \<Rightarrow> True | Some t \<Rightarrow> t = ''true''), cu_store_currency = c, cu_store_enabled = e\<rparr>"

definition setCurrency :: "string \<Rightarrow> currency_settings \<Rightarrow> currency_settings" where
  "setCurrency c s = s\<lparr>cu_currency := c, cu_store_currency := Some c\<rparr>"

definition setEnabled :: "bool \<Rightarrow> currency_settings \<Rightarrow> currency_settings" where
  "setEnabled v s = s\<lparr>cu_enabled := v, cu_store_enabled := Some (if v then ''true'' else ''false'')\<rparr>"

subsection \<open>The preview of a repayment (LoanRepaymentCalculator.tsx)\<close>

record calculator =
  ca_loanId :: string
  ca_amount :: string
  ca_loanOptions :: "rat list"
  ca_loansLoaded :: bool
  ca_preview :: "json option"
  ca_loading :: bool
  ca_error :: "string option"

text \<open>The ids offered: those that read as a finite number; \<open>toNum\<close> as above.\<close>

definition option_ids :: "(json \<Rightarrow> js_num) \<Rightarrow> json \<Rightarrow> rat list" where
  "option_ids toNum body =
     concat (map (\<lambda>item. case (case field ''id'' item of Some (JNum x) \<Rightarrow> Fin x | Some (JStr s) \<Rightarrow> js_Number s
         | None \<Rightarrow> NaN | Some w \<Rightarrow> toNum w) of Fin x \<Rightarrow> [x] | _ \<Rightarrow> []) (field_array ''data'' body))"

definition loadLoans :: "(json \<Rightarrow> js_num) \<Rightarrow> js_error + web_response \<Rightarrow> calculator \<Rightarrow> calculator" where
  "loadLoans toNum answer c =
     (case answer of
        Inl _ \<Rightarrow> c\<lparr>ca_loansLoaded := True\<rparr>
      | Inr res \<Rightarrow>
          if \<not> wr_ok res then c
          else (case wr_json res of
                  Inl _ \<Rightarrow> c\<lparr>ca_loansLoaded := True\<rparr>
                | Inr body \<Rightarrow> c\<lparr>ca_loanOptions := option_ids toNum body, ca_loansLoaded := True\<rparr>))"

text \<open>Whether the two fields make a request, with its body; otherwise the preview is dropped at once.\<close>

definition preview_request :: "calculator \<Rightarrow> json option" where
  "preview_request c =
     (let i = js_Number (ca_loanId c); a = js_Number (ca_amount c) in
      if \<not> num_is_integer i \<or> num_less i (Fin 0) \<or> \<not> num_is_finite a \<or> num_le a (Fin 0) then None
      else Some (JObj [(''loan_id'', num_json i), (''amount'', num_json a)]))"

definition show_preview :: "(json \<Rightarrow> string) \<Rightarrow> js_error + web_response \<Rightarrow> calculator \<Rightarrow> calculator" where
  "show_preview text answer c =
     (let d = ''Unable to calculate repayment preview'' in
      case bind_r answer (\<lambda>res. bind_r (wr_json res) (\<lambda>body. Inr (wr_ok res, body))) of
        Inl e \<Rightarrow> c\<lparr>ca_preview := None, ca_error := Some (or_message (err_message e) d), ca_loading := False\<rparr>
      | Inr (True, body) \<Rightarrow> c\<lparr>ca_preview := Some body, ca_error := None, ca_loading := False\<rparr>
      | Inr (False, body) \<Rightarrow> c\<lparr>ca_preview := None, ca_loading := False, ca_error := Some
          (case field ''error'' body of
             Some v \<Rightarrow> if truthy (Some v) then (case v of JStr s \<Rightarrow> s | _ \<Rightarrow> text v) else d
           | None \<Rightarrow> d)\<rparr>)"

definition calculator_change :: "calculator \<Rightarrow> calculator" where
  "calculator_change c = (if preview_request c = None then c\<lparr>ca_preview := None, ca_error := None\<rparr> else c)"

subsection \<open>Notification switches (NotificationPreferences.tsx)\<close>

text \<open>The switches are what the server last sent, of any shape, or the defaults.\<close>

record notification_prefs =
  np_settings :: json
  np_loading :: bool
  np_notices :: "notice list"

definition open_prefs :: notification_prefs where
  "open_prefs = \<lparr>np_settings = JObj [(''healthFactorAlerts'', JBool True), (''repaymentReminders'', JBool True),
     (''liquidationWarnings'', JBool True)], np_loading = True, np_notices = []\<rparr>"

text \<open>The answer is taken without a look at its status.\<close>

definition load_prefs :: "js_error + web_response \<Rightarrow> notification_prefs \<Rightarrow> notification_prefs" where
  "load_prefs answer p =
     (case bind_r answer wr_json of
        Inr d \<Rightarrow> p\<lparr>np_settings := d, np_loading := False\<rparr> | Inl _ \<Rightarrow> p\<lparr>np_loading := False\<rparr>)"

text \<open>\<open>{ ...settings, [key]: v }\<close>.\<close>

definition with_field :: "string \<Rightarrow> json \<Rightarrow> json \<Rightarrow> json" where
  "with_field k v j = (case j of JObj kvs \<Rightarrow> JObj (m_set k v kvs) | _ \<Rightarrow> JObj [(k, v)])"

text \<open>\<open>settings[key]\<close> of \<open>null\<close> throws before anything is changed.\<close>

definition toggle_begin :: "string \<Rightarrow> notification_prefs \<Rightarrow> (json \<times> notification_prefs) option" where
  "toggle_begin k p =
     (if np_settings p = JNull then None
      else (let nxt = with_field k (JBool (\<not> truthy (field k (np_settings p)))) (np_settings p) in
            Some (np_settings p, p\<lparr>np_settings := nxt\<rparr>)))"

definition toggle_end :: "json \<Rightarrow> js_error + web_response \<Rightarrow> notification_prefs \<Rightarrow> notification_prefs" where
  "toggle_end prev answer p =
     (case bind_r answer (\<lambda>res. if \<not> wr_ok res then Inl (JsError ''Error'' []) else wr_json res) of
        Inr saved \<Rightarrow> p\<lparr>np_settings := saved, np_notices := np_notices p @ [(ToastSuccess, ''Notification preference saved.'')]\<rparr>
      | Inl _ \<Rightarrow> p\<lparr>np_settings := prev,
          np_notices := np_notices p @ [(ToastError, ''Failed to save preference. Please try again.'')]\<rparr>)"

subsection \<open>Onboarding (useOnboarding.ts, OnboardingModal.tsx) and loading times (useMinLoadingTime.ts)\<close>

text \<open>Whether a count is 0: \<open>x.length === 0\<close> on any value; a request that fails counts 0.\<close>

definition zero_length :: "json \<Rightarrow> bool" where
  "zero_length j =
     (case j of JArr xs \<Rightarrow> xs = [] | JStr s \<Rightarrow> s = [] | JObj _ \<Rightarrow> field ''length'' j = Some (JNum 0) | _ \<Rightarrow> False)"

definition answer_empty :: "(json \<Rightarrow> json) \<Rightarrow> js_error + web_response \<Rightarrow> bool" where
  "answer_empty items answer = (case bind_r answer wr_json of Inr j \<Rightarrow> zero_length (items j) | Inl _ \<Rightarrow> True)"

definition answer_collaterals :: "json \<Rightarrow> json" where
  "answer_collaterals d = (case field ''collaterals'' d of None \<Rightarrow> JArr [] | Some JNull \<Rightarrow> JArr [] | Some v \<Rightarrow> v)"

definition answer_loans :: "json \<Rightarrow> json" where
  "answer_loans d = JArr (case field ''data'' d of Some (JArr xs) \<Rightarrow> xs | _ \<Rightarrow> array_of d)"

text \<open>Whether the onboarding is opened; a wallet that has collateral or loans does not see it.\<close>

definition showOnboarding ::
  "string option \<Rightarrow> string option \<Rightarrow> js_error + web_response \<Rightarrow> js_error + web_response \<Rightarrow> bool" where
  "showOnboarding completed walletAddress collaterals loans \<longleftrightarrow>
     truthy_str completed = None \<and>
     (truthy_str walletAddress = None \<or>
      answer_empty answer_collaterals collaterals \<and> answer_empty answer_loans loans)"

record onboarding =
  ob_step :: nat
  ob_completed :: "string option"
  ob_open :: bool
  ob_pushed :: "string list"

definition ONBOARDING_ACTIONS :: "string option list" where
  "ONBOARDING_ACTIONS = [None, Some ''/borrow'', Some ''/borrow'']"

definition onboarding_complete :: "onboarding \<Rightarrow> onboarding" where
  "onboarding_complete o' = o'\<lparr>ob_completed := Some ''true'', ob_open := False\<rparr>"

definition onboarding_next :: "onboarding \<Rightarrow> onboarding" where
  "onboarding_next o' =
     (if ob_step o' + 1 < length ONBOARDING_ACTIONS then o'\<lparr>ob_step := ob_step o' + 1\<rparr> else onboarding_complete o')"

definition onboarding_primary :: "onboarding \<Rightarrow> onboarding" where
  "onboarding_primary o' =
     (case ONBOARDING_ACTIONS ! ob_step o' of
        Some href \<Rightarrow> (onboarding_complete o')\<lparr>ob_pushed := ob_pushed o' @ [href]\<rparr>
      | None \<Rightarrow> onboarding_next o')"

text \<open>The time an operation that took \<open>elapsed\<close> keeps the loading state.\<close>

definition min_loading :: "int \<Rightarrow> int \<Rightarrow> int" where
  "min_loading ms elapsed = (if 0 < ms - elapsed then ms else elapsed)"

subsection \<open>Facts\<close>

lemma invalidated_gone: "m_wf c \<Longrightarrow> str_includes k part \<Longrightarrow> m_get (invalidate part c) k = None"
  by (simp add: invalidate_def m_get_keep split: option.split)

lemma invalidated_others: "m_wf c \<Longrightarrow> \<not> str_includes k part \<Longrightarrow> m_get (invalidate part c) k = m_get c k"
  by (simp add: invalidate_def m_get_keep split: option.split)

lemma toggle_failure_restores:
  "toggle_begin k p = Some (prev, q) \<Longrightarrow> np_settings (toggle_end prev (Inl e) q) = np_settings p"
  by (auto simp: toggle_begin_def toggle_end_def Let_def split: if_splits)

lemma min_loading_bounds: "ms \<le> min_loading ms elapsed" "elapsed \<le> min_loading ms elapsed"
  by (auto simp: min_loading_def)

lemma list_answers:
  "fst (list_loans_handler env now req s) = Inr res \<Longrightarrow> list_page_items (Inr (of_response res)) = []"
  "fst (list_collateral_handler env now req s) = Inr res \<Longrightarrow> list_page_items (Inr (of_response res)) = []"
  "fst (list_loans_handler env now req s) = Inr res \<Longrightarrow> rs_status res = 200 \<Longrightarrow>
     \<exists>p l. hook_loans (Some (rs_body res)) =
       map (loan_json env) (ls_data (listLoans (ev_parse_date env) (no_loan_filter\<lparr>lf_page := Some p, lf_limit := Some l\<rparr>) (as_store s)))"
proof -
  have page: "page_params k p l = Inl out \<Longrightarrow> \<exists>msg. out = fail 400 msg" for k p l and out :: outcome
    by (auto simp: page_params_def split: if_splits)
  have items: "list_page_items (Inr (of_response r)) = array_of (rs_body r)" for r
    by (simp add: list_page_items_def of_response_def)
  have err: "array_of (error_body msg) = []" for msg by (simp add: array_of_def error_body_def)
  show "fst (list_loans_handler env now req s) = Inr res \<Longrightarrow> list_page_items (Inr (of_response res)) = []"
    unfolding items by (auto simp: list_loans_handler_def Let_def array_of_def error_body_def split: sum.splits if_splits dest!: page)
  show "fst (list_collateral_handler env now req s) = Inr res \<Longrightarrow> list_page_items (Inr (of_response res)) = []"
    unfolding items by (auto simp: list_collateral_handler_def page_json_def array_of_def split: option.splits)
  show "fst (list_loans_handler env now req s) = Inr res \<Longrightarrow> rs_status res = 200 \<Longrightarrow>
     \<exists>p l. hook_loans (Some (rs_body res)) =
       map (loan_json env) (ls_data (listLoans (ev_parse_date env) (no_loan_filter\<lparr>lf_page := Some p, lf_limit := Some l\<rparr>) (as_store s)))"
    by ((auto simp: list_loans_handler_def Let_def hook_loans_def field_array_def array_of_def split: sum.splits if_splits dest!: page); blast)
qed

text \<open>The pages of loans and of collateral list nothing, whatever the backend holds: its routes answer with
  the list in a field, and the pages take only an answer that is a list. The hook useLoans reads it.\<close>

theorem list_pages_stay_empty:
  assumes "list_loans_handler env now req s = (Inr res, s1)" "list_collateral_handler env now req' s = (Inr res', s2)"
  shows "list_page_items (Inr (of_response res)) = [] \<and> list_page_items (Inr (of_response res')) = [] \<and>
    (rs_status res = 200 \<longrightarrow> (\<exists>p l. hook_loans (Some (rs_body res)) =
       map (loan_json env) (ls_data (listLoans (ev_parse_date env) (no_loan_filter\<lparr>lf_page := Some p, lf_limit := Some l\<rparr>) (as_store s)))))"
  using list_answers(1,3) [of env now req s res] list_answers(2) [of env now req' s res'] assms by simp

theorem list_pages_stay_empty_witness:
  "\<exists>res. fst (list_loans_handler calm_api 0 (get_request ''/api/loans'') herd_api) = Inr res \<and> rs_status res = 200 \<and>
     list_page_items (Inr (of_response res)) = []"
proof -
  have p: "page_params ''pageSize'' (Fin 1) (Fin 20) = Inr (1, 20)"
    using is_integer_of_int [of 1] is_integer_of_int [of 20] by (simp add: page_params_def pos_integer_def)
  have "\<exists>res. fst (list_loans_handler calm_api 0 (get_request ''/api/loans'') herd_api) = Inr res \<and> rs_status res = 200"
    by (simp add: list_loans_handler_def query_number_def query_def get_request_def p Let_def with_header_def respond_def)
  then obtain res where r: "fst (list_loans_handler calm_api 0 (get_request ''/api/loans'') herd_api) = Inr res" "rs_status res = 200"
    by blast
  obtain s1 where r1: "list_loans_handler calm_api 0 (get_request ''/api/loans'') herd_api = (Inr res, s1)"
    using r(1) by (metis prod.collapse)
  obtain out s2 where o: "list_collateral_handler calm_api 0 (get_request ''/api/collateral'') herd_api = (out, s2)"
    by (metis prod.collapse)
  then have "\<exists>res'. out = Inr res'" by (auto simp: list_collateral_handler_def split: option.splits)
  then obtain res' where "out = Inr res'" by blast
  from list_pages_stay_empty [OF r1 o [unfolded this]] r show ?thesis by blast
qed

end
