(* ===== verification/Widgets.thy ===== *)
theory Widgets
  imports Search_State Wallet_Client
begin

section \<open>Widgets with state (frontend/src/components, hooks and middleware.ts)\<close>

text \<open>
  What the smaller components do: the theme with its saved choice, the keyboard shortcuts and the dialog that lists
  them, the glossary terms, the questions and their search, the navigation, the buttons of a paged list, the chips of
  the active filters, the fields of forms, and the redirect of the maintenance mode. Events come one after
  another and a component is rendered between two of them, as React does for discrete events; storage does
  not fail. The theorems: the theme chosen is the theme shown, also after a reload; the buttons lead through all pages; the
  chips are exactly the active filters; and which keys and taps do nothing.
\<close>

subsection \<open>The theme (ThemeProvider.tsx)\<close>

datatype Theme = Light | Dark

fun theme_text :: "Theme \<Rightarrow> string" where
  "theme_text Light = ''light''" | "theme_text Dark = ''dark''"

text \<open>The state of the provider, the class of the document, and what is saved.\<close>

record theme_state =
  th_theme :: Theme
  th_dark_class :: bool
  th_stored :: "string option"

definition ThemeScript :: "bool \<Rightarrow> string option \<Rightarrow> bool" where
  "ThemeScript prefers_dark stored =
     (let preferred = (if prefers_dark then ''dark'' else ''light'');
          theme = (case truthy_str stored of Some t \<Rightarrow> t | None \<Rightarrow> preferred) in
      theme = ''dark'')"

text \<open>A page that loads: the script sets the class, the provider reads it.\<close>

definition theme_load :: "bool \<Rightarrow> string option \<Rightarrow> theme_state" where
  "theme_load prefers_dark stored =
     (let isDark = ThemeScript prefers_dark stored in
      \<lparr>th_theme = (if isDark then Dark else Light), th_dark_class = isDark, th_stored = stored\<rparr>)"

definition theme_prefers :: "bool \<Rightarrow> theme_state \<Rightarrow> theme_state" where
  "theme_prefers matches s =
     (if truthy_str (th_stored s) = None
      then (let nxt = (if matches then Dark else Light) in s\<lparr>th_theme := nxt, th_dark_class := (nxt = Dark)\<rparr>) else s)"

definition theme_toggle :: "theme_state \<Rightarrow> theme_state" where
  "theme_toggle s =
     (let nxt = (if th_theme s = Dark then Light else Dark) in
      s\<lparr>th_theme := nxt, th_stored := Some (theme_text nxt), th_dark_class := (nxt = Dark)\<rparr>)"

datatype theme_event = ToggleTheme | PreferenceChanges bool

fun theme_step :: "theme_event \<Rightarrow> theme_state \<Rightarrow> theme_state" where
  "theme_step ToggleTheme s = theme_toggle s" | "theme_step (PreferenceChanges d) s = theme_prefers d s"

definition theme_run :: "theme_event list \<Rightarrow> theme_state \<Rightarrow> theme_state" where
  "theme_run evs s = foldl (\<lambda>s e. theme_step e s) s evs"

definition toggle_label :: "Theme \<Rightarrow> string" where
  "toggle_label t = (if t = Dark then ''Switch to light mode'' else ''Switch to dark mode'')"

subsection \<open>Keyboard shortcuts (useKeyboardShortcuts.ts, KeyboardShortcutsProvider.tsx, ShortcutsHelpModal.tsx)\<close>

record key_event =
  ke_key :: string
  ke_modified :: bool

datatype shortcut_action = ToggleHelp | GoTo string | CloseHelp

record shortcut =
  sc_key :: string
  sc_hint :: string
  sc_label :: string
  sc_action :: shortcut_action

definition isInputFocused :: "string option \<Rightarrow> bool \<Rightarrow> bool" where
  "isInputFocused active_tag dialog_open =
     (case active_tag of
        None \<Rightarrow> False
      | Some tag \<Rightarrow> if to_lower tag \<in> {''input'', ''textarea'', ''select''} then True else dialog_open)"

definition shortcuts :: "shortcut list" where
  "shortcuts =
     [\<lparr>sc_key = ''?'', sc_hint = ''?'', sc_label = ''Show keyboard shortcuts'', sc_action = ToggleHelp\<rparr>,
      \<lparr>sc_key = ''h'', sc_hint = ''H'', sc_label = ''Go to Home'', sc_action = GoTo ''/''\<rparr>,
      \<lparr>sc_key = ''d'', sc_hint = ''D'', sc_label = ''Go to Dashboard'', sc_action = GoTo ''/dashboard''\<rparr>,
      \<lparr>sc_key = ''b'', sc_hint = ''B'', sc_label = ''Borrow (get a loan)'', sc_action = GoTo ''/borrow''\<rparr>,
      \<lparr>sc_key = ''r'', sc_hint = ''R'', sc_label = ''Go to repay (dashboard)'', sc_action = GoTo ''/dashboard''\<rparr>,
      \<lparr>sc_key = ''Escape'', sc_hint = ''Esc'', sc_label = ''Close modal / cancel'', sc_action = CloseHelp\<rparr>]"

record help_state =
  hs_helpOpen :: bool
  hs_path :: string

fun do_shortcut :: "shortcut_action \<Rightarrow> help_state \<Rightarrow> help_state" where
  "do_shortcut ToggleHelp s = s\<lparr>hs_helpOpen := \<not> hs_helpOpen s\<rparr>"
| "do_shortcut (GoTo p) s = s\<lparr>hs_path := p\<rparr>"
| "do_shortcut CloseHelp s = s\<lparr>hs_helpOpen := False\<rparr>"

text \<open>The listener of the window; \<open>other_dialog\<close> is whether a dialog of another component is open.\<close>

definition shortcut_handler :: "string option \<Rightarrow> bool \<Rightarrow> key_event \<Rightarrow> help_state \<Rightarrow> help_state" where
  "shortcut_handler active_tag other_dialog e s =
     (if ke_modified e then s
      else if isInputFocused active_tag (hs_helpOpen s \<or> other_dialog) then s
      else (case find (\<lambda>c. sc_key c = ke_key e) shortcuts of None \<Rightarrow> s | Some c \<Rightarrow> do_shortcut (sc_action c) s))"

text \<open>A key pressed while the focus is in the dialog reaches the dialog first, which stops Escape.\<close>

definition help_keydown :: "string option \<Rightarrow> bool \<Rightarrow> key_event \<Rightarrow> help_state \<Rightarrow> help_state" where
  "help_keydown active_tag other_dialog e s =
     (if hs_helpOpen s \<and> ke_key e = ''Escape'' then s\<lparr>hs_helpOpen := False\<rparr>
      else shortcut_handler active_tag other_dialog e s)"

subsection \<open>Glossary terms (GlossaryTerm.tsx)\<close>

datatype term_event = TermMouseEnter | TermMouseLeave | TermFocus | TermBlur | TermClick | TermKey string | PressOutside

fun term_visible :: "term_event \<Rightarrow> bool \<Rightarrow> bool" where
  "term_visible TermMouseEnter v = True"
| "term_visible TermMouseLeave v = False"
| "term_visible TermFocus v = True"
| "term_visible TermBlur v = False"
| "term_visible TermClick v = (\<not> v)"
| "term_visible (TermKey k) v = (if k = ''Enter'' \<or> k = '' '' then \<not> v else v)"
| "term_visible PressOutside v = False"

subsection \<open>Questions (FaqClient.tsx)\<close>

record faq_item =
  fq_q :: string
  fq_a :: string

record faq_category =
  fc_id :: string
  fc_label :: string
  fc_items :: "faq_item list"

definition faq_matches :: "string \<Rightarrow> faq_item \<Rightarrow> bool" where
  "faq_matches words it =
     (let q = to_lower words in str_includes (to_lower (fq_q it)) q \<or> str_includes (to_lower (fq_a it)) q)"

definition faq_filtered :: "string \<Rightarrow> string option \<Rightarrow> faq_category list \<Rightarrow> faq_category list" where
  "faq_filtered words activeCategory cats =
     filter (\<lambda>cat. (truthy_str activeCategory = None \<or> activeCategory = Some (fc_id cat)) \<and> fc_items cat \<noteq> [])
       (map (\<lambda>cat. cat\<lparr>fc_items := filter (faq_matches words) (fc_items cat)\<rparr>) cats)"

definition faq_press :: "string \<Rightarrow> string option \<Rightarrow> string option" where
  "faq_press k activeCategory = (if activeCategory = Some k then None else Some k)"

subsection \<open>Navigation (Navbar.tsx, app/admin/layout.tsx) and maintenance (middleware.ts)\<close>

definition NAV_SECTIONS :: "(string \<times> string) list" where
  "NAV_SECTIONS =
     [(''/dashboard'', ''Dashboard''), (''/loans'', ''Loans''), (''/collateral'', ''Collateral''), (''/settings'', ''Settings'')]"

definition nav_active :: "string \<Rightarrow> string \<Rightarrow> bool" where
  "nav_active pathname href \<longleftrightarrow> pathname = href \<or> starts_with (href @ ''/'') pathname"

definition truncatedAddress :: "string option \<Rightarrow> string option" where
  "truncatedAddress address =
     (case truthy_str address of None \<Rightarrow> None
      | Some a \<Rightarrow> Some (take 4 a @ [CHR 0xE2, CHR 0x80, CHR 0xA6] @ drop (length a - 4) a))"

definition adminNav :: "(string \<times> string) list" where
  "adminNav =
     [(''/admin/moderation'', ''Moderation''), (''/admin/statistics'', ''Statistics''), (''/admin/users'', ''Users''),
      (''/admin/reports'', ''Reports''), (''/admin/liquidators'', ''Liquidators'')]"

definition admin_nav_active :: "string \<Rightarrow> string \<Rightarrow> bool" where "admin_nav_active pathname href \<longleftrightarrow> pathname = href"

text \<open>The address a request is redirected to, if it is.\<close>

definition maintenance_redirect :: "bool \<Rightarrow> string \<Rightarrow> string option" where
  "maintenance_redirect maintenance pathname =
     (if maintenance \<and> pathname \<noteq> ''/maintenance'' \<and> \<not> starts_with ''/_next'' pathname \<and> \<not> starts_with ''/favicon'' pathname
      then Some ''/maintenance'' else None)"

subsection \<open>Pages and filters (Pagination.tsx, SearchFilterBar.tsx)\<close>

definition prev_disabled :: "pagination \<Rightarrow> bool" where "prev_disabled p \<longleftrightarrow> pg_page p \<le> 1"

definition next_disabled :: "pagination \<Rightarrow> bool" where "next_disabled p \<longleftrightarrow> pg_totalPages p \<le> pg_page p"

text \<open>A button that is disabled does nothing.\<close>

definition press_next :: "nat \<Rightarrow> params \<Rightarrow> params" where
  "press_next n ps = (let p = usePagination n ps in if next_disabled p then ps else setPage (pg_page p + 1) ps)"

definition press_prev :: "nat \<Rightarrow> params \<Rightarrow> params" where
  "press_prev n ps = (let p = usePagination n ps in if prev_disabled p then ps else setPage (pg_page p - 1) ps)"

text \<open>The chips of the active filters: what they say and what removing them does.\<close>

definition filter_chips :: "FilterState \<Rightarrow> (string \<times> search_action) list" where
  "filter_chips f =
     (if \<not> hasActiveFilters f then []
      else (if fs_query f = [] then [] else [([CHR 34] @ fs_query f @ [CHR 34], SetQuery [])]) @
           map (\<lambda>s. (s, ToggleStatus s)) (fs_statuses f) @ map (\<lambda>t. (t, ToggleType t)) (fs_types f) @
           (if fs_dateFrom f = [] then [] else [(''From: '' @ fs_dateFrom f, SetDateFrom [])]) @
           (if fs_dateTo f = [] then [] else [(''To: '' @ fs_dateTo f, SetDateTo [])]))"

subsection \<open>Fields of forms (FormField.tsx)\<close>

text \<open>What a field is rendered with: its id, whether it is marked invalid, which element describes it, and the id and the text of
  the message under it.\<close>

record field_view =
  fv_id :: string
  fv_invalid :: bool
  fv_describedby :: "string option"
  fv_message :: "(string \<times> string) option"
  fv_label :: "(string \<times> string \<times> bool) option"
  fv_class :: string

definition inputIdle :: string where "inputIdle = ''border-brown-300''"

definition inputError :: string where "inputError = ''border-error focus:ring-error/30 focus:border-error''"

definition FieldError :: "string \<Rightarrow> string option \<Rightarrow> (string \<times> string) option" where
  "FieldError k message = map_option (Pair k) (truthy_str message)"

definition Input_view :: "string \<Rightarrow> string option \<Rightarrow> string option \<Rightarrow> bool \<Rightarrow> string option \<Rightarrow> field_view" where
  "Input_view autoId idProp label required error =
     (let k = (case idProp of Some i \<Rightarrow> i | None \<Rightarrow> autoId); errorId = k @ ''-error''; bad = (truthy_str error \<noteq> None) in
      \<lparr>fv_id = k, fv_invalid = bad, fv_describedby = (if bad then Some errorId else None),
       fv_message = FieldError errorId error,
       fv_label = map_option (\<lambda>l. (k, l, required)) (truthy_str label),
       fv_class = (if bad then inputError else inputIdle)\<rparr>)"

definition Checkbox_view :: "string \<Rightarrow> string option \<Rightarrow> string \<Rightarrow> string option \<Rightarrow> field_view" where
  "Checkbox_view autoId idProp label error =
     (let k = (case idProp of Some i \<Rightarrow> i | None \<Rightarrow> autoId); errorId = k @ ''-error''; bad = (truthy_str error \<noteq> None) in
      \<lparr>fv_id = k, fv_invalid = bad, fv_describedby = (if bad then Some errorId else None),
       fv_message = FieldError errorId error, fv_label = Some (k, label, False), fv_class = []\<rparr>)"

text \<open>The three text fields differ in their element only.\<close>

definition Textarea_view :: "string \<Rightarrow> string option \<Rightarrow> string option \<Rightarrow> bool \<Rightarrow> string option \<Rightarrow> field_view" where
  "Textarea_view = Input_view"

definition Select_view :: "string \<Rightarrow> string option \<Rightarrow> string option \<Rightarrow> bool \<Rightarrow> string option \<Rightarrow> field_view" where
  "Select_view = Input_view"

text \<open>A group of radio buttons: the id of each with whether it is checked, what describes the group, and its message.\<close>

definition RadioGroup_view ::
  "string \<Rightarrow> string list \<Rightarrow> string option \<Rightarrow> string option \<Rightarrow> (string \<times> bool) list \<times> string option \<times> (string \<times> string) option" where
  "RadioGroup_view groupId options value error =
     (let errorId = groupId @ ''-error'' in
      (map (\<lambda>v. (groupId @ ''-'' @ v, value = Some v)) options,
       if truthy_str error \<noteq> None then Some errorId else None, FieldError errorId error))"

text \<open>Whether a button can be pressed (Button.tsx).\<close>

datatype ButtonState = ButtonIdle | ButtonLoading | ButtonSuccess | ButtonError

definition button_disabled :: "bool \<Rightarrow> bool \<Rightarrow> ButtonState \<Rightarrow> bool" where
  "button_disabled disabled loading state \<longleftrightarrow> disabled \<or> loading \<or> state = ButtonLoading"

subsection \<open>The wallet and the network (WalletConnect.tsx, WalletHeader.tsx, useNetworkStatus.ts)\<close>

datatype wallet_view = WalletUnknown | WalletMissing | WalletShown string | WalletButton bool "string option"

definition shown_address :: "string \<Rightarrow> string" where
  "shown_address a = take 8 a @ [CHR 0xE2, CHR 0x80, CHR 0xA6] @ drop (length a - 6) a"

definition WalletConnect_view :: "wallet \<Rightarrow> wallet_view" where
  "WalletConnect_view w =
     (case wl_freighterInstalled w of
        None \<Rightarrow> WalletUnknown
      | Some False \<Rightarrow> WalletMissing
      | Some True \<Rightarrow>
          (case truthy_str (wl_address w) of
             Some a \<Rightarrow> WalletShown (shown_address a)
           | None \<Rightarrow> WalletButton (wl_connecting w) (truthy_str (wl_error w))))"

definition WalletHeader_view :: "wallet \<Rightarrow> wallet_view" where
  "WalletHeader_view w =
     (case truthy_str (wl_address w) of
        Some a \<Rightarrow> WalletShown (shown_address a)
      | None \<Rightarrow> if wl_freighterInstalled w = Some False then WalletMissing
                else WalletButton (wl_connecting w \<or> wl_freighterInstalled w = None) None)"

definition network_event :: "bool \<Rightarrow> bool \<Rightarrow> bool" where "network_event online isOnline = online"

definition offline_banner :: "bool \<Rightarrow> bool" where "offline_banner isOnline \<longleftrightarrow> \<not> isOnline"

subsection \<open>Badges and amounts (StatusBadge.tsx, CollateralGrid.tsx)\<close>

text \<open>The text of a badge and its label for readers of the screen; a status without an entry is shown as it is.\<close>

definition STATUS_CONFIG :: "string \<Rightarrow> (string \<times> string) option" where
  "STATUS_CONFIG = map_of
     [(''active'', (''Active'', ''Status: Active'')), (''repaid'', (''Repaid'', ''Status: Repaid'')),
      (''defaulted'', (''Defaulted'', ''Status: Defaulted'')), (''liquidated'', (''Liquidated'', ''Status: Liquidated'')),
      (''available'', (''Available'', ''Status: Available'')), (''pledged'', (''Pledged'', ''Status: Pledged''))]"

definition StatusBadge :: "string \<Rightarrow> string \<times> string option" where
  "StatusBadge status = (case STATUS_CONFIG status of None \<Rightarrow> (status, None) | Some (l, a) \<Rightarrow> (l, Some a))"

text \<open>The appraised value on a card, in XLM and in dollars, as the numbers the texts show; \<open>parseFloat\<close> of the first is that number.\<close>

definition card_xlm :: "rat \<Rightarrow> rat" where "card_xlm appraised_value = to_fixed 2 (js_div appraised_value 10000000)"

definition card_usd :: "rat \<Rightarrow> rat" where "card_usd appraised_value = to_fixed 2 (js_mul (card_xlm appraised_value) (fl (12 / 100)))"

subsection \<open>Properties\<close>

text \<open>The theme that is shown is the theme the provider has, and a theme that was chosen is the one after a
  reload, whatever the system prefers by then and whatever happened in between.\<close>

theorem theme_survives_reload:
  assumes "stored \<in> {None, Some ''light'', Some ''dark''}"
  shows "let s = theme_run evs (theme_load prefers stored) in
    (th_dark_class s \<longleftrightarrow> th_theme s = Dark) \<and>
    (th_stored s = None \<or> th_theme (theme_load prefers' (th_stored s)) = th_theme s)"
proof -
  define ok where "ok s \<longleftrightarrow> (th_dark_class s \<longleftrightarrow> th_theme s = Dark) \<and> (th_stored s = None \<or> th_stored s = Some (theme_text (th_theme s)))" for s :: theme_state
  have load: "ok (theme_load prefers stored)"
    using assms by (auto simp: ok_def theme_load_def ThemeScript_def truthy_str_def Let_def)
  have "ok (theme_step e s)" if "ok s" for e s
    using that by (cases e; cases "th_theme s") (auto simp: ok_def theme_toggle_def theme_prefers_def truthy_str_def Let_def split: option.splits)
  then have "ok (foldl (\<lambda>s e. theme_step e s) s evs)" if "ok s" for s
    using that by (induction evs arbitrary: s) auto
  then have "ok (theme_run evs (theme_load prefers stored))" using load by (simp add: theme_run_def)
  moreover have "th_theme (theme_load p (Some (theme_text t))) = t" for p t
    by (cases t) (simp_all add: theme_load_def ThemeScript_def truthy_str_def Let_def)
  ultimately show ?thesis unfolding ok_def Let_def by metis
qed

theorem theme_survives_reload_witness:
  "th_theme (theme_load False (th_stored (theme_run [ToggleTheme, PreferenceChanges False] (theme_load False None)))) = Dark"
proof -
  have "th_stored (theme_run [ToggleTheme, PreferenceChanges False] (theme_load False None)) = Some ''dark''"
    "th_theme (theme_run [ToggleTheme, PreferenceChanges False] (theme_load False None)) = Dark"
    by code_simp+
  then show ?thesis using theme_survives_reload [of None "[ToggleTheme, PreferenceChanges False]" False False] by (simp add: Let_def)
qed

text \<open>The dialog of the shortcuts says that ? toggles it, but no shortcut works while a dialog is open: only Escape closes
  it, by the dialog's own listener.\<close>

lemma help_not_toggled:
  "hs_helpOpen s \<Longrightarrow> active \<noteq> None \<Longrightarrow> ke_key e = ''?'' \<Longrightarrow> help_keydown active other e s = s"
  "hs_helpOpen s \<Longrightarrow> ke_key e = ''Escape'' \<Longrightarrow> \<not> hs_helpOpen (help_keydown active other e s)"
  by (auto simp: help_keydown_def shortcut_handler_def isInputFocused_def split: option.splits)

text \<open>A tap on a term shows its explanation with the focus and hides it again with the click.\<close>

lemma tap_hides_term: "foldl (\<lambda>v e. term_visible e v) False [TermMouseEnter, TermFocus, TermClick] = False"
  by simp

text \<open>The questions shown are those of the chosen category that hold the words.\<close>

lemma faq_shown:
  "(\<exists>cat\<in>set (faq_filtered words active cats). it \<in> set (fc_items cat)) \<longleftrightarrow>
   (\<exists>cat\<in>set cats. it \<in> set (fc_items cat) \<and> faq_matches words it \<and> (truthy_str active = None \<or> active = Some (fc_id cat)))"
proof
  assume "\<exists>cat\<in>set cats. it \<in> set (fc_items cat) \<and> faq_matches words it \<and> (truthy_str active = None \<or> active = Some (fc_id cat))"
  then obtain cat where cat: "cat \<in> set cats" "it \<in> set (fc_items cat)" "faq_matches words it"
      "truthy_str active = None \<or> active = Some (fc_id cat)" by blast
  let ?c = "cat\<lparr>fc_items := filter (faq_matches words) (fc_items cat)\<rparr>"
  have "it \<in> set (fc_items ?c)" using cat by simp
  moreover from this have "fc_items ?c \<noteq> []" by (metis empty_iff empty_set)
  ultimately have "?c \<in> set (faq_filtered words active cats)" "it \<in> set (fc_items ?c)"
    using cat unfolding faq_filtered_def by auto
  then show "\<exists>cat\<in>set (faq_filtered words active cats). it \<in> set (fc_items cat)" by blast
qed (auto simp: faq_filtered_def)

text \<open>At most one section of the navigation is marked.\<close>

lemma one_section_active:
  "h \<in> fst ` set NAV_SECTIONS \<Longrightarrow> h' \<in> fst ` set NAV_SECTIONS \<Longrightarrow> nav_active p h \<Longrightarrow> nav_active p h' \<Longrightarrow> h = h'"
  by (auto simp: NAV_SECTIONS_def nav_active_def starts_with_iff)

text \<open>The maintenance page is reached in one step and not left by another.\<close>

lemma maintenance_ends: "maintenance_redirect m p = Some p' \<Longrightarrow> maintenance_redirect m' p' = None"
  by (auto simp: maintenance_redirect_def split: if_splits)

text \<open>The buttons.\<close>

lemma parse_string_of_int:
  assumes "0 \<le> n" "n \<le> 2 ^ 53" shows "parse_int (string_of_int n) = Some (of_int n)"
proof -
  let ?s = "string_of_nat (nat n)"
  obtain c cs where s: "?s = c # cs" by (cases ?s) simp_all
  have d: "list_all is_digit ?s" by (rule string_of_nat_digits)
  then have c: "is_digit c" using s by simp
  have nb: "\<not> is_space c" "c \<noteq> CHR ''-''" "c \<noteq> CHR ''+''" using is_digit_not [OF c] by auto
  have t: "takeWhile is_digit ?s = ?s" using d by (simp add: list_all_iff takeWhile_eq_all_conv)
  have "string_of_int n = ?s" using assms(1) by (simp add: string_of_int_def)
  moreover have "trim_start ?s = ?s" using nb(1) by (simp add: trim_start_def s)
  moreover have "\<not> starts_with ''-'' ?s" "\<not> starts_with ''+'' ?s" using nb by (simp_all add: starts_with_def s)
  moreover have "fl (of_nat (nat n)) = of_int n"
    using fl_of_int [of n] assms by simp
  ultimately show ?thesis by (simp add: parse_int_def Let_def t)
qed

lemma get_setPage:
  "params_get ''page'' (setPage k ps) = Some (string_of_int k)" "params_get ''limit'' (setPage k ps) = params_get ''limit'' ps"
  by (simp_all add: setPage_def params_set_get)

lemma usePagination_setPage:
  assumes "1 \<le> k" "k \<le> pg_totalPages (usePagination n ps)" "k \<le> 2 ^ 53"
  shows "usePagination n (setPage k ps) = (usePagination n ps)\<lparr>pg_page := k\<rparr>"
  using assms parse_string_of_int [of k] by (simp add: usePagination_def get_setPage Let_def)

lemma total_pages_bounded: "n < 2 ^ 53 \<Longrightarrow> pg_totalPages (usePagination n ps) \<le> 2 ^ 53"
proof -
  assume n: "n < 2 ^ 53"
  let ?l = "pg_limit (usePagination n ps)"
  have "int n < 2 ^ 53" using n by (metis of_nat_less_iff of_nat_numeral of_nat_power)
  moreover have "- ((- int n) div l) \<le> int n" if "l \<in> {10, 25, 50}" for l :: int
    using that by auto
  ultimately show ?thesis unfolding pagination_total [OF n] using pagination_limit [of n ps] by fastforce
qed

lemma next_page:
  assumes "n < 2 ^ 53"
  shows "usePagination n (press_next n ps) =
    (let p = usePagination n ps in p\<lparr>pg_page := min (pg_page p + 1) (pg_totalPages p)\<rparr>)"
proof -
  let ?p = "usePagination n ps"
  have b: "1 \<le> pg_page ?p" "pg_page ?p \<le> pg_totalPages ?p" by (simp_all add: usePagination_def Let_def)
  show ?thesis
  proof (cases "next_disabled ?p")
    case True
    then have "pg_page ?p = pg_totalPages ?p" using b by (simp add: next_disabled_def)
    then show ?thesis using True by (cases ?p) (simp add: press_next_def Let_def)
  next
    case False
    then have "pg_page ?p + 1 \<le> pg_totalPages ?p" by (simp add: next_disabled_def)
    then show ?thesis using False b total_pages_bounded [OF assms, of ps] usePagination_setPage [of "pg_page ?p + 1" n ps]
      by (simp add: press_next_def Let_def)
  qed
qed

lemma next_pages:
  assumes "n < 2 ^ 53"
  shows "usePagination n ((press_next n ^^ k) ps) =
    (let p = usePagination n ps in p\<lparr>pg_page := min (pg_page p + int k) (pg_totalPages p)\<rparr>)"
proof (induction k)
  case 0
  have "pg_page (usePagination n ps) \<le> pg_totalPages (usePagination n ps)" by (simp add: usePagination_def Let_def)
  then show ?case by (cases "usePagination n ps") (simp add: Let_def)
next
  case (Suc k)
  then show ?case using next_page [OF assms, of "(press_next n ^^ k) ps"] by (simp add: Let_def)
qed

text \<open>From the first page the button for the next one leads through the whole list: the pages shown one after the
  other are the items of the list, each once and in order, and then the button is disabled.\<close>

theorem next_shows_everything:
  assumes "length items < 2 ^ 53" "pg_page (usePagination (length items) ps) = 1"
  shows "let n = length items; total = nat (pg_totalPages (usePagination n ps)) in
    concat (map (\<lambda>k. page_slice (usePagination n ((press_next n ^^ k) ps)) items) [0..<total]) = items \<and>
    next_disabled (usePagination n ((press_next n ^^ (total - 1)) ps))"
proof -
  let ?n = "length items" and ?p = "usePagination (length items) ps"
  have t: "1 \<le> pg_totalPages ?p" by (simp add: usePagination_def Let_def)
  have "usePagination ?n ((press_next ?n ^^ k) ps) = ?p\<lparr>pg_page := int k + 1\<rparr>" if "k < nat (pg_totalPages ?p)" for k
    using next_pages [OF assms(1), of k ps] assms(2) that by (simp add: Let_def)
  then have m: "map (\<lambda>k. page_slice (usePagination ?n ((press_next ?n ^^ k) ps)) items) [0..<nat (pg_totalPages ?p)] =
      map (\<lambda>k. page_slice (?p\<lparr>pg_page := int k + 1\<rparr>) items) [0..<nat (pg_totalPages ?p)]"
    by simp
  have "concat (map (\<lambda>k. page_slice (?p\<lparr>pg_page := int k + 1\<rparr>) items) [0..<nat (pg_totalPages ?p)]) = items"
    using pages_are_the_list [OF assms(1), of ps] by (simp add: Let_def)
  moreover have "next_disabled (usePagination ?n ((press_next ?n ^^ (nat (pg_totalPages ?p) - 1)) ps))"
    using next_pages [OF assms(1), of "nat (pg_totalPages ?p) - 1" ps] assms(2) t by (simp add: Let_def next_disabled_def)
  ultimately show ?thesis unfolding Let_def m by blast
qed

theorem next_shows_everything_witness:
  "concat (map (\<lambda>k. page_slice (usePagination 23 ((press_next 23 ^^ k) [])) [0..<23])
     [0..<nat (pg_totalPages (usePagination (length [0..<23]) []))]) = [0..<23]"
proof -
  have "string_of_int 1 = ''1''" by code_simp
  then have "parse_int ''1'' = Some 1" using parse_string_of_int [of 1] by simp
  then have "pg_page (usePagination (length [0..<23]) []) = 1" by (simp add: usePagination_def params_get_def Let_def)
  then show ?thesis using next_shows_everything [of "[0..<23]" "[]"] by (simp add: Let_def)
qed

text \<open>There are chips exactly when a filter is active, and removing them one after the other clears all filters.\<close>

lemma remove_statuses:
  "distinct xs \<Longrightarrow> fs_statuses f = xs \<Longrightarrow> foldl (\<lambda>f a. next_filters a f) f (map ToggleStatus xs) = f\<lparr>fs_statuses := []\<rparr>"
proof (induction xs arbitrary: f)
  case (Cons x xs)
  then have "fs_statuses (next_filters (ToggleStatus x) f) = xs" by (auto simp: toggle_def filter_id_conv)
  then show ?case using Cons by simp
qed simp

lemma remove_types:
  "distinct xs \<Longrightarrow> fs_types f = xs \<Longrightarrow> foldl (\<lambda>f a. next_filters a f) f (map ToggleType xs) = f\<lparr>fs_types := []\<rparr>"
proof (induction xs arbitrary: f)
  case (Cons x xs)
  then have "fs_types (next_filters (ToggleType x) f) = xs" by (auto simp: toggle_def filter_id_conv)
  then show ?case using Cons by simp
qed simp

lemma chips_clear:
  assumes "distinct (fs_statuses f)" "distinct (fs_types f)"
  shows "(filter_chips f = [] \<longleftrightarrow> \<not> hasActiveFilters f) \<and> foldl (\<lambda>f a. next_filters a f) f (map snd (filter_chips f)) = EMPTY"
proof -
  have m: "map snd (map (\<lambda>s. (s, ToggleStatus s)) xs) = map ToggleStatus xs" "map snd (map (\<lambda>t. (t, ToggleType t)) xs) = map ToggleType xs" for xs
    by simp_all
  show ?thesis
    using assms by (cases f) (auto simp: filter_chips_def hasActiveFilters_def EMPTY_def m remove_statuses remove_types simp del: map_map)
qed

text \<open>A field that is described by an element is described by the message that is there.\<close>

lemma described_by_message:
  "fv_describedby (Input_view a k l r e) = Some d \<longleftrightarrow> (\<exists>m. fv_message (Input_view a k l r e) = Some (d, m))"
  "fv_describedby (Checkbox_view a k l' e) = Some d \<longleftrightarrow> (\<exists>m. fv_message (Checkbox_view a k l' e) = Some (d, m))"
  by (auto simp: Input_view_def Checkbox_view_def FieldError_def Let_def truthy_str_Some)

text \<open>The status a loan at risk has in the backend is none of those a badge knows.\<close>

lemma at_risk_without_badge: "StatusBadge ''at_risk'' = (''at_risk'', None)"
  by (simp add: StatusBadge_def STATUS_CONFIG_def)

end
