(* ===== verification/Page_View.thy ===== *)
theory Page_View
  imports Views Data_Hooks Widgets
begin

section \<open>What the pages of a borrower show (frontend/src/app/profile, app/dashboard/collateral)\<close>

text \<open>
  The markup of the profile, of the list of collateral and of a single one, with the cards and notices they
  are made of, over data of the shape the pages declare. The theorem composes the profile with the backend: what
  \<open>GET /api/borrowers/:wallet\<close> answers has that shape, and the two tables show every live record of the wallet,
  up to the hundred the backend sends.
\<close>

subsection \<open>Parts\<close>

text \<open>How numbers and dates are written: \<open>toLocaleString\<close>, \<open>String\<close>, and the two locale forms of a date.\<close>

record page_texts =
  pt_locale :: "js_num \<Rightarrow> string"
  pt_plain :: "js_num \<Rightarrow> string"
  pt_date :: "string \<Rightarrow> string"
  pt_time :: "string \<Rightarrow> string"

definition mailbox :: string where "mailbox = [CHR 0xF0, CHR 0x9F, CHR 0x93, CHR 0xAD]"

definition purse :: string where "purse = [CHR 0xF0, CHR 0x9F, CHR 0x91, CHR 0x9B]"

definition clipboard :: string where "clipboard = [CHR 0xF0, CHR 0x9F, CHR 0x93, CHR 0x8B]"

definition three_dots :: string where "three_dots = [CHR 0xE2, CHR 0x80, CHR 0xA6]"

definition times_sign :: string where "times_sign = [CHR 0xC3, CHR 0x97]"

definition Card :: "'a view list option \<Rightarrow> 'a view list option \<Rightarrow> 'a view list \<Rightarrow> 'a view" where
  "Card head foot children =
     plain_el ''div'' ((case head of None \<Rightarrow> [] | Some h \<Rightarrow> [plain_el ''div'' h]) @ [plain_el ''div'' children] @
       (case foot of None \<Rightarrow> [] | Some f \<Rightarrow> [plain_el ''div'' f]))"

definition EmptyState :: "'a view option \<Rightarrow> string option \<Rightarrow> string \<Rightarrow> string \<Rightarrow> string option \<Rightarrow> 'a option \<Rightarrow> 'a view" where
  "EmptyState illustration pic heading message ctaLabel onCta =
     plain_el ''div'' (
       [El ''div'' [(''aria-hidden'', ''true'')] [case illustration of Some v \<Rightarrow> v | None \<Rightarrow> label_el ''span'' (case truthy_str pic of None \<Rightarrow> mailbox | Some i \<Rightarrow> i)],
        label_el ''h3'' heading, El ''p'' [(''role'', ''status'')] [Txt message]] @
       (case (truthy_str ctaLabel, onCta) of (Some l, Some a) \<Rightarrow> [Press [] False (Some a) [Txt l]] | _ \<Rightarrow> []))"

definition ErrorState :: "string option \<Rightarrow> 'a \<Rightarrow> 'a view" where
  "ErrorState message onRetry =
     El ''div'' [(''role'', ''alert'')]
       [El ''span'' [(''aria-hidden'', ''true'')] [Txt warning_sign],
        label_el ''p'' (case message of None \<Rightarrow> ''Something went wrong. Please try again.'' | Some m \<Rightarrow> m),
        Press [] False (Some onRetry) [Txt ''Retry'']]"

definition status_icon :: "string \<Rightarrow> string" where
  "status_icon status = (case map_of
     [(''active'', [CHR 0xE2, CHR 0x97, CHR 0x8F]), (''repaid'', [CHR 0xE2, CHR 0x9C, CHR 0x93]), (''defaulted'', [CHR 0xE2, CHR 0x9A, CHR 0xA0]),
      (''liquidated'', [CHR 0xE2, CHR 0x9C, CHR 0x95]), (''available'', [CHR 0xE2, CHR 0x97, CHR 0x86]), (''pledged'', [CHR 0xE2, CHR 0xAC, CHR 0xA1])] status of
     None \<Rightarrow> [] | Some i \<Rightarrow> i)"

definition StatusBadge_view :: "string \<Rightarrow> 'a view" where
  "StatusBadge_view status =
     (case STATUS_CONFIG status of
        None \<Rightarrow> label_el ''span'' status
      | Some (label, ariaLabel) \<Rightarrow>
          El ''span'' [(''role'', ''status''), (''aria-label'', ariaLabel)]
            [El ''span'' [(''aria-hidden'', ''true'')] [Txt (status_icon status)], Txt label])"

definition link_to :: "'a \<Rightarrow> string \<Rightarrow> 'a view list \<Rightarrow> 'a view" where "link_to a href vs = Press [(''href'', href)] False (Some a) vs"

text \<open>All elements of a name.\<close>

fun elements :: "string \<Rightarrow> 'a view \<Rightarrow> 'a view list" where
  "elements n (Txt t) = []"
| "elements n (El m as vs) = (if m = n then [El m as vs] else []) @ concat (map (elements n) vs)"
| "elements n (Press as disabled act vs) = concat (map (elements n) vs)"
| "elements n (Enter as disabled v f) = []"

definition table_row :: "'a view list list \<Rightarrow> 'a view" where "table_row cells = plain_el ''tr'' (map (plain_el ''td'') cells)"

definition table_head :: "string list \<Rightarrow> 'a view" where "table_head hs = plain_el ''thead'' [plain_el ''tr'' (map (label_el ''th'') hs)]"

definition table_of :: "string list \<Rightarrow> 'a view list \<Rightarrow> 'a view" where
  "table_of hs rows = plain_el ''table'' [table_head hs, plain_el ''tbody'' rows]"

subsection \<open>The profile (app/profile/page.tsx)\<close>

record profile_collateral =
  bc_id :: string
  bc_animal_type :: string
  bc_count :: rat
  bc_appraised_value :: rat
  bc_status :: string
  bc_createdAt :: string

record profile_loan =
  pn_id :: string
  pn_amount :: rat
  pn_status :: string
  pn_health_factor :: "rat option"
  pn_createdAt :: string

record borrower_data =
  bd_wallet :: string
  bd_collateral :: "profile_collateral list"
  bd_loans :: "profile_loan list"

text \<open>The shape the page declares, read from an answer.\<close>

definition str_field :: "string \<Rightarrow> json \<Rightarrow> string option" where
  "str_field f j = (case field f j of Some (JStr s) \<Rightarrow> Some s | _ \<Rightarrow> None)"

definition num_field :: "string \<Rightarrow> json \<Rightarrow> rat option" where
  "num_field f j = (case field f j of Some (JNum x) \<Rightarrow> Some x | _ \<Rightarrow> None)"

definition maybe_num_field :: "string \<Rightarrow> json \<Rightarrow> rat option option" where
  "maybe_num_field f j = (case field f j of None \<Rightarrow> Some None | Some JNull \<Rightarrow> Some None | Some (JNum x) \<Rightarrow> Some (Some x) | _ \<Rightarrow> None)"

definition list_field :: "(json \<Rightarrow> 'r option) \<Rightarrow> string \<Rightarrow> json \<Rightarrow> 'r list option" where
  "list_field f k j = (case field k j of Some (JArr xs) \<Rightarrow> those (map f xs) | _ \<Rightarrow> None)"

definition as_profile_collateral :: "json \<Rightarrow> profile_collateral option" where
  "as_profile_collateral j =
     Option.bind (str_field ''id'' j) (\<lambda>i. Option.bind (str_field ''animal_type'' j) (\<lambda>a.
     Option.bind (num_field ''count'' j) (\<lambda>n. Option.bind (num_field ''appraised_value'' j) (\<lambda>v.
     Option.bind (str_field ''status'' j) (\<lambda>st. Option.bind (str_field ''createdAt'' j) (\<lambda>c.
       Some \<lparr>bc_id = i, bc_animal_type = a, bc_count = n, bc_appraised_value = v, bc_status = st, bc_createdAt = c\<rparr>))))))"

definition as_profile_loan :: "json \<Rightarrow> profile_loan option" where
  "as_profile_loan j =
     Option.bind (str_field ''id'' j) (\<lambda>i. Option.bind (num_field ''amount'' j) (\<lambda>a.
     Option.bind (str_field ''status'' j) (\<lambda>st. Option.bind (maybe_num_field ''health_factor'' j) (\<lambda>h.
     Option.bind (str_field ''createdAt'' j) (\<lambda>c.
       Some \<lparr>pn_id = i, pn_amount = a, pn_status = st, pn_health_factor = h, pn_createdAt = c\<rparr>)))))"

definition as_borrower :: "json \<Rightarrow> borrower_data option" where
  "as_borrower j =
     Option.bind (str_field ''wallet'' j) (\<lambda>w.
     Option.bind (list_field as_profile_collateral ''collateral'' j) (\<lambda>cs.
     Option.bind (list_field as_profile_loan ''loans'' j) (\<lambda>ls.
       Some \<lparr>bd_wallet = w, bd_collateral = cs, bd_loans = ls\<rparr>)))"

datatype page_act = ConnectWallet | Assign string | GoBack | RetryFetch | OpenCard string

definition SkeletonRow :: "'a view" where "SkeletonRow = table_row (replicate 4 [plain_el ''div'' []])"

definition collateral_row :: "page_texts \<Rightarrow> profile_collateral \<Rightarrow> page_act view" where
  "collateral_row pt c = table_row [[Txt (bc_animal_type c)], [Txt (pt_plain pt (Fin (bc_count c)))],
     [Txt (pt_locale pt (Fin (bc_appraised_value c)))], [StatusBadge_view (bc_status c)]]"

definition loan_row :: "page_texts \<Rightarrow> profile_loan \<Rightarrow> page_act view" where
  "loan_row pt l = table_row [[link_to (Assign (''/loans/'' @ pn_id l)) (''/loans/'' @ pn_id l) [Txt ''#'', Txt (pn_id l)]],
     [Txt (pt_locale pt (Fin (pn_amount l)))],
     [Txt (case pn_health_factor l of None \<Rightarrow> long_dash | Some h \<Rightarrow> toFixed (pt_plain pt) 2 (Fin h))],
     [StatusBadge_view (pn_status l)], [Txt (pt_date pt (pn_createdAt l))]]"

text \<open>One of the two sections: placeholders while loading, a notice when the list is empty, else the table, which
  has no rows as long as there is no profile.\<close>

definition profile_section ::
  "string \<Rightarrow> string list \<Rightarrow> string list \<Rightarrow> bool \<Rightarrow> 'r list option \<Rightarrow> 'a view \<Rightarrow> ('r \<Rightarrow> 'a view) \<Rightarrow> 'a view" where
  "profile_section title skeleton_head hs loading rows empty_notice row =
     plain_el ''section''
       [label_el ''h2'' title,
        (if loading then Card None None [table_of skeleton_head [SkeletonRow, SkeletonRow]]
         else if rows = Some [] then empty_notice
         else Card None None [plain_el ''div'' [table_of hs (case rows of None \<Rightarrow> [] | Some rs \<Rightarrow> map row rs)]])]"

definition ProfilePage :: "page_texts \<Rightarrow> wallet \<Rightarrow> borrower_data option fetch_state \<Rightarrow> page_act view" where
  "ProfilePage pt w p =
     (case truthy_str (wl_address w) of
        None \<Rightarrow>
          plain_el ''main'' (
            [label_el ''h1'' ''My Profile'',
             EmptyState None (Some purse) ''Wallet Not Connected'' ''Connect your Freighter wallet to view your borrower profile.''
               (if wl_freighterInstalled w = Some False then None
                else Some (if wl_connecting w then ''Connecting'' @ three_dots else ''Connect Wallet''))
               (if wl_freighterInstalled w = Some False then None else Some ConnectWallet)] @
            shown_if (wl_freighterInstalled w = Some False)
              [plain_el ''p'' [link_to (Assign ''https://freighter.app'') ''https://freighter.app'' [Txt ''Install Freighter''], Txt '' '',
                 Txt ''to connect your wallet.'']])
      | Some address \<Rightarrow>
          plain_el ''main'' (
            [label_el ''h1'' ''My Profile'',
             Card (Some [label_el ''h2'' ''Wallet'']) None [plain_el ''dl'' [plain_el ''div'' [label_el ''dt'' ''Address'', label_el ''dd'' address]]]] @
            (case truthy_str (ft_error p) of None \<Rightarrow> [] | Some e \<Rightarrow> [label_el ''div'' e]) @
            [profile_section ''Registered Collateral'' [''Species'', ''Count'', ''Value'', ''Status'']
               [''Species'', ''Count'', ''Appraised Value'', ''Status''] (ft_loading p) (map_option bd_collateral (ft_data p))
               (EmptyState None (Some cow) ''No Collateral Registered'' (''You haven'' @ apostrophe @ ''t registered any livestock as collateral yet.'')
                  (Some ''Register Collateral'') (Some (Assign ''/collateral'')))
               (collateral_row pt),
             profile_section ''Loan History'' [''Loan ID'', ''Amount'', ''Status'', ''Date'']
               [''Loan ID'', ''Amount'', ''Health Factor'', ''Status'', ''Date''] (ft_loading p) (map_option bd_loans (ft_data p))
               (EmptyState None (Some clipboard) ''No Loans Yet''
                  (''You haven'' @ apostrophe @ ''t taken out any loans. Register collateral and apply for a loan to get started.'')
                  (Some ''Apply for a Loan'') (Some (Assign ''/borrow'')))
               (loan_row pt)]))"

subsection \<open>One collateral (app/dashboard/collateral/[id]/page.tsx)\<close>

record detail_collateral =
  dc_id :: string
  dc_owner :: string
  dc_animal_type :: string
  dc_count :: rat
  dc_appraised_value :: rat
  dc_createdAt :: string

record detail_loan =
  dl_id :: string
  dl_amount :: rat
  dl_createdAt :: string

definition Skeleton :: "'a view" where "Skeleton = El ''div'' [(''aria-hidden'', ''true'')] []"

definition DetailSkeleton :: "'a view" where
  "DetailSkeleton = El ''div'' [(''aria-busy'', ''true''), (''aria-label'', ''Loading collateral details'')]
     [Card None None [plain_el ''div''
        [Skeleton, Skeleton, plain_el ''div'' [Skeleton, Skeleton], plain_el ''div'' [Skeleton, Skeleton]]]]"

text \<open>An amount of stroops in XLM and in dollars: the second is computed from the text of the first.\<close>

definition xlm_text :: "page_texts \<Rightarrow> rat \<Rightarrow> string" where
  "xlm_text pt v = toFixed (pt_plain pt) 2 (Fin (js_div v 10000000))"

definition usd_text :: "page_texts \<Rightarrow> rat \<Rightarrow> string" where
  "usd_text pt v = toFixed (pt_plain pt) 2 (num_mul (parseFloat (xlm_text pt v)) (Fin (fl (12 / 100))))"

definition animal_icon_or_paws :: "string \<Rightarrow> string" where
  "animal_icon_or_paws t = (case animal_icon t of None \<Rightarrow> paws | Some i \<Rightarrow> i)"

definition health_word :: "rat \<Rightarrow> string" where
  "health_word bps = (if 15000 \<le> bps then ''Healthy'' else if 12000 \<le> bps then ''Moderate'' else ''At Risk'')"

definition detail_line :: "string \<Rightarrow> 'a view list \<Rightarrow> 'a view" where
  "detail_line label vs = plain_el ''div'' (label_el ''p'' label # vs)"

definition associated_loan :: "page_texts \<Rightarrow> detail_loan \<Rightarrow> page_act view" where
  "associated_loan pt l =
     plain_el ''div''
       [plain_el ''div'' [plain_el ''p'' [Txt ''Loan #'', Txt (dl_id l)], label_el ''span'' (pt_date pt (dl_createdAt l))],
        plain_el ''p'' [Txt (xlm_text pt (dl_amount l)), Txt '' XLM'', Txt '' '',
          plain_el ''span'' [Txt ''($'', Txt (usd_text pt (dl_amount l)), Txt '')'']]]"

definition detail_loans :: "page_texts \<Rightarrow> detail_loan list \<Rightarrow> page_act view" where
  "detail_loans pt loans =
     (if loans \<noteq> [] then Card (Some [label_el ''h2'' ''Associated Loans'']) None [plain_el ''div'' (map (associated_loan pt) loans)]
      else Card None None [label_el ''p'' ''No loans associated with this collateral'',
        Press [] False (Some (Assign ''/borrow'')) [Txt ''Request a Loan'']])"

definition CollateralDetailPage ::
  "page_texts \<Rightarrow> string option \<Rightarrow> (detail_collateral option \<times> detail_loan list) fetch_state \<Rightarrow> page_act view" where
  "CollateralDetailPage pt wallet p =
     (if truthy_str wallet = None then plain_el ''main'' [label_el ''h1'' ''Collateral Details'', El ''WalletConnect'' [] []]
      else if ft_loading p then plain_el ''main'' [DetailSkeleton]
      else
        (case (truthy_str (ft_error p), fst (ft_data p)) of
           (None, Some c) \<Rightarrow>
             (let loans = snd (ft_data p); amounts = map dl_amount loans; health = detail_health (dc_appraised_value c) amounts in
              plain_el ''main'' (
                [Press [] False (Some GoBack) [Txt (arrow_left @ '' Back to Collateral'')]] @
                shown_if (detail_at_risk (dc_appraised_value c) amounts)
                  [Card None None [plain_el ''div'' [El ''span'' [(''aria-hidden'', ''true'')] [Txt warning_sign],
                     plain_el ''div'' [label_el ''p'' ''Liquidation Risk'',
                       label_el ''p'' ''Health factor is below 1.2. Repay part of your loan to reduce risk.'']]]] @
                [plain_el ''div''
                   [Card None None (label_el ''p'' ''Health Factor'' #
                      (case health of
                         Some h \<Rightarrow> [label_el ''p'' (toFixed (pt_plain pt) 2 (Fin (js_div h 10000))), label_el ''p'' (health_word h)]
                       | None \<Rightarrow> [label_el ''p'' long_dash])),
                    Card None None [label_el ''p'' ''Outstanding Balance'', label_el ''p'' (xlm_text pt (foldl js_add 0 amounts)), label_el ''p'' ''XLM'']],
                 Card (Some [plain_el ''div'' [label_el ''span'' (animal_icon_or_paws (dc_animal_type c)),
                     plain_el ''h1'' [Txt (dc_animal_type c), plain_el ''span'' [Txt (times_sign @ '' ''), Txt (pt_plain pt (Fin (dc_count c)))]]]]) None
                   [plain_el ''div''
                      [detail_line ''Appraised Value'' [plain_el ''p'' [Txt (xlm_text pt (dc_appraised_value c)), Txt '' XLM''],
                         plain_el ''p'' [Txt ''$'', Txt (usd_text pt (dc_appraised_value c)), Txt '' USD'']],
                       detail_line ''Registered'' [label_el ''p'' (pt_date pt (dc_createdAt c)), label_el ''p'' (pt_time pt (dc_createdAt c))],
                       detail_line ''Collateral ID'' [label_el ''p'' (dc_id c)],
                       detail_line ''Owner'' [plain_el ''p'' [Txt (take 8 (dc_owner c)), Txt three_dots, Txt (drop (length (dc_owner c) - 6) (dc_owner c))]]]],
                 detail_loans pt loans]))
         | (e, _) \<Rightarrow>
             plain_el ''main'' [Press [] False (Some GoBack) [Txt (arrow_left @ '' Back'')],
               ErrorState (Some (case e of None \<Rightarrow> ''Collateral not found'' | Some m \<Rightarrow> m)) RetryFetch]))"

subsection \<open>The list of collateral (app/dashboard/collateral/page.tsx, CollateralGrid.tsx)\<close>

definition grid_card :: "page_texts \<Rightarrow> detail_collateral \<Rightarrow> page_act view" where
  "grid_card pt c =
     Press [] False (Some (OpenCard (dc_id c)))
       [Card (Some [plain_el ''div'' [label_el ''span'' (animal_icon_or_paws (dc_animal_type c)),
            plain_el ''span'' [Txt (pt_plain pt (Fin (dc_count c))), Txt ''x'']]])
          (Some [plain_el ''p'' [Txt ''ID: '', Txt (take 8 (dc_id c)), Txt three_dots]])
          [label_el ''h3'' (dc_animal_type c),
           plain_el ''div''
             [detail_line ''Appraised Value'' [plain_el ''p'' [Txt (xlm_text pt (dc_appraised_value c)), Txt '' XLM''],
                plain_el ''p'' [Txt ''$'', Txt (usd_text pt (dc_appraised_value c)), Txt '' USD'']],
              detail_line ''Registered'' [label_el ''p'' (pt_date pt (dc_createdAt c))]]]]"

definition CollateralGrid :: "page_texts \<Rightarrow> page_act option \<Rightarrow> bool \<Rightarrow> detail_collateral list \<Rightarrow> page_act view" where
  "CollateralGrid pt onAddCollateral loading collaterals =
     (if loading then plain_el ''div'' (replicate 3 (El ''SkeletonCollateralCard'' [] []))
      else if collaterals = [] then
        EmptyState None (Some cow) ''No Collateral Registered''
          ''Register your livestock as collateral to unlock loans. Start by adding your first animal.'' (Some ''Register Collateral'') onAddCollateral
      else plain_el ''div'' (map (grid_card pt) collaterals))"

definition CollateralPage ::
  "page_texts \<Rightarrow> string option \<Rightarrow> detail_collateral list fetch_state \<Rightarrow> pagination \<Rightarrow> page_act view" where
  "CollateralPage pt wallet p pg =
     plain_el ''main'' (
       [label_el ''h1'' ''My Collateral'', El ''WalletConnect'' [] []] @
       shown_if (truthy_str wallet \<noteq> None)
         (case truthy_str (ft_error p) of
            Some e \<Rightarrow> [ErrorState (Some e) RetryFetch]
          | None \<Rightarrow>
              if ft_loading p then [CollateralGrid pt None True []]
              else if ft_data p \<noteq> [] then
                [El ''CollateralSummary'' [] [], CollateralGrid pt None False (page_slice pg (ft_data p)), El ''Pagination'' [] []]
              else [plain_el ''div'' [label_el ''h2'' ''No Collateral Registered'',
                label_el ''p'' ''Register livestock as collateral to start borrowing'',
                Press [(''aria-busy'', ''false'')] False (Some (Assign ''/borrow'')) [Txt ''Register Collateral'']]]))"

subsection \<open>The profile shows what the backend holds\<close>

text \<open>The rows for the records of the backend.\<close>

definition profile_collateral_of :: "api_env \<Rightarrow> CollateralRecord \<Rightarrow> profile_collateral" where
  "profile_collateral_of env r = \<lparr>bc_id = c_id r, bc_animal_type = c_animal_type r, bc_count = c_count r,
     bc_appraised_value = c_appraised_value r, bc_status = CollateralStatus_str (the (c_status r)), bc_createdAt = ev_iso env (c_createdAt r)\<rparr>"

definition profile_loan_of :: "api_env \<Rightarrow> LoanRecord \<Rightarrow> profile_loan" where
  "profile_loan_of env r = \<lparr>pn_id = l_id r, pn_amount = l_amount r, pn_status = LoanStatus_str (the (l_status r)),
     pn_health_factor = l_health_factor r, pn_createdAt = ev_iso env (l_createdAt r)\<rparr>"

lemma map_of_jopt:
  "k \<noteq> k' \<Longrightarrow> map_of (jopt k f v @ xs) k' = map_of xs k'" "map_of (jopt k f (Some x) @ xs) k = Some (f x)"
  "map_of xs k = None \<Longrightarrow> map_of (jopt k f v @ xs) k = map_option f v"
  by (auto simp: jopt_def map_add_def split: option.split)

lemma those_map_Some: "list_all (\<lambda>x. f x = Some (g x)) xs \<Longrightarrow> those (map f xs) = Some (map g xs)"
  by (induction xs) auto

lemma collateral_json_shape: "c_status r \<noteq> None \<Longrightarrow> as_profile_collateral (collateral_json env r) = Some (profile_collateral_of env r)"
  by (auto simp: as_profile_collateral_def str_field_def num_field_def collateral_json_def profile_collateral_of_def map_of_jopt
      simp del: map_of_append)

lemma loan_json_shape: "l_status r \<noteq> None \<Longrightarrow> as_profile_loan (loan_json env r) = Some (profile_loan_of env r)"
  by (cases "l_health_factor r") (auto simp: as_profile_loan_def str_field_def num_field_def maybe_num_field_def loan_json_def
      profile_loan_of_def map_of_jopt simp del: map_of_append)

text \<open>The live records of a wallet, the latest first.\<close>

definition wallet_collateral :: "string \<Rightarrow> store \<Rightarrow> CollateralRecord list" where
  "wallet_collateral w s =
     sort_key (\<lambda>r. - c_createdAt r) (filter (\<lambda>r. c_owner r = w \<and> c_deletedAt r = None) (m_values (collateralTable s)))"

definition wallet_loans :: "string \<Rightarrow> store \<Rightarrow> LoanRecord list" where
  "wallet_loans w s =
     sort_key (\<lambda>r. - l_createdAt r) (filter (\<lambda>r. l_borrower r = w \<and> l_deletedAt r = None) (m_values (loanTable s)))"

lemma borrower_profile_answer:
  assumes "store_wf (as_store s)" "w \<noteq> []"
  shows "\<exists>body. borrower_profile w env now req s = (ok body, s) \<and>
    as_borrower body = Some \<lparr>bd_wallet = w, bd_collateral = map (profile_collateral_of env) (take 100 (wallet_collateral w (as_store s))),
      bd_loans = map (profile_loan_of env) (take 100 (wallet_loans w (as_store s)))\<rparr>"
proof -
  have cs: "ls_data (listCollateral \<lparr>cf_status = None, cf_ownerId = Some w, cf_page = Some 1, cf_limit = Some 100\<rparr> st) =
      take 100 (wallet_collateral w st)" for st
    using assms(2) by (simp add: listCollateral_def Let_def wallet_collateral_def truthy_str_def js_slice_nonneg conj_commute)
  have ls: "ls_data (listLoans pd (no_loan_filter\<lparr>lf_borrowerAddress := Some w, lf_page := Some 1, lf_limit := Some 100\<rparr>) st) =
      take 100 (wallet_loans w st)" for pd st
  proof -
    have "loan_matches pd (no_loan_filter\<lparr>lf_borrowerAddress := Some w, lf_page := Some 1, lf_limit := Some 100\<rparr>) =
        (\<lambda>r. l_borrower r = w \<and> l_deletedAt r = None)"
      using assms(2) by (intro ext) (auto simp: loan_matches_def no_loan_filter_def truthy_str_def)
    then show ?thesis by (simp add: listLoans_def Let_def wallet_loans_def js_slice_nonneg or_default_def no_loan_filter_def)
  qed
  have "c_status r \<noteq> None" if "r \<in> set (wallet_collateral w (as_store s))" for r
    using that assms(1) by (auto simp: wallet_collateral_def store_wf_def table_ok_def m_values_def list_all_iff collateral_ok_def)
  then have c: "those (map (as_profile_collateral \<circ> collateral_json env) (take 100 (wallet_collateral w (as_store s)))) =
      Some (map (profile_collateral_of env) (take 100 (wallet_collateral w (as_store s))))"
    by (intro those_map_Some) (auto simp: list_all_iff collateral_json_shape dest: in_set_takeD)
  have "l_status r \<noteq> None" if "r \<in> set (wallet_loans w (as_store s))" for r
    using that assms(1) by (auto simp: wallet_loans_def store_wf_def table_ok_def m_values_def list_all_iff loan_ok_def)
  then have l: "those (map (as_profile_loan \<circ> loan_json env) (take 100 (wallet_loans w (as_store s)))) =
      Some (map (profile_loan_of env) (take 100 (wallet_loans w (as_store s))))"
    by (intro those_map_Some) (auto simp: list_all_iff loan_json_shape dest: in_set_takeD)
  show ?thesis using c l
    by (simp add: borrower_profile_def Let_def cs ls as_borrower_def str_field_def list_field_def)
qed



text \<open>The page over what has been fetched, and the texts of a table: none when it is empty.\<close>

definition profile_shown :: "json option fetch_state \<Rightarrow> borrower_data option fetch_state" where
  "profile_shown p = \<lparr>ft_data = Option.bind (ft_data p) as_borrower, ft_loading = ft_loading p, ft_error = ft_error p\<rparr>"

definition shown_rows :: "string list \<Rightarrow> string list list \<Rightarrow> string list list" where
  "shown_rows hs rows = (if rows = [] then [] else hs # rows)"

lemma elements_badge: "elements ''tr'' (StatusBadge_view st) = []"
  by (simp add: StatusBadge_view_def split: option.split)

lemma elements_rows: "elements ''tr'' (collateral_row pt c) = [collateral_row pt c]" "elements ''tr'' (loan_row pt l) = [loan_row pt l]"
  by (simp_all add: collateral_row_def loan_row_def table_row_def link_to_def elements_badge)

lemma section_rows:
  assumes "\<And>r. elements ''tr'' (row r) = [row r]" "elements ''tr'' notice = []"
  shows "map texts (elements ''tr'' (profile_section title sh hs False (Some rs) notice row)) = shown_rows hs (map (texts \<circ> row) rs)"
proof -
  have "concat (map (elements ''tr'' \<circ> row) rs) = map row rs" using assms(1) by (induction rs) auto
  moreover have "concat (map (\<lambda>h. texts (label_el ''th'' h)) hs) = hs" by (induction hs) auto
  moreover have "concat (map (elements ''tr'' \<circ> label_el ''th'') hs) = []" by (induction hs) auto
  ultimately show ?thesis using assms(2)
    by (simp add: profile_section_def Card_def table_of_def table_head_def shown_rows_def comp_def)
qed

lemma notice_rows: "elements ''tr'' (EmptyState None pic heading message ctaLabel onCta) = []"
  by (auto simp: EmptyState_def split: option.split)

lemma profile_page_rows:
  assumes "wl_address wl = Some w" "w \<noteq> []" "ft_loading p = False" "ft_data p = Some d" "ft_error p = None"
  shows "map texts (elements ''tr'' (ProfilePage pt wl p)) =
    shown_rows [''Species'', ''Count'', ''Appraised Value'', ''Status''] (map (texts \<circ> collateral_row pt) (bd_collateral d)) @
    shown_rows [''Loan ID'', ''Amount'', ''Health Factor'', ''Status'', ''Date''] (map (texts \<circ> loan_row pt) (bd_loans d))"
  using assms by (simp add: ProfilePage_def truthy_str_def Card_def section_rows elements_rows notice_rows)

text \<open>C16: The profile of a connected wallet shows what the backend holds for it: after the answer to its request is in, the
  two tables have a row for every live collateral record and every live loan of the wallet, the latest first, as far as
  the hundred of each the backend sends; the page never meets a record it cannot show.\<close>

theorem profile_shows_records:
  assumes "store_wf (as_store s)" "wl_address wl = Some w" "w \<noteq> []" "borrower_profile w env now req s = (Inr res, s')"
  shows "map texts (elements ''tr'' (ProfilePage pt wl (profile_shown (load_profile (Inr (of_response res)) p)))) =
    shown_rows [''Species'', ''Count'', ''Appraised Value'', ''Status'']
      (map (texts \<circ> collateral_row pt \<circ> profile_collateral_of env) (take 100 (wallet_collateral w (as_store s)))) @
    shown_rows [''Loan ID'', ''Amount'', ''Health Factor'', ''Status'', ''Date'']
      (map (texts \<circ> loan_row pt \<circ> profile_loan_of env) (take 100 (wallet_loans w (as_store s))))"
proof -
  obtain body where b: "borrower_profile w env now req s = (ok body, s)"
    "as_borrower body = Some \<lparr>bd_wallet = w, bd_collateral = map (profile_collateral_of env) (take 100 (wallet_collateral w (as_store s))),
      bd_loans = map (profile_loan_of env) (take 100 (wallet_loans w (as_store s)))\<rparr>"
    using borrower_profile_answer [OF assms(1,3)] by blast
  have res: "rs_status res = 200" "rs_body res = body" using assms(4) b(1) by (auto simp: respond_def)
  have "load_profile (Inr (of_response res)) p = \<lparr>ft_data = Some body, ft_loading = False, ft_error = None\<rparr>"
    using res by (simp add: load_profile_def of_response_def wr_ok_def)
  then show ?thesis using b(2) by (simp add: profile_page_rows [OF assms(2,3)] profile_shown_def comp_assoc)
qed

theorem profile_shows_records_witness:
  "map texts (elements ''tr'' (ProfilePage \<lparr>pt_locale = (\<lambda>_. ''n''), pt_plain = (\<lambda>_. ''n''), pt_date = (\<lambda>_. ''d''), pt_time = (\<lambda>_. ''t'')\<rparr>
     ((open_wallet None)\<lparr>wl_address := Some wallet_G\<rparr>)
     (profile_shown (load_profile (Inr (of_response (case fst (borrower_profile wallet_G calm_api 5 (post_json JNull) herd_api) of Inr r \<Rightarrow> r)))
        \<lparr>ft_data = None, ft_loading = True, ft_error = None\<rparr>)))) \<noteq> []"
proof -
  obtain res s' where r: "borrower_profile wallet_G calm_api 5 (post_json JNull) herd_api = (Inr res, s')"
    using borrower_profile_answer [OF herd_api_wf, of wallet_G calm_api 5 "post_json JNull"] by (force simp: wallet_G_def)
  have "wallet_collateral wallet_G (as_store herd_api) \<noteq> []"
    by (simp add: wallet_collateral_def herd_api_def insertCollateral_def herd_def empty_store_def CollateralData.defs Let_def
      m_values_def m_set_def)
  moreover have "(case fst (borrower_profile wallet_G calm_api 5 (post_json JNull) herd_api) of Inr r \<Rightarrow> r) = res" by (simp add: r)
  moreover have "wallet_G \<noteq> []" by (simp add: wallet_G_def)
  ultimately show ?thesis using profile_shows_records [OF herd_api_wf _ _ r, where wl = "(open_wallet None)\<lparr>wl_address := Some wallet_G\<rparr>"]
    by (simp add: shown_rows_def map_is_Nil_conv [symmetric] del: map_is_Nil_conv)
qed

end
