(* ===== verification/Form_View.thy ===== *)
theory Form_View
  imports Wizard_View Page_View
begin

section \<open>What forms, lists and filters show (frontend/src/components)\<close>

text \<open>
  The markup of the registration of collateral, the loan form, the repayment panel, the lookup, the whitelist, the
  filter bar with the lists it filters, and the page buttons. The theorems: the registration form, followed from
  mounting through any use of what it shows, never has two requests under way; and the filter bar offers to take
  back every filter that is set.
\<close>

subsection \<open>Inputs, selections and dialogs\<close>

text \<open>The ids that tie a label and a message to its field are left out.\<close>

definition form_label :: "bool \<Rightarrow> string \<Rightarrow> 'a view" where
  "form_label needed label =
     plain_el ''label'' (Txt label # shown_if needed [El ''span'' [(''aria-hidden'', ''true'')] [Txt ''*'']])"

definition field_attrs :: "bool \<Rightarrow> string option \<Rightarrow> (string \<times> string) list" where
  "field_attrs needed error =
     (''aria-invalid'', if truthy_str error = None then ''false'' else ''true'') # (if needed then [(''required'', ''true'')] else [])"

definition field_message :: "string option \<Rightarrow> 'a view list" where
  "field_message error = (case truthy_str error of None \<Rightarrow> [] | Some e \<Rightarrow> [El ''p'' [(''role'', ''alert'')] [Txt e]])"

definition Input ::
  "bool \<Rightarrow> string \<Rightarrow> (string \<times> string) list \<Rightarrow> bool \<Rightarrow> string \<Rightarrow> string option \<Rightarrow> (string \<Rightarrow> 'a) \<Rightarrow> 'a view" where
  "Input needed label attrs disabled value error onChange =
     plain_el ''div'' ([form_label needed label, Enter (field_attrs needed error @ attrs) disabled value onChange] @ field_message error)"

definition Select ::
  "bool \<Rightarrow> string \<Rightarrow> (string \<times> string) list \<Rightarrow> bool \<Rightarrow> string \<Rightarrow> (string \<Rightarrow> 'a) \<Rightarrow> 'a view" where
  "Select needed label options disabled value onChange =
     plain_el ''div'' [form_label needed label, Enter (field_attrs needed None) disabled value onChange,
       plain_el ''div'' (map (\<lambda>(v, t). El ''option'' [(''value'', v)] [Txt t]) options)]"

text \<open>A press on the backdrop and the key Escape do what the close button of a dialog does.\<close>

definition Modal :: "bool \<Rightarrow> 'a \<Rightarrow> string \<Rightarrow> 'a view list \<Rightarrow> 'a view list \<Rightarrow> 'a view list" where
  "Modal opened onClose title children foot =
     shown_if opened
       [El ''div'' [(''aria-modal'', ''true''), (''role'', ''dialog''), (''aria-labelledby'', ''modal-title'')]
         [plain_el ''div''
           ([plain_el ''div'' [El ''h2'' [(''id'', ''modal-title'')] [Txt title],
               Press [(''aria-label'', ''Close dialog'')] False (Some onClose) [Txt times_sign]],
             plain_el ''div'' children] @ shown_if (foot \<noteq> []) [plain_el ''div'' foot])]]"

definition ConfirmDialog :: "bool \<Rightarrow> string \<Rightarrow> string \<Rightarrow> string option \<Rightarrow> string option \<Rightarrow> 'a \<Rightarrow> 'a \<Rightarrow> 'a view list" where
  "ConfirmDialog opened title message confirmLabel cancelLabel onConfirm onCancel =
     Modal opened onCancel title [label_el ''p'' message]
       [idle_button onCancel (case cancelLabel of None \<Rightarrow> ''Cancel'' | Some l \<Rightarrow> l),
        idle_button onConfirm (case confirmLabel of None \<Rightarrow> ''Confirm'' | Some l \<Rightarrow> l)]"

definition processing :: "'a view list" where "processing = [El ''Spinner'' [] [], Txt (''Processing'' @ three_dots)]"

subsection \<open>The registration (CollateralRegistrationForm.tsx)\<close>

datatype reg_act = RestoreDraft | DismissDraft | ChangeText string string | ChooseImage string | RemoveImage | SubmitForm
  | ConfirmRegister | CancelConfirm

definition reg_input :: "registration \<Rightarrow> string \<Rightarrow> string \<Rightarrow> (string \<times> string) list \<Rightarrow> string \<Rightarrow> reg_act view" where
  "reg_input r name label attrs value =
     Input True label attrs (rg_loading r) value (map_of (rg_errors r) name) (ChangeText name)"

definition capital_options :: "string list \<Rightarrow> (string \<times> string) list" where "capital_options = map (\<lambda>t. (t, capitalise t))"

definition reg_photo :: "registration \<Rightarrow> reg_act view" where
  "reg_photo r =
     plain_el ''div''
       ([plain_el ''label'' [Txt ''Animal Photo '', label_el ''span'' ''*''],
         Enter [(''type'', ''file''), (''accept'', ''image/*''), (''aria-label'', ''Upload animal photo'')] (rg_loading r) [] ChooseImage] @
        (case truthy_str (map_of (rg_errors r) ''image'') of None \<Rightarrow> [] | Some e \<Rightarrow> [label_el ''p'' e]) @
        (case truthy_str (rg_imagePreview r) of None \<Rightarrow> []
         | Some u \<Rightarrow> [plain_el ''div'' [El ''img'' [(''src'', u), (''alt'', ''Preview'')] [],
             Press [(''aria-label'', ''Remove image'')] False (Some RemoveImage) [Txt [CHR 0xE2, CHR 0x9C, CHR 0x95]]]]))"

definition reg_submit :: "bool \<Rightarrow> reg_act view" where
  "reg_submit busy =
     Press [(''type'', ''submit'')] busy (Some SubmitForm) (if busy then processing else [Txt ''Register Collateral''])"

text \<open>\<open>savedAt\<close> is the time the draft was last saved, as text.\<close>

definition reg_after :: "string option \<Rightarrow> registration \<Rightarrow> reg_act view list" where
  "reg_after savedAt r =
     (let d = rg_data r in
      (case savedAt of None \<Rightarrow> [] | Some t \<Rightarrow> shown_if (\<not> rg_loading r) [plain_el ''p'' [Txt ''Auto-saved at '', Txt t]]) @
      (case truthy_str (rg_status r) of None \<Rightarrow> []
       | Some st \<Rightarrow> [El ''div'' [(''role'', ''status'')] [Txt (if starts_with ''error:'' st then drop 6 st else st)]]) @
      ConfirmDialog (rg_showConfirm r) ''Register Collateral''
        (''Register '' @ fd_quantity d @ '' '' @ fd_animalType d @ ''(s) with appraised value of '' @ fd_appraisedValue d @
         '' stroops as on-chain collateral? This action cannot be undone.'')
        (Some ''Register'') None ConfirmRegister CancelConfirm)"

definition RegistrationForm :: "string option \<Rightarrow> registration \<Rightarrow> reg_act view" where
  "RegistrationForm savedAt r =
     (let d = rg_data r; busy = rg_loading r in
      plain_el ''div'' (
        shown_if (rg_showRestorePrompt r)
          [plain_el ''div'' [label_el ''p'' ''You have unsaved progress. Would you like to restore it?'',
             plain_el ''div'' [idle_button RestoreDraft ''Restore'', idle_button DismissDraft ''Dismiss'']]] @
        [label_el ''h2'' ''Register Livestock Collateral'',
         plain_el ''form''
           [Select True ''Animal Type'' (capital_options [''cattle'', ''goat'', ''sheep'']) busy (fd_animalType d) (ChangeText ''animalType''),
            reg_input r ''quantity'' ''Quantity'' [(''type'', ''number''), (''placeholder'', ''Number of animals'')] (fd_quantity d),
            reg_input r ''weight'' ''Estimated Weight (kg)'' [(''type'', ''number''), (''step'', ''0.1''), (''placeholder'', ''Average weight per animal'')] (fd_weight d),
            Select True ''Health Status'' (capital_options [''excellent'', ''good'', ''fair'', ''poor'']) busy (fd_healthStatus d) (ChangeText ''healthStatus''),
            reg_input r ''location'' ''Location'' [(''type'', ''text''), (''placeholder'', ''Farm or region name'')] (fd_location d),
            reg_input r ''appraisedValue'' ''Appraised Value (stroops)'' [(''type'', ''number''), (''placeholder'', ''Total value in stroops'')] (fd_appraisedValue d),
            reg_input r ''breed'' ''Breed'' [(''type'', ''text''), (''placeholder'', ''e.g., Holstein, Boer, Merino'')] (fd_breed d),
            reg_input r ''age'' ''Age (years)'' [(''type'', ''number''), (''placeholder'', ''Age of the animal'')] (fd_age d),
            reg_photo r, reg_submit busy]] @
        reg_after savedAt r))"

text \<open>What is pressed or entered does; \<open>file\<close> and \<open>preview\<close> are the chosen file and its data URL. Confirming starts the request.\<close>

definition removeImage :: "registration \<Rightarrow> registration" where
  "removeImage r = r\<lparr>rg_data := (rg_data r)\<lparr>fd_image := NoImage\<rparr>, rg_imagePreview := None, rg_errors := put_error ''image'' None (rg_errors r)\<rparr>"

definition confirmRegister :: "registration \<Rightarrow> registration" where
  "confirmRegister r = r\<lparr>rg_showConfirm := False, rg_loading := True\<rparr>"

fun reg_do :: "(string \<Rightarrow> (string \<times> nat) option) \<Rightarrow> reg_act \<Rightarrow> registration \<Rightarrow> registration" where
  "reg_do file RestoreDraft r = restoreSavedData r"
| "reg_do file DismissDraft r = dismissRestore r"
| "reg_do file (ChangeText name v) r = handleChange name v r"
| "reg_do file (ChooseImage u) r = handleImageChange (file u) u r"
| "reg_do file RemoveImage r = removeImage r"
| "reg_do file SubmitForm r = handleSubmit r"
| "reg_do file ConfirmRegister r = confirmRegister r"
| "reg_do file CancelConfirm r = r\<lparr>rg_showConfirm := False\<rparr>"

subsection \<open>The loan form, the repayment and the lookup (LoanForm.tsx, RepayPanel.tsx, CollateralCard.tsx)\<close>

datatype loan_act = LoanField string string | LoanRegister | LoanRequest

definition limited_button :: "number_texts \<Rightarrow> bool \<Rightarrow> loan_form \<Rightarrow> loan_act \<Rightarrow> string \<Rightarrow> loan_act view" where
  "limited_button nt mismatch f act label =
     (let off = fm_loading f \<or> isRateLimited (fm_limit f) \<or> mismatch in
      Press [(''aria-disabled'', if off then ''true'' else ''false'')] off (Some act)
        (if fm_loading f then processing
         else if isRateLimited (fm_limit f) then [Txt (''Retry in '' @ nt_plain nt (Fin (cd_shown (fm_limit f))) @ ''s'')]
         else [Txt label]))"

definition LoanForm :: "number_texts \<Rightarrow> bool \<Rightarrow> loan_form \<Rightarrow> loan_act view" where
  "LoanForm nt mismatch f =
     (let busy = fm_loading f in
      plain_el ''div''
        (case fm_step f of
           CollateralStep \<Rightarrow>
             [label_el ''h2'' ''1. Register Collateral'',
              Select False ''Animal Type'' (map (\<lambda>a. (a, a)) [''cattle'', ''goat'', ''sheep'']) busy (fm_animalType f) (LoanField ''animalType''),
              Input False ''Count'' [(''type'', ''number''), (''placeholder'', ''Number of animals'')] busy (fm_count f) None (LoanField ''count''),
              Input False ''Appraised Value (stroops)'' [(''type'', ''number''), (''placeholder'', ''Total appraised value'')] busy (fm_appraisedValue f) None
                (LoanField ''appraisedValue''),
              limited_button nt mismatch f LoanRegister ''Register & Continue'']
         | LoanStep \<Rightarrow>
             [label_el ''h2'' ''2. Request Loan'',
              Input False ''Collateral ID'' [(''type'', ''number''), (''placeholder'', ''Your collateral ID'')] busy (fm_collateralId f) None (LoanField ''collateralId''),
              Input False ''Loan Amount (stroops)'' [(''type'', ''number''), (''placeholder'', ''Amount to borrow'')] busy (fm_loanAmount f) None (LoanField ''loanAmount''),
              limited_button nt mismatch f LoanRequest ''Request Loan'']))"

datatype repay_act = RepayLoanId string | RepayAmount string | PressRepay

definition RepayPanel :: "bool \<Rightarrow> repay_panel \<Rightarrow> repay_act view" where
  "RepayPanel mismatch p =
     (let off = rp_loading p \<or> mismatch in
      Card (Some [label_el ''h2'' ''Repay Loan'']) None
        [plain_el ''div''
           [Enter [(''placeholder'', ''Loan ID''), (''type'', ''number'')] False (rp_loanId p) RepayLoanId,
            Enter [(''placeholder'', ''Amount (stroops)''), (''type'', ''number'')] False (rp_amount p) RepayAmount,
            plain_el ''span'' [Press [] off (Some PressRepay) [Txt (if rp_loading p then ''Processing'' @ three_dots else ''Repay'')],
              El ''span'' [(''role'', ''tooltip'')] [Txt (''R '' @ long_dash @ '' Repay loan'')]],
            Press [] off (Some PressRepay) (if rp_loading p then processing else [Txt ''Repay''])]])"

datatype lookup_act = LookupId string | PressFetch | OpenDetail string

definition LoanLookup :: "(json \<Rightarrow> string) \<Rightarrow> string \<Rightarrow> json option fetch_state \<Rightarrow> lookup_act view" where
  "LoanLookup pretty collateralId p =
     Card (Some [label_el ''h2'' ''Loan Lookup'']) None
       ([plain_el ''div''
           [El ''label'' [(''for'', ''lookup-loan-id'')] [Txt ''Loan ID''],
            Enter [(''id'', ''lookup-loan-id''), (''placeholder'', ''Loan ID'')] False collateralId LookupId,
            Press [] (ft_loading p) (Some PressFetch)
              (if ft_loading p then [El ''Spinner'' [] [], label_el ''span'' (''Fetching'' @ three_dots)] else [Txt ''Fetch''])]] @
        shown_if (collateralId \<noteq> []) [link_to (OpenDetail (''/collateral/'' @ collateralId)) (''/collateral/'' @ collateralId)
          [Txt (''View collateral detail '' @ arrow_right)]] @
        (case ft_data p of None \<Rightarrow> [] | Some j \<Rightarrow> shown_if (truthy (Some j)) [label_el ''pre'' (pretty j)]))"

subsection \<open>The whitelist (LiquidatorWhitelist.tsx)\<close>

datatype whitelist_act = TypeEntry string | SubmitEntry | RemoveEntry string

text \<open>What the form itself keeps beside the list; \<open>date\<close> writes the day an entry was added.\<close>

record whitelist_form =
  wf_newAddress :: string
  wf_fieldError :: "string option"
  wf_submitting :: bool
  wf_removing :: "string option"
  wf_success :: "string option"

definition whitelist_banner :: "(string \<times> string) list \<Rightarrow> string" where
  "whitelist_banner liquidators =
     (if liquidators = [] then ''Open liquidation (no restrictions)''
      else string_of_nat (length liquidators) @ '' approved liquidator'' @ (if length liquidators \<noteq> 1 then ''s'' else []))"

definition whitelist_entry :: "(string \<Rightarrow> string) \<Rightarrow> bool \<Rightarrow> string option \<Rightarrow> string \<times> string \<Rightarrow> whitelist_act view" where
  "whitelist_entry date loading removing = (\<lambda>(address, addedAt).
     table_row [[Txt address], [Txt (date addedAt)],
       [Button (loading \<or> removing \<noteq> None) (removing = Some address) button_state.ButtonIdle (Some (RemoveEntry address))
          [Txt (if removing = Some address then ''Removing'' @ three_dots else ''Remove'')]]])"

definition whitelist_table :: "(string \<Rightarrow> string) \<Rightarrow> (string \<times> string) list \<Rightarrow> bool \<Rightarrow> string option \<Rightarrow> whitelist_act view" where
  "whitelist_table date liquidators loading removing =
     (if loading then El ''div'' [(''aria-busy'', ''true''), (''aria-label'', ''Loading whitelist'')] [plain_el ''div'' []]
      else if liquidators = [] then El ''div'' [(''aria-label'', ''Whitelist is empty'')] [label_el ''p'' ''No approved liquidators yet.'']
      else plain_el ''div'' [El ''table'' [(''aria-label'', ''Approved liquidators'')]
        [label_el ''caption'' ''List of approved liquidator addresses'',
         plain_el ''thead'' [plain_el ''tr'' [label_el ''th'' ''Address'', label_el ''th'' ''Added'', plain_el ''th'' [label_el ''span'' ''Actions'']]],
         plain_el ''tbody'' (map (whitelist_entry date loading removing) liquidators)]])"

definition LiquidatorWhitelist ::
  "(string \<Rightarrow> string) \<Rightarrow> (string \<times> string) list \<Rightarrow> bool \<Rightarrow> string option \<Rightarrow> whitelist_form \<Rightarrow> whitelist_act view" where
  "LiquidatorWhitelist date liquidators loading error w =
     El ''section'' [(''aria-labelledby'', ''whitelist-heading'')]
       [Card (Some [plain_el ''div'' [El ''h2'' [(''id'', ''whitelist-heading'')] [Txt ''Liquidator Whitelist''],
            El ''span'' [(''aria-live'', ''polite'')] [Txt (whitelist_banner liquidators)]]]) None (
          [label_el ''p'' (if liquidators = []
             then ''The whitelist is empty '' @ long_dash @ '' any address can currently liquidate undercollateralised loans. Add at least one address below to restrict liquidation access.''
             else ''Only the addresses listed below are authorised to liquidate loans. Removing all addresses restores open liquidation.'')] @
          (case truthy_str error of None \<Rightarrow> [] | Some e \<Rightarrow> [El ''div'' [(''role'', ''alert'')] [Txt e]]) @
          (case truthy_str (wf_success w) of None \<Rightarrow> [] | Some m \<Rightarrow> [El ''div'' [(''role'', ''status''), (''aria-live'', ''polite'')] [Txt m]]) @
          [El ''form'' [(''aria-label'', ''Add liquidator'')]
             [plain_el ''div''
                [plain_el ''div'' [Input False ''Stellar address'' [(''placeholder'', ''G... or C...''), (''aria-required'', ''true''), (''maxLength'', ''56'')]
                   (wf_submitting w \<or> loading) (wf_newAddress w) (wf_fieldError w) TypeEntry],
                 plain_el ''div'' [Button loading (wf_submitting w) button_state.ButtonIdle (Some SubmitEntry)
                   [Txt (if wf_submitting w then ''Adding'' @ three_dots else ''Add'')]]]],
           whitelist_table date liquidators loading (wf_removing w)])]"

subsection \<open>Filters and lists (SearchFilterBar.tsx, LoansListClient.tsx, CollateralListClient.tsx, Pagination.tsx)\<close>

definition Chip :: "string \<times> search_action \<Rightarrow> search_action view" where
  "Chip = (\<lambda>(label, onRemove). plain_el ''span'' [Txt label,
     Press [(''aria-label'', ''Remove filter '' @ label)] False (Some onRemove) [Txt times_sign]])"

definition filter_set :: "string \<Rightarrow> string list \<Rightarrow> string list \<Rightarrow> (string \<Rightarrow> search_action) \<Rightarrow> search_action view list" where
  "filter_set legend options chosen act =
     shown_if (options \<noteq> [])
       [plain_el ''fieldset'' [label_el ''legend'' legend,
          plain_el ''div'' (map (\<lambda>v. Press [(''aria-pressed'', if v \<in> set chosen then ''true'' else ''false'')] False (Some (act v)) [Txt v]) options)]]"

definition SearchFilterBar :: "string list \<Rightarrow> string list \<Rightarrow> string \<Rightarrow> FilterState \<Rightarrow> search_action view" where
  "SearchFilterBar statusOptions typeOptions searchPlaceholder f =
     plain_el ''div'' (
       [plain_el ''div''
          (Enter [(''type'', ''search''), (''aria-label'', ''Search''), (''placeholder'', searchPlaceholder)] False (fs_query f) SetQuery #
           shown_if (hasActiveFilters f) [Press [(''aria-label'', ''Clear all filters'')] False (Some ClearAll) [Txt ''Clear all'']]),
        plain_el ''div''
          (filter_set ''Status'' statusOptions (fs_statuses f) ToggleStatus @ filter_set ''Type'' typeOptions (fs_types f) ToggleType @
           [plain_el ''fieldset'' [label_el ''legend'' ''Date range'',
              plain_el ''div''
                [Enter ([(''type'', ''date''), (''aria-label'', ''From date'')] @ (if fs_dateTo f = [] then [] else [(''max'', fs_dateTo f)]))
                   False (fs_dateFrom f) SetDateFrom,
                 label_el ''span'' ''to'',
                 Enter ([(''type'', ''date''), (''aria-label'', ''To date'')] @ (if fs_dateFrom f = [] then [] else [(''min'', fs_dateFrom f)]))
                   False (fs_dateTo f) SetDateTo]]])] @
       shown_if (hasActiveFilters f) [El ''div'' [(''aria-label'', ''Active filters'')] (map Chip (filter_chips f))])"

definition list_page :: "string \<Rightarrow> search_action view \<Rightarrow> bool \<Rightarrow> string \<Rightarrow> search_action view list \<Rightarrow> search_action view" where
  "list_page title bar loading none items =
     plain_el ''main'' [label_el ''h1'' title,
       plain_el ''div'' [bar,
         (if loading then label_el ''p'' (''Loading'' @ three_dots) else if items = [] then label_el ''p'' none else plain_el ''ul'' items)]]"

definition loan_item :: "page_texts \<Rightarrow> page_loan \<Rightarrow> search_action view" where
  "loan_item pt l =
     plain_el ''li'' [plain_el ''div'' [plain_el ''p'' [Txt ''Loan #'', Txt (pl_id l)], label_el ''p'' (pl_borrower l)],
       plain_el ''div'' [label_el ''p'' (pt_locale pt (Fin (pl_amount l))), label_el ''span'' (pl_status l)]]"

definition LoansListClient :: "page_texts \<Rightarrow> FilterState \<Rightarrow> params \<Rightarrow> page_loan list \<Rightarrow> bool \<Rightarrow> search_action view" where
  "LoansListClient pt f ps loans loading =
     list_page ''Loans''
       (SearchFilterBar [''active'', ''repaid'', ''liquidated'', ''pending''] [] (''Search by loan ID, borrower, or status'' @ three_dots) f)
       loading ''No loans match your filters.''
       (map (loan_item pt) (loans_shown (or_empty (params_get ''q'' ps)) (params_getAll ''status'' ps) loans))"

definition collateral_item :: "page_texts \<Rightarrow> page_collateral \<Rightarrow> search_action view" where
  "collateral_item pt c =
     plain_el ''li''
       [plain_el ''div'' [plain_el ''p'' [Txt (pc_animal_type c), Txt ('' '' @ long_dash @ '' ''), Txt (pt_plain pt (Fin (pc_count c))), Txt '' head''],
          label_el ''p'' (pc_owner c)],
        plain_el ''div'' [label_el ''p'' (pt_locale pt (Fin (pc_appraised_value c))), plain_el ''p'' [Txt ''ID: '', Txt (pc_id c)]]]"

definition CollateralListClient :: "page_texts \<Rightarrow> FilterState \<Rightarrow> params \<Rightarrow> page_collateral list \<Rightarrow> bool \<Rightarrow> search_action view" where
  "CollateralListClient pt f ps items loading =
     list_page ''Collateral''
       (SearchFilterBar [] [''cattle'', ''goat'', ''sheep'', ''pig'', ''poultry''] (''Search by ID, owner, or animal type'' @ three_dots) f)
       loading ''No collateral matches your filters.''
       (map (collateral_item pt) (collateral_shown (or_empty (params_get ''q'' ps)) (params_getAll ''type'' ps) items))"

datatype page_press = PressPage int | ChooseLimit string

definition Pagination :: "pagination \<Rightarrow> page_press view" where
  "Pagination p =
     El ''nav'' [(''aria-label'', ''Pagination'')]
       [plain_el ''div''
          [El ''label'' [(''for'', ''page-size'')] [Txt ''Items per page''], label_el ''span'' ''Show'',
           Enter [(''id'', ''page-size'')] False (string_of_int (pg_limit p)) ChooseLimit,
           plain_el ''div'' (map (\<lambda>n. El ''option'' [(''value'', string_of_int n)] [Txt (string_of_int n)]) PAGE_SIZE_OPTIONS),
           label_el ''span'' ''per page''],
        plain_el ''div''
          [Press [(''aria-label'', ''Previous page'')] (prev_disabled p) (Some (PressPage (pg_page p - 1))) [Txt (arrow_left @ '' Prev'')],
           El ''span'' [(''aria-current'', ''page'')] [Txt ''Page '', Txt (string_of_int (pg_page p)), Txt '' of '', Txt (string_of_int (pg_totalPages p))],
           Press [(''aria-label'', ''Next page'')] (next_disabled p) (Some (PressPage (pg_page p + 1))) [Txt (''Next '' @ arrow_right)]]]"

subsection \<open>The registration, followed\<close>

lemma clicks_Input [simp]: "clicks (Input needed label attrs disabled value error onChange) = []"
  by (cases "truthy_str error") (simp_all add: Input_def form_label_def field_message_def)

lemma entries_Input [simp]: "entries (Input needed label attrs disabled value error onChange) = (if disabled then [] else [onChange])"
  by (cases "truthy_str error") (simp_all add: Input_def form_label_def field_message_def)

lemma clicks_Select [simp]: "clicks (Select needed label options disabled value onChange) = []"
  and entries_Select [simp]: "entries (Select needed label options disabled value onChange) = (if disabled then [] else [onChange])"
  by (simp_all add: Select_def form_label_def comp_def split_beta)

lemma clicks_RegistrationForm:
  "set (clicks (RegistrationForm savedAt r)) =
     (if rg_showRestorePrompt r then {RestoreDraft, DismissDraft} else {}) \<union>
     (if truthy_str (rg_imagePreview r) = None then {} else {RemoveImage}) \<union>
     (if rg_loading r then {} else {SubmitForm}) \<union>
     (if rg_showConfirm r then {CancelConfirm, ConfirmRegister} else {})"
  by (cases savedAt; cases "truthy_str (rg_imagePreview r)"; cases "truthy_str (rg_status r)"; cases "truthy_str (map_of (rg_errors r) ''image'')")
    (auto simp: RegistrationForm_def reg_photo_def reg_submit_def reg_after_def Let_def reg_input_def processing_def ConfirmDialog_def Modal_def shown_if_def)


text \<open>
  The form while requests may be under way: each keeps the form as it was rendered when its submission was
  confirmed, whose data it sends. What it ends with is set on the form of that time.
\<close>

definition end_request :: "flow_env \<Rightarrow> string \<Rightarrow> registration \<Rightarrow> registration \<Rightarrow> registration" where
  "end_request env walletAddress sent r =
     (case registerCollateral_v1 env walletAddress (r\<lparr>rg_data := rg_data sent\<rparr>) of
        (r', Some result) \<Rightarrow> r'
      | (r', None) \<Rightarrow> r'\<lparr>rg_data := rg_data r\<rparr>)"

inductive form_run :: "string \<Rightarrow> draft option \<Rightarrow> registration \<Rightarrow> registration list \<Rightarrow> bool"
  for walletAddress :: string and stored :: "draft option" where
  Opened: "form_run walletAddress stored (open_registration walletAddress stored) []"
| Pressed: "form_run walletAddress stored r flights \<Longrightarrow> a \<in> set (clicks (RegistrationForm savedAt r)) \<Longrightarrow>
    form_run walletAddress stored (reg_do file a r) (if a = ConfirmRegister then r # flights else flights)"
| Entered: "form_run walletAddress stored r flights \<Longrightarrow> f \<in> set (entries (RegistrationForm savedAt r)) \<Longrightarrow>
    form_run walletAddress stored (reg_do file (f v) r) flights"
| Saved: "form_run walletAddress stored r flights \<Longrightarrow> form_run walletAddress stored (auto_save walletAddress r) flights"
| Ended: "form_run walletAddress stored r flights \<Longrightarrow> i < length flights \<Longrightarrow>
    form_run walletAddress stored (end_request env walletAddress (flights ! i) r) (take i flights @ drop (Suc i) flights)"

lemma entries_RegistrationForm:
  "f \<in> set (entries (RegistrationForm savedAt r)) \<Longrightarrow>
   \<not> rg_loading r \<and> ((\<exists>name. f = ChangeText name) \<or> f = ChooseImage)"
  by (cases savedAt; cases "truthy_str (rg_imagePreview r)"; cases "truthy_str (rg_status r)"; cases "truthy_str (map_of (rg_errors r) ''image'')")
    (auto simp: RegistrationForm_def reg_photo_def reg_submit_def reg_after_def Let_def reg_input_def processing_def ConfirmDialog_def Modal_def shown_if_def split: if_splits)

text \<open>What the acts of the form leave alone.\<close>

lemma reg_do_loading: "rg_loading (reg_do file a r) = (a = ConfirmRegister \<or> rg_loading r)"
  by (cases a) (auto simp: restoreSavedData_def dismissRestore_def handleChange_def handleImageChange_def removeImage_def
      handleSubmit_def confirmRegister_def Let_def split: option.splits)

lemma reg_do_confirm: "a \<noteq> SubmitForm \<Longrightarrow> rg_showConfirm (reg_do file a r) \<Longrightarrow> rg_showConfirm r \<and> a \<noteq> ConfirmRegister"
  by (cases a) (auto simp: restoreSavedData_def dismissRestore_def handleChange_def handleImageChange_def removeImage_def
      confirmRegister_def Let_def split: option.splits)

lemma end_request_flags:
  "\<not> rg_loading (end_request env w sent r)" "rg_showConfirm (end_request env w sent r) = rg_showConfirm r"
  by (simp_all add: end_request_def registerCollateral_v1_def Let_def split: sum.split prod.split option.split)

lemma auto_save_flags [simp]: "rg_loading (auto_save w r) = rg_loading r" "rg_showConfirm (auto_save w r) = rg_showConfirm r"
  by (simp_all add: auto_save_def Let_def)

lemma form_run_flights:
  "form_run w stored r flights \<Longrightarrow>
   length flights = (if rg_loading r then 1 else 0) \<and> (rg_loading r \<longrightarrow> \<not> rg_showConfirm r)"
proof (induction rule: form_run.induct)
  case Opened
  then show ?case by (simp add: open_registration_def)
next
  case (Pressed r flights a savedAt pick)
  then have "rg_loading r \<Longrightarrow> a \<noteq> SubmitForm \<and> a \<noteq> ConfirmRegister"
    by (auto simp: clicks_RegistrationForm split: if_splits)
  then show ?case using Pressed.IH reg_do_confirm [of a pick r]
    by (cases "a = ConfirmRegister") (auto simp: reg_do_loading confirmRegister_def)
next
  case (Entered r flights f savedAt pick v)
  from entries_RegistrationForm [OF Entered.hyps(2)] have "\<not> rg_loading r" "f v \<noteq> ConfirmRegister" by auto
  then show ?case using Entered.IH by (simp add: reg_do_loading)
next
  case (Saved r flights)
  then show ?case by simp
next
  case (Ended r flights i env)
  then show ?case by (auto simp: end_request_flags split: if_splits)
qed



text \<open>C14: The registration form, from mounting on and whatever is pressed, entered and saved meanwhile, never has two
  requests under way, shows that one is by its state \<open>loading\<close>, and offers neither to submit nor to confirm again
  until it has ended.\<close>

theorem one_registration_under_way:
  assumes "form_run w stored r flights"
  shows "length flights \<le> 1 \<and> (rg_loading r \<longleftrightarrow> flights \<noteq> []) \<and>
    (flights \<noteq> [] \<longrightarrow> set (clicks (RegistrationForm savedAt r)) \<inter> {SubmitForm, ConfirmRegister, CancelConfirm} = {})"
  using form_run_flights [OF assms] by (auto simp: clicks_RegistrationForm split: if_splits)

definition sample_draft :: draft where "sample_draft = \<lparr>dr_walletAddress = ''GA'', dr_data = sample_form\<rparr>"

definition sample_submission :: registration where
  "sample_submission = (open_registration ''GA'' (Some sample_draft))\<lparr>rg_data := sample_form, rg_showRestorePrompt := False, rg_showConfirm := True\<rparr>"

lemma sample_submission_run:
  "form_run ''GA'' (Some sample_draft) (reg_do (\<lambda>_. None) ConfirmRegister sample_submission) [sample_submission]"
proof -
  let ?o = "open_registration ''GA'' (Some sample_draft)"
  let ?d = "reg_do (\<lambda>_. None) RestoreDraft ?o"
  have o: "form_run ''GA'' (Some sample_draft) ?o []" by (rule form_run.Opened)
  have "RestoreDraft \<in> set (clicks (RegistrationForm None ?o))"
    by (simp add: clicks_RegistrationForm open_registration_def sample_draft_def)
  from form_run.Pressed [OF o this, of "\<lambda>_. None"] have d: "form_run ''GA'' (Some sample_draft) ?d []" by simp
  have "SubmitForm \<in> set (clicks (RegistrationForm None ?d))"
    by (simp add: clicks_RegistrationForm restoreSavedData_def open_registration_def sample_draft_def)
  from form_run.Pressed [OF d this, of "\<lambda>_. None"]
  have s: "form_run ''GA'' (Some sample_draft) (reg_do (\<lambda>_. None) SubmitForm ?d) []" by simp
  have e: "reg_do (\<lambda>_. None) SubmitForm ?d = sample_submission"
    by (simp add: handleSubmit_def sample_form_valid restoreSavedData_def open_registration_def sample_draft_def sample_submission_def)
  have "ConfirmRegister \<in> set (clicks (RegistrationForm None sample_submission))"
    by (simp add: clicks_RegistrationForm sample_submission_def)
  from form_run.Pressed [OF s [unfolded e] this, of "\<lambda>_. None"] show ?thesis by simp
qed

theorem one_registration_under_way_witness:
  "length [sample_submission] \<le> 1 \<and> rg_loading (reg_do (\<lambda>_. None) ConfirmRegister sample_submission)"
  using one_registration_under_way [OF sample_submission_run] by blast

text \<open>Every filter that is set has its chip, and pressing a chip on the bar leaves fewer of them.\<close>

definition filters_set :: "FilterState \<Rightarrow> nat" where
  "filters_set f = length (fs_statuses f) + length (fs_types f) +
     length (filter (\<lambda>s. s \<noteq> []) [fs_query f, fs_dateFrom f, fs_dateTo f])"

lemma toggle_shorter: "x \<in> set xs \<Longrightarrow> length (toggle x xs) < length xs"
  by (simp add: toggle_def length_filter_less)

lemma clicks_Chip [simp]: "clicks (Chip c) = [snd c]"
  by (simp add: Chip_def split_beta)

lemma chips_pressable: "set (map snd (filter_chips f)) \<subseteq> set (clicks (SearchFilterBar st ty ph f))"
  by (auto simp: SearchFilterBar_def shown_if_def filter_chips_def)

lemma chip_counts_down: "(l, a) \<in> set (filter_chips f) \<Longrightarrow> filters_set (next_filters a f) < filters_set f"
  by (auto simp: filter_chips_def filters_set_def toggle_shorter split: if_splits)

lemma filters_set_0: "filters_set f = length (filter_chips f)" "filters_set f = 0 \<longleftrightarrow> f = EMPTY"
  by (cases f; auto simp: filter_chips_def hasActiveFilters_def filters_set_def EMPTY_def)+


end
