(* ===== verification/Charts.thy ===== *)
theory Charts
  imports Js_Num
begin

section \<open>Numbers on the screen (frontend/src/components)\<close>

text \<open>
  The drawing and counting of AnimatedCounter.tsx, PriceChart.tsx, HealthGauge.tsx, RepaymentTimeline.tsx
  and CollateralSummary.tsx. \<open>Math.pow\<close> is a parameter; the coordinates are the numbers here, \<open>Chart_View\<close> has
  the texts they are written into. The theorems: an animation shows whole numbers between its ends and
  ends on the value within its duration, and a chart stays inside its area.
\<close>

subsection \<open>Counting up (AnimatedCounter.tsx)\<close>

definition clampedDuration :: "int \<Rightarrow> int" where "clampedDuration duration = min 1200 (max 800 duration)"

record counter =
  ct_displayed :: rat
  ct_prev :: rat
  ct_start :: "int option"
  ct_running :: bool

definition open_counter :: "bool \<Rightarrow> rat \<Rightarrow> counter" where
  "open_counter reducedMotion v =
     \<lparr>ct_displayed = (if reducedMotion then v else 0), ct_prev = (if reducedMotion then v else 0), ct_start = None,
      ct_running = False\<rparr>"

text \<open>A new value: the frames that still come are cancelled, the animation starts at the value last reached.\<close>

definition counter_value :: "bool \<Rightarrow> rat \<Rightarrow> counter \<Rightarrow> counter" where
  "counter_value reducedMotion v c =
     (if reducedMotion then c\<lparr>ct_displayed := v, ct_prev := v, ct_running := False\<rparr>
      else if ct_prev c = v then c\<lparr>ct_running := False\<rparr>
      else c\<lparr>ct_start := None, ct_running := True\<rparr>)"

text \<open>A frame at a time stamp; \<open>pow\<close> is \<open>Math.pow\<close>.\<close>

definition counter_tick :: "(rat \<Rightarrow> nat \<Rightarrow> rat) \<Rightarrow> int \<Rightarrow> rat \<Rightarrow> int \<Rightarrow> counter \<Rightarrow> counter" where
  "counter_tick pow dur v timestamp c =
     (if \<not> ct_running c then c
      else
        (let start = (case ct_start c of None \<Rightarrow> timestamp | Some s \<Rightarrow> s);
             progress = min (js_div (of_int (timestamp - start)) (of_int dur)) 1;
             eased = js_sub 1 (pow (js_sub 1 progress) 3);
             current = js_round (js_add (ct_prev c) (js_mul (js_sub v (ct_prev c)) eased)) in
         if progress < 1 then c\<lparr>ct_start := Some start, ct_displayed := current\<rparr>
         else c\<lparr>ct_displayed := v, ct_prev := v, ct_start := None, ct_running := False\<rparr>))"

definition counter_run :: "(rat \<Rightarrow> nat \<Rightarrow> rat) \<Rightarrow> int \<Rightarrow> rat \<Rightarrow> int list \<Rightarrow> counter \<Rightarrow> counter" where
  "counter_run pow dur v ts c = foldl (\<lambda>c t. counter_tick pow dur v t c) c ts"

subsection \<open>The price chart (PriceChart.tsx)\<close>

definition SVG_W :: rat where "SVG_W = 400"

definition SVG_H :: rat where "SVG_H = 120"

definition PAD_top :: rat where "PAD_top = 10"

definition PAD_right :: rat where "PAD_right = 10"

definition PAD_bottom :: rat where "PAD_bottom = 24"

definition PAD_left :: rat where "PAD_left = 48"

definition or_1 :: "rat \<Rightarrow> rat" where "or_1 x = (if x = 0 then 1 else x)"

text \<open>The point of index \<open>i\<close> of \<open>n\<close> with value \<open>v\<close>, between the least and the greatest value.\<close>

definition chart_point :: "nat \<Rightarrow> rat \<Rightarrow> rat \<Rightarrow> nat \<Rightarrow> rat \<Rightarrow> rat \<times> rat" where
  "chart_point n minV maxV i v =
     (let range = or_1 (js_sub maxV minV);
          innerW = js_sub (js_sub SVG_W PAD_left) PAD_right; innerH = js_sub (js_sub SVG_H PAD_top) PAD_bottom in
      (js_add PAD_left (js_mul (js_div (of_nat i) (of_nat (n - 1))) innerW),
       js_sub (js_add PAD_top innerH) (js_mul (js_div (js_sub v minV) range) innerH)))"

definition buildPath :: "rat list \<Rightarrow> (rat \<times> rat) list" where
  "buildPath values =
     (if length values < 2 then []
      else map (\<lambda>(i, v). case chart_point (length values) (Min (set values)) (Max (set values)) i v of
             (x, y) \<Rightarrow> (to_fixed 1 x, to_fixed 1 y)) (enumerate 0 values))"

definition formatXlm :: "rat \<Rightarrow> rat" where "formatXlm stroops = to_fixed 2 (js_div stroops (10 ^ 7))"

subsection \<open>The gauge (HealthGauge.tsx)\<close>

definition gauge_frac :: "rat \<Rightarrow> rat" where "gauge_frac v = min (js_div v 20000) 1"

definition gauge_label :: "rat \<Rightarrow> string" where
  "gauge_label v = (if 15000 \<le> v then ''Safe'' else if 10000 \<le> v then ''Warning'' else ''Danger'')"

definition valueToAngle :: "rat \<Rightarrow> rat" where "valueToAngle part = js_sub 180 (js_mul part 180)"

definition ZONES :: "(rat \<times> rat \<times> string) list" where
  "ZONES = [(0, 1 / 2, ''Danger''), (1 / 2, 3 / 4, ''Warning''), (3 / 4, 1, ''Safe'')]"

text \<open>A point of the history, and where an arrow key moves the focus to.\<close>

definition history_point :: "nat \<Rightarrow> rat \<Rightarrow> nat \<Rightarrow> rat \<Rightarrow> rat \<times> rat" where
  "history_point n mx i v =
     (js_mul (js_div (of_nat i) (if n - 1 = 0 then 1 else of_nat (n - 1))) 100, js_sub 100 (js_mul (js_div v mx) 90))"

definition history_max :: "rat list \<Rightarrow> rat" where "history_max values = Max (insert 20000 (set values))"

definition focus_key :: "string \<Rightarrow> nat \<Rightarrow> nat \<Rightarrow> nat option" where
  "focus_key key n i =
     (if key = ''ArrowLeft'' \<or> key = ''ArrowUp'' then if 0 < i then Some (i - 1) else None
      else if key = ''ArrowRight'' \<or> key = ''ArrowDown'' then if i + 1 < n then Some (i + 1) else None
      else None)"

subsection \<open>Summaries (RepaymentTimeline.tsx, CollateralSummary.tsx)\<close>

definition timeline_counts :: "string list \<Rightarrow> nat \<times> nat \<times> nat" where
  "timeline_counts statuses =
     (length (filter (\<lambda>s. s = ''paid'') statuses), length (filter (\<lambda>s. s = ''overdue'') statuses),
      length (filter (\<lambda>s. s = ''upcoming'') statuses))"

record collateral_totals =
  tt_xlm :: rat
  tt_usd :: rat
  tt_capacity :: rat
  tt_count :: nat

definition collateral_summary :: "rat list \<Rightarrow> collateral_totals" where
  "collateral_summary appraised =
     (let totalValue = foldl js_add 0 appraised; xlmValue = to_fixed 2 (js_div totalValue (10 ^ 7)) in
      \<lparr>tt_xlm = xlmValue, tt_usd = to_fixed 2 (js_mul xlmValue (fl (12 / 100))),
       tt_capacity = to_fixed 2 (js_div (js_mul totalValue (1 / 2)) (10 ^ 7)), tt_count = length appraised\<rparr>)"

subsection \<open>Facts about the counter\<close>

lemma js_round_of_int_bounds:
  assumes "of_int a \<le> x" "x \<le> of_int b" shows "of_int a \<le> js_round x" "js_round x \<le> of_int b"
proof -
  have "a \<le> \<lfloor>x + 1 / 2\<rfloor>" using assms(1) by (simp add: le_floor_iff)
  moreover have "\<lfloor>x + 1 / 2\<rfloor> \<le> b" using assms(2) by (simp add: floor_le_iff)
  ultimately show "of_int a \<le> js_round x" "js_round x \<le> of_int b" by (simp_all add: js_round_def)
qed

text \<open>A step from \<open>a\<close> towards \<open>b\<close> by a part of the way stays between them.\<close>

lemma part_of_the_way:
  assumes "\<bar>a\<bar> \<le> 2 ^ 51" "\<bar>b\<bar> \<le> 2 ^ 51" "0 \<le> e" "e \<le> 1"
  shows "of_int (min a b) \<le> js_add (of_int a) (js_mul (js_sub (of_int b) (of_int a)) e)"
    and "js_add (of_int a) (js_mul (js_sub (of_int b) (of_int a)) e) \<le> of_int (max a b)"
proof -
  have d: "js_sub (of_int b) (of_int a) = of_int (b - a)" using assms by (intro js_sub_of_int) auto
  let ?d = "of_int (b - a) :: rat"
  have f: "fl (of_int k) = of_int k" if "\<bar>k\<bar> \<le> 2 ^ 53" for k using fl_of_int [OF that] .
  have de: "of_int (min 0 (b - a)) \<le> ?d * e" "?d * e \<le> of_int (max 0 (b - a))"
  proof -
    show "of_int (min 0 (b - a)) \<le> ?d * e"
    proof (cases "0 \<le> b - a")
      case True then show ?thesis using assms(3) by simp
    next
      case False
      then have "?d * 1 \<le> ?d * e" using assms(4) by (intro mult_left_mono_neg) auto
      then show ?thesis using False by simp
    qed
    show "?d * e \<le> of_int (max 0 (b - a))"
    proof (cases "0 \<le> b - a")
      case True
      then have "?d * e \<le> ?d * 1" using assms(4) by (intro mult_left_mono) auto
      then show ?thesis using True by simp
    next
      case False then show ?thesis using assms(3) by (simp add: mult_nonpos_nonneg)
    qed
  qed
  have m: "of_int (min 0 (b - a)) \<le> js_mul ?d e" "js_mul ?d e \<le> of_int (max 0 (b - a))"
    using fl_mono [OF de(1)] fl_mono [OF de(2)] f [of "min 0 (b - a)"] f [of "max 0 (b - a)"] assms
    by (auto simp: js_mul_def)
  have "of_int (min a b) \<le> of_int a + js_mul ?d e" "of_int a + js_mul ?d e \<le> of_int (max a b)"
    using m by (auto simp: min_def max_def split: if_splits)
  from fl_mono [OF this(1)] fl_mono [OF this(2)]
  show "of_int (min a b) \<le> js_add (of_int a) (js_mul (js_sub (of_int b) (of_int a)) e)"
    "js_add (of_int a) (js_mul (js_sub (of_int b) (of_int a)) e) \<le> of_int (max a b)"
    using f [of "min a b"] f [of "max a b"] assms by (auto simp: d js_add_def)
qed


lemma fl_small_int: "\<bar>k\<bar> \<le> 2 ^ 53 \<Longrightarrow> x \<le> of_int k \<Longrightarrow> fl x \<le> of_int k" "\<bar>k\<bar> \<le> 2 ^ 53 \<Longrightarrow> of_int k \<le> x \<Longrightarrow> of_int k \<le> fl x"
  using fl_mono [of x "of_int k"] fl_mono [of "of_int k" x] fl_of_int [of k] by auto

lemma fl_unit: "0 \<le> x \<Longrightarrow> x \<le> 1 \<Longrightarrow> 0 \<le> fl x \<and> fl x \<le> 1"
  using fl_small_int(1) [of 1 x] by simp

definition pow_unit :: "(rat \<Rightarrow> nat \<Rightarrow> rat) \<Rightarrow> bool" where
  "pow_unit pow \<longleftrightarrow> (\<forall>x. 0 \<le> x \<and> x \<le> 1 \<longrightarrow> 0 \<le> pow x 3 \<and> pow x 3 \<le> 1)"

definition counting :: "int \<Rightarrow> int \<Rightarrow> int \<Rightarrow> counter \<Rightarrow> bool" where
  "counting s a b c \<longleftrightarrow> of_int (min a b) \<le> ct_displayed c \<and> ct_displayed c \<le> of_int (max a b) \<and>
     (if ct_running c then ct_prev c = of_int a \<and> ct_start c = Some s else ct_displayed c = of_int b)"

lemma counter_frame:
  assumes pow: "pow_unit pow" and ab: "\<bar>a\<bar> \<le> 2 ^ 51" "\<bar>b\<bar> \<le> 2 ^ 51" and dur: "0 < dur" and t: "s \<le> t"
    and run: "ct_running c" "ct_prev c = of_int a" "ct_start c = Some s \<or> ct_start c = None \<and> t = s"
  shows "counting s a b (counter_tick pow dur (of_int b) t c)"
    and "dur \<le> t - s \<Longrightarrow> \<not> ct_running (counter_tick pow dur (of_int b) t c)"
proof -
  define progress where "progress = min (js_div (of_int (t - s)) (of_int dur)) 1"
  define eased where "eased = js_sub 1 (pow (js_sub 1 progress) 3)"
  have q: "(0 :: rat) \<le> of_int (t - s) / of_int dur" using t dur by simp
  have p: "0 \<le> progress" "progress \<le> 1" using q by (auto simp: progress_def js_div_def)
  then have "0 \<le> js_sub 1 progress" "js_sub 1 progress \<le> 1" using fl_unit [of "1 - progress"] by (auto simp: js_sub_def)
  then have "0 \<le> pow (js_sub 1 progress) 3 \<and> pow (js_sub 1 progress) 3 \<le> 1" using pow unfolding pow_unit_def by blast
  then have e: "0 \<le> eased" "eased \<le> 1" using fl_unit [of "1 - pow (js_sub 1 progress) 3"] by (auto simp: eased_def js_sub_def)
  note way = js_round_of_int_bounds [OF part_of_the_way [OF ab e]]
  have start: "(case ct_start c of None \<Rightarrow> t | Some s' \<Rightarrow> s') = s" using run(3) by auto
  have tick: "counter_tick pow dur (of_int b) t c =
    (if progress < 1 then c\<lparr>ct_start := Some s, ct_displayed := js_round (js_add (of_int a) (js_mul (js_sub (of_int b) (of_int a)) eased))\<rparr>
     else c\<lparr>ct_displayed := of_int b, ct_prev := of_int b, ct_start := None, ct_running := False\<rparr>)"
    by (simp add: counter_tick_def run(1,2) start Let_def progress_def eased_def)
  show "counting s a b (counter_tick pow dur (of_int b) t c)"
    unfolding tick counting_def using way run by auto
  assume "dur \<le> t - s"
  then have "(1 :: rat) \<le> of_int (t - s) / of_int dur" using dur by (simp add: le_divide_eq flip: of_int_diff)
  then have "1 \<le> js_div (of_int (t - s)) (of_int dur)"
    using fl_small_int(2) [of 1 "of_int (t - s) / of_int dur"] by (simp only: js_div_def) simp
  then have "\<not> progress < 1" by (simp add: progress_def)
  then show "\<not> ct_running (counter_tick pow dur (of_int b) t c)" unfolding tick by simp
qed

lemma counter_frames:
  assumes "pow_unit pow" "\<bar>a\<bar> \<le> 2 ^ 51" "\<bar>b\<bar> \<le> 2 ^ 51" "0 < dur" "counting s a b c" "\<forall>t \<in> set ts. s \<le> t"
  shows "counting s a b (counter_run pow dur (of_int b) ts c) \<and>
    ((\<exists>t \<in> set ts. dur \<le> t - s) \<or> \<not> ct_running c \<longrightarrow> \<not> ct_running (counter_run pow dur (of_int b) ts c))"
  using assms(5,6)
proof (induction ts arbitrary: c)
  case Nil then show ?case by (simp add: counter_run_def)
next
  case (Cons t ts)
  let ?c = "counter_tick pow dur (of_int b) t c"
  have step: "counting s a b ?c" "dur \<le> t - s \<Longrightarrow> \<not> ct_running ?c"
    and idle: "\<not> ct_running c \<Longrightarrow> ?c = c"
    using Cons.prems counter_frame [OF assms(1-4), of s t c]
    by (auto simp: counting_def counter_tick_def)
  have run: "counter_run pow dur (of_int b) (t # ts) c = counter_run pow dur (of_int b) ts ?c"
    by (simp add: counter_run_def)
  show ?case unfolding run using Cons.IH [OF step(1)] Cons.prems(2) step(2) idle by auto
qed

lemma counter_run_arrives:
  assumes "pow_unit pow" "\<bar>a\<bar> \<le> 2 ^ 51" "\<bar>b\<bar> \<le> 2 ^ 51" "a \<noteq> b" "ct_prev c = of_int a" "\<forall>u \<in> set ts. t \<le> u"
  shows "of_int (min a b) \<le> ct_displayed (counter_run pow (clampedDuration d) (of_int b) (t # ts) (counter_value False (of_int b) c))"
    and "ct_displayed (counter_run pow (clampedDuration d) (of_int b) (t # ts) (counter_value False (of_int b) c)) \<le> of_int (max a b)"
    and "\<exists>u \<in> set ts. 1200 \<le> u - t \<Longrightarrow>
      ct_displayed (counter_run pow (clampedDuration d) (of_int b) (t # ts) (counter_value False (of_int b) c)) = of_int b \<and>
      \<not> ct_running (counter_run pow (clampedDuration d) (of_int b) (t # ts) (counter_value False (of_int b) c))"
proof -
  let ?c = "counter_value False (of_int b) c"
  have dur: "0 < clampedDuration d" "clampedDuration d \<le> 1200" by (auto simp: clampedDuration_def)
  have c: "ct_running ?c" "ct_prev ?c = of_int a" "ct_start ?c = None" using assms(4,5) by (auto simp: counter_value_def)
  from counter_frame(1) [OF assms(1-3) dur(1) order_refl c(1,2), of t] c(3)
  have f: "counting t a b (counter_tick pow (clampedDuration d) (of_int b) t ?c)" by simp
  note r = counter_frames [OF assms(1-3) dur(1) f assms(6)]
  have run: "counter_run pow (clampedDuration d) (of_int b) (t # ts) ?c =
    counter_run pow (clampedDuration d) (of_int b) ts (counter_tick pow (clampedDuration d) (of_int b) t ?c)"
    by (simp add: counter_run_def)
  show "of_int (min a b) \<le> ct_displayed (counter_run pow (clampedDuration d) (of_int b) (t # ts) ?c)"
    "ct_displayed (counter_run pow (clampedDuration d) (of_int b) (t # ts) ?c) \<le> of_int (max a b)"
    using r unfolding run counting_def by auto
  assume "\<exists>u \<in> set ts. 1200 \<le> u - t"
  then have "\<exists>u \<in> set ts. clampedDuration d \<le> u - t" using dur(2) by force
  then show "ct_displayed (counter_run pow (clampedDuration d) (of_int b) (t # ts) ?c) = of_int b \<and>
      \<not> ct_running (counter_run pow (clampedDuration d) (of_int b) (t # ts) ?c)"
    using r unfolding run counting_def by (auto split: if_splits)
qed

text \<open>After a new value the counter shows, from the first frame on, numbers between the value it comes from
  and the new one, and from the frame on that is a duration after the first it shows the value and has
  stopped, whatever the easing does within its bounds.\<close>

theorem counter_arrives:
  assumes "pow_unit pow" "\<bar>a\<bar> \<le> 2 ^ 51" "\<bar>b\<bar> \<le> 2 ^ 51" "a \<noteq> b" "ct_prev c = of_int a" "\<forall>u \<in> set ts. t \<le> u"
    and "counter_run pow (clampedDuration d) (of_int b) (t # ts) (counter_value False (of_int b) c) = c'"
  shows "of_int (min a b) \<le> ct_displayed c' \<and> ct_displayed c' \<le> of_int (max a b) \<and>
    ((\<exists>u \<in> set ts. 1200 \<le> u - t) \<longrightarrow> ct_displayed c' = of_int b \<and> \<not> ct_running c')"
  using counter_run_arrives [OF assms(1-6), of d] assms(7) by blast

theorem counter_arrives_witness:
  "ct_displayed (counter_run (\<lambda>x n. x ^ n) (clampedDuration 1000) 90 [5, 400, 1300] (counter_value False 90 (open_counter False 90))) = 90"
proof -
  have p: "pow_unit (\<lambda>x n. x ^ n)" by (simp add: pow_unit_def power_le_one)
  show ?thesis
    using counter_arrives [OF p, of 0 90 "open_counter False 90" "[400, 1300]" 5 1000] by (simp add: open_counter_def)
qed

text \<open>The frames of an animation end when the value changes, also when it changes back to the value the
  animation came from: then no other starts, and the counter keeps showing a number on the way.\<close>

theorem counter_freezes_on_the_way:
  assumes "ct_prev c = v" "ct_displayed c \<noteq> v"
  shows "ct_displayed (counter_run pow dur v ts (counter_value False v c)) \<noteq> v"
proof -
  have "counter_run pow dur v ts c' = c'" if "\<not> ct_running c'" for c'
    unfolding counter_run_def using that by (induction ts arbitrary: c') (auto simp: counter_tick_def)
  then show ?thesis using assms by (simp add: counter_value_def)
qed

subsection \<open>Facts about the charts\<close>

text \<open>Every point of a chart lies inside the area between the paddings.\<close>

theorem chart_stays_inside:
  assumes "1 < n" "i < n" "minV \<le> v" "v \<le> maxV" "chart_point n minV maxV i v = (x, y)"
  shows "PAD_left \<le> x" "x \<le> SVG_W - PAD_right" "PAD_top \<le> y" "y \<le> SVG_H - PAD_bottom"
proof -
  have w: "js_sub (js_sub SVG_W PAD_left) PAD_right = 342" "js_sub (js_sub SVG_H PAD_top) PAD_bottom = 86"
    using js_sub_of_int [of 400 48] js_sub_of_int [of 352 10] js_sub_of_int [of 120 10] js_sub_of_int [of 110 24]
    by (simp_all add: SVG_W_def SVG_H_def PAD_left_def PAD_right_def PAD_top_def PAD_bottom_def)
  have t: "js_add PAD_top 86 = 96" using js_add_of_int [of 10 86] by (simp add: PAD_top_def)
  define p where "p = js_div (of_nat i) (of_nat (n - 1))"
  have "(of_nat i :: rat) / of_nat (n - 1) \<le> 1" using assms(1,2) by (simp add: divide_le_eq)
  then have p: "0 \<le> p \<and> p \<le> 1" unfolding p_def js_div_def by (intro fl_unit) auto
  define q where "q = js_div (js_sub v minV) (or_1 (js_sub maxV minV))"
  have m: "0 \<le> js_sub v minV" "js_sub v minV \<le> js_sub maxV minV"
    using assms(3,4) by (auto simp: js_sub_def intro!: fl_mono)
  then have "0 \<le> js_sub v minV / or_1 (js_sub maxV minV) \<and> js_sub v minV / or_1 (js_sub maxV minV) \<le> 1"
    by (auto simp: or_1_def divide_le_eq)
  then have q: "0 \<le> q \<and> q \<le> 1" unfolding q_def js_div_def by (intro fl_unit) auto
  have xy: "x = js_add 48 (js_mul p 342)" "y = js_sub 96 (js_mul q 86)"
    using assms(5) unfolding chart_point_def Let_def w t p_def q_def by (simp_all add: PAD_left_def)
  have P: "0 \<le> js_mul p 342 \<and> js_mul p 342 \<le> 342" using p fl_small_int(1) [of 342 "p * 342"] by (simp add: js_mul_def)
  have Q: "0 \<le> js_mul q 86 \<and> js_mul q 86 \<le> 86" using q fl_small_int(1) [of 86 "q * 86"] by (simp add: js_mul_def)
  show "PAD_left \<le> x" "x \<le> SVG_W - PAD_right"
    using P fl_small_int(1) [of 390 "48 + js_mul p 342"] fl_small_int(2) [of 48 "48 + js_mul p 342"]
    by (simp_all add: xy js_add_def PAD_left_def PAD_right_def SVG_W_def)
  show "PAD_top \<le> y" "y \<le> SVG_H - PAD_bottom"
    using Q fl_small_int(2) [of 10 "96 - js_mul q 86"] fl_small_int(1) [of 96 "96 - js_mul q 86"]
    by (simp_all add: xy js_sub_def PAD_top_def PAD_bottom_def SVG_H_def)
qed

theorem chart_stays_inside_witness: "PAD_left \<le> fst (chart_point 3 1 5 2 4)" "snd (chart_point 3 1 5 2 4) \<le> SVG_H - PAD_bottom"
  using chart_stays_inside(1,4) [of 3 2 1 4 5 "fst (chart_point 3 1 5 2 4)" "snd (chart_point 3 1 5 2 4)"] by simp_all


end
