(* ===== verification/Chart_View.thy ===== *)
theory Chart_View
  imports Form_View Charts
begin

section \<open>What charts and summaries show (frontend/src/components)\<close>

text \<open>
  The markup of the gauge with its history, the price chart, the repayment timeline, the summaries, the calculator, the
  history of transactions, the notification switches and the onboarding. \<open>Math.PI\<close>, \<open>Math.cos\<close> and \<open>Math.sin\<close> are
  parameters. The theorems: the tooltip of the history, followed through any events and timers, tells of the point
  that is marked and stays over the chart; the dot of the price chart is the end of its line; and the transactions are
  rendered with more hooks than the placeholder before them.
\<close>

subsection \<open>The history of the health factor (HealthGauge.tsx, HistoryChart)\<close>

record data_point =
  hp_date :: string
  hp_value :: rat

record TooltipState =
  tp_x :: rat
  tp_y :: rat
  tp_point :: data_point

text \<open>The state of the chart, with the timers that end a touch.\<close>

record history_chart =
  hc_tooltip :: "TooltipState option"
  hc_active :: "nat option"
  hc_timers :: "int list"

definition open_chart :: history_chart where "open_chart = \<lparr>hc_tooltip = None, hc_active = None, hc_timers = []\<rparr>"

definition hideTooltip :: "history_chart \<Rightarrow> history_chart" where "hideTooltip c = c\<lparr>hc_tooltip := None, hc_active := None\<rparr>"

text \<open>\<open>width\<close> is the width of the container on the screen, half the tooltip is 72 wide.\<close>

definition clamp_x :: "rat \<Rightarrow> rat \<Rightarrow> rat" where "clamp_x width x = min (max x 72) (js_sub width 72)"

definition showTooltipForIndex :: "rat \<Rightarrow> data_point list \<Rightarrow> nat \<Rightarrow> history_chart \<Rightarrow> history_chart" where
  "showTooltipForIndex width history i c =
     (if i < length history then
        (let w = or_1 width; px = js_mul (js_div (of_nat i) (or_1 (of_nat (length history - 1)))) 100 in
         c\<lparr>hc_tooltip := Some \<lparr>tp_x = clamp_x w (js_mul (js_div px 100) w), tp_y = 16, tp_point = history ! i\<rparr>, hc_active := Some i\<rparr>)
      else c)"

text \<open>By mouse or touch, \<open>x\<close> and \<open>y\<close> from the corner of the container.\<close>

definition chart_show :: "rat \<Rightarrow> data_point \<Rightarrow> nat \<Rightarrow> rat \<Rightarrow> rat \<Rightarrow> history_chart \<Rightarrow> history_chart" where
  "chart_show width point i x y c =
     c\<lparr>hc_tooltip := Some \<lparr>tp_x = clamp_x width x, tp_y = (if y < 76 then js_add y 12 else js_sub (js_sub y 68) 8), tp_point = point\<rparr>,
       hc_active := Some i\<rparr>"

datatype chart_event =
    PointerOn nat rat rat
  | TouchOn nat rat rat
  | TouchOff
  | FocusOn nat
  | FocusOff
  | KeyOn nat string
  | PointerGone

text \<open>Moving the focus takes it from one point, which hides the tooltip, and gives it to the next.\<close>

definition handlePointKeyDown :: "rat \<Rightarrow> data_point list \<Rightarrow> string \<Rightarrow> nat \<Rightarrow> history_chart \<Rightarrow> history_chart" where
  "handlePointKeyDown width history key i c =
     (if key = ''Enter'' \<or> key = '' '' then showTooltipForIndex width history i c
      else if key = ''Escape'' then hideTooltip c
      else (case focus_key key (length history) i of
              None \<Rightarrow> c
            | Some j \<Rightarrow> showTooltipForIndex width history j (hideTooltip c)))"

fun chart_handle :: "rat \<Rightarrow> data_point list \<Rightarrow> int \<Rightarrow> chart_event \<Rightarrow> history_chart \<Rightarrow> history_chart" where
  "chart_handle width history now (PointerOn i x y) c = (if i < length history then chart_show width (history ! i) i x y c else c)"
| "chart_handle width history now (TouchOn i x y) c = (if i < length history then chart_show width (history ! i) i x y c else c)"
| "chart_handle width history now TouchOff c = c\<lparr>hc_timers := (now + 2000) # hc_timers c\<rparr>"
| "chart_handle width history now (FocusOn i) c = showTooltipForIndex width history i c"
| "chart_handle width history now FocusOff c = hideTooltip c"
| "chart_handle width history now (KeyOn i key) c = (if i < length history then handlePointKeyDown width history key i c else c)"
| "chart_handle width history now PointerGone c = hideTooltip c"

definition chart_timers :: "int \<Rightarrow> history_chart \<Rightarrow> history_chart" where
  "chart_timers now c =
     (let c' = c\<lparr>hc_timers := filter (\<lambda>t. now < t) (hc_timers c)\<rparr> in
      if \<exists>t \<in> set (hc_timers c). t \<le> now then hideTooltip c' else c')"

definition chart_events :: "rat \<Rightarrow> data_point list \<Rightarrow> (int \<times> chart_event) list \<Rightarrow> history_chart \<Rightarrow> history_chart" where
  "chart_events width history evs c0 = foldl (\<lambda>c (now, e). chart_handle width history now e (chart_timers now c)) c0 evs"

text \<open>\<open>join\<close> of a list of texts.\<close>

fun join_str :: "string \<Rightarrow> string list \<Rightarrow> string" where
  "join_str sep [] = []"
| "join_str sep [x] = x"
| "join_str sep (x # y # xs) = x @ sep @ join_str sep (y # xs)"

definition history_circle :: "page_texts \<Rightarrow> (string \<Rightarrow> string) \<Rightarrow> rat list \<Rightarrow> nat option \<Rightarrow> nat \<times> data_point \<Rightarrow> 'a view" where
  "history_circle pt formatDate values active = (\<lambda>(i, p).
     let xy = history_point (length values) (history_max values) i (hp_value p) in
     El ''circle''
       [(''role'', ''button''),
        (''aria-label'', formatDate (hp_date p) @ '' health '' @ toFixed (pt_plain pt) 2 (Fin (js_div (hp_value p) 10000)) @ ''x, '' @
           pt_locale pt (Fin (hp_value p)) @ '' bps''),
        (''cx'', pt_plain pt (Fin (fst xy))), (''cy'', pt_plain pt (Fin (snd xy))),
        (''r'', if active = Some i then ''3'' else ''2''),
        (''fill'', if active = Some i then healthColor_tokens (hp_value p) else ''#D4A017''),
        (''stroke'', if active = Some i then healthColor_tokens (hp_value p) else ''white'')] [])"

definition HistoryChart :: "page_texts \<Rightarrow> (string \<Rightarrow> string) \<Rightarrow> data_point list \<Rightarrow> history_chart \<Rightarrow> 'a view" where
  "HistoryChart pt formatDate history c =
     (let values = map hp_value history in
      plain_el ''div'' (
        [El ''svg'' [(''aria-label'', ''Health factor history chart''), (''role'', ''img'')]
           ([El ''line'' [(''x1'', ''0''), (''y1'', ''50''), (''x2'', ''100''), (''y2'', ''50'')] [],
             El ''polyline''
               [(''points'', join_str '' '' (map (\<lambda>(i, v). case history_point (length values) (history_max values) i v of
                   (x, y) \<Rightarrow> pt_plain pt (Fin x) @ '','' @ pt_plain pt (Fin y)) (enumerate 0 values)))] []] @
            map (history_circle pt formatDate values (hc_active c)) (enumerate 0 history))] @
        (case hc_tooltip c of
           None \<Rightarrow> []
         | Some t \<Rightarrow>
             [El ''div'' [(''left'', pt_plain pt (Fin (tp_x t))), (''top'', pt_plain pt (Fin (tp_y t))), (''role'', ''tooltip'')]
                [label_el ''p'' (formatDate (hp_date (tp_point t))),
                 plain_el ''p'' [Txt ''Health: '', plain_el ''span'' [Txt (toFixed (pt_plain pt) 2 (Fin (js_div (hp_value (tp_point t)) 10000))), Txt ''x'']],
                 plain_el ''p'' [Txt ''Value: '', plain_el ''span'' [Txt (pt_locale pt (Fin (hp_value (tp_point t)))), Txt '' bps'']]]])))"


subsection \<open>The gauge (HealthGauge.tsx)\<close>

text \<open>The constants and functions of \<open>Math\<close> that the gauge uses.\<close>

record trig =
  tg_pi :: rat
  tg_cos :: "rat \<Rightarrow> rat"
  tg_sin :: "rat \<Rightarrow> rat"

definition polarToXY :: "trig \<Rightarrow> rat \<Rightarrow> rat \<times> rat" where
  "polarToXY tg angleDeg =
     (let rad = js_div (js_mul angleDeg (tg_pi tg)) 180 in
      (js_add 100 (js_mul 80 (tg_cos tg rad)), js_add 100 (js_mul 80 (tg_sin tg rad))))"

definition arcPath :: "trig \<Rightarrow> (js_num \<Rightarrow> string) \<Rightarrow> rat \<Rightarrow> rat \<Rightarrow> string" where
  "arcPath tg plain startDeg endDeg =
     (let s = polarToXY tg startDeg; e = polarToXY tg endDeg; n = (\<lambda>x. plain (Fin x)) in
      ''M '' @ n (fst s) @ '' '' @ n (snd s) @ '' A 80 80 0 '' @ (if 180 < js_sub endDeg startDeg then ''1'' else ''0'') @ '' 1 '' @
      n (fst e) @ '' '' @ n (snd e))"

definition needle_end :: "trig \<Rightarrow> rat \<Rightarrow> rat \<times> rat" where
  "needle_end tg part =
     (let rad = js_div (js_mul (valueToAngle part) (tg_pi tg)) 180; r = js_sub 80 (js_div 16 2) in
      (js_add 100 (js_mul r (tg_cos tg rad)), js_add 100 (js_mul r (tg_sin tg rad))))"

definition zone_colour :: "string \<Rightarrow> string" where
  "zone_colour label = (if label = ''Danger'' then ''#DC2626'' else if label = ''Warning'' then ''#D97706'' else ''#16A34A'')"

text \<open>As the effect leaves it: the dashes are set once more after the rendering.\<close>

definition HealthGauge :: "trig \<Rightarrow> page_texts \<Rightarrow> rat \<Rightarrow> 'a view" where
  "HealthGauge tg pt v =
     (let part = gauge_frac v; display = toFixed (pt_plain pt) 2 (Fin (js_div v 10000)); colour = healthColor_tokens v;
          n = (\<lambda>x. pt_plain pt (Fin x)); arcLength = js_mul (tg_pi tg) 80; tip = needle_end tg part in
      El ''div'' [(''role'', ''status''), (''aria-live'', ''polite''), (''aria-label'', ''Health factor: '' @ display @ ''x, '' @ gauge_label v)]
        [El ''svg'' [(''aria-hidden'', ''true'')]
           ([El ''path'' [(''d'', arcPath tg (pt_plain pt) 180 0), (''stroke'', ''#e5e7eb'')] []] @
            map (\<lambda>(a, b, label). El ''path'' [(''d'', arcPath tg (pt_plain pt) (valueToAngle a) (valueToAngle b)), (''stroke'', zone_colour label)] []) ZONES @
            [El ''path'' [(''d'', arcPath tg (pt_plain pt) 180 0), (''stroke'', colour), (''strokeDasharray'', n arcLength),
               (''strokeDashoffset'', n (js_sub arcLength (js_mul part arcLength)))] [],
             El ''line'' [(''x1'', ''100''), (''y1'', ''100''), (''x2'', n (fst tip)), (''y2'', n (snd tip))] [],
             El ''circle'' [(''cx'', ''100''), (''cy'', ''100''), (''r'', ''5'')] [],
             El ''text'' [(''fill'', colour)] [Txt display, Txt ''x'']]),
         El ''span'' [(''color'', colour)] [Txt (gauge_label v)]])"

subsection \<open>The price chart (PriceChart.tsx)\<close>

definition path_text :: "(js_num \<Rightarrow> string) \<Rightarrow> rat list \<Rightarrow> string" where
  "path_text plain values =
     (if length values < 2 then []
      else join_str '' '' (map (\<lambda>(i, v). case chart_point (length values) (Min (set values)) (Max (set values)) i v of
             (x, y) \<Rightarrow> (if i = 0 then ''M'' else ''L'') @ toFixed plain 1 (Fin x) @ '','' @ toFixed plain 1 (Fin y)) (enumerate 0 values)))"

text \<open>The dot on the last value.\<close>

definition price_dot :: "rat list \<Rightarrow> rat \<times> rat" where
  "price_dot values =
     (let minV = Min (set values); maxV = Max (set values); range = or_1 (js_sub maxV minV);
          innerW = js_sub (js_sub SVG_W PAD_left) PAD_right; innerH = js_sub (js_sub SVG_H PAD_top) PAD_bottom in
      (js_add PAD_left innerW, js_sub (js_add PAD_top innerH) (js_mul (js_div (js_sub (last values) minV) range) innerH)))"

definition stroops_text :: "(js_num \<Rightarrow> string) \<Rightarrow> rat \<Rightarrow> string" where
  "stroops_text plain s = toFixed plain 2 (Fin (js_div s (10 ^ 7)))"

definition PriceChart :: "page_texts \<Rightarrow> string \<Rightarrow> data_point list fetch_state \<Rightarrow> 'a view" where
  "PriceChart pt label p =
     (if ft_loading p then El ''div'' [(''aria-label'', ''Loading price chart'')] [plain_el ''div'' [label_el ''span'' (''Loading chart'' @ three_dots)]]
      else (case truthy_str (ft_error p) of
        Some e \<Rightarrow> El ''div'' [(''role'', ''alert'')] [label_el ''p'' e]
      | None \<Rightarrow>
          if ft_data p = [] then plain_el ''div'' [label_el ''p'' ''No price history available.'']
          else
            (let values = map hp_value (ft_data p); n = (\<lambda>x. pt_plain pt (Fin x)); path = path_text (pt_plain pt) values; dot = price_dot values;
                 grid = (\<lambda>y. El ''line'' [(''x1'', n PAD_left), (''y1'', n y), (''x2'', n (js_sub SVG_W PAD_right)), (''y2'', n y)] []) in
             El ''section'' [(''aria-label'', label)]
               [label_el ''h2'' label,
                El ''svg'' [(''role'', ''img''), (''aria-label'', label @ '' line chart'')]
                  ([El ''text'' [(''x'', n (js_sub PAD_left 4)), (''y'', n (js_add PAD_top 4))] [Txt (stroops_text (pt_plain pt) (Max (set values)))],
                    El ''text'' [(''x'', n (js_sub PAD_left 4)), (''y'', n (js_sub SVG_H PAD_bottom))] [Txt (stroops_text (pt_plain pt) (Min (set values)))],
                    El ''text'' [(''x'', n PAD_left), (''y'', n (js_sub SVG_H 4))] [Txt (pt_date pt (hp_date (hd (ft_data p))))],
                    El ''text'' [(''x'', n (js_sub SVG_W PAD_right)), (''y'', n (js_sub SVG_H 4))] [Txt (pt_date pt (hp_date (last (ft_data p))))],
                    grid PAD_top, grid (js_sub SVG_H PAD_bottom)] @
                   shown_if (path \<noteq> []) [El ''path'' [(''d'', path)] []] @
                   [El ''circle'' [(''cx'', n (fst dot)), (''cy'', n (snd dot)), (''r'', ''3'')] []])])))"

subsection \<open>Timeline and summaries (RepaymentTimeline.tsx, CollateralSummary.tsx, LoanSummaryCards.tsx)\<close>

record installment =
  in_date :: string
  in_amount :: rat
  in_status :: string
  in_daysUntilDue :: "rat option"

definition check_sign :: string where "check_sign = [CHR 0xE2, CHR 0x9C, CHR 0x93]"

definition getStatusLabel :: "string \<Rightarrow> string" where
  "getStatusLabel status =
     (if status = ''paid'' then check_sign @ '' Paid'' else if status = ''overdue'' then [CHR 0xE2, CHR 0x9A, CHR 0xA0] @ '' Overdue''
      else if status = ''upcoming'' then ''Upcoming'' else status)"

definition timeline_node :: "page_texts \<Rightarrow> (string \<Rightarrow> string) \<Rightarrow> string \<Rightarrow> nat \<Rightarrow> nat \<times> installment \<Rightarrow> 'a view" where
  "timeline_node pt formatDate currency nodes = (\<lambda>(i, ins).
     plain_el ''div'' (
       [label_el ''div'' (if in_status ins = ''paid'' then check_sign else string_of_nat (i + 1))] @
       shown_if (i + 1 < nodes) [plain_el ''div'' []] @
       [plain_el ''div'' (
          [label_el ''p'' (formatDate (in_date ins)),
           plain_el ''p'' [Txt (toFixed (pt_plain pt) 2 (Fin (in_amount ins))), Txt '' '', Txt currency],
           label_el ''div'' (getStatusLabel (in_status ins))] @
          (case in_daysUntilDue ins of
             Some d \<Rightarrow> shown_if (in_status ins = ''upcoming'')
               [label_el ''p'' (if d = 0 then ''Due today'' else pt_plain pt (Fin d) @ '' day'' @ (if d \<noteq> 1 then ''s'' else []) @ '' remaining'')]
           | None \<Rightarrow> []))]))"

definition RepaymentTimeline :: "page_texts \<Rightarrow> (string \<Rightarrow> string) \<Rightarrow> string option \<Rightarrow> installment list \<Rightarrow> 'a view" where
  "RepaymentTimeline pt formatDate currency installments =
     (case timeline_counts (map in_status installments) of (paid, overdue, upcoming) \<Rightarrow>
        plain_el ''div''
          [plain_el ''div'' [plain_el ''div''
             (map (timeline_node pt formatDate (case currency of None \<Rightarrow> ''XLM'' | Some c \<Rightarrow> c) (length installments)) (enumerate 0 installments))],
           plain_el ''div''
             [plain_el ''div'' [label_el ''p'' ''Paid'', label_el ''p'' (string_of_nat paid)],
              plain_el ''div'' [label_el ''p'' ''Overdue'', label_el ''p'' (string_of_nat overdue)],
              plain_el ''div'' [label_el ''p'' ''Upcoming'', label_el ''p'' (string_of_nat upcoming)]]])"

definition CollateralSummary :: "page_texts \<Rightarrow> rat list \<Rightarrow> 'a view" where
  "CollateralSummary pt appraised =
     (let totalValue = foldl js_add 0 appraised in
      plain_el ''div''
        [plain_el ''div'' [label_el ''p'' ''Total Collateral Value'', plain_el ''p'' [Txt (xlm_text pt totalValue), Txt '' XLM''],
           plain_el ''p'' [Txt ''$'', Txt (usd_text pt totalValue), Txt '' USD'']],
         plain_el ''div'' [label_el ''p'' ''Available Borrowing Capacity'',
           plain_el ''p'' [Txt (toFixed (pt_plain pt) 2 (Fin (js_div (js_mul totalValue (1 / 2)) 10000000))), Txt '' XLM''],
           label_el ''p'' ''50% of collateral value''],
         plain_el ''div'' [label_el ''p'' ''Assets Registered'', label_el ''p'' (string_of_nat (length appraised)), label_el ''p'' ''livestock items'']])"

record summary_metrics =
  lm_totalPrincipal :: rat
  lm_outstanding :: rat
  lm_interestAccrued :: rat
  lm_activeLoanCount :: rat

text \<open>\<open>intl\<close> writes a number with at most two decimals. What a counter is given: its value, its text and its label.\<close>

definition card_amount :: "(rat \<Rightarrow> string) \<Rightarrow> rat \<Rightarrow> string" where "card_amount intl x = intl (js_div x 1000000)"

definition METRICS :: "(rat \<Rightarrow> string) \<Rightarrow> page_texts \<Rightarrow> ((summary_metrics \<Rightarrow> rat) \<times> string \<times> (rat \<Rightarrow> string) \<times> string) list" where
  "METRICS intl pt =
     [(lm_totalPrincipal, ''Total Principal'', card_amount intl, ''Total principal in XLM''),
      (lm_outstanding, ''Outstanding Balance'', card_amount intl, ''Outstanding balance in XLM''),
      (lm_interestAccrued, ''Interest Accrued'', card_amount intl, ''Total interest accrued in XLM''),
      (lm_activeLoanCount, ''Active Loans'', \<lambda>x. pt_locale pt (Fin x), ''Number of active loans'')]"

definition AnimatedCounter :: "(rat \<Rightarrow> string) \<Rightarrow> string \<Rightarrow> counter \<Rightarrow> 'a view" where
  "AnimatedCounter formatter ariaLabel c =
     El ''span'' [(''aria-label'', ariaLabel), (''aria-live'', ''polite''), (''aria-atomic'', ''true'')] [Txt (formatter (ct_displayed c))]"

text \<open>\<open>counter_of\<close> is the counter of a metric, by its label, which counts to the value in the summary.\<close>

definition LoanSummaryCards :: "(rat \<Rightarrow> string) \<Rightarrow> page_texts \<Rightarrow> (string \<Rightarrow> rat \<Rightarrow> counter) \<Rightarrow> summary_metrics \<Rightarrow> 'a view" where
  "LoanSummaryCards intl pt counter_of summary =
     El ''section'' [(''aria-label'', ''Loan summary'')]
       [plain_el ''div'' (map (\<lambda>(get, label, formatter, ariaLabel).
          Card None None [label_el ''p'' label, AnimatedCounter formatter ariaLabel (counter_of label (get summary))]) (METRICS intl pt))]"


subsection \<open>The calculator (LoanRepaymentCalculator.tsx)\<close>

record RepaymentPreview =
  rv_loan_id :: rat
  rv_repayment_amount :: rat
  rv_principal :: rat
  rv_interest :: rat
  rv_fees :: rat
  rv_remaining_balance :: rat
  rv_health :: "rat option"
  rv_fully_repaid :: bool

definition as_preview :: "json \<Rightarrow> RepaymentPreview option" where
  "as_preview j =
     Option.bind (num_field ''loan_id'' j) (\<lambda>i. Option.bind (num_field ''repayment_amount'' j) (\<lambda>a.
     Option.bind (field ''breakdown'' j) (\<lambda>b. Option.bind (num_field ''principal'' b) (\<lambda>p.
     Option.bind (num_field ''interest'' b) (\<lambda>t. Option.bind (num_field ''fees'' b) (\<lambda>f.
     Option.bind (num_field ''remaining_balance'' b) (\<lambda>r. Option.bind (maybe_num_field ''projected_health_factor_bps'' j) (\<lambda>h.
     case field ''fully_repaid'' j of
       Some (JBool full) \<Rightarrow> Some \<lparr>rv_loan_id = i, rv_repayment_amount = a, rv_principal = p, rv_interest = t, rv_fees = f,
         rv_remaining_balance = r, rv_health = h, rv_fully_repaid = full\<rparr>
     | _ \<Rightarrow> None))))))))"

datatype calculator_act = TypeLoanId string | TypeRepayment string | ApplyForLoan | Proceed string string

text \<open>\<open>intl\<close> writes a number with thousands separators.\<close>

definition preview_parts :: "(rat \<Rightarrow> string) \<Rightarrow> RepaymentPreview \<Rightarrow> 'a view list" where
  "preview_parts intl p =
     map (\<lambda>(label, v). plain_el ''div'' [label_el ''p'' label, label_el ''p'' (intl v)])
       [(''Principal'', rv_principal p), (''Interest'', rv_interest p), (''Fees'', rv_fees p), (''Remaining Balance'', rv_remaining_balance p)]"

definition preview_view :: "trig \<Rightarrow> page_texts \<Rightarrow> (rat \<Rightarrow> string) \<Rightarrow> RepaymentPreview \<Rightarrow> calculator_act view" where
  "preview_view tg pt intl p =
     plain_el ''div''
       [plain_el ''div'' (preview_parts intl p),
        plain_el ''div'' (label_el ''p'' ''Projected Health Factor'' #
          (if rv_fully_repaid p then [label_el ''p'' ''Fully repaid (health factor becomes infinite).'']
           else (case rv_health p of None \<Rightarrow> [] | Some h \<Rightarrow> [HealthGauge tg pt h]))),
        Press [(''type'', ''button'')] False
          (Some (Proceed (pt_plain pt (Fin (rv_loan_id p))) (pt_plain pt (Fin (rv_repayment_amount p))))) [Txt ''Proceed to Repay'']]"

definition calculator_view :: "trig \<Rightarrow> page_texts \<Rightarrow> (rat \<Rightarrow> string) \<Rightarrow> calculator \<Rightarrow> RepaymentPreview option \<Rightarrow> calculator_act view" where
  "calculator_view tg pt intl c preview =
     plain_el ''div'' (
       [label_el ''h2'' ''Repayment Calculator'',
        label_el ''p'' ''Preview principal, interest, fees, and health impact before repaying.''] @
       shown_if (ca_loansLoaded c \<and> ca_loanOptions c = [])
         [EmptyState (Some (El ''EmptyLoansIllustration'' [] [])) None [] ''You have no active loans'' (Some ''Apply for a Loan'') (Some ApplyForLoan)] @
       [plain_el ''div''
          [plain_el ''div'' [label_el ''label'' ''Loan ID'',
             Enter [(''placeholder'', ''Enter loan ID''), (''list'', ''loan-options''), (''type'', ''number'')] False (ca_loanId c) TypeLoanId,
             El ''datalist'' [(''id'', ''loan-options'')] (map (\<lambda>i. El ''option'' [(''value'', pt_plain pt (Fin i))] []) (ca_loanOptions c))],
           plain_el ''div'' [label_el ''label'' ''Repayment Amount (stroops)'',
             Enter [(''placeholder'', ''Enter repayment amount''), (''type'', ''number'')] False (ca_amount c) TypeRepayment]]] @
       shown_if (ca_loading c) [label_el ''p'' ''Calculating...''] @
       (case truthy_str (ca_error c) of None \<Rightarrow> [] | Some e \<Rightarrow> [label_el ''p'' e]) @
       (case preview of None \<Rightarrow> [] | Some p \<Rightarrow> [preview_view tg pt intl p]))"

subsection \<open>The transactions (TransactionHistory.tsx)\<close>

record transaction_row =
  tw_loan_id :: rat
  tw_amount :: rat
  tw_created_at :: string

definition transaction_line :: "page_texts \<Rightarrow> transaction_row \<Rightarrow> page_act view" where
  "transaction_line pt t =
     plain_el ''li'' [Txt ''Loan #'', Txt (pt_plain pt (Fin (tw_loan_id t))), Txt ('' '' @ long_dash @ '' ''), Txt (pt_plain pt (Fin (tw_amount t))),
       Txt ('' stroops '' @ long_dash), Txt '' '', Txt (pt_date pt (tw_created_at t))]"

text \<open>Nothing is shown until the transactions are loaded.\<close>

definition TransactionHistory :: "page_texts \<Rightarrow> transaction_row list fetch_state \<Rightarrow> pagination \<Rightarrow> page_act view list" where
  "TransactionHistory pt p pg =
     (let card = Card (Some [label_el ''h2'' ''Transactions'']) None in
      if ft_loading p then []
      else (case truthy_str (ft_error p) of
        Some e \<Rightarrow> [card [ErrorState (Some e) RetryFetch]]
      | None \<Rightarrow>
          if ft_data p = [] then
            [card [EmptyState (Some (El ''EmptyTransactionsIllustration'' [] [])) None [] ''No transactions yet'' (Some ''View Loans'') (Some (Assign ''/dashboard''))]]
          else [card [plain_el ''ul'' (map (transaction_line pt) (page_slice pg (ft_data p))), El ''Pagination'' [] []]]))"

text \<open>The hooks one rendering calls, in order: those at the top, and behind the early returns those of \<open>usePagination\<close>.\<close>

definition history_hooks :: "transaction_row list fetch_state \<Rightarrow> string list" where
  "history_hooks p =
     [''useRouter'', ''useState'', ''useState'', ''useState'', ''useCallback'', ''useEffect''] @
     (if ft_loading p \<or> truthy_str (ft_error p) \<noteq> None \<or> ft_data p = [] then []
      else [''useRouter'', ''usePathname'', ''useSearchParams'', ''useCallback'', ''useCallback'', ''useCallback'', ''useCallback''])"

subsection \<open>Switches and onboarding (NotificationPreferences.tsx, OnboardingModal.tsx)\<close>

definition TOGGLES :: "(string \<times> string \<times> string) list" where
  "TOGGLES =
     [(''healthFactorAlerts'', ''Health factor alerts'', ''Get notified when your loan health factor drops below the warning threshold.''),
      (''repaymentReminders'', ''Repayment reminders'', ''Receive reminders before your repayment due date.''),
      (''liquidationWarnings'', ''Liquidation warnings'', ''Be alerted immediately if your collateral is at risk of liquidation.'')]"

text \<open>What is pressed is the key that is toggled; the keys of \<open>null\<close> cannot be read.\<close>

definition NotificationPreferences :: "notification_prefs \<Rightarrow> js_error + string view" where
  "NotificationPreferences p =
     (if np_loading p then Inr (El ''div'' [(''aria-busy'', ''true'')] (map (\<lambda>_. plain_el ''div'' []) TOGGLES))
      else if np_settings p = JNull then Inl (type_error ''settings[key]'')
      else Inr (El ''section'' [(''aria-labelledby'', ''notif-heading'')]
        [El ''h2'' [(''id'', ''notif-heading'')] [Txt ''Notification Preferences''],
         El ''ul'' [(''aria-label'', ''Notification toggles'')]
           (map (\<lambda>(key, label, description).
              plain_el ''li'' [plain_el ''div'' [El ''label'' [(''for'', ''toggle-'' @ key)] [Txt label], label_el ''p'' description],
                Press [(''id'', ''toggle-'' @ key), (''role'', ''switch''), (''aria-checked'', if truthy (field key (np_settings p)) then ''true'' else ''false''),
                    (''aria-label'', label)] False (Some key) [El ''span'' [(''aria-hidden'', ''true'')] []]]) TOGGLES)]))"

datatype onboarding_act = SkipOnboarding | NextStep | PrimaryAction

definition ONBOARDING_STEPS :: "(string \<times> string \<times> string) list" where
  "ONBOARDING_STEPS =
     [(''Connect Your Wallet'', ''Install the Freighter browser extension and connect your Stellar wallet to get started.'', ''Connect Wallet''),
      (''Register Collateral'', ''Add your livestock as collateral. Each animal is appraised and recorded on-chain to back your loan.'', ''Register Collateral''),
      (''Apply for a Loan'', ''Request a loan against your registered collateral. Funds are disbursed instantly on the Stellar network.'', ''Apply for a Loan'')]"

definition OnboardingModal :: "onboarding \<Rightarrow> onboarding_act view list" where
  "OnboardingModal b =
     (let n = ob_step b; isLast = (n = length ONBOARDING_STEPS - 1) in
      shown_if (ob_open b)
        [case ONBOARDING_STEPS ! n of (title, description, action) \<Rightarrow>
           El ''div'' [(''role'', ''dialog''), (''aria-modal'', ''true''), (''aria-labelledby'', ''onboarding-title'')]
             [plain_el ''div''
                [Press [(''aria-label'', ''Skip onboarding'')] False (Some SkipOnboarding) [Txt times_sign],
                 plain_el ''div''
                   [plain_el ''div'' [icon], El ''h2'' [(''id'', ''onboarding-title'')] [Txt title], label_el ''p'' description,
                    El ''div'' [(''role'', ''tablist''), (''aria-label'', ''Onboarding progress'')]
                      (map (\<lambda>i. El ''div'' [(''role'', ''tab''), (''aria-selected'', if i = n then ''true'' else ''false''),
                          (''aria-label'', ''Step '' @ string_of_nat (i + 1) @ '' of '' @ string_of_nat (length ONBOARDING_STEPS))] [])
                        [0..<length ONBOARDING_STEPS]),
                    plain_el ''div''
                      [Press [] False (Some SkipOnboarding) [Txt ''Skip''],
                       Press [] False (Some (if isLast then PrimaryAction else NextStep)) [Txt (if isLast then action else ''Next'')]]]]]])"

fun onboarding_do :: "onboarding_act \<Rightarrow> onboarding \<Rightarrow> onboarding" where
  "onboarding_do SkipOnboarding b = onboarding_complete b"
| "onboarding_do NextStep b = onboarding_next b"
| "onboarding_do PrimaryAction b = onboarding_primary b"



subsection \<open>Facts\<close>

text \<open>What holds of the history chart at every moment.\<close>

definition chart_ok :: "rat \<Rightarrow> data_point list \<Rightarrow> history_chart \<Rightarrow> bool" where
  "chart_ok width history c \<longleftrightarrow>
     (case hc_tooltip c of
        None \<Rightarrow> hc_active c = None
      | Some t \<Rightarrow> 72 \<le> tp_x t \<and> tp_x t \<le> js_sub width 72 \<and>
          (\<exists>i < length history. hc_active c = Some i \<and> tp_point t = history ! i))"

lemma clamp_x_bounds: "144 \<le> width \<Longrightarrow> 72 \<le> clamp_x width x \<and> clamp_x width x \<le> js_sub width 72"
  using fl_small_int(2) [of 72 "width - 72"] by (simp add: clamp_x_def js_sub_def)

lemma chart_ok_hide [simp]: "chart_ok width history (hideTooltip c)"
  by (simp add: chart_ok_def hideTooltip_def)

lemma chart_ok_timers: "chart_ok width history c \<Longrightarrow> chart_ok width history (chart_timers now c)"
  by (simp add: chart_ok_def chart_timers_def Let_def hideTooltip_def split: option.splits)

lemma chart_ok_index: "144 \<le> width \<Longrightarrow> chart_ok width history c \<Longrightarrow> chart_ok width history (showTooltipForIndex width history i c)"
  using clamp_x_bounds [of width] by (auto simp: chart_ok_def showTooltipForIndex_def or_1_def Let_def)

lemma chart_ok_show: "144 \<le> width \<Longrightarrow> i < length history \<Longrightarrow> chart_ok width history (chart_show width (history ! i) i x y c)"
  using clamp_x_bounds [of width] by (auto simp: chart_ok_def chart_show_def)

lemma chart_ok_handle: "144 \<le> width \<Longrightarrow> chart_ok width history c \<Longrightarrow> chart_ok width history (chart_handle width history now e c)"
  by (cases e) (auto simp: chart_ok_index chart_ok_show handlePointKeyDown_def split: option.splits, auto simp: chart_ok_def split: option.splits)

text \<open>The tooltip tells of the point that is marked and stays over the chart, whatever events and timers come.\<close>

lemma tooltip_tells_marked_point:
  assumes "144 \<le> width"
  shows "chart_ok width history (chart_events width history evs open_chart)"
proof -
  have "chart_ok width history c \<Longrightarrow> chart_ok width history (chart_events width history evs c)" for c
    unfolding chart_events_def using assms by (induction evs arbitrary: c) (auto simp: chart_ok_handle chart_ok_timers)
  then show ?thesis by (simp add: chart_ok_def open_chart_def)
qed

text \<open>A touch that ended hides the tooltip of the next one when its two seconds are over.\<close>

lemma second_touch_hidden:
  assumes "now < later" "later < now + 2000" "i < length history"
  shows "hc_active (chart_events width history [(now, TouchOff), (later, TouchOn i x y)] open_chart) = Some i"
    and "hc_active (chart_timers (now + 2000) (chart_events width history [(now, TouchOff), (later, TouchOn i x y)] open_chart)) = None"
  using assms by (simp_all add: chart_events_def chart_timers_def chart_show_def open_chart_def hideTooltip_def Let_def)

text \<open>The dot of the price chart is the last point of its line.\<close>

lemma dot_ends_line:
  assumes "2 \<le> length values"
  shows "price_dot values = chart_point (length values) (Min (set values)) (Max (set values)) (length values - 1) (last values)"
proof -
  have "js_div (of_nat (length values - 1)) (of_nat (length values - 1)) = 1"
    using assms fl_of_int [of 1] by (simp add: js_div_def)
  moreover have "js_mul 1 (js_sub (js_sub SVG_W PAD_left) PAD_right) = js_sub (js_sub SVG_W PAD_left) PAD_right"
    by (simp add: js_mul_def js_sub_def)
  ultimately show ?thesis by (simp add: price_dot_def chart_point_def Let_def)
qed

text \<open>The rendering with transactions calls more hooks than the one before it, which is waiting for them.\<close>

lemma transactions_need_more_hooks:
  "ft_loading p \<Longrightarrow> \<not> ft_loading q \<Longrightarrow> ft_error q = None \<Longrightarrow> ft_data q \<noteq> [] \<Longrightarrow> length (history_hooks p) < length (history_hooks q)"
  by (simp add: history_hooks_def truthy_str_def)

text \<open>The onboarding closes after at most three presses of what it offers. Only the last step offers its action.\<close>

definition press_onboarding :: "onboarding_act \<Rightarrow> onboarding \<Rightarrow> onboarding option" where
  "press_onboarding a b = (if a \<in> set (concat (map clicks (OnboardingModal b))) then Some (onboarding_do a b) else None)"

lemma onboarding_offers:
  "ob_step b < 3 \<Longrightarrow> set (concat (map clicks (OnboardingModal b))) =
     (if ob_open b then {SkipOnboarding, if ob_step b = 2 then PrimaryAction else NextStep} else {})"
  by (auto simp: OnboardingModal_def shown_if_def ONBOARDING_STEPS_def Let_def comp_def less_Suc_eq numeral_3_eq_3)

lemma press_onboarding_cases:
  assumes "ob_step b < 3" "press_onboarding a b = Some b'"
  shows "ob_open b \<and> (b' = onboarding_complete b \<or> ob_step b < 2 \<and> b' = b\<lparr>ob_step := ob_step b + 1\<rparr> \<or>
     ob_step b = 2 \<and> b' = (onboarding_complete b)\<lparr>ob_pushed := ob_pushed b @ [''/borrow'']\<rparr>)"
proof -
  have o: "ob_open b" "a = SkipOnboarding \<or> a = (if ob_step b = 2 then PrimaryAction else NextStep)" "b' = onboarding_do a b"
    using assms by (auto simp: press_onboarding_def onboarding_offers [OF assms(1)] simp del: set_concat split: if_splits)
  show ?thesis
  proof (cases "ob_step b = 2")
    case True
    then show ?thesis using o by (auto simp: onboarding_primary_def ONBOARDING_ACTIONS_def)
  next
    case False
    then have "ob_step b < 2" using assms(1) by simp
    then show ?thesis using o False by (auto simp: onboarding_next_def ONBOARDING_ACTIONS_def)
  qed
qed

fun press_all :: "onboarding_act list \<Rightarrow> onboarding \<Rightarrow> onboarding option" where
  "press_all [] b = Some b"
| "press_all (a # as) b = Option.bind (press_onboarding a b) (press_all as)"

lemma onboarding_three_presses:
  assumes "ob_step b < 3" "press_all as b = Some b'"
  shows "length as + ob_step b \<le> 3 \<and> (length as + ob_step b = 3 \<longrightarrow> as \<noteq> [] \<and> \<not> ob_open b')"
  using assms
proof (induction as arbitrary: b)
  case Nil
  then show ?case by simp
next
  case (Cons a as)
  then obtain c where c: "press_onboarding a b = Some c" "press_all as c = Some b'" by (auto simp: bind_eq_Some_conv)
  from press_onboarding_cases [OF Cons.prems(1) c(1)]
  consider "\<not> ob_open c" | "ob_step b < 2" "c = b\<lparr>ob_step := ob_step b + 1\<rparr>"
    by (auto simp: onboarding_complete_def)
  then show ?case
  proof cases
    case 1
    then have "as = []" using c(2) by (cases as) (auto simp: press_onboarding_def OnboardingModal_def shown_if_def Let_def)
    then show ?thesis using 1 c(2) Cons.prems(1) by simp
  next
    case 2
    then show ?thesis using Cons.IH [of c] c(2) by (cases as) auto
  qed
qed

end
