(* ===== verification/Dash_View.thy ===== *)
theory Dash_View
  imports Chart_View
begin

section \<open>The dashboard and the navigation (frontend/src/app/dashboard, components/Navbar.tsx)\<close>

text \<open>
  The markup of the wallet connection, the header, the navigation, the help menu, the page of a collateral and the
  dashboard, which is put together from the components of the other theories; and the dashboard's lookup of a health
  factor as a machine of typing, polls and answers. The theorems: while a factor is looked up the field for the id
  is gone, and a lookup that fails leaves the factor of the loan before on the page.
\<close>

subsection \<open>Wallet and header (WalletConnect.tsx, WalletHeader.tsx)\<close>

datatype wallet_act = PressConnect | PressDisconnect | OpenFreighter

definition freighter_link :: "string \<Rightarrow> wallet_act view" where
  "freighter_link t = link_to OpenFreighter ''https://freighter.app'' [Txt t]"

definition WalletConnect :: "wallet \<Rightarrow> wallet_act view list" where
  "WalletConnect w =
     (case wl_freighterInstalled w of
        None \<Rightarrow> []
      | Some False \<Rightarrow> [plain_el ''div'' [label_el ''p'' ''Freighter wallet not detected'', freighter_link (''Install Freighter '' @ arrow_right)]]
      | Some True \<Rightarrow>
          (case truthy_str (wl_address w) of
             Some a \<Rightarrow> [plain_el ''div'' [Txt (check_mark @ '' ''), Txt (take 8 a), Txt three_dots, Txt (drop (length a - 6) a)]]
           | None \<Rightarrow>
               [plain_el ''div'' (
                  [Press [] (wl_connecting w) (Some PressConnect)
                     (if wl_connecting w then [El ''Spinner'' [] [], Txt (''Connecting'' @ three_dots)] else [Txt ''Connect Freighter Wallet''])] @
                  (case truthy_str (wl_error w) of None \<Rightarrow> [] | Some e \<Rightarrow> [label_el ''p'' e]))]))"

definition WalletHeader :: "wallet \<Rightarrow> wallet_act view" where
  "WalletHeader w =
     plain_el ''header''
       [label_el ''span'' (cow @ '' StellarKraal''),
        plain_el ''div''
          [case truthy_str (wl_address w) of
             Some a \<Rightarrow> plain_el ''span'' [plain_el ''span'' [Txt (take 8 a), Txt three_dots, Txt (drop (length a - 6) a)],
               Press [] False (Some PressDisconnect) [Txt ''Disconnect'']]
           | None \<Rightarrow>
               if wl_freighterInstalled w = Some False then freighter_link ''Install Freighter''
               else Press [] (wl_connecting w \<or> wl_freighterInstalled w = None) (Some PressConnect)
                 [Txt (if wl_connecting w then ''Connecting'' @ three_dots else ''Connect Wallet'')]]]"

subsection \<open>Navigation and help (Navbar.tsx, ThemeToggle.tsx, HelpMenu.tsx)\<close>

datatype nav_act = GoTo string | GoAndClose string | SwitchTheme | ToggleMenu

definition nav_icon :: "string \<Rightarrow> string" where
  "nav_icon href = (case map_of [(''/dashboard'', [CHR 0xE2, CHR 0x8A, CHR 0x9E]), (''/loans'', clipboard), (''/collateral'', cow),
     (''/settings'', [CHR 0xE2, CHR 0x9A, CHR 0x99])] href of None \<Rightarrow> [] | Some i \<Rightarrow> i)"

definition nav_link :: "string \<Rightarrow> nav_act \<Rightarrow> string \<times> string \<Rightarrow> nav_act view" where
  "nav_link pathname act = (\<lambda>(href, label).
     plain_el ''li'' [Press ((''href'', href) # (if nav_active pathname href then [(''aria-current'', ''page'')] else [])) False (Some act)
       [El ''span'' [(''aria-hidden'', ''true'')] [Txt (nav_icon href)], Txt label]])"

definition ThemeToggle :: "Theme \<Rightarrow> nav_act view" where
  "ThemeToggle theme =
     (let t = (if theme = Dark then ''Switch to light mode'' else ''Switch to dark mode'') in
      Press [(''aria-label'', t), (''title'', t)] False (Some SwitchTheme)
        [El ''span'' [(''aria-hidden'', ''true'')]
           [Txt (if theme = Dark then [CHR 0xE2, CHR 0x98, CHR 0x80, CHR 0xEF, CHR 0xB8, CHR 0x8F] else [CHR 0xF0, CHR 0x9F, CHR 0x8C, CHR 0x99])]])"

definition Navbar :: "Theme \<Rightarrow> string \<Rightarrow> bool \<Rightarrow> nav_act view" where
  "Navbar theme pathname menu =
     El ''nav'' [(''aria-label'', ''Main navigation'')] (
       [plain_el ''div''
          [link_to (GoTo ''/'') ''/'' [Txt (cow @ '' StellarKraal'')],
           El ''ul'' [(''role'', ''list'')] (map (\<lambda>s. nav_link pathname (GoTo (fst s)) s) NAV_SECTIONS),
           plain_el ''div''
             [ThemeToggle theme,
              Press [(''aria-label'', if menu then ''Close menu'' else ''Open menu''), (''aria-expanded'', if menu then ''true'' else ''false''),
                  (''aria-controls'', ''mobile-menu'')] False (Some ToggleMenu)
                (replicate 3 (plain_el ''span'' []))]]] @
       shown_if menu [El ''ul'' [(''id'', ''mobile-menu''), (''role'', ''list'')] (map (\<lambda>s. nav_link pathname (GoAndClose (fst s)) s) NAV_SECTIONS)])"

text \<open>What a press leaves of the open menu.\<close>

fun nav_menu :: "nav_act \<Rightarrow> bool \<Rightarrow> bool" where
  "nav_menu ToggleMenu menu = (\<not> menu)"
| "nav_menu (GoAndClose href) menu = False"
| "nav_menu _ menu = menu"

datatype help_act = ToggleHelp | CloseHelp | ShowGuide | OpenHelpPage

definition HelpMenu :: "bool \<Rightarrow> help_act view" where
  "HelpMenu shown =
     plain_el ''div'' (
       [Press [(''aria-label'', ''Help menu'')] False (Some ToggleHelp) [icon]] @
       shown_if shown
         [Press [] False (Some CloseHelp) [],
          plain_el ''div''
            [Press [] False (Some ShowGuide) [Txt ''Show Getting Started Guide''],
             link_to OpenHelpPage ''/help'' [Txt ''Help & Guides'']]])"

definition help_do :: "help_act \<Rightarrow> bool \<Rightarrow> bool" where "help_do a shown = (a = ToggleHelp \<and> \<not> shown)"

subsection \<open>The page of a collateral (app/collateral/[id]/page.tsx)\<close>

record collateral_record =
  cv_id :: string
  cv_owner :: string
  cv_animal_type :: string
  cv_breed :: "string option"
  cv_age_years :: "rat option"
  cv_weight_kg :: "rat option"
  cv_photo_url :: "string option"
  cv_count :: rat
  cv_appraised_value :: rat
  cv_history :: "data_point list"

definition fact :: "string \<Rightarrow> string list \<Rightarrow> 'a view list" where "fact label ts = [label_el ''dt'' label, plain_el ''dd'' (map Txt ts)]"

definition animal_profile :: "page_texts \<Rightarrow> collateral_record \<Rightarrow> 'a view" where
  "animal_profile pt r =
     (let kind = to_lower (cv_animal_type r); n = (\<lambda>x. pt_plain pt (Fin x)) in
      plain_el ''div''
        [case truthy_str (cv_photo_url r) of
           Some u \<Rightarrow> El ''img'' [(''src'', u), (''alt'', cv_animal_type r)] []
         | None \<Rightarrow> label_el ''div'' (if str_includes kind ''goat'' then goat else if str_includes kind ''sheep'' then sheep else cow),
         plain_el ''div''
           [label_el ''h1'' (cv_animal_type r), plain_el ''p'' [Txt ''ID: '', Txt (cv_id r)],
            plain_el ''dl''
              ((case truthy_str (cv_breed r) of None \<Rightarrow> [] | Some b \<Rightarrow> fact ''Breed'' [b]) @
               (case cv_age_years r of None \<Rightarrow> [] | Some a \<Rightarrow> fact ''Age'' [n a, '' yr'']) @
               (case cv_weight_kg r of None \<Rightarrow> [] | Some w \<Rightarrow> fact ''Weight'' [n w, '' kg'']) @
               fact ''Count'' [n (cv_count r)] @
               fact ''Owner'' [take 8 (cv_owner r), three_dots, drop (length (cv_owner r) - 4) (cv_owner r)])]])"

definition CollateralRecordPage :: "page_texts \<Rightarrow> string \<Rightarrow> bool \<Rightarrow> collateral_record option \<Rightarrow> page_act view" where
  "CollateralRecordPage pt i loading record =
     (if loading then plain_el ''main'' [label_el ''p'' (''Loading'' @ three_dots)]
      else (case record of
        None \<Rightarrow>
          plain_el ''main''
            [label_el ''p'' cow, label_el ''h1'' ''Collateral Not Found'',
             plain_el ''p'' [Txt ''No collateral record exists for ID '', label_el ''code'' i, Txt ''.''],
             link_to (Assign ''/dashboard'') ''/dashboard'' [Txt (arrow_left @ '' Back to Dashboard'')]]
      | Some r \<Rightarrow>
          plain_el ''main''
            [link_to (Assign ''/dashboard'') ''/dashboard'' [Txt (arrow_left @ '' Back to Dashboard'')],
             animal_profile pt r,
             plain_el ''div'' [label_el ''p'' ''Current Appraised Value'',
               plain_el ''p'' [Txt (xlm_text pt (cv_appraised_value r)), Txt '' '', label_el ''span'' ''XLM'']],
             plain_el ''div'' [label_el ''h2'' ''Appraisal History'',
               (if cv_history r = [] then label_el ''p'' ''No appraisal history yet.''
                else table_of [''Date'', ''Value (XLM)'']
                  (map (\<lambda>h. table_row [[Txt (pt_date pt (hp_date h))], [Txt (xlm_text pt (hp_value h))]]) (rev (cv_history r))))],
             plain_el ''div'' [El ''PriceChart'' [(''label'', ''Price History'')] []]]))"


subsection \<open>The dashboard (app/dashboard/DashboardClient.tsx, SkeletonHealthDashboard.tsx)\<close>

definition SkeletonHealthDashboard :: "'a view" where
  "SkeletonHealthDashboard =
     El ''div'' [(''aria-busy'', ''true''), (''aria-label'', ''Loading health factor'')]
       [Card (Some [Skeleton]) None
          [plain_el ''div'' [Skeleton, Skeleton], plain_el ''div'' [plain_el ''div'' [Skeleton, Skeleton], Skeleton]]]"

datatype dash_act = DashHelp help_act | DashWallet wallet_act | DashOnboarding onboarding_act | DashLookup lookup_act
  | DashCalculator calculator_act | DashRepay repay_act | DashHistory page_act | TypeHealthId string | CheckHealth

text \<open>The dashboard with the hook of the health factor; \<open>db_flights\<close> are the ids the requests under way ask for.\<close>

record dashboard =
  db_wallet :: "string option"
  db_loanId :: string
  db_health :: health_hook
  db_flights :: "string list"

definition open_dashboard :: dashboard where
  "open_dashboard = \<lparr>db_wallet = None, db_loanId = [], db_health = open_health, db_flights = []\<rparr>"

text \<open>A factor that is not finite is drawn as well; the gauge is modelled for finite ones only.\<close>

definition health_box :: "trig \<Rightarrow> page_texts \<Rightarrow> string \<Rightarrow> health_hook \<Rightarrow> dash_act view" where
  "health_box tg pt loanId h =
     (if hh_loading h then SkeletonHealthDashboard
      else plain_el ''div'' (
        [plain_el ''h2'' [El ''GlossaryTerm'' [(''termKey'', ''healthFactor'')] []],
         plain_el ''div''
           [Enter [(''placeholder'', ''Loan ID'')] False loanId TypeHealthId, Press [] False (Some CheckHealth) [Txt ''Check'']]] @
        (case hh_healthFactor h of
           None \<Rightarrow> []
         | Some (Fin x) \<Rightarrow> [HealthGauge tg pt x]
         | Some _ \<Rightarrow> [El ''HealthGauge'' [] []])))"

text \<open>The components on the page are given by what they show.\<close>

record dash_parts =
  ds_help :: bool
  ds_wallet :: wallet
  ds_onboarding :: onboarding
  ds_lookup :: "lookup_act view"
  ds_calculator :: "calculator_act view"
  ds_repay :: "repay_act view"
  ds_history :: "page_act view list"

definition DashboardClient :: "trig \<Rightarrow> page_texts \<Rightarrow> dash_parts \<Rightarrow> dashboard \<Rightarrow> dash_act view" where
  "DashboardClient tg pt ps d =
     plain_el ''main'' (
       [plain_el ''div'' [label_el ''h1'' ''Dashboard'', map_view DashHelp (HelpMenu (ds_help ps))]] @
       map (map_view DashOnboarding) (OnboardingModal (ds_onboarding ps)) @
       map (map_view DashWallet) (WalletConnect (ds_wallet ps)) @
       shown_if (truthy_str (db_wallet d) \<noteq> None)
         [plain_el ''div'' [map_view DashLookup (ds_lookup ps), map_view DashCalculator (ds_calculator ps)],
          plain_el ''div'' [map_view DashRepay (ds_repay ps)],
          plain_el ''div'' (map (map_view DashHistory) (ds_history ps)),
          health_box tg pt (db_loanId d) (db_health d)])"

text \<open>A request for the factor of the id in the field; there is none for an empty field.\<close>

definition ask_health :: "dashboard \<Rightarrow> dashboard" where
  "ask_health d =
     d\<lparr>db_health := health_begin (db_loanId d) (db_health d),
       db_flights := (if db_loanId d = [] then db_flights d else db_flights d @ [db_loanId d])\<rparr>"

text \<open>A new id starts a request at once. Proceeding from the calculator takes the id of the loan and drops the amount.\<close>

definition set_loanId :: "string \<Rightarrow> dashboard \<Rightarrow> dashboard" where
  "set_loanId i d = (if i = db_loanId d then d else ask_health (d\<lparr>db_loanId := i\<rparr>))"

fun dash_do :: "dash_act \<Rightarrow> dashboard \<Rightarrow> dashboard" where
  "dash_do (TypeHealthId i) d = set_loanId i d"
| "dash_do (DashCalculator (Proceed i amount)) d = set_loanId i d"
| "dash_do CheckHealth d = ask_health d"
| "dash_do _ d = d"

definition health_answer :: "(json \<Rightarrow> js_num) \<Rightarrow> int \<Rightarrow> nat \<Rightarrow> js_error + web_response \<Rightarrow> dashboard \<Rightarrow> dashboard" where
  "health_answer toNum now k answer d =
     d\<lparr>db_health := health_end toNum now answer (db_health d), db_flights := take k (db_flights d) @ drop (Suc k) (db_flights d)\<rparr>"

text \<open>Pressing and entering what is on the page, polls, the wallet, and answers in any order; \<open>serves\<close> says what may be
  answered to a request for an id.\<close>

inductive dash_run ::
  "trig \<Rightarrow> page_texts \<Rightarrow> (json \<Rightarrow> js_num) \<Rightarrow> (string \<Rightarrow> js_error + web_response \<Rightarrow> bool) \<Rightarrow> dashboard \<Rightarrow> bool" for tg pt toNum serves where
  DashOpened: "dash_run tg pt toNum serves open_dashboard"
| DashConnected: "dash_run tg pt toNum serves d \<Longrightarrow> dash_run tg pt toNum serves (d\<lparr>db_wallet := Some a\<rparr>)"
| DashPressed: "dash_run tg pt toNum serves d \<Longrightarrow> a \<in> set (clicks (DashboardClient tg pt ps d)) \<Longrightarrow> dash_run tg pt toNum serves (dash_do a d)"
| DashEntered: "dash_run tg pt toNum serves d \<Longrightarrow> f \<in> set (entries (DashboardClient tg pt ps d)) \<Longrightarrow> dash_run tg pt toNum serves (dash_do (f v) d)"
| DashPolled: "dash_run tg pt toNum serves d \<Longrightarrow> dash_run tg pt toNum serves (ask_health d)"
| DashAnswered: "dash_run tg pt toNum serves d \<Longrightarrow> k < length (db_flights d) \<Longrightarrow> serves (db_flights d ! k) answer \<Longrightarrow>
    dash_run tg pt toNum serves (health_answer toNum now k answer d)"

subsection \<open>What the dashboard does with a lookup\<close>

lemma clicks_map_view: "clicks (map_view f v) = map f (clicks v)"
  by (induction v rule: clicks.induct) (auto simp: comp_def map_concat split: option.split cong: map_cong)

lemma entries_map_view: "entries (map_view f v) = map (\<lambda>g t. f (g t)) (entries v)"
  by (induction v rule: entries.induct) (auto simp: comp_def map_concat cong: map_cong)

lemma entries_gauge [simp]: "entries (HealthGauge tg pt x) = []"
  by (simp add: HealthGauge_def Let_def comp_def ZONES_def)

lemma entries_health_box: "entries (health_box tg pt i h) = (if hh_loading h then [] else [TypeHealthId])"
proof (cases "hh_healthFactor h")
  case (Some x)
  then show ?thesis by (cases x) (simp_all add: health_box_def SkeletonHealthDashboard_def Card_def Skeleton_def)
qed (simp add: health_box_def SkeletonHealthDashboard_def Card_def Skeleton_def)

text \<open>Typing a character starts a request, and the field is gone until its answer is there.\<close>

lemma typing_interrupted:
  assumes "i \<noteq> db_loanId d" "i \<noteq> []"
  shows "hh_loading (db_health (dash_do (TypeHealthId i) d)) \<and>
    entries (health_box tg pt (db_loanId (dash_do (TypeHealthId i) d)) (db_health (dash_do (TypeHealthId i) d))) = []"
  using assms by (simp add: set_loanId_def ask_health_def health_begin_def entries_health_box)

text \<open>Nothing is ever requested for the empty id.\<close>

lemma no_flight_for_nothing: "dash_run tg pt toNum serves d \<Longrightarrow> [] \<notin> set (db_flights d)"
proof (induction rule: dash_run.induct)
  case (DashPressed d a ps)
  then show ?case by (cases "(a, d)" rule: dash_do.cases) (auto simp: set_loanId_def ask_health_def)
next
  case (DashEntered d f ps v)
  then show ?case by (cases "(f v, d)" rule: dash_do.cases) (auto simp: set_loanId_def ask_health_def)
qed (auto simp: open_dashboard_def ask_health_def health_answer_def dest: in_set_takeD in_set_dropD)

text \<open>A lookup that fails leaves the factor of the loan looked up before on the page, with the other id in the
  field, and says nothing of the failure: the page is the one before but for the id.\<close>

theorem failed_lookup_keeps_factor:
  assumes "db_flights d = []" "\<not> hh_loading (db_health d)" "i \<noteq> db_loanId d" "i \<noteq> []" "answer = Inl e \<or> (\<exists>res. answer = Inr res \<and> \<not> wr_ok res)"
  shows "DashboardClient tg pt ps (health_answer toNum now 0 answer (dash_do (TypeHealthId i) d)) = DashboardClient tg pt ps (d\<lparr>db_loanId := i\<rparr>)"
proof -
  let ?d = "health_answer toNum now 0 answer (dash_do (TypeHealthId i) d)"
  have h: "hh_healthFactor (db_health ?d) = hh_healthFactor (db_health d)" "\<not> hh_loading (db_health ?d)"
    "db_loanId ?d = i" "db_wallet ?d = db_wallet d"
    using assms(3-5) by (auto simp: set_loanId_def ask_health_def health_begin_def health_answer_def health_end_def)
  then have "health_box tg pt (db_loanId ?d) (db_health ?d) = health_box tg pt i (db_health d)"
    using assms(2) by (simp add: health_box_def)
  then show ?thesis using h by (simp add: DashboardClient_def)
qed


theorem failed_lookup_keeps_factor_witness:
  "\<forall>ps. DashboardClient \<lparr>tg_pi = 3, tg_cos = (\<lambda>_. 0), tg_sin = (\<lambda>_. 0)\<rparr>
      \<lparr>pt_locale = (\<lambda>_. ''n''), pt_plain = (\<lambda>_. ''n''), pt_date = (\<lambda>_. ''d''), pt_time = (\<lambda>_. ''t'')\<rparr> ps
      (health_answer (\<lambda>_. NaN) 9 0 (Inl (type_error ''fetch'')) (dash_do (TypeHealthId ''2'')
        (open_dashboard\<lparr>db_loanId := ''1'', db_health := open_health\<lparr>hh_healthFactor := Some (Fin 20000)\<rparr>\<rparr>))) =
    DashboardClient \<lparr>tg_pi = 3, tg_cos = (\<lambda>_. 0), tg_sin = (\<lambda>_. 0)\<rparr>
      \<lparr>pt_locale = (\<lambda>_. ''n''), pt_plain = (\<lambda>_. ''n''), pt_date = (\<lambda>_. ''d''), pt_time = (\<lambda>_. ''t'')\<rparr> ps
      (open_dashboard\<lparr>db_loanId := ''2'', db_health := open_health\<lparr>hh_healthFactor := Some (Fin 20000)\<rparr>\<rparr>)"
  using failed_lookup_keeps_factor [where d = "open_dashboard\<lparr>db_loanId := ''1'', db_health := open_health\<lparr>hh_healthFactor := Some (Fin 20000)\<rparr>\<rparr>"
      and i = "''2''" and e = "type_error ''fetch''" and answer = "Inl (type_error ''fetch'')"]
  by (simp add: open_dashboard_def open_health_def)

text \<open>Answers that come late: with two requests for one loan under way, a second loan can be entered after the first answer, and the
  other answer for the first loan then replaces the factor of the second.\<close>

definition factor_answer :: "rat \<Rightarrow> js_error + web_response" where
  "factor_answer x = Inr (of_response (respond 200 (JObj [(''health_factor'', JNum x)])))"

lemma health_end_factor:
  "health_end toNum now (factor_answer x) h = h\<lparr>hh_healthFactor := Some (Fin x), hh_lastUpdated := Some now, hh_loading := False\<rparr>"
  by (simp add: health_end_def factor_answer_def of_response_def respond_def wr_ok_def factor_number_def)

lemma dash_typed:
  assumes "dash_run tg pt toNum serves d" "truthy_str (db_wallet d) \<noteq> None" "\<not> hh_loading (db_health d)"
  shows "dash_run tg pt toNum serves (set_loanId i d)"
proof -
  have "TypeHealthId \<in> set (entries (DashboardClient tg pt ps d))" for ps
    using assms(2,3) by (auto simp: DashboardClient_def shown_if_def entries_health_box)
  from dash_run.DashEntered [OF assms(1) this, of i] show ?thesis by simp
qed

lemma factor_of_other_loan:
  assumes "serves ''1'' (factor_answer 20000)" "serves ''2'' (factor_answer 9000)"
  shows "\<exists>d. dash_run tg pt toNum serves d \<and> db_flights d = [] \<and> \<not> hh_loading (db_health d) \<and>
    db_loanId d = ''2'' \<and> hh_healthFactor (db_health d) = Some (Fin 20000)"
proof -
  note ans = dash_run.DashAnswered [where now = 0]
  let ?a = "set_loanId ''1'' (open_dashboard\<lparr>db_wallet := Some ''G''\<rparr>)"
  let ?b = "health_answer toNum 0 0 (factor_answer 20000) (ask_health ?a)"
  let ?c = "health_answer toNum 0 1 (factor_answer 9000) (set_loanId ''2'' ?b)"
  let ?d = "health_answer toNum 0 0 (factor_answer 20000) ?c"
  note defs = set_loanId_def ask_health_def health_begin_def health_answer_def health_end_factor open_dashboard_def open_health_def
  have a: "dash_run tg pt toNum serves ?a"
    by (intro dash_typed dash_run.DashConnected dash_run.DashOpened) (simp_all add: open_dashboard_def open_health_def truthy_str_def)
  have b: "dash_run tg pt toNum serves ?b"
    by (rule ans [OF dash_run.DashPolled [OF a]]) (use assms in \<open>simp_all add: defs\<close>)
  have "dash_run tg pt toNum serves (set_loanId ''2'' ?b)"
    by (rule dash_typed [OF b]) (simp_all add: defs truthy_str_def)
  then have c: "dash_run tg pt toNum serves ?c" by (rule ans) (use assms in \<open>simp_all add: defs\<close>)
  then have "dash_run tg pt toNum serves ?d" by (rule ans) (use assms in \<open>simp_all add: defs\<close>)
  then show ?thesis by (intro exI [of _ ?d]) (simp add: defs)
qed

end
