(* ===== verification/Page_Flow.thy ===== *)
theory Page_Flow
  imports App_Flow Contract_Flow
begin

section \<open>Pages whose requests no route serves\<close>

text \<open>
  The page of a collateral (frontend/src/app/collateral/[id]/page.tsx) and the GET requests of the pages against the
  routes of the application. Express's matching is assumed to be that of \<open>path_match\<close> and \<open>path_mount\<close> on the paths in
  question, which have no escapes; a browser follows one redirect.
\<close>

subsection \<open>The page of a collateral (app/collateral/[id]/page.tsx)\<close>

record detail_page =
  dp_record :: "json option"
  dp_notFound :: bool
  dp_loading :: bool

definition detail_initial :: detail_page where "detail_initial = \<lparr>dp_record = None, dp_notFound = False, dp_loading = True\<rparr>"

definition detail_load :: "js_error + web_response \<Rightarrow> detail_page \<Rightarrow> detail_page" where
  "detail_load answer p =
     (case answer of
        Inl e \<Rightarrow> p\<lparr>dp_notFound := True, dp_loading := False\<rparr>
      | Inr res \<Rightarrow>
          if wr_status res = 404 then p\<lparr>dp_notFound := True, dp_loading := False\<rparr>
          else (case wr_json res of
                  Inl e \<Rightarrow> p\<lparr>dp_notFound := True, dp_loading := False\<rparr>
                | Inr j \<Rightarrow> p\<lparr>dp_record := Some j, dp_loading := False\<rparr>))"

datatype detail_view = DetailLoading | DetailNotFound | DetailShown json

definition detail_shows :: "detail_page \<Rightarrow> detail_view" where
  "detail_shows p =
     (if dp_loading p then DetailLoading
      else if dp_notFound p \<or> \<not> truthy (dp_record p) then DetailNotFound
      else (case dp_record p of Some j \<Rightarrow> DetailShown j | None \<Rightarrow> DetailNotFound))"

subsection \<open>Requests without a route\<close>

text \<open>Express on paths without escapes: it matches no more than \<open>path_match\<close>, and mounts as \<open>path_mount\<close>.\<close>

definition express :: "app_env \<Rightarrow> bool" where
  "express env \<longleftrightarrow> (\<forall>pat p. path_match pat p = None \<longrightarrow> ae_match env pat p = None) \<and> (\<forall>m p. ae_mount env m p = path_mount m p)"

lemma sample_express: "express (sample_app cr)" by (simp add: express_def)

definition get_patterns :: "string list list" where
  "get_patterns = map (path_segments \<circ> snd) (filter (\<lambda>mp. fst mp = ''GET'') route_table)"

lemmas get_patterns_eq = get_patterns_def [unfolded route_table_eq]

lemma get_patterns_list:
  "get_patterns =
    [[''api'', ''loans''], [''api'', ''borrowers'', '':wallet''], [''api'', ''collateral''], [''api'', ''loans'', '':id''],
     [''api'', ''loan'', '':id''], [''api'', ''health'', '':loanId''], [''api'', ''admin'', ''webhooks''],
     [''api'', ''admin'', ''webhooks'', ''logs''], [''api'', ''admin'', ''migrations'', ''status''], [''api'', ''v1'', ''admin'', ''audit''],
     [''api'', ''admin'', ''deleted'', ''collateral''], [''api'', ''v1'', ''collateral''], [''api'', ''v1'', ''collateral'', '':id'', ''appraisals''],
     [''api'', ''v1'', ''loans'', ''summary''], [''api'', ''admin'', ''deleted'', ''loans''], [''api'', ''transactions''],
     [''api'', ''v1'', ''transactions''], [''api'', ''transactions'', '':id'']]"
  unfolding get_patterns_eq by code_simp

definition unserved :: "string list \<Rightarrow> bool" where
  "unserved ws \<longleftrightarrow> list_all (\<lambda>p. match_segments p ws = None) get_patterns"

lemma unserved_find_route:
  assumes "express env" "rq_method req = ''GET''" "unserved (path_segments (rq_path req))"
  shows "find_route env req routes = None"
proof -
  have "find_route env req rs = None" if "set rs \<subseteq> set routes" for rs
    using that
  proof (induction rs)
    case (Cons r rs)
    have "route_params env req r = None"
    proof (cases "rt_method r = ''GET''")
      case True
      then have "path_segments (rt_path r) \<in> set get_patterns"
        using Cons.prems by (force simp: get_patterns_def route_table_def)
      then show ?thesis using assms by (simp add: route_params_def unserved_def list_all_iff express_def path_match_def)
    qed (use assms(2) in \<open>simp add: route_params_def method_matches_def\<close>)
    then show ?case using Cons by simp
  qed simp
  then show ?thesis by simp
qed

text \<open>A GET that no route takes.\<close>

lemma unserved_request:
  assumes "express env" "open_gates env i req s" "rq_method req = ''GET''" "unserved (path_segments (rq_path req))"
    and "\<not> protected_get (rq_path req)"
    and "path_mount ''/api/auth'' (rq_path req) = None" "path_mount ''/api/v2'' (rq_path req) = None"
  shows "app_request env i req s =
    (with_ids env i (req\<lparr>rq_user := None\<rparr>) (app_fallthrough env i (req\<lparr>rq_user := None\<rparr>)), s)"
proof -
  let ?req = "req\<lparr>rq_user := None\<rparr>"
  have e: "ae_mount env = path_mount" using assms(1) by (intro ext) (simp add: express_def)
  have f: "find_route env ?req routes = None" using unserved_find_route [of env ?req] assms by simp
  have "jwtMiddleware (ae_crypto env) (ae_auth env) (in_now i) (ap_keys s) ?req = Proceed ?req"
    using assms(3,5) by (simp add: jwtMiddleware_def is_mutating_def)
  then have "passes env i req s ?req" using assms(2,6) e by (simp add: passes_def)
  moreover have "deduplication_enter (ae_hash env) (in_now i) ?req (ap_dedupe s) = (DedupePass, ap_dedupe s)"
    using assms(3) by (simp add: deduplication_enter_def)
  moreover have "app_routes env i ?req s = (Inr (app_fallthrough env i ?req), s)"
    using f assms(3,7) e by (auto simp: app_routes_def api_key_router_def split: option.split bind_split)
  ultimately show ?thesis by (simp add: passes_request app_deduplicated_def settle_def Let_def)
qed


text \<open>Paths from their segments.\<close>

definition segments_path :: "string list \<Rightarrow> string" where "segments_path ws = concat (map ((#) CHR ''/'') ws)"

definition plain_segments :: "string list \<Rightarrow> bool" where
  "plain_segments ws \<longleftrightarrow> ws \<noteq> [] \<and> list_all (\<lambda>w. w \<noteq> [] \<and> CHR ''/'' \<notin> set w) ws"

lemma split_segments: "list_all (\<lambda>w. CHR ''/'' \<notin> set w) ws \<Longrightarrow> split_on CHR ''/'' (segments_path ws) = [] # ws"
proof (induction ws)
  case (Cons w ws)
  have "split_on CHR ''/'' (w @ segments_path ws) = w # ws"
    using Cons by (cases ws) (simp_all add: split_on_none split_on_first segments_path_def)
  then show ?case by (simp add: segments_path_def)
qed (simp add: segments_path_def)

lemma path_segments_path: "plain_segments ws \<Longrightarrow> path_segments (segments_path ws) = ws"
  by (auto simp: path_segments_def plain_segments_def split_segments list_all_iff Let_def)

lemma path_mount_api:
  "plain_segments ws \<Longrightarrow> path_mount ''/api'' (segments_path (''api'' # ws)) = Some (segments_path ws)"
proof -
  assume p: "plain_segments ws"
  then have seg: "path_segments (segments_path (''api'' # ws)) = ''api'' # ws"
    by (intro path_segments_path) (simp add: plain_segments_def)
  have api: "path_segments ''/api'' = [''api'']" by code_simp
  show ?thesis unfolding path_mount_def seg api Let_def using p by (simp add: segments_path_def plain_segments_def)
qed

text \<open>What a page gets for a GET: the browser follows a redirect.\<close>

definition page_get :: "string list \<Rightarrow> request" where
  "page_get ws = \<lparr>rq_method = ''GET'', rq_path = segments_path ws, rq_query = [], rq_headers = [], rq_body = JNull, rq_user = None\<rparr>"

definition app_fetch :: "app_env \<Rightarrow> app_input \<Rightarrow> app_input \<Rightarrow> request \<Rightarrow> app_state \<Rightarrow> response \<times> app_state" where
  "app_fetch env i i' req s =
     (let (res, s') = app_request env i req s in
      if rs_status res \<noteq> 301 then (res, s')
      else (case map_of (rs_headers res) ''Location'' of
              None \<Rightarrow> (res, s')
            | Some loc \<Rightarrow> app_request env i' (req\<lparr>rq_path := takeWhile (\<lambda>c. c \<noteq> CHR ''?'') loc\<rparr>) s'))"

definition unserved_pages :: "string \<Rightarrow> string list list" where
  "unserved_pages k =
     [[''v1'', ''collateral'', k], [''collateral'', k], [''collateral'', ''list''], [''v1'', ''profile'', ''settings''],
      [''v1'', ''admin'', ''users''], [''v1'', ''admin'', ''moderation-queue''], [''v1'', ''admin'', ''statistics'']]"

lemma lower_literals:
  "to_lower ''api'' = ''api''" "to_lower ''v1'' = ''v1''" "to_lower ''v2'' = ''v2''" "to_lower ''auth'' = ''auth''" "to_lower ''collateral'' = ''collateral''"
  "to_lower ''list'' = ''list''" "to_lower ''profile'' = ''profile''" "to_lower ''settings'' = ''settings''"
  "to_lower ''admin'' = ''admin''" "to_lower ''users'' = ''users''" "to_lower ''moderation-queue'' = ''moderation-queue''"
  "to_lower ''statistics'' = ''statistics''" "to_lower ''loans'' = ''loans''" "to_lower ''borrowers'' = ''borrowers''"
  "to_lower ''loan'' = ''loan''" "to_lower ''health'' = ''health''" "to_lower ''webhooks'' = ''webhooks''"
  "to_lower ''migrations'' = ''migrations''" "to_lower ''audit'' = ''audit''" "to_lower ''deleted'' = ''deleted''"
  "to_lower ''appraisals'' = ''appraisals''" "to_lower ''summary'' = ''summary''" "to_lower ''transactions'' = ''transactions''"
  "to_lower ''status'' = ''status''" "to_lower ''logs'' = ''logs''"
  by code_simp+

lemma unserved_pages_facts:
  assumes "ws \<in> set (unserved_pages k)" "k \<noteq> []" "CHR ''/'' \<notin> set k"
  shows "plain_segments ws" "unserved (''api'' # ws)" "unserved ws"
    "path_mount ''/api/auth'' (segments_path (''api'' # ws)) = None" "path_mount ''/api/v2'' (segments_path (''api'' # ws)) = None"
    "path_mount ''/api'' (segments_path ws) = None" "path_mount ''/api/auth'' (segments_path ws) = None" "path_mount ''/api/v2'' (segments_path ws) = None"
proof -
  show p: "plain_segments ws" using assms by (auto simp: unserved_pages_def plain_segments_def)
  show "unserved (''api'' # ws)" "unserved ws"
    using assms by (auto simp: unserved_pages_def unserved_def get_patterns_list lower_literals starts_with_def)
  have seg: "path_segments (segments_path (''api'' # ws)) = ''api'' # ws" "path_segments (segments_path ws) = ws"
    using p by (auto intro!: path_segments_path simp: plain_segments_def)
  have pat: "path_segments ''/api/auth'' = [''api'', ''auth'']" "path_segments ''/api/v2'' = [''api'', ''v2'']" "path_segments ''/api'' = [''api'']"
    by code_simp+
  show "path_mount ''/api/auth'' (segments_path (''api'' # ws)) = None" "path_mount ''/api/v2'' (segments_path (''api'' # ws)) = None"
    "path_mount ''/api'' (segments_path ws) = None" "path_mount ''/api/auth'' (segments_path ws) = None" "path_mount ''/api/v2'' (segments_path ws) = None"
    unfolding path_mount_def seg pat Let_def using assms by (auto simp: unserved_pages_def lower_literals)
qed


lemma unserved_fetch:
  assumes "express env" "ws \<in> set (unserved_pages k)" "k \<noteq> []" "CHR ''/'' \<notin> set k" "CHR ''?'' \<notin> set k"
    and "takeWhile (\<lambda>c. c \<noteq> CHR ''?'') (in_query_text i) = []"
    and "open_gates env i (page_get (''api'' # ws)) s" "open_gates env i' (page_get ws) s"
  shows "app_fetch env i i' (page_get (''api'' # ws)) s = (with_ids env i' (page_get ws) (ae_not_found env (page_get ws)), s)"
proof -
  note f = unserved_pages_facts [OF assms(2-4)]
  have seg: "path_segments (segments_path (''api'' # ws)) = ''api'' # ws" "path_segments (segments_path ws) = ws"
    using f(1) by (auto intro!: path_segments_path simp: plain_segments_def)
  have e: "ae_mount env = path_mount" using assms(1) by (intro ext) (simp add: express_def)
  have q: "takeWhile (\<lambda>c. c \<noteq> CHR ''?'') (segments_path ws @ in_query_text i) = segments_path ws"
  proof -
    have "\<forall>c\<in>set (segments_path ws). c \<noteq> CHR ''?''" using assms(2,5) by (auto simp: unserved_pages_def segments_path_def)
    then show ?thesis using assms(6) by (simp add: takeWhile_append2)
  qed
  have np: "\<not> protected_get (segments_path (''api'' # ws))" "\<not> protected_get (segments_path ws)"
    using assms(2-4) by (auto simp: unserved_pages_def segments_path_def protected_get_def starts_with_def)
  have red: "redirect_unversioned (segments_path ws) (in_query_text i) =
      Some \<lparr>rd_status = 301, rd_location = segments_path ws @ in_query_text i, rd_headers = [(''Deprecation'', ''true''),
        (''Warning'', ''299 - '' @ [CHR 34] @ ''Unversioned API routes are deprecated. Use /api/v1/ prefix.'' @ [CHR 34])]\<rparr>"
    using assms(2) by (auto simp: unserved_pages_def segments_path_def redirect_unversioned_def starts_with_def)
  have u: "(page_get xs)\<lparr>rq_user := None\<rparr> = page_get xs" "rq_path (page_get xs) = segments_path xs" "rq_method (page_get xs) = ''GET''" for xs
    by (simp_all add: page_get_def)
  have r1: "app_request env i (page_get (''api'' # ws)) s =
      (with_ids env i (page_get (''api'' # ws)) (app_fallthrough env i (page_get (''api'' # ws))), s)"
    using unserved_request [OF assms(1,7)] f seg np by (simp add: u)
  have r2: "app_request env i' (page_get ws) s = (with_ids env i' (page_get ws) (app_fallthrough env i' (page_get ws)), s)"
    using unserved_request [OF assms(1,8)] f seg np by (simp add: u)
  have f1: "app_fallthrough env i (page_get (''api'' # ws)) = redirect_response \<lparr>rd_status = 301, rd_location = segments_path ws @ in_query_text i, rd_headers = [(''Deprecation'', ''true''),
        (''Warning'', ''299 - '' @ [CHR 34] @ ''Unversioned API routes are deprecated. Use /api/v1/ prefix.'' @ [CHR 34])]\<rparr>"
    using path_mount_api [OF f(1)] red by (simp add: app_fallthrough_def e u)
  have f2: "app_fallthrough env i' (page_get ws) = ae_not_found env (page_get ws)"
    using f(6) by (simp add: app_fallthrough_def e u)
  have loc: "map_of (rs_headers (with_ids env i (page_get (''api'' # ws)) (redirect_response \<lparr>rd_status = 301,
      rd_location = l, rd_headers = [(''Deprecation'', ''true''), (''Warning'', w)]\<rparr>))) ''Location'' = Some l" for l w
    by (auto simp: with_ids_def redirect_response_def correlationMiddleware_def requestIdMiddleware_def Let_def split: option.split)
  have nxt: "page_get (''api'' # ws)\<lparr>rq_path := segments_path ws\<rparr> = page_get ws" by (simp add: page_get_def)
  show ?thesis
    unfolding app_fetch_def r1 f1 prod.case Let_def loc option.case q nxt r2 f2
    by (simp add: redirect_response_def)
qed

subsection \<open>What the pages get\<close>

text \<open>C40: Pages without a route: what the pages of a single collateral, the hook for the collateral of an owner, the
  notification switches and the admin panel fetch is served by no route of the application. The request ends in a
  redirect that leads out of the API and then in Express's answer 404, the state stays as it is, and the page
  of a collateral shows that there is none, whatever the store holds.\<close>

theorem collateral_pages_find_nothing:
  assumes "express env" "k \<noteq> []" "CHR ''/'' \<notin> set k" "CHR ''?'' \<notin> set k" "ws \<in> set (unserved_pages k)"
    and "takeWhile (\<lambda>c. c \<noteq> CHR ''?'') (in_query_text i) = []"
    and "open_gates env i (page_get (''api'' # ws)) s" "open_gates env i' (page_get ws) s"
    and "rs_status (ae_not_found env (page_get ws)) = 404"
  shows "let (res, s') = app_fetch env i i' (page_get (''api'' # ws)) s in
    rs_status res = 404 \<and> s' = s \<and> detail_shows (detail_load (Inr (of_response res)) detail_initial) = DetailNotFound"
  using unserved_fetch [OF assms(1,5,2-4,6-8)] assms(9)
  by (simp add: detail_shows_def detail_load_def of_response_def)

theorem collateral_pages_find_nothing_witness:
  "rs_status (fst (app_fetch (sample_app sample_crypto) (sample_input 5 ''u'') (sample_input 6 ''u'')
     (page_get (''api'' # [''v1'', ''collateral'', ''c1''])) (snd (sample_create 2000 ''c1'' (snd sample_login))))) = 404"
proof -
  let ?s = "snd (sample_create 2000 ''c1'' (snd sample_login))"
  have o: "open_gates (sample_app sample_crypto) (sample_input t ''u'') (page_get xs) ?s"
    if "segments_path xs \<in> {''/api/v1/collateral/c1'', ''/v1/collateral/c1''}" for t xs
  proof -
    have "path_match ''/api/health'' p = None \<and> path_mount ''/api/v1/health'' p = None"
      if "p \<in> {''/api/v1/collateral/c1'', ''/v1/collateral/c1''}" for p
      using that by (elim insertE emptyE; hypsubst; intro conjI; code_simp)
    then show ?thesis using that
      by (auto simp: open_gates_def to_gates_def health_request_def page_get_def sample_created)
  qed
  have "[''v1'', ''collateral'', ''c1''] \<in> set (unserved_pages ''c1'')" by (simp add: unserved_pages_def)
  from collateral_pages_find_nothing [OF sample_express _ _ _ this] show ?thesis
    using o [of "[''api'', ''v1'', ''collateral'', ''c1'']"] o [of "[''v1'', ''collateral'', ''c1'']"]
    by (simp add: split_beta segments_path_def sample_app_def sample_input_def)
qed

end
