(* ===== verification/Deploy_Check.thy ===== *)
theory Deploy_Check
  imports Contract_Tx Alerting
begin

section \<open>Scripts (scripts/verify-deployment.ts, backend/scripts/generate-alert-rules.ts)\<close>

text \<open>
  The check of a deployed contract and the generator of the Prometheus rules. A check gives the lines it
  prints; the RPC server and the SDK are parameters, and so is \<open>encodeURIComponent\<close>. The theorems: when the
  check of a deployment succeeds, which errors of the contract it takes for a healthy deployment, and that
  the strings of the generated rules read back as they were.
\<close>

subsection \<open>The check of a deployment\<close>

text \<open>The environment, and what the server answers: \<open>dv_build\<close> makes the call of a method of the contract with a number,
  \<open>dv_simulate\<close> gives the error of a simulation or nothing.\<close>

record deploy_env =
  dv_RPC_URL :: "string option"
  dv_CONTRACT_ID :: "string option"
  dv_ADMIN_ADDRESS :: "string option"
  dv_NEXT_PUBLIC_NETWORK :: "string option"
  dv_server :: "string \<Rightarrow> js_error + unit"
  dv_getHealth :: "js_error + string"
  dv_getAccount :: "string \<Rightarrow> js_error + string"
  dv_build :: "string \<Rightarrow> string \<Rightarrow> string \<Rightarrow> string \<Rightarrow> int \<Rightarrow> js_error + string"
  dv_simulate :: "string \<Rightarrow> js_error + string option"

definition deploy_RPC_URL :: "deploy_env \<Rightarrow> string" where
  "deploy_RPC_URL env = (case truthy_str (dv_RPC_URL env) of None \<Rightarrow> ''https://soroban-testnet.stellar.org'' | Some u \<Rightarrow> u)"

definition deploy_CONTRACT_ID :: "deploy_env \<Rightarrow> string" where
  "deploy_CONTRACT_ID env = (case truthy_str (dv_CONTRACT_ID env) of None \<Rightarrow> [] | Some c \<Rightarrow> c)"

definition deploy_ADMIN_ADDRESS :: "deploy_env \<Rightarrow> string" where
  "deploy_ADMIN_ADDRESS env = (case truthy_str (dv_ADMIN_ADDRESS env) of None \<Rightarrow> [] | Some a \<Rightarrow> a)"

definition NETWORK :: "deploy_env \<Rightarrow> string" where
  "NETWORK env = (if dv_NEXT_PUBLIC_NETWORK env = Some ''mainnet'' then ''mainnet'' else ''testnet'')"

definition NETWORK_PASSPHRASE :: "deploy_env \<Rightarrow> string" where
  "NETWORK_PASSPHRASE env =
     (if NETWORK env = ''mainnet'' then ''Public Global Stellar Network ; September 2015'' else ''Test SDF Network ; September 2015'')"

definition DEPLOY_READ_ACCOUNT :: "deploy_env \<Rightarrow> string" where
  "DEPLOY_READ_ACCOUNT env =
     (if NETWORK env = ''mainnet'' then ''GAAZI4TCR3TY5OJHCTJC2A4QSY6CJWJH5IAJTGKIN2ER7LBNVKOCCWN''
      else ''GAAZI4TCR3TY5OJHCTJC2A4QSY6CJWJH5IAJTGKIN2ER7LBNVKOCCWN'')"

datatype check_line = CheckOk string | CheckFail string "string option"

fun line_failed :: "check_line \<Rightarrow> bool" where
  "line_failed (CheckOk l) = False" | "line_failed (CheckFail l r) = True"

definition simulateRead :: "deploy_env \<Rightarrow> string \<Rightarrow> int \<Rightarrow> js_error + unit" where
  "simulateRead env mth n =
     bind_r (dv_getAccount env (DEPLOY_READ_ACCOUNT env)) (\<lambda>account.
     bind_r (dv_build env account (deploy_CONTRACT_ID env) (NETWORK_PASSPHRASE env) mth n) (\<lambda>tx.
     bind_r (dv_simulate env tx) (\<lambda>r. case r of Some e \<Rightarrow> Inl (JsError ''Error'' e) | None \<Rightarrow> Inr ())))"

definition checkConfig :: "deploy_env \<Rightarrow> check_line list" where
  "checkConfig env =
     [if deploy_CONTRACT_ID env = [] \<or> deploy_CONTRACT_ID env = ''your_deployed_contract_id''
      then CheckFail ''CONTRACT_ID is set'' (Some ''missing or placeholder value'')
      else CheckOk (''CONTRACT_ID = '' @ deploy_CONTRACT_ID env),
      if deploy_ADMIN_ADDRESS env = [] then CheckFail ''ADMIN_ADDRESS is set'' (Some ''set ADMIN_ADDRESS env var'')
      else CheckOk (''ADMIN_ADDRESS = '' @ deploy_ADMIN_ADDRESS env),
      CheckOk (''Network = '' @ NETWORK env @ '' ('' @ take 30 (NETWORK_PASSPHRASE env) @ ''...)'')]"

definition checkRpcConnectivity :: "deploy_env \<Rightarrow> check_line list" where
  "checkRpcConnectivity env =
     (case dv_getHealth env of
        Inr status \<Rightarrow> if status = ''healthy'' then [CheckOk (''RPC healthy at '' @ deploy_RPC_URL env)]
                     else [CheckFail ''RPC health'' (Some (''status = '' @ status))]
      | Inl e \<Rightarrow> [CheckFail ''RPC reachable'' (Some (err_message e))])"

definition checkContractResponds :: "deploy_env \<Rightarrow> check_line list" where
  "checkContractResponds env =
     (case simulateRead env ''get_loan'' 0 of
        Inr _ \<Rightarrow> [CheckOk ''Contract responds to get_loan simulation'']
      | Inl e \<Rightarrow>
          (let msg = err_message e in
           if str_includes msg ''LoanNotFound'' \<or> str_includes msg ''5''
           then [CheckOk ''Contract responds (LoanNotFound as expected for id=0)'']
           else [CheckFail ''Contract responds'' (Some msg)]))"

definition checkHealthFactor :: "deploy_env \<Rightarrow> check_line list" where
  "checkHealthFactor env =
     (case simulateRead env ''health_factor'' 1 of
        Inr _ \<Rightarrow> [CheckOk ''health_factor simulation succeeded'']
      | Inl e \<Rightarrow>
          (let msg = err_message e in
           if str_includes msg ''LoanNotFound'' \<or> str_includes msg ''5''
           then [CheckOk ''health_factor responds (LoanNotFound expected on fresh deploy)'']
           else [CheckFail ''health_factor simulation'' (Some msg)]))"

definition checkInitializedState :: "deploy_env \<Rightarrow> check_line list" where
  "checkInitializedState env =
     (case simulateRead env ''get_collateral'' 0 of
        Inr _ \<Rightarrow> [CheckOk ''Contract is initialized (get_collateral responded)'']
      | Inl e \<Rightarrow>
          (let msg = err_message e in
           if str_includes msg ''NotInitialized'' \<or> str_includes msg ''1''
           then [CheckFail ''Contract initialized'' (Some (''contract not yet initialized '' @ [CHR 0xE2, CHR 0x80, CHR 0x94] @ '' run initialize()''))]
           else if str_includes msg ''CollateralNotFound'' \<or> str_includes msg ''6''
           then [CheckOk ''Contract is initialized (CollateralNotFound expected on fresh deploy)'']
           else [CheckFail ''Contract initialized check'' (Some msg)]))"

text \<open>The lines printed and the exit code.\<close>

definition verify_main :: "deploy_env \<Rightarrow> check_line list \<times> nat" where
  "verify_main env =
     (case dv_server env (deploy_RPC_URL env) of
        Inl e \<Rightarrow> ([], 1)
      | Inr _ \<Rightarrow>
          (let out = checkConfig env @ checkRpcConnectivity env @ checkContractResponds env @ checkHealthFactor env @
                     checkInitializedState env;
               failed = length (filter line_failed out) in
           (out, if failed > 0 then 1 else 0)))"

subsection \<open>The generator of the alert rules\<close>

record prom_rule =
  pr_alert :: string
  pr_expr :: string
  pr_for :: string
  pr_severity :: string
  pr_summary :: string
  pr_description :: "string option"
  pr_runbook :: string
  pr_dashboard :: string

definition GRAFANA_BASE :: "string option \<Rightarrow> string" where
  "GRAFANA_BASE u = (case u of None \<Rightarrow> ''http://localhost:3000'' | Some b \<Rightarrow> b)"

definition DASHBOARD_UID :: string where "DASHBOARD_UID = ''stellarkraal-backend''"

definition quoted_char :: "char \<Rightarrow> string" where
  "quoted_char c = (if c = CHR 92 then [CHR 92, CHR 92] else if c = CHR 34 then [CHR 92, CHR 34] else [c])"

text \<open>First every backslash is doubled, then every quotation mark gets one.\<close>

definition q_yaml :: "string \<Rightarrow> string" where
  "q_yaml s =
     (let s1 = concat (map (\<lambda>c. if c = CHR 92 then [CHR 92, CHR 92] else [c]) s);
          s2 = concat (map (\<lambda>c. if c = CHR 34 then [CHR 92, CHR 34] else [c]) s1) in
      [CHR 34] @ s2 @ [CHR 34])"

definition grafanaLink :: "(string \<Rightarrow> string) \<Rightarrow> string option \<Rightarrow> string \<Rightarrow> string" where
  "grafanaLink encodeURIComponent base name =
     GRAFANA_BASE base @ ''/d/'' @ DASHBOARD_UID @ ''?var-alert='' @ encodeURIComponent name"

fun join_lines :: "string list \<Rightarrow> string" where
  "join_lines [] = []" | "join_lines [l] = l" | "join_lines (l # m # ls) = l @ [CHR 10] @ join_lines (m # ls)"

definition rule_lines :: "nat \<Rightarrow> prom_rule \<Rightarrow> string list" where
  "rule_lines indent r =
     (let pad = replicate indent CHR '' '' in
      [pad @ ''- alert: '' @ pr_alert r,
       pad @ ''  expr: '' @ q_yaml (pr_expr r),
       pad @ ''  for: '' @ pr_for r,
       pad @ ''  labels:'',
       pad @ ''    severity: '' @ pr_severity r,
       pad @ ''  annotations:'',
       pad @ ''    summary: '' @ q_yaml (pr_summary r)] @
      (case truthy_str (pr_description r) of None \<Rightarrow> [] | Some d \<Rightarrow> [pad @ ''    description: '' @ q_yaml d]) @
      [pad @ ''    runbook: '' @ q_yaml (pr_runbook r),
       pad @ ''    dashboard: '' @ q_yaml (pr_dashboard r)])"

definition renderRule :: "nat \<Rightarrow> prom_rule \<Rightarrow> string" where "renderRule indent r = join_lines (rule_lines indent r)"

definition to_upper_char :: "char \<Rightarrow> char" where
  "to_upper_char c = (if 97 \<le> code c \<and> code c \<le> 122 then char_of (code c - 32) else c)"

definition alertName :: "string \<Rightarrow> string" where
  "alertName i = concat (map (\<lambda>w. map to_upper_char (take 1 w) @ drop 1 w) (split_on CHR ''-'' i))"

fun severity_text :: "AlertSeverity \<Rightarrow> string" where
  "severity_text Warning = ''warning''" | "severity_text Critical = ''critical''"

definition app_rule :: "(string \<Rightarrow> string) \<Rightarrow> string option \<Rightarrow> AlertRule \<Rightarrow> prom_rule" where
  "app_rule encodeURIComponent base r =
     \<lparr>pr_alert = alertName (ar_id r),
      pr_expr = ''stellarkraal_alert_fired{rule='' @ [CHR 34] @ ar_id r @ [CHR 34] @ ''} > 0'',
      pr_for = string_of_int \<lfloor>js_round (js_div (of_int (ar_cooldownMs r)) 60000)\<rfloor> @ ''m'',
      pr_severity = severity_text (ar_severity r), pr_summary = ar_name r, pr_description = None,
      pr_runbook = ''https://github.com/teslims2/StellarKraal-/blob/main/docs/runbooks/'' @ ar_runbook r,
      pr_dashboard = grafanaLink encodeURIComponent base (ar_id r)\<rparr>"

definition appRules :: "(string \<Rightarrow> string) \<Rightarrow> string option \<Rightarrow> prom_rule list" where
  "appRules encodeURIComponent base = map (app_rule encodeURIComponent base) rules"

definition metricRules :: "(string \<Rightarrow> string) \<Rightarrow> string option \<Rightarrow> prom_rule list" where
  "metricRules encodeURIComponent base =
     [\<lparr>pr_alert = ''HighP99Latency'',
       pr_expr = ''histogram_quantile(0.99, sum(rate(http_request_duration_seconds_bucket[5m])) by (le)) > 1'',
       pr_for = ''2m'', pr_severity = ''warning'', pr_summary = ''p99 HTTP latency exceeds 1s'',
       pr_description = Some ''p99 latency is {{ $value | humanizeDuration }} over the last 5 minutes.'',
       pr_runbook = GRAFANA_BASE base @ ''/d/'' @ DASHBOARD_UID, pr_dashboard = grafanaLink encodeURIComponent base ''HighP99Latency''\<rparr>,
      \<lparr>pr_alert = ''HighErrorRate'',
       pr_expr = ''sum(rate(http_requests_total{status_code=~'' @ [CHR 34] @ ''5..'' @ [CHR 34] @
         ''}[5m])) / sum(rate(http_requests_total[5m])) > 0.01'',
       pr_for = ''1m'', pr_severity = ''critical'', pr_summary = ''HTTP 5xx error rate exceeds 1%'',
       pr_description = Some ''Error rate is {{ $value | humanizePercentage }} over the last 5 minutes.'',
       pr_runbook = GRAFANA_BASE base @ ''/d/'' @ DASHBOARD_UID, pr_dashboard = grafanaLink encodeURIComponent base ''HighErrorRate''\<rparr>,
      \<lparr>pr_alert = ''DbPoolExhaustion'', pr_expr = ''db_pool_available == 0'', pr_for = ''30s'', pr_severity = ''critical'',
       pr_summary = ''DB connection pool exhausted'',
       pr_description = Some (''All DB pool connections are in use '' @ [CHR 0xE2, CHR 0x80, CHR 0x94] @ '' new queries will queue or fail.''),
       pr_runbook = GRAFANA_BASE base @ ''/d/'' @ DASHBOARD_UID, pr_dashboard = grafanaLink encodeURIComponent base ''DbPoolExhaustion''\<rparr>]"

definition allRules :: "(string \<Rightarrow> string) \<Rightarrow> string option \<Rightarrow> string" where
  "allRules encodeURIComponent base =
     join_lines (map (renderRule 6) (metricRules encodeURIComponent base @ appRules encodeURIComponent base))"

definition alert_rules_yaml :: "(string \<Rightarrow> string) \<Rightarrow> string option \<Rightarrow> string" where
  "alert_rules_yaml encodeURIComponent base =
     ''# Auto-generated by scripts/generate-alert-rules.ts '' @ [CHR 0xE2, CHR 0x80, CHR 0x94] @ '' do not edit manually'' @ [CHR 10] @
     ''groups:'' @ [CHR 10] @ ''  - name: stellarkraal.rules'' @ [CHR 10] @ ''    rules:'' @ [CHR 10] @
     allRules encodeURIComponent base @ [CHR 10]"

subsection \<open>Strings of the rules\<close>

text \<open>How YAML reads a quoted string with the two escapes.\<close>

fun yaml_rest :: "string \<Rightarrow> string option" where
  "yaml_rest [] = None"
| "yaml_rest (c # s) =
     (if c = CHR 34 then (if s = [] then Some [] else None)
      else if c = CHR 92
      then (case s of [] \<Rightarrow> None | d # t \<Rightarrow> if d \<in> {CHR 34, CHR 92} then map_option ((#) d) (yaml_rest t) else None)
      else map_option ((#) c) (yaml_rest s))"

definition yaml_string :: "string \<Rightarrow> string option" where
  "yaml_string s = (case s of c # t \<Rightarrow> if c = CHR 34 then yaml_rest t else None | [] \<Rightarrow> None)"

lemma q_yaml_chars: "q_yaml s = [CHR 34] @ concat (map quoted_char s) @ [CHR 34]"
proof -
  have "concat (map (\<lambda>c. if c = CHR 34 then [CHR 92, CHR 34] else [c]) (concat (map (\<lambda>c. if c = CHR 92 then [CHR 92, CHR 92] else [c]) s))) =
      concat (map quoted_char s)"
    by (induction s) (auto simp: quoted_char_def)
  then show ?thesis by (simp add: q_yaml_def Let_def)
qed

lemma yaml_rest_quoted: "yaml_rest (concat (map quoted_char s) @ [CHR 34]) = Some s"
  by (induction s) (auto simp: quoted_char_def)

text \<open>Every string of a generated rule reads back as it was, whatever quotation marks and backslashes
  it has.\<close>

theorem rule_strings_read_back: "yaml_string (q_yaml s) = Some s"
  by (simp add: q_yaml_chars yaml_string_def yaml_rest_quoted)

text \<open>No two rules have the same name.\<close>

lemma alert_names_distinct: "distinct (map pr_alert (metricRules enc base @ appRules enc base))"
proof -
  have n: "map alertName (map ar_id rules) =
      [''RpcFailure'', ''RpcCircuitOpen'', ''DbError'', ''LiquidationFailure'', ''5xxSpike'', ''BackupFailure'']"
    by code_simp
  have "map pr_alert (appRules enc base) = map alertName (map ar_id rules)" by (simp add: appRules_def app_rule_def)
  then show ?thesis unfolding map_append n by (simp add: metricRules_def)
qed

subsection \<open>What the check of a deployment accepts\<close>

lemma str_includes_iff: "str_includes s p \<longleftrightarrow> (\<exists>u v. s = u @ p @ v)"
proof
  assume "str_includes s p"
  then obtain k where "starts_with p (drop k s)" unfolding str_includes_def list_ex_iff by blast
  then obtain v where "drop k s = p @ v" by (auto simp: starts_with_iff)
  then have "s = take k s @ p @ v" by (metis append_take_drop_id)
  then show "\<exists>u v. s = u @ p @ v" by blast
next
  assume "\<exists>u v. s = u @ p @ v"
  then obtain u v where "s = u @ p @ v" by blast
  then have "starts_with p (drop (length u) s)" "length u \<in> set [0..<length s + 1]" by (auto simp: starts_with_iff)
  then show "str_includes s p" unfolding str_includes_def list_ex_iff by blast
qed

lemma str_includes_char: "str_includes s [c] \<longleftrightarrow> c \<in> set s"
  by (auto simp: str_includes_iff in_set_conv_decomp)

lemma str_includes_set: "str_includes s p \<Longrightarrow> c \<in> set p \<Longrightarrow> c \<in> set s"
  by (auto simp: str_includes_iff)

lemma host_error_digits:
  assumes "is_digit c" shows "c \<in> set (host_error ec) \<longleftrightarrow> c \<in> set (string_of_nat ec)"
  using assms by (auto simp: host_error_def is_digit_def code_def)

lemma host_error_no_N: "CHR ''N'' \<notin> set (host_error ec)"
proof -
  have "\<forall>c\<in>set (string_of_nat ec). is_digit c" using string_of_nat_digits by (simp add: list_all_iff)
  then show ?thesis by (auto simp: host_error_def is_digit_def code_def)
qed

lemma host_error_names:
  "\<not> str_includes (host_error ec) ''LoanNotFound''" "\<not> str_includes (host_error ec) ''NotInitialized''"
  "\<not> str_includes (host_error ec) ''CollateralNotFound''"
  using host_error_no_N str_includes_set [where c = "CHR ''N''"] by fastforce+

text \<open>A deployment whose reads of a loan and a health factor end in the contract error \<open>a\<close>, and the read of a collateral
  in the contract error \<open>b\<close>.\<close>

definition answers_errors :: "deploy_env \<Rightarrow> nat \<Rightarrow> nat \<Rightarrow> bool" where
  "answers_errors env a b \<longleftrightarrow>
     dv_server env (deploy_RPC_URL env) = Inr () \<and> dv_getHealth env = Inr ''healthy'' \<and>
     deploy_CONTRACT_ID env \<notin> {[], ''your_deployed_contract_id''} \<and> deploy_ADMIN_ADDRESS env \<noteq> [] \<and>
     simulateRead env ''get_loan'' 0 = Inl (JsError ''Error'' (host_error a)) \<and>
     simulateRead env ''health_factor'' 1 = Inl (JsError ''Error'' (host_error a)) \<and>
     simulateRead env ''get_collateral'' 0 = Inl (JsError ''Error'' (host_error b))"

text \<open>The check of a deployment looks for digits anywhere in an error: it succeeds exactly when the code of
  the loan reads has a 5 in it and the code of the collateral read has a 6 and no 1. The codes 5 and 6 it
  means pass, but 15 (too many oracles) passes for 5, and 16 (no such oracle) is reported as a contract that
  is not initialized.\<close>

theorem deployment_check_reads_digits:
  assumes "answers_errors env a b"
  shows "snd (verify_main env) = 0 \<longleftrightarrow>
    CHR ''5'' \<in> set (string_of_nat a) \<and> CHR ''6'' \<in> set (string_of_nat b) \<and> CHR ''1'' \<notin> set (string_of_nat b)"
proof -
  have d: "is_digit CHR ''1''" "is_digit CHR ''5''" "is_digit CHR ''6''" by code_simp+
  note digit = host_error_digits [OF d(1)] host_error_digits [OF d(2)] host_error_digits [OF d(3)]
  show ?thesis
    using assms by (auto simp: answers_errors_def verify_main_def checkConfig_def checkRpcConnectivity_def checkContractResponds_def
        checkHealthFactor_def checkInitializedState_def Let_def host_error_names str_includes_char digit)
qed

definition sample_deploy :: "nat \<Rightarrow> nat \<Rightarrow> deploy_env" where
  "sample_deploy a b =
     \<lparr>dv_RPC_URL = None, dv_CONTRACT_ID = Some ''CA'', dv_ADMIN_ADDRESS = Some ''GA'', dv_NEXT_PUBLIC_NETWORK = None,
      dv_server = (\<lambda>_. Inr ()), dv_getHealth = Inr ''healthy'', dv_getAccount = Inr, dv_build = (\<lambda>_ _ _ m _. Inr m),
      dv_simulate = (\<lambda>tx. Inr (Some (host_error (if tx = ''get_collateral'' then b else a))))\<rparr>"

lemma sample_deploy_answers: "answers_errors (sample_deploy a b) a b"
  by (simp add: answers_errors_def sample_deploy_def deploy_CONTRACT_ID_def deploy_ADMIN_ADDRESS_def simulateRead_def truthy_str_def)

theorem deployment_check_reads_digits_witness:
  "snd (verify_main (sample_deploy 15 6)) = 0 \<and> snd (verify_main (sample_deploy 5 16)) \<noteq> 0 \<and> snd (verify_main (sample_deploy 7 6)) \<noteq> 0"
proof -
  have "string_of_nat 15 = ''15''" "string_of_nat 6 = ''6''" "string_of_nat 5 = ''5''" "string_of_nat 16 = ''16''" "string_of_nat 7 = ''7''"
    by code_simp+
  then show ?thesis
    using deployment_check_reads_digits [OF sample_deploy_answers [of 15 6]] deployment_check_reads_digits [OF sample_deploy_answers [of 5 16]]
      deployment_check_reads_digits [OF sample_deploy_answers [of 7 6]] by simp
qed

text \<open>The account the reads are of is one character short of a Stellar key: where the server refuses such an account
  with a text that has no 5 in it, the check fails on every deployment.\<close>

lemma deployment_check_never_succeeds:
  assumes "\<And>a. length a \<noteq> 56 \<Longrightarrow> dv_getAccount env a = Inl (JsError ''Error'' msg)"
    and "CHR ''5'' \<notin> set msg" "CHR ''N'' \<notin> set msg"
  shows "snd (verify_main env) = 1"
proof -
  have "dv_getAccount env (DEPLOY_READ_ACCOUNT env) = Inl (JsError ''Error'' msg)"
    by (rule assms(1)) (simp add: DEPLOY_READ_ACCOUNT_def)
  then have "simulateRead env m n = Inl (JsError ''Error'' msg)" for m n by (simp add: simulateRead_def)
  moreover have "\<not> str_includes msg ''LoanNotFound''" using str_includes_set [of msg _ "CHR ''N''"] assms(3) by fastforce
  ultimately have "checkContractResponds env = [CheckFail ''Contract responds'' (Some msg)]"
    using assms(2) by (simp add: checkContractResponds_def str_includes_char)
  then show ?thesis by (simp add: verify_main_def Let_def split: sum.split)
qed

end
