(* ===== verification/Spec2Isabelle.thy ===== *)
theory Spec2Isabelle
  imports Pledge_Safety Collateral_Api Loan_State_Machine Interest_Rate Auth Event_Listener V1_Routes Ledger_Spec App_Ledger
    Search_State Dash_View Data_Hooks Charts Page_Flow Widgets Deploy_Check
begin

text \<open>
  \<^bold>\<open>StellarKraal\<close> lends against livestock. A borrower registers animals as collateral, has them appraised and
  asks for a loan of at most a share of their value; a background job follows the health of the loans, and a
  loan below the threshold may be liquidated. Three programs do this: Soroban contracts in Rust on the Stellar
  chain, an Express backend in TypeScript (backend/src) that keeps loans and collateral in memory, prepares the
  contract transactions a wallet signs and follows the events of the contract, and a Next.js frontend
  (frontend/src). This development is about the two TypeScript programs.

  \<^bold>\<open>How the parts work together.\<close> A request reaches the application of index.ts: gates (limiter, shutdown, JSON web
  tokens or API keys, the memory of duplicate POSTs), then a route. A route reads and writes the in-memory store
  (db/store.ts), builds a contract transaction through the RPC server (services/contractTx.ts, behind a connection
  pool and circuit breakers), and tells webhooks. Beside the requests run the health factor job, the reminder job
  and the listener of contract events, on the same store. The frontend's forms post to these routes, let the
  wallet extension sign what comes back, and submit it to the chain.

  \<^bold>\<open>The theories.\<close> Files below are under backend/src unless said otherwise.

  \<^item> Shared: \<open>Js_Number\<close> (numbers of JavaScript as rationals that every operation rounds to 53 bits), \<open>Js_Num\<close>
    (the same with NaN and the infinities, for the frontend), \<open>Js_String\<close> (string functions, parsing and writing of
    numbers), \<open>Encodings\<close> (hex and base64url), \<open>Prelude\<close> (\<open>Map\<close> as an association list in insertion order, JSON,
    requests, responses and errors, the collections of hints), \<open>Interfaces\<close> (the locales of softly deleted tables, listings in pages,
    caches with a life time, cooldown gates, each interpreted on the components that provide it).
  \<^item> Data: \<open>Store\<close> (db/store.ts: the four tables, every operation, the invariant \<open>store_wf\<close>), \<open>Loan_State_Machine\<close>
    (loanStateMachine.ts), \<open>Interest_Rate\<close> (interestRate.ts).
  \<^item> Services: \<open>Contract_Tx\<close> (services/contractTx.ts, utils/sorobanErrors.ts), \<open>Connection_Pool\<close> (utils/connectionPool.ts,
    utils/rpcClient.ts), \<open>Caches\<close> (the two caches of utils, idempotency and deduplication middleware), \<open>Webhooks\<close>
    (webhooks.ts), \<open>Alerting\<close> (utils/alerting.ts, alertRules.ts), \<open>Loan_Service\<close> (services), \<open>Health_Job\<close> (jobs),
    \<open>Event_Listener\<close> (contractEventListener.ts), \<open>Config\<close> (config.ts, db/database.ts, migrations).
  \<^item> Routes: \<open>Schemas\<close> (the zod schemas as parsers of JSON), \<open>Api_State\<close> (what the handlers share), \<open>Loan_Api\<close> and
    \<open>Collateral_Api\<close> (every handler of index.ts), \<open>V1_Routes\<close> (routes/v1.ts, routes/v2.ts), \<open>Auth\<close> (middleware/auth.ts,
    apiKey.ts), \<open>Middleware\<close> (the other middleware), \<open>Server\<close> (routes/health.ts, shutdown and redirect of index.ts).
  \<^item> The backend as a whole: \<open>App\<close> (index.ts from the request to the answer), \<open>App_Safety\<close> (what every request keeps),
    \<open>App_Flow\<close> (what the order of the gates gives), \<open>Pledge_Safety\<close> (loan creations that overlap with everything else),
    \<open>Ledger_Spec\<close> (an abstract ledger and the refinement of the routes and jobs to it), \<open>App_Ledger\<close> (the refinement of the
    whole application, and what holds of every run because it holds of the ledger).
  \<^item> Frontend (frontend/src): \<open>Wallet_Client\<close> (lib and the wallet hooks), \<open>Contract_Flow\<close> (the forms that submit
    transactions), \<open>Loan_Wizard\<close> (context/LoanWizardContext.tsx, components/wizard), \<open>Views\<close> (markup as a tree), \<open>Wizard_View\<close> (what
    the pages of the wizard offer, and the confirmation with its timers), \<open>Page_View\<close> (the profile and the pages of collateral),
    \<open>Form_View\<close> (the forms, dialogs, filter bar and lists, and the registration as a machine), \<open>Chart_View\<close> (charts, summaries,
    calculator, transactions, onboarding), \<open>Dash_View\<close> (navigation and dashboard), \<open>Search_State\<close> (useSearchFilter.ts,
    usePagination.ts), \<open>Ui_State\<close> (toasts, admin slices, drafts, whitelist), \<open>Data_Hooks\<close> (hooks and pages that fetch),
    \<open>Charts\<close> (what charts and counters compute), \<open>Widgets\<close> (theme, shortcuts, glossary, questions, navigation, page buttons,
    filter chips, form fields), \<open>Page_Flow\<close> (the page of a collateral and the GET requests no route serves, through \<open>App\<close>).
  \<^item> Scripts: \<open>Deploy_Check\<close> (scripts/verify-deployment.ts, backend/scripts/generate-alert-rules.ts).

  \<^bold>\<open>State and operations.\<close> Module variables of the code are fields of records: \<open>store\<close> the tables, \<open>api_state\<close> what the
  handlers share, \<open>app_state\<close> the process. A handler is a function of its surroundings, the clock, the request and the
  state; it gives a response or the error it throws, and the next state. An asynchronous handler that reads
  state before an await and writes after it is cut there (\<open>loan_create_enter\<close>, \<open>loan_create_exit\<close>; the liquidation, the
  repayment, the health job), and \<open>Pledge_Safety\<close> and \<open>Health_Job\<close> let other operations run between. Names the code
  uses without binding them throw ReferenceErrors, and the model throws them as well.

  \<^bold>\<open>What the lemmas show.\<close> That no schedule of requests and jobs puts two open loans on one collateral, except by
  restoring a deleted loan (\<open>Pledge_Safety\<close> for overlapping, \<open>App_Flow\<close> for whole requests through all gates); that every
  run of routes and jobs is a run of the abstract ledger (\<open>Ledger_Spec\<close>); that the store stays well formed and deletion and
  restoration are inverse; that every request does at most the one act on the ledger its route is meant for, so that open
  loans stay secured and no request closes one (\<open>App_Ledger\<close>); that changes need credentials, tokens expire, challenges and refresh tokens count once; the
  outcome of every branch of loan creation, repayment, liquidation and deletion; the exact formulas of interest, preview
  and health factor with the bounds within which rounding does not show; that retries, deliveries, polls and the
  shutdown end and how; in the frontend the limits of the wizard, what a submission answers, that the URL follows the
  filters, that the profile shows what the backend holds, that the registration never
  has two requests under way, that the page buttons show the whole list, that the tooltip of a chart tells of the marked point,
  what the dashboard shows when lookups fail or overlap, and how forms and pages meet the backend's routes. Where the code does not do what it says, the lemma
  states what it does, and the findings name it.

  \<^bold>\<open>Bounds.\<close> Loops are structural recursions or have their bound from the code: at most five deliveries of a webhook,
  three tries of an RPC call, twenty reads after the first of a submitted transaction, six levels of redaction, looks at
  the pool until the timeout of the shutdown. No other fuel is used. Exactness of numbers is claimed below 2^53 (2^51 or
  2^49 where intermediate results are larger).

  \<^bold>\<open>Parameters.\<close> Code that is not in the repository is an argument of the definitions: cryptography (SHA-256, HMAC, AES,
  Ed25519), random values and UUIDs, JSON text, dates as text, \<open>Math.pow\<close>, the Stellar SDK and RPC server, fetch, the wallet
  extension, the database shell and disk, zod's issue texts, Express's matching of paths, cors, static files and
  multer. Hypotheses on them state documented behaviour and are met by concrete functions in the witnesses.

  \<^bold>\<open>Simplifications.\<close> Numbers have an unbounded exponent and one zero; strings are byte strings. In \<open>App\<close> the limiters are
  inputs, requests finish before the next one and before timers fire; React state updates are applied in the order made.

  \<^bold>\<open>Not modelled.\<close> The Rust contracts (another language); logging and metrics (output only); thin wrappers of packages;
  styles, class names and animations, and the pages and components that have nothing but markup and texts; tests, stories, mocks,
  configuration of tools. StepCollateral.tsx does not parse at this commit: only what the first step of the wizard may do through
  its context is modelled.
\<close>

end
